(* ===== verification/Prelude.thy ===== *)
theory Prelude
  imports Complex_Main "HOL-Library.Word" "HOL-Library.AList" "HOL-Library.Char_ord"
    "HOL-Library.List_Lexorder" "HOL-Library.Sublist"
begin

text \<open>
  Shared vocabulary of the development: Rust's \<open>Result\<close> as a sum type, error messages as
  fragment lists, the parts of Rust's \<open>str\<close>, \<open>i64\<close> and \<open>Vec\<close> interfaces that the crates
  call, JSON values as \<open>serde_json\<close> presents them, and the generic lemmas on them that the
  component theories use.

  A Rust string is modelled by its UTF-8 bytes: HOL's \<open>string\<close> is a list of 8-bit characters,
  so \<open>length\<close> is Rust's \<open>len\<close> and the ASCII operations work byte by byte. White space is
  Unicode's \<open>White_Space\<close>, of which some characters take two or three bytes.
\<close>

named_theorems result_iff \<open>characterisations of when a checked computation succeeds\<close>
named_theorems str_simps \<open>evaluation rules for the string operations\<close>

section \<open>Results and messages\<close>

type_synonym ('e, 'a) result = "'e + 'a"

abbreviation Err :: "'e \<Rightarrow> ('e, 'a) result" where "Err \<equiv> Inl"
abbreviation Ok :: "'a \<Rightarrow> ('e, 'a) result" where "Ok \<equiv> Inr"

text \<open>The \<open>?\<close> operator: stop at the first error, otherwise go on with the value.\<close>

definition and_then :: "('e, 'a) result \<Rightarrow> ('a \<Rightarrow> ('e, 'b) result) \<Rightarrow> ('e, 'b) result" where
  "and_then r f = (case r of Inl e \<Rightarrow> Inl e | Inr x \<Rightarrow> f x)"

definition map_err :: "('e \<Rightarrow> 'f) \<Rightarrow> ('e, 'a) result \<Rightarrow> ('f, 'a) result" where
  "map_err f r = (case r of Inl e \<Rightarrow> Inl (f e) | Inr x \<Rightarrow> Inr x)"

definition map_ok :: "('a \<Rightarrow> 'b) \<Rightarrow> ('e, 'a) result \<Rightarrow> ('e, 'b) result" where
  "map_ok f r = (case r of Inl e \<Rightarrow> Inl e | Inr x \<Rightarrow> Inr (f x))"

definition ok_or :: "'a option \<Rightarrow> 'e \<Rightarrow> ('e, 'a) result" where
  "ok_or v e = (case v of None \<Rightarrow> Inl e | Some x \<Rightarrow> Inr x)"

definition is_ok :: "('e, 'a) result \<Rightarrow> bool" where
  "is_ok r = (case r of Inl _ \<Rightarrow> False | Inr _ \<Rightarrow> True)"

text \<open>\<open>Option::transpose\<close> after a fallible \<open>map\<close>.\<close>

definition map_transpose :: "('a \<Rightarrow> ('e, 'b) result) \<Rightarrow> 'a option \<Rightarrow> ('e, 'b option) result" where
  "map_transpose f v = (case v of None \<Rightarrow> Inr None | Some x \<Rightarrow> map_ok Some (f x))"

text \<open>A fallible loop over a list that collects its results.\<close>

primrec collect_results :: "('a \<Rightarrow> ('e, 'b) result) \<Rightarrow> 'a list \<Rightarrow> ('e, 'b list) result" where
  "collect_results f [] = Inr []"
| "collect_results f (x # xs) = and_then (f x) (\<lambda>y. map_ok (Cons y) (collect_results f xs))"

text \<open>
  Messages are kept as fragments: literal text and values shown with \<open>Display\<close> are \<open>Lit\<close>,
  values shown with the quoting \<open>Debug\<close> format are \<open>Dbg\<close>, and \<open>Ext\<close> stands for the text of an
  error that a library returned.
\<close>

datatype frag = Lit string | Dbg string | Ext
type_synonym msg = "frag list"

abbreviation lit :: "string \<Rightarrow> msg" where "lit s \<equiv> [Lit s]"

text \<open>The text of an error that prints its kind before the message.\<close>

definition error_text :: "string \<Rightarrow> msg \<Rightarrow> msg" where
  "error_text code m = Lit (code @ '': '') # m"

section \<open>Byte strings\<close>

definition ws1 :: "char \<Rightarrow> bool" where
  "ws1 a \<longleftrightarrow> a \<in> {CHR 0x09, CHR 0x0A, CHR 0x0B, CHR 0x0C, CHR 0x0D, CHR 0x20}"

definition ws2 :: "char \<Rightarrow> char \<Rightarrow> bool" where
  "ws2 a b \<longleftrightarrow> a = CHR 0xC2 \<and> b \<in> {CHR 0x85, CHR 0xA0}"

definition ws3 :: "char \<Rightarrow> char \<Rightarrow> char \<Rightarrow> bool" where
  "ws3 a b c \<longleftrightarrow>
     a = CHR 0xE1 \<and> b = CHR 0x9A \<and> c = CHR 0x80
   \<or> a = CHR 0xE2 \<and> b = CHR 0x80 \<and>
       c \<in> {CHR 0x80, CHR 0x81, CHR 0x82, CHR 0x83, CHR 0x84, CHR 0x85, CHR 0x86, CHR 0x87,
            CHR 0x88, CHR 0x89, CHR 0x8A, CHR 0xA8, CHR 0xA9, CHR 0xAF}
   \<or> a = CHR 0xE2 \<and> b = CHR 0x81 \<and> c = CHR 0x9F
   \<or> a = CHR 0xE3 \<and> b = CHR 0x80 \<and> c = CHR 0x80"

text \<open>The number of bytes of the white-space character a string starts with, 0 for none.\<close>

fun ws_len :: "string \<Rightarrow> nat" where
  "ws_len [] = 0"
| "ws_len [a] = (if ws1 a then 1 else 0)"
| "ws_len [a, b] = (if ws1 a then 1 else if ws2 a b then 2 else 0)"
| "ws_len (a # b # c # s) =
     (if ws1 a then 1 else if ws2 a b then 2 else if ws3 a b c then 3 else 0)"

text \<open>The same for the character a string ends with; the argument is the reversed string.\<close>

fun ws_len_rev :: "string \<Rightarrow> nat" where
  "ws_len_rev [] = 0"
| "ws_len_rev [c] = (if ws1 c then 1 else 0)"
| "ws_len_rev [c, b] = (if ws1 c then 1 else if ws2 b c then 2 else 0)"
| "ws_len_rev (c # b # a # s) =
     (if ws1 c then 1 else if ws2 b c then 2 else if ws3 a b c then 3 else 0)"

function trim_start :: "string \<Rightarrow> string" where
  "trim_start s = (if ws_len s = 0 then s else trim_start (drop (ws_len s) s))"
  by pat_completeness auto
termination
proof (relation "measure length", simp)
  fix s :: string
  assume "ws_len s \<noteq> 0"
  then have "s \<noteq> []" by auto
  with \<open>ws_len s \<noteq> 0\<close> show "(drop (ws_len s) s, s) \<in> measure length" by simp
qed

function trim_start_rev :: "string \<Rightarrow> string" where
  "trim_start_rev s = (if ws_len_rev s = 0 then s else trim_start_rev (drop (ws_len_rev s) s))"
  by pat_completeness auto
termination
proof (relation "measure length", simp)
  fix s :: string
  assume "ws_len_rev s \<noteq> 0"
  then have "s \<noteq> []" by auto
  with \<open>ws_len_rev s \<noteq> 0\<close> show "(drop (ws_len_rev s) s, s) \<in> measure length" by simp
qed

declare trim_start.simps [simp del] trim_start_rev.simps [simp del]

definition trim_end :: "string \<Rightarrow> string" where
  "trim_end s = rev (trim_start_rev (rev s))"

definition trim :: "string \<Rightarrow> string" where
  "trim s = trim_end (trim_start s)"

text \<open>\<open>chars().any(char::is_whitespace)\<close>, negated: no white-space character starts anywhere.\<close>

primrec no_ws :: "string \<Rightarrow> bool" where
  "no_ws [] \<longleftrightarrow> True"
| "no_ws (a # s) \<longleftrightarrow> ws_len (a # s) = 0 \<and> no_ws s"

text \<open>The longest prefix without white space, and the rest.\<close>

primrec take_word :: "string \<Rightarrow> string \<times> string" where
  "take_word [] = ([], [])"
| "take_word (a # s) =
     (if ws_len (a # s) \<noteq> 0 then ([], a # s) else (a # fst (take_word s), snd (take_word s)))"

lemma length_trim_start: "length (trim_start s) \<le> length s"
  by (induction s rule: trim_start.induct) (subst trim_start.simps, auto)

lemma ws_len_trim_start [simp]: "ws_len (trim_start s) = 0"
  by (induction s rule: trim_start.induct) (subst trim_start.simps, auto)

lemma length_take_word: "length (snd (take_word s)) \<le> length s"
  by (induction s) auto

lemma take_word_progress:
  assumes "s \<noteq> []" "ws_len s = 0"
  shows "length (snd (take_word s)) < length s"
  using assms length_take_word by (cases s) (auto simp: le_imp_less_Suc)

function split_whitespace :: "string \<Rightarrow> string list" where
  "split_whitespace s =
     (if trim_start s = [] then []
      else fst (take_word (trim_start s)) # split_whitespace (snd (take_word (trim_start s))))"
  by pat_completeness auto
termination
proof (relation "measure length", simp)
  fix s :: string
  assume "trim_start s \<noteq> []"
  then have "length (snd (take_word (trim_start s))) < length (trim_start s)"
    by (rule take_word_progress) simp
  with length_trim_start [of s] show "(snd (take_word (trim_start s)), s) \<in> measure length" by simp
qed

declare split_whitespace.simps [simp del]

text \<open>\<open>slice::join\<close> with a separator.\<close>

fun join_with :: "string \<Rightarrow> string list \<Rightarrow> string" where
  "join_with sep [] = []"
| "join_with sep [x] = x"
| "join_with sep (x # y # ys) = x @ sep @ join_with sep (y # ys)"

text \<open>\<open>str::split\<close> at a one-byte character; the result is never empty.\<close>

primrec split_on :: "char \<Rightarrow> string \<Rightarrow> string list" where
  "split_on c [] = [[]]"
| "split_on c (a # s) =
     (if a = c then [] # split_on c s
      else (a # hd (split_on c s)) # tl (split_on c s))"

definition starts_with :: "string \<Rightarrow> string \<Rightarrow> bool" where
  "starts_with s p \<longleftrightarrow> take (length p) s = p"

definition strip_prefix :: "string \<Rightarrow> string \<Rightarrow> string option" where
  "strip_prefix s p = (if starts_with s p then Some (drop (length p) s) else None)"

primrec str_contains :: "string \<Rightarrow> string \<Rightarrow> bool" where
  "str_contains [] p \<longleftrightarrow> p = []"
| "str_contains (a # s) p \<longleftrightarrow> starts_with (a # s) p \<or> str_contains s p"

definition trim_end_matches :: "char \<Rightarrow> string \<Rightarrow> string" where
  "trim_end_matches c s = rev (dropWhile (\<lambda>x. x = c) (rev s))"

definition trim_matches :: "char \<Rightarrow> string \<Rightarrow> string" where
  "trim_matches c s = trim_end_matches c (dropWhile (\<lambda>x. x = c) s)"

definition ascii_lower :: "char \<Rightarrow> char" where
  "ascii_lower c =
     (if (65::nat) \<le> of_char c \<and> (of_char c :: nat) \<le> 90 then char_of (of_char c + 32 :: nat) else c)"

definition to_ascii_lowercase :: "string \<Rightarrow> string" where
  "to_ascii_lowercase s = map ascii_lower s"

definition eq_ignore_ascii_case :: "string \<Rightarrow> string \<Rightarrow> bool" where
  "eq_ignore_ascii_case a b \<longleftrightarrow> to_ascii_lowercase a = to_ascii_lowercase b"

text \<open>\<open>filter(|value| !value.is_empty())\<close> on an optional string.\<close>

definition non_empty :: "string option \<Rightarrow> string option" where
  "non_empty v = (case v of None \<Rightarrow> None | Some s \<Rightarrow> if s = [] then None else Some s)"

section \<open>Lemmas on results\<close>

lemma and_then_simps [simp]:
  "and_then (Inl e) f = Inl e"
  "and_then (Inr x) f = f x"
  by (simp_all add: and_then_def)

lemma map_err_simps [simp]:
  "map_err g (Inl e) = Inl (g e)"
  "map_err g (Inr x) = Inr x"
  by (simp_all add: map_err_def)

lemma map_ok_simps [simp]:
  "map_ok h (Inl e) = Inl e"
  "map_ok h (Inr x) = Inr (h x)"
  by (simp_all add: map_ok_def)

lemma ok_or_simps [simp]:
  "ok_or None e = Inl e"
  "ok_or (Some x) e = Inr x"
  by (simp_all add: ok_or_def)

lemma is_ok_simps [simp]:
  "is_ok (Inl e) = False"
  "is_ok (Inr x) = True"
  by (simp_all add: is_ok_def)

lemma is_ok_iff: "is_ok r \<longleftrightarrow> (\<exists>x. r = Inr x)"
  by (cases r) auto

lemma map_transpose_simps [simp]:
  "map_transpose f None = Inr None"
  "map_transpose f (Some x) = map_ok Some (f x)"
  by (simp_all add: map_transpose_def)

lemma and_then_ok [result_iff]: "and_then r f = Inr y \<longleftrightarrow> (\<exists>x. r = Inr x \<and> f x = Inr y)"
  by (cases r) auto

lemma map_err_ok [result_iff]: "map_err g r = Inr y \<longleftrightarrow> r = Inr y"
  by (cases r) auto

lemma map_ok_ok [result_iff]: "map_ok h r = Inr y \<longleftrightarrow> (\<exists>x. r = Inr x \<and> y = h x)"
  by (cases r) auto

lemma ok_or_ok [result_iff]: "ok_or v e = Inr y \<longleftrightarrow> v = Some y"
  by (cases v) auto

lemma if_err_ok [result_iff]: "(if b then Inl e else r) = Inr y \<longleftrightarrow> \<not> b \<and> r = Inr y"
  by simp

lemma map_transpose_ok [result_iff]:
  "map_transpose f v = Inr y \<longleftrightarrow>
     (v = None \<and> y = None) \<or> (\<exists>x z. v = Some x \<and> f x = Inr z \<and> y = Some z)"
  by (cases v) (auto simp: map_ok_ok)

lemma if_error_ok: "(if c then Err e else r) = Ok y \<longleftrightarrow> \<not> c \<and> r = Ok y"
  by simp

lemma and_then_err:
  "and_then r f = Inl e \<longleftrightarrow> r = Inl e \<or> (\<exists>x. r = Inr x \<and> f x = Inl e)"
  by (cases r) auto

lemma collect_results_ok:
  "collect_results f xs = Inr ys \<Longrightarrow> list_all2 (\<lambda>x y. f x = Inr y) xs ys"
  by (induction xs arbitrary: ys) (auto simp: result_iff)

lemma collect_results_total:
  "(\<And>x. x \<in> set xs \<Longrightarrow> \<exists>y. f x = Inr y) \<Longrightarrow> \<exists>ys. collect_results f xs = Inr ys"
  by (induction xs) fastforce+

lemma non_empty_Some [simp]: "non_empty v = Some s \<longleftrightarrow> v = Some s \<and> s \<noteq> []"
  by (auto simp: non_empty_def split: option.splits)

lemma non_empty_None: "non_empty v = None \<longleftrightarrow> v = None \<or> v = Some []"
  by (auto simp: non_empty_def split: option.splits)

section \<open>Lemmas on white space\<close>

lemma ws_len_Cons:
  "ws_len (a # s) =
     (if ws1 a then 1
      else case s of [] \<Rightarrow> 0
        | b # t \<Rightarrow> if ws2 a b then 2 else (case t of [] \<Rightarrow> 0 | c # _ \<Rightarrow> if ws3 a b c then 3 else 0))"
  by (cases s; cases "tl s") auto

text \<open>A space ends every white-space match: no multi-byte character holds byte \<open>0x20\<close>.\<close>

lemma ws2_no_space: "\<not> ws2 a CHR 0x20"
  by (simp add: ws2_def)

lemma ws3_no_space: "\<not> ws3 a CHR 0x20 c" "\<not> ws3 a b CHR 0x20"
  by (simp_all add: ws3_def)

lemma ws1_space: "ws1 CHR 0x20"
  by (simp add: ws1_def)

lemma ws_len_space [simp]: "ws_len (CHR 0x20 # s) = 1"
  by (simp add: ws_len_Cons ws1_space)

lemma ws_len_prefix: "ws_len (s @ t) = 0 \<Longrightarrow> ws_len s = 0"
  by (cases s; cases "tl s"; cases "tl (tl s)")
     (auto simp: ws_len_Cons split: if_splits list.splits)

lemma ws_len_append_space: "s \<noteq> [] \<Longrightarrow> ws_len s = 0 \<Longrightarrow> ws_len (s @ CHR 0x20 # t) = 0"
  by (cases s; cases "tl s"; cases "tl (tl s)")
     (auto simp: ws_len_Cons ws2_no_space ws3_no_space split: if_splits list.splits)

lemma no_ws_prefix: "no_ws (s @ t) \<Longrightarrow> no_ws s"
proof (induction s)
  case (Cons a s)
  then show ?case using ws_len_prefix [of "a # s" t] by simp
qed simp

lemma trim_start_id: "ws_len s = 0 \<Longrightarrow> trim_start s = s"
  by (subst trim_start.simps) simp

lemma trim_start_Nil [simp]: "trim_start [] = []"
  by (simp add: trim_start_id)

lemma trim_start_idem [simp]: "trim_start (trim_start s) = trim_start s"
  by (simp add: trim_start_id)

lemma trim_start_space [simp]: "trim_start (CHR 0x20 # s) = trim_start s"
  by (subst trim_start.simps) simp

lemma trim_start_suffix: "suffix (trim_start s) s"
proof (induction s rule: trim_start.induct)
  case (1 s)
  show ?case
  proof (cases "ws_len s = 0")
    case False
    with 1 have "suffix (trim_start (drop (ws_len s) s)) (drop (ws_len s) s)" by simp
    then have "suffix (trim_start (drop (ws_len s) s)) s"
      using suffix_drop suffix_order.trans by blast
    with False show ?thesis by (subst trim_start.simps) simp
  qed (simp add: trim_start_id)
qed

lemma trim_start_rev_suffix: "suffix (trim_start_rev s) s"
proof (induction s rule: trim_start_rev.induct)
  case (1 s)
  show ?case
  proof (cases "ws_len_rev s = 0")
    case True
    then show ?thesis by (subst trim_start_rev.simps) simp
  next
    case False
    with 1 have "suffix (trim_start_rev (drop (ws_len_rev s) s)) (drop (ws_len_rev s) s)" by simp
    then have "suffix (trim_start_rev (drop (ws_len_rev s) s)) s"
      using suffix_drop suffix_order.trans by blast
    with False show ?thesis by (subst trim_start_rev.simps) simp
  qed
qed

lemma ws_len_rev_trim_start_rev [simp]: "ws_len_rev (trim_start_rev s) = 0"
  by (induction s rule: trim_start_rev.induct) (subst trim_start_rev.simps, auto)

lemma trim_start_rev_id: "ws_len_rev s = 0 \<Longrightarrow> trim_start_rev s = s"
  by (subst trim_start_rev.simps) simp

lemma trim_end_prefix: "prefix (trim_end s) s"
  using trim_start_rev_suffix [of "rev s"] by (simp add: trim_end_def suffix_to_prefix)

lemma trim_end_idem [simp]: "trim_end (trim_end s) = trim_end s"
  by (simp add: trim_end_def trim_start_rev_id)

lemma trim_Nil [simp]: "trim [] = []"
  by (simp add: trim_def trim_end_def trim_start_rev_id)

lemma ws_len_trim [simp]: "ws_len (trim s) = 0"
proof -
  obtain t where "trim_start s = trim s @ t"
    using trim_end_prefix [of "trim_start s"] by (auto simp: trim_def prefix_def)
  then show ?thesis using ws_len_prefix [of "trim s" t] ws_len_trim_start [of s] by simp
qed

lemma trim_idem [simp]: "trim (trim s) = trim s"
proof -
  have "trim (trim s) = trim_end (trim s)" by (simp add: trim_def [of "trim s"] trim_start_id)
  then show ?thesis by (simp add: trim_def)
qed

lemma length_trim: "length (trim s) \<le> length s"
  using prefix_length_le [OF trim_end_prefix, of "trim_start s"] length_trim_start [of s]
  by (simp add: trim_def)

lemma ws_len_rev_all: "ws_len_rev r \<noteq> 0 \<Longrightarrow> length r \<le> ws_len_rev r \<Longrightarrow> ws_len (rev r) \<noteq> 0"
  by (induction r rule: ws_len_rev.induct) (auto simp: ws_len_Cons split: if_splits)

lemma trim_start_rev_empty: "trim_start_rev r = [] \<Longrightarrow> r \<noteq> [] \<Longrightarrow> ws_len (rev r) \<noteq> 0"
proof (induction r rule: trim_start_rev.induct)
  case (1 r)
  have k: "ws_len_rev r \<noteq> 0"
    using 1 trim_start_rev_id by metis
  show ?case
  proof (cases "drop (ws_len_rev r) r = []")
    case True
    with k show ?thesis by (simp add: ws_len_rev_all)
  next
    case False
    from "1.prems" k have "trim_start_rev (drop (ws_len_rev r) r) = []"
      by (subst (asm) trim_start_rev.simps) simp
    with "1.IH" k False have "ws_len (rev (drop (ws_len_rev r) r)) \<noteq> 0" by blast
    moreover have "rev r = rev (drop (ws_len_rev r) r) @ rev (take (ws_len_rev r) r)"
      by (simp flip: rev_append)
    ultimately show ?thesis using ws_len_prefix by metis
  qed
qed

lemma trim_empty_iff: "trim s = [] \<longleftrightarrow> trim_start s = []"
proof
  assume "trim s = []"
  then have "trim_start_rev (rev (trim_start s)) = []" by (simp add: trim_def trim_end_def)
  then show "trim_start s = []"
    using trim_start_rev_empty [of "rev (trim_start s)"] by (cases "trim_start s = []") simp_all
qed (simp add: trim_def trim_end_def trim_start_rev_id)

section \<open>Splitting and joining\<close>

text \<open>A token: non-empty and free of white space, what \<open>split_whitespace\<close> yields.\<close>

definition is_token :: "string \<Rightarrow> bool" where
  "is_token w \<longleftrightarrow> w \<noteq> [] \<and> no_ws w"

lemma take_word_append: "fst (take_word s) @ snd (take_word s) = s"
  by (induction s) auto

lemma no_ws_take_word: "no_ws (fst (take_word s))"
proof (induction s)
  case (Cons a s)
  have "ws_len (a # s) = 0 \<Longrightarrow> ws_len (a # fst (take_word s)) = 0"
    using ws_len_prefix [of "a # fst (take_word s)" "snd (take_word s)"]
    by (simp add: take_word_append)
  with Cons show ?case by simp
qed simp

lemma take_word_nonempty: "s \<noteq> [] \<Longrightarrow> ws_len s = 0 \<Longrightarrow> fst (take_word s) \<noteq> []"
  by (cases s) auto

lemma split_whitespace_tokens: "w \<in> set (split_whitespace s) \<Longrightarrow> is_token w"
proof (induction s rule: split_whitespace.induct)
  case (1 s)
  from "1.prems" have "trim_start s \<noteq> []"
    by (subst (asm) split_whitespace.simps) (simp split: if_splits)
  with 1 show ?case
    by (subst (asm) (2) split_whitespace.simps)
       (auto simp: is_token_def no_ws_take_word take_word_nonempty)
qed

lemma no_ws_start: "no_ws w \<Longrightarrow> ws_len w = 0"
  by (cases w) auto

lemma take_word_token_space: "no_ws w \<Longrightarrow> take_word (w @ CHR 0x20 # s) = (w, CHR 0x20 # s)"
proof (induction w)
  case (Cons a w)
  have "ws_len (a # w @ CHR 0x20 # s) = 0"
    using ws_len_append_space [of "a # w" s] Cons.prems by simp
  with Cons show ?case by simp
qed simp

lemma take_word_token: "no_ws w \<Longrightarrow> take_word w = (w, [])"
  by (induction w) auto

lemma split_whitespace_Nil [simp]: "split_whitespace [] = []"
  by (subst split_whitespace.simps) simp

lemma split_whitespace_space [simp]: "split_whitespace (CHR 0x20 # s) = split_whitespace s"
  by (subst (1 2) split_whitespace.simps) simp

lemma split_whitespace_token: "is_token w \<Longrightarrow> split_whitespace w = [w]"
  by (subst split_whitespace.simps)
     (simp add: is_token_def trim_start_id no_ws_start take_word_token)

lemma split_whitespace_token_space:
  assumes "is_token w"
  shows "split_whitespace (w @ CHR 0x20 # s) = w # split_whitespace s"
proof -
  from assms have "ws_len (w @ CHR 0x20 # s) = 0"
    by (simp add: is_token_def no_ws_start ws_len_append_space)
  then have "trim_start (w @ CHR 0x20 # s) = w @ CHR 0x20 # s"
    by (rule trim_start_id)
  with assms show ?thesis
    by (subst split_whitespace.simps) (simp add: is_token_def take_word_token_space)
qed

text \<open>Joining tokens with a space and splitting at white space is a round trip.\<close>

lemma split_join_tokens:
  "(\<And>w. w \<in> set ws \<Longrightarrow> is_token w) \<Longrightarrow> split_whitespace (join_with '' '' ws) = ws"
  by (induction "'' ''" ws rule: join_with.induct)
     (simp_all add: split_whitespace_token split_whitespace_token_space)

lemma split_whitespace_empty_iff: "split_whitespace s = [] \<longleftrightarrow> trim s = []"
  by (subst split_whitespace.simps) (simp add: trim_empty_iff)

lemma trim_token: "is_token w \<Longrightarrow> trim w \<noteq> []"
  by (simp add: is_token_def trim_empty_iff trim_start_id no_ws_start)

lemma ws_len_rev_no_ws: "no_ws s \<Longrightarrow> ws_len_rev (rev s) = 0"
proof -
  assume nw: "no_ws s"
  have suf: "no_ws (u @ v) \<Longrightarrow> ws_len v = 0" for u v
    by (induction u) (auto intro: no_ws_start)
  show ?thesis
  proof (cases "rev s" rule: ws_len_rev.cases)
    case (2 c)
    then have "s = [c]" by (simp add: rev_swap)
    with nw 2 show ?thesis by (auto split: if_splits)
  next
    case (3 c b)
    then have "s = [b, c]" by (simp add: rev_swap)
    with nw 3 show ?thesis by (auto split: if_splits)
  next
    case (4 c b a r)
    then have s: "s = rev r @ [a, b, c]" by (simp add: rev_swap)
    from nw s have "ws_len [a, b, c] = 0" "ws_len [b, c] = 0" "ws_len [c] = 0"
      using suf [of "rev r" "[a, b, c]"] suf [of "rev r @ [a]" "[b, c]"]
        suf [of "rev r @ [a, b]" "[c]"] by auto
    with 4 show ?thesis by (auto split: if_splits)
  qed simp
qed

lemma trim_no_ws [simp]: "no_ws s \<Longrightarrow> trim s = s"
  by (simp add: trim_def trim_end_def trim_start_id no_ws_start trim_start_rev_id ws_len_rev_no_ws)

lemma split_on_nonempty [simp]: "split_on c s \<noteq> []"
  by (induction s) auto

lemma join_split_on: "join_with [c] (split_on c s) = s"
proof (induction s)
  case (Cons a s)
  obtain w ws where sp: "split_on c s = w # ws" by (cases "split_on c s") auto
  with Cons show ?case by (cases ws) auto
qed simp

lemma split_on_no_sep: "w \<in> set (split_on c s) \<Longrightarrow> c \<notin> set w"
proof (induction s arbitrary: w)
  case (Cons a s)
  obtain v vs where "split_on c s = v # vs" by (cases "split_on c s") auto
  with Cons show ?case by (auto split: if_splits)
qed simp

lemma split_on_single: "c \<notin> set w \<Longrightarrow> split_on c w = [w]"
  by (induction w) auto

lemma split_on_append: "c \<notin> set w \<Longrightarrow> split_on c (w @ c # s) = w # split_on c s"
  by (induction w) auto

lemma starts_with_prefix: "starts_with s p \<longleftrightarrow> prefix p s"
  by (auto simp: starts_with_def prefix_def) (metis append_take_drop_id)

lemma strip_prefix_Some: "strip_prefix s p = Some t \<longleftrightarrow> s = p @ t"
  by (auto simp: strip_prefix_def starts_with_prefix prefix_def)

lemma trim_end_matches_last: "trim_end_matches c s \<noteq> [] \<Longrightarrow> last (trim_end_matches c s) \<noteq> c"
  using hd_dropWhile [of "\<lambda>x. x = c" "rev s"]
  by (auto simp: trim_end_matches_def last_rev)

lemma trim_end_matches_idem [simp]:
  "trim_end_matches c (trim_end_matches c s) = trim_end_matches c s"
  by (simp add: trim_end_matches_def)

end
