(* ===== verification/Rust_Int.thy ===== *)
theory Rust_Int
  imports Prelude
begin

text \<open>
  Rust's fixed-width integers as the crates use them. An \<open>i64\<close> is an \<open>int\<close> kept in range:
  \<open>+\<close> and \<open>-\<close> wrap around, as a release build compiles them, \<open>saturating_add\<close> stops at the
  ends and \<open>abs_diff\<close> is exact. \<open>str::parse\<close> and \<open>Display\<close> for decimal integers are written
  out, and reading back what was written returns the number.
\<close>

section \<open>64-bit arithmetic\<close>

definition i64_min :: int where "i64_min = - (2 ^ 63)"
definition i64_max :: int where "i64_max = 2 ^ 63 - 1"
definition u64_max :: int where "u64_max = 2 ^ 64 - 1"

definition in_i64 :: "int \<Rightarrow> bool" where
  "in_i64 x \<longleftrightarrow> i64_min \<le> x \<and> x \<le> i64_max"

definition wrap_i64 :: "int \<Rightarrow> int" where
  "wrap_i64 x = (x + 2 ^ 63) mod 2 ^ 64 - 2 ^ 63"

definition i64_add :: "int \<Rightarrow> int \<Rightarrow> int" where
  "i64_add a b = wrap_i64 (a + b)"

definition i64_sub :: "int \<Rightarrow> int \<Rightarrow> int" where
  "i64_sub a b = wrap_i64 (a - b)"

definition saturating_add :: "int \<Rightarrow> int \<Rightarrow> int" where
  "saturating_add a b = max i64_min (min i64_max (a + b))"

definition abs_diff :: "int \<Rightarrow> int \<Rightarrow> int" where
  "abs_diff a b = \<bar>a - b\<bar>"

lemmas i64_bounds = in_i64_def i64_min_def i64_max_def

lemma wrap_i64_range: "in_i64 (wrap_i64 x)"
proof -
  have "0 \<le> (x + 2 ^ 63) mod 2 ^ 64" "(x + 2 ^ 63) mod 2 ^ 64 < 2 ^ 64" by simp_all
  then show ?thesis unfolding wrap_i64_def i64_bounds by simp
qed

lemma wrap_i64_id: "in_i64 x \<Longrightarrow> wrap_i64 x = x"
  by (simp add: wrap_i64_def i64_bounds)

lemma i64_add_exact: "in_i64 (a + b) \<Longrightarrow> i64_add a b = a + b"
  by (simp add: i64_add_def wrap_i64_id)

lemma i64_sub_exact: "in_i64 (a - b) \<Longrightarrow> i64_sub a b = a - b"
  by (simp add: i64_sub_def wrap_i64_id)

lemma i64_add_range: "in_i64 (i64_add a b)"
  by (simp add: i64_add_def wrap_i64_range)

lemma i64_sub_range: "in_i64 (i64_sub a b)"
  by (simp add: i64_sub_def wrap_i64_range)

lemma saturating_add_range: "in_i64 (saturating_add a b)"
  by (simp add: saturating_add_def i64_bounds)

lemma saturating_add_le: "a \<le> i64_max \<Longrightarrow> 0 \<le> b \<Longrightarrow> a \<le> saturating_add a b"
  by (simp add: saturating_add_def)

lemma saturating_add_mono: "x \<le> a + b \<Longrightarrow> x \<le> i64_max \<Longrightarrow> x \<le> saturating_add a b"
  by (simp add: saturating_add_def)

text \<open>An addition that overflows upwards lands below both operands.\<close>

lemma i64_add_overflow:
  assumes "in_i64 a" "in_i64 b" "i64_max < a + b"
  shows "i64_add a b = a + b - 2 ^ 64"
proof -
  have "(a + b + 2 ^ 63) mod 2 ^ 64 = a + b + 2 ^ 63 - 2 ^ 64"
    using assms by (intro int_mod_pos_eq [of _ _ 1]) (auto simp: i64_bounds)
  then show ?thesis by (simp add: i64_add_def wrap_i64_def)
qed

section \<open>Decimal text\<close>

definition digit_char :: "nat \<Rightarrow> char" where
  "digit_char d = char_of (48 + d)"

definition char_digit :: "char \<Rightarrow> nat option" where
  "char_digit c =
     (if (48::nat) \<le> of_char c \<and> (of_char c :: nat) \<le> 57 then Some (of_char c - 48) else None)"

fun display_nat :: "nat \<Rightarrow> string" where
  "display_nat n = (if n < 10 then [digit_char n] else display_nat (n div 10) @ [digit_char (n mod 10)])"

declare display_nat.simps [simp del]

definition display_i64 :: "int \<Rightarrow> string" where
  "display_i64 x = (if x < 0 then CHR ''-'' # display_nat (nat (- x)) else display_nat (nat x))"

primrec parse_digits :: "nat \<Rightarrow> string \<Rightarrow> nat option" where
  "parse_digits acc [] = Some acc"
| "parse_digits acc (c # s) =
     (case char_digit c of None \<Rightarrow> None | Some d \<Rightarrow> parse_digits (10 * acc + d) s)"

definition parse_nat :: "string \<Rightarrow> nat option" where
  "parse_nat s = (if s = [] then None else parse_digits 0 s)"

text \<open>\<open>parse::<i64>\<close>: an optional sign, at least one digit, in range.\<close>

definition parse_i64 :: "string \<Rightarrow> int option" where
  "parse_i64 s =
     (let signed = (case s of
            [] \<Rightarrow> None
          | c # t \<Rightarrow> (if c = CHR ''-'' then map_option (\<lambda>n. - int n) (parse_nat t)
                      else if c = CHR ''+'' then map_option int (parse_nat t)
                      else map_option int (parse_nat s)))
      in case signed of None \<Rightarrow> None | Some x \<Rightarrow> if in_i64 x then Some x else None)"

text \<open>\<open>parse::<usize>\<close>: an optional plus sign, at least one digit, in range.\<close>

definition parse_usize :: "string \<Rightarrow> nat option" where
  "parse_usize s =
     (let unsigned = (case s of [] \<Rightarrow> None
          | c # t \<Rightarrow> (if c = CHR ''+'' then parse_nat t else parse_nat s))
      in case unsigned of None \<Rightarrow> None | Some n \<Rightarrow> if int n \<le> u64_max then Some n else None)"

lemma char_digit_digit_char [simp]: "d < 10 \<Longrightarrow> char_digit (digit_char d) = Some d"
  by (simp add: char_digit_def digit_char_def)

lemma digit_char_neq:
  assumes "d < 10"
  shows "digit_char d \<noteq> CHR ''-''" "digit_char d \<noteq> CHR ''+''" "\<not> ws1 (digit_char d)"
proof -
  have "(of_char (digit_char d) :: nat) = 48 + d" using assms by (simp add: digit_char_def)
  moreover have "(of_char CHR ''-'' :: nat) = 45" "(of_char CHR ''+'' :: nat) = 43" by simp_all
  ultimately show "digit_char d \<noteq> CHR ''-''" "digit_char d \<noteq> CHR ''+''" by auto
  have "ws1 c \<Longrightarrow> (of_char c :: nat) < 48" for c by (auto simp: ws1_def)
  with \<open>of_char (digit_char d) = 48 + d\<close> show "\<not> ws1 (digit_char d)" by fastforce
qed

lemma display_nat_nonempty [simp]: "display_nat n \<noteq> []"
  by (subst display_nat.simps) simp

lemma parse_digits_append:
  "parse_digits acc (s @ t) = (case parse_digits acc s of None \<Rightarrow> None | Some k \<Rightarrow> parse_digits k t)"
  by (induction s arbitrary: acc) (auto split: option.splits)

lemma parse_digits_display: "parse_digits 0 (display_nat n) = Some n"
proof (induction n rule: display_nat.induct)
  case (1 n)
  show ?case
  proof (cases "n < 10")
    case True
    then show ?thesis by (subst display_nat.simps) simp
  next
    case False
    with 1 have "parse_digits 0 (display_nat (n div 10)) = Some (n div 10)" by simp
    with False show ?thesis by (subst display_nat.simps) (simp add: parse_digits_append)
  qed
qed

lemma display_nat_digits: "c \<in> set (display_nat n) \<Longrightarrow> \<exists>d < 10. c = digit_char d"
proof (induction n rule: display_nat.induct)
  case (1 n)
  show ?case
  proof (cases "n < 10")
    case True
    with "1.prems" show ?thesis by (subst (asm) display_nat.simps) auto
  next
    case False
    with "1.prems" have "c \<in> set (display_nat (n div 10)) \<or> c = digit_char (n mod 10)"
      by (subst (asm) display_nat.simps) auto
    with 1 False show ?thesis by (metis mod_less_divisor zero_less_numeral)
  qed
qed

lemma parse_i64_display: "in_i64 x \<Longrightarrow> parse_i64 (display_i64 x) = Some x"
proof (cases "x < 0")
  case True
  moreover assume "in_i64 x"
  ultimately show ?thesis
    by (simp add: display_i64_def parse_i64_def parse_nat_def parse_digits_display)
next
  case False
  assume r: "in_i64 x"
  obtain c t where ct: "display_nat (nat x) = c # t" by (cases "display_nat (nat x)") auto
  then obtain d where "d < 10" "c = digit_char d"
    using display_nat_digits [of c "nat x"] by auto
  then have "c \<noteq> CHR ''-''" "c \<noteq> CHR ''+''" by (simp_all add: digit_char_neq)
  moreover have "parse_nat (c # t) = Some (nat x)"
    using parse_digits_display [of "nat x"] ct by (simp add: parse_nat_def)
  ultimately show ?thesis
    using False r ct by (simp add: display_i64_def parse_i64_def)
qed

text \<open>Decimal text holds no white space, so trimming keeps it.\<close>

lemma no_ws_ascii:
  "(\<And>c. c \<in> set s \<Longrightarrow> \<not> ws1 c \<and> (of_char c :: nat) < 128) \<Longrightarrow> no_ws s"
proof (induction s)
  case (Cons a s)
  from Cons.prems [of a] have a: "\<not> ws1 a" "(of_char a :: nat) < 128" by simp_all
  then have "\<not> ws2 a b" "\<not> ws3 a b c" for b c
    by (auto simp: ws2_def ws3_def)
  with a(1) have "ws_len (a # s) = 0" by (auto simp: ws_len_Cons split: list.splits)
  with Cons show ?case by simp
qed simp

lemma display_i64_no_ws: "no_ws (display_i64 x)"
proof (rule no_ws_ascii)
  fix c assume "c \<in> set (display_i64 x)"
  then consider "c = CHR ''-''" | d where "d < 10" "c = digit_char d"
    using display_nat_digits by (auto simp: display_i64_def split: if_splits)
  then show "\<not> ws1 c \<and> (of_char c :: nat) < 128"
    by cases (simp add: ws1_def, simp add: digit_char_neq, simp add: digit_char_def)
qed

lemma trim_newline: "no_ws s \<Longrightarrow> trim (s @ [CHR 0x0A]) = s"
proof -
  assume nw: "no_ws s"
  show ?thesis
  proof (cases "s = []")
    case True
    then show ?thesis by (simp add: trim_def trim_end_def trim_start.simps [of "[CHR 0x0A]"]
          trim_start_rev_id ws1_def)
  next
    case False
    have "ws_len (s @ [CHR 0x0A]) = 0"
      using nw False by (cases s; cases "tl s"; cases "tl (tl s)")
        (auto simp: ws_len_Cons ws2_def ws3_def split: if_splits list.splits)
    then have "trim_start (s @ [CHR 0x0A]) = s @ [CHR 0x0A]" by (rule trim_start_id)
    moreover have "ws_len_rev (CHR 0x0A # r) = 1" for r
      by (cases r; cases "tl r") (simp_all add: ws1_def)
    then have "trim_start_rev (CHR 0x0A # rev s) = trim_start_rev (rev s)"
      by (subst trim_start_rev.simps) simp
    ultimately show ?thesis
      using nw by (simp add: trim_def trim_end_def ws_len_rev_no_ws trim_start_rev_id)
  qed
qed

section \<open>Hexadecimal\<close>

definition hex_digit :: "nat \<Rightarrow> char" where
  "hex_digit n = ''0123456789abcdef'' ! n"

definition hex_lower :: "string \<Rightarrow> string" where
  "hex_lower bytes = concat (map (\<lambda>b. [hex_digit (of_char b div 16), hex_digit (of_char b mod 16)]) bytes)"

definition hex_value :: "char \<Rightarrow> nat option" where
  "hex_value c = (let v = of_char c :: nat in
     if 48 \<le> v \<and> v \<le> 57 then Some (v - 48) else if 97 \<le> v \<and> v \<le> 102 then Some (v - 87) else None)"

text \<open>A decoder, to state that the encoding loses nothing.\<close>

fun hex_decode :: "string \<Rightarrow> string option" where
  "hex_decode [] = Some []"
| "hex_decode [c] = None"
| "hex_decode (h # l # s) =
     (case (hex_value h, hex_value l, hex_decode s) of
        (Some a, Some b, Some t) \<Rightarrow> Some (char_of (16 * a + b) # t)
      | _ \<Rightarrow> None)"

lemma hex_digit_cases: "n < 16 \<Longrightarrow> hex_value (hex_digit n) = Some n \<and> hex_digit n \<noteq> CHR ''.'' \<and> hex_digit n \<noteq> CHR '':''"
proof -
  have "list_all (\<lambda>n. hex_value (hex_digit n) = Some n \<and> hex_digit n \<noteq> CHR ''.'' \<and>
          hex_digit n \<noteq> CHR '':'') [0..<16]"
    by code_simp
  moreover assume "n < 16"
  ultimately show ?thesis by (simp add: list_all_iff)
qed

lemma hex_digit_bounds: "(of_char b :: nat) div 16 < 16" "(of_char b :: nat) mod 16 < 16"
  using nat_of_char_less_256 [of b] by (simp_all add: less_mult_imp_div_less)

lemma hex_decode_lower: "hex_decode (hex_lower bytes) = Some bytes"
proof (induction bytes)
  case (Cons b bytes)
  have "hex_value (hex_digit (of_char b div 16)) = Some (of_char b div 16)"
    "hex_value (hex_digit (of_char b mod 16)) = Some (of_char b mod 16)"
    using hex_digit_cases hex_digit_bounds by blast+
  with Cons show ?case by (simp add: hex_lower_def)
qed (simp add: hex_lower_def)

lemma hex_lower_inj: "hex_lower a = hex_lower b \<longleftrightarrow> a = b"
  using hex_decode_lower by (metis option.inject)

lemma hex_lower_length: "length (hex_lower bytes) = 2 * length bytes"
  by (induction bytes) (simp_all add: hex_lower_def)

lemma hex_lower_no_dot: "CHR ''.'' \<notin> set (hex_lower bytes)"
proof (induction bytes)
  case (Cons b bytes)
  have "hex_digit (of_char b div 16) \<noteq> CHR ''.''" "hex_digit (of_char b mod 16) \<noteq> CHR ''.''"
    using hex_digit_cases hex_digit_bounds by blast+
  then have "CHR ''.'' \<noteq> hex_digit (of_char b div 16)" "CHR ''.'' \<noteq> hex_digit (of_char b mod 16)"
    by metis+
  with Cons show ?case by (simp add: hex_lower_def)
qed (simp add: hex_lower_def)

end
