(* ===== verification/Json_Value.thy ===== *)
theory Json_Value
  imports Rust_Int
begin

text \<open>
  JSON values as \<open>serde_json::Value\<close> presents them to the crates, with the accessors they call.
  A number is a non-negative integer up to \<open>u64::MAX\<close>, a negative \<open>i64\<close> or a finite double,
  here the rational it denotes. An object is an association list with distinct keys in key
  order, as \<open>serde_json::Map\<close> (a \<open>BTreeMap\<close>) iterates it. Parsing text into a value is done by
  the library and is a parameter of the definitions that call it.
\<close>

datatype json_number = PosInt nat | NegInt int | Float rat

datatype json =
    JNull
  | JBool bool
  | JNumber json_number
  | JString string
  | JArray "json list"
  | JObject "(string \<times> json) list"

fun as_object :: "json \<Rightarrow> (string \<times> json) list option" where
  "as_object (JObject m) = Some m"
| "as_object _ = None"

fun as_str :: "json \<Rightarrow> string option" where
  "as_str (JString s) = Some s"
| "as_str _ = None"

fun as_array :: "json \<Rightarrow> json list option" where
  "as_array (JArray xs) = Some xs"
| "as_array _ = None"

fun as_bool :: "json \<Rightarrow> bool option" where
  "as_bool (JBool b) = Some b"
| "as_bool _ = None"

fun as_i64 :: "json \<Rightarrow> int option" where
  "as_i64 (JNumber (PosInt n)) = (if int n \<le> i64_max then Some (int n) else None)"
| "as_i64 (JNumber (NegInt i)) = Some i"
| "as_i64 _ = None"

fun as_u64 :: "json \<Rightarrow> nat option" where
  "as_u64 (JNumber (PosInt n)) = Some n"
| "as_u64 _ = None"

fun_cases as_object_SomeE: "as_object v = Some m"
fun_cases as_str_SomeE: "as_str v = Some s"
fun_cases as_array_SomeE: "as_array v = Some xs"

definition obj_get :: "(string \<times> json) list \<Rightarrow> string \<Rightarrow> json option" where
  "obj_get m k = map_of m k"

definition obj_get_str :: "(string \<times> json) list \<Rightarrow> string \<Rightarrow> string option" where
  "obj_get_str m k = Option.bind (obj_get m k) as_str"

definition contains_key :: "(string \<times> json) list \<Rightarrow> string \<Rightarrow> bool" where
  "contains_key m k \<longleftrightarrow> obj_get m k \<noteq> None"

text \<open>The representation invariant of values: ranges of numbers, distinct keys.\<close>

fun number_wf :: "json_number \<Rightarrow> bool" where
  "number_wf (PosInt n) \<longleftrightarrow> int n \<le> u64_max"
| "number_wf (NegInt i) \<longleftrightarrow> i64_min \<le> i \<and> i < 0"
| "number_wf (Float q) \<longleftrightarrow> True"

lemma as_str_iff [simp]: "as_str v = Some s \<longleftrightarrow> v = JString s"
  by (cases v) auto

lemma as_object_iff [simp]: "as_object v = Some m \<longleftrightarrow> v = JObject m"
  by (cases v) auto

lemma as_array_iff [simp]: "as_array v = Some xs \<longleftrightarrow> v = JArray xs"
  by (cases v) auto

lemma as_bool_iff [simp]: "as_bool v = Some b \<longleftrightarrow> v = JBool b"
  by (cases v) auto

lemma obj_get_str_iff [simp]: "obj_get_str m k = Some s \<longleftrightarrow> obj_get m k = Some (JString s)"
  by (auto simp: obj_get_str_def Option.bind_eq_Some_conv)

lemma contains_key_iff: "contains_key m k \<longleftrightarrow> k \<in> fst ` set m"
  using map_of_eq_None_iff [of m k] by (simp add: contains_key_def obj_get_def)

lemma as_i64_range: "as_i64 v = Some i \<Longrightarrow> (\<And>n. v = JNumber n \<Longrightarrow> number_wf n) \<Longrightarrow> in_i64 i"
  by (cases v rule: as_i64.cases) (auto simp: i64_bounds split: if_splits)

end
