(* ===== verification/Sts_Core.thy ===== *)
theory Sts_Core
  imports Json_Value
begin

text \<open>
  The crate \<open>sts-core\<close> (\<open>crates/sts-core/src/lib.rs\<close>): the token-exchange request, the claims of
  a minted token, target resolution, downscoping and the \<open>act\<close> claim. The lemmas show that a
  resolved target is one trimmed, non-empty value on which \<open>audience\<close> and \<open>resource\<close> agree, and
  that a downscoped token never holds a scope that was not requested, allowed by the target and,
  where the subject bound applies, granted by the subject.
\<close>

section \<open>Constants and data\<close>

definition TOKEN_EXCHANGE_GRANT_TYPE :: string where
  "TOKEN_EXCHANGE_GRANT_TYPE = ''urn:ietf:params:oauth:grant-type:token-exchange''"

definition ACCESS_TOKEN_TYPE :: string where
  "ACCESS_TOKEN_TYPE = ''urn:ietf:params:oauth:token-type:access_token''"

definition JWT_TOKEN_TYPE :: string where
  "JWT_TOKEN_TYPE = ''urn:ietf:params:oauth:token-type:jwt''"

record ExchangeRequest =
  er_grant_type :: string
  er_subject_token :: string
  er_subject_token_type :: string
  er_actor_token :: "string option"
  er_actor_token_type :: "string option"
  er_audience :: "string option"
  er_resource :: "string option"
  er_scope :: "string option"
  er_requested_token_type :: "string option"
  er_client_id :: "string option"
  er_client_assertion :: "string option"
  er_client_assertion_type :: "string option"

datatype ActClaim = ActClaim (act_sub: string) (act_iss: "string option") (act_act: "ActClaim option")

record MintedClaims =
  mc_iss :: string
  mc_sub :: string
  mc_aud :: string
  mc_scope :: string
  mc_iat :: int
  mc_exp :: int
  mc_jti :: string
  mc_client_id :: string
  mc_act :: "ActClaim option"
  mc_cnf_jkt :: "string option"
  mc_auth_time :: "int option"
  mc_acr :: "string option"
  mc_amr :: "string list"

datatype CoreErrorKind = CoreInvalidRequest | CoreInvalidClient | CoreInvalidTarget | CoreInvalidScope

record CoreError =
  core_kind :: CoreErrorKind
  core_message :: msg

abbreviation core_error :: "CoreErrorKind \<Rightarrow> string \<Rightarrow> CoreError" where
  "core_error k m \<equiv> \<lparr>core_kind = k, core_message = lit m\<rparr>"

fun core_kind_code :: "CoreErrorKind \<Rightarrow> string" where
  "core_kind_code CoreInvalidRequest = ''invalid_request''"
| "core_kind_code CoreInvalidClient = ''invalid_client''"
| "core_kind_code CoreInvalidTarget = ''invalid_target''"
| "core_kind_code CoreInvalidScope = ''invalid_scope''"

definition minted_claims_new ::
    "string \<Rightarrow> string \<Rightarrow> string \<Rightarrow> string \<Rightarrow> int \<Rightarrow> int \<Rightarrow> string \<Rightarrow> string \<Rightarrow> MintedClaims" where
  "minted_claims_new iss sub aud scp iat expiry jti cid =
     \<lparr>mc_iss = iss, mc_sub = sub, mc_aud = aud, mc_scope = scp, mc_iat = iat, mc_exp = expiry,
      mc_jti = jti, mc_client_id = cid, mc_act = None, mc_cnf_jkt = None, mc_auth_time = None,
      mc_acr = None, mc_amr = []\<rparr>"

section \<open>Operations\<close>

definition validate_target_value :: "string \<Rightarrow> (CoreError, string) result" where
  "validate_target_value value =
     (let trimmed = trim value in
      if trimmed = [] then Err (core_error CoreInvalidTarget ''target must not be empty'')
      else Ok trimmed)"

definition validate_resource_value :: "string \<Rightarrow> (CoreError, string) result" where
  "validate_resource_value value =
     (let trimmed = trim value in
      if trimmed = [] then Err (core_error CoreInvalidTarget ''resource must not be empty'')
      else if \<not> str_contains trimmed ''://'' \<or> starts_with trimmed ''/'' then
        Err (core_error CoreInvalidTarget ''resource must be an absolute URI'')
      else if str_contains trimmed ''#'' then
        Err (core_error CoreInvalidTarget ''resource must not contain a fragment'')
      else Ok trimmed)"

fun resolve_target :: "string option \<Rightarrow> string option \<Rightarrow> (CoreError, string) result" where
  "resolve_target (Some aud) None = validate_target_value aud"
| "resolve_target None (Some res) = validate_resource_value res"
| "resolve_target (Some aud) (Some res) =
     and_then (validate_target_value aud) (\<lambda>aud.
     and_then (validate_resource_value res) (\<lambda>res.
     if aud = res then Ok aud
     else Err (core_error CoreInvalidTarget
                 ''audience and resource must agree when both are present'')))"
| "resolve_target None None =
     Err (core_error CoreInvalidTarget ''no target audience supplied'')"

definition split_scopes :: "string option \<Rightarrow> string list" where
  "split_scopes input =
     map trim (filter (\<lambda>s. trim s \<noteq> [])
       (split_whitespace (case input of None \<Rightarrow> [] | Some s \<Rightarrow> s)))"

definition intersect_scopes :: "string list \<Rightarrow> string list \<Rightarrow> string list" where
  "intersect_scopes left right =
     filter (\<lambda>scp. list_ex (\<lambda>candidate. candidate = scp) right) left"

definition join_scopes :: "string list \<Rightarrow> string" where
  "join_scopes scopes = join_with '' '' scopes"

definition downscope ::
    "string option \<Rightarrow> string \<Rightarrow> string option \<Rightarrow> bool \<Rightarrow> (CoreError, string) result" where
  "downscope requested target_allowed subject_scopes subject_scope_bound_required =
     (let requested = split_scopes requested;
          target_allowed = split_scopes (Some target_allowed);
          result = intersect_scopes requested target_allowed;
          result = (case subject_scopes of None \<Rightarrow> result
             | Some subject \<Rightarrow>
                 let subject_scopes = split_scopes (Some subject);
                     subject_target_intersection = intersect_scopes target_allowed subject_scopes
                 in if subject_scope_bound_required \<or> subject_target_intersection \<noteq> []
                    then intersect_scopes result subject_target_intersection else result)
      in if result = [] then
           Err (core_error CoreInvalidScope ''no scopes remain after downscoping'')
         else Ok (join_scopes result))"

definition build_act :: "string \<Rightarrow> ActClaim option \<Rightarrow> ActClaim" where
  "build_act actor_sub prior_act = ActClaim actor_sub None prior_act"

definition build_scoped_payload ::
    "string \<Rightarrow> string \<Rightarrow> string \<Rightarrow> string \<Rightarrow> int \<Rightarrow> int \<Rightarrow> string \<Rightarrow> string \<Rightarrow> ActClaim option \<Rightarrow>
     string option \<Rightarrow> MintedClaims" where
  "build_scoped_payload iss sub aud scp iat expiry jti cid act cnf_jkt =
     \<lparr>mc_iss = iss, mc_sub = sub, mc_aud = aud, mc_scope = scp, mc_iat = iat, mc_exp = expiry,
      mc_jti = jti, mc_client_id = cid, mc_act = act, mc_cnf_jkt = cnf_jkt, mc_auth_time = None,
      mc_acr = None, mc_amr = []\<rparr>"

section \<open>Scopes as sets\<close>

text \<open>The set of scopes a scope string names.\<close>

definition scope_set :: "string \<Rightarrow> string set" where
  "scope_set s = set (split_whitespace s)"

lemma split_scopes_None [simp]: "split_scopes None = []"
  by (simp add: split_scopes_def)

lemma split_scopes_Some: "split_scopes (Some s) = split_whitespace s"
proof -
  have t: "trim w = w \<and> trim w \<noteq> []" if "w \<in> set (split_whitespace s)" for w
    using split_whitespace_tokens [OF that] by (simp add: is_token_def)
  have "filter (\<lambda>w. trim w \<noteq> []) (split_whitespace s) = split_whitespace s"
    using t by (intro filter_True) blast
  moreover have "map trim (split_whitespace s) = split_whitespace s"
    using t by (simp add: map_idI)
  ultimately show ?thesis by (simp add: split_scopes_def)
qed

lemma set_split_scopes: "set (split_scopes v) = (case v of None \<Rightarrow> {} | Some s \<Rightarrow> scope_set s)"
  by (cases v) (simp_all add: split_scopes_Some scope_set_def)

lemma split_scopes_tokens: "w \<in> set (split_scopes v) \<Longrightarrow> is_token w"
  by (cases v) (auto simp: split_scopes_Some intro: split_whitespace_tokens)

lemma set_intersect_scopes [simp]: "set (intersect_scopes l r) = set l \<inter> set r"
  by (auto simp: intersect_scopes_def list_ex_iff)

lemma split_join_scopes:
  "(\<And>w. w \<in> set ws \<Longrightarrow> is_token w) \<Longrightarrow> split_whitespace (join_scopes ws) = ws"
  by (simp add: join_scopes_def split_join_tokens)

text \<open>
  The scopes a request may get: those requested and allowed, cut down to the subject's where the
  bound applies. This is the policy in terms of sets, without order or duplicates.
\<close>

definition granted_scopes ::
    "string option \<Rightarrow> string \<Rightarrow> string option \<Rightarrow> bool \<Rightarrow> string set" where
  "granted_scopes requested allowed subject bound =
     (let base = (case requested of None \<Rightarrow> {} | Some r \<Rightarrow> scope_set r) \<inter> scope_set allowed
      in case subject of None \<Rightarrow> base
         | Some s \<Rightarrow> if bound \<or> scope_set allowed \<inter> scope_set s \<noteq> {}
                    then base \<inter> scope_set s else base)"

text \<open>The list that \<open>downscope\<close> joins.\<close>

definition downscope_list ::
    "string option \<Rightarrow> string \<Rightarrow> string option \<Rightarrow> bool \<Rightarrow> string list" where
  "downscope_list requested allowed subject bound =
     (let result = intersect_scopes (split_scopes requested) (split_scopes (Some allowed))
      in case subject of None \<Rightarrow> result
         | Some s \<Rightarrow>
             let sub = intersect_scopes (split_scopes (Some allowed)) (split_scopes (Some s))
             in if bound \<or> sub \<noteq> [] then intersect_scopes result sub else result)"

lemma downscope_alt:
  "downscope requested allowed subject bound =
     (if downscope_list requested allowed subject bound = []
      then Err (core_error CoreInvalidScope ''no scopes remain after downscoping'')
      else Ok (join_scopes (downscope_list requested allowed subject bound)))"
  by (simp add: downscope_def downscope_list_def Let_def split: option.splits)

lemma set_downscope_list:
  "set (downscope_list requested allowed subject bound) = granted_scopes requested allowed subject bound"
proof -
  have ne: "(intersect_scopes l r = []) = (set l \<inter> set r = {})" for l r
    by (metis set_empty2 set_intersect_scopes)
  show ?thesis
    by (auto simp: downscope_list_def granted_scopes_def Let_def set_split_scopes ne
        split: option.splits)
qed

lemma downscope_list_tokens:
  assumes "w \<in> set (downscope_list requested allowed subject bound)"
  shows "is_token w"
proof -
  from assms have "w \<in> set (split_scopes requested)"
    by (auto simp: downscope_list_def Let_def split: option.splits if_splits)
  then show ?thesis by (rule split_scopes_tokens)
qed

lemma split_downscope_list [simp]:
  "split_whitespace (join_scopes (downscope_list requested allowed subject bound)) =
     downscope_list requested allowed subject bound"
  by (rule split_join_scopes) (rule downscope_list_tokens)

lemma downscope_ok_iff:
  "downscope requested allowed subject bound = Ok out \<longleftrightarrow>
     granted_scopes requested allowed subject bound \<noteq> {} \<and>
     out = join_scopes (downscope_list requested allowed subject bound)"
  by (auto simp: downscope_alt simp flip: set_downscope_list)

lemma downscope_scope_set:
  "downscope requested allowed subject bound = Ok out \<Longrightarrow>
     scope_set out = granted_scopes requested allowed subject bound"
  by (simp add: downscope_ok_iff scope_set_def set_downscope_list)

section \<open>Targets\<close>

lemma validate_target_value_ok:
  "validate_target_value v = Ok t \<longleftrightarrow> t = trim v \<and> t \<noteq> []"
  by (auto simp: validate_target_value_def Let_def)

lemma validate_resource_value_ok:
  "validate_resource_value v = Ok t \<longleftrightarrow>
     t = trim v \<and> t \<noteq> [] \<and> str_contains t ''://'' \<and> \<not> starts_with t ''/'' \<and> \<not> str_contains t ''#''"
  by (auto simp: validate_resource_value_def Let_def)


section \<open>Properties\<close>

text \<open>
  C29: downscoping implements the set policy. It succeeds exactly when a scope remains, the
  token's scopes are then exactly the granted ones, and the only error is \<open>invalid_scope\<close>.
\<close>

theorem downscope_correct:
  "case downscope requested allowed subject bound of
     Inr out \<Rightarrow> scope_set out = granted_scopes requested allowed subject bound \<and>
                granted_scopes requested allowed subject bound \<noteq> {}
   | Inl e \<Rightarrow> core_kind e = CoreInvalidScope \<and>
                granted_scopes requested allowed subject bound = {}"
proof (cases "granted_scopes requested allowed subject bound = {}")
  case True
  then have "downscope_list requested allowed subject bound = []"
    by (simp flip: set_downscope_list)
  with True show ?thesis by (simp add: downscope_alt)
next
  case False
  then obtain out where "downscope requested allowed subject bound = Ok out"
    using downscope_ok_iff by blast
  with False show ?thesis by (simp add: downscope_scope_set)
qed

lemma filter_sub_id: "set l \<subseteq> set r \<Longrightarrow> intersect_scopes l r = l"
  by (auto simp: intersect_scopes_def list_ex_iff filter_id_conv)

lemma downscope_list_idem:
  "downscope_list (Some (join_scopes (downscope_list requested allowed subject bound)))
     allowed subject bound = downscope_list requested allowed subject bound"
proof -
  let ?l = "downscope_list requested allowed subject bound"
  have 1: "intersect_scopes ?l (split_scopes (Some allowed)) = ?l"
    by (rule filter_sub_id) (auto simp: downscope_list_def Let_def split: option.splits if_splits)
  have 2: "intersect_scopes ?l (intersect_scopes (split_scopes (Some allowed)) (split_scopes (Some s))) = ?l"
    if "subject = Some s"
      "bound \<or> intersect_scopes (split_scopes (Some allowed)) (split_scopes (Some s)) \<noteq> []" for s
    using that by (intro filter_sub_id) (auto simp: downscope_list_def Let_def)
  have "split_scopes (Some (join_scopes ?l)) = ?l" by (simp add: split_scopes_Some)
  with 1 2 show ?thesis
    by (subst downscope_list_def) (simp add: Let_def split: option.splits)
qed

text \<open>
  Downscoping is idempotent, byte for byte: a scope string that downscoping returned comes
  back unchanged when it is downscoped again under the same policy.
\<close>

theorem downscope_idempotent:
  assumes "downscope requested allowed subject bound = Ok out"
  shows "downscope (Some out) allowed subject bound = Ok out"
  using assms by (auto simp: downscope_alt downscope_list_idem split: if_splits)

theorem downscope_idempotent_witness:
  "downscope (Some ''b a'') ''a b c'' (Some ''x b'') False = Ok ''b'' \<and>
   downscope (Some ''b'') ''a b c'' (Some ''x b'') False = Ok ''b''"
proof -
  have h: "downscope (Some ''b a'') ''a b c'' (Some ''x b'') False = Ok ''b''" by code_simp
  show ?thesis using h downscope_idempotent [OF h] by simp
qed

text \<open>
  A resolved target is trimmed and not empty, comes from \<open>audience\<close> or \<open>resource\<close>, agrees
  with each of them that is present, and is an absolute URI without a fragment when a resource
  was sent. Whatever fails, the error is \<open>invalid_target\<close>.
\<close>

theorem resolve_target_sound:
  "case resolve_target aud res of
     Inr t \<Rightarrow> t \<noteq> [] \<and> trim t = t \<and> \<not> (aud = None \<and> res = None) \<and>
       (case aud of None \<Rightarrow> True | Some a \<Rightarrow> t = trim a) \<and>
       (case res of None \<Rightarrow> True
        | Some r \<Rightarrow> t = trim r \<and> str_contains t ''://'' \<and> \<not> str_contains t ''#'')
   | Inl e \<Rightarrow> core_kind e = CoreInvalidTarget"
  by (cases aud; cases res)
     (auto simp: validate_target_value_def validate_resource_value_def Let_def and_then_def
       split: if_splits)

end
