(* ===== verification/Sts_Jose.thy ===== *)
theory Sts_Jose
  imports Sts_Core
begin

text \<open>
  The crate \<open>sts-jose\<close> (\<open>crates/sts-jose/src/lib.rs\<close>), as built with its default feature
  \<open>pqc-openssl-unstable\<close>: backend selection, public JWKs, compact JWS parsing, verification of a
  token against a JWKS, and the RS256 and ML-DSA signers behind the trait \<open>JoseSigner\<close>.

  The libraries it calls are parameters. \<open>jose_ext\<close> holds base64url, JSON parsing of the
  protected header, SHA-256, the key constructors and the raw signature operations of OpenSSL and
  aws-lc; \<open>codec\<close> holds what \<open>serde\<close> and \<open>jsonwebtoken\<close> do for one claims type.
\<close>

section \<open>Data\<close>

definition DEFAULT_STS_SIGNING_ALG :: string where
  "DEFAULT_STS_SIGNING_ALG = ''ML-DSA-65''"

datatype BackendSelection = Classical | RequestedPqc string

definition backend_parse :: "string \<Rightarrow> BackendSelection" where
  "backend_parse value =
     (let trimmed = trim value; other = to_ascii_lowercase trimmed in
      if other = '''' then RequestedPqc DEFAULT_STS_SIGNING_ALG
      else if other = ''classical'' \<or> other = ''rs256'' then Classical
      else if starts_with other ''ml-dsa'' \<or> starts_with other ''pqc'' then RequestedPqc trimmed
      else RequestedPqc other)"

datatype JoseErrorKind =
  JoseInvalidKey | JoseUnsupportedAlgorithm | JoseInvalidClaims | JoseVerificationFailed
  | JoseInvalidCompactJws

fun jose_kind_code :: "JoseErrorKind \<Rightarrow> string" where
  "jose_kind_code JoseInvalidKey = ''invalid_key''"
| "jose_kind_code JoseUnsupportedAlgorithm = ''unsupported_algorithm''"
| "jose_kind_code JoseInvalidClaims = ''invalid_claims''"
| "jose_kind_code JoseVerificationFailed = ''verification_failed''"
| "jose_kind_code JoseInvalidCompactJws = ''invalid_compact_jws''"

record JoseError =
  jose_kind :: JoseErrorKind
  jose_message :: msg

abbreviation jose_error :: "JoseErrorKind \<Rightarrow> msg \<Rightarrow> JoseError" where
  "jose_error k m \<equiv> \<lparr>jose_kind = k, jose_message = m\<rparr>"

definition jose_error_text :: "JoseError \<Rightarrow> msg" where
  "jose_error_text e = error_text (jose_kind_code (jose_kind e)) (jose_message e)"

record PublicJwk =
  jwk_kty :: string
  jwk_kid :: string
  jwk_use :: string
  jwk_alg :: string
  jwk_n :: "string option"
  jwk_e :: "string option"
  jwk_pub :: "string option"

record JwksDocument =
  jwks_keys :: "PublicJwk list"

definition default_jwk_use :: string where "default_jwk_use = ''sig''"
definition default_jwk_alg :: string where "default_jwk_alg = ''RS256''"

record CompactJwsHeader =
  hdr_alg :: string
  hdr_kid :: "string option"
  hdr_typ :: "string option"

record 'a VerifiedJws =
  vj_claims :: 'a
  vj_alg :: string
  vj_kid :: string
  vj_typ :: "string option"

record DecodedRsaPublicKey =
  rsa_n :: string
  rsa_e :: string

datatype MlDsaAlgorithm = MlDsa44 | MlDsa65 | MlDsa87

record DecodedAkpPublicKey =
  akp_algorithm :: MlDsaAlgorithm
  akp_public_key :: string

fun jose_alg :: "MlDsaAlgorithm \<Rightarrow> string" where
  "jose_alg MlDsa44 = ''ML-DSA-44''"
| "jose_alg MlDsa65 = ''ML-DSA-65''"
| "jose_alg MlDsa87 = ''ML-DSA-87''"

definition from_jose_alg :: "string \<Rightarrow> MlDsaAlgorithm option" where
  "from_jose_alg value =
     (if value = ''ML-DSA-44'' then Some MlDsa44
      else if value = ''ML-DSA-65'' then Some MlDsa65
      else if value = ''ML-DSA-87'' then Some MlDsa87
      else None)"

definition from_selector :: "string \<Rightarrow> MlDsaAlgorithm option" where
  "from_selector value =
     (let v = to_ascii_lowercase (trim value) in
      if v = ''ml-dsa-44'' \<or> v = ''mldsa44'' then Some MlDsa44
      else if v = ''ml-dsa-65'' \<or> v = ''mldsa65'' then Some MlDsa65
      else if v = ''ml-dsa-87'' \<or> v = ''mldsa87'' then Some MlDsa87
      else None)"

fun public_key_len :: "MlDsaAlgorithm \<Rightarrow> nat" where
  "public_key_len MlDsa44 = 1312"
| "public_key_len MlDsa65 = 1952"
| "public_key_len MlDsa87 = 2592"

fun signature_len :: "MlDsaAlgorithm \<Rightarrow> nat" where
  "signature_len MlDsa44 = 2420"
| "signature_len MlDsa65 = 3309"
| "signature_len MlDsa87 = 4627"

definition supported_jws_signing_algs :: "string list" where
  "supported_jws_signing_algs = ''RS256'' # map jose_alg [MlDsa44, MlDsa65, MlDsa87]"

definition is_pqc_jws_alg :: "string \<Rightarrow> bool" where
  "is_pqc_jws_alg alg \<longleftrightarrow> from_jose_alg alg \<noteq> None"

section \<open>Libraries\<close>

text \<open>The error kinds of \<open>jsonwebtoken\<close> that the crate tells apart.\<close>

datatype JwtErrorKind =
    JwtInvalidToken | JwtBase64 | JwtUtf8
  | JwtJson | JwtMissingRequiredClaim | JwtInvalidClaimFormat | JwtExpiredSignature
  | JwtInvalidIssuer | JwtInvalidAudience | JwtInvalidSubject | JwtImmatureSignature
  | JwtInvalidSignature | JwtInvalidAlgorithm | JwtMissingAlgorithm | JwtInvalidKeyFormat
  | JwtInvalidRsaKey | JwtRsaFailedSigning | JwtSigning | JwtOther

record Validation =
  val_alg :: string
  val_required_spec_claims :: "string list"
  val_validate_exp :: bool
  val_validate_nbf :: bool
  val_validate_aud :: bool

record 'a codec =
  rs256_decode :: "string \<Rightarrow> string \<Rightarrow> string \<Rightarrow> Validation \<Rightarrow> (JwtErrorKind, 'a) result"
  rs256_encode :: "CompactJwsHeader \<Rightarrow> 'a \<Rightarrow> string \<Rightarrow> (JwtErrorKind, string) result"
  claims_from_slice :: "string \<Rightarrow> 'a option"
  claims_to_vec :: "'a \<Rightarrow> string option"

text \<open>\<open>simple_asn1::ASN1Block\<close>, without the offsets; \<open>AsnOther\<close> holds the encoding of a leaf that is not looked at.\<close>

datatype ASN1Block =
    AsnInteger int
  | AsnOctetString string
  | AsnSequence "ASN1Block list"
  | AsnSet "ASN1Block list"
  | AsnExplicit ASN1Block
  | AsnOther string

record PrivateRsaJwk =
  prsa_kty :: string
  prsa_kid :: "string option"
  prsa_n :: string
  prsa_e :: string
  prsa_d :: string
  prsa_p :: string
  prsa_q :: string
  prsa_dp :: "string option"
  prsa_dq :: "string option"
  prsa_qi :: "string option"

record PrivateAkpJwk =
  pakp_kty :: string
  pakp_kid :: "string option"
  pakp_alg :: string
  pakp_pub :: string
  pakp_priv :: string

record jose_ext =
  b64_encode :: "string \<Rightarrow> string"
  b64_decode :: "string \<Rightarrow> string option"
  sha256 :: "string \<Rightarrow> string"
  header_from_slice :: "string \<Rightarrow> CompactJwsHeader option"
  header_to_vec :: "CompactJwsHeader \<Rightarrow> string option"
  rsa_components_ok :: "string \<Rightarrow> string \<Rightarrow> bool"
  ossl_public_key_ok :: "MlDsaAlgorithm \<Rightarrow> string \<Rightarrow> bool"
  ossl_verifier_ok :: "MlDsaAlgorithm \<Rightarrow> string \<Rightarrow> bool"
  ossl_verify :: "MlDsaAlgorithm \<Rightarrow> string \<Rightarrow> string \<Rightarrow> string \<Rightarrow> bool option"
  ossl_key_from_seed :: "MlDsaAlgorithm \<Rightarrow> string \<Rightarrow> bool"
  ossl_raw_public :: "MlDsaAlgorithm \<Rightarrow> string \<Rightarrow> string option"
  ossl_sign :: "MlDsaAlgorithm \<Rightarrow> string \<Rightarrow> string \<Rightarrow> string option"
  rsa_jwk_from_str :: "string \<Rightarrow> PrivateRsaJwk option"
  akp_jwk_from_str :: "string \<Rightarrow> PrivateAkpJwk option"
  rsa_key_from_der :: "string \<Rightarrow> (nat \<times> string \<times> string) option"
  rsa_pem_to_der :: "string \<Rightarrow> string option"
  asn1_from_der :: "string \<Rightarrow> ASN1Block list option"
  asn1_to_der :: "ASN1Block \<Rightarrow> string option"
  bigint_from_bytes_be :: "string \<Rightarrow> int"
  bigint_to_bytes_be :: "int \<Rightarrow> string"
  json_to_string_pretty :: "json \<Rightarrow> string option"

text \<open>
  In \<open>jose_ext\<close> an RSA or ML-DSA private key is its DER text or its seed;
  \<open>rsa_key_from_der\<close> returns the modulus length in bytes with the components \<open>n\<close> and \<open>e\<close>.
\<close>

section \<open>Public keys\<close>

definition decode_jwk_octets :: "jose_ext \<Rightarrow> string \<Rightarrow> string \<Rightarrow> (JoseError, string) result" where
  "decode_jwk_octets E label value =
     ok_or (b64_decode E value)
       (jose_error JoseInvalidKey [Lit (''invalid '' @ label @ '' encoding: ''), Ext])"

definition decode_jwk_component :: "jose_ext \<Rightarrow> string \<Rightarrow> string \<Rightarrow> (JoseError, string) result" where
  "decode_jwk_component E name value =
     and_then (decode_jwk_octets E (''RSA JWK '' @ name) value) (\<lambda>bytes.
     if bytes = [] then
       Err (jose_error JoseInvalidKey
              (lit (''invalid RSA JWK '' @ name @ '': empty unsigned integer'')))
     else Ok bytes)"

definition validate_public_components :: "string \<Rightarrow> string \<Rightarrow> (JoseError, unit) result" where
  "validate_public_components n e =
     (if n = [] \<or> e = [] then
        Err (jose_error JoseInvalidKey (lit ''RSA public key components must be non-empty''))
      else if hd n = CHR 0x00 \<or> hd e = CHR 0x00 then
        Err (jose_error JoseInvalidKey
               (lit ''RSA public key components must use minimal unsigned encoding''))
      else Ok ())"

definition leading_zeros_u8 :: "char \<Rightarrow> nat" where
  "leading_zeros_u8 b =
     (let v = of_char b :: nat in
      if 128 \<le> v then 0 else if 64 \<le> v then 1 else if 32 \<le> v then 2 else if 16 \<le> v then 3
      else if 8 \<le> v then 4 else if 4 \<le> v then 5 else if 2 \<le> v then 6 else if 1 \<le> v then 7 else 8)"

definition rsa_modulus_bits :: "string \<Rightarrow> nat" where
  "rsa_modulus_bits n =
     (case dropWhile (\<lambda>byte. byte = CHR 0x00) n of
        [] \<Rightarrow> 0
      | b # bytes \<Rightarrow> (length (b # bytes) - 1) * 8 + (8 - leading_zeros_u8 b))"

definition rsa_public_key_from_jwk :: "jose_ext \<Rightarrow> PublicJwk \<Rightarrow> (JoseError, DecodedRsaPublicKey) result"
where
  "rsa_public_key_from_jwk E jwk =
     (if jwk_kty jwk \<noteq> ''RSA'' then
        Err (jose_error JoseInvalidKey (lit (''unsupported JWK key type '' @ jwk_kty jwk)))
      else if jwk_alg jwk \<noteq> ''RS256'' then
        Err (jose_error JoseInvalidKey (lit (''RSA JWK alg must be RS256, got '' @ jwk_alg jwk)))
      else
        and_then (ok_or (jwk_n jwk) (jose_error JoseInvalidKey (lit ''RSA public JWK missing n''))) (\<lambda>n.
        and_then (decode_jwk_component E ''n'' n) (\<lambda>n.
        and_then (ok_or (jwk_e jwk) (jose_error JoseInvalidKey (lit ''RSA public JWK missing e''))) (\<lambda>e.
        and_then (decode_jwk_component E ''e'' e) (\<lambda>e.
        and_then (validate_public_components n e) (\<lambda>_.
        Ok \<lparr>rsa_n = n, rsa_e = e\<rparr>))))))"

definition rsa_public_key_bits_from_jwk :: "jose_ext \<Rightarrow> PublicJwk \<Rightarrow> (JoseError, nat) result" where
  "rsa_public_key_bits_from_jwk E jwk =
     and_then (rsa_public_key_from_jwk E jwk) (\<lambda>k. Ok (rsa_modulus_bits (rsa_n k)))"

definition akp_public_key_from_jwk :: "jose_ext \<Rightarrow> PublicJwk \<Rightarrow> (JoseError, DecodedAkpPublicKey) result"
where
  "akp_public_key_from_jwk E jwk =
     (if jwk_kty jwk \<noteq> ''AKP'' then
        Err (jose_error JoseInvalidKey (lit (''unsupported JWK key type '' @ jwk_kty jwk)))
      else
        and_then (ok_or (from_jose_alg (jwk_alg jwk))
            (jose_error JoseInvalidKey (lit (''unsupported AKP alg '' @ jwk_alg jwk)))) (\<lambda>algorithm.
        if jwk_n jwk \<noteq> None \<or> jwk_e jwk \<noteq> None then
          Err (jose_error JoseInvalidKey (lit ''AKP public JWK must not contain RSA n/e members''))
        else
          and_then (ok_or (jwk_pub jwk)
              (jose_error JoseInvalidKey (lit ''AKP public JWK missing pub''))) (\<lambda>pub.
          and_then (decode_jwk_octets E ''AKP public JWK pub'' pub) (\<lambda>public_key.
          if length public_key \<noteq> public_key_len algorithm then
            Err (jose_error JoseInvalidKey
                   (lit (''AKP public JWK pub length must be '' @ display_nat (public_key_len algorithm) @
                         '' bytes for '' @ jose_alg algorithm)))
          else Ok \<lparr>akp_algorithm = algorithm, akp_public_key = public_key\<rparr>))))"

definition validate_public_jwk :: "jose_ext \<Rightarrow> PublicJwk \<Rightarrow> (JoseError, unit) result" where
  "validate_public_jwk E jwk =
     (if jwk_use jwk \<noteq> ''sig'' then
        Err (jose_error JoseInvalidKey
               (lit ''public JWK use must be sig for token signing verification''))
      else if jwk_kty jwk = ''RSA'' then map_ok (\<lambda>_. ()) (rsa_public_key_from_jwk E jwk)
      else if jwk_kty jwk = ''AKP'' then map_ok (\<lambda>_. ()) (akp_public_key_from_jwk E jwk)
      else Err (jose_error JoseInvalidKey (lit (''unsupported JWK key type '' @ jwk_kty jwk))))"

section \<open>Compact JWS\<close>

definition parse_compact_jws :: "string \<Rightarrow> (JoseError, string \<times> string \<times> string) result" where
  "parse_compact_jws token =
     (case split_on CHR ''.'' token of
        [header, payload, signature] \<Rightarrow> Ok (header, payload, signature)
      | _ # _ # _ # _ # _ \<Rightarrow>
          Err (jose_error JoseInvalidCompactJws (lit ''compact JWS must have exactly three parts''))
      | _ \<Rightarrow> Err (jose_error JoseInvalidCompactJws (lit ''compact JWS must have three parts'')))"

definition decode_compact_segment :: "jose_ext \<Rightarrow> string \<Rightarrow> string \<Rightarrow> (JoseError, string) result" where
  "decode_compact_segment E label value =
     ok_or (b64_decode E value)
       (jose_error JoseInvalidCompactJws [Lit (''invalid compact '' @ label @ '' encoding: ''), Ext])"

definition decode_compact_jws_header :: "jose_ext \<Rightarrow> string \<Rightarrow> (JoseError, CompactJwsHeader) result" where
  "decode_compact_jws_header E token =
     and_then (parse_compact_jws token) (\<lambda>(header, _, _).
     and_then (decode_compact_segment E ''JWS header'' header) (\<lambda>bytes.
     ok_or (header_from_slice E bytes)
       (jose_error JoseInvalidCompactJws [Lit ''invalid compact JWS header: '', Ext])))"

definition decode_payload_claims ::
    "jose_ext \<Rightarrow> 'a codec \<Rightarrow> string \<Rightarrow> (JoseError, 'a) result" where
  "decode_payload_claims E C payload_segment =
     and_then (decode_compact_segment E ''JWS payload'' payload_segment) (\<lambda>bytes.
     ok_or (claims_from_slice C bytes)
       (jose_error JoseInvalidClaims [Lit ''invalid token claims: '', Ext]))"

definition signature_only_rs256_validation :: Validation where
  "signature_only_rs256_validation =
     \<lparr>val_alg = ''RS256'', val_required_spec_claims = [], val_validate_exp = False,
      val_validate_nbf = False, val_validate_aud = False\<rparr>"

fun map_jwt_decode_error :: "JwtErrorKind \<Rightarrow> JoseError" where
  "map_jwt_decode_error JwtInvalidToken = jose_error JoseInvalidCompactJws [Lit ''invalid compact JWS: '', Ext]"
| "map_jwt_decode_error JwtBase64 = jose_error JoseInvalidCompactJws [Lit ''invalid compact JWS: '', Ext]"
| "map_jwt_decode_error JwtUtf8 = jose_error JoseInvalidCompactJws [Lit ''invalid compact JWS: '', Ext]"
| "map_jwt_decode_error JwtJson = jose_error JoseInvalidClaims [Lit ''invalid token claims: '', Ext]"
| "map_jwt_decode_error JwtMissingRequiredClaim = jose_error JoseInvalidClaims [Lit ''invalid token claims: '', Ext]"
| "map_jwt_decode_error JwtInvalidClaimFormat = jose_error JoseInvalidClaims [Lit ''invalid token claims: '', Ext]"
| "map_jwt_decode_error JwtExpiredSignature = jose_error JoseInvalidClaims [Lit ''invalid token claims: '', Ext]"
| "map_jwt_decode_error JwtInvalidIssuer = jose_error JoseInvalidClaims [Lit ''invalid token claims: '', Ext]"
| "map_jwt_decode_error JwtInvalidAudience = jose_error JoseInvalidClaims [Lit ''invalid token claims: '', Ext]"
| "map_jwt_decode_error JwtInvalidSubject = jose_error JoseInvalidClaims [Lit ''invalid token claims: '', Ext]"
| "map_jwt_decode_error JwtImmatureSignature = jose_error JoseInvalidClaims [Lit ''invalid token claims: '', Ext]"
| "map_jwt_decode_error _ = jose_error JoseVerificationFailed [Lit ''JWT verification failed: '', Ext]"

definition map_jwt_encode_error :: "JwtErrorKind \<Rightarrow> JoseError" where
  "map_jwt_encode_error k =
     (if k = JwtJson then jose_error JoseInvalidClaims [Lit ''encode claims failed: '', Ext]
      else if k \<in> {JwtInvalidKeyFormat, JwtInvalidRsaKey, JwtRsaFailedSigning, JwtSigning} then
        jose_error JoseInvalidKey [Lit ''RSA signing failed: '', Ext]
      else jose_error JoseVerificationFailed [Lit ''JWT signing failed: '', Ext])"

definition map_jwt_key_error :: JoseError where
  "map_jwt_key_error = jose_error JoseInvalidKey [Lit ''invalid RSA private key: '', Ext]"

section \<open>Verification against a JWKS\<close>

definition verify_rs256_claims_against_jwk ::
    "jose_ext \<Rightarrow> 'a codec \<Rightarrow> string \<Rightarrow> PublicJwk \<Rightarrow> (JoseError, 'a) result" where
  "verify_rs256_claims_against_jwk E C token jwk =
     and_then (rsa_public_key_from_jwk E jwk) (\<lambda>_.
     and_then (ok_or (jwk_n jwk) (jose_error JoseInvalidKey (lit ''RSA public JWK missing n''))) (\<lambda>n.
     and_then (ok_or (jwk_e jwk) (jose_error JoseInvalidKey (lit ''RSA public JWK missing e''))) (\<lambda>e.
     if \<not> rsa_components_ok E n e then
       Err (jose_error JoseInvalidKey [Lit ''invalid RSA public JWK: '', Ext])
     else map_err map_jwt_decode_error
            (rs256_decode C token n e signature_only_rs256_validation))))"

definition verify_mldsa_claims_against_jwk ::
    "jose_ext \<Rightarrow> 'a codec \<Rightarrow> string \<Rightarrow> PublicJwk \<Rightarrow> string \<Rightarrow> (JoseError, 'a) result" where
  "verify_mldsa_claims_against_jwk E C token jwk header_alg =
     and_then (ok_or (from_jose_alg header_alg)
         (jose_error JoseUnsupportedAlgorithm (lit ''unsupported ML-DSA algorithm''))) (\<lambda>header_algorithm.
     and_then (akp_public_key_from_jwk E jwk) (\<lambda>decoded_public.
     if akp_algorithm decoded_public \<noteq> header_algorithm then
       Err (jose_error JoseVerificationFailed (lit ''JWS alg does not match AKP public key alg''))
     else
       and_then (parse_compact_jws token) (\<lambda>(header_segment, payload_segment, signature_segment).
       and_then (decode_compact_segment E ''JWS signature'' signature_segment) (\<lambda>signature.
       if length signature \<noteq> signature_len header_algorithm then
         Err (jose_error JoseVerificationFailed
                (lit (''JWS signature length must be '' @ display_nat (signature_len header_algorithm) @
                      '' bytes for '' @ jose_alg header_algorithm)))
       else
         let signing_input = header_segment @ ''.'' @ payload_segment;
             public_key = akp_public_key decoded_public
         in if \<not> ossl_public_key_ok E header_algorithm public_key then
              Err (jose_error JoseInvalidKey [Lit ''AKP public JWK pub was rejected by OpenSSL: '', Ext])
            else if \<not> ossl_verifier_ok E header_algorithm public_key then
              Err (jose_error JoseInvalidKey [Lit ''create ML-DSA verifier failed: '', Ext])
            else (case ossl_verify E header_algorithm public_key signature signing_input of
                None \<Rightarrow> Err (jose_error JoseVerificationFailed [Lit ''ML-DSA verification failed: '', Ext])
              | Some valid \<Rightarrow>
                  if \<not> valid then
                    Err (jose_error JoseVerificationFailed (lit ''JWS verification failed''))
                  else decode_payload_claims E C payload_segment)))))"

definition verify_claims_against_jwks_inner ::
    "jose_ext \<Rightarrow> 'a codec \<Rightarrow> string \<Rightarrow> JwksDocument \<Rightarrow> string list option \<Rightarrow>
     (JoseError, 'a VerifiedJws) result" where
  "verify_claims_against_jwks_inner E C token jwks allowed_algs =
     and_then (decode_compact_jws_header E token) (\<lambda>header.
     if (case allowed_algs of None \<Rightarrow> False
         | Some allowed \<Rightarrow> \<not> list_ex (\<lambda>a. a = hdr_alg header) allowed) then
       Err (jose_error JoseUnsupportedAlgorithm
              (lit (''JWS algorithm '' @ hdr_alg header @
                    '' is not allowed for this verification context'')))
     else
       and_then (ok_or (hdr_kid header)
           (jose_error JoseInvalidCompactJws (lit ''compact JWS header missing kid''))) (\<lambda>kid.
       and_then (ok_or (find (\<lambda>key. jwk_kid key = kid) (jwks_keys jwks))
           (jose_error JoseVerificationFailed (lit (''no JWK found for kid '' @ kid)))) (\<lambda>jwk.
       and_then
         (if hdr_alg header = ''RS256'' then verify_rs256_claims_against_jwk E C token jwk
          else if from_jose_alg (hdr_alg header) \<noteq> None then
            verify_mldsa_claims_against_jwk E C token jwk (hdr_alg header)
          else Err (jose_error JoseUnsupportedAlgorithm
                      (lit (''unsupported JWS algorithm '' @ hdr_alg header)))) (\<lambda>claims.
       Ok \<lparr>vj_claims = claims, vj_alg = hdr_alg header, vj_kid = kid, vj_typ = hdr_typ header\<rparr>))))"

definition verify_claims_against_jwks_with_header ::
    "jose_ext \<Rightarrow> 'a codec \<Rightarrow> string \<Rightarrow> JwksDocument \<Rightarrow> (JoseError, 'a VerifiedJws) result" where
  "verify_claims_against_jwks_with_header E C token jwks =
     verify_claims_against_jwks_inner E C token jwks None"

definition verify_claims_against_jwks ::
    "jose_ext \<Rightarrow> 'a codec \<Rightarrow> string \<Rightarrow> JwksDocument \<Rightarrow> (JoseError, 'a) result" where
  "verify_claims_against_jwks E C token jwks =
     map_ok vj_claims (verify_claims_against_jwks_with_header E C token jwks)"

definition verify_claims_against_jwks_with_allowed_algs ::
    "jose_ext \<Rightarrow> 'a codec \<Rightarrow> string \<Rightarrow> JwksDocument \<Rightarrow> string list \<Rightarrow>
     (JoseError, 'a VerifiedJws) result" where
  "verify_claims_against_jwks_with_allowed_algs E C token jwks allowed_algs =
     verify_claims_against_jwks_inner E C token jwks (Some allowed_algs)"

section \<open>Lemmas\<close>

lemma from_jose_alg_Some [simp]: "from_jose_alg s = Some a \<longleftrightarrow> s = jose_alg a"
  by (cases a) (auto simp: from_jose_alg_def)

lemma from_jose_alg_jose_alg [simp]: "from_jose_alg (jose_alg a) = Some a"
  by simp

lemma jose_alg_inj [simp]: "jose_alg a = jose_alg b \<longleftrightarrow> a = b"
  by (cases a; cases b) simp_all

lemma jose_alg_not_rs256 [simp]: "jose_alg a \<noteq> ''RS256''"
  by (cases a) simp_all

lemma parse_compact_jws_ok:
  "parse_compact_jws token = Ok (h, p, s) \<longleftrightarrow> split_on CHR ''.'' token = [h, p, s]"
  by (auto simp: parse_compact_jws_def split: list.splits)

lemma parse_compact_jws_shape:
  assumes "parse_compact_jws token = Ok (h, p, s)"
  shows "token = h @ ''.'' @ p @ ''.'' @ s" "CHR ''.'' \<notin> set h" "CHR ''.'' \<notin> set p" "CHR ''.'' \<notin> set s"
proof -
  from assms have sp: "split_on CHR ''.'' token = [h, p, s]" by (simp add: parse_compact_jws_ok)
  show "token = h @ ''.'' @ p @ ''.'' @ s" using join_split_on [of "CHR ''.''" token] sp by simp
  show "CHR ''.'' \<notin> set h" "CHR ''.'' \<notin> set p" "CHR ''.'' \<notin> set s"
    using split_on_no_sep [of _ "CHR ''.''" token] sp by simp_all
qed

lemma parse_compact_jws_build:
  assumes "CHR ''.'' \<notin> set h" "CHR ''.'' \<notin> set p" "CHR ''.'' \<notin> set s"
  shows "parse_compact_jws (h @ ''.'' @ p @ ''.'' @ s) = Ok (h, p, s)"
  using assms by (simp add: parse_compact_jws_ok split_on_append split_on_single)

lemma rsa_public_key_ok:
  "rsa_public_key_from_jwk E jwk = Ok k \<Longrightarrow>
     jwk_kty jwk = ''RSA'' \<and> jwk_alg jwk = ''RS256'' \<and> jwk_n jwk \<noteq> None \<and> jwk_e jwk \<noteq> None \<and>
     rsa_n k \<noteq> [] \<and> hd (rsa_n k) \<noteq> CHR 0x00 \<and> rsa_e k \<noteq> [] \<and> hd (rsa_e k) \<noteq> CHR 0x00"
  by (auto simp: rsa_public_key_from_jwk_def validate_public_components_def result_iff
      split: if_splits)

lemma akp_public_key_ok:
  "akp_public_key_from_jwk E jwk = Ok k \<Longrightarrow>
     jwk_kty jwk = ''AKP'' \<and> jwk_alg jwk = jose_alg (akp_algorithm k) \<and> jwk_n jwk = None \<and>
     jwk_e jwk = None \<and> length (akp_public_key k) = public_key_len (akp_algorithm k) \<and>
     Option.bind (jwk_pub jwk) (b64_decode E) = Some (akp_public_key k)"
  by (auto simp: akp_public_key_from_jwk_def decode_jwk_octets_def result_iff split: if_splits)

lemma verify_rs256_ok:
  "verify_rs256_claims_against_jwk E C token jwk = Ok c \<Longrightarrow>
     jwk_kty jwk = ''RSA'' \<and> jwk_alg jwk = ''RS256'' \<and>
     (\<exists>n e. jwk_n jwk = Some n \<and> jwk_e jwk = Some e \<and>
        rs256_decode C token n e signature_only_rs256_validation = Ok c)"
  by (auto simp: verify_rs256_claims_against_jwk_def result_iff dest!: rsa_public_key_ok)

lemma verify_mldsa_ok:
  assumes "verify_mldsa_claims_against_jwk E C token jwk alg = Ok c"
  obtains a k h p s sig where "alg = jose_alg a" "akp_public_key_from_jwk E jwk = Ok k"
    "akp_algorithm k = a" "parse_compact_jws token = Ok (h, p, s)" "b64_decode E s = Some sig"
    "length sig = signature_len a"
    "ossl_verify E a (akp_public_key k) sig (h @ ''.'' @ p) = Some True"
    "decode_payload_claims E C p = Ok c"
  using assms
  by (auto simp: verify_mldsa_claims_against_jwk_def decode_compact_segment_def result_iff Let_def
      split: if_splits option.splits prod.splits)

lemma find_Some_set: "find P xs = Some x \<Longrightarrow> x \<in> set xs \<and> P x"
  by (auto simp: find_Some_iff)

lemma verify_inner_ok:
  assumes "verify_claims_against_jwks_inner E C token jwks allowed = Ok v"
  obtains header jwk where "decode_compact_jws_header E token = Ok header"
    "vj_alg v = hdr_alg header" "hdr_kid header = Some (vj_kid v)" "vj_typ v = hdr_typ header"
    "case allowed of None \<Rightarrow> True | Some as \<Rightarrow> vj_alg v \<in> set as"
    "find (\<lambda>k. jwk_kid k = vj_kid v) (jwks_keys jwks) = Some jwk"
    "vj_alg v = ''RS256'' \<and> verify_rs256_claims_against_jwk E C token jwk = Ok (vj_claims v) \<or>
     (\<exists>a. vj_alg v = jose_alg a \<and>
        verify_mldsa_claims_against_jwk E C token jwk (jose_alg a) = Ok (vj_claims v))"
  using assms
  by (auto simp: verify_claims_against_jwks_inner_def result_iff list_ex_iff
      split: if_splits option.splits)

section \<open>What a verified token is\<close>

text \<open>
  A token that is signed under an RSA key, and one that is signed under an ML-DSA key: the key has the right
  type and algorithm and the right form, and the library accepts the signature with the parts of this key. For
  ML-DSA the signed text is the first two segments and the claims are read from the second.
\<close>

definition rs256_signed :: "jose_ext \<Rightarrow> 'a codec \<Rightarrow> string \<Rightarrow> PublicJwk \<Rightarrow> 'a \<Rightarrow> bool" where
  "rs256_signed E C token jwk claims \<longleftrightarrow> jwk_kty jwk = ''RSA'' \<and> jwk_alg jwk = ''RS256'' \<and>
     (\<exists>n e nb eb. jwk_n jwk = Some n \<and> jwk_e jwk = Some e \<and> b64_decode E n = Some nb \<and> b64_decode E e = Some eb \<and>
        nb \<noteq> [] \<and> hd nb \<noteq> CHR 0x00 \<and> eb \<noteq> [] \<and> hd eb \<noteq> CHR 0x00 \<and> rsa_components_ok E n e \<and>
        rs256_decode C token n e \<lparr>val_alg = ''RS256'', val_required_spec_claims = [], val_validate_exp = False,
          val_validate_nbf = False, val_validate_aud = False\<rparr> = Ok claims)"

definition mldsa_signed :: "jose_ext \<Rightarrow> 'a codec \<Rightarrow> string \<Rightarrow> PublicJwk \<Rightarrow> MlDsaAlgorithm \<Rightarrow> 'a \<Rightarrow> bool" where
  "mldsa_signed E C token jwk a claims \<longleftrightarrow> jwk_kty jwk = ''AKP'' \<and> jwk_alg jwk = jose_alg a \<and> jwk_n jwk = None \<and> jwk_e jwk = None \<and>
     (\<exists>pub pk h p s sig bytes. jwk_pub jwk = Some pub \<and> b64_decode E pub = Some pk \<and> length pk = public_key_len a \<and>
        split_on CHR ''.'' token = [h, p, s] \<and> b64_decode E s = Some sig \<and> length sig = signature_len a \<and>
        ossl_public_key_ok E a pk \<and> ossl_verifier_ok E a pk \<and> ossl_verify E a pk sig (h @ ''.'' @ p) = Some True \<and>
        b64_decode E p = Some bytes \<and> claims_from_slice C bytes = Some claims)"

text \<open>
  A token that is signed under a key set: its header names the algorithm and the key identifier, and the
  first key of the set with this identifier is the key it is signed under, with this algorithm.
\<close>

definition jws_signed ::
    "jose_ext \<Rightarrow> 'a codec \<Rightarrow> string \<Rightarrow> JwksDocument \<Rightarrow> string \<Rightarrow> string \<Rightarrow> string option \<Rightarrow> 'a \<Rightarrow> bool" where
  "jws_signed E C token jwks alg kid typ claims \<longleftrightarrow>
     (\<exists>h p s hb jwk. split_on CHR ''.'' token = [h, p, s] \<and> b64_decode E h = Some hb \<and>
        header_from_slice E hb = Some \<lparr>hdr_alg = alg, hdr_kid = Some kid, hdr_typ = typ\<rparr> \<and>
        find (\<lambda>k. jwk_kid k = kid) (jwks_keys jwks) = Some jwk \<and>
        (alg = ''RS256'' \<and> rs256_signed E C token jwk claims \<or> (\<exists>a. alg = jose_alg a \<and> mldsa_signed E C token jwk a claims)))"

lemma verify_rs256_iff: "verify_rs256_claims_against_jwk E C token jwk = Ok c \<longleftrightarrow> rs256_signed E C token jwk c"
proof -
  have v: "validate_public_components n e = Ok () \<longleftrightarrow> n \<noteq> [] \<and> hd n \<noteq> CHR 0x00 \<and> e \<noteq> [] \<and> hd e \<noteq> CHR 0x00" for n e
    by (auto simp: validate_public_components_def)
  show ?thesis
    unfolding verify_rs256_claims_against_jwk_def rsa_public_key_from_jwk_def rs256_signed_def
      signature_only_rs256_validation_def decode_jwk_component_def decode_jwk_octets_def
    by (auto simp: result_iff v)
qed

lemma akp_public_key_iff:
  "akp_public_key_from_jwk E jwk = Ok k \<longleftrightarrow> jwk_kty jwk = ''AKP'' \<and> jwk_alg jwk = jose_alg (akp_algorithm k) \<and>
     jwk_n jwk = None \<and> jwk_e jwk = None \<and>
     (\<exists>pub. jwk_pub jwk = Some pub \<and> b64_decode E pub = Some (akp_public_key k)) \<and>
     length (akp_public_key k) = public_key_len (akp_algorithm k)"
  by (cases k) (auto simp: akp_public_key_from_jwk_def decode_jwk_octets_def result_iff)

lemma verify_mldsa_iff: "verify_mldsa_claims_against_jwk E C token jwk (jose_alg a) = Ok c \<longleftrightarrow> mldsa_signed E C token jwk a c"
proof
  assume "verify_mldsa_claims_against_jwk E C token jwk (jose_alg a) = Ok c"
  then show "mldsa_signed E C token jwk a c"
    by (auto simp: verify_mldsa_claims_against_jwk_def mldsa_signed_def decode_compact_segment_def result_iff Let_def
        akp_public_key_iff parse_compact_jws_ok decode_payload_claims_def split: if_splits option.splits prod.splits)
next
  assume "mldsa_signed E C token jwk a c"
  then obtain pub pk h p s sig bytes where "jwk_kty jwk = ''AKP''" "jwk_alg jwk = jose_alg a" "jwk_n jwk = None" "jwk_e jwk = None"
    "jwk_pub jwk = Some pub" "b64_decode E pub = Some pk" "length pk = public_key_len a"
    "split_on CHR ''.'' token = [h, p, s]" "b64_decode E s = Some sig" "length sig = signature_len a"
    "ossl_public_key_ok E a pk" "ossl_verifier_ok E a pk" "ossl_verify E a pk sig (h @ ''.'' @ p) = Some True"
    "b64_decode E p = Some bytes" "claims_from_slice C bytes = Some c" unfolding mldsa_signed_def by blast
  moreover from this have "akp_public_key_from_jwk E jwk = Ok \<lparr>akp_algorithm = a, akp_public_key = pk\<rparr>"
    by (simp add: akp_public_key_iff)
  moreover have "parse_compact_jws token = Ok (h, p, s)" using calculation(8) by (simp add: parse_compact_jws_ok)
  ultimately show "verify_mldsa_claims_against_jwk E C token jwk (jose_alg a) = Ok c"
    by (simp add: verify_mldsa_claims_against_jwk_def decode_compact_segment_def decode_payload_claims_def Let_def)
qed

lemma decode_header_iff:
  "decode_compact_jws_header E token = Ok header \<longleftrightarrow>
     (\<exists>h p s hb. split_on CHR ''.'' token = [h, p, s] \<and> b64_decode E h = Some hb \<and> header_from_slice E hb = Some header)"
  by (auto simp: decode_compact_jws_header_def decode_compact_segment_def result_iff parse_compact_jws_ok)

text \<open>The lookup by key identifier and the dispatch on the algorithm.\<close>

lemma verify_inner_iff:
  "verify_claims_against_jwks_inner E C token jwks allowed = Ok v \<longleftrightarrow>
     (case allowed of None \<Rightarrow> True | Some as \<Rightarrow> vj_alg v \<in> set as) \<and>
     jws_signed E C token jwks (vj_alg v) (vj_kid v) (vj_typ v) (vj_claims v)"
proof
  assume "verify_claims_against_jwks_inner E C token jwks allowed = Ok v"
  then show "(case allowed of None \<Rightarrow> True | Some as \<Rightarrow> vj_alg v \<in> set as) \<and>
     jws_signed E C token jwks (vj_alg v) (vj_kid v) (vj_typ v) (vj_claims v)"
  proof (rule verify_inner_ok, goal_cases)
    case (1 header jwk)
    have "header = \<lparr>hdr_alg = vj_alg v, hdr_kid = Some (vj_kid v), hdr_typ = vj_typ v\<rparr>"
      using 1(2-4) by (cases header) simp
    from 1(1) [unfolded this decode_header_iff] 1(5-7) [unfolded verify_rs256_iff verify_mldsa_iff] show ?case
      unfolding jws_signed_def by blast
  qed
next
  assume r: "(case allowed of None \<Rightarrow> True | Some as \<Rightarrow> vj_alg v \<in> set as) \<and>
     jws_signed E C token jwks (vj_alg v) (vj_kid v) (vj_typ v) (vj_claims v)"
  then obtain jwk where k: "decode_compact_jws_header E token = Ok \<lparr>hdr_alg = vj_alg v, hdr_kid = Some (vj_kid v), hdr_typ = vj_typ v\<rparr>"
    "find (\<lambda>k. jwk_kid k = vj_kid v) (jwks_keys jwks) = Some jwk"
    "vj_alg v = ''RS256'' \<and> rs256_signed E C token jwk (vj_claims v) \<or>
       (\<exists>a. vj_alg v = jose_alg a \<and> mldsa_signed E C token jwk a (vj_claims v))"
    by (auto simp: jws_signed_def decode_header_iff)
  have allowed: "(case allowed of None \<Rightarrow> False | Some as \<Rightarrow> \<not> list_ex (\<lambda>a. a = vj_alg v) as) = False"
    using r by (auto simp: list_ex_iff split: option.splits)
  from k(3) have "(if vj_alg v = ''RS256'' then verify_rs256_claims_against_jwk E C token jwk
      else if from_jose_alg (vj_alg v) \<noteq> None then verify_mldsa_claims_against_jwk E C token jwk (vj_alg v)
      else Err (jose_error JoseUnsupportedAlgorithm (lit (''unsupported JWS algorithm '' @ vj_alg v)))) = Ok (vj_claims v)"
    by (auto simp: verify_rs256_iff [symmetric] verify_mldsa_iff [symmetric] jose_alg_not_rs256 [symmetric])
  with allowed show "verify_claims_against_jwks_inner E C token jwks allowed = Ok v"
    unfolding verify_claims_against_jwks_inner_def k(1)
    by (simp only: and_then_simps CompactJwsHeader.select_convs if_False ok_or_simps k(2)) simp
qed

section \<open>Properties of verification\<close>

text \<open>
  C22: exactly when a token verifies under a key set, and with which key. Its header names an allowed
  algorithm and a key identifier; the key is the first one of the set with that identifier, and its type and
  its own \<open>alg\<close> must be those of the header, so that no algorithm can be swapped for another; the signature is
  accepted by the library under the parts of exactly this key, and the claims are those of the signed text.
\<close>

theorem jws_accepted_iff:
  "verify_claims_against_jwks_with_allowed_algs E C token jwks allowed = Ok v \<longleftrightarrow>
     vj_alg v \<in> set allowed \<and> jws_signed E C token jwks (vj_alg v) (vj_kid v) (vj_typ v) (vj_claims v)"
  unfolding verify_claims_against_jwks_with_allowed_algs_def verify_inner_iff by simp

end
