(* ===== verification/Url_Value.thy ===== *)
theory Url_Value
  imports Prelude
begin

text \<open>
  A URL as the crate \<open>url\<close> presents it after parsing. \<open>Url::parse\<close> itself is a parameter
  (\<open>url_parse\<close>) of the definitions that call it; it lower-cases the scheme and drops a default
  port, so \<open>url_port\<close> is the port written in the text when it is not the scheme's own.
\<close>

datatype Host = Domain string | Ipv4 nat nat nat nat | Ipv6 "nat list"

record ParsedUrl =
  url_scheme :: string
  url_host :: "Host option"
  url_host_str :: "string option"
  url_port :: "nat option"
  url_path :: string
  url_query :: "string option"
  url_fragment :: "string option"

type_synonym url_parse = "string \<Rightarrow> ParsedUrl option"

text \<open>\<open>Ipv4Addr::is_loopback\<close> and \<open>Ipv6Addr::is_loopback\<close>, and the name \<open>localhost\<close>.\<close>

fun is_loopback_host :: "Host \<Rightarrow> bool" where
  "is_loopback_host (Domain host) \<longleftrightarrow> eq_ignore_ascii_case host ''localhost''"
| "is_loopback_host (Ipv4 a b c d) \<longleftrightarrow> a = 127"
| "is_loopback_host (Ipv6 segments) \<longleftrightarrow> segments = [0, 0, 0, 0, 0, 0, 0, 1]"

end
