(* ===== verification/Sts_Verify.thy ===== *)
theory Sts_Verify
  imports Sts_Jose Url_Value
begin

text \<open>
  The crate \<open>sts-verify\<close> (\<open>crates/sts-verify/src/lib.rs\<close>): trust-anchor configuration, OIDC
  discovery and JWKS fetching, and the verification of inbound subject tokens and of actor and
  client assertions. \<open>Url::parse\<close> and the HTTP client are parameters. Each reading of the system
  clock is an argument of the definition that takes it; \<open>i64\<close> arithmetic wraps as written.
\<close>

section \<open>Trust anchors\<close>

datatype TrustAnchorKind = IdpAnchor | ActorAnchor | ClientAnchor

fun anchor_kind_text :: "TrustAnchorKind \<Rightarrow> string" where
  "anchor_kind_text IdpAnchor = ''idp''"
| "anchor_kind_text ActorAnchor = ''actor''"
| "anchor_kind_text ClientAnchor = ''client''"

record TrustAnchorRef =
  ta_kind :: TrustAnchorKind
  ta_issuer :: "string option"
  ta_jwks_url :: "string option"
  ta_jwks_file :: "string option"

record VerificationPlan =
  vp_idp :: TrustAnchorRef
  vp_actor :: TrustAnchorRef
  vp_client :: TrustAnchorRef

datatype VerifyErrorKind =
    VInvalidIssuer | VInvalidUrl | VInvalidAnchor | VAnchorCollision | VInvalidToken | VInvalidClaims
  | VInvalidAudience | VInvalidLifetime | VKeyBindingMismatch | VDiscoveryFailed | VFetchFailed

fun verify_kind_code :: "VerifyErrorKind \<Rightarrow> string" where
  "verify_kind_code VInvalidIssuer = ''invalid_issuer''"
| "verify_kind_code VInvalidUrl = ''invalid_url''"
| "verify_kind_code VInvalidAnchor = ''invalid_anchor''"
| "verify_kind_code VAnchorCollision = ''anchor_collision''"
| "verify_kind_code VInvalidToken = ''invalid_token''"
| "verify_kind_code VInvalidClaims = ''invalid_claims''"
| "verify_kind_code VInvalidAudience = ''invalid_audience''"
| "verify_kind_code VInvalidLifetime = ''invalid_lifetime''"
| "verify_kind_code VKeyBindingMismatch = ''key_binding_mismatch''"
| "verify_kind_code VDiscoveryFailed = ''discovery_failed''"
| "verify_kind_code VFetchFailed = ''fetch_failed''"

record VerifyError =
  verify_kind :: VerifyErrorKind
  verify_message :: msg

abbreviation verify_error :: "VerifyErrorKind \<Rightarrow> msg \<Rightarrow> VerifyError" where
  "verify_error k m \<equiv> \<lparr>verify_kind = k, verify_message = m\<rparr>"

definition verify_error_text :: "VerifyError \<Rightarrow> msg" where
  "verify_error_text e = error_text (verify_kind_code (verify_kind e)) (verify_message e)"

record DiscoveryDocument =
  dd_issuer :: string
  dd_jwks_uri :: string

section \<open>Claims\<close>

record SubjectTokenClaims =
  st_iss :: string
  st_sub :: "string option"
  st_aud :: json
  st_scope :: "string option"
  st_scp :: "json option"
  st_exp :: int
  st_nbf :: "int option"
  st_iat :: "int option"
  st_act :: "json option"
  st_may_act :: "json option"
  st_auth_time :: "int option"
  st_acr :: "string option"
  st_amr :: "string list option"

record AssertionClaims =
  as_iss :: string
  as_sub :: string
  as_aud :: json
  as_exp :: int
  as_iat :: "int option"
  as_jti :: "string option"
  as_sub_tok_hash :: "string option"

record AssertionVerificationOptions =
  opt_expected_issuer :: string
  opt_expected_audiences :: "string list"
  opt_clock_skew_leeway :: int
  opt_max_ttl :: int
  opt_binding_subject_token :: "string option"
  opt_require_subject_binding :: bool
  opt_key_binding_registry :: "string set option"

definition SUBJECT_TOKEN_SIGNING_ALGS :: "string list" where
  "SUBJECT_TOKEN_SIGNING_ALGS = [''RS256'']"

definition LEGACY_ASSERTION_SIGNING_ALGS :: "string list" where
  "LEGACY_ASSERTION_SIGNING_ALGS = [''RS256'']"

definition subject_token_signing_algs :: "string list" where
  "subject_token_signing_algs = map (\<lambda>alg. alg) SUBJECT_TOKEN_SIGNING_ALGS"

section \<open>Issuers, JWKS URLs and the verification plan\<close>

definition validate_issuer :: "url_parse \<Rightarrow> string \<Rightarrow> (VerifyError, string) result" where
  "validate_issuer url value =
     (let trimmed = trim value in
      if trimmed = [] then Err (verify_error VInvalidIssuer (lit ''issuer must not be empty''))
      else if \<not> no_ws trimmed then
        Err (verify_error VInvalidIssuer (lit ''issuer must not contain whitespace''))
      else
        and_then (ok_or (url trimmed)
            (verify_error VInvalidIssuer [Lit ''issuer must be an absolute URL: '', Ext])) (\<lambda>parsed.
        if url_host_str parsed = None then
          Err (verify_error VInvalidIssuer (lit ''issuer must include a host''))
        else if url_query parsed \<noteq> None \<or> url_fragment parsed \<noteq> None then
          Err (verify_error VInvalidIssuer (lit ''issuer must not contain a query or fragment component''))
        else
          let is_loopback = (case url_host parsed of None \<Rightarrow> False | Some h \<Rightarrow> is_loopback_host h) in
          if url_scheme parsed \<noteq> ''https'' \<and> \<not> (url_scheme parsed = ''http'' \<and> is_loopback) then
            Err (verify_error VInvalidIssuer
              (lit ''issuer must use https, except http is allowed for loopback local development''))
          else Ok (trim_end_matches CHR ''/'' trimmed)))"

definition validate_jwks_url :: "string \<Rightarrow> (VerifyError, string) result" where
  "validate_jwks_url value =
     (let trimmed = trim value in
      if trimmed = [] then Err (verify_error VInvalidUrl (lit ''JWKS URL must not be empty''))
      else if \<not> starts_with trimmed ''https://'' then
        Err (verify_error VInvalidUrl (lit ''JWKS URL must use https://''))
      else if str_contains trimmed ''#'' then
        Err (verify_error VInvalidUrl (lit ''JWKS URL must not contain a fragment''))
      else Ok trimmed)"

definition build_anchor_ref ::
    "url_parse \<Rightarrow> TrustAnchorKind \<Rightarrow> string option \<Rightarrow> string option \<Rightarrow> string option \<Rightarrow>
     (VerifyError, TrustAnchorRef) result" where
  "build_anchor_ref url kind issuer jwks_url jwks_file =
     and_then (map_transpose (validate_issuer url) issuer) (\<lambda>issuer.
     and_then (map_transpose validate_jwks_url jwks_url) (\<lambda>jwks_url.
     let jwks_file = non_empty (map_option trim jwks_file) in
     if jwks_url = None \<and> jwks_file = None then
       Err (verify_error VInvalidAnchor
         (lit (anchor_kind_text kind @ '' anchor needs at least one JWKS source'')))
     else Ok \<lparr>ta_kind = kind, ta_issuer = issuer, ta_jwks_url = jwks_url, ta_jwks_file = jwks_file\<rparr>))"

definition require_distinct_actor_client_anchors ::
    "TrustAnchorRef \<Rightarrow> TrustAnchorRef \<Rightarrow> (VerifyError, unit) result" where
  "require_distinct_actor_client_anchors actor client =
     (if ta_jwks_file actor = ta_jwks_file client \<and> ta_jwks_url actor = ta_jwks_url client then
        Err (verify_error VAnchorCollision (lit ''actor and client anchors must remain distinct''))
      else Ok ())"

definition build_verification_plan ::
    "TrustAnchorRef \<Rightarrow> TrustAnchorRef \<Rightarrow> TrustAnchorRef \<Rightarrow> (VerifyError, VerificationPlan) result" where
  "build_verification_plan idp actor client =
     and_then (require_distinct_actor_client_anchors actor client) (\<lambda>_.
     Ok \<lparr>vp_idp = idp, vp_actor = actor, vp_client = client\<rparr>)"

section \<open>Discovery and JWKS fetching\<close>

text \<open>
  One HTTP exchange: \<open>None\<close> when \<open>send\<close> fails, otherwise the status code with the body read as
  the expected type, \<open>None\<close> when the JSON does not parse.
\<close>

record http_client =
  http_get_discovery :: "string \<Rightarrow> (nat \<times> DiscoveryDocument option) option"
  http_get_jwks :: "string \<Rightarrow> (nat \<times> JwksDocument option) option"

definition is_success_status :: "nat \<Rightarrow> bool" where
  "is_success_status status \<longleftrightarrow> 200 \<le> status \<and> status < 300"

definition discover_document ::
    "url_parse \<Rightarrow> http_client \<Rightarrow> string \<Rightarrow> (VerifyError, DiscoveryDocument) result" where
  "discover_document url http issuer =
     and_then (validate_issuer url issuer) (\<lambda>issuer.
     let discovery_url = trim_end_matches CHR ''/'' issuer @ ''/.well-known/openid-configuration'' in
     and_then (ok_or (http_get_discovery http discovery_url) (verify_error VDiscoveryFailed [Ext]))
       (\<lambda>(status, body).
     if \<not> is_success_status status then
       Err (verify_error VDiscoveryFailed [Lit ''OIDC discovery returned HTTP '', Ext])
     else ok_or body (verify_error VDiscoveryFailed [Lit ''invalid discovery JSON: '', Ext])))"

definition fetch_jwks :: "http_client \<Rightarrow> string \<Rightarrow> (VerifyError, JwksDocument) result" where
  "fetch_jwks http jwks_url =
     and_then (validate_jwks_url jwks_url) (\<lambda>jwks_url.
     and_then (ok_or (http_get_jwks http jwks_url) (verify_error VFetchFailed [Ext]))
       (\<lambda>(status, body).
     if \<not> is_success_status status then
       Err (verify_error VFetchFailed [Lit ''JWKS fetch returned HTTP '', Ext])
     else ok_or body (verify_error VFetchFailed [Lit ''invalid JWKS JSON: '', Ext])))"

definition resolve_idp_jwks ::
    "url_parse \<Rightarrow> http_client \<Rightarrow> string \<Rightarrow> string option \<Rightarrow> (VerifyError, JwksDocument) result" where
  "resolve_idp_jwks url http issuer explicit_jwks_uri =
     (case non_empty (map_option trim explicit_jwks_uri) of
        Some jwks_uri \<Rightarrow> fetch_jwks http jwks_uri
      | None \<Rightarrow>
          and_then (discover_document url http issuer) (\<lambda>discovery.
          and_then (validate_issuer url issuer) (\<lambda>expected.
          if trim_end_matches CHR ''/'' (dd_issuer discovery) \<noteq> expected then
            Err (verify_error VDiscoveryFailed
              (lit ''OIDC discovery issuer did not match configured issuer''))
          else fetch_jwks http (dd_jwks_uri discovery))))"

section \<open>Token checks\<close>

fun map_jose_error :: "JoseError \<Rightarrow> VerifyError" where
  "map_jose_error err =
     verify_error (case jose_kind err of
         JoseInvalidKey \<Rightarrow> VInvalidToken
       | JoseUnsupportedAlgorithm \<Rightarrow> VInvalidToken
       | JoseInvalidClaims \<Rightarrow> VInvalidClaims
       | JoseVerificationFailed \<Rightarrow> VInvalidToken
       | JoseInvalidCompactJws \<Rightarrow> VInvalidToken) (jose_message err)"

definition map_verify_error :: "VerifyError \<Rightarrow> VerifyError" where
  "map_verify_error err = err"

fun audience_matches :: "json \<Rightarrow> string \<Rightarrow> bool" where
  "audience_matches (JString value) expected \<longleftrightarrow> value = expected"
| "audience_matches (JArray values) expected \<longleftrightarrow> list_ex (\<lambda>item. as_str item = Some expected) values"
| "audience_matches _ expected \<longleftrightarrow> False"

definition ensure_audience_matches :: "json \<Rightarrow> string list \<Rightarrow> (VerifyError, unit) result" where
  "ensure_audience_matches aud expected =
     (if list_ex (audience_matches aud) expected then Ok ()
      else Err (verify_error VInvalidAudience (lit ''subject token audience not accepted'')))"

definition validate_time_window ::
    "int \<Rightarrow> int \<Rightarrow> int option \<Rightarrow> int \<Rightarrow> (VerifyError, unit) result" where
  "validate_time_window now expiry nbf clock_skew_leeway =
     (if i64_add expiry clock_skew_leeway < now then
        Err (verify_error VInvalidLifetime (lit ''token has expired''))
      else if (case nbf of None \<Rightarrow> False | Some nbf \<Rightarrow> now < i64_sub nbf clock_skew_leeway) then
        Err (verify_error VInvalidLifetime (lit ''token is not yet valid''))
      else Ok ())"

definition validate_assertion_lifetime ::
    "int \<Rightarrow> AssertionClaims \<Rightarrow> int \<Rightarrow> int \<Rightarrow> (VerifyError, unit) result" where
  "validate_assertion_lifetime now claims max_ttl clock_skew_leeway =
     (let cap = i64_add max_ttl clock_skew_leeway;
          span = (case as_iat claims of
                    Some iat \<Rightarrow> i64_sub (as_exp claims) iat
                  | None \<Rightarrow> i64_sub (as_exp claims) now)
      in if cap < span then
           Err (verify_error VInvalidLifetime (lit ''assertion lifetime exceeds the allowed maximum''))
         else Ok ())"

definition subject_token_hash :: "jose_ext \<Rightarrow> string \<Rightarrow> string" where
  "subject_token_hash E subject_token = b64_encode E (sha256 E subject_token)"

definition prefix_match :: "string \<Rightarrow> string \<Rightarrow> bool" where
  "prefix_match kid identity \<longleftrightarrow>
     kid = identity \<or>
     (case strip_prefix kid identity of
        None \<Rightarrow> False
      | Some rest \<Rightarrow> starts_with rest ''-'' \<or> starts_with rest ''/'' \<or> starts_with rest ''.'')"

definition kid_belongs_to_claimed_identity :: "string \<Rightarrow> string \<Rightarrow> string set \<Rightarrow> bool" where
  "kid_belongs_to_claimed_identity kid claimed_identity registry \<longleftrightarrow>
     (if kid = [] \<or> claimed_identity = [] then False
      else if \<not> prefix_match kid claimed_identity then False
      else \<not> (\<exists>other \<in> registry. other \<noteq> claimed_identity \<and>
                length claimed_identity < length other \<and> prefix_match kid other))"

section \<open>Subject tokens and assertions\<close>

definition verify_subject_token ::
    "jose_ext \<Rightarrow> url_parse \<Rightarrow> SubjectTokenClaims codec \<Rightarrow> int \<Rightarrow> string \<Rightarrow> JwksDocument \<Rightarrow> string \<Rightarrow>
     string list \<Rightarrow> int \<Rightarrow> (VerifyError, SubjectTokenClaims) result" where
  "verify_subject_token E url C now token jwks expected_issuer expected_audiences clock_skew_leeway =
     and_then (map_err map_jose_error
         (verify_claims_against_jwks_with_allowed_algs E C token jwks SUBJECT_TOKEN_SIGNING_ALGS)) (\<lambda>verified.
     let claims = vj_claims verified in
     and_then (map_err map_verify_error (validate_issuer url expected_issuer)) (\<lambda>expected_issuer.
     if st_iss claims \<noteq> expected_issuer then
       Err (verify_error VInvalidIssuer (lit (''unexpected issuer '' @ st_iss claims)))
     else
       and_then (validate_time_window now (st_exp claims) (st_nbf claims) clock_skew_leeway) (\<lambda>_.
       and_then (ensure_audience_matches (st_aud claims) expected_audiences) (\<lambda>_.
       Ok claims))))"

text \<open>\<open>now1\<close> is the clock in \<open>validate_time_window\<close>, \<open>now2\<close> in \<open>validate_assertion_lifetime\<close>.\<close>

definition verify_assertion_with_allowed_alg_refs ::
    "jose_ext \<Rightarrow> url_parse \<Rightarrow> AssertionClaims codec \<Rightarrow> int \<Rightarrow> int \<Rightarrow> string \<Rightarrow> JwksDocument \<Rightarrow> string list \<Rightarrow>
     AssertionVerificationOptions \<Rightarrow> (VerifyError, AssertionClaims) result" where
  "verify_assertion_with_allowed_alg_refs E url C now1 now2 token jwks allowed_algs options =
     and_then (map_err map_jose_error
         (verify_claims_against_jwks_with_allowed_algs E C token jwks allowed_algs)) (\<lambda>verified.
     let claims = vj_claims verified in
     and_then (map_err map_verify_error (validate_issuer url (opt_expected_issuer options))) (\<lambda>_.
     if as_iss claims \<noteq> as_sub claims then
       Err (verify_error VInvalidClaims (lit ''assertion iss and sub must match''))
     else if \<not> list_ex (audience_matches (as_aud claims)) (opt_expected_audiences options) then
       Err (verify_error VInvalidAudience
         (lit ''assertion audience does not identify this authorization server''))
     else if (case opt_key_binding_registry options of None \<Rightarrow> False
              | Some registry \<Rightarrow>
                  \<not> kid_belongs_to_claimed_identity (vj_kid verified) (as_sub claims) registry) then
       Err (verify_error VKeyBindingMismatch
         (lit ''assertion signing key does not belong to the claimed identity''))
     else
       and_then (validate_time_window now1 (as_exp claims) None (opt_clock_skew_leeway options)) (\<lambda>_.
       and_then (validate_assertion_lifetime now2 claims (opt_max_ttl options)
           (opt_clock_skew_leeway options)) (\<lambda>_.
       if opt_require_subject_binding options \<and>
          (case as_sub_tok_hash claims of None \<Rightarrow> [] | Some h \<Rightarrow> h) \<noteq>
          subject_token_hash E (case opt_binding_subject_token options of None \<Rightarrow> [] | Some t \<Rightarrow> t) then
         Err (verify_error VKeyBindingMismatch
           (lit ''assertion not bound to the presented subject token''))
       else Ok claims))))"

definition verify_assertion ::
    "jose_ext \<Rightarrow> url_parse \<Rightarrow> AssertionClaims codec \<Rightarrow> int \<Rightarrow> int \<Rightarrow> string \<Rightarrow> JwksDocument \<Rightarrow>
     AssertionVerificationOptions \<Rightarrow> (VerifyError, AssertionClaims) result" where
  "verify_assertion E url C now1 now2 token jwks options =
     verify_assertion_with_allowed_alg_refs E url C now1 now2 token jwks
       LEGACY_ASSERTION_SIGNING_ALGS options"

definition verify_assertion_with_allowed_algs ::
    "jose_ext \<Rightarrow> url_parse \<Rightarrow> AssertionClaims codec \<Rightarrow> int \<Rightarrow> int \<Rightarrow> string \<Rightarrow> JwksDocument \<Rightarrow> string list \<Rightarrow>
     AssertionVerificationOptions \<Rightarrow> (VerifyError, AssertionClaims) result" where
  "verify_assertion_with_allowed_algs E url C now1 now2 token jwks allowed_algs options =
     verify_assertion_with_allowed_alg_refs E url C now1 now2 token jwks allowed_algs options"

section \<open>Lemmas\<close>

lemma starts_with_iff: "starts_with s p \<longleftrightarrow> (\<exists>t. s = p @ t)"
  by (metis append_eq_conv_conj append_take_drop_id starts_with_def)

lemma starts_with_single [simp]: "starts_with s [c] \<longleftrightarrow> s \<noteq> [] \<and> hd s = c"
  by (cases s) (simp_all add: starts_with_def)

lemma prefix_match_iff:
  "prefix_match kid identity \<longleftrightarrow>
     kid = identity \<or> (\<exists>c t. kid = identity @ c # t \<and> c \<in> {CHR ''-'', CHR ''/'', CHR ''.''})"
proof -
  have "starts_with t ''-'' \<or> starts_with t ''/'' \<or> starts_with t ''.'' \<longleftrightarrow>
      (\<exists>c u. t = c # u \<and> c \<in> {CHR ''-'', CHR ''/'', CHR ''.''})" for t
    by (cases t) auto
  then show ?thesis
    unfolding prefix_match_def strip_prefix_def starts_with_iff by (auto split: if_splits)
qed

lemma prefix_match_prefix: "prefix_match kid identity \<Longrightarrow> take (length identity) kid = identity"
  by (auto simp: prefix_match_iff)

lemma trim_end_matches_ends: "trim_end_matches c s = t @ [c] \<longleftrightarrow> False"
proof -
  have "dropWhile (\<lambda>x. x = c) xs \<noteq> c # ys" for xs ys by (simp add: dropWhile_eq_Cons_conv)
  then show ?thesis unfolding trim_end_matches_def by (metis rev.simps(2) rev_append rev_rev_ident append_Cons append_Nil rev_singleton_conv)
qed

lemma validate_issuer_ok:
  "validate_issuer url v = Ok s \<longleftrightarrow>
     (\<exists>p. trim v \<noteq> [] \<and> no_ws (trim v) \<and> url (trim v) = Some p \<and> url_host_str p \<noteq> None \<and>
        url_query p = None \<and> url_fragment p = None \<and>
        (url_scheme p = ''https'' \<or> url_scheme p = ''http'' \<and>
           (case url_host p of None \<Rightarrow> False | Some h \<Rightarrow> is_loopback_host h)) \<and>
        s = trim_end_matches CHR ''/'' (trim v))"
  by (auto simp: validate_issuer_def result_iff Let_def split: if_splits)

lemma ensure_audience_ok:
  "ensure_audience_matches aud expected = Ok u \<longleftrightarrow> (\<exists>e \<in> set expected. audience_matches aud e)"
  by (auto simp: ensure_audience_matches_def list_ex_iff)

lemma audience_matches_iff:
  "audience_matches aud e \<longleftrightarrow> aud = JString e \<or> (\<exists>vs. aud = JArray vs \<and> JString e \<in> set vs)"
  by (cases aud) (auto simp: list_ex_iff)

lemma time_window_ok:
  "validate_time_window now expiry nbf leeway = Ok u \<longleftrightarrow>
     now \<le> i64_add expiry leeway \<and> (case nbf of None \<Rightarrow> True | Some n \<Rightarrow> i64_sub n leeway \<le> now)"
  by (auto simp: validate_time_window_def split: option.splits)

lemma lifetime_ok:
  "validate_assertion_lifetime now claims max_ttl leeway = Ok u \<longleftrightarrow>
     i64_sub (as_exp claims) (case as_iat claims of Some iat \<Rightarrow> iat | None \<Rightarrow> now) \<le> i64_add max_ttl leeway"
  by (auto simp: validate_assertion_lifetime_def Let_def split: option.splits)

lemma i64_add_leeway:
  assumes "in_i64 x" "0 \<le> leeway" "in_i64 leeway" "0 \<le> now"
  shows "now \<le> i64_add x leeway \<longleftrightarrow> now \<le> x + leeway \<and> x + leeway \<le> i64_max"
proof (cases "x + leeway \<le> i64_max")
  case True
  with assms have "in_i64 (x + leeway)" by (simp add: i64_bounds)
  with True show ?thesis by (simp add: i64_add_exact)
next
  case False
  with assms have "i64_add x leeway = x + leeway - 2 ^ 64" by (simp add: i64_add_overflow)
  moreover have "x + leeway - 2 ^ 64 < 0" using assms by (simp add: i64_bounds)
  ultimately show ?thesis using False assms(4) by auto
qed

section \<open>Properties\<close>

text \<open>
  The conditions of acceptance, without the checks of the code: what a configured issuer must look like, when
  the clock is in a validity window, which audiences a token is for, and whom a key identifier names. Sums and
  differences of times wrap at 64 bits, as in the code.
\<close>

definition issuer_wf :: "url_parse \<Rightarrow> string \<Rightarrow> bool" where
  "issuer_wf url v \<longleftrightarrow> trim v \<noteq> [] \<and> no_ws (trim v) \<and>
     (\<exists>p. url (trim v) = Some p \<and> url_host_str p \<noteq> None \<and> url_query p = None \<and> url_fragment p = None \<and>
        (url_scheme p = ''https'' \<or> url_scheme p = ''http'' \<and> (\<exists>h. url_host p = Some h \<and> is_loopback_host h)))"

definition in_window :: "int \<Rightarrow> int \<Rightarrow> int option \<Rightarrow> int \<Rightarrow> bool" where
  "in_window now expiry nbf leeway \<longleftrightarrow>
     now \<le> i64_add expiry leeway \<and> (case nbf of None \<Rightarrow> True | Some n \<Rightarrow> i64_sub n leeway \<le> now)"

definition for_audience :: "json \<Rightarrow> string list \<Rightarrow> bool" where
  "for_audience aud expected \<longleftrightarrow> (\<exists>e \<in> set expected. aud = JString e \<or> (\<exists>vs. aud = JArray vs \<and> JString e \<in> set vs))"

definition key_names :: "string \<Rightarrow> string \<Rightarrow> bool" where
  "key_names kid identity \<longleftrightarrow> kid = identity \<or> (\<exists>c t. kid = identity @ c # t \<and> c \<in> {CHR ''-'', CHR ''/'', CHR ''.''})"

definition key_owner :: "string set \<Rightarrow> string \<Rightarrow> string \<Rightarrow> bool" where
  "key_owner registry kid identity \<longleftrightarrow> kid \<noteq> [] \<and> identity \<noteq> [] \<and> key_names kid identity \<and>
     (\<forall>other \<in> registry. key_names kid other \<longrightarrow> length other \<le> length identity)"

lemma issuer_wf_iff: "validate_issuer url v = Ok s \<longleftrightarrow> issuer_wf url v \<and> s = trim_end_matches CHR ''/'' (trim v)"
  by (auto simp: validate_issuer_ok issuer_wf_def split: option.splits)

lemma in_window_iff: "validate_time_window now expiry nbf leeway = Ok u \<longleftrightarrow> in_window now expiry nbf leeway"
  unfolding in_window_def by (rule time_window_ok)

lemma key_owner_iff: "kid_belongs_to_claimed_identity kid identity registry \<longleftrightarrow> key_owner registry kid identity"
proof -
  have "prefix_match kid i \<longleftrightarrow> key_names kid i" for i unfolding prefix_match_iff key_names_def ..
  then show ?thesis by (auto simp: kid_belongs_to_claimed_identity_def key_owner_def not_less not_le)
qed

lemma no_owner: "(case r of None \<Rightarrow> False | Some x \<Rightarrow> \<not> P x) \<longleftrightarrow> \<not> (case r of None \<Rightarrow> True | Some x \<Rightarrow> P x)"
  by (cases r) simp_all

text \<open>What the checks see of a verified token are its claims and its key identifier.\<close>

lemma verified_iff:
  "(\<exists>v. verify_claims_against_jwks_with_allowed_algs E C tok jwks algs = Ok v \<and> P (vj_claims v) (vj_kid v)) \<longleftrightarrow>
     (\<exists>alg kid t c. alg \<in> set algs \<and> jws_signed E C tok jwks alg kid t c \<and> P c kid)"
  unfolding verify_claims_against_jwks_with_allowed_algs_def verify_inner_iff
  by simp (metis VerifiedJws.select_convs)

text \<open>
  C25: exactly when a subject token is accepted. It is signed with RS256 under the key of the identity
  provider's set that its header names; the configured issuer is well formed and, without white space around
  it and slashes at its end, it is the \<open>iss\<close> claim; the clock is not past \<open>exp\<close> plus the leeway and not
  before \<open>nbf\<close>, when present, less the leeway; and an expected audience is its \<open>aud\<close> or an element of it.
\<close>

theorem subject_token_accepted_iff:
  "verify_subject_token E url C now token jwks expected_issuer audiences leeway = Ok claims \<longleftrightarrow>
     (\<exists>kid t. jws_signed E C token jwks ''RS256'' kid t claims) \<and>
     issuer_wf url expected_issuer \<and> st_iss claims = trim_end_matches CHR ''/'' (trim expected_issuer) \<and>
     in_window now (st_exp claims) (st_nbf claims) leeway \<and> for_audience (st_aud claims) audiences"
proof -
  have "verify_subject_token E url C now token jwks expected_issuer audiences leeway = Ok claims \<longleftrightarrow>
      (\<exists>v. verify_claims_against_jwks_with_allowed_algs E C token jwks [''RS256''] = Ok v \<and> vj_claims v = claims) \<and>
      issuer_wf url expected_issuer \<and> st_iss claims = trim_end_matches CHR ''/'' (trim expected_issuer) \<and>
      in_window now (st_exp claims) (st_nbf claims) leeway \<and> for_audience (st_aud claims) audiences"
    unfolding verify_subject_token_def SUBJECT_TOKEN_SIGNING_ALGS_def
    by (auto simp: result_iff Let_def map_verify_error_def issuer_wf_iff in_window_iff ensure_audience_ok for_audience_def audience_matches_iff)
  then show ?thesis using verified_iff [of E C token jwks "[''RS256'']" "\<lambda>c _. c = claims"] by auto
qed


text \<open>
  C33: the validity window on machine integers. With a non-negative leeway, an expiry is accepted
  exactly up to \<open>exp + leeway\<close>; when that sum leaves the 64-bit range the addition wraps to a
  negative number and the token is refused.
\<close>

theorem time_window_exact:
  assumes "in_i64 expiry" "0 \<le> leeway" "in_i64 leeway" "0 \<le> now"
    and "case nbf of None \<Rightarrow> True | Some n \<Rightarrow> in_i64 (n - leeway)"
  shows "validate_time_window now expiry nbf leeway = Ok () \<longleftrightarrow>
     now \<le> expiry + leeway \<and> expiry + leeway \<le> i64_max \<and>
     (case nbf of None \<Rightarrow> True | Some n \<Rightarrow> n - leeway \<le> now)"
  using assms by (auto simp: time_window_ok i64_add_leeway i64_sub_exact split: option.splits)

theorem time_window_exact_witness:
  "validate_time_window 105 100 (Some 110) 5 = Ok () \<and> (105::int) \<le> 100 + 5 \<and> (110::int) - 5 \<le> 105"
  using time_window_exact [of 100 5 105 "Some 110"] by (simp add: i64_bounds)

text \<open>
  Key binding is unambiguous. A key identifier belongs to at most one registered identity,
  even when one identity is a prefix of another.
\<close>

theorem kid_identity_unique:
  assumes "a \<in> registry" "b \<in> registry"
    and "kid_belongs_to_claimed_identity kid a registry" "kid_belongs_to_claimed_identity kid b registry"
  shows "a = b"
proof -
  from assms have pm: "prefix_match kid a" "prefix_match kid b"
    and "\<not> length a < length b" "\<not> length b < length a"
    by (auto simp: kid_belongs_to_claimed_identity_def split: if_splits)
  then have "length a = length b" by simp
  with pm show ?thesis using prefix_match_prefix by metis
qed

theorem kid_identity_unique_witness:
  "kid_belongs_to_claimed_identity ''svc-a-1'' ''svc-a'' {''svc'', ''svc-a''} \<and>
   \<not> kid_belongs_to_claimed_identity ''svc-a-1'' ''svc'' {''svc'', ''svc-a''}"
proof -
  have ok: "kid_belongs_to_claimed_identity ''svc-a-1'' ''svc-a'' {''svc'', ''svc-a''}"
    by (simp add: kid_belongs_to_claimed_identity_def prefix_match_def strip_prefix_def starts_with_def)
  with kid_identity_unique [of "''svc-a''" "{''svc'', ''svc-a''}" "''svc''" "''svc-a-1''"]
  show ?thesis by auto
qed

text \<open>
  The assertion lifetime cap. An assertion whose \<open>iat\<close> is absent or not in the future is
  refused once its expiry is further from the clock than the maximum lifetime plus the leeway.
\<close>

theorem assertion_lifetime_bounded:
  assumes "validate_assertion_lifetime now claims max_ttl leeway = Ok ()"
    and "case as_iat claims of None \<Rightarrow> True | Some iat \<Rightarrow> iat \<le> now"
    and "in_i64 (as_exp claims - (case as_iat claims of None \<Rightarrow> now | Some iat \<Rightarrow> iat))"
    and "in_i64 (max_ttl + leeway)"
  shows "as_exp claims - now \<le> max_ttl + leeway"
  using assms by (auto simp: lifetime_ok i64_sub_exact i64_add_exact split: option.splits)

definition sample_assertion :: "int \<Rightarrow> int option \<Rightarrow> AssertionClaims" where
  "sample_assertion x iat = \<lparr>as_iss = ''svc'', as_sub = ''svc'', as_aud = JString ''sts'', as_exp = x, as_iat = iat,
     as_jti = Some ''j1'', as_sub_tok_hash = None\<rparr>"

theorem assertion_lifetime_bounded_witness:
  "validate_assertion_lifetime 100 (sample_assertion 160 (Some 95)) 60 5 = Ok () \<and> 160 - (100::int) \<le> 60 + 5"
proof -
  have "validate_assertion_lifetime 100 (sample_assertion 160 (Some 95)) 60 5 = Ok ()"
    by (simp add: lifetime_ok sample_assertion_def i64_sub_exact i64_add_exact i64_bounds)
  with assertion_lifetime_bounded [of 100 "sample_assertion 160 (Some 95)" 60 5]
  show ?thesis by (simp add: sample_assertion_def i64_bounds)
qed

text \<open>
  C39: the cap trusts \<open>iat\<close>. Nothing checks \<open>iat\<close> against the clock, so an assertion that claims
  to be issued at its own expiry passes the lifetime cap and the validity window however far away
  that expiry is.
\<close>

theorem assertion_lifetime_cap_bypass:
  "\<exists>claims. as_exp claims - now \<ge> 100 * 365 * 86400 \<and>
     validate_time_window now (as_exp claims) None 60 = Ok () \<and>
     validate_assertion_lifetime now claims 300 60 = Ok ()"
  if "0 \<le> now" "now \<le> 2 ^ 62"
proof -
  let ?c = "sample_assertion (now + 100 * 365 * 86400) (Some (now + 100 * 365 * 86400))"
  have "validate_time_window now (as_exp ?c) None 60 = Ok ()"
    using that by (simp add: time_window_ok sample_assertion_def i64_add_exact i64_bounds)
  moreover have "validate_assertion_lifetime now ?c 300 60 = Ok ()"
    using that by (simp add: lifetime_ok sample_assertion_def i64_sub_exact i64_add_exact i64_bounds)
  ultimately show ?thesis by (intro exI [of _ ?c]) (simp add: sample_assertion_def)
qed

theorem assertion_lifetime_cap_bypass_witness:
  "\<exists>claims. as_exp claims - 1700000000 \<ge> 100 * 365 * 86400 \<and>
     validate_time_window 1700000000 (as_exp claims) None 60 = Ok () \<and>
     validate_assertion_lifetime 1700000000 claims 300 60 = Ok ()"
  using assertion_lifetime_cap_bypass [of 1700000000] by simp

text \<open>
  Discovery is pinned to the configured issuer. Without an explicit JWKS URI, keys are
  returned only when the issuer is valid, the discovery document was served from its well-known
  path and names the same issuer, and the key set came from the https URL in that document.
\<close>

theorem discovery_pins_issuer:
  "case resolve_idp_jwks url http issuer None of
     Inl _ \<Rightarrow> True
   | Inr jwks \<Rightarrow> \<exists>iss doc u s s'. validate_issuer url issuer = Ok iss \<and>
       http_get_discovery http (iss @ ''/.well-known/openid-configuration'') = Some (s, Some doc) \<and>
       trim_end_matches CHR ''/'' (dd_issuer doc) = iss \<and>
       u = trim (dd_jwks_uri doc) \<and> starts_with u ''https://'' \<and>
       http_get_jwks http u = Some (s', Some jwks) \<and> is_success_status s \<and> is_success_status s'"
proof (cases "resolve_idp_jwks url http issuer None")
  case (Inr jwks)
  then obtain iss doc s where *: "validate_issuer url issuer = Ok iss"
    "http_get_discovery http (trim_end_matches CHR ''/'' iss @ ''/.well-known/openid-configuration'') = Some (s, Some doc)"
    "trim_end_matches CHR ''/'' (dd_issuer doc) = iss" "is_success_status s" "fetch_jwks http (dd_jwks_uri doc) = Ok jwks"
    by (auto simp: resolve_idp_jwks_def discover_document_def non_empty_def result_iff Let_def split: if_splits)
  from *(5) obtain s' where "starts_with (trim (dd_jwks_uri doc)) ''https://''" "is_success_status s'"
    "http_get_jwks http (trim (dd_jwks_uri doc)) = Some (s', Some jwks)"
    by (auto simp: fetch_jwks_def validate_jwks_url_def result_iff Let_def split: if_splits)
  moreover from *(1) have "trim_end_matches CHR ''/'' iss = iss"
    by (auto simp: validate_issuer_ok trim_end_matches_idem)
  ultimately show ?thesis using Inr * by auto
qed simp

end
