(* ===== verification/Sts_Config.thy ===== *)
theory Sts_Config
  imports Sts_Verify "HOL-Library.Char_ord" "HOL-Library.List_Lexorder"
begin

text \<open>
  The crate \<open>sts-config\<close> (\<open>crates/sts-config/src/lib.rs\<close>): the runtime configuration read from an
  environment map, the target policy and the impersonation policy. Parameters are \<open>Url::parse\<close>,
  JSON parsing and the file read behind \<open>TARGET_POLICY_FILE\<close>. A \<open>BTreeSet<String>\<close> is a set of
  strings (iterated in byte order), a \<open>BTreeMap\<close> built from a JSON object is the association list
  in the object's key order, and a path is its text.
\<close>

section \<open>Data\<close>

definition DEFAULT_ISSUER :: string where "DEFAULT_ISSUER = ''http://localhost:8888/''"
definition DEFAULT_KID :: string where "DEFAULT_KID = ''sts-delegate-key-1''"
definition DEFAULT_SECRETS_DIR :: string where "DEFAULT_SECRETS_DIR = ''./secrets''"
definition DEFAULT_HTTP_ADDR :: string where "DEFAULT_HTTP_ADDR = ''127.0.0.1:8888''"
definition DEFAULT_CLOCK_SKEW_LEEWAY :: int where "DEFAULT_CLOCK_SKEW_LEEWAY = 30"
definition DEFAULT_SCOPED_TOKEN_TTL :: int where "DEFAULT_SCOPED_TOKEN_TTL = 300"
definition DEFAULT_JWKS_CACHE_MAX_AGE :: int where "DEFAULT_JWKS_CACHE_MAX_AGE = 300"
definition DEFAULT_ASSERTION_MAX_TTL :: int where "DEFAULT_ASSERTION_MAX_TTL = 300"
definition DEFAULT_MAX_SEEN_JTI :: nat where "DEFAULT_MAX_SEEN_JTI = 100000"
definition DEFAULT_MAX_TOKEN_LEN :: nat where "DEFAULT_MAX_TOKEN_LEN = 8192"
definition CONFIG_DEFAULT_STS_SIGNING_ALG :: string where "CONFIG_DEFAULT_STS_SIGNING_ALG = ''ML-DSA-65''"
definition DEFAULT_PQC_PREFERRED_ALGS :: string where
  "DEFAULT_PQC_PREFERRED_ALGS = ''ML-DSA-65,ML-DSA-87,ML-DSA-44''"
definition DEFAULT_PQC_PREFERRED :: bool where "DEFAULT_PQC_PREFERRED = True"
definition DEFAULT_INBOUND_ASSERTION_ALG :: string where "DEFAULT_INBOUND_ASSERTION_ALG = ''ML-DSA-65''"
definition DEFAULT_INBOUND_PQC_PREFERRED :: bool where "DEFAULT_INBOUND_PQC_PREFERRED = True"

datatype ConfigErrorKind = MissingEnv | InvalidValue | InvalidJson | InvalidPolicy | NotFound

fun config_kind_code :: "ConfigErrorKind \<Rightarrow> string" where
  "config_kind_code MissingEnv = ''missing_env''"
| "config_kind_code InvalidValue = ''invalid_value''"
| "config_kind_code InvalidJson = ''invalid_json''"
| "config_kind_code InvalidPolicy = ''invalid_policy''"
| "config_kind_code NotFound = ''not_found''"

record ConfigError =
  config_kind :: ConfigErrorKind
  config_key :: "string option"
  config_message :: msg

abbreviation config_error :: "ConfigErrorKind \<Rightarrow> string \<Rightarrow> msg \<Rightarrow> ConfigError" where
  "config_error k key m \<equiv> \<lparr>config_kind = k, config_key = Some key, config_message = m\<rparr>"

definition config_error_text :: "ConfigError \<Rightarrow> msg" where
  "config_error_text e =
     error_text (config_kind_code (config_kind e) @ (case config_key e of None \<Rightarrow> [] | Some key \<Rightarrow> ''('' @ key @ '')''))
       (config_message e)"

datatype TokenExchangeMode = Delegation | Impersonation | Both

datatype ClientAuthPolicy = Auto | PrivateKeyJwtRequired | ActorTokenAllowed

datatype ReplayBackend = MemoryBackend | FileBackend string

record TargetPolicyEntry =
  allowed_scopes :: "string set"
  default_scopes :: "string set"
  accepted_token_signing_algs :: "string set"
  pqc_required :: bool

type_synonym TargetPolicy = "(string \<times> TargetPolicyEntry) list"

definition target_policy_get :: "TargetPolicy \<Rightarrow> string \<Rightarrow> TargetPolicyEntry option" where
  "target_policy_get policy audience = map_of policy audience"

datatype ImpersonationSelector = AnyValue | Values "string set"

fun selector_allows :: "ImpersonationSelector \<Rightarrow> string \<Rightarrow> bool" where
  "selector_allows AnyValue value \<longleftrightarrow> True"
| "selector_allows (Values values) value \<longleftrightarrow> value \<in> values"

record ImpersonationPolicyEntry =
  imp_targets :: ImpersonationSelector
  imp_subjects :: ImpersonationSelector

type_synonym ImpersonationPolicy = "(string \<times> ImpersonationPolicyEntry) list"

type_synonym ConfigSource = "string \<Rightarrow> string option"

definition from_pairs :: "(string \<times> string) list \<Rightarrow> ConfigSource" where
  "from_pairs pairs = map_of (rev pairs)"

record config_env =
  ce_url :: url_parse
  ce_json :: "string \<Rightarrow> json option"
  ce_read_file :: "string \<Rightarrow> string option"

record RuntimeConfig =
  idp_issuer :: string
  expected_subject_aud :: "string set"
  our_issuer :: string
  our_kid :: string
  sts_secrets_dir :: string
  obo_sts_key_file :: string
  idp_jwks_file :: "string option"
  idp_jwks_uri :: "string option"
  actor_jwks_file :: string
  client_jwks_file :: string
  obo_sts_extra_jwks_file :: "string option"
  actor_ids :: "string set"
  actor_id :: string
  client_ids :: "string set"
  token_exchange_mode :: TokenExchangeMode
  client_auth_policy :: ClientAuthPolicy
  impersonation_policy :: ImpersonationPolicy
  target_policy :: TargetPolicy
  sts_signing_alg :: string
  pqc_preferred :: bool
  allow_non_pqc :: bool
  pqc_preferred_algs :: "string list"
  inbound_pqc_preferred :: bool
  allow_non_pqc_inbound :: bool
  inbound_assertion_algs :: "string list"
  sts_signing_provider :: string
  sts_signing_public_jwks_file :: "string option"
  mock_external_signer_key_file :: "string option"
  clock_skew_leeway :: int
  scoped_token_ttl :: int
  jwks_cache_max_age :: int
  assertion_max_ttl :: int
  max_seen_jti :: nat
  replay_backend :: ReplayBackend
  max_token_len :: nat
  require_subject_binding :: bool
  subject_scope_bound_required :: bool
  allow_insecure_jwks :: bool
  allow_insecure_actor_jwks :: bool
  allow_insecure_client_jwks :: bool
  allow_insecure_key_file :: bool
  allow_insecure_http_bind :: bool
  actor_jwks_sha256 :: "string option"
  client_jwks_sha256 :: "string option"
  http_addr :: string
  enable_metrics :: bool
  log_format_json :: bool
  log_level :: string
  audit_hash_chain :: bool

section \<open>Scalar settings\<close>

text \<open>\<open>source.get(key).map(str::trim).filter(|value| !value.is_empty())\<close>.\<close>

definition get_trimmed :: "ConfigSource \<Rightarrow> string \<Rightarrow> string option" where
  "get_trimmed source key = non_empty (map_option trim (source key))"

definition unwrap_or :: "'a option \<Rightarrow> 'a \<Rightarrow> 'a" where
  "unwrap_or v d = (case v of None \<Rightarrow> d | Some x \<Rightarrow> x)"

definition or_else :: "'a option \<Rightarrow> 'a option \<Rightarrow> 'a option" where
  "or_else v w = (case v of None \<Rightarrow> w | Some x \<Rightarrow> Some x)"

text \<open>\<open>Path::join\<close> with a relative file name.\<close>

definition path_join :: "string \<Rightarrow> string \<Rightarrow> string" where
  "path_join d name =
     (if d = [] then name else if last d = CHR ''/'' then d @ name else d @ ''/'' @ name)"

definition split_csv_vec :: "string \<Rightarrow> string list" where
  "split_csv_vec raw = filter (\<lambda>value. value \<noteq> []) (map trim (split_on CHR '','' raw))"

definition split_csv_set :: "string \<Rightarrow> string set" where
  "split_csv_set raw = set (split_csv_vec raw)"

definition config_validate_issuer :: "url_parse \<Rightarrow> string \<Rightarrow> string \<Rightarrow> (ConfigError, string) result" where
  "config_validate_issuer url value key =
     (let trimmed = trim value in
      if trimmed = [] then Err (config_error InvalidValue key (lit ''issuer must not be empty''))
      else if \<not> no_ws trimmed then
        Err (config_error InvalidValue key (lit ''issuer must not contain whitespace''))
      else
        and_then (ok_or (url trimmed)
            (config_error InvalidValue key [Lit ''issuer must be an absolute URL: '', Ext])) (\<lambda>parsed.
        if url_host_str parsed = None then
          Err (config_error InvalidValue key (lit ''issuer must include a host''))
        else if url_query parsed \<noteq> None \<or> url_fragment parsed \<noteq> None then
          Err (config_error InvalidValue key (lit ''issuer must not contain a query or fragment component''))
        else
          let is_loopback = (case url_host parsed of None \<Rightarrow> False | Some h \<Rightarrow> is_loopback_host h) in
          if url_scheme parsed \<noteq> ''https'' \<and> \<not> (url_scheme parsed = ''http'' \<and> is_loopback) then
            Err (config_error InvalidValue key
              (lit ''issuer must use https, except http is allowed for loopback local development''))
          else Ok (trim_end_matches CHR ''/'' trimmed)))"

definition require_issuer :: "url_parse \<Rightarrow> ConfigSource \<Rightarrow> (ConfigError, string) result" where
  "require_issuer url source =
     (case source ''IDP_ISSUER'' of
        Some value \<Rightarrow> config_validate_issuer url value ''IDP_ISSUER''
      | None \<Rightarrow>
          (case source ''OKTA_ISSUER'' of
             Some value \<Rightarrow> config_validate_issuer url value ''OKTA_ISSUER''
           | None \<Rightarrow> Err (config_error MissingEnv ''IDP_ISSUER''
               (lit ''set IDP_ISSUER (or OKTA_ISSUER) to the OIDC issuer that signs subject tokens''))))"

definition require_expected_aud :: "ConfigSource \<Rightarrow> (ConfigError, string set) result" where
  "require_expected_aud source =
     and_then (ok_or (source ''EXPECTED_SUBJECT_AUD'') (config_error MissingEnv ''EXPECTED_SUBJECT_AUD''
         (lit ''set EXPECTED_SUBJECT_AUD to the subject-token audience''))) (\<lambda>raw.
     let values = split_csv_set raw in
     if values = {} then
       Err (config_error InvalidValue ''EXPECTED_SUBJECT_AUD''
         (lit ''EXPECTED_SUBJECT_AUD contains no non-empty entries''))
     else Ok values)"

definition parse_actor_ids :: "ConfigSource \<Rightarrow> (ConfigError, string set) result" where
  "parse_actor_ids source =
     (let ids = split_csv_set (unwrap_or (source ''ACTOR_IDS'') '''');
          ids = (case get_trimmed source ''GATEWAY_ACTOR_ID'' of None \<Rightarrow> ids | Some single \<Rightarrow> insert single ids)
      in if ids = {} then
           Err (config_error MissingEnv ''ACTOR_IDS''
             (lit ''set ACTOR_IDS (or GATEWAY_ACTOR_ID) to at least one actor identity''))
         else Ok ids)"

definition parse_client_ids :: "ConfigSource \<Rightarrow> string set \<Rightarrow> string set" where
  "parse_client_ids source actors =
     (let ids = split_csv_set (unwrap_or (source ''CLIENT_IDS'') '''') in
      if ids = {} then ids \<union> actors else ids)"

definition parse_token_exchange_mode :: "ConfigSource \<Rightarrow> (ConfigError, TokenExchangeMode) result" where
  "parse_token_exchange_mode source =
     (let raw = unwrap_or (source ''STS_TOKEN_EXCHANGE_MODE'') ''delegation'';
          other = to_ascii_lowercase (trim raw)
      in if other = ''delegation'' then Ok Delegation
         else if other = ''impersonation'' then Ok Impersonation
         else if other = ''both'' then Ok Both
         else Err (config_error InvalidValue ''STS_TOKEN_EXCHANGE_MODE''
                [Lit ''must be delegation, impersonation, or both; got '', Dbg other]))"

definition parse_client_auth_policy :: "ConfigSource \<Rightarrow> (ConfigError, ClientAuthPolicy) result" where
  "parse_client_auth_policy source =
     (let raw = unwrap_or (source ''CLIENT_AUTH_POLICY'') ''auto'';
          other = to_ascii_lowercase (trim raw)
      in if other = ''auto'' \<or> other = ''actor_token_allowed'' then Ok Auto
         else if other = ''private_key_jwt_required'' then Ok PrivateKeyJwtRequired
         else Err (config_error InvalidValue ''CLIENT_AUTH_POLICY''
                [Lit ''must be auto, actor_token_allowed, or private_key_jwt_required; got '', Dbg other]))"

definition parse_replay_backend :: "ConfigSource \<Rightarrow> (ConfigError, ReplayBackend) result" where
  "parse_replay_backend source =
     (let raw = unwrap_or (source ''STS_REPLAY_BACKEND'') ''memory'';
          other = to_ascii_lowercase (trim raw)
      in if other = '''' \<or> other = ''memory'' \<or> other = ''in_memory'' then Ok MemoryBackend
         else if other = ''file'' then
           and_then (ok_or (get_trimmed source ''STS_REPLAY_DIR'') (config_error MissingEnv ''STS_REPLAY_DIR''
               (lit ''set STS_REPLAY_DIR when STS_REPLAY_BACKEND=file''))) (\<lambda>raw_dir.
           Ok (FileBackend raw_dir))
         else Err (config_error InvalidValue ''STS_REPLAY_BACKEND''
                [Lit ''must be memory or file; got '', Dbg other]))"

definition parse_log_level :: "ConfigSource \<Rightarrow> string" where
  "parse_log_level source = trim (unwrap_or (source ''LOG_LEVEL'') ''info'')"

definition parse_bool :: "ConfigSource \<Rightarrow> string \<Rightarrow> bool \<Rightarrow> bool" where
  "parse_bool source key dflt =
     unwrap_or (map_option (\<lambda>value. eq_ignore_ascii_case (trim value) ''true'') (source key)) dflt"

definition parse_bool_with_fallback :: "ConfigSource \<Rightarrow> string \<Rightarrow> string \<Rightarrow> bool \<Rightarrow> bool" where
  "parse_bool_with_fallback source key fallback_key dflt =
     unwrap_or (map_option (\<lambda>value. eq_ignore_ascii_case (trim value) ''true'')
       (or_else (source key) (source fallback_key))) dflt"

definition parse_allow_non_pqc :: "ConfigSource \<Rightarrow> bool" where
  "parse_allow_non_pqc source =
     (let pqc = parse_bool source ''STS_PQC_PREFERRED'' DEFAULT_PQC_PREFERRED in
      parse_bool source ''STS_ALLOW_NON_PQC'' (\<not> pqc))"

definition parse_pqc_preferred_algs :: "ConfigSource \<Rightarrow> (ConfigError, string list) result" where
  "parse_pqc_preferred_algs source =
     (let raw = unwrap_or (source ''STS_PQC_PREFERRED_ALGS'') DEFAULT_PQC_PREFERRED_ALGS;
          algs = split_csv_vec raw
      in if algs = [] then
           Err (config_error InvalidValue ''STS_PQC_PREFERRED_ALGS''
             (lit ''STS_PQC_PREFERRED_ALGS must contain at least one algorithm''))
         else Ok algs)"

definition parse_allow_non_pqc_inbound :: "ConfigSource \<Rightarrow> bool \<Rightarrow> bool" where
  "parse_allow_non_pqc_inbound source inbound_pqc =
     parse_bool source ''STS_ALLOW_NON_PQC_INBOUND'' (\<not> inbound_pqc)"

definition is_pqc_inbound_assertion_alg :: "string \<Rightarrow> bool" where
  "is_pqc_inbound_assertion_alg alg \<longleftrightarrow> alg \<in> {''ML-DSA-44'', ''ML-DSA-65'', ''ML-DSA-87''}"

definition is_supported_inbound_assertion_alg :: "string \<Rightarrow> bool" where
  "is_supported_inbound_assertion_alg alg \<longleftrightarrow> alg = ''RS256'' \<or> is_pqc_inbound_assertion_alg alg"

text \<open>\<open>retain\<close> with a set of the values already seen.\<close>

fun retain_unseen :: "string set \<Rightarrow> string list \<Rightarrow> string list" where
  "retain_unseen seen [] = []"
| "retain_unseen seen (v # vs) =
     (if v \<in> seen then retain_unseen seen vs else v # retain_unseen (insert v seen) vs)"

definition dedup_preserving_order :: "string list \<Rightarrow> string list" where
  "dedup_preserving_order values = retain_unseen {} values"

definition parse_inbound_assertion_algs ::
    "ConfigSource \<Rightarrow> bool \<Rightarrow> bool \<Rightarrow> (ConfigError, string list) result" where
  "parse_inbound_assertion_algs source inbound_pqc allow_non_pqc_in =
     (let algs = (case get_trimmed source ''STS_INBOUND_ASSERTION_ALGS'' of
            Some raw \<Rightarrow> split_csv_vec raw
          | None \<Rightarrow> (if inbound_pqc then [DEFAULT_INBOUND_ASSERTION_ALG] else []) @
                   (if allow_non_pqc_in then [''RS256''] else []));
          algs = dedup_preserving_order algs
      in if algs = [] then
           Err (config_error InvalidValue ''STS_INBOUND_ASSERTION_ALGS''
             (lit ''STS_INBOUND_ASSERTION_ALGS must contain at least one algorithm''))
         else case find (\<lambda>alg. \<not> is_supported_inbound_assertion_alg alg) algs of
           Some alg \<Rightarrow> Err (config_error InvalidValue ''STS_INBOUND_ASSERTION_ALGS''
             (lit (''unsupported inbound assertion signing algorithm '' @ alg)))
         | None \<Rightarrow>
             if list_ex (\<lambda>alg. alg = ''RS256'') algs \<and> \<not> allow_non_pqc_in then
               Err (config_error InvalidValue ''STS_INBOUND_ASSERTION_ALGS''
                 (lit ''RS256 inbound assertions require STS_ALLOW_NON_PQC_INBOUND=true''))
             else if \<not> allow_non_pqc_in \<and> \<not> list_ex is_pqc_inbound_assertion_alg algs then
               Err (config_error InvalidValue ''STS_INBOUND_ASSERTION_ALGS''
                 (lit ''non-PQC inbound assertions are disabled, but no PQC assertion algorithm is configured''))
             else Ok algs)"

definition out_of_range :: "'a::linorder \<Rightarrow> 'a option \<Rightarrow> 'a option \<Rightarrow> bool" where
  "out_of_range value minimum maximum \<longleftrightarrow>
     (case minimum of None \<Rightarrow> False | Some lo \<Rightarrow> value < lo) \<or>
     (case maximum of None \<Rightarrow> False | Some hi \<Rightarrow> hi < value)"

definition parse_env_int ::
    "ConfigSource \<Rightarrow> string \<Rightarrow> int \<Rightarrow> int option \<Rightarrow> int option \<Rightarrow> (ConfigError, int) result" where
  "parse_env_int source key dflt minimum maximum =
     (let raw = unwrap_or (source key) '''';
          raw = (if raw = [] then display_i64 dflt else raw)
      in and_then (ok_or (parse_i64 (trim raw))
             (config_error InvalidValue key (lit (key @ '' must be an integer'')))) (\<lambda>value.
         if out_of_range value minimum maximum then
           Err (config_error InvalidValue key (lit (key @ '' out of range'')))
         else Ok value))"

definition parse_env_usize ::
    "ConfigSource \<Rightarrow> string \<Rightarrow> nat \<Rightarrow> nat option \<Rightarrow> nat option \<Rightarrow> (ConfigError, nat) result" where
  "parse_env_usize source key dflt minimum maximum =
     (let raw = unwrap_or (source key) '''';
          raw = (if raw = [] then display_nat dflt else raw)
      in and_then (ok_or (parse_usize (trim raw))
             (config_error InvalidValue key (lit (key @ '' must be a non-negative integer'')))) (\<lambda>value.
         if out_of_range value minimum maximum then
           Err (config_error InvalidValue key (lit (key @ '' out of range'')))
         else Ok value))"

section \<open>Policies\<close>

definition collect_strings ::
    "string \<Rightarrow> string \<Rightarrow> (string \<Rightarrow> (ConfigError, string) result) \<Rightarrow> json list \<Rightarrow> (ConfigError, string set) result" where
  "collect_strings owner not_string check values =
     map_ok set (collect_results (\<lambda>item.
       and_then (ok_or (as_str item) (config_error InvalidPolicy owner (lit not_string))) check) values)"

definition parse_scopes :: "string \<Rightarrow> string \<Rightarrow> json option \<Rightarrow> (ConfigError, string set) result" where
  "parse_scopes aud key value =
     (case value of
        None \<Rightarrow> Ok {}
      | Some value \<Rightarrow>
          and_then (ok_or (as_array value)
              (config_error InvalidPolicy aud (lit (key @ '' must be a JSON array of strings'')))) (\<lambda>arr.
          collect_strings aud (key @ '' must contain only strings'') (\<lambda>scp. Ok scp) arr))"

definition parse_string_set :: "string \<Rightarrow> string \<Rightarrow> json option \<Rightarrow> (ConfigError, string set) result" where
  "parse_string_set aud key value =
     (case value of
        None \<Rightarrow> Ok {}
      | Some value \<Rightarrow>
          and_then (ok_or (as_array value)
              (config_error InvalidPolicy aud (lit (key @ '' must be a JSON array of strings'')))) (\<lambda>arr.
          collect_strings aud (key @ '' must contain only strings'') (\<lambda>item.
            let item = trim item in
            if item = [] then
              Err (config_error InvalidPolicy aud (lit (key @ '' must not contain empty strings'')))
            else Ok item) arr))"

definition parse_policy_bool :: "string \<Rightarrow> string \<Rightarrow> json option \<Rightarrow> (ConfigError, bool) result" where
  "parse_policy_bool aud key value =
     (case value of
        None \<Rightarrow> Ok False
      | Some value \<Rightarrow> ok_or (as_bool value)
          (config_error InvalidPolicy aud (lit (key @ '' must be a boolean''))))"

definition parse_target_entry :: "string \<Rightarrow> json \<Rightarrow> (ConfigError, TargetPolicyEntry) result" where
  "parse_target_entry aud policy =
     and_then (ok_or (as_object policy)
         (config_error InvalidPolicy aud (lit ''target policy entry must be an object''))) (\<lambda>entry.
     and_then (parse_scopes aud ''allowed_scopes''
         (or_else (obj_get entry ''allowed_scopes'') (obj_get entry ''scopes''))) (\<lambda>allowed.
     and_then (parse_scopes aud ''default_scopes'' (obj_get entry ''default_scopes'')) (\<lambda>defaults.
     and_then (parse_string_set aud ''accepted_token_signing_algs''
         (obj_get entry ''accepted_token_signing_algs'')) (\<lambda>algs.
     and_then (parse_policy_bool aud ''pqc_required'' (obj_get entry ''pqc_required'')) (\<lambda>pqc.
     Ok \<lparr>allowed_scopes = allowed, default_scopes = defaults, accepted_token_signing_algs = algs,
         pqc_required = pqc\<rparr>)))))"

definition normalize_target_policy :: "json \<Rightarrow> (ConfigError, TargetPolicy) result" where
  "normalize_target_policy data =
     and_then (ok_or (as_object data) (config_error InvalidPolicy ''TARGET_POLICY_JSON''
         (lit ''target policy must be a JSON object''))) (\<lambda>m.
     collect_results (\<lambda>(aud, policy). map_ok (Pair aud) (parse_target_entry aud policy))
       (filter (\<lambda>(aud, _). \<not> starts_with aud ''_'') m))"

definition load_target_policy_from_source ::
    "config_env \<Rightarrow> ConfigSource \<Rightarrow> (ConfigError, TargetPolicy) result" where
  "load_target_policy_from_source env source =
     (case or_else (source ''TARGET_POLICY_JSON'')
             (Option.bind (source ''TARGET_POLICY_FILE'') (ce_read_file env)) of
        None \<Rightarrow> Ok []
      | Some raw \<Rightarrow>
          and_then (ok_or (ce_json env raw) (config_error InvalidJson ''TARGET_POLICY_JSON''
              [Lit ''target policy JSON could not be parsed: '', Ext])) normalize_target_policy)"

definition parse_impersonation_selector ::
    "string \<Rightarrow> string \<Rightarrow> json option \<Rightarrow> (ConfigError, ImpersonationSelector) result" where
  "parse_impersonation_selector client_id field value =
     (case value of
        None \<Rightarrow> Ok (Values {})
      | Some value \<Rightarrow>
          if as_str value = Some ''*'' then Ok AnyValue
          else
            and_then (ok_or (as_array value) (config_error InvalidPolicy client_id
                (lit (''impersonation policy '' @ field @ '' must be a JSON array of strings or '' @
                      [CHR 0x22] @ ''*'' @ [CHR 0x22])))) (\<lambda>values.
            map_ok Values (collect_strings client_id
              (''impersonation policy '' @ field @ '' must contain only strings'') (\<lambda>item. Ok item) values)))"

definition parse_impersonation_entry :: "string \<Rightarrow> json \<Rightarrow> (ConfigError, ImpersonationPolicyEntry) result" where
  "parse_impersonation_entry client_id policy =
     and_then (ok_or (as_object policy)
         (config_error InvalidPolicy client_id (lit ''impersonation policy entry must be an object''))) (\<lambda>entry.
     and_then (parse_impersonation_selector client_id ''targets'' (obj_get entry ''targets'')) (\<lambda>targets.
     and_then (parse_impersonation_selector client_id ''subjects'' (obj_get entry ''subjects'')) (\<lambda>subjects.
     Ok \<lparr>imp_targets = targets, imp_subjects = subjects\<rparr>)))"

definition normalize_impersonation_policy :: "json \<Rightarrow> (ConfigError, ImpersonationPolicy) result" where
  "normalize_impersonation_policy data =
     and_then (ok_or (as_object data) (config_error InvalidPolicy ''IMPERSONATION_POLICY_JSON''
         (lit ''impersonation policy must be a JSON object''))) (\<lambda>m.
     collect_results (\<lambda>(client_id, policy). map_ok (Pair client_id) (parse_impersonation_entry client_id policy)) m)"

definition parse_impersonation_policy ::
    "config_env \<Rightarrow> ConfigSource \<Rightarrow> (ConfigError, ImpersonationPolicy) result" where
  "parse_impersonation_policy env source =
     (case get_trimmed source ''IMPERSONATION_POLICY_JSON'' of
        None \<Rightarrow> Ok []
      | Some raw \<Rightarrow>
          and_then (ok_or (ce_json env raw) (config_error InvalidJson ''IMPERSONATION_POLICY_JSON''
              [Lit ''impersonation policy JSON could not be parsed: '', Ext])) normalize_impersonation_policy)"

section \<open>The runtime configuration\<close>

definition from_source :: "config_env \<Rightarrow> ConfigSource \<Rightarrow> (ConfigError, RuntimeConfig) result" where
  "from_source env source =
     and_then (require_issuer (ce_url env) source) (\<lambda>v_idp_issuer.
     and_then (require_expected_aud source) (\<lambda>v_expected_aud.
     let v_secrets = unwrap_or (source ''STS_SECRETS_DIR'') DEFAULT_SECRETS_DIR;
         v_actor_file = unwrap_or (source ''ACTOR_JWKS_FILE'') (path_join v_secrets ''actor_jwks.json'');
         v_key_file = unwrap_or (source ''OBO_STS_KEY_FILE'') (path_join v_secrets ''obo_sts_private_key.json'');
         v_idp_uri = non_empty (map_option trim (or_else (source ''IDP_JWKS_URI'') (source ''OKTA_JWKS_URL'')));
         v_client_file = unwrap_or (source ''CLIENT_JWKS_FILE'') v_actor_file
     in
     and_then (parse_actor_ids source) (\<lambda>v_actor_ids.
     let v_actor_id = unwrap_or (get_trimmed source ''GATEWAY_ACTOR_ID'')
           (case sorted_list_of_set v_actor_ids of [] \<Rightarrow> [] | a # _ \<Rightarrow> a)
     in if v_actor_id = [] then
          Err (config_error MissingEnv ''ACTOR_IDS'' (lit ''no actor identities configured''))
        else
     let v_client_ids = parse_client_ids source v_actor_ids;
         v_in_pqc = parse_bool source ''STS_INBOUND_PQC_PREFERRED'' DEFAULT_INBOUND_PQC_PREFERRED;
         v_in_allow = parse_allow_non_pqc_inbound source v_in_pqc
     in
     and_then (parse_inbound_assertion_algs source v_in_pqc v_in_allow) (\<lambda>v_in_algs.
     and_then (config_validate_issuer (ce_url env) (unwrap_or (source ''OBO_STS_ISSUER'') DEFAULT_ISSUER)
         ''OBO_STS_ISSUER'') (\<lambda>v_our_issuer.
     and_then (parse_token_exchange_mode source) (\<lambda>v_mode.
     and_then (parse_client_auth_policy source) (\<lambda>v_client_auth.
     and_then (parse_impersonation_policy env source) (\<lambda>v_imp.
     and_then (load_target_policy_from_source env source) (\<lambda>v_targets.
     and_then (parse_pqc_preferred_algs source) (\<lambda>v_pqc_algs.
     and_then (parse_env_int source ''CLOCK_SKEW_LEEWAY'' DEFAULT_CLOCK_SKEW_LEEWAY (Some 0) None) (\<lambda>v_leeway.
     and_then (parse_env_int source ''SCOPED_TOKEN_TTL'' DEFAULT_SCOPED_TOKEN_TTL (Some 1) (Some 3600)) (\<lambda>v_ttl.
     and_then (parse_env_int source ''JWKS_CACHE_MAX_AGE'' DEFAULT_JWKS_CACHE_MAX_AGE (Some 0) None) (\<lambda>v_cache.
     and_then (parse_env_int source ''ASSERTION_MAX_TTL'' DEFAULT_ASSERTION_MAX_TTL (Some 1) None) (\<lambda>v_max_ttl.
     and_then (parse_env_usize source ''MAX_SEEN_JTI'' DEFAULT_MAX_SEEN_JTI (Some 1) None) (\<lambda>v_max_seen.
     and_then (parse_replay_backend source) (\<lambda>v_backend.
     and_then (parse_env_usize source ''MAX_TOKEN_LEN'' DEFAULT_MAX_TOKEN_LEN (Some 1) None) (\<lambda>v_max_len.
     Ok \<lparr>idp_issuer = v_idp_issuer, expected_subject_aud = v_expected_aud, our_issuer = v_our_issuer,
         our_kid = unwrap_or (get_trimmed source ''STS_SIGNING_KID'') DEFAULT_KID,
         sts_secrets_dir = v_secrets, obo_sts_key_file = v_key_file,
         idp_jwks_file = get_trimmed source ''IDP_JWKS_FILE'', idp_jwks_uri = v_idp_uri,
         actor_jwks_file = v_actor_file, client_jwks_file = v_client_file,
         obo_sts_extra_jwks_file = get_trimmed source ''OBO_STS_EXTRA_JWKS_FILE'',
         actor_ids = v_actor_ids, actor_id = v_actor_id, client_ids = v_client_ids,
         token_exchange_mode = v_mode, client_auth_policy = v_client_auth, impersonation_policy = v_imp,
         target_policy = v_targets,
         sts_signing_alg = unwrap_or (get_trimmed source ''STS_SIGNING_ALG'') CONFIG_DEFAULT_STS_SIGNING_ALG,
         pqc_preferred = parse_bool source ''STS_PQC_PREFERRED'' DEFAULT_PQC_PREFERRED,
         allow_non_pqc = parse_allow_non_pqc source, pqc_preferred_algs = v_pqc_algs,
         inbound_pqc_preferred = v_in_pqc, allow_non_pqc_inbound = v_in_allow, inbound_assertion_algs = v_in_algs,
         sts_signing_provider = to_ascii_lowercase (trim (unwrap_or (source ''STS_SIGNING_PROVIDER'') ''file'')),
         sts_signing_public_jwks_file = get_trimmed source ''STS_SIGNING_PUBLIC_JWKS_FILE'',
         mock_external_signer_key_file = get_trimmed source ''STS_MOCK_EXTERNAL_SIGNER_KEY_FILE'',
         clock_skew_leeway = v_leeway, scoped_token_ttl = v_ttl, jwks_cache_max_age = v_cache,
         assertion_max_ttl = v_max_ttl, max_seen_jti = v_max_seen, replay_backend = v_backend,
         max_token_len = v_max_len,
         require_subject_binding = parse_bool source ''REQUIRE_SUBJECT_BINDING'' True,
         subject_scope_bound_required = parse_bool source ''SUBJECT_SCOPE_BOUND_REQUIRED'' False,
         allow_insecure_jwks = parse_bool source ''ALLOW_INSECURE_JWKS'' False,
         allow_insecure_actor_jwks = parse_bool source ''ALLOW_INSECURE_ACTOR_JWKS'' False,
         allow_insecure_client_jwks = parse_bool_with_fallback source ''ALLOW_INSECURE_CLIENT_JWKS''
           ''ALLOW_INSECURE_ACTOR_JWKS'' False,
         allow_insecure_key_file = parse_bool source ''ALLOW_INSECURE_KEY_FILE'' False,
         allow_insecure_http_bind = parse_bool source ''ALLOW_INSECURE_HTTP_BIND'' False,
         actor_jwks_sha256 = get_trimmed source ''ACTOR_JWKS_SHA256'',
         client_jwks_sha256 = or_else (get_trimmed source ''CLIENT_JWKS_SHA256'') (get_trimmed source ''ACTOR_JWKS_SHA256''),
         http_addr = trim (unwrap_or (source ''STS_HTTP_ADDR'') DEFAULT_HTTP_ADDR),
         enable_metrics = parse_bool source ''STS_ENABLE_METRICS'' False,
         log_format_json = (parse_bool source ''LOG_FORMAT_JSON'' False \<or>
           (case source ''LOG_FORMAT'' of None \<Rightarrow> False | Some v \<Rightarrow> eq_ignore_ascii_case (trim v) ''json'')),
         log_level = parse_log_level source,
         audit_hash_chain = parse_bool source ''STS_AUDIT_HASH_CHAIN'' False\<rparr>)))))))))))))))))"

section \<open>Lemmas\<close>

lemma out_of_range_iff:
  "out_of_range v lo hi \<longleftrightarrow> \<not> ((case lo of None \<Rightarrow> True | Some l \<Rightarrow> l \<le> v) \<and> (case hi of None \<Rightarrow> True | Some h \<Rightarrow> v \<le> h))"
  by (auto simp: out_of_range_def not_le split: option.splits)

lemma parse_i64_range: "parse_i64 s = Some i \<Longrightarrow> in_i64 i"
  by (auto simp: parse_i64_def Let_def split: option.splits if_splits)

lemma parse_env_int_ok:
  "parse_env_int source key d lo hi = Ok v \<Longrightarrow>
     in_i64 v \<and> (case lo of None \<Rightarrow> True | Some l \<Rightarrow> l \<le> v) \<and> (case hi of None \<Rightarrow> True | Some h \<Rightarrow> v \<le> h)"
  by (auto simp: parse_env_int_def Let_def result_iff out_of_range_iff parse_i64_range split: if_splits)

lemma parse_env_usize_ok:
  "parse_env_usize source key d lo hi = Ok v \<Longrightarrow>
     (case lo of None \<Rightarrow> True | Some l \<Rightarrow> l \<le> v) \<and> (case hi of None \<Rightarrow> True | Some h \<Rightarrow> v \<le> h)"
  by (auto simp: parse_env_usize_def Let_def result_iff out_of_range_iff split: if_splits)

lemma parse_env_int_default:
  "source key = None \<Longrightarrow> in_i64 d \<Longrightarrow> \<not> out_of_range d lo hi \<Longrightarrow> parse_env_int source key d lo hi = Ok d"
  by (simp add: parse_env_int_def unwrap_or_def trim_no_ws display_i64_no_ws parse_i64_display)

lemma retain_unseen_set: "set (retain_unseen seen xs) = set xs - seen"
  by (induction seen xs rule: retain_unseen.induct) auto

lemma retain_unseen_distinct: "distinct (retain_unseen seen xs)"
  by (induction seen xs rule: retain_unseen.induct) (auto simp: retain_unseen_set)

lemma dedup_set [simp]: "set (dedup_preserving_order xs) = set xs"
  by (simp add: dedup_preserving_order_def retain_unseen_set)

lemma dedup_distinct [simp]: "distinct (dedup_preserving_order xs)"
  by (simp add: dedup_preserving_order_def retain_unseen_distinct)

lemma split_csv_nonempty: "[] \<notin> set (split_csv_vec raw)"
  by (simp add: split_csv_vec_def)

text \<open>The algorithms accepted on inbound assertions, as the parser guarantees them.\<close>

definition inbound_algs_ok :: "string list \<Rightarrow> bool \<Rightarrow> bool" where
  "inbound_algs_ok algs allow \<longleftrightarrow> algs \<noteq> [] \<and> distinct algs \<and>
     set algs \<subseteq> (if allow then {''RS256''} else {}) \<union> {''ML-DSA-44'', ''ML-DSA-65'', ''ML-DSA-87''}"

lemma parse_inbound_ok:
  assumes "parse_inbound_assertion_algs source pqc allow = Ok algs"
  shows "inbound_algs_ok algs allow"
proof -
  from assms obtain raw where r: "algs = dedup_preserving_order raw" "algs \<noteq> []"
      "find (\<lambda>alg. \<not> is_supported_inbound_assertion_alg alg) algs = None"
      "\<not> (list_ex (\<lambda>alg. alg = ''RS256'') algs \<and> \<not> allow)"
    by (auto simp: parse_inbound_assertion_algs_def Let_def split: if_splits option.splits)
  from r(3) have "\<forall>a \<in> set algs. is_supported_inbound_assertion_alg a" by (simp add: find_None_iff)
  then have "set algs \<subseteq> {''RS256''} \<union> {''ML-DSA-44'', ''ML-DSA-65'', ''ML-DSA-87''}"
    unfolding is_supported_inbound_assertion_alg_def is_pqc_inbound_assertion_alg_def by blast
  moreover have "allow \<or> ''RS256'' \<notin> set algs" using r(4) unfolding list_ex_iff by blast
  ultimately have "set algs \<subseteq> (if allow then {''RS256''} else {}) \<union> {''ML-DSA-44'', ''ML-DSA-65'', ''ML-DSA-87''}"
    by (cases allow) (simp, subst if_not_P, blast+)
  then show ?thesis using r(1,2) by (simp add: inbound_algs_ok_def)
qed

lemma parse_actor_ids_ok:
  assumes "parse_actor_ids source = Ok ids"
  shows "finite ids" "ids \<noteq> {}" "[] \<notin> ids"
    "case get_trimmed source ''GATEWAY_ACTOR_ID'' of None \<Rightarrow> True | Some a \<Rightarrow> a \<in> ids \<and> a \<noteq> []"
  using assms split_csv_nonempty
  by (auto simp: parse_actor_ids_def split_csv_set_def get_trimmed_def Let_def non_empty_None split: option.splits if_splits)

lemma config_issuer_ok:
  "config_validate_issuer url v key = Ok s \<longleftrightarrow> validate_issuer url v = Ok s"
  by (auto simp: config_validate_issuer_def validate_issuer_def Let_def result_iff split: if_splits)

lemma issuer_no_slash: "validate_issuer url v = Ok s \<Longrightarrow> s \<noteq> t @ ''/''"
  by (auto simp: validate_issuer_ok trim_end_matches_ends)

lemma from_source_fields:
  assumes "from_source env source = Ok c"
  shows "require_issuer (ce_url env) source = Ok (idp_issuer c)"
    "require_expected_aud source = Ok (expected_subject_aud c)"
    "parse_actor_ids source = Ok (actor_ids c)"
    "actor_id c = unwrap_or (get_trimmed source ''GATEWAY_ACTOR_ID'')
       (case sorted_list_of_set (actor_ids c) of [] \<Rightarrow> [] | a # _ \<Rightarrow> a)"
    "client_ids c = parse_client_ids source (actor_ids c)"
    "parse_inbound_assertion_algs source (inbound_pqc_preferred c) (allow_non_pqc_inbound c) = Ok (inbound_assertion_algs c)"
    "config_validate_issuer (ce_url env) (unwrap_or (source ''OBO_STS_ISSUER'') DEFAULT_ISSUER) ''OBO_STS_ISSUER'' = Ok (our_issuer c)"
    "parse_client_auth_policy source = Ok (client_auth_policy c)"
    "parse_pqc_preferred_algs source = Ok (pqc_preferred_algs c)"
    "parse_env_int source ''CLOCK_SKEW_LEEWAY'' DEFAULT_CLOCK_SKEW_LEEWAY (Some 0) None = Ok (clock_skew_leeway c)"
    "parse_env_int source ''SCOPED_TOKEN_TTL'' DEFAULT_SCOPED_TOKEN_TTL (Some 1) (Some 3600) = Ok (scoped_token_ttl c)"
    "parse_env_int source ''ASSERTION_MAX_TTL'' DEFAULT_ASSERTION_MAX_TTL (Some 1) None = Ok (assertion_max_ttl c)"
    "parse_env_usize source ''MAX_SEEN_JTI'' DEFAULT_MAX_SEEN_JTI (Some 1) None = Ok (max_seen_jti c)"
    "parse_env_usize source ''MAX_TOKEN_LEN'' DEFAULT_MAX_TOKEN_LEN (Some 1) None = Ok (max_token_len c)"
  using assms unfolding from_source_def Let_def and_then_ok if_error_ok
  by - (elim exE conjE, drule sum.inject(2) [THEN iffD1], hypsubst,
      simp (no_asm_simp) only: RuntimeConfig.select_convs)+

section \<open>Properties\<close>

text \<open>
  What a configuration that loads satisfies: ranges of the numeric settings, non-empty identity and
  audience sets, an actor identity that is one of the configured ones, issuers in normal form, and
  an inbound algorithm list that admits RS256 only with the explicit opt-in.
\<close>

definition config_wf :: "RuntimeConfig \<Rightarrow> bool" where
  "config_wf c \<longleftrightarrow>
     0 \<le> clock_skew_leeway c \<and> in_i64 (clock_skew_leeway c) \<and>
     1 \<le> scoped_token_ttl c \<and> scoped_token_ttl c \<le> 3600 \<and>
     1 \<le> assertion_max_ttl c \<and> in_i64 (assertion_max_ttl c) \<and>
     1 \<le> max_seen_jti c \<and> 1 \<le> max_token_len c \<and>
     expected_subject_aud c \<noteq> {} \<and> [] \<notin> expected_subject_aud c \<and>
     actor_id c \<in> actor_ids c \<and> [] \<notin> actor_ids c \<and> client_ids c \<noteq> {} \<and> [] \<notin> client_ids c \<and>
     inbound_algs_ok (inbound_assertion_algs c) (allow_non_pqc_inbound c) \<and>
     pqc_preferred_algs c \<noteq> [] \<and> client_auth_policy c \<in> {Auto, PrivateKeyJwtRequired} \<and>
     \<not> (\<exists>t. idp_issuer c = t @ ''/'') \<and> \<not> (\<exists>t. our_issuer c = t @ ''/'')"

lemma from_source_direct:
  assumes "from_source env source = Ok c"
  shows "sts_signing_alg c = unwrap_or (get_trimmed source ''STS_SIGNING_ALG'') CONFIG_DEFAULT_STS_SIGNING_ALG"
    "allow_non_pqc c = parse_allow_non_pqc source"
    "inbound_pqc_preferred c = parse_bool source ''STS_INBOUND_PQC_PREFERRED'' DEFAULT_INBOUND_PQC_PREFERRED"
    "allow_non_pqc_inbound c = parse_allow_non_pqc_inbound source (inbound_pqc_preferred c)"
    "parse_token_exchange_mode source = Ok (token_exchange_mode c)"
    "load_target_policy_from_source env source = Ok (target_policy c)"
    "parse_impersonation_policy env source = Ok (impersonation_policy c)"
    "require_subject_binding c = parse_bool source ''REQUIRE_SUBJECT_BINDING'' True"
    "client_jwks_file c = unwrap_or (source ''CLIENT_JWKS_FILE'') (actor_jwks_file c)"
    "parse_replay_backend source = Ok (replay_backend c)"
    "allow_insecure_jwks c = parse_bool source ''ALLOW_INSECURE_JWKS'' False"
    "allow_insecure_actor_jwks c = parse_bool source ''ALLOW_INSECURE_ACTOR_JWKS'' False"
    "allow_insecure_client_jwks c = parse_bool_with_fallback source ''ALLOW_INSECURE_CLIENT_JWKS'' ''ALLOW_INSECURE_ACTOR_JWKS'' False"
    "allow_insecure_key_file c = parse_bool source ''ALLOW_INSECURE_KEY_FILE'' False"
    "allow_insecure_http_bind c = parse_bool source ''ALLOW_INSECURE_HTTP_BIND'' False"
  using assms unfolding from_source_def Let_def and_then_ok if_error_ok
  by - (elim exE conjE, drule sum.inject(2) [THEN iffD1], hypsubst,
      simp (no_asm_simp) only: RuntimeConfig.select_convs)+

lemma parse_bool_absent: "source key = None \<Longrightarrow> parse_bool source key d = d"
  by (simp add: parse_bool_def unwrap_or_def)

lemma get_trimmed_absent: "source key = None \<Longrightarrow> get_trimmed source key = None"
  by (simp add: get_trimmed_def non_empty_def)

text \<open>A minimal source: every other key is absent.\<close>

definition minimal_source :: "string \<Rightarrow> string \<Rightarrow> string \<Rightarrow> ConfigSource" where
  "minimal_source iss aud actors =
     from_pairs [(''IDP_ISSUER'', iss), (''EXPECTED_SUBJECT_AUD'', aud), (''ACTOR_IDS'', actors)]"

lemma minimal_source_absent:
  "k \<noteq> ''IDP_ISSUER'' \<Longrightarrow> k \<noteq> ''EXPECTED_SUBJECT_AUD'' \<Longrightarrow> k \<noteq> ''ACTOR_IDS'' \<Longrightarrow> minimal_source iss aud actors k = None"
  by (simp add: minimal_source_def from_pairs_def)

lemma lower_lits:
  "to_ascii_lowercase (trim ''delegation'') = ''delegation''" "to_ascii_lowercase (trim ''auto'') = ''auto''"
  "to_ascii_lowercase (trim ''memory'') = ''memory''"
  by (simp_all add: trim_no_ws ws1_def ws2_def ws3_def to_ascii_lowercase_def ascii_lower_def)

lemma from_source_numbers:
  assumes "from_source env source = Ok c"
  shows "0 \<le> clock_skew_leeway c" "in_i64 (clock_skew_leeway c)" "1 \<le> scoped_token_ttl c"
    "scoped_token_ttl c \<le> 3600" "1 \<le> assertion_max_ttl c" "in_i64 (assertion_max_ttl c)"
    "1 \<le> max_seen_jti c" "1 \<le> max_token_len c"
  using from_source_fields(10-14) [OF assms] by (auto dest: parse_env_int_ok parse_env_usize_ok)

lemma from_source_actor:
  assumes "from_source env source = Ok c"
  shows "actor_id c \<in> actor_ids c" "[] \<notin> actor_ids c" "client_ids c \<noteq> {}" "[] \<notin> client_ids c"
proof -
  note a = parse_actor_ids_ok [OF from_source_fields(3) [OF assms]]
  show "[] \<notin> actor_ids c" by (fact a(3))
  show "client_ids c \<noteq> {}" "[] \<notin> client_ids c"
    unfolding from_source_fields(5) [OF assms] parse_client_ids_def
    using a(2,3) split_csv_nonempty by (auto simp: Let_def split_csv_set_def)
  show "actor_id c \<in> actor_ids c"
  proof (cases "get_trimmed source ''GATEWAY_ACTOR_ID''")
    case None
    have "set (sorted_list_of_set (actor_ids c)) = actor_ids c" using a(1) by simp
    with a(2) None show ?thesis unfolding from_source_fields(4) [OF assms]
      by (cases "sorted_list_of_set (actor_ids c)") (auto simp: unwrap_or_def)
  next
    case (Some g)
    with a(4) show ?thesis unfolding from_source_fields(4) [OF assms] by (simp add: unwrap_or_def)
  qed
qed

lemma from_source_rest:
  assumes "from_source env source = Ok c"
  shows "expected_subject_aud c \<noteq> {}" "[] \<notin> expected_subject_aud c" "pqc_preferred_algs c \<noteq> []"
    "client_auth_policy c \<in> {Auto, PrivateKeyJwtRequired}"
    "inbound_algs_ok (inbound_assertion_algs c) (allow_non_pqc_inbound c)"
    "idp_issuer c \<noteq> t @ ''/''" "our_issuer c \<noteq> t @ ''/''"
proof -
  note f = from_source_fields [OF assms]
  from f(2) split_csv_nonempty show "expected_subject_aud c \<noteq> {}" "[] \<notin> expected_subject_aud c"
    by (auto simp: require_expected_aud_def result_iff Let_def split_csv_set_def split: if_splits)
  from f(9) show "pqc_preferred_algs c \<noteq> []" by (auto simp: parse_pqc_preferred_algs_def Let_def split: if_splits)
  from f(8) show "client_auth_policy c \<in> {Auto, PrivateKeyJwtRequired}"
    by (auto simp: parse_client_auth_policy_def Let_def split: if_splits)
  from f(6) show "inbound_algs_ok (inbound_assertion_algs c) (allow_non_pqc_inbound c)" by (rule parse_inbound_ok)
  from f(1) show "idp_issuer c \<noteq> t @ ''/''"
    by (auto simp: require_issuer_def config_issuer_ok split: option.splits dest: issuer_no_slash)
  from f(7) show "our_issuer c \<noteq> t @ ''/''" by (auto simp: config_issuer_ok dest: issuer_no_slash)
qed

text \<open>
  C30: every configuration that loads is well formed.
\<close>

theorem from_source_wf:
  "case from_source env source of Inl _ \<Rightarrow> True | Inr c \<Rightarrow> config_wf c"
proof (cases "from_source env source")
  case (Inr c)
  note o = from_source_numbers [OF Inr] from_source_actor [OF Inr] from_source_rest [OF Inr]
  show ?thesis unfolding Inr config_wf_def sum.case using o by blast
qed simp

text \<open>
  Secure defaults. When only the issuer, the subject audience and the actor identities are
  set, a configuration that loads signs and accepts ML-DSA-65 only, delegates only, grants no
  target and no impersonation, binds assertions to subject tokens, and switches on no insecure
  exception.
\<close>

theorem secure_defaults:
  "case from_source env (minimal_source iss aud actors) of
     Inl _ \<Rightarrow> True
   | Inr c \<Rightarrow> sts_signing_alg c = ''ML-DSA-65'' \<and> \<not> allow_non_pqc c \<and> inbound_assertion_algs c = [''ML-DSA-65''] \<and>
       \<not> allow_non_pqc_inbound c \<and> token_exchange_mode c = Delegation \<and> client_auth_policy c = Auto \<and>
       target_policy c = [] \<and> impersonation_policy c = [] \<and> require_subject_binding c \<and>
       clock_skew_leeway c = 30 \<and> scoped_token_ttl c = 300 \<and> client_ids c = actor_ids c \<and>
       client_jwks_file c = actor_jwks_file c \<and> replay_backend c = MemoryBackend \<and>
       \<not> allow_insecure_jwks c \<and> \<not> allow_insecure_actor_jwks c \<and> \<not> allow_insecure_client_jwks c \<and>
       \<not> allow_insecure_key_file c \<and> \<not> allow_insecure_http_bind c"
proof (cases "from_source env (minimal_source iss aud actors)")
  case (Inr c)
  note f = from_source_fields [OF Inr] and d = from_source_direct [OF Inr]
  note absent = parse_bool_absent [OF minimal_source_absent] get_trimmed_absent [OF minimal_source_absent]
    minimal_source_absent
  have inb: "inbound_pqc_preferred c" "\<not> allow_non_pqc_inbound c" "\<not> allow_non_pqc c"
    using d(2-4) by (simp_all add: absent DEFAULT_INBOUND_PQC_PREFERRED_def DEFAULT_PQC_PREFERRED_def
        parse_allow_non_pqc_inbound_def parse_allow_non_pqc_def)
  have algs: "inbound_assertion_algs c = [''ML-DSA-65'']"
    using f(6) inb by (simp add: parse_inbound_assertion_algs_def absent dedup_preserving_order_def
        DEFAULT_INBOUND_ASSERTION_ALG_def is_supported_inbound_assertion_alg_def is_pqc_inbound_assertion_alg_def)
  have nums: "clock_skew_leeway c = 30" "scoped_token_ttl c = 300"
    using f(10,11) by (simp_all add: parse_env_int_default absent out_of_range_def i64_bounds
        DEFAULT_CLOCK_SKEW_LEEWAY_def DEFAULT_SCOPED_TOKEN_TTL_def)
  have enums: "token_exchange_mode c = Delegation" "client_auth_policy c = Auto" "replay_backend c = MemoryBackend"
    using d(5,10) f(8) by (simp_all add: parse_token_exchange_mode_def parse_client_auth_policy_def
        parse_replay_backend_def absent unwrap_or_def lower_lits)
  have pols: "target_policy c = []" "impersonation_policy c = []"
    using d(6,7) by (simp_all add: load_target_policy_from_source_def parse_impersonation_policy_def absent or_else_def)
  have ids: "client_ids c = actor_ids c"
    using f(5) by (simp add: parse_client_ids_def absent unwrap_or_def split_csv_set_def split_csv_vec_def)
  show ?thesis unfolding Inr
    using inb algs nums enums pols ids d(1,8,9,11-15)
    by (simp add: absent unwrap_or_def CONFIG_DEFAULT_STS_SIGNING_ALG_def parse_bool_with_fallback_def or_else_def)
qed simp

text \<open>
  The two issuer validators are one. \<open>sts-config\<close> and \<open>sts-verify\<close> each have their own copy;
  they accept the same values and return the same normal form.
\<close>

theorem issuer_validators_agree:
  "map_err (\<lambda>_. ()) (config_validate_issuer url value key) = map_err (\<lambda>_. ()) (validate_issuer url value)"
proof (cases "validate_issuer url value")
  case (Inr s)
  then have "config_validate_issuer url value key = Ok s" by (simp add: config_issuer_ok)
  with Inr show ?thesis by simp
next
  case (Inl e)
  then have "\<nexists>s. config_validate_issuer url value key = Ok s" by (simp add: config_issuer_ok)
  with Inl show ?thesis by (cases "config_validate_issuer url value key") simp_all
qed

lemma collect_results_map_of:
  assumes "collect_results (\<lambda>(k, v). map_ok (Pair k) (f k v)) m = Ok r"
  shows "map_of r k = (case map_of m k of None \<Rightarrow> None | Some v \<Rightarrow> (case f k v of Inl _ \<Rightarrow> None | Inr e \<Rightarrow> Some e))"
  using assms
proof (induction m arbitrary: r)
  case (Cons p m)
  obtain a v where "p = (a, v)" by (cases p)
  with Cons show ?case by (auto simp: result_iff)
qed simp

lemma map_of_filter_key: "map_of (filter (\<lambda>(k, _). P k) m) k = (if P k then map_of m k else None)"
  by (induction m) auto

text \<open>
  The target policy is deny-by-default and read faithfully. A policy that loads has an entry
  for an audience exactly when the JSON object has a member of that name that does not start with
  an underscore, and the entry's scopes and algorithms are the strings of that member.
\<close>

theorem target_policy_faithful:
  "case normalize_target_policy data of
     Inl _ \<Rightarrow> True
   | Inr p \<Rightarrow> target_policy_get p aud =
       (case data of
          JObject m \<Rightarrow>
            if starts_with aud ''_'' then None
            else (case obj_get m aud of None \<Rightarrow> None
                  | Some v \<Rightarrow> (case parse_target_entry aud v of Inl _ \<Rightarrow> None | Inr e \<Rightarrow> Some e))
        | _ \<Rightarrow> None)"
proof (cases "normalize_target_policy data")
  case (Inr p)
  then obtain m where m: "data = JObject m" and
    c: "collect_results (\<lambda>(aud, policy). map_ok (Pair aud) (parse_target_entry aud policy))
          (filter (\<lambda>(aud, _). \<not> starts_with aud ''_'') m) = Ok p"
    by (auto simp: normalize_target_policy_def result_iff)
  show ?thesis unfolding Inr
    using collect_results_map_of [OF c, of aud] m
    by (simp add: target_policy_get_def obj_get_def map_of_filter_key [of "\<lambda>a. \<not> starts_with a ''_''"]
        del: starts_with_single)
qed simp

end
