(* ===== verification/Sts_Replay.thy ===== *)
theory Sts_Replay
  imports Rust_Int
begin

text \<open>
  The crate \<open>sts-replay\<close> (\<open>crates/sts-replay/src/lib.rs\<close>): the in-memory and the file-backed
  replay store behind the trait \<open>ReplayStore\<close>, the replay keys and \<open>ReplayPolicy\<close>. The locale
  \<open>replay_store\<close> states the trait's contract; both stores are interpretations of it, and the
  single-use property of recorded keys is proved once from the contract.

  Locks are part of the stores: a poisoned mutex is a flag, and every call that needs it fails
  closed. SHA-256 is a parameter (a library function on bytes). The directory of the file store
  is an association list from file names to entries, and \<open>io_env\<close> says which operating-system
  calls succeed.
\<close>

section \<open>Errors\<close>

datatype ReplayErrorKind = ReplayInvalidRequest | ReplayDetected | StoreFull

fun replay_kind_code :: "ReplayErrorKind \<Rightarrow> string" where
  "replay_kind_code ReplayInvalidRequest = ''invalid_request''"
| "replay_kind_code ReplayDetected = ''invalid_request''"
| "replay_kind_code StoreFull = ''service_unavailable''"

record ReplayError =
  replay_kind :: ReplayErrorKind
  replay_message :: msg

abbreviation replay_error :: "ReplayErrorKind \<Rightarrow> string \<Rightarrow> ReplayError" where
  "replay_error k m \<equiv> \<lparr>replay_kind = k, replay_message = lit m\<rparr>"

definition replay_error_text :: "ReplayError \<Rightarrow> msg" where
  "replay_error_text e = error_text (replay_kind_code (replay_kind e)) (replay_message e)"

definition replay_store_unavailable :: ReplayError where
  "replay_store_unavailable = replay_error StoreFull ''replay store unavailable, retry shortly''"

section \<open>The in-memory store\<close>

record InMemoryReplayStore =
  seen :: "(string \<times> int) list"
  seen_poisoned :: bool
  calls_since_sweep :: nat
  calls_poisoned :: bool
  max_seen :: nat
  sweep_every :: nat

definition in_memory_new :: "nat \<Rightarrow> nat \<Rightarrow> InMemoryReplayStore" where
  "in_memory_new max_n every =
     \<lparr>seen = [], seen_poisoned = False, calls_since_sweep = 0, calls_poisoned = False,
      max_seen = max_n, sweep_every = max every 1\<rparr>"

definition in_memory_default :: InMemoryReplayStore where
  "in_memory_default = in_memory_new 1024 256"

definition sweep_expired :: "(string \<times> int) list \<Rightarrow> int \<Rightarrow> (string \<times> int) list" where
  "sweep_expired m now = filter (\<lambda>(_, expiry). now \<le> expiry) m"

definition mem_check_and_record ::
    "InMemoryReplayStore \<Rightarrow> string \<Rightarrow> int \<Rightarrow> int \<Rightarrow> (ReplayError, unit) result \<times> InMemoryReplayStore"
where
  "mem_check_and_record s jti expiry now =
     (if trim jti = [] then
        (Err (replay_error ReplayInvalidRequest ''jti must not be empty''), s)
      else if seen_poisoned s then (Err replay_store_unavailable, s)
      else if map_of (seen s) jti \<noteq> None then
        (Err (replay_error ReplayDetected ''actor_token replay detected''), s)
      else if calls_poisoned s then (Err replay_store_unavailable, s)
      else
        let calls = calls_since_sweep s + 1;
            m = (if sweep_every s \<le> calls then sweep_expired (seen s) now else seen s);
            calls = (if sweep_every s \<le> calls then 0 else calls);
            m = (if max_seen s \<le> length m then sweep_expired m now else m)
        in if max_seen s \<le> length m then
             (Err (replay_error StoreFull ''replay store full, retry shortly''),
              s\<lparr>seen := m, calls_since_sweep := calls\<rparr>)
           else (Ok (), s\<lparr>seen := AList.update jti expiry m, calls_since_sweep := calls\<rparr>))"

definition mem_cache_size :: "InMemoryReplayStore \<Rightarrow> nat" where
  "mem_cache_size s = (if seen_poisoned s then 0 else length (seen s))"

section \<open>Replay keys\<close>

definition dpop_replay_key :: "(string \<Rightarrow> string) \<Rightarrow> string \<Rightarrow> string \<Rightarrow> string" where
  "dpop_replay_key sha256 jkt jti = ''dpop:'' @ hex_lower (sha256 (jkt @ [CHR 0x00] @ jti))"

definition replay_filename :: "(string \<Rightarrow> string) \<Rightarrow> string \<Rightarrow> string" where
  "replay_filename sha256 jti =
     hex_lower (sha256 (''sts-replay-file-v1'' @ [CHR 0x00] @ jti)) @ ''.jti''"

section \<open>The file-backed store\<close>

datatype dirent = RegFile string | OtherEntry

type_synonym directory = "(string \<times> dirent) list"

text \<open>Which operating-system calls succeed, by file name where they take one.\<close>

record io_env =
  io_read_dir :: bool
  io_entry :: "string \<Rightarrow> bool"
  io_read :: "string \<Rightarrow> bool"
  io_remove :: "string \<Rightarrow> bool"
  io_create :: "string \<Rightarrow> bool"
  io_write :: "string \<Rightarrow> bool"

definition io_healthy :: io_env where
  "io_healthy = \<lparr>io_read_dir = True, io_entry = (\<lambda>_. True), io_read = (\<lambda>_. True),
     io_remove = (\<lambda>_. True), io_create = (\<lambda>_. True), io_write = (\<lambda>_. True)\<rparr>"

definition is_file :: "directory \<Rightarrow> string \<Rightarrow> bool" where
  "is_file d name \<longleftrightarrow> (case map_of d name of Some (RegFile _) \<Rightarrow> True | _ \<Rightarrow> False)"

definition read_exp :: "io_env \<Rightarrow> directory \<Rightarrow> string \<Rightarrow> int option" where
  "read_exp io d name =
     (if \<not> io_read io name then None
      else case map_of d name of Some (RegFile content) \<Rightarrow> parse_i64 (trim content) | _ \<Rightarrow> None)"

definition remove_replay_file ::
    "io_env \<Rightarrow> directory \<Rightarrow> string \<Rightarrow> (ReplayError, unit) result \<times> directory" where
  "remove_replay_file io d name =
     (if map_of d name = None then (Ok (), d)
      else if io_remove io name then (Ok (), AList.delete name d)
      else (Err replay_store_unavailable, d))"

primrec sweep_loop ::
    "io_env \<Rightarrow> int \<Rightarrow> string list \<Rightarrow> directory \<Rightarrow> (ReplayError, unit) result \<times> directory" where
  "sweep_loop io now [] d = (Ok (), d)"
| "sweep_loop io now (name # names) d =
     (if \<not> io_entry io name then (Err replay_store_unavailable, d)
      else if \<not> is_file d name then sweep_loop io now names d
      else if (case read_exp io d name of None \<Rightarrow> False | Some expiry \<Rightarrow> expiry < now) then
        (case remove_replay_file io d name of
           (Inl e, d') \<Rightarrow> (Inl e, d')
         | (Inr _, d') \<Rightarrow> sweep_loop io now names d')
      else sweep_loop io now names d)"

definition file_sweep_expired ::
    "io_env \<Rightarrow> directory \<Rightarrow> int \<Rightarrow> (ReplayError, unit) result \<times> directory" where
  "file_sweep_expired io d now =
     (if io_read_dir io then sweep_loop io now (map fst d) d else (Err replay_store_unavailable, d))"

definition active_entry_count :: "io_env \<Rightarrow> directory \<Rightarrow> (ReplayError, nat) result" where
  "active_entry_count io d =
     (if \<not> io_read_dir io \<or> list_ex (\<lambda>name. \<not> io_entry io name) (map fst d)
      then Err replay_store_unavailable
      else Ok (length (filter (is_file d) (map fst d))))"

record FileReplayStore =
  dir :: directory
  file_max_seen :: nat
  file_sweep_every :: nat
  file_calls :: nat
  file_calls_poisoned :: bool

text \<open>\<open>dir_ready\<close>: \<open>create_dir_all\<close> succeeded and the path is a directory with contents \<open>d\<close>.\<close>

definition file_new ::
    "bool \<Rightarrow> directory \<Rightarrow> nat \<Rightarrow> nat \<Rightarrow> (ReplayError, FileReplayStore) result" where
  "file_new dir_ready d max_n every =
     (if \<not> dir_ready then Err replay_store_unavailable
      else Ok \<lparr>dir = d, file_max_seen = max_n, file_sweep_every = max every 1, file_calls = 0,
               file_calls_poisoned = False\<rparr>)"

definition maybe_sweep ::
    "io_env \<Rightarrow> FileReplayStore \<Rightarrow> int \<Rightarrow> (ReplayError, unit) result \<times> FileReplayStore" where
  "maybe_sweep io s now =
     (if file_calls_poisoned s then (Err replay_store_unavailable, s)
      else
        let calls = file_calls s + 1 in
        if file_sweep_every s \<le> calls then
          (case file_sweep_expired io (dir s) now of
             (Inl e, d) \<Rightarrow> (Inl e, s\<lparr>dir := d, file_calls := calls\<rparr>)
           | (Inr _, d) \<Rightarrow> (Ok (), s\<lparr>dir := d, file_calls := 0\<rparr>))
        else (Ok (), s\<lparr>file_calls := calls\<rparr>))"

text \<open>\<open>OpenOptions::create_new\<close> and the write of the expiry.\<close>

definition create_and_write ::
    "io_env \<Rightarrow> directory \<Rightarrow> string \<Rightarrow> int \<Rightarrow> (ReplayError, unit) result \<times> directory" where
  "create_and_write io d name expiry =
     (if map_of d name \<noteq> None then
        (Err (replay_error ReplayDetected ''actor_token replay detected''), d)
      else if \<not> io_create io name then (Err replay_store_unavailable, d)
      else if \<not> io_write io name then (Err replay_store_unavailable, d @ [(name, RegFile [])])
      else (Ok (), d @ [(name, RegFile (display_i64 expiry @ [CHR 0x0A]))]))"

text \<open>The second half of \<open>check_and_record\<close>, once the store is known to have room.\<close>

definition claim_file ::
    "io_env \<Rightarrow> directory \<Rightarrow> string \<Rightarrow> int \<Rightarrow> int \<Rightarrow> (ReplayError, unit) result \<times> directory" where
  "claim_file io d name expiry now =
     (if (case read_exp io d name of None \<Rightarrow> False | Some stored \<Rightarrow> stored < now) then
        (case remove_replay_file io d name of
           (Inl e, d') \<Rightarrow> (Inl e, d')
         | (Inr _, d') \<Rightarrow> create_and_write io d' name expiry)
      else create_and_write io d name expiry)"

text \<open>\<open>if self.active_entry_count()? >= self.max_seen { self.sweep_expired(now)?; }\<close>\<close>

definition sweep_when_full ::
    "io_env \<Rightarrow> FileReplayStore \<Rightarrow> int \<Rightarrow> (ReplayError, unit) result \<times> FileReplayStore" where
  "sweep_when_full io s now =
     (case active_entry_count io (dir s) of
        Inl e \<Rightarrow> (Inl e, s)
      | Inr n \<Rightarrow>
          if file_max_seen s \<le> n then
            (case file_sweep_expired io (dir s) now of (r, d) \<Rightarrow> (r, s\<lparr>dir := d\<rparr>))
          else (Ok (), s))"

definition file_check_and_record ::
    "(string \<Rightarrow> string) \<Rightarrow> io_env \<Rightarrow> FileReplayStore \<Rightarrow> string \<Rightarrow> int \<Rightarrow> int \<Rightarrow>
     (ReplayError, unit) result \<times> FileReplayStore" where
  "file_check_and_record sha256 io s jti expiry now =
     (if trim jti = [] then
        (Err (replay_error ReplayInvalidRequest ''jti must not be empty''), s)
      else case maybe_sweep io s now of
        (Inl e, s1) \<Rightarrow> (Inl e, s1)
      | (Inr _, s1) \<Rightarrow>
          (case sweep_when_full io s1 now of
             (Inl e, s2) \<Rightarrow> (Inl e, s2)
           | (Inr _, s2) \<Rightarrow>
               (case active_entry_count io (dir s2) of
                  Inl e \<Rightarrow> (Inl e, s2)
                | Inr n \<Rightarrow>
                    if file_max_seen s2 \<le> n then
                      (Err (replay_error StoreFull ''replay store full, retry shortly''), s2)
                    else (case claim_file io (dir s2) (replay_filename sha256 jti) expiry now of
                            (r, d) \<Rightarrow> (r, s2\<lparr>dir := d\<rparr>)))))"

definition file_cache_size :: "io_env \<Rightarrow> FileReplayStore \<Rightarrow> nat" where
  "file_cache_size io s = (case active_entry_count io (dir s) of Inl _ \<Rightarrow> 0 | Inr n \<Rightarrow> n)"

section \<open>The policy object\<close>

datatype ReplayPolicy = MemoryStore InMemoryReplayStore | FileStore FileReplayStore

fun policy_check_and_record ::
    "(string \<Rightarrow> string) \<Rightarrow> io_env \<Rightarrow> ReplayPolicy \<Rightarrow> string \<Rightarrow> int \<Rightarrow> int \<Rightarrow>
     (ReplayError, unit) result \<times> ReplayPolicy" where
  "policy_check_and_record sha256 io (MemoryStore s) jti expiry now =
     (case mem_check_and_record s jti expiry now of (r, s') \<Rightarrow> (r, MemoryStore s'))"
| "policy_check_and_record sha256 io (FileStore s) jti expiry now =
     (case file_check_and_record sha256 io s jti expiry now of (r, s') \<Rightarrow> (r, FileStore s'))"

fun policy_cache_size :: "io_env \<Rightarrow> ReplayPolicy \<Rightarrow> nat" where
  "policy_cache_size io (MemoryStore s) = mem_cache_size s"
| "policy_cache_size io (FileStore s) = file_cache_size io s"

definition policy_in_memory :: ReplayPolicy where
  "policy_in_memory = MemoryStore in_memory_default"

text \<open>A sequence of calls (key, expiry, clock) against one store.\<close>

primrec store_run ::
    "('s \<Rightarrow> string \<Rightarrow> int \<Rightarrow> int \<Rightarrow> 'r \<times> 's) \<Rightarrow> 's \<Rightarrow> (string \<times> int \<times> int) list \<Rightarrow> 's" where
  "store_run car s [] = s"
| "store_run car s (c # cs) = store_run car (snd (car s (fst c) (fst (snd c)) (snd (snd c)))) cs"

section \<open>The trait as a contract\<close>

text \<open>
  What \<open>check_and_record\<close> promises, for a store state \<open>'s\<close> seen as a partial map \<open>recorded\<close> from
  keys to expiries: a record that has not expired stays and refuses its key, and a success leaves
  a record.
\<close>

locale replay_store =
  fixes car :: "'s \<Rightarrow> string \<Rightarrow> int \<Rightarrow> int \<Rightarrow> (ReplayError, unit) result \<times> 's"
    and recorded :: "'s \<Rightarrow> string \<Rightarrow> int option"
    and invar :: "'s \<Rightarrow> bool"
  assumes invar_car: "invar s \<Longrightarrow> invar (snd (car s j e now))"
    and keeps_live: "invar s \<Longrightarrow> recorded s k = Some x \<Longrightarrow> now \<le> x \<Longrightarrow>
          recorded (snd (car s j e now)) k = Some x"
    and refuses_live: "invar s \<Longrightarrow> recorded s j = Some x \<Longrightarrow> now \<le> x \<Longrightarrow> fst (car s j e now) \<noteq> Ok ()"
    and records: "invar s \<Longrightarrow> in_i64 e \<Longrightarrow> fst (car s j e now) = Ok () \<Longrightarrow>
          recorded (snd (car s j e now)) j = Some e"
    and refuses_blank: "trim j = [] \<Longrightarrow> fst (car s j e now) \<noteq> Ok ()"
begin

lemma run_invar: "invar s \<Longrightarrow> invar (store_run car s cs)"
  by (induction cs arbitrary: s) (simp_all add: invar_car)

lemma run_keeps_live:
  "invar s \<Longrightarrow> recorded s k = Some x \<Longrightarrow> list_all (\<lambda>c. snd (snd c) \<le> x) cs \<Longrightarrow>
     recorded (store_run car s cs) k = Some x"
  by (induction cs arbitrary: s) (simp_all add: keeps_live invar_car)

text \<open>A key that was accepted once is refused for as long as its record has not expired.\<close>

lemma accepted_key_is_refused:
  assumes "invar s" "in_i64 x" "fst (car s k x t) = Ok ()"
    and "list_all (\<lambda>c. snd (snd c) \<le> x) cs" and "t' \<le> x"
  shows "fst (car (store_run car (snd (car s k x t)) cs) k x' t') \<noteq> Ok ()"
proof -
  let ?s = "snd (car s k x t)"
  have "invar ?s" "recorded ?s k = Some x" using assms(1-3) by (simp_all add: invar_car records)
  then have "recorded (store_run car ?s cs) k = Some x" using assms(4) by (rule run_keeps_live)
  with \<open>invar ?s\<close> assms(5) show ?thesis using refuses_live run_invar by blast
qed

end

section \<open>The in-memory store meets the contract\<close>

text \<open>
  Keys are distinct, the store never outgrows \<open>max_seen\<close>, and the call counter stays below
  \<open>sweep_every\<close>, so its increment cannot overflow.
\<close>

definition mem_invar :: "InMemoryReplayStore \<Rightarrow> bool" where
  "mem_invar s \<longleftrightarrow> distinct (map fst (seen s)) \<and> length (seen s) \<le> max_seen s \<and>
     calls_since_sweep s < sweep_every s"

lemma mem_invar_new: "mem_invar (in_memory_new n k)"
  by (simp add: mem_invar_def in_memory_new_def)

lemma distinct_sweep: "distinct (map fst m) \<Longrightarrow> distinct (map fst (sweep_expired m now))"
  by (simp add: sweep_expired_def distinct_map_filter)

lemma length_sweep: "length (sweep_expired m now) \<le> length m"
  by (simp add: sweep_expired_def)

lemma set_sweep [simp]: "(k, x) \<in> set (sweep_expired m now) \<longleftrightarrow> (k, x) \<in> set m \<and> now \<le> x"
  by (auto simp: sweep_expired_def)

lemma length_alist_update_new:
  "map_of m k = None \<Longrightarrow> length (AList.update k v m) = Suc (length m)"
  by (induction m) (auto split: if_splits)

text \<open>The entries left after the sweeps of one call.\<close>

definition purged :: "InMemoryReplayStore \<Rightarrow> int \<Rightarrow> (string \<times> int) list" where
  "purged s now =
     (let m = (if sweep_every s \<le> calls_since_sweep s + 1 then sweep_expired (seen s) now else seen s)
      in if max_seen s \<le> length m then sweep_expired m now else m)"

lemma purged_distinct: "distinct (map fst (seen s)) \<Longrightarrow> distinct (map fst (purged s now))"
  by (simp add: purged_def Let_def distinct_sweep)

lemma purged_length: "length (purged s now) \<le> length (seen s)"
  using length_sweep [of "seen s" now] length_sweep [of "sweep_expired (seen s) now" now]
  by (simp add: purged_def Let_def)

lemma purged_sub: "(k, x) \<in> set (purged s now) \<Longrightarrow> (k, x) \<in> set (seen s)"
  by (auto simp: purged_def Let_def split: if_splits)

lemma purged_live: "(k, x) \<in> set (seen s) \<Longrightarrow> now \<le> x \<Longrightarrow> (k, x) \<in> set (purged s now)"
  by (auto simp: purged_def Let_def)

lemma purged_fresh: "map_of (seen s) j = None \<Longrightarrow> map_of (purged s now) j = None"
  by (force simp: map_of_eq_None_iff dest: purged_sub)

lemma mem_car_alt:
  "mem_check_and_record s j e now =
     (if trim j = [] then (Err (replay_error ReplayInvalidRequest ''jti must not be empty''), s)
      else if seen_poisoned s then (Err replay_store_unavailable, s)
      else if map_of (seen s) j \<noteq> None then
        (Err (replay_error ReplayDetected ''actor_token replay detected''), s)
      else if calls_poisoned s then (Err replay_store_unavailable, s)
      else
        let s' = s\<lparr>calls_since_sweep :=
                    (if sweep_every s \<le> calls_since_sweep s + 1 then 0 else calls_since_sweep s + 1)\<rparr>
        in if max_seen s \<le> length (purged s now)
           then (Err (replay_error StoreFull ''replay store full, retry shortly''),
                 s'\<lparr>seen := purged s now\<rparr>)
           else (Ok (), s'\<lparr>seen := AList.update j e (purged s now)\<rparr>))"
  by (simp add: mem_check_and_record_def purged_def Let_def)

lemma mem_invar_car: "mem_invar s \<Longrightarrow> mem_invar (snd (mem_check_and_record s j e now))"
  using purged_length [of s now]
  by (auto simp: mem_car_alt Let_def mem_invar_def purged_distinct distinct_update
      length_alist_update_new purged_fresh simp del: map_of_eq_None_iff not_None_eq)

lemma mem_car_keeps:
  assumes "mem_invar s" "map_of (seen s) k = Some x" "now \<le> x"
  shows "map_of (seen (snd (mem_check_and_record s j e now))) k = Some x"
proof -
  have "map_of (purged s now) k = Some x"
    using assms purged_live [OF map_of_SomeD]
    by (simp add: mem_invar_def purged_distinct)
  with assms(2) show ?thesis by (auto simp: mem_car_alt Let_def update_conv')
qed

lemma mem_car_refuses:
  "map_of (seen s) j = Some x \<Longrightarrow> fst (mem_check_and_record s j e now) \<noteq> Ok ()"
  by (simp add: mem_car_alt)

lemma mem_car_records:
  "fst (mem_check_and_record s j e now) = Ok () \<Longrightarrow>
     map_of (seen (snd (mem_check_and_record s j e now))) j = Some e"
  by (auto simp: mem_car_alt Let_def update_conv' split: if_splits)

interpretation mem: replay_store mem_check_and_record "\<lambda>s. map_of (seen s)" mem_invar
  by unfold_locales
     (simp_all add: mem_invar_car mem_car_keeps mem_car_refuses mem_car_records,
      simp add: mem_car_alt)

section \<open>The file-backed store meets the contract\<close>

text \<open>The expiry a file holds, whether or not the operating system lets us read it.\<close>

definition dir_recorded :: "directory \<Rightarrow> string \<Rightarrow> int option" where
  "dir_recorded d name =
     (case map_of d name of Some (RegFile content) \<Rightarrow> parse_i64 (trim content) | _ \<Rightarrow> None)"

definition file_recorded :: "(string \<Rightarrow> string) \<Rightarrow> FileReplayStore \<Rightarrow> string \<Rightarrow> int option" where
  "file_recorded sha256 s jti = dir_recorded (dir s) (replay_filename sha256 jti)"

definition file_invar :: "FileReplayStore \<Rightarrow> bool" where
  "file_invar s \<longleftrightarrow> distinct (map fst (dir s))"

text \<open>An entry that a sweep at time \<open>now\<close> must leave alone.\<close>

definition unexpired :: "directory \<Rightarrow> int \<Rightarrow> string \<Rightarrow> bool" where
  "unexpired d now name \<longleftrightarrow> (case dir_recorded d name of None \<Rightarrow> True | Some x \<Rightarrow> now \<le> x)"

lemma read_exp_recorded: "read_exp io d name = (if io_read io name then dir_recorded d name else None)"
  by (simp add: read_exp_def dir_recorded_def)

lemma unexpired_cong: "map_of d' k = map_of d k \<Longrightarrow> unexpired d' now k = unexpired d now k"
  by (simp add: unexpired_def dir_recorded_def)

lemma read_exp_expired:
  "unexpired d now name \<Longrightarrow> \<not> (case read_exp io d name of None \<Rightarrow> False | Some x \<Rightarrow> x < now)"
  by (auto simp: unexpired_def read_exp_recorded split: option.splits)

lemma remove_frame: "k \<noteq> name \<Longrightarrow> map_of (snd (remove_replay_file io d name)) k = map_of d k"
  by (simp add: remove_replay_file_def delete_conv')

lemma remove_distinct:
  "distinct (map fst d) \<Longrightarrow> distinct (map fst (snd (remove_replay_file io d name)))"
  by (simp add: remove_replay_file_def distinct_delete)

lemma sweep_loop_frame:
  "unexpired d now k \<Longrightarrow> map_of (snd (sweep_loop io now names d)) k = map_of d k"
proof (induction names arbitrary: d)
  case (Cons name names)
  obtain r d' where rm: "remove_replay_file io d name = (r, d')" by fastforce
  show ?case
  proof (cases "k = name")
    case True
    with Cons show ?thesis using read_exp_expired [of d now name io] by simp
  next
    case False
    then have "map_of d' k = map_of d k" using remove_frame [of k name io d] rm by simp
    moreover from this have "unexpired d' now k" 
      using Cons.prems by (simp add: unexpired_cong [of d' k d])
    ultimately show ?thesis using Cons rm by (cases r) simp_all
  qed
qed simp

lemma sweep_loop_distinct:
  "distinct (map fst d) \<Longrightarrow> distinct (map fst (snd (sweep_loop io now names d)))"
proof (induction names arbitrary: d)
  case (Cons name names)
  obtain r d' where rm: "remove_replay_file io d name = (r, d')" by fastforce
  then have "distinct (map fst d')" using remove_distinct [OF Cons.prems, of io name] by simp
  with Cons rm show ?case by (cases r) simp_all
qed simp

lemma file_sweep_frame:
  "unexpired d now k \<Longrightarrow> map_of (snd (file_sweep_expired io d now)) k = map_of d k"
  by (simp add: file_sweep_expired_def sweep_loop_frame)

lemma file_sweep_distinct:
  "distinct (map fst d) \<Longrightarrow> distinct (map fst (snd (file_sweep_expired io d now)))"
  by (simp add: file_sweep_expired_def sweep_loop_distinct)

lemma maybe_sweep_frame:
  "unexpired (dir s) now k \<Longrightarrow> map_of (dir (snd (maybe_sweep io s now))) k = map_of (dir s) k"
  using file_sweep_frame [of "dir s" now k io]
  by (auto simp: maybe_sweep_def Let_def split: prod.splits sum.splits)

lemma maybe_sweep_invar: "file_invar s \<Longrightarrow> file_invar (snd (maybe_sweep io s now))"
  using file_sweep_distinct [of "dir s" io now]
  by (auto simp: maybe_sweep_def file_invar_def Let_def split: prod.splits sum.splits)

lemma sweep_when_full_frame:
  "unexpired (dir s) now k \<Longrightarrow> map_of (dir (snd (sweep_when_full io s now))) k = map_of (dir s) k"
  using file_sweep_frame [of "dir s" now k io]
  by (auto simp: sweep_when_full_def split: prod.splits sum.splits)

lemma sweep_when_full_invar: "file_invar s \<Longrightarrow> file_invar (snd (sweep_when_full io s now))"
  using file_sweep_distinct [of "dir s" io now]
  by (auto simp: sweep_when_full_def file_invar_def split: prod.splits sum.splits)

text \<open>Sweeps only remove entries.\<close>

lemma remove_sub: "map_of (snd (remove_replay_file io d name)) \<subseteq>\<^sub>m map_of d"
  by (simp add: remove_replay_file_def delete_conv' map_le_def)

lemma sweep_loop_sub: "map_of (snd (sweep_loop io now names d)) \<subseteq>\<^sub>m map_of d"
proof (induction names arbitrary: d)
  case (Cons name names)
  obtain r d' where rm: "remove_replay_file io d name = (r, d')" by fastforce
  with remove_sub [of io d name] Cons.IH map_le_trans [OF Cons.IH [of d']] show ?case by (cases r) simp_all
qed simp

lemma file_sweep_sub: "map_of (snd (file_sweep_expired io d now)) \<subseteq>\<^sub>m map_of d"
  by (simp add: file_sweep_expired_def sweep_loop_sub)

lemma maybe_sweep_sub: "map_of (dir (snd (maybe_sweep io s now))) \<subseteq>\<^sub>m map_of (dir s)"
  using file_sweep_sub [of io "dir s" now] by (auto simp: maybe_sweep_def Let_def split: prod.splits sum.splits)

lemma sweep_when_full_sub: "map_of (dir (snd (sweep_when_full io s now))) \<subseteq>\<^sub>m map_of (dir s)"
  using file_sweep_sub [of io "dir s" now] by (auto simp: sweep_when_full_def split: prod.splits sum.splits)

lemma create_frame:
  "map_of d k \<noteq> None \<Longrightarrow> map_of (snd (create_and_write io d name expiry)) k = map_of d k"
  by (auto simp: create_and_write_def)

lemma create_distinct:
  "distinct (map fst d) \<Longrightarrow> distinct (map fst (snd (create_and_write io d name expiry)))"
  by (auto simp: create_and_write_def map_of_eq_None_iff)

lemma create_refuses: "map_of d name \<noteq> None \<Longrightarrow> fst (create_and_write io d name expiry) \<noteq> Ok ()"
  by (auto simp: create_and_write_def)

lemma create_records:
  assumes "fst (create_and_write io d name expiry) = Ok ()" "in_i64 expiry"
  shows "dir_recorded (snd (create_and_write io d name expiry)) name = Some expiry"
proof -
  from assms(1) have "snd (create_and_write io d name expiry) =
      d @ [(name, RegFile (display_i64 expiry @ [CHR 0x0A]))]" "map_of d name = None"
    by (auto simp: create_and_write_def split: if_splits)
  with assms(2) show ?thesis
    by (simp add: dir_recorded_def map_add_def trim_newline display_i64_no_ws parse_i64_display)
qed

lemma claim_cases:
  obtains "claim_file io d name expiry now = create_and_write io d name expiry"
  | e d' where "\<not> unexpired d now name" "claim_file io d name expiry now = (Inl e, d')"
      "d' = snd (remove_replay_file io d name)"
  | d' where "\<not> unexpired d now name" "d' = snd (remove_replay_file io d name)"
      "claim_file io d name expiry now = create_and_write io d' name expiry"
proof (cases "case read_exp io d name of None \<Rightarrow> False | Some x \<Rightarrow> x < now")
  case False
  then show ?thesis using that(1) by (simp add: claim_file_def)
next
  case True
  then have "\<not> unexpired d now name" using read_exp_expired by blast
  with True that(2,3) show ?thesis
    by (cases "remove_replay_file io d name"; cases "fst (remove_replay_file io d name)")
       (auto simp: claim_file_def)
qed

lemma claim_frame:
  assumes "unexpired d now k" "map_of d k \<noteq> None"
  shows "map_of (snd (claim_file io d name expiry now)) k = map_of d k"
proof (cases rule: claim_cases [of io d name expiry now])
  case (3 d')
  then have "k \<noteq> name" using assms(1) by blast
  with 3 assms show ?thesis by (simp add: create_frame remove_frame)
next
  case (2 e d')
  then have "k \<noteq> name" using assms(1) by blast
  with 2 show ?thesis by (simp add: remove_frame)
qed (simp add: create_frame assms)

lemma claim_distinct:
  "distinct (map fst d) \<Longrightarrow> distinct (map fst (snd (claim_file io d name expiry now)))"
  by (cases rule: claim_cases [of io d name expiry now])
     (simp_all add: create_distinct remove_distinct)

lemma claim_refuses:
  assumes "unexpired d now name" "map_of d name \<noteq> None"
  shows "fst (claim_file io d name expiry now) \<noteq> Ok ()"
  by (cases rule: claim_cases [of io d name expiry now]) (simp_all add: create_refuses assms)

lemma claim_records:
  assumes "fst (claim_file io d name expiry now) = Ok ()" "in_i64 expiry"
  shows "dir_recorded (snd (claim_file io d name expiry now)) name = Some expiry"
  using assms
  by (cases rule: claim_cases [of io d name expiry now]) (simp_all add: create_records)

text \<open>One call either fails in a state reached by sweeps, or ends with the claim of the file.\<close>

text \<open>What the sweeps before a claim keep.\<close>

lemma swept_frame:
  assumes 1: "maybe_sweep io s now = (r1, s1)" and 2: "sweep_when_full io s1 now = (r2, s2)"
  shows "unexpired (dir s) now k \<Longrightarrow> map_of (dir s1) k = map_of (dir s) k"
    and "unexpired (dir s) now k \<Longrightarrow> map_of (dir s2) k = map_of (dir s) k"
    and "file_invar s \<Longrightarrow> file_invar s1" and "file_invar s \<Longrightarrow> file_invar s2"
    and "map_of (dir s1) \<subseteq>\<^sub>m map_of (dir s)" and "map_of (dir s2) \<subseteq>\<^sub>m map_of (dir s)"
proof -
  have f1: "map_of (dir s1) k = map_of (dir s) k" if "unexpired (dir s) now k"
    using maybe_sweep_frame [OF that, of io] 1 by simp
  have u1: "unexpired (dir s1) now k" if "unexpired (dir s) now k"
    using that f1 [OF that] unexpired_cong [of "dir s1" k "dir s"] by simp
  show "unexpired (dir s) now k \<Longrightarrow> map_of (dir s1) k = map_of (dir s) k" by (rule f1)
  show "unexpired (dir s) now k \<Longrightarrow> map_of (dir s2) k = map_of (dir s) k"
    using sweep_when_full_frame [OF u1, of io] f1 2 by simp
  show i1: "file_invar s \<Longrightarrow> file_invar s1" using maybe_sweep_invar [of s io now] 1 by simp
  show "file_invar s \<Longrightarrow> file_invar s2" using i1 sweep_when_full_invar [of s1 io now] 2 by simp
  show m1: "map_of (dir s1) \<subseteq>\<^sub>m map_of (dir s)" using maybe_sweep_sub [of io s now] 1 by simp
  show "map_of (dir s2) \<subseteq>\<^sub>m map_of (dir s)"
    using map_le_trans [OF sweep_when_full_sub [of io s1 now]] m1 2 by simp
qed

lemma file_car_cases:
  fixes s :: FileReplayStore
  obtains (early) e s' where "file_check_and_record sha256 io s j expiry now = (Inl e, s')"
      "\<And>k. unexpired (dir s) now k \<Longrightarrow> map_of (dir s') k = map_of (dir s) k"
      "file_invar s \<Longrightarrow> file_invar s'" "map_of (dir s') \<subseteq>\<^sub>m map_of (dir s)"
  | (claim) s' where "trim j \<noteq> []"
      "file_check_and_record sha256 io s j expiry now =
         (fst (claim_file io (dir s') (replay_filename sha256 j) expiry now),
          s'\<lparr>dir := snd (claim_file io (dir s') (replay_filename sha256 j) expiry now)\<rparr>)"
      "\<And>k. unexpired (dir s) now k \<Longrightarrow> map_of (dir s') k = map_of (dir s) k"
      "file_invar s \<Longrightarrow> file_invar s'" "map_of (dir s') \<subseteq>\<^sub>m map_of (dir s)"
proof -
  obtain r1 s1 where 1: "maybe_sweep io s now = (r1, s1)" by fastforce
  obtain r2 s2 where 2: "sweep_when_full io s1 now = (r2, s2)" by fastforce
  note kept = swept_frame [OF 1 2]
  note ops = file_check_and_record_def 1 2
  consider "trim j = []" | e where "trim j \<noteq> []" "r1 = Inl e"
    | e where "trim j \<noteq> []" "r1 = Inr ()" "r2 = Inl e"
    | "trim j \<noteq> []" "r1 = Inr ()" "r2 = Inr ()" by (cases r1; cases r2) auto
  then show thesis
  proof cases
    case 1
    show ?thesis by (rule early) (use 1 in \<open>auto simp: ops\<close>)
  next
    case (2 e)
    show ?thesis by (rule early [of e s1]) (use 2 kept in \<open>auto simp: ops\<close>)
  next
    case (3 e)
    show ?thesis by (rule early [of e s2]) (use 3 kept in \<open>auto simp: ops\<close>)
  next
    case 4
    show ?thesis
    proof (cases "active_entry_count io (dir s2)")
      case (Inl e)
      show ?thesis by (rule early [of e s2]) (use 4 Inl kept in \<open>auto simp: ops\<close>)
    next
      case (Inr n)
      show ?thesis
      proof (cases "file_max_seen s2 \<le> n")
        case True
        then show ?thesis by (intro early [of _ s2]) (use 4 Inr kept in \<open>auto simp: ops\<close>)
      next
        case False
        then show ?thesis
          by (intro claim [of s2]) (use 4 Inr kept in \<open>auto simp: ops split: prod.splits\<close>)
      qed
    qed
  qed
qed

lemma dir_recorded_unexpired:
  "dir_recorded d k = Some x \<Longrightarrow> now \<le> x \<Longrightarrow> unexpired d now k \<and> map_of d k \<noteq> None"
  by (auto simp: unexpired_def dir_recorded_def split: option.splits)

lemma dir_recorded_cong: "map_of d' k = map_of d k \<Longrightarrow> dir_recorded d' k = dir_recorded d k"
  by (simp add: dir_recorded_def)

lemma file_invar_car: "file_invar s \<Longrightarrow> file_invar (snd (file_check_and_record sha256 io s j e now))"
  by (cases rule: file_car_cases [of sha256 io s j e now])
     (auto simp: file_invar_def claim_distinct)

lemma file_car_keeps:
  assumes "dir_recorded (dir s) k = Some x" "now \<le> x"
  shows "dir_recorded (dir (snd (file_check_and_record sha256 io s j e now))) k = Some x"
proof -
  from assms have u: "unexpired (dir s) now k" "map_of (dir s) k \<noteq> None"
    using dir_recorded_unexpired by auto
  have "map_of (dir (snd (file_check_and_record sha256 io s j e now))) k = map_of (dir s) k"
  proof (cases rule: file_car_cases [of sha256 io s j e now])
    case (claim s')
    then have "map_of (dir s') k = map_of (dir s) k" using u by blast
    with claim(2) u show ?thesis
      by (simp add: claim_frame unexpired_cong [of "dir s'" k "dir s"])
  qed (use u in simp)
  with assms(1) show ?thesis using dir_recorded_cong by metis
qed

lemma file_car_refuses:
  assumes "dir_recorded (dir s) (replay_filename sha256 j) = Some x" "now \<le> x"
  shows "fst (file_check_and_record sha256 io s j e now) \<noteq> Ok ()"
proof -
  let ?k = "replay_filename sha256 j"
  from assms have u: "unexpired (dir s) now ?k" "map_of (dir s) ?k \<noteq> None"
    using dir_recorded_unexpired by auto
  show ?thesis
  proof (cases rule: file_car_cases [of sha256 io s j e now])
    case (claim s')
    then have "map_of (dir s') ?k = map_of (dir s) ?k" using u by blast
    with claim(2) u show ?thesis
      by (simp add: claim_refuses unexpired_cong [of "dir s'" ?k "dir s"])
  qed simp
qed

lemma file_car_records:
  assumes "fst (file_check_and_record sha256 io s j e now) = Ok ()" "in_i64 e"
  shows "dir_recorded (dir (snd (file_check_and_record sha256 io s j e now)))
           (replay_filename sha256 j) = Some e"
  using assms
  by (cases rule: file_car_cases [of sha256 io s j e now]) (simp_all add: claim_records)

lemma file_car_blank: "trim j = [] \<Longrightarrow> fst (file_check_and_record sha256 io s j e now) \<noteq> Ok ()"
  by (simp add: file_check_and_record_def)

interpretation fstore: replay_store "file_check_and_record sha256 io" "file_recorded sha256" file_invar
  for sha256 io
  by unfold_locales
     (simp_all add: file_invar_car file_recorded_def file_car_keeps file_car_refuses
       file_car_records file_car_blank)

section \<open>The policy object meets the contract\<close>

fun policy_recorded :: "(string \<Rightarrow> string) \<Rightarrow> ReplayPolicy \<Rightarrow> string \<Rightarrow> int option" where
  "policy_recorded sha256 (MemoryStore s) j = map_of (seen s) j"
| "policy_recorded sha256 (FileStore s) j = file_recorded sha256 s j"

fun policy_invar :: "ReplayPolicy \<Rightarrow> bool" where
  "policy_invar (MemoryStore s) \<longleftrightarrow> mem_invar s"
| "policy_invar (FileStore s) \<longleftrightarrow> file_invar s"

lemma policy_car_unfold:
  "fst (policy_check_and_record sha256 io (MemoryStore s) j e now) = fst (mem_check_and_record s j e now)"
  "snd (policy_check_and_record sha256 io (MemoryStore s) j e now) =
     MemoryStore (snd (mem_check_and_record s j e now))"
  "fst (policy_check_and_record sha256 io (FileStore f) j e now) =
     fst (file_check_and_record sha256 io f j e now)"
  "snd (policy_check_and_record sha256 io (FileStore f) j e now) =
     FileStore (snd (file_check_and_record sha256 io f j e now))"
  by (simp_all split: prod.splits)

interpretation policy: replay_store "policy_check_and_record sha256 io" "policy_recorded sha256" policy_invar
  for sha256 io
proof (unfold_locales, goal_cases)
  case (1 s j e now)
  then show ?case
    by (cases s) (simp_all add: policy_car_unfold mem.invar_car fstore.invar_car del: policy_check_and_record.simps)
next
  case (2 s k x now j e)
  then show ?case
    by (cases s) (simp_all add: policy_car_unfold mem.keeps_live fstore.keeps_live del: policy_check_and_record.simps)
next
  case (3 s j x now e)
  then show ?case
    by (cases s) (auto simp: policy_car_unfold dest: mem.refuses_live fstore.refuses_live
        simp del: policy_check_and_record.simps)
next
  case (4 s e j now)
  then show ?case
    by (cases s) (simp_all add: policy_car_unfold mem.records fstore.records del: policy_check_and_record.simps)
next
  case (5 j s e now)
  then show ?case
    by (cases s) (auto simp: policy_car_unfold dest: mem.refuses_blank fstore.refuses_blank
        simp del: policy_check_and_record.simps)
qed

section \<open>Properties\<close>

text \<open>
  C16: replay protection of either backend. Once a key was accepted with expiry \<open>x\<close>, every later
  call with that key fails as long as no call's clock has passed \<open>x\<close>, whatever other calls come
  between, whatever the hash does and whichever file operations fail.
\<close>

theorem replay_single_use:
  assumes "policy_invar p" "in_i64 x"
    and "policy_check_and_record sha256 io p k x t = (Ok (), p1)"
    and "list_all (\<lambda>c. snd (snd c) \<le> x) cs" and "t' \<le> x"
  shows "\<exists>e p2. policy_check_and_record sha256 io
           (store_run (policy_check_and_record sha256 io) p1 cs) k x' t' = (Err e, p2)"
proof -
  have "fst (policy_check_and_record sha256 io
           (store_run (policy_check_and_record sha256 io) p1 cs) k x' t') \<noteq> Ok ()"
    using policy.accepted_key_is_refused [OF assms(1,2), of sha256 io k t cs t' x'] assms(3-5) by simp
  then show ?thesis
    by (cases "fst (policy_check_and_record sha256 io
           (store_run (policy_check_and_record sha256 io) p1 cs) k x' t')") (auto simp: prod_eq_iff)
qed

theorem replay_single_use_witness:
  "policy_check_and_record id io_healthy policy_in_memory ''k'' 10 1 =
     (Ok (), snd (policy_check_and_record id io_healthy policy_in_memory ''k'' 10 1)) \<and>
   (\<exists>e p2. policy_check_and_record id io_healthy
      (store_run (policy_check_and_record id io_healthy)
        (snd (policy_check_and_record id io_healthy policy_in_memory ''k'' 10 1))
        [(''other'', 9, 5)]) ''k'' 12 8 = (Err e, p2))"
proof -
  have i: "policy_invar policy_in_memory"
    by (simp add: policy_in_memory_def in_memory_default_def mem_invar_new)
  have x: "in_i64 10" by (simp add: i64_bounds)
  have a: "policy_check_and_record id io_healthy policy_in_memory ''k'' 10 1 =
     (Ok (), snd (policy_check_and_record id io_healthy policy_in_memory ''k'' 10 1))"
    by (simp add: policy_in_memory_def in_memory_default_def in_memory_new_def
        mem_check_and_record_def is_token_def [symmetric] ws1_def)
  show ?thesis using replay_single_use [OF i x a, of "[(''other'', 9, 5)]" 8 12] a by simp
qed

text \<open>
  From a fresh in-memory store, whatever calls are made, the store never holds more than its
  capacity, never holds a key twice, and the call counter stays below the sweep interval (so
  incrementing it cannot overflow).
\<close>

theorem mem_store_bounded:
  "let s = store_run mem_check_and_record (in_memory_new n k) cs
   in length (seen s) \<le> max_seen s \<and> distinct (map fst (seen s)) \<and>
      calls_since_sweep s < sweep_every s"
  using mem.run_invar [OF mem_invar_new, of n k cs] by (simp add: mem_invar_def Let_def)

lemma purged_full: "length (purged s now) < max_seen s \<longleftrightarrow> length (sweep_expired (seen s) now) < max_seen s"
proof -
  have idem: "sweep_expired (sweep_expired m now) now = sweep_expired m now" for m
    by (simp add: sweep_expired_def case_prod_unfold)
  show ?thesis using length_sweep [of "seen s" now] by (auto simp: purged_def Let_def idem)
qed

text \<open>
  Exactly when the in-memory store accepts. The key must not be blank or already recorded,
  no lock may be poisoned, and fewer than \<open>max_seen\<close> unexpired records may be held: expired
  records never make the store full.
\<close>

theorem mem_store_accepts_iff:
  "fst (mem_check_and_record s j e now) = Ok () \<longleftrightarrow>
     trim j \<noteq> [] \<and> \<not> seen_poisoned s \<and> \<not> calls_poisoned s \<and> map_of (seen s) j = None \<and>
     length (sweep_expired (seen s) now) < max_seen s"
  by (auto simp: mem_car_alt Let_def not_le simp flip: purged_full split: if_splits)

end
