(* ===== verification/Replay_Spec.thy ===== *)
theory Replay_Spec
  imports Sts_Replay
begin

text \<open>
  The replay store as a specification: a partial map from keys to expiries whose steps may forget
  expired entries, accept a key that is not recorded, or refuse. Both stores refine it, and a store
  recovers once what it recorded has expired.
\<close>

section \<open>The specification\<close>

definition purge :: "int \<Rightarrow> ('k \<rightharpoonup> int) \<Rightarrow> ('k \<rightharpoonup> int) \<Rightarrow> bool" where
  "purge now M P \<longleftrightarrow> P \<subseteq>\<^sub>m M \<and> (\<forall>k x. M k = Some x \<longrightarrow> now \<le> x \<longrightarrow> P k = Some x)"

inductive spec_step :: "('k \<rightharpoonup> int) \<Rightarrow> ('k \<times> int \<times> int) \<times> bool \<Rightarrow> ('k \<rightharpoonup> int) \<Rightarrow> bool" where
  accept: "purge now M P \<Longrightarrow> P j = None \<Longrightarrow> spec_step M ((j, e, now), True) (P(j \<mapsto> e))"
| refuse: "purge now M P \<Longrightarrow> spec_step M ((j, e, now), False) P"

inductive_cases spec_acceptE: "spec_step M ((j, e, now), True) M'"

inductive spec_run :: "('k \<rightharpoonup> int) \<Rightarrow> (('k \<times> int \<times> int) \<times> bool) list \<Rightarrow> ('k \<rightharpoonup> int) \<Rightarrow> bool" where
  empty: "spec_run M [] M"
| step: "spec_step M a M' \<Longrightarrow> spec_run M' tr M'' \<Longrightarrow> spec_run M (a # tr) M''"

inductive_cases spec_run_ConsE: "spec_run M (a # tr) M''"

lemma spec_step_keeps:
  "spec_step M a M' \<Longrightarrow> M k = Some x \<Longrightarrow> snd (snd (fst a)) \<le> x \<Longrightarrow> M' k = Some x"
  by (induction rule: spec_step.induct) (auto simp: purge_def)

lemma spec_run_refuses:
  assumes "spec_run M tr M''" "M k = Some x" "tr = bs @ [((k, x', t'), r)]" "\<forall>a\<in>set tr. snd (snd (fst a)) \<le> x"
  shows "\<not> r"
  using assms
proof (induction arbitrary: bs rule: spec_run.induct)
  case (step M a M' tr M'')
  have keep: "M' k = Some x" using spec_step_keeps [OF step.hyps(1) step.prems(1)] step.prems(3) by simp
  show ?case
  proof (cases bs)
    case Nil
    with step.prems have "a = ((k, x', t'), r)" "t' \<le> x" by auto
    with step.hyps(1) step.prems(1) show ?thesis by (auto elim!: spec_step.cases simp: purge_def)
  next
    case (Cons b bs')
    with step.IH [OF keep, of bs'] step.prems show ?thesis by simp
  qed
qed simp

text \<open>In a run of the specification a key is accepted at most once while its record is unexpired.\<close>

lemma spec_at_most_once:
  assumes "spec_run M (((k, x, t), True) # tr @ [((k, x', t'), r)]) M''" "\<forall>a\<in>set tr. snd (snd (fst a)) \<le> x" "t' \<le> x"
  shows "\<not> r"
proof -
  from assms(1) obtain M' where "spec_step M ((k, x, t), True) M'" and run: "spec_run M' (tr @ [((k, x', t'), r)]) M''"
    by (auto elim: spec_run_ConsE)
  then have "M' k = Some x" by (auto elim: spec_acceptE)
  from spec_run_refuses [OF run this, of tr] assms(2,3) show ?thesis by auto
qed

section \<open>Refinement\<close>

text \<open>A file store knows a key by the name of its file.\<close>

fun policy_abs :: "ReplayPolicy \<Rightarrow> string \<rightharpoonup> int" where
  "policy_abs (MemoryStore s) = map_of (seen s)"
| "policy_abs (FileStore s) = dir_recorded (dir s)"

fun policy_key :: "(string \<Rightarrow> string) \<Rightarrow> ReplayPolicy \<Rightarrow> string \<Rightarrow> string" where
  "policy_key sha256 (MemoryStore s) j = j"
| "policy_key sha256 (FileStore s) j = replay_filename sha256 j"

primrec store_replies ::
    "('s \<Rightarrow> string \<Rightarrow> int \<Rightarrow> int \<Rightarrow> ('e, unit) result \<times> 's) \<Rightarrow> 's \<Rightarrow> (string \<times> int \<times> int) list \<Rightarrow> bool list" where
  "store_replies car s [] = []"
| "store_replies car s (c # cs) =
     is_ok (fst (car s (fst c) (fst (snd c)) (snd (snd c)))) #
     store_replies car (snd (car s (fst c) (fst (snd c)) (snd (snd c)))) cs"

text \<open>
  A store that refines the specification: \<open>abs\<close> are the records it stands for and \<open>key\<close> the name under
  which it knows a key.
\<close>

locale replay_refinement = replay_store car recorded invar
  for car :: "'s \<Rightarrow> string \<Rightarrow> int \<Rightarrow> int \<Rightarrow> (ReplayError, unit) result \<times> 's"
    and recorded :: "'s \<Rightarrow> string \<Rightarrow> int option"
    and invar :: "'s \<Rightarrow> bool" +
  fixes abs :: "'s \<Rightarrow> 'k \<rightharpoonup> int"
    and key :: "'s \<Rightarrow> string \<Rightarrow> 'k"
  assumes simulates: "invar s \<Longrightarrow> in_i64 e \<Longrightarrow>
      spec_step (abs s) ((key s j, e, now), is_ok (fst (car s j e now))) (abs (snd (car s j e now)))"
    and key_stable: "key (snd (car s j e now)) = key s"
begin

lemma run_refines:
  assumes "invar s" "list_all (\<lambda>c. in_i64 (fst (snd c))) cs"
  shows "spec_run (abs s) (zip (map (apfst (key s)) cs) (store_replies car s cs)) (abs (store_run car s cs))"
  using assms
proof (induction cs arbitrary: s)
  case (Cons c cs)
  obtain j e now where c: "c = (j, e, now)" by (cases c)
  have "invar (snd (car s j e now))" using Cons.prems(1) by (rule invar_car)
  from step [OF simulates Cons.IH [OF this]] Cons.prems show ?case by (simp add: c key_stable)
qed (simp add: empty)

end

lemma purged_purge:
  assumes "distinct (map fst (seen s))"
  shows "purge now (map_of (seen s)) (map_of (purged s now))"
  using assms purged_sub purged_live
  by (fastforce simp: purge_def map_le_def purged_distinct dest: map_of_SomeD)

lemma purge_refl: "purge now M M"
  by (simp add: purge_def)

lemma mem_refines:
  assumes "mem_invar s"
  shows "spec_step (map_of (seen s)) ((j, e, now), is_ok (fst (mem_check_and_record s j e now)))
    (map_of (seen (snd (mem_check_and_record s j e now))))"
proof -
  have p: "purge now (map_of (seen s)) (map_of (purged s now))" using assms by (simp add: mem_invar_def purged_purge)
  show ?thesis
    using accept [OF p, of j e] refuse [OF p, of j e] refuse [OF purge_refl [of now "map_of (seen s)"], of j e] purged_fresh [of s j now]
    by (simp add: mem_car_alt Let_def update_conv' is_ok_def)
qed

lemma dir_recorded_purge:
  assumes "map_of d' \<subseteq>\<^sub>m map_of d" "\<And>k. unexpired d now k \<Longrightarrow> map_of d' k = map_of d k"
  shows "purge now (dir_recorded d) (dir_recorded d')"
proof -
  have "dir_recorded d' \<subseteq>\<^sub>m dir_recorded d"
    using assms(1) by (fastforce simp: map_le_def dir_recorded_def dom_def split: option.splits dirent.splits)
  moreover have "dir_recorded d' k = Some x" if "dir_recorded d k = Some x" "now \<le> x" for k x
    using that assms(2) [of k] dir_recorded_unexpired dir_recorded_cong by metis
  ultimately show ?thesis by (simp add: purge_def)
qed

lemma purge_trans: "purge now L M \<Longrightarrow> purge now M P \<Longrightarrow> purge now L P"
  by (auto simp: purge_def intro: map_le_trans)

lemma create_refines:
  assumes "purge now M (dir_recorded d)" "in_i64 e"
  shows "spec_step M ((name, e, now), is_ok (fst (create_and_write io d name e)))
    (dir_recorded (snd (create_and_write io d name e)))"
proof (cases "map_of d name")
  case None
  then have n: "dir_recorded d name = None" by (simp add: dir_recorded_def)
  have "dir_recorded (d @ [(name, v)]) = (dir_recorded d)(name := dir_recorded [(name, v)] name)" for v
    using None by (auto simp: fun_eq_iff dir_recorded_def map_add_def split: option.splits)
  moreover have "dir_recorded [(name, RegFile (display_i64 e @ [CHR 0x0A]))] name = Some e"
    using assms(2) by (simp add: dir_recorded_def trim_newline display_i64_no_ws parse_i64_display)
  moreover have "dir_recorded [(name, RegFile [])] name = None" by (simp add: dir_recorded_def parse_i64_def)
  moreover have "(dir_recorded d)(name := None) = dir_recorded d" using n by auto
  ultimately show ?thesis
    using None n accept [OF assms(1), of name e] refuse [OF assms(1), of name e]
    by (simp add: create_and_write_def is_ok_def)
next
  case (Some v)
  then show ?thesis using refuse [OF assms(1), of name e] by (simp add: create_and_write_def is_ok_def)
qed

lemma remove_purge:
  assumes "\<not> unexpired d now name"
  shows "purge now (dir_recorded d) (dir_recorded (snd (remove_replay_file io d name)))"
proof (rule dir_recorded_purge)
  show "map_of (snd (remove_replay_file io d name)) k = map_of d k" if "unexpired d now k" for k
    using that assms by (cases "k = name") (simp_all add: remove_frame)
qed (rule remove_sub)

lemma claim_refines:
  assumes p: "purge now M (dir_recorded d)" and e: "in_i64 e"
  shows "spec_step M ((name, e, now), is_ok (fst (claim_file io d name e now))) (dir_recorded (snd (claim_file io d name e now)))"
proof (cases rule: claim_cases [of io d name e now])
  case 1
  then show ?thesis using create_refines [OF p e] by simp
next
  case (2 err d')
  then show ?thesis using refuse [OF purge_trans [OF p remove_purge]] by (simp add: is_ok_def)
next
  case (3 d')
  then show ?thesis using create_refines [OF purge_trans [OF p remove_purge] e] by simp
qed

lemma file_refines:
  assumes "in_i64 e"
  shows "spec_step (dir_recorded (dir s)) ((replay_filename sha256 j, e, now), is_ok (fst (file_check_and_record sha256 io s j e now)))
    (dir_recorded (dir (snd (file_check_and_record sha256 io s j e now))))"
proof (cases rule: file_car_cases [of sha256 io s j e now])
  case (early err s')
  then show ?thesis using refuse [OF dir_recorded_purge [of "dir s'" "dir s" now]] by (simp add: is_ok_def)
next
  case (claim s')
  then show ?thesis using claim_refines [OF dir_recorded_purge [of "dir s'" "dir s" now] assms] by simp
qed

lemma policy_refines:
  assumes "policy_invar p" "in_i64 e"
  shows "spec_step (policy_abs p) ((policy_key sha256 p j, e, now), is_ok (fst (policy_check_and_record sha256 io p j e now)))
    (policy_abs (snd (policy_check_and_record sha256 io p j e now)))"
  using assms mem_refines file_refines
  by (cases p) (simp_all add: policy_car_unfold del: policy_check_and_record.simps)

lemma policy_key_stable: "policy_key sha256 (snd (policy_check_and_record sha256 io p j e now)) = policy_key sha256 p"
  by (cases p) (auto simp: fun_eq_iff policy_car_unfold simp del: policy_check_and_record.simps)

interpretation policy_spec: replay_refinement "policy_check_and_record sha256 io" "policy_recorded sha256" policy_invar
  policy_abs "policy_key sha256" for sha256 io
  by unfold_locales (rule policy_refines policy_key_stable; assumption?)+

section \<open>Recovery\<close>

text \<open>Every entry of the directory is a record with an expiry of at most \<open>b\<close>.\<close>

definition entry_until :: "int \<Rightarrow> dirent \<Rightarrow> bool" where
  "entry_until b v \<longleftrightarrow> (case v of RegFile c \<Rightarrow> (case parse_i64 (trim c) of Some x \<Rightarrow> x \<le> b | None \<Rightarrow> False) | OtherEntry \<Rightarrow> False)"

definition records_until :: "int \<Rightarrow> directory \<Rightarrow> bool" where
  "records_until b d \<longleftrightarrow> distinct (map fst d) \<and> (\<forall>v \<in> snd ` set d. entry_until b v)"

lemma io_healthy_simps [simp]:
  "io_read_dir io_healthy" "io_entry io_healthy n" "io_read io_healthy n" "io_remove io_healthy n" "io_create io_healthy n"
  "io_write io_healthy n"
  by (simp_all add: io_healthy_def)

lemma records_until_sub:
  assumes "records_until b d" "map_of d' \<subseteq>\<^sub>m map_of d" "distinct (map fst d')"
  shows "records_until b d'"
proof -
  have "(k, v) \<in> set d" if "(k, v) \<in> set d'" for k v
    using that assms(2,3) by (metis domI map_le_def map_of_SomeD map_of_eq_Some_iff)
  with assms show ?thesis by (force simp: records_until_def)
qed

lemma records_until_get:
  assumes "records_until b d" "map_of d name = Some v"
  shows "is_file d name" "\<exists>x. dir_recorded d name = Some x \<and> x \<le> b"
proof -
  have "entry_until b v" using assms by (force simp: records_until_def dest: map_of_SomeD)
  then show "is_file d name" "\<exists>x. dir_recorded d name = Some x \<and> x \<le> b"
    using assms(2) by (auto simp: entry_until_def is_file_def dir_recorded_def split: dirent.splits option.splits)
qed

lemma remove_until: "records_until b d \<Longrightarrow> records_until b (snd (remove_replay_file io d name))"
  using records_until_sub [OF _ remove_sub] remove_distinct by (metis records_until_def)

lemma sweep_loop_healthy:
  assumes "records_until b d" "b < now"
  shows "sweep_loop io_healthy now names d = (Ok (), filter (\<lambda>(n, _). n \<notin> set names) d)"
  using assms
proof (induction names arbitrary: d)
  case (Cons name names)
  show ?case
  proof (cases "map_of d name")
    case None
    then have "filter (\<lambda>(n, _). n \<notin> set (name # names)) d = filter (\<lambda>(n, _). n \<notin> set names) d"
      by (intro filter_cong) (auto simp: map_of_eq_None_iff image_iff)
    with None Cons show ?thesis by (simp add: is_file_def)
  next
    case (Some v)
    note g = records_until_get [OF Cons.prems(1) Some]
    have d': "AList.delete name d = filter (\<lambda>(n, _). name \<noteq> n) d" by (simp add: AList.delete_eq)
    have r: "records_until b (AList.delete name d)"
      using remove_until [OF Cons.prems(1), of io_healthy name] Some by (simp add: remove_replay_file_def)
    have "(case read_exp io_healthy d name of None \<Rightarrow> False | Some x \<Rightarrow> x < now)"
      using g(2) Cons.prems(2) by (auto simp: read_exp_recorded)
    then show ?thesis
      using g(1) Some Cons.IH [OF r Cons.prems(2)]
      by (simp add: remove_replay_file_def d' case_prod_unfold) (intro filter_cong refl, auto)
  qed
qed simp

lemma sweep_healthy:
  assumes "records_until b d" "b < now"
  shows "file_sweep_expired io_healthy d now = (Ok (), [])"
proof -
  have "filter (\<lambda>(n, _). n \<notin> fst ` set d) d = []" by (force simp: filter_empty_conv image_iff)
  with sweep_loop_healthy [OF assms, of "map fst d"] show ?thesis by (simp add: file_sweep_expired_def)
qed

lemma healthy_frame:
  "file_max_seen (snd (maybe_sweep io s now)) = file_max_seen s"
  "file_max_seen (snd (sweep_when_full io s now)) = file_max_seen s"
  "file_calls_poisoned (snd (maybe_sweep io s now)) = file_calls_poisoned s"
  "file_calls_poisoned (snd (sweep_when_full io s now)) = file_calls_poisoned s"
  by (auto simp: maybe_sweep_def sweep_when_full_def Let_def split: prod.splits sum.splits)

lemma file_car_frame:
  "file_max_seen (snd (file_check_and_record sha256 io s j e now)) = file_max_seen s"
  "file_calls_poisoned (snd (file_check_and_record sha256 io s j e now)) = file_calls_poisoned s"
proof -
  obtain r1 s1 where 1: "maybe_sweep io s now = (r1, s1)" by fastforce
  obtain r2 s2 where 2: "sweep_when_full io s1 now = (r2, s2)" by fastforce
  have "file_max_seen s1 = file_max_seen s" "file_calls_poisoned s1 = file_calls_poisoned s"
    "file_max_seen s2 = file_max_seen s1" "file_calls_poisoned s2 = file_calls_poisoned s1"
    using healthy_frame [of io s now] healthy_frame [of io s1 now] 1 2 by simp_all
  then show "file_max_seen (snd (file_check_and_record sha256 io s j e now)) = file_max_seen s"
    "file_calls_poisoned (snd (file_check_and_record sha256 io s j e now)) = file_calls_poisoned s"
    by (auto simp: file_check_and_record_def 1 2 split: sum.splits prod.splits)
qed

lemma create_until:
  assumes "records_until b d" "in_i64 e" "e \<le> b"
  shows "records_until b (snd (create_and_write io_healthy d name e))"
  using assms
  by (auto simp: create_and_write_def records_until_def entry_until_def trim_newline display_i64_no_ws parse_i64_display
      map_of_eq_None_iff)

lemma file_car_until:
  assumes "records_until b (dir s)" "in_i64 e" "e \<le> b"
  shows "records_until b (dir (snd (file_check_and_record sha256 io_healthy s j e now)))"
proof -
  have i: "file_invar s" using assms(1) by (simp add: records_until_def file_invar_def)
  have sub: "records_until b (dir s')" if "file_invar s \<Longrightarrow> file_invar s'" "map_of (dir s') \<subseteq>\<^sub>m map_of (dir s)" for s'
    using records_until_sub [OF assms(1) that(2)] that(1) i by (simp add: file_invar_def)
  show ?thesis
  proof (cases rule: file_car_cases [of sha256 io_healthy s j e now])
    case (early err s')
    then show ?thesis using sub by simp
  next
    case (claim s')
    note u = sub [OF claim(4,5)]
    show ?thesis
      by (cases rule: claim_cases [of io_healthy "dir s'" "replay_filename sha256 j" e now])
         (simp_all add: claim(2) create_until remove_until u assms)
  qed
qed

lemma maybe_sweep_healthy:
  assumes "records_until b (dir s)" "b < now" "\<not> file_calls_poisoned s"
  shows "\<exists>s'. maybe_sweep io_healthy s now = (Ok (), s') \<and> file_max_seen s' = file_max_seen s \<and> records_until b (dir s')"
  using sweep_healthy [OF assms(1,2)] assms by (auto simp: maybe_sweep_def Let_def records_until_def)

lemma sweep_when_full_healthy:
  assumes "records_until b (dir s)" "b < now" "0 < file_max_seen s"
  shows "\<exists>s' n. sweep_when_full io_healthy s now = (Ok (), s') \<and> records_until b (dir s') \<and>
    active_entry_count io_healthy (dir s') = Ok n \<and> n < file_max_seen s'"
  using sweep_healthy [OF assms(1,2)] assms
  by (auto simp: sweep_when_full_def active_entry_count_def records_until_def list_ex_iff not_le)

lemma create_healthy: "map_of d name = None \<Longrightarrow> fst (create_and_write io_healthy d name e) = Ok ()"
  by (simp add: create_and_write_def)

lemma claim_healthy:
  assumes "records_until b d" "b < now"
  shows "fst (claim_file io_healthy d name e now) = Ok ()"
proof (cases "map_of d name")
  case None
  then show ?thesis by (simp add: claim_file_def read_exp_recorded dir_recorded_def create_healthy)
next
  case (Some v)
  with records_until_get(2) [OF assms(1) Some] assms(2) show ?thesis
    by (auto simp: claim_file_def read_exp_recorded remove_replay_file_def create_healthy delete_conv')
qed

lemma file_car_recovers:
  assumes "records_until b (dir s)" "b < now" "\<not> file_calls_poisoned s" "0 < file_max_seen s" "trim j \<noteq> []"
  shows "fst (file_check_and_record sha256 io_healthy s j e now) = Ok ()"
proof -
  obtain s1 where 1: "maybe_sweep io_healthy s now = (Ok (), s1)" "file_max_seen s1 = file_max_seen s" "records_until b (dir s1)"
    using maybe_sweep_healthy [OF assms(1-3)] by blast
  obtain s2 n where 2: "sweep_when_full io_healthy s1 now = (Ok (), s2)" "records_until b (dir s2)"
    "active_entry_count io_healthy (dir s2) = Ok n" "n < file_max_seen s2"
    using sweep_when_full_healthy [OF 1(3) assms(2)] assms(4) 1(2) by auto
  show ?thesis
    using claim_healthy [OF 2(2) assms(2), of "replay_filename sha256 j" e] assms(5) 2(4)
    by (simp add: file_check_and_record_def 1(1) 2(1,3) case_prod_unfold)
qed

text \<open>A working store whose records were made for the keys \<open>K\<close> and have expired after \<open>b\<close>.\<close>

fun store_until :: "int \<Rightarrow> string set \<Rightarrow> ReplayPolicy \<Rightarrow> bool" where
  "store_until b K (MemoryStore s) \<longleftrightarrow>
     \<not> seen_poisoned s \<and> \<not> calls_poisoned s \<and> 0 < max_seen s \<and> (\<forall>(k, x) \<in> set (seen s). k \<in> K \<and> x \<le> b)"
| "store_until b K (FileStore s) \<longleftrightarrow> \<not> file_calls_poisoned s \<and> 0 < file_max_seen s \<and> records_until b (dir s)"

lemma set_alist_update: "set (AList.update k v al) \<subseteq> insert (k, v) (set al)"
  by (induction al) auto

lemma mem_car_until:
  assumes "store_until b K (MemoryStore s)" "j \<in> K" "e \<le> b"
  shows "store_until b K (MemoryStore (snd (mem_check_and_record s j e now)))"
  using assms set_alist_update [of j e "purged s now"] purged_sub [of _ _ s now]
  by (fastforce simp: mem_car_alt Let_def split: if_splits)

lemma policy_car_until:
  assumes "store_until b K p" "j \<in> K" "in_i64 e" "e \<le> b"
  shows "store_until b K (snd (policy_check_and_record sha256 io_healthy p j e now))"
proof (cases p)
  case (MemoryStore s)
  then show ?thesis
    using mem_car_until assms by (simp only: policy_car_unfold)
next
  case (FileStore s)
  then show ?thesis
    using assms file_car_until [of b s e sha256 j now] file_car_frame [of sha256 io_healthy s j e now]
    by (simp add: policy_car_unfold del: policy_check_and_record.simps)
qed

lemma store_run_until:
  assumes "store_until b K p" "list_all (\<lambda>(k, e, t). k \<in> K \<and> in_i64 e \<and> e \<le> b) cs"
  shows "store_until b K (store_run (policy_check_and_record sha256 io_healthy) p cs)"
  using assms by (induction cs arbitrary: p) (auto simp: policy_car_until)

lemma store_recovers:
  assumes "store_until b K p" "b < now" "j \<notin> K" "trim j \<noteq> []"
  shows "fst (policy_check_and_record sha256 io_healthy p j e now) = Ok ()"
proof (cases p)
  case (MemoryStore s)
  have "sweep_expired (seen s) now = []" "map_of (seen s) j = None"
    using assms MemoryStore by (fastforce simp: sweep_expired_def filter_empty_conv map_of_eq_None_iff)+
  then have "purged s now = [] \<or> length (purged s now) < max_seen s" by (auto simp: purged_def Let_def sweep_expired_def)
  then show ?thesis using assms MemoryStore \<open>map_of (seen s) j = None\<close> by (auto simp: mem_car_alt Let_def)
next
  case (FileStore s)
  then show ?thesis
    using file_car_recovers [of b s now j sha256 e] assms by (simp add: policy_car_unfold del: policy_check_and_record.simps)
qed

section \<open>Properties\<close>

text \<open>
  C17: both stores refine the specification of a replay store. The replies to any sequence of calls,
  and the records before and after it, form a run of the specification, whatever the hash does and
  whichever file operations fail.
\<close>

theorem replay_store_refines:
  assumes "policy_invar p" "list_all (\<lambda>c. in_i64 (fst (snd c))) cs"
  shows "spec_run (policy_abs p)
    (zip (map (apfst (policy_key sha256 p)) cs) (store_replies (policy_check_and_record sha256 io) p cs))
    (policy_abs (store_run (policy_check_and_record sha256 io) p cs))"
  using assms by (rule policy_spec.run_refines)

theorem replay_store_refines_witness:
  "\<exists>M. spec_run Map.empty
     (zip [(''a'', 10, 1), (''a'', 10, 2)]
        (store_replies (policy_check_and_record id io_healthy) policy_in_memory [(''a'', 10, 1), (''a'', 10, 2)])) M \<and> M ''a'' = Some 10"
proof -
  let ?car = "policy_check_and_record id io_healthy" and ?cs = "[(''a'', 10, 1), (''a'', 10, 2)]"
  have i: "policy_invar policy_in_memory"
    by (simp add: policy_in_memory_def in_memory_default_def mem_invar_new)
  have "policy_abs policy_in_memory = Map.empty" "policy_key id policy_in_memory = (\<lambda>j. j)"
    by (auto simp: policy_in_memory_def in_memory_default_def in_memory_new_def fun_eq_iff)
  moreover have "policy_abs (store_run ?car policy_in_memory ?cs) ''a'' = Some 10"
    by (simp add: policy_in_memory_def in_memory_default_def in_memory_new_def mem_check_and_record_def
        is_token_def [symmetric] ws1_def)
  ultimately show ?thesis
    using replay_store_refines [OF i, of ?cs id io_healthy] by (auto simp: i64_bounds apfst_def)
qed

text \<open>
  C31: a replay store recovers. However full a store has become, once the clock has passed every
  expiry it was given, a key it has not seen is accepted, by either backend on a working file system.
\<close>

theorem replay_store_recovers:
  assumes "p = MemoryStore (in_memory_new n k) \<or> (\<exists>s. file_new True [] n k = Ok s \<and> p = FileStore s)" "0 < n"
    and "list_all (\<lambda>(key, e, t). in_i64 e \<and> e \<le> b) cs" "b < now" "j \<notin> fst ` set cs" "trim j \<noteq> []"
  shows "\<exists>p'. policy_check_and_record sha256 io_healthy
    (store_run (policy_check_and_record sha256 io_healthy) p cs) j e now = (Ok (), p')"
proof -
  have "store_until b (fst ` set cs) p"
    using assms(1,2) by (auto simp: in_memory_new_def file_new_def records_until_def)
  moreover have "list_all (\<lambda>(key, e, t). key \<in> fst ` set cs \<and> in_i64 e \<and> e \<le> b) cs"
    using assms(3) by (force simp: list_all_iff)
  ultimately have "store_until b (fst ` set cs) (store_run (policy_check_and_record sha256 io_healthy) p cs)"
    by (rule store_run_until)
  from store_recovers [OF this assms(4-6)] show ?thesis by (metis prod.collapse)
qed

theorem replay_store_recovers_witness:
  "\<exists>p'. policy_check_and_record id io_healthy
     (store_run (policy_check_and_record id io_healthy) (MemoryStore (in_memory_new 1 256)) [(''a'', 10, 1), (''b'', 10, 2)])
     ''c'' 20 11 = (Ok (), p')"
  by (rule replay_store_recovers [where b = 10 and n = 1 and k = 256])
     (simp_all add: i64_bounds is_token_def [symmetric] ws1_def)

end
