(* ===== verification/Interleaving.thy ===== *)
theory Interleaving
  imports Prelude
begin

text \<open>
  Programs that call atomic operations on a shared state, and what a pool of them can do when their
  calls interleave. The locales say what a flag of the shared state guarantees to the programs: one that
  set it leaves it set (\<open>flag_setter\<close>), one that must find it clear fails once it is set (\<open>flag_tester\<close>),
  and a call that does both has one winner (\<open>guarded_resource\<close>). They are interpreted for the files of the
  replay store and for the replay keys and the revocations of the service.
\<close>

section \<open>Programs\<close>

datatype ('o, 'r, 'a) program = Done 'a | Call 'o "'r \<Rightarrow> ('o, 'r, 'a) program"

primrec bind_program :: "('o, 'r, 'a) program \<Rightarrow> ('a \<Rightarrow> ('o, 'r, 'b) program) \<Rightarrow> ('o, 'r, 'b) program" where
  "bind_program (Done a) f = f a"
| "bind_program (Call op k) f = Call op (\<lambda>r. bind_program (k r) f)"

text \<open>A program alone.\<close>

primrec run_program :: "('o \<Rightarrow> 's \<Rightarrow> 'r \<times> 's) \<Rightarrow> ('o, 'r, 'a) program \<Rightarrow> 's \<Rightarrow> 'a \<times> 's" where
  "run_program ex (Done a) s = (a, s)"
| "run_program ex (Call op k) s = run_program ex (k (fst (ex op s))) (snd (ex op s))"

lemma run_bind [simp]:
  "run_program ex (bind_program p f) s = run_program ex (f (fst (run_program ex p s))) (snd (run_program ex p s))"
  by (induction p arbitrary: s) simp_all

text \<open>The operator \<open>?\<close>: the rest runs on a success.\<close>

definition ok_then ::
    "('o, 'r, 'e + 'a) program \<Rightarrow> ('a \<Rightarrow> ('o, 'r, 'e + 'b) program) \<Rightarrow> ('o, 'r, 'e + 'b) program" where
  "ok_then p f = bind_program p (\<lambda>r. case r of Inl e \<Rightarrow> Done (Inl e) | Inr x \<Rightarrow> f x)"

lemma run_ok_then:
  "run_program ex (ok_then p f) s =
     (case run_program ex p s of (Inl e, s') \<Rightarrow> (Inl e, s') | (Inr x, s') \<Rightarrow> run_program ex (f x) s')"
  by (simp add: ok_then_def split: prod.split sum.split)

section \<open>Pools\<close>

text \<open>One of the programs makes its next call.\<close>

inductive pool_step ::
    "('o \<Rightarrow> 's \<Rightarrow> 'r \<times> 's) \<Rightarrow> 's \<times> ('o, 'r, 'a) program list \<Rightarrow> 's \<times> ('o, 'r, 'a) program list \<Rightarrow> bool" for ex where
  call: "i < length ps \<Longrightarrow> ps ! i = Call op k \<Longrightarrow>
    pool_step ex (s, ps) (snd (ex op s), ps[i := k (fst (ex op s))])"

inductive pool_run ::
    "('o \<Rightarrow> 's \<Rightarrow> 'r \<times> 's) \<Rightarrow> 's \<times> ('o, 'r, 'a) program list \<Rightarrow> 's \<times> ('o, 'r, 'a) program list \<Rightarrow> bool" for ex c where
  start: "pool_run ex c c"
| step: "pool_run ex c c' \<Longrightarrow> pool_step ex c' c'' \<Longrightarrow> pool_run ex c c''"

lemma pool_run_trans: "pool_run ex b c \<Longrightarrow> pool_run ex a b \<Longrightarrow> pool_run ex a c"
  by (induction rule: pool_run.induct) (auto intro: pool_run.step)

lemma pool_run_one: "pool_step ex a b \<Longrightarrow> pool_run ex a b"
  by (rule pool_run.step [OF pool_run.start])

text \<open>A program that is not disturbed runs as it does alone.\<close>

lemma pool_run_alone:
  "i < length ps \<Longrightarrow> ps ! i = p \<Longrightarrow>
     pool_run ex (s, ps) (snd (run_program ex p s), ps[i := Done (fst (run_program ex p s))])"
proof (induction p arbitrary: s ps)
  case (Done a)
  then show ?case using pool_run.start [of ex "(s, ps)"] by (metis fst_conv list_update_id run_program.simps(1) snd_conv)
next
  case (Call op k)
  let ?s = "snd (ex op s)" and ?r = "fst (ex op s)"
  have "pool_run ex (s, ps) (?s, ps[i := k ?r])" using Call.prems by (intro pool_run_one call) auto
  moreover have "pool_run ex (?s, ps[i := k ?r]) (snd (run_program ex (k ?r) ?s), (ps[i := k ?r])[i := Done (fst (run_program ex (k ?r) ?s))])"
    by (rule Call.IH) (use Call.prems in simp_all)
  ultimately show ?case using pool_run_trans by fastforce
qed

text \<open>The interleaving a list of turns describes.\<close>

primrec run_turns ::
    "('o \<Rightarrow> 's \<Rightarrow> 'r \<times> 's) \<Rightarrow> nat list \<Rightarrow> 's \<times> ('o, 'r, 'a) program list \<Rightarrow> 's \<times> ('o, 'r, 'a) program list" where
  "run_turns ex [] c = c"
| "run_turns ex (i # turns) c =
     run_turns ex turns (case c of (s, ps) \<Rightarrow>
       if i < length ps then (case ps ! i of Done a \<Rightarrow> (s, ps) | Call op k \<Rightarrow> (snd (ex op s), ps[i := k (fst (ex op s))]))
       else (s, ps))"

lemma run_turns_run: "pool_run ex c (run_turns ex turns c)"
proof (induction turns arbitrary: c)
  case (Cons i turns)
  obtain s ps where c: "c = (s, ps)" by (cases c)
  show ?case
  proof (cases "i < length ps")
    case True
    show ?thesis
    proof (cases "ps ! i")
      case (Call op k)
      with True Cons pool_run_trans pool_run_one [OF call [of i ps op k ex s]] show ?thesis by (fastforce simp: c)
    qed (use True Cons c in simp)
  qed (use Cons c in simp)
qed (simp add: pool_run.start)

section \<open>What programs do to a shared flag\<close>

text \<open>
  \<open>feasible\<close> are the results an operation can have, \<open>obeys\<close> says that a program makes only allowed
  calls on feasible results, and \<open>must_claim\<close> that it does not win without an operation of a given
  kind (a claim).
\<close>

primrec obeys :: "('o \<Rightarrow> bool) \<Rightarrow> ('o \<Rightarrow> 'r \<Rightarrow> bool) \<Rightarrow> ('o, 'r, 'a) program \<Rightarrow> bool" where
  "obeys allowed feasible (Done a) \<longleftrightarrow> True"
| "obeys allowed feasible (Call op k) \<longleftrightarrow>
     allowed op \<and> (\<forall>r. feasible op r \<longrightarrow> obeys allowed feasible (k r))"

primrec must_claim ::
    "('o \<Rightarrow> 'r \<Rightarrow> bool) \<Rightarrow> ('o \<Rightarrow> 'r \<Rightarrow> bool) \<Rightarrow> ('a \<Rightarrow> bool) \<Rightarrow> ('o, 'r, 'a) program \<Rightarrow> bool" where
  "must_claim feasible claims won (Done a) \<longleftrightarrow> \<not> won a"
| "must_claim feasible claims won (Call op k) \<longleftrightarrow>
     (\<forall>r. feasible op r \<longrightarrow> claims op r \<or> must_claim feasible claims won (k r))"

lemma obeys_bind:
  "obeys allowed feasible p \<Longrightarrow> (\<And>a. obeys allowed feasible (f a)) \<Longrightarrow> obeys allowed feasible (bind_program p f)"
  by (induction p) auto

lemma must_claim_bind_after:
  "(\<And>a. must_claim feasible claims won (f a)) \<Longrightarrow> must_claim feasible claims won (bind_program p f)"
  by (induction p) auto

lemma must_claim_bind:
  "must_claim feasible claims won p \<Longrightarrow> (\<And>a. \<not> won a \<Longrightarrow> must_claim feasible claims won' (f a)) \<Longrightarrow>
     must_claim feasible claims won' (bind_program p f)"
  by (induction p) auto

lemma must_claim_mono:
  "must_claim feasible claims won p \<Longrightarrow> (\<And>a. won' a \<Longrightarrow> won a) \<Longrightarrow> must_claim feasible claims won' p"
  by (induction p) auto

lemma obeys_ok_then:
  "obeys allowed feasible p \<Longrightarrow> (\<And>x. obeys allowed feasible (f x)) \<Longrightarrow> obeys allowed feasible (ok_then p f)"
  unfolding ok_then_def by (rule obeys_bind) (auto split: sum.split)

text \<open>A success of the first program, or of the rest, takes a claim.\<close>

lemma must_claim_ok_first:
  assumes "must_claim feasible claims (\<lambda>r. \<not> isl r) p" "\<And>e. \<not> won (Inl e)"
  shows "must_claim feasible claims won (ok_then p f)"
  unfolding ok_then_def by (rule must_claim_bind [OF assms(1)]) (use assms(2) in \<open>auto split: sum.split\<close>)

lemma must_claim_ok_rest:
  assumes "\<And>x. must_claim feasible claims won (f x)" "\<And>e. \<not> won (Inl e)"
  shows "must_claim feasible claims won (ok_then p f)"
  unfolding ok_then_def by (rule must_claim_bind_after) (use assms in \<open>auto split: sum.split\<close>)

subsection \<open>A flag of the shared state\<close>

text \<open>Allowed operations keep the invariant and never clear the flag.\<close>

locale shared_flag =
  fixes ex :: "'o \<Rightarrow> 's \<Rightarrow> 'r \<times> 's"
    and inv :: "'s \<Rightarrow> bool"
    and taken :: "'s \<Rightarrow> bool"
    and allowed :: "'o \<Rightarrow> bool"
    and feasible :: "'o \<Rightarrow> 'r \<Rightarrow> bool"
  assumes inv_ex: "inv s \<Longrightarrow> allowed op \<Longrightarrow> inv (snd (ex op s))"
    and feasible_ex: "inv s \<Longrightarrow> allowed op \<Longrightarrow> feasible op (fst (ex op s))"
    and taken_ex: "inv s \<Longrightarrow> allowed op \<Longrightarrow> taken s \<Longrightarrow> taken (snd (ex op s))"
begin

definition orderly :: "'s \<times> ('o, 'r, 'a) program list \<Rightarrow> bool" where
  "orderly c \<longleftrightarrow> inv (fst c) \<and> (\<forall>p \<in> set (snd c). obeys allowed feasible p)"

text \<open>One step of an orderly pool.\<close>

lemma orderly_step:
  assumes "pool_step ex (s, ps) (s', ps')" "orderly (s, ps)"
  obtains i op k where "i < length ps" "ps ! i = Call op k" "s' = snd (ex op s)" "ps' = ps[i := k (fst (ex op s))]"
    "inv s" "allowed op" "feasible op (fst (ex op s))" "orderly (s', ps')"
  using assms(1)
proof (cases rule: pool_step.cases)
  case (call i op k)
  have "inv s" and all: "\<forall>p \<in> set ps. obeys allowed feasible p" using assms(2) by (simp_all add: orderly_def)
  have "ps ! i \<in> set ps" using call(3) by (rule nth_mem)
  with all call have "obeys allowed feasible (Call op k)" by metis
  then have a: "allowed op" and r: "feasible op (fst (ex op s))" "obeys allowed feasible (k (fst (ex op s)))"
    using feasible_ex [OF \<open>inv s\<close>] by auto
  have "\<forall>p \<in> set ps'. obeys allowed feasible p" using all r(2) set_update_subset_insert call by fastforce
  with that call \<open>inv s\<close> a r(1) inv_ex show thesis by (simp add: orderly_def)
qed

lemma orderly_run:
  assumes "pool_run ex c c'" "orderly c"
  shows "orderly c' \<and> length (snd c') = length (snd c) \<and> (taken (fst c) \<longrightarrow> taken (fst c'))"
  using assms
proof (induction rule: pool_run.induct)
  case (step c' c'')
  obtain s ps s' ps' where c: "c' = (s, ps)" "c'' = (s', ps')" by (cases c'; cases c'')
  from step.IH [OF step.prems] c have o: "orderly (s, ps)" by simp
  from step.hyps(2) [unfolded c] o show ?case
  proof (rule orderly_step)
    fix i op k
    assume "s' = snd (ex op s)" "ps' = ps[i := k (fst (ex op s))]" "inv s" "allowed op" "orderly (s', ps')"
    with step.IH [OF step.prems] c taken_ex show ?thesis by simp
  qed
qed simp

end

text \<open>A program that succeeds only through a call that sets the flag leaves it set.\<close>

locale flag_setter = shared_flag +
  fixes sets :: "'a \<Rightarrow> 'c \<Rightarrow> bool"
  assumes set_takes: "inv s \<Longrightarrow> allowed op \<Longrightarrow> sets op (fst (ex op s)) \<Longrightarrow> taken (snd (ex op s))"
begin

lemma setter_pending:
  assumes "pool_run ex c c'" "orderly c" "i < length (snd c)" "must_claim feasible sets won (snd c ! i)"
  shows "taken (fst c') \<or> must_claim feasible sets won (snd c' ! i)"
  using assms
proof (induction rule: pool_run.induct)
  case (step c' c'')
  obtain s ps s' ps' where c: "c' = (s, ps)" "c'' = (s', ps')" by (cases c'; cases c'')
  have o: "orderly (s, ps)" and l: "i < length ps" using orderly_run [OF step.hyps(1) step.prems(1)] step.prems(2) c by auto
  from step.hyps(2) [unfolded c] o show ?case
  proof (rule orderly_step)
    fix j op k
    assume j: "j < length ps" "ps ! j = Call op k" "s' = snd (ex op s)" "ps' = ps[j := k (fst (ex op s))]" "inv s" "allowed op"
      "feasible op (fst (ex op s))"
    with step.IH [OF step.prems] c taken_ex [OF j(5,6)] set_takes [OF j(5,6)] l show ?thesis by (cases "i = j") auto
  qed
qed simp

lemma winner_took:
  assumes "pool_run ex (s, ps) (s', ps')" "orderly (s, ps)" "i < length ps" "must_claim feasible sets won (ps ! i)"
    "ps' ! i = Done a" "won a"
  shows "taken s'"
  using setter_pending [OF assms(1,2), of i won] assms(3-6) by auto

end

text \<open>A program that succeeds only through a call that finds the flag clear does not succeed once it is set.\<close>

locale flag_tester = shared_flag +
  fixes passes :: "'a \<Rightarrow> 'c \<Rightarrow> bool"
  assumes pass_free: "inv s \<Longrightarrow> allowed op \<Longrightarrow> passes op (fst (ex op s)) \<Longrightarrow> \<not> taken s"
begin

lemma tester_pending:
  assumes "pool_run ex c c'" "orderly c" "taken (fst c)" "i < length (snd c)" "must_claim feasible passes won (snd c ! i)"
  shows "must_claim feasible passes won (snd c' ! i)"
  using assms
proof (induction rule: pool_run.induct)
  case (step c' c'')
  obtain s ps s' ps' where c: "c' = (s, ps)" "c'' = (s', ps')" by (cases c'; cases c'')
  have o: "orderly (s, ps)" and l: "i < length ps" "taken s"
    using orderly_run [OF step.hyps(1) step.prems(1)] step.prems(2,3) c by auto
  from step.hyps(2) [unfolded c] o show ?case
  proof (rule orderly_step)
    fix j op k
    assume j: "j < length ps" "ps ! j = Call op k" "ps' = ps[j := k (fst (ex op s))]" "inv s" "allowed op"
      "feasible op (fst (ex op s))"
    with step.IH [OF step.prems] c pass_free [OF j(4,5)] l show ?thesis by (cases "i = j") auto
  qed
qed simp

lemma no_winner:
  assumes "pool_run ex (s, ps) (s', ps')" "orderly (s, ps)" "taken s" "i < length ps"
    "must_claim feasible passes won (ps ! i)" "ps' ! i = Done a"
  shows "\<not> won a"
  using tester_pending [OF assms(1,2), of i won] assms(3-6) by auto

end

text \<open>A call that finds the flag clear and sets it has one winner.\<close>

locale guarded_resource = flag_setter ex inv taken allowed feasible claims + flag_tester ex inv taken allowed feasible claims
  for ex :: "'o \<Rightarrow> 's \<Rightarrow> 'r \<times> 's" and inv taken allowed feasible claims
begin

lemma one_pending:
  assumes "pool_run ex c c'" "orderly c" "i < length (snd c)" "j < length (snd c)" "i \<noteq> j"
    "must_claim feasible claims won (snd c ! i)" "must_claim feasible claims won (snd c ! j)"
  shows "must_claim feasible claims won (snd c' ! i) \<or> must_claim feasible claims won (snd c' ! j)"
  using assms
proof (induction rule: pool_run.induct)
  case (step c' c'')
  obtain s ps s' ps' where c: "c' = (s, ps)" "c'' = (s', ps')" by (cases c'; cases c'')
  have o: "orderly (s, ps)" and l: "i < length ps" "j < length ps"
    using orderly_run [OF step.hyps(1) step.prems(1)] step.prems(2,3) c by auto
  have free: "must_claim feasible claims won (ps ! i) \<and> must_claim feasible claims won (ps ! j)" if "\<not> taken s"
    using that setter_pending [OF step.hyps(1) step.prems(1)] step.prems(2,3,5,6) c by fastforce
  from step.hyps(2) [unfolded c] o show ?case
  proof (rule orderly_step)
    fix m op k
    assume m: "m < length ps" "ps ! m = Call op k" "ps' = ps[m := k (fst (ex op s))]" "inv s" "allowed op"
      "feasible op (fst (ex op s))"
    show ?thesis
    proof (cases "claims op (fst (ex op s))")
      case True
      with free pass_free [OF m(4,5)] c m(3) step.prems(4) show ?thesis by (cases "m = i") auto
    next
      case False
      then have "must_claim feasible claims won (ps' ! n)" if "must_claim feasible claims won (ps ! n)" for n
        using that m by (cases "n = m") auto
      with step.IH [OF step.prems] c show ?thesis by auto
    qed
  qed
qed simp

lemma one_winner:
  assumes "pool_run ex (s, ps) (s', ps')" "orderly (s, ps)" "i < length ps" "j < length ps" "i \<noteq> j"
    and "must_claim feasible claims won (ps ! i)" "must_claim feasible claims won (ps ! j)"
    and "ps' ! i = Done a" "ps' ! j = Done b"
  shows "\<not> (won a \<and> won b)"
  using one_pending [OF assms(1,2), of i j won] assms(3-9) by auto

end

end
