(* ===== verification/File_Race.thy ===== *)
theory File_Race
  imports Sts_Replay Interleaving
begin

text \<open>
  The file store of \<open>sts-replay\<close> at the granularity of its system calls, for several processes on one
  directory. \<open>check_program\<close> is \<open>check_and_record\<close> as a program over the calls; alone it does what the
  model of the store does. When calls interleave, a key without an expired record has at most one
  winner, and a key with one can have two.
\<close>

section \<open>System calls\<close>

text \<open>
  An open file is the name it was created under with a serial number, so that a write after the
  file was replaced does not reach the new one. Nothing renames files here. A listing is a snapshot.
\<close>

type_synonym handle = "string \<times> nat"

record shared_dir =
  links :: "(string \<times> nat) list"
  node_data :: "handle \<Rightarrow> dirent"
  next_serial :: nat

definition dir_of :: "shared_dir \<Rightarrow> directory" where
  "dir_of s = map (\<lambda>(n, k). (n, node_data s (n, k))) (links s)"

definition dir_wf :: "shared_dir \<Rightarrow> bool" where
  "dir_wf s \<longleftrightarrow> distinct (map fst (links s)) \<and> (\<forall>k \<in> snd ` set (links s). k < next_serial s)"

datatype file_call =
    ListDir | IsFile string | ReadExp string | Unlink string | CreateNew string | WriteLine handle int

datatype file_reply =
    Names "string list option" | Flag bool | Expiry "int option" | Opened handle | AlreadyExists | CreateFailed

fun exec_call :: "io_env \<Rightarrow> file_call \<Rightarrow> shared_dir \<Rightarrow> file_reply \<times> shared_dir" where
  "exec_call io ListDir s = (Names (if io_read_dir io then Some (map fst (links s)) else None), s)"
| "exec_call io (IsFile n) s = (Flag (is_file (dir_of s) n), s)"
| "exec_call io (ReadExp n) s = (Expiry (read_exp io (dir_of s) n), s)"
| "exec_call io (Unlink n) s =
     (if map_of (links s) n = None then (Flag True, s)
      else if io_remove io n then (Flag True, s\<lparr>links := AList.delete n (links s)\<rparr>)
      else (Flag False, s))"
| "exec_call io (CreateNew n) s =
     (if map_of (links s) n \<noteq> None then (AlreadyExists, s)
      else if \<not> io_create io n then (CreateFailed, s)
      else (Opened (n, next_serial s),
        s\<lparr>links := links s @ [(n, next_serial s)], node_data := (node_data s)((n, next_serial s) := RegFile []),
          next_serial := next_serial s + 1\<rparr>))"
| "exec_call io (WriteLine h e) s =
     (if io_write io (fst h) then (Flag True, s\<lparr>node_data := (node_data s)(h := RegFile (display_i64 e @ [CHR 0x0A]))\<rparr>)
      else (Flag False, s))"

fun flag_of :: "file_reply \<Rightarrow> bool" where
  "flag_of (Flag b) = b" | "flag_of _ = False"

fun names_of :: "file_reply \<Rightarrow> string list option" where
  "names_of (Names v) = v" | "names_of _ = None"

fun expiry_of :: "file_reply \<Rightarrow> int option" where
  "expiry_of (Expiry v) = v" | "expiry_of _ = None"

section \<open>The store as a program\<close>

type_synonym 'a file_program = "(file_call, file_reply, (ReplayError, 'a) result) program"

abbreviation unavailable :: "'a file_program" where
  "unavailable \<equiv> Done (Err replay_store_unavailable)"

definition expired_at :: "int \<Rightarrow> int option \<Rightarrow> bool" where
  "expired_at now v \<longleftrightarrow> (case v of None \<Rightarrow> False | Some x \<Rightarrow> x < now)"

primrec sweep_names :: "io_env \<Rightarrow> int \<Rightarrow> string list \<Rightarrow> unit file_program" where
  "sweep_names io now [] = Done (Ok ())"
| "sweep_names io now (name # names) =
     (if \<not> io_entry io name then unavailable
      else Call (IsFile name) (\<lambda>r.
        if \<not> flag_of r then sweep_names io now names
        else Call (ReadExp name) (\<lambda>r.
          if expired_at now (expiry_of r)
          then Call (Unlink name) (\<lambda>r. if flag_of r then sweep_names io now names else unavailable)
          else sweep_names io now names)))"

definition sweep_program :: "io_env \<Rightarrow> int \<Rightarrow> unit file_program" where
  "sweep_program io now =
     Call ListDir (\<lambda>r. case names_of r of None \<Rightarrow> unavailable | Some names \<Rightarrow> sweep_names io now names)"

primrec count_names :: "io_env \<Rightarrow> nat \<Rightarrow> string list \<Rightarrow> nat file_program" where
  "count_names io n [] = Done (Ok n)"
| "count_names io n (name # names) =
     (if \<not> io_entry io name then unavailable
      else Call (IsFile name) (\<lambda>r. count_names io (if flag_of r then n + 1 else n) names))"

definition count_program :: "io_env \<Rightarrow> nat file_program" where
  "count_program io = Call ListDir (\<lambda>r. case names_of r of None \<Rightarrow> unavailable | Some names \<Rightarrow> count_names io 0 names)"

definition create_program :: "string \<Rightarrow> int \<Rightarrow> unit file_program" where
  "create_program name expiry =
     Call (CreateNew name) (\<lambda>r. case r of
         Opened h \<Rightarrow> Call (WriteLine h expiry) (\<lambda>r. if flag_of r then Done (Ok ()) else unavailable)
       | AlreadyExists \<Rightarrow> Done (Err (replay_error ReplayDetected ''actor_token replay detected''))
       | _ \<Rightarrow> unavailable)"

definition claim_program :: "string \<Rightarrow> int \<Rightarrow> int \<Rightarrow> unit file_program" where
  "claim_program name expiry now =
     Call (ReadExp name) (\<lambda>r.
       if expired_at now (expiry_of r)
       then Call (Unlink name) (\<lambda>r. if flag_of r then create_program name expiry else unavailable)
       else create_program name expiry)"

text \<open>The call counter is a field of the store object, behind a lock of its process.\<close>

definition maybe_sweep_program :: "io_env \<Rightarrow> FileReplayStore \<Rightarrow> int \<Rightarrow> unit file_program" where
  "maybe_sweep_program io store now =
     (if file_calls_poisoned store then unavailable
      else if file_sweep_every store \<le> file_calls store + 1 then sweep_program io now
      else Done (Ok ()))"

definition check_program ::
    "(string \<Rightarrow> string) \<Rightarrow> io_env \<Rightarrow> FileReplayStore \<Rightarrow> string \<Rightarrow> int \<Rightarrow> int \<Rightarrow> unit file_program" where
  "check_program sha256 io store jti expiry now =
     (if trim jti = [] then Done (Err (replay_error ReplayInvalidRequest ''jti must not be empty''))
      else
        ok_then (maybe_sweep_program io store now) (\<lambda>_.
        ok_then (count_program io) (\<lambda>n.
        ok_then (if file_max_seen store \<le> n then sweep_program io now else Done (Ok ())) (\<lambda>_.
        ok_then (count_program io) (\<lambda>n.
        if file_max_seen store \<le> n then Done (Err (replay_error StoreFull ''replay store full, retry shortly''))
        else claim_program (replay_filename sha256 jti) expiry now)))))"

section \<open>A program alone\<close>

text \<open>A program does to the shared directory what a step of the model does to the directory it shows.\<close>

definition does :: "io_env \<Rightarrow> 'a file_program \<Rightarrow> (directory \<Rightarrow> (ReplayError, 'a) result \<times> directory) \<Rightarrow> bool" where
  "does io p m \<longleftrightarrow> (\<forall>s. dir_wf s \<longrightarrow>
     (case run_program (exec_call io) p s of (r, s') \<Rightarrow> dir_wf s' \<and> m (dir_of s) = (r, dir_of s')))"

lemma doesD:
  assumes "does io p m" "dir_wf s"
  shows "dir_wf (snd (run_program (exec_call io) p s))"
    "m (dir_of s) = (fst (run_program (exec_call io) p s), dir_of (snd (run_program (exec_call io) p s)))"
  using assms by (simp_all add: does_def case_prod_unfold)

lemma doesI:
  assumes "\<And>s. dir_wf s \<Longrightarrow> dir_wf (snd (run_program (exec_call io) p s)) \<and>
    m (dir_of s) = (fst (run_program (exec_call io) p s), dir_of (snd (run_program (exec_call io) p s)))"
  shows "does io p m"
  using assms by (simp add: does_def case_prod_unfold)

lemma map_fst_dir_of [simp]: "map fst (dir_of s) = map fst (links s)"
  by (simp add: dir_of_def case_prod_unfold comp_def)

lemma map_of_dir_of: "map_of (dir_of s) n = map_option (\<lambda>k. node_data s (n, k)) (map_of (links s) n)"
proof -
  have "map_of (map (\<lambda>(n, k). (n, f (n, k))) xs) n = map_option (\<lambda>k. f (n, k)) (map_of xs n)"
    for xs :: "(string \<times> nat) list" and f :: "handle \<Rightarrow> dirent"
    by (induction xs) auto
  then show ?thesis by (simp add: dir_of_def)
qed

lemma map_of_dir_of_None [simp]: "map_of (dir_of s) n = None \<longleftrightarrow> map_of (links s) n = None"
  by (simp add: map_of_dir_of)

lemma dir_of_unlink: "dir_of (s\<lparr>links := AList.delete n (links s)\<rparr>) = AList.delete n (dir_of s)"
  by (simp add: dir_of_def AList.delete_eq filter_map comp_def case_prod_unfold)

lemma dir_wf_unlink: "dir_wf s \<Longrightarrow> dir_wf (s\<lparr>links := AList.delete n (links s)\<rparr>)"
  by (auto simp: dir_wf_def AList.delete_eq distinct_map intro: inj_on_subset)

text \<open>The directory after \<open>create_new\<close>, and after the write to the file it opened.\<close>

definition with_new :: "shared_dir \<Rightarrow> string \<Rightarrow> string \<Rightarrow> shared_dir" where
  "with_new s n content =
     s\<lparr>links := links s @ [(n, next_serial s)], node_data := (node_data s)((n, next_serial s) := RegFile content),
       next_serial := next_serial s + 1\<rparr>"

lemma dir_of_new: "dir_wf s \<Longrightarrow> dir_of (with_new s n content) = dir_of s @ [(n, RegFile content)]"
  by (auto simp: dir_wf_def dir_of_def with_new_def)

lemma dir_wf_new: "dir_wf s \<Longrightarrow> map_of (links s) n = None \<Longrightarrow> dir_wf (with_new s n content)"
  by (auto simp: dir_wf_def with_new_def map_of_eq_None_iff less_Suc_eq)

lemma write_new:
  "(with_new s n content)\<lparr>node_data := (node_data (with_new s n content))((n, next_serial s) := RegFile content')\<rparr> =
     with_new s n content'"
  by (simp add: with_new_def)

lemma exec_create:
  "exec_call io (CreateNew n) s =
     (if map_of (links s) n \<noteq> None then (AlreadyExists, s)
      else if \<not> io_create io n then (CreateFailed, s) else (Opened (n, next_serial s), with_new s n []))"
  by (simp add: with_new_def)

declare exec_call.simps(5) [simp del]

section \<open>Each step alone\<close>

lemma does_Done: "does io (Done r) (\<lambda>d. (r, d))"
  by (simp add: does_def)

lemma does_sweep_names: "does io (sweep_names io now names) (sweep_loop io now names)"
proof (induction names)
  case (Cons name names)
  show ?case
  proof (rule doesI, goal_cases)
    case (1 s)
    note IH = doesD [OF Cons 1] doesD [OF Cons dir_wf_unlink [OF 1, of name], unfolded dir_of_unlink]
    show ?case using 1 IH dir_wf_unlink [OF 1]
      by (simp add: expired_at_def remove_replay_file_def dir_of_unlink)
  qed
qed (simp add: does_Done)

lemma does_sweep: "does io (sweep_program io now) (\<lambda>d. file_sweep_expired io d now)"
  by (rule doesI) (use doesD [OF does_sweep_names] in \<open>simp add: sweep_program_def file_sweep_expired_def\<close>)

lemma run_count_names:
  "run_program (exec_call io) (count_names io n names) s =
     (if list_ex (\<lambda>name. \<not> io_entry io name) names then Err replay_store_unavailable
      else Ok (n + length (filter (is_file (dir_of s)) names)), s)"
  by (induction names arbitrary: n) auto

lemma run_count: "run_program (exec_call io) (count_program io) s = (active_entry_count io (dir_of s), s)"
  by (simp add: count_program_def active_entry_count_def run_count_names)

lemma does_create: "does io (create_program name expiry) (\<lambda>d. create_and_write io d name expiry)"
  by (rule doesI)
     (simp add: create_program_def create_and_write_def exec_create dir_of_new dir_wf_new write_new)

lemma does_claim: "does io (claim_program name expiry now) (\<lambda>d. claim_file io d name expiry now)"
proof (rule doesI, goal_cases)
  case (1 s)
  note c = doesD [OF does_create 1, of io name expiry]
    doesD [OF does_create dir_wf_unlink [OF 1, of name], of io name expiry, unfolded dir_of_unlink]
  show ?case using 1 c dir_wf_unlink [OF 1]
    by (simp add: claim_program_def claim_file_def expired_at_def remove_replay_file_def dir_of_unlink)
qed

lemma does_maybe_sweep:
  "does io (maybe_sweep_program io store now)
     (\<lambda>d. case maybe_sweep io (store\<lparr>dir := d\<rparr>) now of (r, store') \<Rightarrow> (r, dir store'))"
proof (rule doesI, goal_cases)
  case (1 s)
  then show ?case using doesD [OF does_sweep 1, of io now]
    by (auto simp: maybe_sweep_program_def maybe_sweep_def Let_def split: sum.split)
qed

lemma maybe_sweep_settings:
  "maybe_sweep io store now = (r, store') \<Longrightarrow> file_max_seen store' = file_max_seen store"
  by (auto simp: maybe_sweep_def Let_def split: if_splits prod.splits sum.splits)

text \<open>The part of \<open>check_and_record\<close> after \<open>maybe_sweep\<close>.\<close>

definition room_program :: "io_env \<Rightarrow> nat \<Rightarrow> int \<Rightarrow> unit file_program \<Rightarrow> unit file_program" where
  "room_program io limit now claim =
     ok_then (count_program io) (\<lambda>n.
     ok_then (if limit \<le> n then sweep_program io now else Done (Ok ())) (\<lambda>_.
     ok_then (count_program io) (\<lambda>n.
     if limit \<le> n then Done (Err (replay_error StoreFull ''replay store full, retry shortly'')) else claim)))"

lemma check_program_room:
  "check_program sha256 io store jti expiry now =
     (if trim jti = [] then Done (Err (replay_error ReplayInvalidRequest ''jti must not be empty''))
      else ok_then (maybe_sweep_program io store now)
        (\<lambda>_. room_program io (file_max_seen store) now (claim_program (replay_filename sha256 jti) expiry now)))"
  by (simp add: check_program_def room_program_def)

lemma does_room:
  "does io (room_program io (file_max_seen store) now (claim_program name expiry now))
     (\<lambda>d. case sweep_when_full io (store\<lparr>dir := d\<rparr>) now of
        (Inl e, store') \<Rightarrow> (Inl e, dir store')
      | (Inr _, store') \<Rightarrow> (case active_entry_count io (dir store') of
          Inl e \<Rightarrow> (Inl e, dir store')
        | Inr n \<Rightarrow> if file_max_seen store \<le> n
            then (Err (replay_error StoreFull ''replay store full, retry shortly''), dir store')
            else claim_file io (dir store') name expiry now))"
  (is "does io _ ?m")
proof (rule doesI, goal_cases)
  case (1 s)
  let ?sw = "run_program (exec_call io) (sweep_program io now) s"
  note sw = doesD [OF does_sweep 1, of io now]
  note cl = doesD [OF does_claim 1, of io name expiry now] doesD [OF does_claim sw(1), of io name expiry now]
  show ?case
    by (cases "active_entry_count io (dir_of s)"; cases "fst ?sw"; cases "active_entry_count io (dir_of (snd ?sw))")
       (use 1 sw cl in \<open>auto simp: room_program_def run_ok_then run_count sweep_when_full_def case_prod_unfold\<close>)
qed

lemma does_check:
  "does io (check_program sha256 io store jti expiry now)
     (\<lambda>d. case file_check_and_record sha256 io (store\<lparr>dir := d\<rparr>) jti expiry now of (r, store') \<Rightarrow> (r, dir store'))"
proof (rule doesI, goal_cases)
  case (1 s)
  obtain r s1 where r: "run_program (exec_call io) (maybe_sweep_program io store now) s = (r, s1)" by fastforce
  obtain r' store1 where m: "maybe_sweep io (store\<lparr>dir := dir_of s\<rparr>) now = (r', store1)" by fastforce
  have wf: "dir_wf s1" and eq: "r' = r" "dir store1 = dir_of s1" "file_max_seen store1 = file_max_seen store"
    using doesD [OF does_maybe_sweep 1, of io store now] r m maybe_sweep_settings [OF m] by simp_all
  have up: "store1\<lparr>dir := dir_of s1\<rparr> = store1" using eq(2) by simp
  let ?room = "room_program io (file_max_seen store) now (claim_program (replay_filename sha256 jti) expiry now)"
  obtain r3 s3 where r3: "run_program (exec_call io) ?room s1 = (r3, s3)" by fastforce
  note rm = doesD [OF does_room [where store = store1 and now = now and name = "replay_filename sha256 jti" and expiry = expiry and io = io] wf,
      unfolded up eq(3) r3]
  obtain r2 store2 where sw: "sweep_when_full io store1 now = (r2, store2)" by fastforce
  then have s2: "file_max_seen store2 = file_max_seen store1"
    by (auto simp: sweep_when_full_def split: prod.splits sum.splits if_splits)
  show ?case
    by (cases r; cases r2; cases "active_entry_count io (dir store2)")
       (use 1 r m wf eq r3 rm sw s2 in \<open>auto simp: check_program_room file_check_and_record_def run_ok_then case_prod_unfold\<close>)
qed

section \<open>A file name as a resource\<close>

text \<open>
  For one file name and a time \<open>T\<close> that no clock has passed: the file is absent, unreadable or holds an
  expiry of at least \<open>T\<close>; nobody unlinks it; whoever creates it writes such an expiry.
\<close>

definition name_inv :: "int \<Rightarrow> string \<Rightarrow> shared_dir \<Rightarrow> bool" where
  "name_inv T n s \<longleftrightarrow> dir_wf s \<and> unexpired (dir_of s) T n"

definition name_taken :: "string \<Rightarrow> shared_dir \<Rightarrow> bool" where
  "name_taken n s \<longleftrightarrow> map_of (links s) n \<noteq> None"

fun name_allowed :: "int \<Rightarrow> string \<Rightarrow> file_call \<Rightarrow> bool" where
  "name_allowed T n (Unlink m) \<longleftrightarrow> m \<noteq> n"
| "name_allowed T n (WriteLine h e) \<longleftrightarrow> (fst h = n \<longrightarrow> T \<le> e \<and> in_i64 e)"
| "name_allowed T n _ \<longleftrightarrow> True"

fun name_feasible :: "int \<Rightarrow> string \<Rightarrow> file_call \<Rightarrow> file_reply \<Rightarrow> bool" where
  "name_feasible T n (ReadExp m) r \<longleftrightarrow> (m = n \<longrightarrow> \<not> expired_at T (expiry_of r))"
| "name_feasible T n (CreateNew m) r \<longleftrightarrow> (\<forall>h. r = Opened h \<longrightarrow> fst h = m)"
| "name_feasible T n _ r \<longleftrightarrow> True"

fun name_claims :: "string \<Rightarrow> file_call \<Rightarrow> file_reply \<Rightarrow> bool" where
  "name_claims n (CreateNew m) r \<longleftrightarrow> m = n \<and> (\<exists>h. r = Opened h)"
| "name_claims n _ r \<longleftrightarrow> False"

lemma parse_blank: "parse_i64 [] = None"
  by (simp add: parse_i64_def)

lemma unexpired_new:
  assumes "dir_wf s" "unexpired (dir_of s) T n"
  shows "unexpired (dir_of (with_new s m [])) T n"
proof (cases "map_of (dir_of s) n")
  case None
  then have "map_of (dir_of s @ [(m, RegFile [])]) n = (if n = m then Some (RegFile []) else None)"
    by (simp add: map_add_def del: map_of_dir_of_None)
  then show ?thesis by (simp add: dir_of_new [OF assms(1)] unexpired_def dir_recorded_def parse_blank)
next
  case (Some x)
  then have "map_of (dir_of (with_new s m [])) n = map_of (dir_of s) n" using assms(1) by (simp add: dir_of_new)
  with assms(2) show ?thesis using unexpired_cong by blast
qed

lemma unexpired_write:
  assumes "unexpired (dir_of s) T n" "fst h = n \<Longrightarrow> T \<le> e \<and> in_i64 e"
  shows "unexpired (dir_of (s\<lparr>node_data := (node_data s)(h := RegFile (display_i64 e @ [CHR 0x0A]))\<rparr>)) T n"
  using assms
  by (auto simp: unexpired_def dir_recorded_def map_of_dir_of trim_newline display_i64_no_ws parse_i64_display
      split: option.splits)

lemma unexpired_unlink: "m \<noteq> n \<Longrightarrow> unexpired (AList.delete m d) T n = unexpired d T n"
  by (rule unexpired_cong) (simp add: delete_conv')

interpretation replay_name: guarded_resource "exec_call io" "name_inv T n" "name_taken n"
    "name_allowed T n" "name_feasible T n" "name_claims n"
  for io T n
proof (unfold_locales, goal_cases)
  case (1 s op)
  then show ?case
    by (cases op) (simp_all add: name_inv_def exec_create dir_wf_new unexpired_new dir_wf_unlink dir_of_unlink
        unexpired_unlink unexpired_write, simp add: dir_wf_def)
next
  case (2 s op)
  then show ?case
    by (cases op) (auto simp: name_inv_def exec_create expired_at_def dest: read_exp_expired)
next
  case (3 s op)
  then show ?case
    by (cases op) (auto simp: name_taken_def exec_create with_new_def delete_conv')
next
  case (4 s op)
  then show ?case by (cases op) (auto simp: name_taken_def exec_create with_new_def map_add_def split: if_splits)
next
  case (5 s op)
  then show ?case by (cases op) (simp_all add: name_taken_def exec_create split: if_splits)
qed

subsection \<open>The store's programs keep to the rules\<close>

abbreviation keeps_to :: "int \<Rightarrow> string \<Rightarrow> 'a file_program \<Rightarrow> bool" where
  "keeps_to T n \<equiv> obeys (name_allowed T n) (name_feasible T n)"

abbreviation needs_file :: "int \<Rightarrow> string \<Rightarrow> unit file_program \<Rightarrow> bool" where
  "needs_file T n \<equiv> must_claim (name_feasible T n) (name_claims n) (\<lambda>r. r = Ok ())"

lemma expired_earlier: "now \<le> T \<Longrightarrow> expired_at now v \<Longrightarrow> expired_at T v"
  by (auto simp: expired_at_def split: option.splits)

lemma keeps_sweep: "now \<le> T \<Longrightarrow> keeps_to T n (sweep_program io now)"
proof -
  assume now: "now \<le> T"
  have "keeps_to T n (sweep_names io now names)" for names
    by (induction names) (use expired_earlier [OF now] in auto)
  then show ?thesis by (auto simp: sweep_program_def split: option.split)
qed

lemma keeps_count: "keeps_to T n (count_program io)"
proof -
  have "keeps_to T n (count_names io c names)" for c names by (induction names arbitrary: c) auto
  then show ?thesis by (auto simp: count_program_def split: option.split)
qed

lemma keeps_create: "(m = n \<Longrightarrow> T \<le> e \<and> in_i64 e) \<Longrightarrow> keeps_to T n (create_program m e)"
  by (auto simp: create_program_def split: file_reply.split)

lemma keeps_claim: "now \<le> T \<Longrightarrow> (m = n \<Longrightarrow> T \<le> e \<and> in_i64 e) \<Longrightarrow> keeps_to T n (claim_program m e now)"
  using keeps_create [of m n T e] expired_earlier [of now T] by (auto simp: claim_program_def)

lemma keeps_check:
  "now \<le> T \<Longrightarrow> (replay_filename sha256 j = n \<Longrightarrow> T \<le> e \<and> in_i64 e) \<Longrightarrow>
     keeps_to T n (check_program sha256 io store j e now)"
  by (auto simp: check_program_def maybe_sweep_program_def intro!: obeys_ok_then keeps_sweep keeps_count keeps_claim)

lemma needs_create: "needs_file T n (create_program n e)"
  by (auto simp: create_program_def split: file_reply.split)

lemma needs_check: "needs_file T (replay_filename sha256 j) (check_program sha256 io store j e now)"
  by (auto simp: check_program_def claim_program_def needs_create intro!: must_claim_ok_rest)

section \<open>Properties\<close>

text \<open>
  \<open>check_and_record\<close> of the file store, written as the sequence of system calls it makes, does alone
  what the model of the store says: the same result and the same directory, whichever calls fail.
\<close>

theorem file_calls_alone:
  assumes "dir_wf s"
  shows "case file_check_and_record sha256 io (store\<lparr>dir := dir_of s\<rparr>) jti expiry now of (r, store') \<Rightarrow>
    fst (run_program (exec_call io) (check_program sha256 io store jti expiry now) s) = r \<and>
    dir_of (snd (run_program (exec_call io) (check_program sha256 io store jti expiry now) s)) = dir store'"
  using doesD(2) [OF does_check assms, of sha256 io store jti expiry now] by (simp add: case_prod_unfold)

definition fresh_dir :: shared_dir where
  "fresh_dir = \<lparr>links = [], node_data = (\<lambda>_. OtherEntry), next_serial = 0\<rparr>"

definition small_store :: FileReplayStore where
  "small_store = \<lparr>dir = [], file_max_seen = 8, file_sweep_every = 16, file_calls = 0, file_calls_poisoned = False\<rparr>"

lemma fresh_dir_wf: "dir_wf fresh_dir"
  by (simp add: fresh_dir_def dir_wf_def)

theorem file_calls_alone_witness:
  "dir_wf fresh_dir \<and>
   (case file_check_and_record id io_healthy (small_store\<lparr>dir := dir_of fresh_dir\<rparr>) ''k'' 10 1 of (r, store') \<Rightarrow>
      fst (run_program (exec_call io_healthy) (check_program id io_healthy small_store ''k'' 10 1) fresh_dir) = r \<and>
      dir_of (snd (run_program (exec_call io_healthy) (check_program id io_healthy small_store ''k'' 10 1) fresh_dir)) = dir store')"
  by (intro conjI file_calls_alone fresh_dir_wf)

text \<open>
  Several processes share the directory and their system calls interleave in any order. Of two calls
  with the same key at most one succeeds, provided that no clock passes \<open>T\<close>, that every call for this
  file name records an expiry of at least \<open>T\<close>, and that no record of the key has expired at the start.
  If the file is there at the start, none succeeds.
\<close>

theorem file_race_one_winner:
  assumes "dir_wf s" "unexpired (dir_of s) T (replay_filename sha256 k)"
    and "\<forall>(store, j, e, now) \<in> set cs.
      now \<le> T \<and> (replay_filename sha256 j = replay_filename sha256 k \<longrightarrow> T \<le> e \<and> in_i64 e)"
    and "pool_run (exec_call io) (s, map (\<lambda>(store, j, e, now). check_program sha256 io store j e now) cs) (s', ps)"
    and "i < length cs" "l < length cs" "i \<noteq> l" "fst (snd (cs ! i)) = k" "fst (snd (cs ! l)) = k"
    and "ps ! i = Done a" "ps ! l = Done b"
  shows "\<not> (a = Ok () \<and> b = Ok ()) \<and> (map_of (links s) (replay_filename sha256 k) \<noteq> None \<longrightarrow> a \<noteq> Ok ())"
proof -
  let ?n = "replay_filename sha256 k" and ?p = "\<lambda>(store, j, e, now). check_program sha256 io store j e now"
  have inv: "name_inv T ?n s" using assms(1,2) by (simp add: name_inv_def)
  have keeps: "\<forall>p \<in> set (map ?p cs). keeps_to T ?n p" using assms(3) by (auto intro!: keeps_check)
  have needs: "needs_file T ?n (map ?p cs ! m)" if "m < length cs" "fst (snd (cs ! m)) = k" for m
    using that needs_check by (cases "cs ! m") auto
  have o: "replay_name.orderly T ?n (s, map ?p cs)" using inv keeps by (simp add: replay_name.orderly_def)
  show ?thesis
    using replay_name.one_winner [OF assms(4) o _ _ assms(7) needs needs assms(10,11)]
      replay_name.no_winner [OF assms(4) o _ _ needs assms(10)] assms(5,6,8,9)
    by (auto simp: name_taken_def)
qed

theorem file_race_one_winner_witness:
  "\<exists>s' b. pool_run (exec_call io_healthy)
      (fresh_dir, [check_program id io_healthy small_store ''k'' 10 1, check_program id io_healthy small_store ''k'' 12 4])
      (s', [Done (Ok ()), Done b]) \<and> b \<noteq> Ok ()"
proof -
  let ?cs = "[(small_store, ''k'', 10, 1), (small_store, ''k'', 12, 4)]"
  let ?c = "(fresh_dir, map (\<lambda>(store, j, e, now). check_program id io_healthy store j e now) ?cs)"
  let ?turns = "[0, 0, 1, 1, 0, 1, 0, 1, 0]"
  have t: "trim ''k'' \<noteq> []" by code_simp
  have "\<exists>b. snd (run_turns (exec_call io_healthy) ?turns ?c) = [Done (Ok ()), Done b]"
    using t by (simp add: check_program_def maybe_sweep_program_def ok_then_def count_program_def claim_program_def create_program_def
        expired_at_def exec_create with_new_def read_exp_def dir_of_def fresh_dir_def small_store_def io_healthy_def)
  then obtain b where b: "pool_run (exec_call io_healthy) ?c (fst (run_turns (exec_call io_healthy) ?turns ?c), [Done (Ok ()), Done b])"
    using run_turns_run [of "exec_call io_healthy" ?c ?turns] by (metis prod.collapse)
  have u: "unexpired (dir_of fresh_dir) 5 (replay_filename id ''k'')"
    by (simp add: unexpired_def dir_recorded_def dir_of_def fresh_dir_def)
  have c: "\<forall>(store, j, e, now) \<in> set ?cs.
      now \<le> (5::int) \<and> (replay_filename id j = replay_filename id ''k'' \<longrightarrow> 5 \<le> e \<and> in_i64 e)"
    by (simp add: i64_bounds)
  show ?thesis using file_race_one_winner [OF fresh_dir_wf u c b, where i = 0 and l = 1] b by auto
qed

text \<open>
  C37: with an expired record of the key the guarantee is lost. Two processes both see the expired
  record; the first removes it and creates its own, and the second then removes the new file and creates
  another. Both calls succeed with the same key, although each records an expiry that has not passed.
\<close>

theorem file_race_two_winners:
  assumes "links s = [(replay_filename sha256 k, n)]" "dir_recorded (dir_of s) (replay_filename sha256 k) = Some x"
    and "x < now" "x < now'" "trim k \<noteq> []"
    and "\<not> file_calls_poisoned store" "file_calls store + 1 < file_sweep_every store" "1 < file_max_seen store"
  shows "\<exists>s'. pool_run (exec_call io_healthy)
      (s, [check_program sha256 io_healthy store k e now, check_program sha256 io_healthy store k e' now'])
      (s', [Done (Ok ()), Done (Ok ())])"
proof -
  let ?c = "(s, [check_program sha256 io_healthy store k e now, check_program sha256 io_healthy store k e' now'])"
  let ?turns = "[0, 0, 0, 0, 0, 1, 1, 1, 1, 1, 0, 0, 0, 1, 1, 1]"
  have isf: "is_file (dir_of s) (replay_filename sha256 k)"
    using assms(2) by (simp add: is_file_def dir_recorded_def map_of_dir_of split: option.splits dirent.splits)
  have read: "read_exp io_healthy (dir_of s) (replay_filename sha256 k) = Some x"
    using assms(2) by (simp add: read_exp_recorded io_healthy_def)
  have "snd (run_turns (exec_call io_healthy) ?turns ?c) = [Done (Ok ()), Done (Ok ())]"
    using assms(1,3-8) isf read
    by (simp add: check_program_def maybe_sweep_program_def ok_then_def count_program_def claim_program_def create_program_def expired_at_def
        exec_create with_new_def io_healthy_def)
  then show ?thesis using run_turns_run [of "exec_call io_healthy" ?c ?turns]
    by (metis prod.collapse)
qed

definition expired_dir :: shared_dir where
  "expired_dir = \<lparr>links = [(replay_filename id ''k'', 0)], node_data = (\<lambda>_. RegFile ''5''), next_serial = 1\<rparr>"

theorem file_race_two_winners_witness:
  "dir_wf expired_dir \<and> (\<exists>s'. pool_run (exec_call io_healthy)
      (expired_dir, [check_program id io_healthy small_store ''k'' 20 10, check_program id io_healthy small_store ''k'' 20 10])
      (s', [Done (Ok ()), Done (Ok ())]))"
proof -
  have d: "links expired_dir = [(replay_filename id ''k'', 0)]" by (simp add: expired_dir_def)
  have r: "dir_recorded (dir_of expired_dir) (replay_filename id ''k'') = Some 5"
    by (simp add: expired_dir_def dir_recorded_def dir_of_def) (code_simp)
  have t: "trim ''k'' \<noteq> []" by code_simp
  show ?thesis
    using file_race_two_winners [OF d r _ _ t, of 10 10 small_store 20 20]
    by (simp add: small_store_def) (simp add: expired_dir_def dir_wf_def)
qed

end
