(* ===== verification/Sts_Signers.thy ===== *)
theory Sts_Signers
  imports Sts_Jose
begin

text \<open>
  The signing half of \<open>sts-jose\<close>: fail-closed backend resolution, private-key loading, the four
  signers behind the trait \<open>JoseSigner\<close> (file-backed RS256 and ML-DSA, and both with an external
  key-custody provider) and the DER plumbing for RSA keys. The locale \<open>jose_signer\<close> is the
  trait's contract: what a signer signs verifies against the key set it publishes.
\<close>

section \<open>Backend resolution\<close>

definition resolve_backend :: "BackendSelection \<Rightarrow> (JoseError, unit) result" where
  "resolve_backend selection =
     (case selection of
        Classical \<Rightarrow> Ok ()
      | RequestedPqc requested \<Rightarrow>
          (case from_selector requested of
             None \<Rightarrow> Err (jose_error JoseUnsupportedAlgorithm
               [Lit ''requested signing backend '', Dbg requested,
                Lit '' is not supported; refusing to fall back to RS256''])
           | Some _ \<Rightarrow> Ok ()))"

definition ensure_classical_backend :: "BackendSelection \<Rightarrow> (JoseError, unit) result" where
  "ensure_classical_backend selection =
     (case selection of
        Classical \<Rightarrow> Ok ()
      | RequestedPqc requested \<Rightarrow> Err (jose_error JoseUnsupportedAlgorithm
          [Lit ''requested PQC signing backend '', Dbg requested,
           Lit '' cannot instantiate the RS256 signer; refusing to fall back to RS256'']))"

definition selected_pqc_algorithm :: "BackendSelection \<Rightarrow> (JoseError, MlDsaAlgorithm) result" where
  "selected_pqc_algorithm selection =
     (case selection of
        Classical \<Rightarrow> Err (jose_error JoseUnsupportedAlgorithm
          (lit ''classical signing selection does not identify an ML-DSA algorithm''))
      | RequestedPqc requested \<Rightarrow> ok_or (from_selector requested)
          (jose_error JoseUnsupportedAlgorithm
            [Lit ''requested PQC signing backend '', Dbg requested, Lit '' is not supported'']))"

section \<open>Thumbprints and DER\<close>

abbreviation quot :: string where "quot \<equiv> [CHR 0x22]"

definition rsa_jwk_thumbprint :: "jose_ext \<Rightarrow> string \<Rightarrow> string \<Rightarrow> string" where
  "rsa_jwk_thumbprint E n e =
     b64_encode E (sha256 E (''{'' @ quot @ ''e'' @ quot @ '':'' @ quot @ e @ quot @ '','' @ quot @ ''kty'' @ quot @
       '':'' @ quot @ ''RSA'' @ quot @ '','' @ quot @ ''n'' @ quot @ '':'' @ quot @ n @ quot @ ''}''))"

definition akp_jwk_thumbprint :: "jose_ext \<Rightarrow> string \<Rightarrow> string \<Rightarrow> string" where
  "akp_jwk_thumbprint E alg public =
     b64_encode E (sha256 E (''{'' @ quot @ ''alg'' @ quot @ '':'' @ quot @ alg @ quot @ '','' @ quot @ ''kty'' @ quot @
       '':'' @ quot @ ''AKP'' @ quot @ '','' @ quot @ ''pub'' @ quot @ '':'' @ quot @ public @ quot @ ''}''))"

definition decode_required_private_component ::
    "jose_ext \<Rightarrow> string \<Rightarrow> string option \<Rightarrow> (JoseError, string) result" where
  "decode_required_private_component E name value =
     and_then (ok_or value (jose_error JoseInvalidKey
         (lit (''RSA private JWK missing CRT member '' @ name)))) (\<lambda>value.
     decode_jwk_component E name value)"

definition positive_integer_block :: "jose_ext \<Rightarrow> string \<Rightarrow> string \<Rightarrow> (JoseError, ASN1Block) result" where
  "positive_integer_block E name bytes =
     (if bytes = [] \<or> list_all (\<lambda>byte. byte = CHR 0x00) bytes then
        Err (jose_error JoseInvalidKey
               (lit (''invalid RSA private JWK '' @ name @ '': zero unsigned integer'')))
      else Ok (AsnInteger (bigint_from_bytes_be E bytes)))"

definition rsa_private_jwk_to_pkcs1_der :: "jose_ext \<Rightarrow> PrivateRsaJwk \<Rightarrow> (JoseError, string) result" where
  "rsa_private_jwk_to_pkcs1_der E jwk =
     and_then (decode_jwk_component E ''n'' (prsa_n jwk)) (\<lambda>n.
     and_then (decode_jwk_component E ''e'' (prsa_e jwk)) (\<lambda>e.
     and_then (decode_jwk_component E ''d'' (prsa_d jwk)) (\<lambda>d.
     and_then (decode_jwk_component E ''p'' (prsa_p jwk)) (\<lambda>p.
     and_then (decode_jwk_component E ''q'' (prsa_q jwk)) (\<lambda>q.
     and_then (decode_required_private_component E ''dp'' (prsa_dp jwk)) (\<lambda>dp.
     and_then (decode_required_private_component E ''dq'' (prsa_dq jwk)) (\<lambda>dq.
     and_then (decode_required_private_component E ''qi'' (prsa_qi jwk)) (\<lambda>qi.
     and_then (collect_results (\<lambda>(name, bytes). positive_integer_block E name bytes)
         [(''n'', n), (''e'', e), (''d'', d), (''p'', p), (''q'', q), (''dp'', dp), (''dq'', dq),
          (''qi'', qi)]) (\<lambda>blocks.
     ok_or (asn1_to_der E (AsnSequence (AsnInteger 0 # blocks)))
       (jose_error JoseInvalidKey
          [Lit ''failed to encode RSA private JWK as PKCS#1 DER: '', Ext]))))))))))"

fun find_first_octet_string :: "ASN1Block list \<Rightarrow> string option" where
  "find_first_octet_string [] = None"
| "find_first_octet_string (AsnOctetString value # blocks) = Some value"
| "find_first_octet_string (AsnSequence values # blocks) =
     (case find_first_octet_string values of Some v \<Rightarrow> Some v | None \<Rightarrow> find_first_octet_string blocks)"
| "find_first_octet_string (AsnSet values # blocks) =
     (case find_first_octet_string values of Some v \<Rightarrow> Some v | None \<Rightarrow> find_first_octet_string blocks)"
| "find_first_octet_string (AsnExplicit inner # blocks) =
     (case find_first_octet_string [inner] of Some v \<Rightarrow> Some v | None \<Rightarrow> find_first_octet_string blocks)"
| "find_first_octet_string (AsnInteger _ # blocks) = find_first_octet_string blocks"
| "find_first_octet_string (AsnOther _ # blocks) = find_first_octet_string blocks"

definition extract_pkcs8_private_key_octets :: "jose_ext \<Rightarrow> string \<Rightarrow> (JoseError, string) result" where
  "extract_pkcs8_private_key_octets E private_der =
     and_then (ok_or (asn1_from_der E private_der)
         (jose_error JoseInvalidKey [Lit ''invalid RSA private key DER: '', Ext])) (\<lambda>blocks.
     ok_or (find_first_octet_string blocks)
       (jose_error JoseInvalidKey
          (lit ''invalid RSA private key DER: PKCS#8 privateKey octets not found'')))"

definition normalize_rsa_private_key_der :: "jose_ext \<Rightarrow> string \<Rightarrow> (JoseError, string) result" where
  "normalize_rsa_private_key_der E private_der =
     (if rsa_key_from_der E private_der \<noteq> None then Ok private_der
      else extract_pkcs8_private_key_octets E private_der)"

definition rsa_integer_component ::
    "jose_ext \<Rightarrow> ASN1Block list \<Rightarrow> nat \<Rightarrow> string \<Rightarrow> (JoseError, string) result" where
  "rsa_integer_component E seq index name =
     (case (if index < length seq then Some (seq ! index) else None) of
        Some (AsnInteger value) \<Rightarrow>
          if value \<le> 0 then
            Err (jose_error JoseInvalidKey
                   (lit (''invalid generated RSA key DER: non-positive integer '' @ name)))
          else Ok (b64_encode E (bigint_to_bytes_be E value))
      | _ \<Rightarrow> Err (jose_error JoseInvalidKey
                   (lit (''invalid generated RSA key DER: missing integer '' @ name))))"

definition private_jwk_json_from_pkcs8_der ::
    "jose_ext \<Rightarrow> string \<Rightarrow> PublicJwk \<Rightarrow> (JoseError, string) result" where
  "private_jwk_json_from_pkcs8_der E private_der public_jwk =
     and_then (normalize_rsa_private_key_der E private_der) (\<lambda>pkcs1_der.
     and_then (ok_or (asn1_from_der E pkcs1_der)
         (jose_error JoseInvalidKey [Lit ''invalid generated RSA key DER: '', Ext])) (\<lambda>blocks.
     and_then (case blocks of
           [AsnSequence seq] \<Rightarrow> Ok seq
         | _ \<Rightarrow> Err (jose_error JoseInvalidKey
                 (lit ''invalid generated RSA key DER: expected PKCS#1 sequence''))) (\<lambda>seq.
     if length seq < 9 then
       Err (jose_error JoseInvalidKey
              (lit ''invalid generated RSA key DER: missing RSA private key components''))
     else
       and_then (collect_results (\<lambda>(i, name). map_ok (\<lambda>v. (name, JString v)) (rsa_integer_component E seq i name))
           [(1, ''n''), (2, ''e''), (3, ''d''), (4, ''p''), (5, ''q''), (6, ''dp''), (7, ''dq''), (8, ''qi'')]) (\<lambda>members.
       and_then (ok_or (json_to_string_pretty E (JObject
             ([(''kty'', JString ''RSA''), (''kid'', JString (jwk_kid public_jwk)),
               (''use'', JString ''sig''), (''alg'', JString ''RS256'')] @ members)))
           (jose_error JoseInvalidKey [Lit ''encode generated RSA JWK failed: '', Ext])) (\<lambda>json.
       Ok (json @ [CHR 0x0A]))))))"

section \<open>The RS256 signer\<close>

record RsaJoseSigner =
  rs_kid :: string
  rs_encoding_key :: string
  rs_public_jwk :: PublicJwk

definition from_pkcs1_der :: "jose_ext \<Rightarrow> string \<Rightarrow> string \<Rightarrow> (JoseError, RsaJoseSigner) result" where
  "from_pkcs1_der E private_der kid =
     (case rsa_key_from_der E private_der of
        None \<Rightarrow> Err (jose_error JoseInvalidKey [Lit ''invalid RSA private key: '', Ext])
      | Some (modulus_len, n, e) \<Rightarrow>
          if modulus_len * 8 < 2048 then
            Err (jose_error JoseInvalidKey (lit ''RSA signing key modulus must be at least 2048 bits''))
          else Ok \<lparr>rs_kid = kid, rs_encoding_key = private_der,
                   rs_public_jwk = \<lparr>jwk_kty = ''RSA'', jwk_kid = kid, jwk_use = ''sig'', jwk_alg = ''RS256'',
                     jwk_n = Some (b64_encode E n), jwk_e = Some (b64_encode E e), jwk_pub = None\<rparr>\<rparr>)"

definition from_pkcs1_pem :: "jose_ext \<Rightarrow> string \<Rightarrow> string \<Rightarrow> (JoseError, RsaJoseSigner) result" where
  "from_pkcs1_pem E private_pem kid =
     and_then (ok_or (rsa_pem_to_der E (trim private_pem)) map_jwt_key_error) (\<lambda>der.
     from_pkcs1_der E der kid)"

definition from_private_key_der :: "jose_ext \<Rightarrow> string \<Rightarrow> string \<Rightarrow> (JoseError, RsaJoseSigner) result" where
  "from_private_key_der E private_der kid =
     and_then (normalize_rsa_private_key_der E private_der) (\<lambda>der. from_pkcs1_der E der kid)"

definition rsa_from_private_jwk :: "jose_ext \<Rightarrow> string \<Rightarrow> string \<Rightarrow> (JoseError, RsaJoseSigner) result" where
  "rsa_from_private_jwk E private_jwk_json fallback_kid =
     and_then (ok_or (rsa_jwk_from_str E private_jwk_json)
         (jose_error JoseInvalidKey [Lit ''invalid RSA private JWK JSON: '', Ext])) (\<lambda>jwk.
     if prsa_kty jwk \<noteq> ''RSA'' then
       Err (jose_error JoseInvalidKey (lit (''unsupported private JWK key type '' @ prsa_kty jwk)))
     else
       and_then (decode_jwk_component E ''n'' (prsa_n jwk)) (\<lambda>n.
       and_then (decode_jwk_component E ''e'' (prsa_e jwk)) (\<lambda>e.
       and_then (validate_public_components n e) (\<lambda>_.
       if rsa_modulus_bits n < 2048 then
         Err (jose_error JoseInvalidKey (lit ''RSA signing key modulus must be at least 2048 bits''))
       else
         and_then (rsa_private_jwk_to_pkcs1_der E jwk) (\<lambda>private_der.
         from_pkcs1_der E private_der
           (case prsa_kid jwk of None \<Rightarrow> fallback_kid | Some kid \<Rightarrow> kid))))))"

definition from_pkcs1_pem_for_backend ::
    "jose_ext \<Rightarrow> BackendSelection \<Rightarrow> string \<Rightarrow> string \<Rightarrow> (JoseError, RsaJoseSigner) result" where
  "from_pkcs1_pem_for_backend E selection private_pem kid =
     and_then (ensure_classical_backend selection) (\<lambda>_. from_pkcs1_pem E private_pem kid)"

definition rsa_from_private_jwk_for_backend ::
    "jose_ext \<Rightarrow> BackendSelection \<Rightarrow> string \<Rightarrow> string \<Rightarrow> (JoseError, RsaJoseSigner) result" where
  "rsa_from_private_jwk_for_backend E selection private_jwk_json fallback_kid =
     and_then (ensure_classical_backend selection) (\<lambda>_.
     rsa_from_private_jwk E private_jwk_json fallback_kid)"

definition from_private_key_der_for_backend ::
    "jose_ext \<Rightarrow> BackendSelection \<Rightarrow> string \<Rightarrow> string \<Rightarrow> (JoseError, RsaJoseSigner) result" where
  "from_private_key_der_for_backend E selection private_der kid =
     and_then (ensure_classical_backend selection) (\<lambda>_. from_private_key_der E private_der kid)"

definition rsa_sign_json_claims_with_typ ::
    "'a codec \<Rightarrow> RsaJoseSigner \<Rightarrow> 'a \<Rightarrow> string \<Rightarrow> (JoseError, string) result" where
  "rsa_sign_json_claims_with_typ C s claims typ =
     map_err map_jwt_encode_error
       (rs256_encode C \<lparr>hdr_alg = ''RS256'', hdr_kid = Some (rs_kid s), hdr_typ = Some typ\<rparr> claims
          (rs_encoding_key s))"

definition rsa_sign_json_claims :: "'a codec \<Rightarrow> RsaJoseSigner \<Rightarrow> 'a \<Rightarrow> (JoseError, string) result" where
  "rsa_sign_json_claims C s claims = rsa_sign_json_claims_with_typ C s claims ''JWT''"

section \<open>The ML-DSA signer\<close>

record MlDsaJoseSigner =
  ml_kid :: string
  ml_algorithm :: MlDsaAlgorithm
  ml_key_pair :: string
  ml_public_jwk :: PublicJwk

definition openssl_private_key_from_seed ::
    "jose_ext \<Rightarrow> MlDsaAlgorithm \<Rightarrow> string \<Rightarrow> (JoseError, string) result" where
  "openssl_private_key_from_seed E algorithm seed =
     (if ossl_key_from_seed E algorithm seed then Ok seed
      else Err (jose_error JoseInvalidKey [Lit ''AKP private JWK seed was rejected by OpenSSL: '', Ext]))"

definition openssl_raw_public_key ::
    "jose_ext \<Rightarrow> MlDsaAlgorithm \<Rightarrow> string \<Rightarrow> (JoseError, string) result" where
  "openssl_raw_public_key E algorithm key_pair =
     ok_or (ossl_raw_public E algorithm key_pair)
       (jose_error JoseInvalidKey [Lit ''derive ML-DSA public key from OpenSSL private key failed: '', Ext])"

definition openssl_sign_mldsa ::
    "jose_ext \<Rightarrow> MlDsaAlgorithm \<Rightarrow> string \<Rightarrow> string \<Rightarrow> (JoseError, string) result" where
  "openssl_sign_mldsa E algorithm key_pair signing_input =
     and_then (ok_or (ossl_sign E algorithm key_pair signing_input)
         (jose_error JoseInvalidKey [Lit ''ML-DSA signing failed: '', Ext])) (\<lambda>signature.
     if length signature \<noteq> signature_len algorithm then
       Err (jose_error JoseInvalidKey (lit (''ML-DSA signature length was '' @ display_nat (length signature) @
              '' bytes, expected '' @ display_nat (signature_len algorithm) @ '' for '' @ jose_alg algorithm)))
     else Ok signature)"

definition akp_public_jwk :: "string \<Rightarrow> MlDsaAlgorithm \<Rightarrow> string \<Rightarrow> PublicJwk" where
  "akp_public_jwk kid algorithm public =
     \<lparr>jwk_kty = ''AKP'', jwk_kid = kid, jwk_use = ''sig'', jwk_alg = jose_alg algorithm, jwk_n = None,
      jwk_e = None, jwk_pub = Some public\<rparr>"

definition mldsa_from_private_jwk_for_backend ::
    "jose_ext \<Rightarrow> BackendSelection \<Rightarrow> string \<Rightarrow> string \<Rightarrow> (JoseError, MlDsaJoseSigner) result" where
  "mldsa_from_private_jwk_for_backend E selection private_jwk_json fallback_kid =
     and_then (resolve_backend selection) (\<lambda>_.
     and_then (selected_pqc_algorithm selection) (\<lambda>selected_algorithm.
     and_then (ok_or (akp_jwk_from_str E private_jwk_json)
         (jose_error JoseInvalidKey [Lit ''invalid AKP private JWK JSON: '', Ext])) (\<lambda>jwk.
     if pakp_kty jwk \<noteq> ''AKP'' then
       Err (jose_error JoseInvalidKey (lit (''unsupported private JWK key type '' @ pakp_kty jwk)))
     else
       and_then (ok_or (from_jose_alg (pakp_alg jwk)) (jose_error JoseUnsupportedAlgorithm
           (lit (''unsupported AKP private JWK alg '' @ pakp_alg jwk)))) (\<lambda>algorithm.
       if algorithm \<noteq> selected_algorithm then
         Err (jose_error JoseInvalidKey
                (lit ''selected signing algorithm does not match AKP private JWK alg''))
       else
         and_then (decode_jwk_octets E ''AKP private JWK priv'' (pakp_priv jwk)) (\<lambda>seed.
         if length seed \<noteq> 32 then
           Err (jose_error JoseInvalidKey (lit ''AKP private JWK priv must be a 32-byte seed''))
         else
           and_then (decode_jwk_octets E ''AKP private JWK pub'' (pakp_pub jwk)) (\<lambda>supplied_public.
           if length supplied_public \<noteq> public_key_len algorithm then
             Err (jose_error JoseInvalidKey (lit (''AKP private JWK pub length must be '' @
                    display_nat (public_key_len algorithm) @ '' bytes for '' @ jose_alg algorithm)))
           else
             and_then (openssl_private_key_from_seed E algorithm seed) (\<lambda>key_pair.
             and_then (openssl_raw_public_key E algorithm key_pair) (\<lambda>derived_public.
             if derived_public \<noteq> supplied_public then
               Err (jose_error JoseInvalidKey
                      (lit ''AKP private JWK pub does not match priv-derived public key''))
             else
               let public = b64_encode E derived_public;
                   kid = (case pakp_kid jwk of
                            Some kid \<Rightarrow> kid
                          | None \<Rightarrow> if fallback_kid = [] then akp_jwk_thumbprint E (jose_alg algorithm) public
                                   else fallback_kid)
               in Ok \<lparr>ml_kid = kid, ml_algorithm = algorithm, ml_key_pair = key_pair,
                      ml_public_jwk = akp_public_jwk kid algorithm public\<rparr>))))))))"

text \<open>Compact serialisation around a raw signing operation, as the three JSON signers do it.\<close>

definition sign_compact ::
    "jose_ext \<Rightarrow> 'a codec \<Rightarrow> (string \<Rightarrow> (JoseError, string) result) \<Rightarrow> CompactJwsHeader \<Rightarrow> 'a \<Rightarrow>
     (JoseError, string) result" where
  "sign_compact E C sign header claims =
     and_then (ok_or (header_to_vec E header)
         (jose_error JoseInvalidClaims [Lit ''encode JWS header failed: '', Ext])) (\<lambda>protected.
     and_then (ok_or (claims_to_vec C claims)
         (jose_error JoseInvalidClaims [Lit ''encode claims failed: '', Ext])) (\<lambda>payload.
     let signing_input = b64_encode E protected @ ''.'' @ b64_encode E payload in
     and_then (sign signing_input) (\<lambda>signature.
     Ok (signing_input @ ''.'' @ b64_encode E signature))))"

definition mldsa_sign_json_claims_with_typ ::
    "jose_ext \<Rightarrow> 'a codec \<Rightarrow> MlDsaJoseSigner \<Rightarrow> 'a \<Rightarrow> string \<Rightarrow> (JoseError, string) result" where
  "mldsa_sign_json_claims_with_typ E C s claims typ =
     sign_compact E C (openssl_sign_mldsa E (ml_algorithm s) (ml_key_pair s))
       \<lparr>hdr_alg = jose_alg (ml_algorithm s), hdr_kid = Some (ml_kid s), hdr_typ = Some typ\<rparr> claims"

text \<open>\<open>seed\<close> is what the random generator filled in, \<open>None\<close> when it failed.\<close>

definition mldsa_generate_private_jwk ::
    "jose_ext \<Rightarrow> MlDsaAlgorithm \<Rightarrow> string option \<Rightarrow> string option \<Rightarrow> (JoseError, string \<times> PublicJwk) result" where
  "mldsa_generate_private_jwk E algorithm kid seed =
     and_then (ok_or seed (jose_error JoseInvalidKey [Lit ''ML-DSA seed generation failed: '', Ext])) (\<lambda>seed.
     and_then (openssl_private_key_from_seed E algorithm seed) (\<lambda>key_pair.
     and_then (openssl_raw_public_key E algorithm key_pair) (\<lambda>raw.
     let public = b64_encode E raw;
         kid = (case kid of
                  Some value \<Rightarrow> if trim value \<noteq> [] then value else akp_jwk_thumbprint E (jose_alg algorithm) public
                | None \<Rightarrow> akp_jwk_thumbprint E (jose_alg algorithm) public)
     in and_then (ok_or (json_to_string_pretty E (JObject
            [(''kty'', JString ''AKP''), (''kid'', JString kid), (''use'', JString ''sig''),
             (''alg'', JString (jose_alg algorithm)), (''pub'', JString public),
             (''priv'', JString (b64_encode E seed))]))
          (jose_error JoseInvalidKey [Lit ''encode generated ML-DSA JWK failed: '', Ext])) (\<lambda>json.
        let private_jwk_json = json @ [CHR 0x0A] in
        and_then (mldsa_from_private_jwk_for_backend E (backend_parse (jose_alg algorithm)) private_jwk_json '''') (\<lambda>signer.
        Ok (private_jwk_json, ml_public_jwk signer))))))"

section \<open>Signers with external key custody\<close>

record ExternalRs256JoseSigner =
  xr_kid :: string
  xr_public_jwk :: PublicJwk
  xr_provider :: "string \<Rightarrow> (JoseError, string) result"

definition external_rs256_new ::
    "jose_ext \<Rightarrow> string \<Rightarrow> PublicJwk \<Rightarrow> (string \<Rightarrow> (JoseError, string) result) \<Rightarrow>
     (JoseError, ExternalRs256JoseSigner) result" where
  "external_rs256_new E kid public_jwk provider =
     (if trim kid = [] then
        Err (jose_error JoseInvalidKey (lit ''external signer kid is required''))
      else
        and_then (validate_public_jwk E public_jwk) (\<lambda>_.
        if jwk_kty public_jwk \<noteq> ''RSA'' \<or> jwk_alg public_jwk \<noteq> ''RS256'' then
          Err (jose_error JoseUnsupportedAlgorithm
                 (lit ''external signer currently supports RS256 RSA public keys only''))
        else if jwk_kid public_jwk \<noteq> kid then
          Err (jose_error JoseInvalidKey (lit ''external signer kid does not match public JWK kid''))
        else Ok \<lparr>xr_kid = kid, xr_public_jwk = public_jwk, xr_provider = provider\<rparr>))"

definition external_rs256_sign_with_typ ::
    "jose_ext \<Rightarrow> 'a codec \<Rightarrow> ExternalRs256JoseSigner \<Rightarrow> 'a \<Rightarrow> string \<Rightarrow> (JoseError, string) result" where
  "external_rs256_sign_with_typ E C s claims typ =
     sign_compact E C (xr_provider s)
       \<lparr>hdr_alg = ''RS256'', hdr_kid = Some (xr_kid s), hdr_typ = Some typ\<rparr> claims"

record ExternalMlDsaJoseSigner =
  xm_kid :: string
  xm_algorithm :: MlDsaAlgorithm
  xm_public_jwk :: PublicJwk
  xm_provider :: "string \<Rightarrow> (JoseError, string) result"

definition external_mldsa_new ::
    "jose_ext \<Rightarrow> string \<Rightarrow> PublicJwk \<Rightarrow> MlDsaAlgorithm \<Rightarrow> (string \<Rightarrow> (JoseError, string) result) \<Rightarrow>
     (JoseError, ExternalMlDsaJoseSigner) result" where
  "external_mldsa_new E kid public_jwk algorithm provider =
     (if trim kid = [] then
        Err (jose_error JoseInvalidKey (lit ''external ML-DSA signer kid is required''))
      else
        and_then (validate_public_jwk E public_jwk) (\<lambda>_.
        if jwk_kty public_jwk \<noteq> ''AKP'' \<or> jwk_alg public_jwk \<noteq> jose_alg algorithm then
          Err (jose_error JoseUnsupportedAlgorithm
                 (lit ''external ML-DSA signer public JWK must be AKP with matching ML-DSA alg''))
        else if jwk_kid public_jwk \<noteq> kid then
          Err (jose_error JoseInvalidKey (lit ''external ML-DSA signer kid does not match public JWK kid''))
        else
          and_then (akp_public_key_from_jwk E public_jwk) (\<lambda>public.
          if akp_algorithm public \<noteq> algorithm then
            Err (jose_error JoseInvalidKey
                   (lit ''external ML-DSA signer provider alg does not match public JWK''))
          else Ok \<lparr>xm_kid = kid, xm_algorithm = algorithm, xm_public_jwk = public_jwk,
                   xm_provider = provider\<rparr>)))"

definition external_mldsa_sign_with_typ ::
    "jose_ext \<Rightarrow> 'a codec \<Rightarrow> ExternalMlDsaJoseSigner \<Rightarrow> 'a \<Rightarrow> string \<Rightarrow> (JoseError, string) result" where
  "external_mldsa_sign_with_typ E C s claims typ =
     sign_compact E C
       (\<lambda>signing_input. and_then (xm_provider s signing_input) (\<lambda>signature.
          if length signature \<noteq> signature_len (xm_algorithm s) then
            Err (jose_error JoseInvalidKey
                   (lit ''external ML-DSA provider returned wrong-sized signature''))
          else Ok signature))
       \<lparr>hdr_alg = jose_alg (xm_algorithm s), hdr_kid = Some (xm_kid s), hdr_typ = Some typ\<rparr> claims"

section \<open>The trait object\<close>

datatype JoseSigner =
    RsaSigner RsaJoseSigner
  | MlDsaSigner MlDsaJoseSigner
  | ExternalRs256Signer ExternalRs256JoseSigner
  | ExternalMlDsaSigner ExternalMlDsaJoseSigner

fun signer_alg :: "JoseSigner \<Rightarrow> string" where
  "signer_alg (RsaSigner s) = ''RS256''"
| "signer_alg (MlDsaSigner s) = jose_alg (ml_algorithm s)"
| "signer_alg (ExternalRs256Signer s) = ''RS256''"
| "signer_alg (ExternalMlDsaSigner s) = jose_alg (xm_algorithm s)"

fun signer_kid :: "JoseSigner \<Rightarrow> string" where
  "signer_kid (RsaSigner s) = rs_kid s"
| "signer_kid (MlDsaSigner s) = ml_kid s"
| "signer_kid (ExternalRs256Signer s) = xr_kid s"
| "signer_kid (ExternalMlDsaSigner s) = xm_kid s"

fun sign_claims :: "jose_ext \<Rightarrow> 'a codec \<Rightarrow> JoseSigner \<Rightarrow> 'a \<Rightarrow> (JoseError, string) result" where
  "sign_claims E C (RsaSigner s) claims = rsa_sign_json_claims_with_typ C s claims ''at+jwt''"
| "sign_claims E C (MlDsaSigner s) claims = mldsa_sign_json_claims_with_typ E C s claims ''at+jwt''"
| "sign_claims E C (ExternalRs256Signer s) claims = external_rs256_sign_with_typ E C s claims ''at+jwt''"
| "sign_claims E C (ExternalMlDsaSigner s) claims = external_mldsa_sign_with_typ E C s claims ''at+jwt''"

fun signer_public_jwk :: "JoseSigner \<Rightarrow> PublicJwk" where
  "signer_public_jwk (RsaSigner s) = rs_public_jwk s"
| "signer_public_jwk (MlDsaSigner s) = ml_public_jwk s"
| "signer_public_jwk (ExternalRs256Signer s) = xr_public_jwk s"
| "signer_public_jwk (ExternalMlDsaSigner s) = xm_public_jwk s"

definition public_jwks :: "JoseSigner \<Rightarrow> JwksDocument" where
  "public_jwks s = \<lparr>jwks_keys = [signer_public_jwk s]\<rparr>"

definition verify_claims :: "jose_ext \<Rightarrow> 'a codec \<Rightarrow> JoseSigner \<Rightarrow> string \<Rightarrow> (JoseError, 'a) result" where
  "verify_claims E C s token =
     and_then (decode_compact_jws_header E token) (\<lambda>header.
     if hdr_alg header \<noteq> signer_alg s then
       Err (jose_error JoseVerificationFailed (lit ''unexpected JWS algorithm''))
     else if hdr_kid header \<noteq> Some (signer_kid s) then
       Err (jose_error JoseVerificationFailed (lit ''unexpected JWS kid''))
     else verify_claims_against_jwks E C token (public_jwks s))"

section \<open>What the libraries promise\<close>

text \<open>
  The laws of the libraries that signing relies on, for one signer and one claims value: base64url
  decodes what it encoded and its alphabet has no dot, JSON reads back what it wrote, and the
  signature scheme accepts its own signatures.
\<close>

definition b64_law :: "jose_ext \<Rightarrow> bool" where
  "b64_law E \<longleftrightarrow> (\<forall>x. b64_decode E (b64_encode E x) = Some x \<and> CHR ''.'' \<notin> set (b64_encode E x))"

definition header_law :: "jose_ext \<Rightarrow> CompactJwsHeader \<Rightarrow> bool" where
  "header_law E h \<longleftrightarrow> (\<forall>b. header_to_vec E h = Some b \<longrightarrow> header_from_slice E b = Some h)"

definition claims_law :: "'a codec \<Rightarrow> 'a \<Rightarrow> bool" where
  "claims_law C c \<longleftrightarrow> (\<forall>b. claims_to_vec C c = Some b \<longrightarrow> claims_from_slice C b = Some c)"

text \<open>OpenSSL accepts the public key and every signature that \<open>sign\<close> makes.\<close>

definition mldsa_law ::
    "jose_ext \<Rightarrow> MlDsaAlgorithm \<Rightarrow> string \<Rightarrow> (string \<Rightarrow> (JoseError, string) result) \<Rightarrow> bool" where
  "mldsa_law E a pk sign \<longleftrightarrow> ossl_public_key_ok E a pk \<and> ossl_verifier_ok E a pk \<and>
     (\<forall>m sig. sign m = Ok sig \<longrightarrow> ossl_verify E a pk sig m = Some True)"

text \<open>
  \<open>jsonwebtoken\<close> writes three base64url segments, the first of which is the header, and decodes what it wrote
  under the public key of the signing key.
\<close>

definition rs256_law :: "jose_ext \<Rightarrow> 'a codec \<Rightarrow> PublicJwk \<Rightarrow> CompactJwsHeader \<Rightarrow> 'a \<Rightarrow> string \<Rightarrow> bool" where
  "rs256_law E C jwk h c token \<longleftrightarrow>
     (\<exists>hs ps ss hb. token = hs @ ''.'' @ ps @ ''.'' @ ss \<and> CHR ''.'' \<notin> set hs \<and> CHR ''.'' \<notin> set ps \<and> CHR ''.'' \<notin> set ss \<and>
        b64_decode E hs = Some hb \<and> header_from_slice E hb = Some h) \<and>
     (\<exists>n e. jwk_n jwk = Some n \<and> jwk_e jwk = Some e \<and> rsa_components_ok E n e \<and>
        rs256_decode C token n e signature_only_rs256_validation = Ok c)"

text \<open>
  With the private key in external custody the token is put together by this crate. \<open>jsonwebtoken\<close> decodes the
  compact form of an RS256 header and of claims, as \<open>serde_json\<close> writes them, when the signature of the first two
  segments is valid under the public key; and the provider's signatures are valid.
\<close>

definition rs256_decodes ::
    "jose_ext \<Rightarrow> 'a codec \<Rightarrow> string \<Rightarrow> string \<Rightarrow> (string \<Rightarrow> string \<Rightarrow> bool) \<Rightarrow> CompactJwsHeader \<Rightarrow> 'a \<Rightarrow> bool" where
  "rs256_decodes E C n e valid h c \<longleftrightarrow> (\<forall>hb pb sig. hdr_alg h = ''RS256'' \<longrightarrow> header_to_vec E h = Some hb \<longrightarrow>
     claims_to_vec C c = Some pb \<longrightarrow> valid sig (b64_encode E hb @ ''.'' @ b64_encode E pb) \<longrightarrow>
     rs256_decode C ((b64_encode E hb @ ''.'' @ b64_encode E pb) @ ''.'' @ b64_encode E sig) n e
       signature_only_rs256_validation = Ok c)"

definition rs256_custody_law ::
    "jose_ext \<Rightarrow> 'a codec \<Rightarrow> PublicJwk \<Rightarrow> (string \<Rightarrow> (JoseError, string) result) \<Rightarrow> CompactJwsHeader \<Rightarrow> 'a \<Rightarrow> bool" where
  "rs256_custody_law E C jwk sign h c \<longleftrightarrow>
     (\<exists>n e valid. jwk_n jwk = Some n \<and> jwk_e jwk = Some e \<and> rsa_components_ok E n e \<and> rs256_decodes E C n e valid h c \<and>
        (\<forall>m sig. sign m = Ok sig \<longrightarrow> valid sig m))"

definition signer_header :: "JoseSigner \<Rightarrow> CompactJwsHeader" where
  "signer_header s = \<lparr>hdr_alg = signer_alg s, hdr_kid = Some (signer_kid s), hdr_typ = Some ''at+jwt''\<rparr>"

text \<open>
  A signer is consistent when its published key has its \<open>kid\<close> and decodes; the constructors
  establish this. \<open>libs_sound\<close> adds the library laws for the key at hand.
\<close>

fun signer_consistent :: "jose_ext \<Rightarrow> JoseSigner \<Rightarrow> bool" where
  "signer_consistent E (RsaSigner s) \<longleftrightarrow> jwk_kid (rs_public_jwk s) = rs_kid s \<and>
     is_ok (rsa_public_key_from_jwk E (rs_public_jwk s))"
| "signer_consistent E (MlDsaSigner s) \<longleftrightarrow> jwk_kid (ml_public_jwk s) = ml_kid s \<and>
     (\<exists>pk. akp_public_key_from_jwk E (ml_public_jwk s) = Ok \<lparr>akp_algorithm = ml_algorithm s, akp_public_key = pk\<rparr> \<and>
        ossl_raw_public E (ml_algorithm s) (ml_key_pair s) = Some pk)"
| "signer_consistent E (ExternalRs256Signer s) \<longleftrightarrow> jwk_kid (xr_public_jwk s) = xr_kid s \<and>
     is_ok (rsa_public_key_from_jwk E (xr_public_jwk s))"
| "signer_consistent E (ExternalMlDsaSigner s) \<longleftrightarrow> jwk_kid (xm_public_jwk s) = xm_kid s \<and>
     (\<exists>pk. akp_public_key_from_jwk E (xm_public_jwk s) = Ok \<lparr>akp_algorithm = xm_algorithm s, akp_public_key = pk\<rparr>)"

fun libs_sound :: "jose_ext \<Rightarrow> 'a codec \<Rightarrow> JoseSigner \<Rightarrow> 'a \<Rightarrow> bool" where
  "libs_sound E C (RsaSigner s) c \<longleftrightarrow>
     (\<forall>t. rs256_encode C (signer_header (RsaSigner s)) c (rs_encoding_key s) = Ok t \<longrightarrow>
        rs256_law E C (rs_public_jwk s) (signer_header (RsaSigner s)) c t)"
| "libs_sound E C (MlDsaSigner s) c \<longleftrightarrow> b64_law E \<and> header_law E (signer_header (MlDsaSigner s)) \<and>
     claims_law C c \<and>
     (\<forall>pk. ossl_raw_public E (ml_algorithm s) (ml_key_pair s) = Some pk \<longrightarrow>
        mldsa_law E (ml_algorithm s) pk (openssl_sign_mldsa E (ml_algorithm s) (ml_key_pair s)))"
| "libs_sound E C (ExternalRs256Signer s) c \<longleftrightarrow> b64_law E \<and> header_law E (signer_header (ExternalRs256Signer s)) \<and>
     rs256_custody_law E C (xr_public_jwk s) (xr_provider s) (signer_header (ExternalRs256Signer s)) c"
| "libs_sound E C (ExternalMlDsaSigner s) c \<longleftrightarrow> b64_law E \<and> header_law E (signer_header (ExternalMlDsaSigner s)) \<and>
     claims_law C c \<and>
     (\<forall>k. akp_public_key_from_jwk E (xm_public_jwk s) = Ok k \<longrightarrow>
        mldsa_law E (xm_algorithm s) (akp_public_key k) (xm_provider s))"

section \<open>The trait as a contract\<close>

text \<open>What \<open>sts-http\<close> relies on: a token the signer made is accepted with the same claims.\<close>

locale jose_signer =
  fixes sign :: "'s \<Rightarrow> 'c \<Rightarrow> (JoseError, string) result"
    and check :: "'s \<Rightarrow> string \<Rightarrow> (JoseError, 'c) result"
    and good :: "'s \<Rightarrow> 'c \<Rightarrow> bool"
  assumes roundtrip: "good s c \<Longrightarrow> sign s c = Ok t \<Longrightarrow> check s t = Ok c"
begin

lemma sign_inj: "good s c \<Longrightarrow> good s c' \<Longrightarrow> sign s c = Ok t \<Longrightarrow> sign s c' = Ok t \<Longrightarrow> c = c'"
  by (metis roundtrip sum.inject(2))

lemma signed_is_accepted: "good s c \<Longrightarrow> is_ok (sign s c) \<Longrightarrow> \<exists>t. sign s c = Ok t \<and> check s t = Ok c"
  using roundtrip by (auto simp: is_ok_iff)

end

section \<open>The four signers meet the contract\<close>

lemma decode_own_header:
  assumes "b64_law E" "header_law E h" "sign_compact E C sign h c = Ok t"
  obtains p payload sig where "header_to_vec E h = Some p" "claims_to_vec C c = Some payload"
    "sign (b64_encode E p @ ''.'' @ b64_encode E payload) = Ok sig"
    "parse_compact_jws t = Ok (b64_encode E p, b64_encode E payload, b64_encode E sig)"
    "decode_compact_jws_header E t = Ok h"
proof -
  from assms(3) obtain p payload sig where
    *: "header_to_vec E h = Some p" "claims_to_vec C c = Some payload"
      "sign (b64_encode E p @ ''.'' @ b64_encode E payload) = Ok sig"
      "t = (b64_encode E p @ ''.'' @ b64_encode E payload) @ ''.'' @ b64_encode E sig"
    by (auto simp: sign_compact_def result_iff Let_def)
  have parse: "parse_compact_jws t = Ok (b64_encode E p, b64_encode E payload, b64_encode E sig)"
    using parse_compact_jws_build [of "b64_encode E p" "b64_encode E payload" "b64_encode E sig"] assms(1) *(4)
    by (simp add: b64_law_def)
  moreover from this have "decode_compact_jws_header E t = Ok h"
    using assms(1,2) *(1)
    by (simp add: decode_compact_jws_header_def decode_compact_segment_def b64_law_def header_law_def)
  ultimately show thesis using * that by blast
qed

lemma verify_own_mldsa:
  assumes laws: "b64_law E" "header_law E h" "claims_law C c" "mldsa_law E a (akp_public_key k) raw"
    and key: "akp_public_key_from_jwk E jwk = Ok k" "akp_algorithm k = a"
    and sign: "\<And>m sig. sign m = Ok sig \<Longrightarrow> raw m = Ok sig \<and> length sig = signature_len a"
    and ok: "sign_compact E C sign h c = Ok t"
  shows "verify_mldsa_claims_against_jwk E C t jwk (jose_alg a) = Ok c"
proof -
  from decode_own_header [OF laws(1,2) ok] obtain p payload sig where
    *: "claims_to_vec C c = Some payload"
      "sign (b64_encode E p @ ''.'' @ b64_encode E payload) = Ok sig"
      "parse_compact_jws t = Ok (b64_encode E p, b64_encode E payload, b64_encode E sig)" .
  from sign [OF *(2)] laws(4) have
    "ossl_verify E a (akp_public_key k) sig (b64_encode E p @ ''.'' @ b64_encode E payload) = Some True"
    "length sig = signature_len a" by (auto simp: mldsa_law_def)
  with * laws key show ?thesis
    by (simp add: verify_mldsa_claims_against_jwk_def decode_compact_segment_def b64_law_def
        mldsa_law_def decode_payload_claims_def claims_law_def Let_def)
qed

lemma verify_own_key:
  assumes "decode_compact_jws_header E t = Ok (signer_header s)"
    and "jwk_kid (signer_public_jwk s) = signer_kid s"
    and "if signer_alg s = ''RS256'' then verify_rs256_claims_against_jwk E C t (signer_public_jwk s) = Ok c
         else from_jose_alg (signer_alg s) \<noteq> None \<and>
              verify_mldsa_claims_against_jwk E C t (signer_public_jwk s) (signer_alg s) = Ok c"
  shows "verify_claims E C s t = Ok c"
  using assms
  by (simp add: verify_claims_def signer_header_def public_jwks_def verify_claims_against_jwks_def
      verify_claims_against_jwks_with_header_def verify_claims_against_jwks_inner_def split: if_splits)

lemma rs256_law_header: "rs256_law E C jwk h c t \<Longrightarrow> decode_compact_jws_header E t = Ok h"
  by (auto simp: rs256_law_def decode_header_iff split_on_append split_on_single)

lemma verify_own_rs256:
  assumes "is_ok (rsa_public_key_from_jwk E jwk)" "jwk_n jwk = Some n" "jwk_e jwk = Some e" "rsa_components_ok E n e"
    and "rs256_decode C t n e signature_only_rs256_validation = Ok c"
  shows "verify_rs256_claims_against_jwk E C t jwk = Ok c"
  using assms by (auto simp: verify_rs256_claims_against_jwk_def is_ok_iff)

lemma sign_verify_rsa:
  assumes "signer_consistent E (RsaSigner r)" "libs_sound E C (RsaSigner r) c" "sign_claims E C (RsaSigner r) c = Ok t"
  shows "verify_claims E C (RsaSigner r) t = Ok c"
proof -
  from assms(2,3) have law: "rs256_law E C (rs_public_jwk r) (signer_header (RsaSigner r)) c t"
    by (auto simp: rsa_sign_json_claims_with_typ_def signer_header_def result_iff)
  then have "verify_rs256_claims_against_jwk E C t (rs_public_jwk r) = Ok c"
    using assms(1) by (auto simp: rs256_law_def intro: verify_own_rs256)
  with rs256_law_header [OF law] assms(1) show ?thesis by (intro verify_own_key) simp_all
qed

lemma sign_verify_external_rs256:
  assumes "signer_consistent E (ExternalRs256Signer r)" "libs_sound E C (ExternalRs256Signer r) c"
    "sign_claims E C (ExternalRs256Signer r) c = Ok t"
  shows "verify_claims E C (ExternalRs256Signer r) t = Ok c"
proof -
  let ?h = "signer_header (ExternalRs256Signer r)"
  from assms(3) have ok: "sign_compact E C (xr_provider r) ?h c = Ok t"
    by (simp add: external_rs256_sign_with_typ_def signer_header_def)
  from assms(2) obtain n e valid where law: "b64_law E" "header_law E ?h" "jwk_n (xr_public_jwk r) = Some n"
    "jwk_e (xr_public_jwk r) = Some e" "rsa_components_ok E n e" "rs256_decodes E C n e valid ?h c"
    "\<And>m sig. xr_provider r m = Ok sig \<Longrightarrow> valid sig m" by (auto simp: rs256_custody_law_def)
  from ok obtain p payload sig where
    *: "header_to_vec E ?h = Some p" "claims_to_vec C c = Some payload"
      "xr_provider r (b64_encode E p @ ''.'' @ b64_encode E payload) = Ok sig"
      "t = (b64_encode E p @ ''.'' @ b64_encode E payload) @ ''.'' @ b64_encode E sig"
    by (auto simp: sign_compact_def result_iff Let_def)
  have "hdr_alg ?h = ''RS256''" by (simp add: signer_header_def)
  with law(6) * law(7) [OF *(3)] have "rs256_decode C t n e signature_only_rs256_validation = Ok c"
    unfolding rs256_decodes_def by blast
  then have "verify_rs256_claims_against_jwk E C t (xr_public_jwk r) = Ok c"
    using assms(1) law(3-5) by (auto intro: verify_own_rs256)
  moreover have "decode_compact_jws_header E t = Ok ?h" by (rule decode_own_header [OF law(1,2) ok])
  ultimately show ?thesis using assms(1) by (intro verify_own_key) simp_all
qed

lemma sign_verify_mldsa:
  assumes "signer_consistent E (MlDsaSigner m)" "libs_sound E C (MlDsaSigner m) c" "sign_claims E C (MlDsaSigner m) c = Ok t"
  shows "verify_claims E C (MlDsaSigner m) t = Ok c"
proof -
  let ?s = "MlDsaSigner m" and ?sign = "openssl_sign_mldsa E (ml_algorithm m) (ml_key_pair m)"
  from assms(3) have ok: "sign_compact E C ?sign (signer_header ?s) c = Ok t"
    by (simp add: mldsa_sign_json_claims_with_typ_def signer_header_def)
  from assms(1) obtain pk where
    k: "akp_public_key_from_jwk E (ml_public_jwk m) = Ok \<lparr>akp_algorithm = ml_algorithm m, akp_public_key = pk\<rparr>"
    and "ossl_raw_public E (ml_algorithm m) (ml_key_pair m) = Some pk" by auto
  with assms(2) have laws: "b64_law E" "header_law E (signer_header ?s)" "claims_law C c"
    "mldsa_law E (ml_algorithm m) pk ?sign" by auto
  have "verify_mldsa_claims_against_jwk E C t (ml_public_jwk m) (jose_alg (ml_algorithm m)) = Ok c"
  proof (rule verify_own_mldsa [OF laws(1-3) _ k _ _ ok, where raw = ?sign])
    show "?sign i = Ok sig \<Longrightarrow> ?sign i = Ok sig \<and> length sig = signature_len (ml_algorithm m)" for i sig
      by (simp add: openssl_sign_mldsa_def result_iff split: if_splits)
  qed (simp_all add: laws)
  moreover have "decode_compact_jws_header E t = Ok (signer_header ?s)"
    by (rule decode_own_header [OF laws(1,2) ok])
  ultimately show ?thesis using assms(1) by (intro verify_own_key) simp_all
qed

lemma sign_verify_external_mldsa:
  assumes "signer_consistent E (ExternalMlDsaSigner m)" "libs_sound E C (ExternalMlDsaSigner m) c"
    "sign_claims E C (ExternalMlDsaSigner m) c = Ok t"
  shows "verify_claims E C (ExternalMlDsaSigner m) t = Ok c"
proof -
  let ?s = "ExternalMlDsaSigner m"
  let ?sign = "\<lambda>i. and_then (xm_provider m i) (\<lambda>sig. if length sig \<noteq> signature_len (xm_algorithm m)
      then Err (jose_error JoseInvalidKey (lit ''external ML-DSA provider returned wrong-sized signature'')) else Ok sig)"
  from assms(3) have ok: "sign_compact E C ?sign (signer_header ?s) c = Ok t"
    by (simp add: external_mldsa_sign_with_typ_def signer_header_def)
  from assms(1) obtain pk where
    k: "akp_public_key_from_jwk E (xm_public_jwk m) = Ok \<lparr>akp_algorithm = xm_algorithm m, akp_public_key = pk\<rparr>" by auto
  with assms(2) have laws: "b64_law E" "header_law E (signer_header ?s)" "claims_law C c"
    "mldsa_law E (xm_algorithm m) pk (xm_provider m)" by auto
  have "verify_mldsa_claims_against_jwk E C t (xm_public_jwk m) (jose_alg (xm_algorithm m)) = Ok c"
  proof (rule verify_own_mldsa [OF laws(1-3) _ k _ _ ok, where raw = "xm_provider m"])
    show "?sign i = Ok sig \<Longrightarrow> xm_provider m i = Ok sig \<and> length sig = signature_len (xm_algorithm m)" for i sig
      by (auto simp: result_iff split: if_splits)
  qed (simp_all add: laws)
  moreover have "decode_compact_jws_header E t = Ok (signer_header ?s)"
    by (rule decode_own_header [OF laws(1,2) ok])
  ultimately show ?thesis using assms(1) by (intro verify_own_key) simp_all
qed

lemma sign_verify:
  assumes "signer_consistent E s" "libs_sound E C s c" "sign_claims E C s c = Ok t"
  shows "verify_claims E C s t = Ok c"
  using assms by (cases s) (simp_all only: sign_verify_rsa sign_verify_mldsa sign_verify_external_rs256 sign_verify_external_mldsa)

interpretation signer: jose_signer "sign_claims E C" "verify_claims E C"
    "\<lambda>s c. signer_consistent E s \<and> libs_sound E C s c" for E C
  by unfold_locales (blast intro: sign_verify)

lemma signed_header:
  assumes "libs_sound E C s c" "signer_consistent E s" "sign_claims E C s c = Ok t"
  shows "decode_compact_jws_header E t = Ok (signer_header s)"
  using assms
  by (cases s) (auto simp: rsa_sign_json_claims_with_typ_def mldsa_sign_json_claims_with_typ_def external_rs256_sign_with_typ_def
      external_mldsa_sign_with_typ_def signer_header_def result_iff elim: decode_own_header intro: rs256_law_header)

text \<open>The published key set accepts what the signer signs, as an access token.\<close>

lemma published_accepts:
  assumes "signer_consistent E s" "libs_sound E C s c" "sign_claims E C s c = Ok t"
  shows "\<exists>v. verify_claims_against_jwks_with_header E C t (public_jwks s) = Ok v \<and> vj_claims v = c \<and>
     vj_typ v = Some ''at+jwt''"
proof -
  have h: "decode_compact_jws_header E t = Ok (signer_header s)" by (rule signed_header [OF assms(2,1,3)])
  from signer.roundtrip [OF conjI [OF assms(1,2)] assms(3)] obtain v where
    v: "verify_claims_against_jwks_with_header E C t (public_jwks s) = Ok v" "vj_claims v = c"
    by (auto simp: verify_claims_def verify_claims_against_jwks_def result_iff split: if_splits)
  from v(1) have "vj_typ v = hdr_typ (signer_header s)"
    by (auto simp: verify_claims_against_jwks_with_header_def verify_claims_against_jwks_inner_def and_then_ok h)
  with v show ?thesis by (simp add: signer_header_def)
qed

text \<open>A key set publishes a signer when its first key with the signer's \<open>kid\<close> is the signer's.\<close>

definition publishes :: "JwksDocument \<Rightarrow> JoseSigner \<Rightarrow> bool" where
  "publishes jwks s \<longleftrightarrow> find (\<lambda>key. jwk_kid key = signer_kid s) (jwks_keys jwks) = Some (signer_public_jwk s)"

lemma consistent_kid: "signer_consistent E s \<Longrightarrow> jwk_kid (signer_public_jwk s) = signer_kid s"
  by (cases s) auto

lemma published_set_accepts:
  assumes "publishes jwks s" "signer_consistent E s" "libs_sound E C s c" "sign_claims E C s c = Ok t"
  shows "\<exists>v. verify_claims_against_jwks_with_header E C t jwks = Ok v \<and> vj_claims v = c \<and>
     vj_typ v = Some ''at+jwt''"
proof -
  have h: "decode_compact_jws_header E t = Ok (signer_header s)" by (rule signed_header [OF assms(3,2,4)])
  have "find (\<lambda>key. jwk_kid key = signer_kid s) (jwks_keys (public_jwks s)) = Some (signer_public_jwk s)"
    using consistent_kid [OF assms(2)] by (simp add: public_jwks_def)
  then have "verify_claims_against_jwks_with_header E C t jwks = verify_claims_against_jwks_with_header E C t (public_jwks s)"
    using assms(1)
    by (simp add: verify_claims_against_jwks_with_header_def verify_claims_against_jwks_inner_def h signer_header_def
        publishes_def)
  with published_accepts [OF assms(2-4)] show ?thesis by simp
qed

section \<open>What the constructors establish\<close>

lemma mldsa_constructor_ok:
  assumes "mldsa_from_private_jwk_for_backend E selection json fallback = Ok s"
  obtains r pk where "selection = RequestedPqc r" "from_selector r = Some (ml_algorithm s)"
    "ossl_raw_public E (ml_algorithm s) (ml_key_pair s) = Some pk"
    "length pk = public_key_len (ml_algorithm s)"
    "ml_public_jwk s = akp_public_jwk (ml_kid s) (ml_algorithm s) (b64_encode E pk)"
  using assms
  by (auto simp: mldsa_from_private_jwk_for_backend_def resolve_backend_def selected_pqc_algorithm_def
      openssl_private_key_from_seed_def openssl_raw_public_key_def result_iff Let_def
      split: if_splits BackendSelection.splits option.splits)

lemma akp_public_jwk_decodes:
  assumes "b64_law E" "length pk = public_key_len a"
  shows "akp_public_key_from_jwk E (akp_public_jwk kid a (b64_encode E pk)) =
           Ok \<lparr>akp_algorithm = a, akp_public_key = pk\<rparr>"
  using assms
  by (simp add: akp_public_key_from_jwk_def akp_public_jwk_def decode_jwk_octets_def b64_law_def)

lemma mldsa_constructor_consistent:
  assumes "b64_law E" "mldsa_from_private_jwk_for_backend E selection json fallback = Ok s"
  shows "signer_consistent E (MlDsaSigner s)"
  using assms(2)
  by (rule mldsa_constructor_ok) (simp add: akp_public_jwk_decodes [OF assms(1)], simp add: akp_public_jwk_def)

lemma external_rs256_consistent:
  "external_rs256_new E kid jwk provider = Ok s \<Longrightarrow> signer_consistent E (ExternalRs256Signer s)"
  by (auto simp: external_rs256_new_def validate_public_jwk_def is_ok_iff result_iff split: if_splits)

lemma external_mldsa_consistent:
  assumes "external_mldsa_new E kid jwk a provider = Ok s"
  shows "signer_consistent E (ExternalMlDsaSigner s)"
proof -
  from assms obtain k where "akp_public_key_from_jwk E jwk = Ok k" "akp_algorithm k = a"
    "jwk_kid jwk = kid" "s = \<lparr>xm_kid = kid, xm_algorithm = a, xm_public_jwk = jwk, xm_provider = provider\<rparr>"
    by (auto simp: external_mldsa_new_def result_iff split: if_splits)
  then show ?thesis by (cases k) simp
qed

text \<open>aws-lc gives the modulus and exponent in minimal big-endian form.\<close>

definition rsa_der_law :: "jose_ext \<Rightarrow> bool" where
  "rsa_der_law E \<longleftrightarrow> (\<forall>der len n e. rsa_key_from_der E der = Some (len, n, e) \<longrightarrow>
     n \<noteq> [] \<and> e \<noteq> [] \<and> hd n \<noteq> CHR 0x00 \<and> hd e \<noteq> CHR 0x00)"

lemma rsa_constructor_consistent:
  assumes laws: "b64_law E" "rsa_der_law E" and ok: "from_pkcs1_der E der kid = Ok s"
  shows "signer_consistent E (RsaSigner s)"
proof -
  from ok obtain len n e where key: "rsa_key_from_der E der = Some (len, n, e)"
    and s: "jwk_kid (rs_public_jwk s) = rs_kid s" "jwk_kty (rs_public_jwk s) = ''RSA''"
      "jwk_alg (rs_public_jwk s) = ''RS256''" "jwk_n (rs_public_jwk s) = Some (b64_encode E n)"
      "jwk_e (rs_public_jwk s) = Some (b64_encode E e)"
    by (auto simp: from_pkcs1_der_def split: option.splits if_splits)
  from laws(2) key have "n \<noteq> []" "e \<noteq> []" "hd n \<noteq> CHR 0x00" "hd e \<noteq> CHR 0x00"
    unfolding rsa_der_law_def by blast+
  with s laws(1) show ?thesis
    by (simp add: rsa_public_key_from_jwk_def decode_jwk_component_def decode_jwk_octets_def
        validate_public_components_def b64_law_def is_ok_def)
qed

section \<open>DER search and key size against their specifications\<close>

text \<open>The octet strings of a DER tree in document order.\<close>

fun octet_strings :: "ASN1Block \<Rightarrow> string list" where
  "octet_strings (AsnOctetString v) = [v]"
| "octet_strings (AsnSequence bs) = concat (map octet_strings bs)"
| "octet_strings (AsnSet bs) = concat (map octet_strings bs)"
| "octet_strings (AsnExplicit b) = octet_strings b"
| "octet_strings (AsnInteger _) = []"
| "octet_strings (AsnOther _) = []"

definition first_of :: "'a list \<Rightarrow> 'a option" where
  "first_of xs = (case xs of [] \<Rightarrow> None | x # _ \<Rightarrow> Some x)"

lemma first_of_simps [simp]: "first_of [] = None" "first_of (x # xs) = Some x"
  by (simp_all add: first_of_def)

lemma first_of_append:
  "first_of (xs @ ys) = (case first_of xs of Some x \<Rightarrow> Some x | None \<Rightarrow> first_of ys)"
  by (cases xs) (simp_all add: first_of_def)

text \<open>Big-endian value of a byte string.\<close>

definition be_value :: "string \<Rightarrow> nat" where
  "be_value bytes = foldl (\<lambda>acc b. acc * 256 + of_char b) 0 bytes"

lemma of_char_nat_less: "(of_char b :: nat) < 256"
  by (metis nat_of_char_less_256)

lemma be_foldl_bounds:
  fixes acc :: nat
  shows "acc * 256 ^ length bs \<le> foldl (\<lambda>acc b. acc * 256 + of_char b) acc bs \<and>
   foldl (\<lambda>acc b. acc * 256 + of_char b) acc bs < (acc + 1) * 256 ^ length (bs :: string)"
proof (induction bs arbitrary: acc)
  case (Cons b bs)
  let ?v = "of_char b :: nat"
  from Cons.IH [of "acc * 256 + ?v"]
  have lo: "(acc * 256 + ?v) * 256 ^ length bs \<le> foldl (\<lambda>acc b. acc * 256 + of_char b) acc (b # bs)"
    and hi: "foldl (\<lambda>acc b. acc * 256 + of_char b) acc (b # bs) < (acc * 256 + ?v + 1) * 256 ^ length bs"
    by simp_all
  have "(acc * 256) * 256 ^ length bs \<le> (acc * 256 + ?v) * 256 ^ length bs" by (rule mult_right_mono) simp_all
  moreover have "(acc * 256 + ?v + 1) * 256 ^ length bs \<le> ((acc + 1) * 256) * 256 ^ length bs"
  proof (rule mult_right_mono)
    show "acc * 256 + ?v + 1 \<le> (acc + 1) * 256"
      using of_char_nat_less [of b] unfolding add_mult_distrib by presburger
  qed simp
  moreover have "x * 256 ^ length (b # bs) = (x * 256) * 256 ^ length bs" for x :: nat by simp
  ultimately show ?case using lo hi by (simp only:) linarith
qed simp

lemma leading_zeros_bounds:
  assumes "b \<noteq> CHR 0x00"
  shows "2 ^ (7 - leading_zeros_u8 b) \<le> (of_char b :: nat)" "(of_char b :: nat) < 2 ^ (8 - leading_zeros_u8 b)"
    "leading_zeros_u8 b \<le> 7"
proof -
  have "(of_char b :: nat) \<noteq> of_char (CHR 0x00)" using assms by (metis of_char_eq_iff)
  then have nz: "(of_char b :: nat) \<noteq> 0" by simp
  show "2 ^ (7 - leading_zeros_u8 b) \<le> (of_char b :: nat)" "(of_char b :: nat) < 2 ^ (8 - leading_zeros_u8 b)"
    "leading_zeros_u8 b \<le> 7"
    using nz of_char_nat_less [of b] by (auto simp: leading_zeros_u8_def Let_def)
qed

lemma be_value_drop_zeros: "be_value (dropWhile (\<lambda>b. b = CHR 0x00) bytes) = be_value bytes"
  by (induction bytes) (simp_all add: be_value_def)

lemma be_value_leading:
  assumes "b \<noteq> CHR 0x00"
  shows "2 ^ (length bs * 8 + (8 - leading_zeros_u8 b) - 1) \<le> be_value (b # bs)"
    and "be_value (b # bs) < 2 ^ (length bs * 8 + (8 - leading_zeros_u8 b))"
proof -
  let ?z = "leading_zeros_u8 b" and ?k = "length bs"
  have p256: "(256::nat) ^ ?k = 2 ^ (?k * 8)" by (simp add: power_mult mult.commute [of _ 8])
  note lz = leading_zeros_bounds [OF assms]
  have "(2::nat) ^ (?k * 8 + (8 - ?z) - 1) = 2 ^ (7 - ?z) * 256 ^ ?k"
    using lz(3) by (simp add: p256 add.commute flip: power_add)
  also have "\<dots> \<le> of_char b * 256 ^ ?k" using lz(1) by (rule mult_right_mono) simp
  also have "\<dots> \<le> be_value (b # bs)" using be_foldl_bounds [of "of_char b" bs] by (simp add: be_value_def)
  finally show "2 ^ (?k * 8 + (8 - ?z) - 1) \<le> be_value (b # bs)" .
  have "be_value (b # bs) < (of_char b + 1) * 256 ^ ?k"
    using be_foldl_bounds [of "of_char b" bs] by (simp add: be_value_def)
  also have "\<dots> \<le> 2 ^ (8 - ?z) * 256 ^ ?k" using lz(2) by (intro mult_right_mono) simp_all
  also have "\<dots> = 2 ^ (?k * 8 + (8 - ?z))" by (simp add: p256 power_add mult.commute)
  finally show "be_value (b # bs) < 2 ^ (?k * 8 + (8 - ?z))" .
qed

section \<open>Properties\<close>

text \<open>
  C23: a signer's tokens verify. For each of the four signers of the trait \<open>JoseSigner\<close>, a token made
  by \<open>sign_claims\<close> is accepted by \<open>verify_claims\<close> with exactly the claims that were signed.
\<close>

theorem signer_roundtrip:
  assumes "signer_consistent E s" "libs_sound E C s c" "sign_claims E C s c = Ok t"
  shows "verify_claims E C s t = Ok c"
  using assms by (intro signer.roundtrip) simp_all

text \<open>
  Backend selection fails closed. A post-quantum selection never yields an RS256 signer and a
  classical one never an ML-DSA signer; an ML-DSA signer that is built has exactly the selected
  algorithm, in its own field and in the key it publishes.
\<close>

theorem backend_fail_closed:
  "case selection of
     Classical \<Rightarrow> \<not> is_ok (mldsa_from_private_jwk_for_backend E selection json kid)
   | RequestedPqc requested \<Rightarrow>
       \<not> is_ok (from_pkcs1_pem_for_backend E selection pem kid) \<and>
       \<not> is_ok (rsa_from_private_jwk_for_backend E selection json kid) \<and>
       \<not> is_ok (from_private_key_der_for_backend E selection der kid) \<and>
       (case mldsa_from_private_jwk_for_backend E selection json kid of
          Inl _ \<Rightarrow> True
        | Inr s \<Rightarrow> from_selector requested = Some (ml_algorithm s) \<and>
                  jwk_alg (ml_public_jwk s) = jose_alg (ml_algorithm s))"
proof (cases selection)
  case Classical
  then show ?thesis
    by (simp add: mldsa_from_private_jwk_for_backend_def resolve_backend_def selected_pqc_algorithm_def is_ok_def)
next
  case (RequestedPqc requested)
  then show ?thesis
    by (auto simp: from_pkcs1_pem_for_backend_def rsa_from_private_jwk_for_backend_def
        from_private_key_der_for_backend_def ensure_classical_backend_def is_ok_def akp_public_jwk_def
        split: sum.splits elim: mldsa_constructor_ok)
qed

text \<open>
  The depth-first search of a PKCS\#8 tree returns the first octet string in document order.
\<close>

theorem find_first_octet_string_first:
  "find_first_octet_string blocks = first_of (concat (map octet_strings blocks))"
  by (induction blocks rule: find_first_octet_string.induct)
     (simp_all add: first_of_append split: option.splits)

text \<open>
  \<open>rsa_modulus_bits\<close> is the bit length of the modulus: zero for zero, and otherwise the
  number \<open>k\<close> with \<open>2 ^ (k - 1) \<le> n < 2 ^ k\<close>, leading zero bytes not counted.
\<close>

theorem rsa_modulus_bits_exact:
  "if be_value n = 0 then rsa_modulus_bits n = 0
   else 2 ^ (rsa_modulus_bits n - 1) \<le> be_value n \<and> be_value n < 2 ^ rsa_modulus_bits n"
proof (cases "dropWhile (\<lambda>byte. byte = CHR 0x00) n")
  case Nil
  then have "rsa_modulus_bits n = 0" unfolding rsa_modulus_bits_def Nil by simp
  moreover have "be_value n = 0" using be_value_drop_zeros [of n] unfolding Nil by (simp add: be_value_def)
  ultimately show ?thesis by simp
next
  case (Cons b bs)
  then have b: "b \<noteq> CHR 0x00" by (simp add: dropWhile_eq_Cons_conv)
  from Cons have "be_value n = be_value (b # bs)" using be_value_drop_zeros [of n] by simp
  moreover have "rsa_modulus_bits n = length bs * 8 + (8 - leading_zeros_u8 b)"
    using Cons by (simp add: rsa_modulus_bits_def)
  moreover have "0 < be_value (b # bs)"
    using be_value_leading(1) [OF b, of bs] by (rule less_le_trans [rotated]) simp
  ultimately show ?thesis using be_value_leading [OF b, of bs] by simp
qed

end
