(* ===== verification/Demo_Libs.thy ===== *)
theory Demo_Libs
  imports Sts_Signers
begin

text \<open>
  A concrete instance of the library parameters, on which the hypotheses of the properties are
  shown to hold together: hexadecimal in place of base64url, one text line per header member in
  place of JSON, and a signature scheme whose signatures are a constant block.
\<close>

section \<open>Libraries that compute\<close>

definition nl :: char where "nl = CHR 0x0A"

definition demo_header_from_slice :: "string \<Rightarrow> CompactJwsHeader option" where
  "demo_header_from_slice b =
     (case split_on nl b of
        [alg, kid, typ] \<Rightarrow> Some \<lparr>hdr_alg = alg, hdr_kid = Some kid, hdr_typ = Some typ\<rparr>
      | _ \<Rightarrow> None)"

definition demo_header_to_vec :: "CompactJwsHeader \<Rightarrow> string option" where
  "demo_header_to_vec h =
     (case (hdr_kid h, hdr_typ h) of
        (Some kid, Some typ) \<Rightarrow> Some (hdr_alg h @ [nl] @ kid @ [nl] @ typ)
      | _ \<Rightarrow> None)"

definition demo_sig :: "MlDsaAlgorithm \<Rightarrow> string" where
  "demo_sig a = replicate (signature_len a) CHR 0x07"

definition demo_pub :: "MlDsaAlgorithm \<Rightarrow> string" where
  "demo_pub a = replicate (public_key_len a) CHR 0x05"

definition demo_ext :: jose_ext where
  "demo_ext =
     \<lparr>b64_encode = hex_lower, b64_decode = hex_decode, sha256 = id,
      header_from_slice = demo_header_from_slice, header_to_vec = demo_header_to_vec,
      rsa_components_ok = (\<lambda>n e. True), ossl_public_key_ok = (\<lambda>a pk. True),
      ossl_verifier_ok = (\<lambda>a pk. True),
      ossl_verify = (\<lambda>a pk sig m. Some (sig = demo_sig a)),
      ossl_key_from_seed = (\<lambda>a seed. True), ossl_raw_public = (\<lambda>a seed. Some (demo_pub a)),
      ossl_sign = (\<lambda>a seed m. Some (demo_sig a)),
      rsa_jwk_from_str = (\<lambda>s. None), akp_jwk_from_str = (\<lambda>s. None),
      rsa_key_from_der = (\<lambda>der. None), rsa_pem_to_der = (\<lambda>pem. None),
      asn1_from_der = (\<lambda>der. None), asn1_to_der = (\<lambda>b. None),
      bigint_from_bytes_be = (\<lambda>b. int (be_value b)), bigint_to_bytes_be = (\<lambda>i. []),
      json_to_string_pretty = (\<lambda>j. None)\<rparr>"

text \<open>Claims that are their own text; an RS256 token carries its payload and the word \<open>rsa\<close>.\<close>

definition demo_codec :: "string codec" where
  "demo_codec =
     \<lparr>rs256_decode = (\<lambda>token n e v.
        case parse_compact_jws token of
          Inl _ \<Rightarrow> Err JwtInvalidToken
        | Inr (h, p, s) \<Rightarrow>
            (case (hex_decode p, hex_decode s) of
               (Some c, Some sig) \<Rightarrow> if sig = ''rsa'' then Ok c else Err JwtInvalidSignature
             | _ \<Rightarrow> Err JwtBase64)),
      rs256_encode = (\<lambda>h c key.
        case demo_header_to_vec h of
          None \<Rightarrow> Err JwtJson
        | Some b \<Rightarrow> Ok (hex_lower b @ ''.'' @ hex_lower c @ ''.'' @ hex_lower ''rsa'')),
      claims_from_slice = Some, claims_to_vec = Some\<rparr>"

definition demo_rsa_jwk :: PublicJwk where
  "demo_rsa_jwk = \<lparr>jwk_kty = ''RSA'', jwk_kid = ''k1'', jwk_use = ''sig'', jwk_alg = ''RS256'',
     jwk_n = Some ''ff'', jwk_e = Some ''03'', jwk_pub = None\<rparr>"

definition demo_mldsa :: MlDsaJoseSigner where
  "demo_mldsa = \<lparr>ml_kid = ''k1'', ml_algorithm = MlDsa65, ml_key_pair = ''seed'',
     ml_public_jwk = akp_public_jwk ''k1'' MlDsa65 (hex_lower (demo_pub MlDsa65))\<rparr>"

section \<open>The laws hold for it\<close>

lemma demo_b64_law: "b64_law demo_ext"
  by (simp add: b64_law_def demo_ext_def hex_decode_lower hex_lower_no_dot)

lemma demo_header_law:
  assumes "nl \<notin> set (hdr_alg h)" "hdr_kid h = Some kid" "nl \<notin> set kid" "hdr_typ h = Some t" "nl \<notin> set t"
  shows "header_law demo_ext h"
  using assms
  by (simp add: header_law_def demo_ext_def demo_header_to_vec_def demo_header_from_slice_def
      split_on_append split_on_single)

lemma demo_claims_law: "claims_law demo_codec c"
  by (simp add: claims_law_def demo_codec_def)

lemma demo_mldsa_law: "mldsa_law demo_ext a pk (openssl_sign_mldsa demo_ext a seed)"
  by (auto simp: mldsa_law_def openssl_sign_mldsa_def demo_ext_def result_iff split: if_splits)

lemma demo_mldsa_consistent: "signer_consistent demo_ext (MlDsaSigner demo_mldsa)"
  using akp_public_jwk_decodes [OF demo_b64_law, of "demo_pub MlDsa65" MlDsa65 "''k1''"]
  by (simp add: demo_mldsa_def demo_ext_def) (simp add: demo_pub_def akp_public_jwk_def)

lemma demo_mldsa_sound: "libs_sound demo_ext demo_codec (MlDsaSigner demo_mldsa) c"
proof -
  have "header_law demo_ext (signer_header (MlDsaSigner demo_mldsa))"
    by (rule demo_header_law [where kid = "''k1''" and t = "''at+jwt''"])
       (simp_all add: signer_header_def demo_mldsa_def nl_def)
  then show ?thesis by (simp add: demo_b64_law demo_claims_law demo_mldsa_law)
qed

lemma demo_mldsa_signs: "is_ok (sign_claims demo_ext demo_codec (MlDsaSigner demo_mldsa) c)"
  by (simp add: mldsa_sign_json_claims_with_typ_def sign_compact_def demo_ext_def demo_codec_def
      demo_header_to_vec_def openssl_sign_mldsa_def demo_sig_def demo_mldsa_def is_ok_def Let_def)

section \<open>Witnesses of the \<open>sts-jose\<close> properties\<close>

definition demo_rsa_token :: string where
  "demo_rsa_token = hex_lower (''RS256'' @ [nl] @ ''k1'' @ [nl] @ ''at+jwt'') @ ''.'' @ hex_lower ''c'' @ ''.'' @
     hex_lower ''rsa''"

lemma demo_rsa_token_parse:
  "parse_compact_jws demo_rsa_token =
     Ok (hex_lower (''RS256'' @ [nl] @ ''k1'' @ [nl] @ ''at+jwt''), hex_lower ''c'', hex_lower ''rsa'')"
  unfolding demo_rsa_token_def by (intro parse_compact_jws_build hex_lower_no_dot)

lemma demo_rsa_token_header:
  "decode_compact_jws_header demo_ext demo_rsa_token =
     Ok \<lparr>hdr_alg = ''RS256'', hdr_kid = Some ''k1'', hdr_typ = Some ''at+jwt''\<rparr>"
  unfolding decode_compact_jws_header_def demo_rsa_token_parse
  by (simp add: decode_compact_segment_def demo_ext_def hex_decode_lower demo_header_from_slice_def nl_def)

lemma demo_rsa_jwk_ok: "rsa_public_key_from_jwk demo_ext demo_rsa_jwk = Ok \<lparr>rsa_n = [CHR 0xFF], rsa_e = [CHR 0x03]\<rparr>"
proof -
  have "hex_decode ''ff'' = Some [CHR 0xFF]" "hex_decode ''03'' = Some [CHR 0x03]" by code_simp+
  then show ?thesis
    by (simp add: rsa_public_key_from_jwk_def demo_rsa_jwk_def demo_ext_def decode_jwk_component_def
        decode_jwk_octets_def validate_public_components_def)
qed

lemma demo_rsa_verifies: "verify_rs256_claims_against_jwk demo_ext demo_codec demo_rsa_token demo_rsa_jwk = Ok ''c''"
  unfolding verify_rs256_claims_against_jwk_def demo_rsa_jwk_ok
  by (simp add: demo_rsa_jwk_def demo_ext_def demo_codec_def demo_rsa_token_parse hex_decode_lower)

definition demo_rsa :: RsaJoseSigner where
  "demo_rsa = \<lparr>rs_kid = ''k1'', rs_encoding_key = ''der'', rs_public_jwk = demo_rsa_jwk\<rparr>"

definition demo_external_rsa :: ExternalRs256JoseSigner where
  "demo_external_rsa = \<lparr>xr_kid = ''k1'', xr_public_jwk = demo_rsa_jwk, xr_provider = (\<lambda>m. Ok ''rsa'')\<rparr>"

definition demo_external_mldsa :: ExternalMlDsaJoseSigner where
  "demo_external_mldsa = \<lparr>xm_kid = ''k1'', xm_algorithm = MlDsa65,
     xm_public_jwk = akp_public_jwk ''k1'' MlDsa65 (hex_lower (demo_pub MlDsa65)), xm_provider = (\<lambda>m. Ok (demo_sig MlDsa65))\<rparr>"

definition demo_signers :: "JoseSigner list" where
  "demo_signers = [RsaSigner demo_rsa, MlDsaSigner demo_mldsa, ExternalRs256Signer demo_external_rsa, ExternalMlDsaSigner demo_external_mldsa]"

lemma demo_signer_header: "s \<in> set demo_signers \<Longrightarrow> header_law demo_ext (signer_header s)"
  by (rule demo_header_law [where kid = "''k1''" and t = "''at+jwt''"])
     (auto simp: demo_signers_def signer_header_def demo_rsa_def demo_mldsa_def demo_external_rsa_def demo_external_mldsa_def nl_def)

lemma demo_consistent: "s \<in> set demo_signers \<Longrightarrow> signer_consistent demo_ext s"
  using demo_mldsa_consistent
  by (auto simp: demo_signers_def demo_rsa_def demo_external_rsa_def demo_rsa_jwk_ok is_ok_def demo_mldsa_def demo_external_mldsa_def)
     (simp_all add: demo_rsa_jwk_def)

lemma demo_decodes: "rs256_decodes demo_ext demo_codec n e (\<lambda>sig m. sig = ''rsa'') h c"
  unfolding rs256_decodes_def
proof (intro allI impI)
  fix hb pb sig :: string assume "claims_to_vec demo_codec c = Some pb" "sig = ''rsa''"
  moreover have "parse_compact_jws ((hex_lower hb @ ''.'' @ hex_lower c) @ ''.'' @ hex_lower ''rsa'') =
      Ok (hex_lower hb, hex_lower c, hex_lower ''rsa'')"
    using parse_compact_jws_build [OF hex_lower_no_dot hex_lower_no_dot hex_lower_no_dot, of hb c "''rsa''"] by simp
  ultimately show "rs256_decode demo_codec ((b64_encode demo_ext hb @ ''.'' @ b64_encode demo_ext pb) @ ''.'' @ b64_encode demo_ext sig)
      n e signature_only_rs256_validation = Ok c"
    by (simp add: demo_codec_def demo_ext_def hex_decode_lower)
qed

lemma demo_rs256_law:
  assumes "rs256_encode demo_codec (signer_header (RsaSigner demo_rsa)) c k = Ok t"
  shows "rs256_law demo_ext demo_codec demo_rsa_jwk (signer_header (RsaSigner demo_rsa)) c t"
proof -
  let ?h = "signer_header (RsaSigner demo_rsa)"
  from assms obtain b where b: "demo_header_to_vec ?h = Some b" "t = hex_lower b @ ''.'' @ hex_lower c @ ''.'' @ hex_lower ''rsa''"
    by (auto simp: demo_codec_def split: option.splits)
  have "header_from_slice demo_ext b = Some ?h"
    using demo_signer_header [of "RsaSigner demo_rsa"] b(1) by (simp add: header_law_def demo_signers_def demo_ext_def)
  moreover have "rs256_decode demo_codec t n e v = Ok c" for n e v
    using parse_compact_jws_build [OF hex_lower_no_dot hex_lower_no_dot hex_lower_no_dot, of b c "''rsa''"]
    unfolding b(2) by (simp add: demo_codec_def hex_decode_lower)
  moreover have "b64_decode demo_ext (hex_lower b) = Some b" "rsa_components_ok demo_ext n e" for n e
    by (simp_all add: demo_ext_def hex_decode_lower)
  ultimately show ?thesis unfolding rs256_law_def
    by - (rule conjI, rule exI [of _ "hex_lower b"], rule exI [of _ "hex_lower c"], rule exI [of _ "hex_lower ''rsa''"],
        rule exI [of _ b], use b(2) in \<open>simp_all add: hex_lower_no_dot demo_rsa_jwk_def\<close>)
qed

lemma demo_sound: "s \<in> set demo_signers \<Longrightarrow> libs_sound demo_ext demo_codec s c"
proof -
  assume s: "s \<in> set demo_signers"
  have "rs256_custody_law demo_ext demo_codec demo_rsa_jwk (\<lambda>m. Ok ''rsa'') h c" for h
    unfolding rs256_custody_law_def using demo_decodes [of "''ff''" "''03''" h c]
    by (intro exI [of _ "''ff''"] exI [of _ "''03''"] exI [of _ "\<lambda>sig m. sig = ''rsa''"]) (simp add: demo_rsa_jwk_def demo_ext_def)
  moreover have "mldsa_law demo_ext a pk (\<lambda>m. Ok (demo_sig a))" for a pk by (simp add: mldsa_law_def demo_ext_def)
  moreover note demo_signer_header [OF s] demo_rs256_law demo_mldsa_sound [of c] demo_b64_law demo_claims_law
  ultimately show ?thesis using s
    by (auto simp: demo_signers_def demo_external_rsa_def demo_external_mldsa_def demo_rsa_def)
qed

lemma demo_signs: "s \<in> set demo_signers \<Longrightarrow> is_ok (sign_claims demo_ext demo_codec s c)"
  using demo_mldsa_signs [of c]
  by (auto simp: demo_signers_def demo_rsa_def demo_external_rsa_def demo_external_mldsa_def rsa_sign_json_claims_with_typ_def
      external_rs256_sign_with_typ_def external_mldsa_sign_with_typ_def sign_compact_def demo_codec_def demo_header_to_vec_def
      demo_ext_def demo_sig_def is_ok_def Let_def)

text \<open>All four signers of the instance sign, and verify what they signed.\<close>

theorem signer_roundtrip_witness:
  "list_all (\<lambda>s. \<exists>t. sign_claims demo_ext demo_codec s ''claims'' = Ok t \<and> verify_claims demo_ext demo_codec s t = Ok ''claims'')
     demo_signers"
  unfolding list_all_iff
proof
  fix s assume s: "s \<in> set demo_signers"
  then obtain t where t: "sign_claims demo_ext demo_codec s ''claims'' = Ok t"
    using demo_signs [of s "''claims''"] by (auto simp: is_ok_iff)
  with signer_roundtrip [OF demo_consistent [OF s] demo_sound [OF s] t]
  show "\<exists>t. sign_claims demo_ext demo_codec s ''claims'' = Ok t \<and> verify_claims demo_ext demo_codec s t = Ok ''claims''" by blast
qed

end
