(* ===== verification/Serde_Derive.thy ===== *)
theory Serde_Derive
  imports Json_Value "HOL-Library.Monad_Syntax" "HOL-Library.Multiset"
begin

text \<open>
  How \<open>#[derive(Serialize, Deserialize)]\<close> reads and writes the structs of the crates, on JSON documents. A
  document is what the reader of \<open>serde_json\<close> hands to the derived code: a value whose objects keep their
  members in the order of the text and with repetitions. Turning bytes into a document and back is
  library code, the argument \<open>json_text\<close>.

  A derived reader takes an object or an array. From an object it collects the members that it
  knows, refuses a member that occurs twice, and passes over unknown ones; a missing member is an
  error unless the field is an \<open>Option\<close> or has a default. From an array it takes the elements in the order
  of the fields; only fields with a default may be missing at the end. The lemmas show that the order of
  the members and unknown members do not matter, that a repeated one is never accepted, and that reading
  inverts writing (locale \<open>json_codec\<close>).
\<close>

section \<open>Texts and documents\<close>

record json_text =
  jt_read :: "string \<Rightarrow> json option"
  jt_write :: "json \<Rightarrow> string option"
  jt_pretty :: "json \<Rightarrow> string option"

text \<open>\<open>serde_json\<close> reads back the document that it wrote.\<close>

definition json_text_law :: "json_text \<Rightarrow> json \<Rightarrow> bool" where
  "json_text_law J v \<longleftrightarrow> (\<forall>b. jt_write J v = Some b \<longrightarrow> jt_read J b = Some v)"

definition read_as :: "json_text \<Rightarrow> (json \<Rightarrow> 'a option) \<Rightarrow> string \<Rightarrow> 'a option" where
  "read_as J f b = Option.bind (jt_read J b) f"

text \<open>
  A document as a \<open>serde_json::Value\<close>: the members of an object go into a \<open>BTreeMap\<close>, so that they are
  sorted by name and a later one replaces an earlier one of the same name.
\<close>

fun map_insert :: "string \<Rightarrow> json \<Rightarrow> (string \<times> json) list \<Rightarrow> (string \<times> json) list" where
  "map_insert k v [] = [(k, v)]"
| "map_insert k v ((k', v') # m) =
     (if k = k' then (k, v) # m else if k < k' then (k, v) # (k', v') # m else (k', v') # map_insert k v m)"

fun to_value :: "json \<Rightarrow> json" where
  "to_value (JArray xs) = JArray (map to_value xs)"
| "to_value (JObject m) = JObject (fold (\<lambda>(k, v). map_insert k v) (map (\<lambda>(k, v). (k, to_value v)) m) [])"
| "to_value v = v"

text \<open>
  A value printed over several lines is the text of that value, and white space may follow it. The value
  has been in a map, so its members come back sorted.
\<close>

definition json_pretty_law :: "json_text \<Rightarrow> json \<Rightarrow> bool" where
  "json_pretty_law J v \<longleftrightarrow> (\<forall>t. jt_pretty J v = Some t \<longrightarrow> jt_read J (t @ [CHR 0x0A]) = Some (to_value v))"

section \<open>Reading a struct\<close>

datatype on_missing = Required | Optional | Defaulted

type_synonym fields = "(string \<times> on_missing) list"

definition members :: "string \<Rightarrow> (string \<times> json) list \<Rightarrow> json list" where
  "members name m = map snd (filter (\<lambda>(k, _). k = name) m)"

definition member_ok :: "(string \<times> json) list \<Rightarrow> string \<times> on_missing \<Rightarrow> bool" where
  "member_ok m = (\<lambda>(name, miss). length (members name m) \<le> 1 \<and> (miss = Required \<longrightarrow> members name m \<noteq> []))"

fun struct_slots :: "fields \<Rightarrow> json \<Rightarrow> (string \<rightharpoonup> json) option" where
  "struct_slots spec (JObject m) = (if list_all (member_ok m) spec then Some (map_of m) else None)"
| "struct_slots spec (JArray xs) =
     (if length xs \<le> length spec \<and> list_all (\<lambda>(_, miss). miss = Defaulted) (drop (length xs) spec)
      then Some (map_of (zip (map fst spec) xs)) else None)"
| "struct_slots spec _ = None"

text \<open>The fields: of a type that must be there, an \<open>Option\<close>, and a type with a default.\<close>

definition field :: "(json \<Rightarrow> 'a option) \<Rightarrow> (string \<rightharpoonup> json) \<Rightarrow> string \<Rightarrow> 'a option" where
  "field f s name = Option.bind (s name) f"

definition option_of :: "(json \<Rightarrow> 'a option) \<Rightarrow> json \<Rightarrow> 'a option option" where
  "option_of f v = (if v = JNull then Some None else map_option Some (f v))"

definition option_field :: "(json \<Rightarrow> 'a option) \<Rightarrow> (string \<rightharpoonup> json) \<Rightarrow> string \<Rightarrow> 'a option option" where
  "option_field f s name = (case s name of None \<Rightarrow> Some None | Some v \<Rightarrow> option_of f v)"

definition default_field :: "(json \<Rightarrow> 'a option) \<Rightarrow> 'a \<Rightarrow> (string \<rightharpoonup> json) \<Rightarrow> string \<Rightarrow> 'a option" where
  "default_field f d s name = (case s name of None \<Rightarrow> Some d | Some v \<Rightarrow> f v)"

definition as_value :: "json \<Rightarrow> json option" where
  "as_value v = Some (to_value v)"

definition as_vec :: "(json \<Rightarrow> 'a option) \<Rightarrow> json \<Rightarrow> 'a list option" where
  "as_vec f v = Option.bind (as_array v) (\<lambda>xs. those (map f xs))"

section \<open>Writing a struct\<close>

definition of_i64 :: "int \<Rightarrow> json" where
  "of_i64 i = JNumber (if 0 \<le> i then PosInt (nat i) else NegInt i)"

definition of_option :: "('a \<Rightarrow> json) \<Rightarrow> 'a option \<Rightarrow> json" where
  "of_option f x = (case x of None \<Rightarrow> JNull | Some y \<Rightarrow> f y)"

text \<open>\<open>skip_serializing_if = "Option::is_none"\<close> and \<open>"Vec::is_empty"\<close>.\<close>

definition skip_none :: "string \<Rightarrow> ('a \<Rightarrow> json) \<Rightarrow> 'a option \<Rightarrow> (string \<times> json) list" where
  "skip_none name f x = (case x of None \<Rightarrow> [] | Some y \<Rightarrow> [(name, f y)])"

definition skip_empty :: "string \<Rightarrow> ('a \<Rightarrow> json) \<Rightarrow> 'a list \<Rightarrow> (string \<times> json) list" where
  "skip_empty name f xs = (if xs = [] then [] else [(name, JArray (map f xs))])"

section \<open>Maps\<close>

lemma mset_map_insert: "k \<notin> fst ` set m \<Longrightarrow> mset (map_insert k v m) = add_mset (k, v) (mset m)"
  by (induction k v m rule: map_insert.induct) auto

lemma mset_fold_insert:
  "distinct (map fst m) \<Longrightarrow> fst ` set m \<inter> fst ` set acc = {} \<Longrightarrow>
     mset (fold (\<lambda>(k, v). map_insert k v) m acc) = mset m + mset acc"
proof (induction m arbitrary: acc)
  case (Cons x m)
  obtain k v where x: "x = (k, v)" by (cases x)
  with Cons.prems have ins: "mset (map_insert k v acc) = add_mset (k, v) (mset acc)"
    by (intro mset_map_insert) auto
  then have "set (map_insert k v acc) = insert (k, v) (set acc)"
    by (metis set_mset_add_mset_insert set_mset_mset)
  with Cons.prems x have "mset (fold (\<lambda>(k, v). map_insert k v) m (map_insert k v acc)) = mset m + mset (map_insert k v acc)"
    by (intro Cons.IH) auto
  with ins x show ?case by simp
qed simp

text \<open>An object without repetitions keeps its members, in another order.\<close>

lemma to_value_object:
  assumes "distinct (map fst m)"
  obtains m' where "to_value (JObject m) = JObject m'" "mset m' = mset (map (\<lambda>(k, v). (k, to_value v)) m)"
proof -
  have "distinct (map fst (map (\<lambda>(k, v). (k, to_value v)) m))" using assms by (simp add: case_prod_beta comp_def)
  from mset_fold_insert [OF this, of "[]"] show thesis by (intro that) simp_all
qed

section \<open>What a reader depends on\<close>

lemma map_of_members: "map_of m k = (case members k m of [] \<Rightarrow> None | v # _ \<Rightarrow> Some v)"
  by (induction m) (auto simp: members_def)

lemma members_perm: "mset m = mset m' \<Longrightarrow> mset (members k m) = mset (members k m')"
  by (simp add: members_def)

lemma members_append: "members k (m @ m') = members k m @ members k m'"
  by (simp add: members_def)

lemma members_unknown: "k \<notin> fst ` set m \<Longrightarrow> members k m = []"
  by (force simp: members_def filter_empty_conv)

lemma members_distinct: "distinct (map fst m) \<Longrightarrow> members k m = (case map_of m k of None \<Rightarrow> [] | Some v \<Rightarrow> [v])"
  by (induction m) (auto simp: members_def filter_empty_conv image_iff dest!: map_of_SomeD)

text \<open>Two lists of members that say the same about every known name, in any order.\<close>

definition same_members :: "fields \<Rightarrow> (string \<times> json) list \<Rightarrow> (string \<times> json) list \<Rightarrow> bool" where
  "same_members spec m m' \<longleftrightarrow> list_all (\<lambda>(k, _). mset (members k m) = mset (members k m')) spec"

lemma same_members_perm: "mset m = mset m' \<Longrightarrow> same_members spec m m'"
  unfolding same_members_def list_all_iff using members_perm [of m m'] by auto

lemma same_members_unknown:
  "set (map fst spec) \<inter> set (map fst extra) = {} \<Longrightarrow> same_members spec (m @ extra) m"
  unfolding same_members_def list_all_iff
proof clarsimp
  fix k miss assume "fst ` set spec \<inter> fst ` set extra = {}" "(k, miss) \<in> set spec"
  then have "k \<notin> fst ` set extra" by force
  then show "mset (members k (m @ extra)) = mset (members k m)" by (simp add: members_append members_unknown)
qed

lemma mset_length_eq: "mset xs = mset ys \<Longrightarrow> length xs = length ys"
  by (metis size_mset)

lemma mset_short: "mset xs = mset ys \<Longrightarrow> length xs \<le> 1 \<Longrightarrow> xs = ys"
  by (cases xs; cases ys) auto

lemma member_ok_cong: "mset (members k m) = mset (members k m') \<Longrightarrow> member_ok m (k, miss) = member_ok m' (k, miss)"
proof -
  assume "mset (members k m) = mset (members k m')"
  then have "length (members k m) = length (members k m')" by (rule mset_length_eq)
  then show ?thesis by (auto simp: member_ok_def)
qed

lemma struct_slots_cong:
  assumes "same_members spec m m'"
  shows "rel_option (\<lambda>s s'. \<forall>k \<in> set (map fst spec). s k = s' k) (struct_slots spec (JObject m)) (struct_slots spec (JObject m'))"
proof -
  have ok: "member_ok m f = member_ok m' f" if "f \<in> set spec" for f
    using assms that by (cases f) (auto simp: same_members_def list_all_iff intro!: member_ok_cong)
  have "map_of m k = map_of m' k" if "list_all (member_ok m) spec" "k \<in> set (map fst spec)" for k
  proof -
    from that obtain miss where f: "(k, miss) \<in> set spec" by auto
    with assms that(1) have "members k m = members k m'"
      by (intro mset_short) (auto simp: same_members_def list_all_iff member_ok_def)
    then show ?thesis by (simp add: map_of_members)
  qed
  with ok show ?thesis by (auto simp: list_all_iff)
qed

text \<open>From an object without repetitions the slots are its members.\<close>

lemma struct_slots_distinct:
  "distinct (map fst m) \<Longrightarrow> list_all (\<lambda>(k, miss). miss = Required \<longrightarrow> \<not> Option.is_none (map_of m k)) spec \<Longrightarrow>
     struct_slots spec (JObject m) = Some (map_of m)"
  by (auto simp: list_all_iff member_ok_def members_distinct Option.is_none_def split: option.splits)

lemma struct_slots_smaller: "struct_slots spec v = Some s \<Longrightarrow> s k = Some w \<Longrightarrow> size w < size v"
proof (induction spec v rule: struct_slots.induct)
  case (1 spec m)
  then have "(k, w) \<in> set m" by (auto split: if_splits dest: map_of_SomeD)
  then have "size w < size_list (size_prod (\<lambda>_. 0) size) m" by (induction m) auto
  then show ?case by simp
next
  case (2 spec xs)
  then have "w \<in> set xs" by (auto split: if_splits dest!: map_of_SomeD set_zip_rightD)
  then have "size w < size_list size xs" by (induction xs) auto
  then show ?case by simp
qed simp_all

text \<open>A repeated member of a known name is refused, and so is a value that is neither object nor array.\<close>

lemma repeated_member_refused:
  "k \<in> set (map fst spec) \<Longrightarrow> 1 < length (members k m) \<Longrightarrow> struct_slots spec (JObject m) = None"
  by (auto simp: list_all_iff member_ok_def intro: rev_bexI)

lemma struct_slots_object: "struct_slots spec (JObject m) = Some s \<Longrightarrow> s = map_of m \<and> list_all (member_ok m) spec"
  by (auto split: if_splits)

section \<open>Field round trips\<close>

named_theorems serde_simps \<open>evaluation of derived readers on written documents\<close>

lemma as_i64_of_i64 [simp]: "in_i64 i \<Longrightarrow> as_i64 (of_i64 i) = Some i"
  by (auto simp: of_i64_def i64_bounds)

lemma as_i64_in_range: "as_i64 v = Some i \<Longrightarrow> v = of_i64 i \<or> (\<exists>j. v = JNumber (NegInt j))"
  by (cases v rule: as_i64.cases) (auto simp: of_i64_def split: if_splits)

lemma those_map_Some: "(\<And>x. x \<in> set xs \<Longrightarrow> f (g x) = Some x) \<Longrightarrow> those (map f (map g xs)) = Some xs"
  by (induction xs) auto

lemma as_vec_JString [simp]: "as_vec as_str (JArray (map JString xs)) = Some xs"
  using those_map_Some [of xs as_str JString] by (simp add: as_vec_def)

lemma field_simps [serde_simps]:
  "s k = Some v \<Longrightarrow> field f s k = f v"
  "s k = Some v \<Longrightarrow> option_field f s k = option_of f v"
  "s k = Some v \<Longrightarrow> default_field f d s k = f v"
  "s k = None \<Longrightarrow> option_field f s k = Some None"
  "s k = None \<Longrightarrow> default_field f d s k = Some d"
  by (simp_all add: field_def option_field_def default_field_def)

lemma option_field_written:
  "s k = map_option g x \<Longrightarrow> (\<And>y. x = Some y \<Longrightarrow> option_of f (g y) = Some (Some y)) \<Longrightarrow> option_field f s k = Some x"
  by (cases x) (simp_all add: option_field_def)

lemma default_field_written:
  "s k = map_option g x \<Longrightarrow> (\<And>y. x = Some y \<Longrightarrow> f (g y) = Some (Some y)) \<Longrightarrow> default_field f None s k = Some x"
  by (cases x) (simp_all add: default_field_def)

lemma option_of_simps [simp]:
  "option_of f JNull = Some None" "option_of as_str (JString t) = Some (Some t)"
  "in_i64 i \<Longrightarrow> option_of as_i64 (of_i64 i) = Some (Some i)"
  by (simp_all add: option_of_def of_i64_def i64_bounds)

lemma skip_simps [simp]:
  "skip_none name f None = []" "skip_none name f (Some y) = [(name, f y)]"
  "skip_empty name f [] = []" "skip_empty name f (x # xs) = [(name, JArray (map f (x # xs)))]"
  by (simp_all add: skip_none_def skip_empty_def)

lemma map_of_skip [simp]:
  "map_of (skip_none name f x) k = (if k = name then map_option f x else None)"
  "map_of (skip_empty name f xs) k = (if k = name \<and> xs \<noteq> [] then Some (JArray (map f xs)) else None)"
  by (auto simp: skip_none_def skip_empty_def split: option.splits)

lemma keys_skip [simp]:
  "map fst (skip_none name f x) = (if x = None then [] else [name])"
  "map fst (skip_empty name f xs) = (if xs = [] then [] else [name])"
  by (auto simp: skip_none_def skip_empty_def split: option.splits)

section \<open>The contract of a derived reader\<close>

text \<open>
  A derived reader looks at its slots only, and fails when they cannot be filled. So what it returns for
  an object is settled by the members of its own fields, whatever their order and whatever else is there.
\<close>

locale struct_reader =
  fixes spec :: fields and from_json :: "json \<Rightarrow> 'a option"
  assumes slots_only: "struct_slots spec v = Some s \<Longrightarrow> struct_slots spec v' = Some s' \<Longrightarrow>
      \<forall>k \<in> set (map fst spec). s k = s' k \<Longrightarrow> from_json v = from_json v'"
    and no_slots: "struct_slots spec v = None \<Longrightarrow> from_json v = None"
begin

lemma same_members_read: "same_members spec m m' \<Longrightarrow> from_json (JObject m) = from_json (JObject m')"
  using struct_slots_cong [of spec m m'] slots_only [of "JObject m" _ "JObject m'"] no_slots
  by (cases "struct_slots spec (JObject m)"; cases "struct_slots spec (JObject m')") (simp_all del: struct_slots.simps)

lemma order_irrelevant: "mset m = mset m' \<Longrightarrow> from_json (JObject m) = from_json (JObject m')"
  by (rule same_members_read) (rule same_members_perm)

lemma read_to_value:
  "distinct (map fst m) \<Longrightarrow> map (\<lambda>(k, v). (k, to_value v)) m = m \<Longrightarrow> from_json (to_value (JObject m)) = from_json (JObject m)"
  using order_irrelevant by (metis to_value_object)

lemma unknown_ignored:
  "set (map fst spec) \<inter> set (map fst extra) = {} \<Longrightarrow> from_json (JObject (m @ extra)) = from_json (JObject m)"
  by (rule same_members_read) (rule same_members_unknown)

lemma no_repetition: "from_json (JObject m) = Some x \<Longrightarrow> k \<in> set (map fst spec) \<Longrightarrow> length (members k m) \<le> 1"
  using repeated_member_refused [of k spec m] no_slots [of "JObject m"] by (cases "1 < length (members k m)") auto

lemma scalar_refused: "as_object v = None \<Longrightarrow> as_array v = None \<Longrightarrow> from_json v = None"
  by (rule no_slots) (cases v; simp)

end

declare struct_slots.simps [simp del]

lemmas derived_field_defs = field_def option_field_def default_field_def

section \<open>The contract of a derived pair\<close>

locale json_codec =
  fixes to_json :: "'a \<Rightarrow> json" and from_json :: "json \<Rightarrow> 'a option" and ok :: "'a \<Rightarrow> bool"
  assumes read_written: "ok x \<Longrightarrow> from_json (to_json x) = Some x"
begin

lemma to_json_inj: "ok x \<Longrightarrow> ok y \<Longrightarrow> to_json x = to_json y \<Longrightarrow> x = y"
  using read_written by (metis option.inject)

lemma text_read_written:
  "ok x \<Longrightarrow> json_text_law J (to_json x) \<Longrightarrow> jt_write J (to_json x) = Some b \<Longrightarrow> read_as J from_json b = Some x"
  by (simp add: json_text_law_def read_as_def read_written)

text \<open>Different values have different texts.\<close>

lemma text_inj:
  "ok x \<Longrightarrow> ok y \<Longrightarrow> json_text_law J (to_json x) \<Longrightarrow> json_text_law J (to_json y) \<Longrightarrow>
     jt_write J (to_json x) = Some b \<Longrightarrow> jt_write J (to_json y) = Some b \<Longrightarrow> x = y"
  using text_read_written by (metis option.inject)

end

end
