(* ===== verification/Jose_Generate.thy ===== *)
theory Jose_Generate
  imports Sts_Signers
begin

text \<open>
  Generation of RSA signing keys in \<open>sts-jose\<close>. The drawn key is an argument: \<open>None\<close> when
  \<open>RsaKeyPair::generate\<close> fails, otherwise the components of its public key and its PKCS\#8 text
  (\<open>None\<close> when it cannot be encoded). A generated key loads again as a signer that publishes the
  public key it was generated with.
\<close>

section \<open>Generation\<close>

record drawn_rsa =
  dr_n :: string
  dr_e :: string
  dr_pkcs8 :: "string option"

definition drawn_der :: "drawn_rsa option \<Rightarrow> (JoseError, drawn_rsa \<times> string) result" where
  "drawn_der drawn =
     and_then (ok_or drawn (jose_error JoseInvalidKey [Lit ''generate RSA key failed: '', Ext])) (\<lambda>key_pair.
     and_then (ok_or (dr_pkcs8 key_pair) (jose_error JoseInvalidKey [Lit ''encode RSA key failed: '', Ext])) (\<lambda>private_der.
     Ok (key_pair, private_der)))"

definition generate_for_tests :: "jose_ext \<Rightarrow> drawn_rsa option \<Rightarrow> string \<Rightarrow> (JoseError, RsaJoseSigner) result" where
  "generate_for_tests E drawn kid =
     and_then (drawn_der drawn) (\<lambda>(key_pair, private_der). from_private_key_der E private_der kid)"

definition generated_public_jwk :: "jose_ext \<Rightarrow> string \<Rightarrow> string \<Rightarrow> PublicJwk" where
  "generated_public_jwk E n e =
     \<lparr>jwk_kty = ''RSA'', jwk_kid = rsa_jwk_thumbprint E n e, jwk_use = ''sig'', jwk_alg = ''RS256'',
      jwk_n = Some n, jwk_e = Some e, jwk_pub = None\<rparr>"

definition rsa_generate_private_jwk :: "jose_ext \<Rightarrow> drawn_rsa option \<Rightarrow> (JoseError, string \<times> PublicJwk) result" where
  "rsa_generate_private_jwk E drawn =
     and_then (drawn_der drawn) (\<lambda>(key_pair, private_der).
     let n = b64_encode E (dr_n key_pair);
         e = b64_encode E (dr_e key_pair);
         public_jwk = generated_public_jwk E n e
     in and_then (private_jwk_json_from_pkcs8_der E private_der public_jwk) (\<lambda>private_jwk_json.
        Ok (private_jwk_json, public_jwk)))"

section \<open>What the libraries promise\<close>

text \<open>
  \<open>simple_asn1\<close> reads back the block that it wrote; \<open>to_bytes_be\<close> of \<open>num-bigint\<close> gives the shortest form of a positive
  number and \<open>from_bytes_be\<close> reads it.
\<close>

definition asn1_law :: "jose_ext \<Rightarrow> ASN1Block \<Rightarrow> bool" where
  "asn1_law E block \<longleftrightarrow> (\<forall>der. asn1_to_der E block = Some der \<longrightarrow> asn1_from_der E der = Some [block])"

definition bigint_minimal :: "jose_ext \<Rightarrow> int \<Rightarrow> bool" where
  "bigint_minimal E v \<longleftrightarrow> bigint_from_bytes_be E (bigint_to_bytes_be E v) = v \<and>
     bigint_to_bytes_be E v \<noteq> [] \<and> hd (bigint_to_bytes_be E v) \<noteq> CHR 0x00"

text \<open>Reading a printed object gives its string members back, whatever else it has.\<close>

definition jwk_json_law :: "jose_ext \<Rightarrow> bool" where
  "jwk_json_law E \<longleftrightarrow> (\<forall>kid n e d p q dp dq qi text.
     json_to_string_pretty E (JObject [(''kty'', JString ''RSA''), (''kid'', JString kid), (''use'', JString ''sig''),
       (''alg'', JString ''RS256''), (''n'', JString n), (''e'', JString e), (''d'', JString d), (''p'', JString p),
       (''q'', JString q), (''dp'', JString dp), (''dq'', JString dq), (''qi'', JString qi)]) = Some text \<longrightarrow>
     rsa_jwk_from_str E (text @ [CHR 0x0A]) = Some \<lparr>prsa_kty = ''RSA'', prsa_kid = Some kid, prsa_n = n, prsa_e = e,
       prsa_d = d, prsa_p = p, prsa_q = q, prsa_dp = Some dp, prsa_dq = Some dq, prsa_qi = Some qi\<rparr>)"

text \<open>
  A drawn key is a two-prime RSA key of at least 2048 bits: its PKCS\#1 form is the DER encoding of the version 0 and
  eight positive integers, the first two of which are the public components that aws-lc reads from it.
\<close>

definition pkcs1_block :: "int list \<Rightarrow> ASN1Block" where
  "pkcs1_block vs = AsnSequence (AsnInteger 0 # map AsnInteger vs)"

definition two_prime_key :: "jose_ext \<Rightarrow> drawn_rsa \<Rightarrow> string \<Rightarrow> int list \<Rightarrow> bool" where
  "two_prime_key E key der vs \<longleftrightarrow>
     asn1_to_der E (pkcs1_block vs) = Some der \<and> asn1_law E (pkcs1_block vs) \<and> length vs = 8 \<and>
     list_all (\<lambda>v. 0 < v \<and> bigint_minimal E v) vs \<and>
     dr_n key = bigint_to_bytes_be E (vs ! 0) \<and> dr_e key = bigint_to_bytes_be E (vs ! 1) \<and>
     2048 \<le> rsa_modulus_bits (dr_n key) \<and>
     (\<exists>len. rsa_key_from_der E der = Some (len, dr_n key, dr_e key) \<and> 2048 \<le> len * 8)"

section \<open>A generated key loads\<close>

lemma eight:
  assumes "length vs = 8"
  obtains n e d p q dp dq qi where "vs = [n, e, d, p, q, dp, dq, qi]"
proof -
  from assms have "length vs = Suc (Suc (Suc (Suc (Suc (Suc (Suc (Suc 0)))))))" by simp
  then show thesis using that unfolding length_Suc_conv by blast
qed

lemma component_decodes:
  assumes "b64_law E" "bigint_minimal E v"
  shows "decode_jwk_component E name (b64_encode E (bigint_to_bytes_be E v)) = Ok (bigint_to_bytes_be E v)"
    "positive_integer_block E name (bigint_to_bytes_be E v) = Ok (AsnInteger v)"
proof -
  have "bigint_to_bytes_be E v \<noteq> []" "hd (bigint_to_bytes_be E v) \<noteq> CHR 0x00" "bigint_from_bytes_be E (bigint_to_bytes_be E v) = v"
    using assms(2) by (simp_all add: bigint_minimal_def)
  with assms(1) show "decode_jwk_component E name (b64_encode E (bigint_to_bytes_be E v)) = Ok (bigint_to_bytes_be E v)"
    "positive_integer_block E name (bigint_to_bytes_be E v) = Ok (AsnInteger v)"
    by (cases "bigint_to_bytes_be E v"; simp add: decode_jwk_component_def decode_jwk_octets_def b64_law_def positive_integer_block_def)+
qed

lemma rsa_component_encodes:
  "i < length seq \<Longrightarrow> seq ! i = AsnInteger v \<Longrightarrow> 0 < v \<Longrightarrow>
     rsa_integer_component E seq i name = Ok (b64_encode E (bigint_to_bytes_be E v))"
  by (simp add: rsa_integer_component_def)

text \<open>The private JWK text, and the DER that loading rebuilds from it.\<close>

lemma private_jwk_text:
  assumes "private_jwk_json_from_pkcs8_der E pkcs8 jwk = Ok json" "normalize_rsa_private_key_der E pkcs8 = Ok der"
    and "asn1_from_der E der = Some [AsnSequence (AsnInteger 0 # map AsnInteger vs)]"
    and "vs = [n, e, d, p, q, dp, dq, qi]" "list_all (\<lambda>v. 0 < v) vs" "jwk_json_law E"
  shows "rsa_jwk_from_str E json = Some \<lparr>prsa_kty = ''RSA'', prsa_kid = Some (jwk_kid jwk),
    prsa_n = b64_encode E (bigint_to_bytes_be E n), prsa_e = b64_encode E (bigint_to_bytes_be E e),
    prsa_d = b64_encode E (bigint_to_bytes_be E d), prsa_p = b64_encode E (bigint_to_bytes_be E p),
    prsa_q = b64_encode E (bigint_to_bytes_be E q), prsa_dp = Some (b64_encode E (bigint_to_bytes_be E dp)),
    prsa_dq = Some (b64_encode E (bigint_to_bytes_be E dq)), prsa_qi = Some (b64_encode E (bigint_to_bytes_be E qi))\<rparr>"
proof -
  have "0 < n" "0 < e" "0 < d" "0 < p" "0 < q" "0 < dp" "0 < dq" "0 < qi" using assms(4,5) by simp_all
  with assms(1-4) have "\<exists>text. json = text @ [CHR 0x0A] \<and>
      json_to_string_pretty E (JObject [(''kty'', JString ''RSA''), (''kid'', JString (jwk_kid jwk)), (''use'', JString ''sig''),
       (''alg'', JString ''RS256''), (''n'', JString (b64_encode E (bigint_to_bytes_be E n))),
       (''e'', JString (b64_encode E (bigint_to_bytes_be E e))), (''d'', JString (b64_encode E (bigint_to_bytes_be E d))),
       (''p'', JString (b64_encode E (bigint_to_bytes_be E p))), (''q'', JString (b64_encode E (bigint_to_bytes_be E q))),
       (''dp'', JString (b64_encode E (bigint_to_bytes_be E dp))), (''dq'', JString (b64_encode E (bigint_to_bytes_be E dq))),
       (''qi'', JString (b64_encode E (bigint_to_bytes_be E qi)))]) = Some text"
    by (auto simp: private_jwk_json_from_pkcs8_der_def rsa_integer_component_def and_then_ok ok_or_ok map_ok_def)
  with assms(6) show ?thesis unfolding jwk_json_law_def by blast
qed

lemma loads_from_text:
  assumes "b64_law E" "rsa_jwk_from_str E json = Some \<lparr>prsa_kty = ''RSA'', prsa_kid = Some kid,
    prsa_n = b64_encode E (bigint_to_bytes_be E n), prsa_e = b64_encode E (bigint_to_bytes_be E e),
    prsa_d = b64_encode E (bigint_to_bytes_be E d), prsa_p = b64_encode E (bigint_to_bytes_be E p),
    prsa_q = b64_encode E (bigint_to_bytes_be E q), prsa_dp = Some (b64_encode E (bigint_to_bytes_be E dp)),
    prsa_dq = Some (b64_encode E (bigint_to_bytes_be E dq)), prsa_qi = Some (b64_encode E (bigint_to_bytes_be E qi))\<rparr>"
    and "asn1_to_der E (pkcs1_block [n, e, d, p, q, dp, dq, qi]) = Some der"
    and "list_all (bigint_minimal E) [n, e, d, p, q, dp, dq, qi]" "2048 \<le> rsa_modulus_bits (bigint_to_bytes_be E n)"
  shows "rsa_from_private_jwk E json fallback = from_pkcs1_der E der kid"
proof -
  have m: "bigint_minimal E n" "bigint_minimal E e" "bigint_minimal E d" "bigint_minimal E p" "bigint_minimal E q"
    "bigint_minimal E dp" "bigint_minimal E dq" "bigint_minimal E qi" using assms(4) by simp_all
  note c = m [THEN component_decodes(1) [OF assms(1)]] m [THEN component_decodes(2) [OF assms(1)]]
  have "asn1_to_der E (AsnSequence [AsnInteger 0, AsnInteger n, AsnInteger e, AsnInteger d, AsnInteger p, AsnInteger q,
      AsnInteger dp, AsnInteger dq, AsnInteger qi]) = Some der"
    using assms(3) by (simp add: pkcs1_block_def)
  moreover have "validate_public_components (bigint_to_bytes_be E n) (bigint_to_bytes_be E e) = Ok ()"
    using m(1,2) by (simp add: validate_public_components_def bigint_minimal_def)
  ultimately show ?thesis
    using assms(5) by (simp add: rsa_from_private_jwk_def assms(2) c rsa_private_jwk_to_pkcs1_der_def
        decode_required_private_component_def)
qed

section \<open>Properties\<close>

text \<open>
  C21: a generated RSA key loads again. The private JWK text that \<open>generate_private_jwk\<close> writes is read by
  \<open>from_private_jwk\<close> as a signer that publishes exactly the public JWK the generation returned, under the
  thumbprint of that key as its identifier, whatever fallback identifier is configured. Assumed are base64url and
  JSON, that \<open>simple_asn1\<close> reads back the key it writes, and that the drawn key is a two-prime key in DER.
\<close>

theorem generated_rsa_key_loads:
  assumes "b64_law E" "jwk_json_law E"
    and "rsa_generate_private_jwk E (Some key) = Ok (json, jwk)" "dr_pkcs8 key = Some pkcs8"
    and "normalize_rsa_private_key_der E pkcs8 = Ok der" "two_prime_key E key der vs"
  shows "\<exists>s. rsa_from_private_jwk E json fallback = Ok s \<and> rs_public_jwk s = jwk \<and>
    rs_kid s = rsa_jwk_thumbprint E (b64_encode E (dr_n key)) (b64_encode E (dr_e key))"
proof -
  let ?jwk = "generated_public_jwk E (b64_encode E (dr_n key)) (b64_encode E (dr_e key))"
  from assms(3,4) have made: "private_jwk_json_from_pkcs8_der E pkcs8 ?jwk = Ok json" and jwk: "jwk = ?jwk"
    by (auto simp: rsa_generate_private_jwk_def drawn_der_def Let_def and_then_ok)
  from assms(6) obtain len where key: "asn1_to_der E (pkcs1_block vs) = Some der" "asn1_law E (pkcs1_block vs)"
    "length vs = 8" "list_all (\<lambda>v. 0 < v) vs" "list_all (bigint_minimal E) vs" "dr_n key = bigint_to_bytes_be E (vs ! 0)"
    "2048 \<le> rsa_modulus_bits (dr_n key)" "rsa_key_from_der E der = Some (len, dr_n key, dr_e key)" "2048 \<le> len * 8"
    by (auto simp: two_prime_key_def list_all_iff)
  from key(1,2) have read: "asn1_from_der E der = Some [AsnSequence (AsnInteger 0 # map AsnInteger vs)]"
    by (simp add: asn1_law_def pkcs1_block_def)
  obtain n e d p q dp dq qi where vs: "vs = [n, e, d, p, q, dp, dq, qi]" by (rule eight [OF key(3)])
  have "rsa_from_private_jwk E json fallback = from_pkcs1_der E der (jwk_kid ?jwk)"
    by (rule loads_from_text [OF assms(1) private_jwk_text [OF made assms(5) read vs key(4) assms(2)]])
       (use key vs in simp_all)
  with key(8,9) jwk show ?thesis by (simp add: from_pkcs1_der_def generated_public_jwk_def not_less)
qed

end
