(* ===== verification/Jose_Json.thy ===== *)
theory Jose_Json
  imports Serde_Derive Jose_Generate
begin

text \<open>
  The derived readers and writers of \<open>sts-jose\<close>: the protected header, public and private JWKs and key sets;
  and the libraries of the crate with JSON brought down to texts (\<open>derived_jose\<close>, \<open>derived_codec\<close>). What was assumed of
  JSON for each struct follows from the law of the text reader alone. With this a generated ML-DSA key is
  followed from its generation over the private JWK file to tokens that verify under the published key.
\<close>

section \<open>Protected headers\<close>

definition CompactJwsHeader_fields :: fields where
  "CompactJwsHeader_fields = [(''alg'', Required), (''kid'', Optional), (''typ'', Optional)]"

definition compact_header_from_json :: "json \<Rightarrow> CompactJwsHeader option" where
  "compact_header_from_json v =
     do {
       s \<leftarrow> struct_slots CompactJwsHeader_fields v;
       alg \<leftarrow> field as_str s ''alg'';
       kid \<leftarrow> option_field as_str s ''kid'';
       typ \<leftarrow> option_field as_str s ''typ'';
       Some \<lparr>hdr_alg = alg, hdr_kid = kid, hdr_typ = typ\<rparr>
     }"

text \<open>The signers write \<open>ProtectedHeader\<close>, whose members are all there.\<close>

definition protected_header_to_json :: "CompactJwsHeader \<Rightarrow> json" where
  "protected_header_to_json h =
     JObject ([(''alg'', JString (hdr_alg h))] @ skip_none ''kid'' JString (hdr_kid h) @ skip_none ''typ'' JString (hdr_typ h))"

section \<open>Keys\<close>

definition PublicJwk_fields :: fields where
  "PublicJwk_fields =
     [(''kty'', Required), (''kid'', Required), (''use'', Defaulted), (''alg'', Defaulted), (''n'', Defaulted),
      (''e'', Defaulted), (''pub'', Defaulted)]"

definition public_jwk_from_json :: "json \<Rightarrow> PublicJwk option" where
  "public_jwk_from_json v =
     do {
       s \<leftarrow> struct_slots PublicJwk_fields v;
       kty \<leftarrow> field as_str s ''kty'';
       kid \<leftarrow> field as_str s ''kid'';
       u \<leftarrow> default_field as_str default_jwk_use s ''use'';
       alg \<leftarrow> default_field as_str default_jwk_alg s ''alg'';
       n \<leftarrow> option_field as_str s ''n'';
       e \<leftarrow> option_field as_str s ''e'';
       pub \<leftarrow> option_field as_str s ''pub'';
       Some \<lparr>jwk_kty = kty, jwk_kid = kid, jwk_use = u, jwk_alg = alg, jwk_n = n, jwk_e = e, jwk_pub = pub\<rparr>
     }"

definition public_jwk_to_json :: "PublicJwk \<Rightarrow> json" where
  "public_jwk_to_json k =
     JObject ([(''kty'', JString (jwk_kty k)), (''kid'', JString (jwk_kid k)), (''use'', JString (jwk_use k)),
       (''alg'', JString (jwk_alg k))] @ skip_none ''n'' JString (jwk_n k) @ skip_none ''e'' JString (jwk_e k) @
       skip_none ''pub'' JString (jwk_pub k))"

definition JwksDocument_fields :: fields where
  "JwksDocument_fields = [(''keys'', Required)]"

definition jwks_document_from_json :: "json \<Rightarrow> JwksDocument option" where
  "jwks_document_from_json v =
     do {
       s \<leftarrow> struct_slots JwksDocument_fields v;
       keys \<leftarrow> field (as_vec public_jwk_from_json) s ''keys'';
       Some \<lparr>jwks_keys = keys\<rparr>
     }"

definition jwks_document_to_json :: "JwksDocument \<Rightarrow> json" where
  "jwks_document_to_json d = JObject [(''keys'', JArray (map public_jwk_to_json (jwks_keys d)))]"

definition PrivateRsaJwk_fields :: fields where
  "PrivateRsaJwk_fields =
     [(''kty'', Required), (''kid'', Optional), (''n'', Required), (''e'', Required), (''d'', Required), (''p'', Required),
      (''q'', Required), (''dp'', Optional), (''dq'', Optional), (''qi'', Optional)]"

definition private_rsa_jwk_from_json :: "json \<Rightarrow> PrivateRsaJwk option" where
  "private_rsa_jwk_from_json v =
     do {
       s \<leftarrow> struct_slots PrivateRsaJwk_fields v;
       kty \<leftarrow> field as_str s ''kty'';
       kid \<leftarrow> option_field as_str s ''kid'';
       n \<leftarrow> field as_str s ''n'';
       e \<leftarrow> field as_str s ''e'';
       d \<leftarrow> field as_str s ''d'';
       p \<leftarrow> field as_str s ''p'';
       q \<leftarrow> field as_str s ''q'';
       dp \<leftarrow> option_field as_str s ''dp'';
       dq \<leftarrow> option_field as_str s ''dq'';
       qi \<leftarrow> option_field as_str s ''qi'';
       Some \<lparr>prsa_kty = kty, prsa_kid = kid, prsa_n = n, prsa_e = e, prsa_d = d, prsa_p = p, prsa_q = q,
         prsa_dp = dp, prsa_dq = dq, prsa_qi = qi\<rparr>
     }"

definition PrivateAkpJwk_fields :: fields where
  "PrivateAkpJwk_fields =
     [(''kty'', Required), (''kid'', Optional), (''alg'', Required), (''pub'', Required), (''priv'', Required)]"

definition private_akp_jwk_from_json :: "json \<Rightarrow> PrivateAkpJwk option" where
  "private_akp_jwk_from_json v =
     do {
       s \<leftarrow> struct_slots PrivateAkpJwk_fields v;
       kty \<leftarrow> field as_str s ''kty'';
       kid \<leftarrow> option_field as_str s ''kid'';
       alg \<leftarrow> field as_str s ''alg'';
       pub \<leftarrow> field as_str s ''pub'';
       priv \<leftarrow> field as_str s ''priv'';
       Some \<lparr>pakp_kty = kty, pakp_kid = kid, pakp_alg = alg, pakp_pub = pub, pakp_priv = priv\<rparr>
     }"

section \<open>The libraries over JSON texts\<close>

definition derived_jose :: "json_text \<Rightarrow> jose_ext \<Rightarrow> jose_ext" where
  "derived_jose J E =
     E\<lparr>header_from_slice := read_as J compact_header_from_json,
       header_to_vec := (\<lambda>h. jt_write J (protected_header_to_json h)),
       rsa_jwk_from_str := read_as J private_rsa_jwk_from_json,
       akp_jwk_from_str := read_as J private_akp_jwk_from_json,
       json_to_string_pretty := jt_pretty J\<rparr>"

definition derived_codec :: "json_text \<Rightarrow> (json \<Rightarrow> 'a option) \<Rightarrow> ('a \<Rightarrow> json) \<Rightarrow> 'a codec \<Rightarrow> 'a codec" where
  "derived_codec J from_json to_json C =
     C\<lparr>claims_from_slice := read_as J from_json, claims_to_vec := (\<lambda>c. jt_write J (to_json c))\<rparr>"

section \<open>The readers meet their contract\<close>

interpretation header_reader: struct_reader CompactJwsHeader_fields compact_header_from_json
  by unfold_locales (simp_all add: compact_header_from_json_def CompactJwsHeader_fields_def derived_field_defs)

interpretation public_reader: struct_reader PublicJwk_fields public_jwk_from_json
  by unfold_locales (simp_all add: public_jwk_from_json_def PublicJwk_fields_def derived_field_defs)

interpretation jwks_reader: struct_reader JwksDocument_fields jwks_document_from_json
  by unfold_locales (simp_all add: jwks_document_from_json_def JwksDocument_fields_def derived_field_defs)

interpretation rsa_reader: struct_reader PrivateRsaJwk_fields private_rsa_jwk_from_json
  by unfold_locales (simp_all add: private_rsa_jwk_from_json_def PrivateRsaJwk_fields_def derived_field_defs)

interpretation akp_reader: struct_reader PrivateAkpJwk_fields private_akp_jwk_from_json
  by unfold_locales (simp_all add: private_akp_jwk_from_json_def PrivateAkpJwk_fields_def derived_field_defs)

lemma header_roundtrip: "compact_header_from_json (protected_header_to_json h) = Some h"
  by (cases "hdr_kid h"; cases "hdr_typ h")
     (simp_all add: compact_header_from_json_def protected_header_to_json_def struct_slots.simps member_ok_def members_def
       CompactJwsHeader_fields_def derived_field_defs)

lemma public_jwk_json_roundtrip: "public_jwk_from_json (public_jwk_to_json k) = Some k"
  by (cases "jwk_n k"; cases "jwk_e k"; cases "jwk_pub k")
     (simp_all add: public_jwk_from_json_def public_jwk_to_json_def struct_slots.simps member_ok_def members_def
       PublicJwk_fields_def derived_field_defs)

lemma jwks_json_roundtrip: "jwks_document_from_json (jwks_document_to_json d) = Some d"
  using those_map_Some [of "jwks_keys d" public_jwk_from_json public_jwk_to_json] public_jwk_json_roundtrip
  by (simp add: jwks_document_from_json_def jwks_document_to_json_def struct_slots.simps member_ok_def members_def
      JwksDocument_fields_def field_def as_vec_def)

interpretation header_codec: json_codec protected_header_to_json compact_header_from_json "\<lambda>_. True"
  by unfold_locales (rule header_roundtrip)

interpretation jwks_codec: json_codec jwks_document_to_json jwks_document_from_json "\<lambda>_. True"
  by unfold_locales (rule jwks_json_roundtrip)

section \<open>The laws of the libraries follow\<close>

lemma derived_jose_simps [simp]:
  "header_from_slice (derived_jose J E) = read_as J compact_header_from_json"
  "header_to_vec (derived_jose J E) = (\<lambda>h. jt_write J (protected_header_to_json h))"
  "rsa_jwk_from_str (derived_jose J E) = read_as J private_rsa_jwk_from_json"
  "akp_jwk_from_str (derived_jose J E) = read_as J private_akp_jwk_from_json"
  "json_to_string_pretty (derived_jose J E) = jt_pretty J"
  "b64_encode (derived_jose J E) = b64_encode E" "b64_decode (derived_jose J E) = b64_decode E"
  "sha256 (derived_jose J E) = sha256 E" "ossl_public_key_ok (derived_jose J E) = ossl_public_key_ok E"
  "ossl_verifier_ok (derived_jose J E) = ossl_verifier_ok E" "ossl_verify (derived_jose J E) = ossl_verify E"
  "ossl_key_from_seed (derived_jose J E) = ossl_key_from_seed E" "ossl_raw_public (derived_jose J E) = ossl_raw_public E"
  "ossl_sign (derived_jose J E) = ossl_sign E"
  by (simp_all add: derived_jose_def)

lemma derived_b64_law [simp]: "b64_law (derived_jose J E) = b64_law E"
  by (simp add: b64_law_def)

lemma derived_mldsa_law [simp]: "mldsa_law (derived_jose J E) a pk sign = mldsa_law E a pk sign"
  by (simp add: mldsa_law_def)

lemma derived_openssl [simp]:
  "openssl_sign_mldsa (derived_jose J E) = openssl_sign_mldsa E"
  "openssl_private_key_from_seed (derived_jose J E) = openssl_private_key_from_seed E"
  "openssl_raw_public_key (derived_jose J E) = openssl_raw_public_key E"
  "decode_jwk_octets (derived_jose J E) = decode_jwk_octets E"
  "akp_jwk_thumbprint (derived_jose J E) = akp_jwk_thumbprint E"
  by (simp_all add: fun_eq_iff openssl_sign_mldsa_def openssl_private_key_from_seed_def openssl_raw_public_key_def
      decode_jwk_octets_def akp_jwk_thumbprint_def)

lemma derived_header_law: "json_text_law J (protected_header_to_json h) \<Longrightarrow> header_law (derived_jose J E) h"
  by (simp add: header_law_def header_codec.text_read_written)

context json_codec
begin

lemma derived_claims_law:
  "ok c \<Longrightarrow> json_text_law J (to_json c) \<Longrightarrow> claims_law (derived_codec J from_json to_json C) c"
  by (simp add: claims_law_def derived_codec_def text_read_written)

end

text \<open>Private JWKs are printed from a map, and read whatever order that gives.\<close>

lemma printed_rsa_jwk:
  assumes "json_pretty_law J doc" "jt_pretty J doc = Some t"
    and "doc = JObject [(''kty'', JString kty), (''kid'', JString kid), (''use'', JString use),
       (''alg'', JString alg), (''n'', JString n), (''e'', JString e), (''d'', JString d), (''p'', JString p),
       (''q'', JString q), (''dp'', JString dp), (''dq'', JString dq), (''qi'', JString qi)]"
  shows "read_as J private_rsa_jwk_from_json (t @ [CHR 0x0A]) = Some \<lparr>prsa_kty = kty, prsa_kid = Some kid, prsa_n = n,
     prsa_e = e, prsa_d = d, prsa_p = p, prsa_q = q, prsa_dp = Some dp, prsa_dq = Some dq, prsa_qi = Some qi\<rparr>"
proof -
  have "private_rsa_jwk_from_json (to_value doc) = private_rsa_jwk_from_json doc"
    unfolding assms(3) by (rule rsa_reader.read_to_value) simp_all
  with assms show ?thesis
    by (simp add: json_pretty_law_def read_as_def private_rsa_jwk_from_json_def struct_slots.simps member_ok_def
        members_def PrivateRsaJwk_fields_def derived_field_defs)
qed

lemma printed_akp_jwk:
  assumes "json_pretty_law J doc" "jt_pretty J doc = Some t"
    and "doc = JObject [(''kty'', JString kty), (''kid'', JString kid), (''use'', JString use),
       (''alg'', JString alg), (''pub'', JString pub), (''priv'', JString priv)]"
  shows "read_as J private_akp_jwk_from_json (t @ [CHR 0x0A]) = Some \<lparr>pakp_kty = kty, pakp_kid = Some kid, pakp_alg = alg,
     pakp_pub = pub, pakp_priv = priv\<rparr>"
proof -
  have "private_akp_jwk_from_json (to_value doc) = private_akp_jwk_from_json doc"
    unfolding assms(3) by (rule akp_reader.read_to_value) simp_all
  with assms show ?thesis
    by (simp add: json_pretty_law_def read_as_def private_akp_jwk_from_json_def struct_slots.simps member_ok_def
        members_def PrivateAkpJwk_fields_def derived_field_defs)
qed

lemma derived_jwk_json_law: "(\<And>m. json_pretty_law J (JObject m)) \<Longrightarrow> jwk_json_law (derived_jose J E)"
  unfolding jwk_json_law_def derived_jose_simps by (blast intro: printed_rsa_jwk)

end
