(* ===== verification/Sts_Dpop.thy ===== *)
theory Sts_Dpop
  imports Sts_Jose Url_Value
begin

text \<open>
  The crate \<open>sts-dpop\<close> (\<open>crates/sts-dpop/src/lib.rs\<close>): validation of RFC 9449 proofs and the
  ES256 holder key that makes them. Base64url, JSON parsing, the \<open>jsonwebtoken\<close> key and signature
  operations and the P-256 arithmetic are fields of \<open>dpop_ext\<close>; a signing key is its 32 scalar
  bytes and \<open>Url::parse\<close> is the parameter \<open>url\<close>.
\<close>

section \<open>Data\<close>

datatype Algorithm =
  HS256 | HS384 | HS512 | ES256 | ES384 | RS256 | RS384 | RS512 | PS256 | PS384 | PS512 | EdDSA

text \<open>\<open>Algorithm::from_str\<close>.\<close>

definition algorithm_from_str :: "string \<Rightarrow> Algorithm option" where
  "algorithm_from_str s =
     map_of [(''HS256'', HS256), (''HS384'', HS384), (''HS512'', HS512), (''ES256'', ES256), (''ES384'', ES384),
             (''RS256'', RS256), (''RS384'', RS384), (''RS512'', RS512), (''PS256'', PS256), (''PS384'', PS384),
             (''PS512'', PS512), (''EdDSA'', EdDSA)] s"

datatype AlgorithmParameters = ParamsRSA | ParamsEllipticCurve | ParamsOctetKeyPair | ParamsOctetKey

record Jwk =
  jwk_params :: AlgorithmParameters
  jwk_members :: json

definition DPOP_SIGNING_ALGS_SUPPORTED :: "string list" where
  "DPOP_SIGNING_ALGS_SUPPORTED =
     [''RS256'', ''RS384'', ''RS512'', ''PS256'', ''PS384'', ''PS512'', ''ES256'', ''ES384'', ''EdDSA'']"

definition MAX_DPOP_PROOF_LEN :: nat where "MAX_DPOP_PROOF_LEN = 8192"
definition MAX_DPOP_JTI_LEN :: nat where "MAX_DPOP_JTI_LEN = 128"
definition DPOP_TYP :: string where "DPOP_TYP = ''dpop+jwt''"

definition PRIVATE_JWK_MEMBERS :: "string list" where
  "PRIVATE_JWK_MEMBERS = [''d'', ''p'', ''q'', ''dp'', ''dq'', ''qi'', ''oth'', ''k'']"

record DpopProofRequest =
  req_proof :: string
  req_htm :: string
  req_htu :: string
  req_now :: int
  req_leeway :: int

record DpopBinding =
  db_jkt :: string
  db_jti :: string
  db_iat :: int
  db_replay_expires_at :: int

record DpopHolderKey =
  hk_signing_key :: string
  hk_x :: string
  hk_y :: string
  hk_d :: string
  hk_jkt :: string

record DpopProofBuild =
  pb_htm :: string
  pb_htu :: string
  pb_iat :: int
  pb_jti :: string

datatype DpopErrorKind = InvalidProof

fun dpop_kind_code :: "DpopErrorKind \<Rightarrow> string" where
  "dpop_kind_code InvalidProof = ''invalid_dpop_proof''"

record DpopError =
  dpop_kind :: DpopErrorKind
  dpop_message :: msg

abbreviation dpop_invalid :: "msg \<Rightarrow> DpopError" where
  "dpop_invalid m \<equiv> \<lparr>dpop_kind = InvalidProof, dpop_message = m\<rparr>"

definition dpop_error_text :: "DpopError \<Rightarrow> msg" where
  "dpop_error_text e = error_text (dpop_kind_code (dpop_kind e)) (dpop_message e)"

record VerifiedDpopClaims =
  vc_jti :: "json option"
  vc_htm :: "json option"
  vc_htu :: "json option"
  vc_iat :: "json option"

record OutboundDpopClaims =
  oc_jti :: string
  oc_htm :: string
  oc_htu :: string
  oc_iat :: int

record dpop_ext =
  dx_b64_encode :: "string \<Rightarrow> string"
  dx_b64_decode :: "string \<Rightarrow> string option"
  dx_json_from_slice :: "string \<Rightarrow> json option"
  dx_to_string_pretty :: "json \<Rightarrow> string option"
  dx_jwk_from_value :: "json \<Rightarrow> Jwk option"
  dx_thumbprint :: "Jwk \<Rightarrow> string"
  dx_decoding_key_ok :: "Jwk \<Rightarrow> bool"
  dx_decode :: "string \<Rightarrow> Jwk \<Rightarrow> Algorithm \<Rightarrow> VerifiedDpopClaims option"
  dx_encode :: "string \<Rightarrow> Jwk \<Rightarrow> OutboundDpopClaims \<Rightarrow> string \<Rightarrow> string option"
  p256_from_bytes :: "string \<Rightarrow> string option"
  p256_x :: "string \<Rightarrow> string option"
  p256_y :: "string \<Rightarrow> string option"
  p256_to_pkcs8 :: "string \<Rightarrow> string option"

text \<open>
  \<open>dx_decode\<close> is \<open>jsonwebtoken::decode\<close> with the registered-claim checks switched off, and
  \<open>dx_encode typ jwk claims der\<close> its \<open>encode\<close> with an ES256 header that embeds \<open>jwk\<close>.
\<close>

section \<open>Proof validation\<close>

definition check_proof_input :: "DpopProofRequest \<Rightarrow> (DpopError, unit) result" where
  "check_proof_input input =
     (if trim (req_proof input) = [] then Err (dpop_invalid (lit ''DPoP proof missing or not a string''))
      else if MAX_DPOP_PROOF_LEN < length (req_proof input) then
        Err (dpop_invalid (lit ''DPoP proof exceeds maximum allowed length''))
      else if trim (req_htm input) = [] \<or> trim (req_htu input) = [] then
        Err (dpop_invalid (lit ''DPoP request method/URI not available for proof validation''))
      else Ok ())"

definition compact_parts :: "string \<Rightarrow> (DpopError, string \<times> string \<times> string) result" where
  "compact_parts proof =
     (case split_on CHR ''.'' proof of
        [header, payload, signature] \<Rightarrow>
          if header = [] \<or> payload = [] \<or> signature = [] then
            Err (dpop_invalid (lit ''DPoP proof must be a compact JWT''))
          else Ok (header, payload, signature)
      | _ \<Rightarrow> Err (dpop_invalid (lit ''DPoP proof must be a compact JWT'')))"

definition decode_json_part :: "dpop_ext \<Rightarrow> string \<Rightarrow> string \<Rightarrow> (DpopError, json) result" where
  "decode_json_part E part name =
     and_then (ok_or (dx_b64_decode E part)
         (dpop_invalid (lit (''DPoP proof '' @ name @ '' is not valid base64url JSON'')))) (\<lambda>bytes.
     ok_or (dx_json_from_slice E bytes)
       (dpop_invalid (lit (''DPoP proof '' @ name @ '' is not valid JSON''))))"

definition ensure_asymmetric_key_matches_alg :: "Jwk \<Rightarrow> Algorithm \<Rightarrow> (DpopError, unit) result" where
  "ensure_asymmetric_key_matches_alg jwk alg =
     (if jwk_params jwk = ParamsRSA \<and> alg \<in> {RS256, RS384, RS512, PS256, PS384, PS512} \<or>
         jwk_params jwk = ParamsEllipticCurve \<and> alg \<in> {ES256, ES384} \<or>
         jwk_params jwk = ParamsOctetKeyPair \<and> alg = EdDSA then Ok ()
      else Err (dpop_invalid (lit ''DPoP proof jwk key type is not compatible with header alg'')))"

definition validate_header :: "dpop_ext \<Rightarrow> json \<Rightarrow> (DpopError, Algorithm \<times> Jwk) result" where
  "validate_header E header =
     (case as_object header of
        None \<Rightarrow> Err (dpop_invalid (lit ''DPoP proof header is not a JSON object''))
      | Some header \<Rightarrow>
          if obj_get_str header ''typ'' \<noteq> Some DPOP_TYP then
            Err (dpop_invalid (lit ''DPoP proof typ must be dpop+jwt''))
          else
            and_then (ok_or (obj_get_str header ''alg'') (dpop_invalid (lit ''DPoP proof alg is required'')))
              (\<lambda>alg_name.
            if alg_name \<notin> set DPOP_SIGNING_ALGS_SUPPORTED then
              Err (dpop_invalid [Lit ''DPoP proof alg '', Dbg alg_name,
                                 Lit '' is not an allowed asymmetric algorithm''])
            else
              and_then (ok_or (algorithm_from_str alg_name)
                  (dpop_invalid (lit ''DPoP proof alg is not supported''))) (\<lambda>alg.
              and_then (ok_or (obj_get header ''jwk'')
                  (dpop_invalid (lit ''DPoP proof header must carry a public jwk''))) (\<lambda>jwk_value.
              case as_object jwk_value of
                None \<Rightarrow> Err (dpop_invalid (lit ''DPoP proof header must carry a public jwk''))
              | Some jwk_object \<Rightarrow>
                  if list_ex (contains_key jwk_object) PRIVATE_JWK_MEMBERS then
                    Err (dpop_invalid (lit ''DPoP proof jwk must not contain private key material''))
                  else if (case obj_get_str jwk_object ''alg'' of None \<Rightarrow> False
                           | Some key_alg \<Rightarrow> key_alg \<noteq> alg_name) then
                    Err (dpop_invalid (lit ''DPoP proof jwk alg does not match header alg''))
                  else
                    and_then (ok_or (dx_jwk_from_value E jwk_value)
                        (dpop_invalid (lit ''DPoP proof jwk is not a valid public key''))) (\<lambda>jwk.
                    and_then (ensure_asymmetric_key_matches_alg jwk alg) (\<lambda>_.
                    Ok (alg, jwk)))))))"

definition verify_proof_signature ::
    "dpop_ext \<Rightarrow> string \<Rightarrow> Algorithm \<Rightarrow> Jwk \<Rightarrow> (DpopError, VerifiedDpopClaims) result" where
  "verify_proof_signature E proof alg jwk =
     (if \<not> dx_decoding_key_ok E jwk then
        Err (dpop_invalid (lit ''DPoP proof jwk is not a valid public key''))
      else ok_or (dx_decode E proof jwk alg)
             (dpop_invalid (lit ''DPoP proof signature does not verify'')))"

definition required_string_claim :: "json option \<Rightarrow> string \<Rightarrow> (DpopError, string) result" where
  "required_string_claim value claim =
     ok_or (non_empty (Option.bind value as_str))
       (dpop_invalid (lit (''DPoP proof '' @ claim @ '' must be a non-empty string'')))"

definition validate_jti :: "string \<Rightarrow> (DpopError, string) result" where
  "validate_jti jti =
     (if MAX_DPOP_JTI_LEN < length jti then
        Err (dpop_invalid (lit ''DPoP proof jti exceeds maximum allowed length''))
      else Ok jti)"

definition validate_htm :: "string \<Rightarrow> string \<Rightarrow> (DpopError, unit) result" where
  "validate_htm claim_htm htm =
     (if claim_htm \<noteq> htm then
        Err (dpop_invalid (lit ''DPoP proof htm does not match the request method''))
      else Ok ())"

definition default_port :: "string \<Rightarrow> nat option" where
  "default_port scheme =
     (if scheme = ''https'' then Some 443 else if scheme = ''http'' then Some 80 else None)"

definition canonical_htu :: "url_parse \<Rightarrow> string \<Rightarrow> string option" where
  "canonical_htu url value =
     Option.bind (url value) (\<lambda>parsed.
     let scheme = to_ascii_lowercase (url_scheme parsed) in
     Option.bind (url_host_str parsed) (\<lambda>host_str.
     let host = to_ascii_lowercase host_str;
         netloc = (case url_port parsed of
             Some port \<Rightarrow> if Some port \<noteq> default_port scheme then host @ '':'' @ display_nat port else host
           | None \<Rightarrow> host)
     in Some (scheme @ ''://'' @ netloc @ url_path parsed)))"

definition validate_htu :: "url_parse \<Rightarrow> string \<Rightarrow> string \<Rightarrow> (DpopError, unit) result" where
  "validate_htu url claim_htu htu =
     and_then (ok_or (canonical_htu url claim_htu)
         (dpop_invalid (lit ''DPoP proof htu is not a valid absolute URI''))) (\<lambda>claim_htu.
     and_then (ok_or (canonical_htu url htu)
         (dpop_invalid (lit ''DPoP request URI is not a valid absolute URI''))) (\<lambda>request_htu.
     if claim_htu \<noteq> request_htu then
       Err (dpop_invalid (lit ''DPoP proof htu does not match the request URI''))
     else Ok ()))"

text \<open>
  \<open>value as i64\<close> truncates towards zero and saturates; \<open>i64::MAX as f64\<close> is \<open>2 ^ 63\<close>.
\<close>

definition truncate_rat :: "rat \<Rightarrow> int" where
  "truncate_rat q = (if 0 \<le> q then \<lfloor>q\<rfloor> else \<lceil>q\<rceil>)"

definition f64_to_i64 :: "rat \<Rightarrow> int" where
  "f64_to_i64 q = max i64_min (min i64_max (truncate_rat q))"

definition value_to_i64 :: "json \<Rightarrow> int option" where
  "value_to_i64 value =
     (case as_i64 value of
        Some v \<Rightarrow> Some v
      | None \<Rightarrow>
          (case as_u64 value of
             Some v \<Rightarrow> if int v \<le> i64_max then Some (int v) else None
           | None \<Rightarrow>
               (case value of
                  JNumber (Float q) \<Rightarrow>
                    if - (2 ^ 63) \<le> q \<and> q \<le> 2 ^ 63 then Some (f64_to_i64 q) else None
                | _ \<Rightarrow> None)))"

definition validate_iat :: "json option \<Rightarrow> int \<Rightarrow> int \<Rightarrow> (DpopError, int) result" where
  "validate_iat value now leeway =
     and_then (ok_or value (dpop_invalid (lit ''DPoP proof missing required claim iat''))) (\<lambda>value.
     and_then (ok_or (value_to_i64 value) (dpop_invalid (lit ''DPoP proof iat must be a finite number''))) (\<lambda>iat.
     if max leeway 0 < abs_diff now iat then
       Err (dpop_invalid (lit ''DPoP proof iat is outside the acceptable window''))
     else Ok iat))"

definition validate_dpop_proof ::
    "dpop_ext \<Rightarrow> url_parse \<Rightarrow> DpopProofRequest \<Rightarrow> (DpopError, DpopBinding) result" where
  "validate_dpop_proof E url input =
     and_then (check_proof_input input) (\<lambda>_.
     and_then (compact_parts (req_proof input)) (\<lambda>(header_b64, _, _).
     and_then (decode_json_part E header_b64 ''header'') (\<lambda>header.
     and_then (validate_header E header) (\<lambda>(alg, jwk).
     and_then (verify_proof_signature E (req_proof input) alg jwk) (\<lambda>claims.
     and_then (required_string_claim (vc_jti claims) ''jti'') (\<lambda>jti.
     and_then (validate_jti jti) (\<lambda>jti.
     and_then (required_string_claim (vc_htm claims) ''htm'') (\<lambda>htm.
     and_then (validate_htm htm (req_htm input)) (\<lambda>_.
     and_then (required_string_claim (vc_htu claims) ''htu'') (\<lambda>htu.
     and_then (validate_htu url htu (req_htu input)) (\<lambda>_.
     and_then (validate_iat (vc_iat claims) (req_now input) (req_leeway input)) (\<lambda>iat.
     let leeway = max (req_leeway input) 0 in
     Ok \<lparr>db_jkt = dx_thumbprint E jwk, db_jti = jti, db_iat = iat,
         db_replay_expires_at = saturating_add iat leeway\<rparr>))))))))))))"

section \<open>The holder key\<close>

definition required_jwk_string :: "(string \<times> json) list \<Rightarrow> string \<Rightarrow> (DpopError, string) result" where
  "required_jwk_string object name =
     ok_or (non_empty (obj_get_str object name)) (dpop_invalid (lit (''DPoP holder key missing '' @ name)))"

definition decode_coordinate :: "dpop_ext \<Rightarrow> string \<Rightarrow> string \<Rightarrow> (DpopError, string) result" where
  "decode_coordinate E value name =
     and_then (ok_or (dx_b64_decode E value)
         (dpop_invalid (lit (''DPoP holder key '' @ name @ '' is not base64url'')))) (\<lambda>decoded.
     if length decoded \<noteq> 32 then
       Err (dpop_invalid (lit (''DPoP holder key '' @ name @ '' must be 32 bytes'')))
     else Ok decoded)"

text \<open>\<open>serde_json\<close> objects keep their members in key order.\<close>

definition ec_public_jwk_value :: "string \<Rightarrow> string \<Rightarrow> json" where
  "ec_public_jwk_value x y =
     JObject [(''alg'', JString ''ES256''), (''crv'', JString ''P-256''), (''kty'', JString ''EC''),
              (''x'', JString x), (''y'', JString y)]"

definition from_signing_key :: "dpop_ext \<Rightarrow> string \<Rightarrow> (DpopError, DpopHolderKey) result" where
  "from_signing_key E signing_key =
     and_then (ok_or (p256_x E signing_key) (dpop_invalid (lit ''DPoP public key missing x coordinate''))) (\<lambda>px.
     let x = dx_b64_encode E px in
     and_then (ok_or (p256_y E signing_key) (dpop_invalid (lit ''DPoP public key missing y coordinate''))) (\<lambda>py.
     let y = dx_b64_encode E py; d = dx_b64_encode E signing_key in
     and_then (ok_or (dx_jwk_from_value E (ec_public_jwk_value x y))
         (dpop_invalid (lit ''generated DPoP public JWK is invalid''))) (\<lambda>public_jwk.
     Ok \<lparr>hk_signing_key = signing_key, hk_x = x, hk_y = y, hk_d = d, hk_jkt = dx_thumbprint E public_jwk\<rparr>)))"

definition public_jwk_value :: "DpopHolderKey \<Rightarrow> json" where
  "public_jwk_value key = ec_public_jwk_value (hk_x key) (hk_y key)"

definition holder_public_jwk :: "dpop_ext \<Rightarrow> DpopHolderKey \<Rightarrow> (DpopError, Jwk) result" where
  "holder_public_jwk E key =
     ok_or (dx_jwk_from_value E (public_jwk_value key)) (dpop_invalid (lit ''DPoP public JWK is invalid''))"

definition dpop_from_private_jwk :: "dpop_ext \<Rightarrow> string \<Rightarrow> (DpopError, DpopHolderKey) result" where
  "dpop_from_private_jwk E raw =
     and_then (ok_or (dx_json_from_slice E raw) (dpop_invalid (lit ''DPoP holder key file is not valid JSON''))) (\<lambda>value.
     and_then (ok_or (as_object value) (dpop_invalid (lit ''DPoP holder key must be a JSON object''))) (\<lambda>object.
     and_then (required_jwk_string object ''kty'') (\<lambda>kty.
     and_then (required_jwk_string object ''crv'') (\<lambda>crv.
     and_then (required_jwk_string object ''x'') (\<lambda>x.
     and_then (required_jwk_string object ''y'') (\<lambda>y.
     and_then (required_jwk_string object ''d'') (\<lambda>d.
     if kty \<noteq> ''EC'' \<or> crv \<noteq> ''P-256'' then
       Err (dpop_invalid (lit ''DPoP holder key must be an EC P-256 JWK''))
     else if (case obj_get_str object ''alg'' of None \<Rightarrow> False | Some alg \<Rightarrow> alg \<noteq> ''ES256'') then
       Err (dpop_invalid (lit ''DPoP holder key alg must be ES256 when present''))
     else if contains_key object ''k'' then
       Err (dpop_invalid (lit ''DPoP holder key must not be symmetric JWK material''))
     else
       and_then (decode_coordinate E d ''d'') (\<lambda>d_bytes.
       and_then (ok_or (p256_from_bytes E d_bytes)
           (dpop_invalid (lit ''DPoP holder key private scalar is invalid''))) (\<lambda>signing_key.
       and_then (from_signing_key E signing_key) (\<lambda>key.
       if hk_x key \<noteq> x \<or> hk_y key \<noteq> y then
         Err (dpop_invalid (lit ''DPoP holder key public coordinates do not match private scalar''))
       else Ok key))))))))))"

text \<open>\<open>signing_key\<close> is what \<open>SigningKey::random\<close> drew.\<close>

definition dpop_generate_private_jwk :: "dpop_ext \<Rightarrow> string \<Rightarrow> (DpopError, string \<times> string) result" where
  "dpop_generate_private_jwk E signing_key =
     and_then (from_signing_key E signing_key) (\<lambda>key.
     and_then (ok_or (dx_to_string_pretty E (JObject
           [(''alg'', JString ''ES256''), (''crv'', JString ''P-256''), (''d'', JString (hk_d key)),
            (''kid'', JString (hk_jkt key)), (''kty'', JString ''EC''), (''use'', JString ''sig''),
            (''x'', JString (hk_x key)), (''y'', JString (hk_y key))]))
         (dpop_invalid (lit ''failed to encode generated DPoP private JWK''))) (\<lambda>private_jwk_json.
     Ok (private_jwk_json @ [CHR 0x0A], hk_jkt key)))"

definition sign_proof :: "dpop_ext \<Rightarrow> DpopHolderKey \<Rightarrow> DpopProofBuild \<Rightarrow> (DpopError, string) result" where
  "sign_proof E key proof =
     (if trim (pb_htm proof) = [] \<or> trim (pb_htu proof) = [] then
        Err (dpop_invalid (lit ''DPoP proof htm/htu must not be empty''))
      else
        and_then (validate_jti (pb_jti proof)) (\<lambda>_.
        and_then (holder_public_jwk E key) (\<lambda>jwk.
        let claims = \<lparr>oc_jti = pb_jti proof, oc_htm = pb_htm proof, oc_htu = pb_htu proof, oc_iat = pb_iat proof\<rparr> in
        and_then (ok_or (p256_to_pkcs8 E (hk_signing_key key))
            (dpop_invalid (lit ''failed to encode DPoP holder key''))) (\<lambda>der.
        ok_or (dx_encode E DPOP_TYP jwk claims der) (dpop_invalid (lit ''failed to sign DPoP proof''))))))"

text \<open>
  \<open>dpop_htu_for_request_uri\<close>: \<open>render\<close> is \<open>Url::to_string\<close>.
\<close>

definition dpop_htu_for_request_uri ::
    "url_parse \<Rightarrow> (ParsedUrl \<Rightarrow> string) \<Rightarrow> string \<Rightarrow> (DpopError, string) result" where
  "dpop_htu_for_request_uri url render uri =
     and_then (ok_or (url uri) (dpop_invalid (lit ''DPoP htu must be an absolute URI''))) (\<lambda>parsed.
     Ok (render (parsed\<lparr>url_query := None, url_fragment := None\<rparr>)))"

section \<open>Lemmas\<close>

lemma required_string_claim_ok:
  "required_string_claim v c = Ok s \<longleftrightarrow> v = Some (JString s) \<and> s \<noteq> []"
  by (auto simp: required_string_claim_def result_iff Option.bind_eq_Some_conv)

lemma compact_parts_ok:
  "compact_parts proof = Ok (h, p, s) \<longleftrightarrow> split_on CHR ''.'' proof = [h, p, s] \<and> h \<noteq> [] \<and> p \<noteq> [] \<and> s \<noteq> []"
  by (auto simp: compact_parts_def split: list.splits if_splits)

text \<open>What a header that passes \<open>validate_header\<close> holds.\<close>

definition header_carries ::
    "dpop_ext \<Rightarrow> (string \<times> json) list \<Rightarrow> string \<Rightarrow> Algorithm \<Rightarrow> (string \<times> json) list \<Rightarrow> Jwk \<Rightarrow> bool" where
  "header_carries E header alg_name alg members jwk \<longleftrightarrow>
     obj_get header ''typ'' = Some (JString DPOP_TYP) \<and> obj_get header ''alg'' = Some (JString alg_name) \<and>
     alg_name \<in> set DPOP_SIGNING_ALGS_SUPPORTED \<and> algorithm_from_str alg_name = Some alg \<and>
     obj_get header ''jwk'' = Some (JObject members) \<and>
     set PRIVATE_JWK_MEMBERS \<inter> fst ` set members = {} \<and>
     (case obj_get_str members ''alg'' of None \<Rightarrow> True | Some a \<Rightarrow> a = alg_name) \<and>
     dx_jwk_from_value E (JObject members) = Some jwk \<and> ensure_asymmetric_key_matches_alg jwk alg = Ok ()"

lemma list_ex_contains_key: "list_ex (contains_key m) ks \<longleftrightarrow> set ks \<inter> fst ` set m \<noteq> {}"
  by (auto simp: list_ex_iff contains_key_iff)

lemma alg_clash:
  "(case v of None \<Rightarrow> False | Some a \<Rightarrow> a \<noteq> n) \<longleftrightarrow> \<not> (case v of None \<Rightarrow> True | Some a \<Rightarrow> a = n)"
  by (cases v) auto

lemma case_as_object_ok:
  "(case as_object v of None \<Rightarrow> Err e | Some m \<Rightarrow> f m) = Ok y \<longleftrightarrow> (\<exists>m. v = JObject m \<and> f m = Ok y)"
  by (cases v) auto

lemma validate_header_ok:
  "validate_header E v = Ok (alg, jwk) \<longleftrightarrow>
     (\<exists>header alg_name members. v = JObject header \<and> header_carries E header alg_name alg members jwk)"
  unfolding validate_header_def case_as_object_ok header_carries_def
  by (auto simp: if_error_ok and_then_ok ok_or_ok list_ex_contains_key alg_clash case_as_object_ok)

lemma value_to_i64_range:
  assumes "value_to_i64 v = Some i" "\<And>n. v = JNumber n \<Longrightarrow> number_wf n"
  shows "in_i64 i"
proof (cases "as_i64 v")
  case (Some j)
  with assms show ?thesis by (simp add: value_to_i64_def as_i64_range)
next
  case None
  with assms(1) show ?thesis
    by (cases v rule: as_u64.cases)
       (auto simp: value_to_i64_def f64_to_i64_def i64_bounds split: if_splits json_number.splits)
qed

lemma validate_iat_ok:
  "validate_iat v now leeway = Ok iat \<longleftrightarrow>
     (\<exists>j. v = Some j \<and> value_to_i64 j = Some iat) \<and> \<bar>now - iat\<bar> \<le> max leeway 0"
  by (auto simp: validate_iat_def result_iff abs_diff_def split: if_splits)

lemma validate_htu_ok:
  "validate_htu url a b = Ok u \<longleftrightarrow> canonical_htu url b \<noteq> None \<and> canonical_htu url a = canonical_htu url b"
  by (auto simp: validate_htu_def result_iff split: if_splits)

text \<open>Everything an accepted proof satisfies; the converse holds too.\<close>

definition proof_satisfies ::
    "dpop_ext \<Rightarrow> url_parse \<Rightarrow> DpopProofRequest \<Rightarrow> DpopBinding \<Rightarrow> bool" where
  "proof_satisfies E url input b \<longleftrightarrow>
     (\<exists>h p s bytes header alg_name alg members jwk claims htu j.
        split_on CHR ''.'' (req_proof input) = [h, p, s] \<and> h \<noteq> [] \<and> p \<noteq> [] \<and> s \<noteq> [] \<and>
        dx_b64_decode E h = Some bytes \<and> dx_json_from_slice E bytes = Some (JObject header) \<and>
        header_carries E header alg_name alg members jwk \<and>
        dx_decoding_key_ok E jwk \<and> dx_decode E (req_proof input) jwk alg = Some claims \<and>
        vc_jti claims = Some (JString (db_jti b)) \<and> db_jti b \<noteq> [] \<and> length (db_jti b) \<le> 128 \<and>
        vc_htm claims = Some (JString (req_htm input)) \<and>
        vc_htu claims = Some (JString htu) \<and> htu \<noteq> [] \<and> canonical_htu url (req_htu input) \<noteq> None \<and>
        canonical_htu url htu = canonical_htu url (req_htu input) \<and>
        vc_iat claims = Some j \<and> value_to_i64 j = Some (db_iat b) \<and>
        \<bar>req_now input - db_iat b\<bar> \<le> max (req_leeway input) 0 \<and>
        db_jkt b = dx_thumbprint E jwk \<and>
        db_replay_expires_at b = saturating_add (db_iat b) (max (req_leeway input) 0))"

lemma check_proof_input_ok:
  "check_proof_input input = Ok u \<longleftrightarrow> trim (req_proof input) \<noteq> [] \<and> length (req_proof input) \<le> 8192 \<and>
     trim (req_htm input) \<noteq> [] \<and> trim (req_htu input) \<noteq> []"
  by (auto simp: check_proof_input_def MAX_DPOP_PROOF_LEN_def)

lemma validate_dpop_ok:
  assumes "validate_dpop_proof E url input = Ok b"
  shows "check_proof_input input = Ok ()" "proof_satisfies E url input b"
proof -
  from assms obtain h p s hv alg jwk claims jti htm htu iat where
    *: "check_proof_input input = Ok ()" "compact_parts (req_proof input) = Ok (h, p, s)"
    "decode_json_part E h ''header'' = Ok hv" "validate_header E hv = Ok (alg, jwk)"
    "verify_proof_signature E (req_proof input) alg jwk = Ok claims"
    "required_string_claim (vc_jti claims) ''jti'' = Ok jti" "validate_jti jti = Ok jti"
    "required_string_claim (vc_htm claims) ''htm'' = Ok htm" "validate_htm htm (req_htm input) = Ok ()"
    "required_string_claim (vc_htu claims) ''htu'' = Ok htu" "validate_htu url htu (req_htu input) = Ok ()"
    "validate_iat (vc_iat claims) (req_now input) (req_leeway input) = Ok iat"
    "b = \<lparr>db_jkt = dx_thumbprint E jwk, db_jti = jti, db_iat = iat,
         db_replay_expires_at = saturating_add iat (max (req_leeway input) 0)\<rparr>"
    unfolding validate_dpop_proof_def
    by (auto simp: and_then_ok Let_def validate_jti_def split: if_splits prod.splits)
  then show "check_proof_input input = Ok ()" by simp
  from *(3) obtain bytes where bytes: "dx_b64_decode E h = Some bytes" "dx_json_from_slice E bytes = Some hv"
    by (auto simp: decode_json_part_def result_iff)
  from *(4) obtain header alg_name members where
    hd: "hv = JObject header" "header_carries E header alg_name alg members jwk"
    by (auto simp: validate_header_ok)
  from *(5) have sig: "dx_decoding_key_ok E jwk" "dx_decode E (req_proof input) jwk alg = Some claims"
    by (auto simp: verify_proof_signature_def result_iff split: if_splits)
  from *(12) obtain j where "vc_iat claims = Some j" "value_to_i64 j = Some iat" "\<bar>req_now input - iat\<bar> \<le> max (req_leeway input) 0"
    by (auto simp: validate_iat_ok)
  moreover from *(7,9) have "length jti \<le> 128" "htm = req_htm input"
    by (simp_all add: validate_jti_def validate_htm_def MAX_DPOP_JTI_LEN_def split: if_splits)
  moreover note *(2,6,8,10,11) [unfolded compact_parts_ok required_string_claim_ok validate_htu_ok]
  ultimately show "proof_satisfies E url input b"
    unfolding proof_satisfies_def *(13) using bytes hd sig
    by - (rule exI [of _ h], rule exI [of _ p], rule exI [of _ s], rule exI [of _ bytes], rule exI [of _ header],
         rule exI [of _ alg_name], rule exI [of _ alg], rule exI [of _ members], rule exI [of _ jwk],
         rule exI [of _ claims], rule exI [of _ htu], rule exI [of _ j], simp)
qed

lemma validate_dpop_complete:
  assumes "check_proof_input input = Ok ()" "proof_satisfies E url input b"
  shows "validate_dpop_proof E url input = Ok b"
proof -
  from assms(2) obtain h p s bytes header alg_name alg members jwk claims htu j where
    *: "compact_parts (req_proof input) = Ok (h, p, s)" "dx_b64_decode E h = Some bytes"
      "dx_json_from_slice E bytes = Some (JObject header)" "header_carries E header alg_name alg members jwk"
      "verify_proof_signature E (req_proof input) alg jwk = Ok claims"
      "required_string_claim (vc_jti claims) ''jti'' = Ok (db_jti b)" "length (db_jti b) \<le> 128"
      "vc_htm claims = Some (JString (req_htm input))"
      "required_string_claim (vc_htu claims) ''htu'' = Ok htu" "validate_htu url htu (req_htu input) = Ok ()"
      "validate_iat (vc_iat claims) (req_now input) (req_leeway input) = Ok (db_iat b)"
      "db_jkt b = dx_thumbprint E jwk" "db_replay_expires_at b = saturating_add (db_iat b) (max (req_leeway input) 0)"
    unfolding proof_satisfies_def compact_parts_ok required_string_claim_ok validate_htu_ok validate_iat_ok
    by (auto simp: verify_proof_signature_def)
  have hdr: "validate_header E (JObject header) = Ok (alg, jwk)" using *(4) by (auto simp: validate_header_ok)
  have htm: "required_string_claim (vc_htm claims) ''htm'' = Ok (req_htm input)"
    using *(8) assms(1) by (auto simp: required_string_claim_ok check_proof_input_ok)
  show ?thesis
    using assms(1) * hdr htm
    by (simp add: validate_dpop_proof_def decode_json_part_def validate_jti_def validate_htm_def
        MAX_DPOP_JTI_LEN_def Let_def)
qed

section \<open>Canonical targets\<close>

definition effective_port :: "ParsedUrl \<Rightarrow> nat option" where
  "effective_port p =
     (case url_port p of None \<Rightarrow> None
      | Some port \<Rightarrow> if default_port (to_ascii_lowercase (url_scheme p)) = Some port then None else Some port)"

definition netloc :: "string \<Rightarrow> nat option \<Rightarrow> string" where
  "netloc host port = (case port of None \<Rightarrow> host | Some n \<Rightarrow> host @ '':'' @ display_nat n)"

text \<open>
  What \<open>url\<close> guarantees of a URL with a host: no colon in the scheme, no slash in the host, a
  colon in the host only inside the brackets of an IPv6 address, and a path that starts with a
  slash.
\<close>

definition url_shape :: "ParsedUrl \<Rightarrow> string \<Rightarrow> bool" where
  "url_shape p host \<longleftrightarrow> url_host_str p = Some host \<and> CHR '':'' \<notin> set (url_scheme p) \<and> CHR ''/'' \<notin> set host \<and>
     (CHR '':'' \<in> set host \<longrightarrow> last host = CHR '']'') \<and> host \<noteq> [] \<and> (\<exists>t. url_path p = CHR ''/'' # t)"

lemma canonical_htu_alt:
  assumes "url v = Some p" "url_host_str p = Some host"
  shows "canonical_htu url v =
     Some (to_ascii_lowercase (url_scheme p) @ ''://'' @ netloc (to_ascii_lowercase host) (effective_port p) @ url_path p)"
  using assms
  by (auto simp: canonical_htu_def netloc_def effective_port_def Let_def split: option.splits)

lemma ascii_lower_eq_punct:
  "c \<in> {CHR '':'', CHR ''/'', CHR '']''} \<Longrightarrow> ascii_lower a = c \<longleftrightarrow> a = c"
proof -
  assume c: "c \<in> {CHR '':'', CHR ''/'', CHR '']''}"
  have pc: "(of_char c :: nat) \<in> {58, 47, 93}" using c by auto
  show ?thesis
  proof (cases "(65::nat) \<le> of_char a \<and> (of_char a :: nat) \<le> 90")
    case True
    then have "(of_char (ascii_lower a) :: nat) = of_char a + 32" by (simp add: ascii_lower_def)
    with True pc show ?thesis by auto
  next
    case False
    then show ?thesis by (auto simp: ascii_lower_def)
  qed
qed

lemma lower_punct_mem:
  "c \<in> {CHR '':'', CHR ''/'', CHR '']''} \<Longrightarrow> c \<in> set (to_ascii_lowercase s) \<longleftrightarrow> c \<in> set s"
proof -
  assume c: "c \<in> {CHR '':'', CHR ''/'', CHR '']''}"
  have "c = ascii_lower a \<longleftrightarrow> a = c" for a using ascii_lower_eq_punct [OF c, of a] by (simp add: eq_commute [of c])
  then show ?thesis by (simp add: to_ascii_lowercase_def image_iff)
qed

lemma lower_last_bracket: "s \<noteq> [] \<Longrightarrow> last (to_ascii_lowercase s) = CHR '']'' \<longleftrightarrow> last s = CHR '']''"
  by (simp add: to_ascii_lowercase_def last_map ascii_lower_eq_punct)

lemma display_nat_no_punct: "CHR '':'' \<notin> set (display_nat n)" "CHR ''/'' \<notin> set (display_nat n)" "CHR '']'' \<notin> set (display_nat n)"
proof -
  have "of_char c \<in> {48..57::nat}" if "c \<in> set (display_nat n)" for c
    using display_nat_digits [OF that] by (auto simp: digit_char_def)
  from this [of "CHR '':''"] this [of "CHR ''/''"] this [of "CHR '']''"]
  show "CHR '':'' \<notin> set (display_nat n)" "CHR ''/'' \<notin> set (display_nat n)" "CHR '']'' \<notin> set (display_nat n)"
    by auto
qed

lemma display_nat_inj: "display_nat m = display_nat n \<Longrightarrow> m = n"
  by (metis option.inject parse_digits_display)

lemma split_first:
  assumes "c \<notin> set a" "c \<notin> set b" "a @ c # x = b @ c # y"
  shows "a = b \<and> x = y"
proof -
  have "takeWhile (\<lambda>z. z \<noteq> c) (a @ c # x) = a" "takeWhile (\<lambda>z. z \<noteq> c) (b @ c # y) = b"
    using assms(1,2) by (auto simp: takeWhile_append)
  with assms(3) have "a = b" by simp
  with assms(3) show ?thesis by simp
qed

definition host_ok :: "string \<Rightarrow> bool" where
  "host_ok h \<longleftrightarrow> CHR '':'' \<notin> set h \<or> last h = CHR '']''"

lemma host_ok_no_port: "host_ok (h @ '':'' @ display_nat n) \<longleftrightarrow> False"
proof -
  have "last (display_nat n) \<noteq> CHR '']''"
    using display_nat_no_punct(3) [of n] last_in_set [OF display_nat_nonempty, of n] by metis
  then show ?thesis by (simp add: host_ok_def)
qed

lemma netloc_inj:
  assumes "netloc h p = netloc h' p'" "host_ok h" "host_ok h'"
  shows "h = h' \<and> p = p'"
proof (cases p; cases p')
  fix m n assume p: "p = Some m" "p' = Some n"
  with assms(1) have "h @ '':'' @ display_nat m = h' @ '':'' @ display_nat n" by (simp add: netloc_def)
  from arg_cong [where f = rev, OF this] have "rev (display_nat m) @ CHR '':'' # rev h = rev (display_nat n) @ CHR '':'' # rev h'"
    by simp
  then have "rev (display_nat m) = rev (display_nat n) \<and> rev h = rev h'"
    by (intro split_first) (simp_all add: display_nat_no_punct)
  then show ?thesis using p by (metis display_nat_inj rev_rev_ident)
qed (use assms host_ok_no_port in \<open>auto simp: netloc_def\<close>)

section \<open>Outbound claims\<close>

text \<open>The claims of a proof as they are read on the other side.\<close>

definition claims_value :: "OutboundDpopClaims \<Rightarrow> VerifiedDpopClaims" where
  "claims_value c =
     \<lparr>vc_jti = Some (JString (oc_jti c)), vc_htm = Some (JString (oc_htm c)), vc_htu = Some (JString (oc_htu c)),
      vc_iat = Some (JNumber (if 0 \<le> oc_iat c then PosInt (nat (oc_iat c)) else NegInt (oc_iat c)))\<rparr>"

lemma value_to_i64_int:
  "in_i64 i \<Longrightarrow> 0 \<le> i \<Longrightarrow> value_to_i64 (JNumber (PosInt (nat i))) = Some i"
  "value_to_i64 (JNumber (NegInt i)) = Some i"
  by (simp_all add: value_to_i64_def i64_bounds)

section \<open>Properties\<close>

text \<open>
  C26: exactly when a DPoP proof is accepted, and with which binding. The input must be present and
  within the size cap; the header must be a \<open>dpop+jwt\<close> header with an allowed asymmetric
  algorithm and a public key without private members that fits it; the signature must verify under
  that embedded key; method and target must match the request, \<open>iat\<close> must lie within the leeway
  of the clock, and the binding is the key's thumbprint with the proof's \<open>jti\<close>.
\<close>

theorem dpop_proof_accepted_iff:
  "validate_dpop_proof E url input = Ok b \<longleftrightarrow>
     trim (req_proof input) \<noteq> [] \<and> length (req_proof input) \<le> 8192 \<and>
     trim (req_htm input) \<noteq> [] \<and> trim (req_htu input) \<noteq> [] \<and> proof_satisfies E url input b"
proof -
  have "validate_dpop_proof E url input = Ok b \<longleftrightarrow> check_proof_input input = Ok () \<and> proof_satisfies E url input b"
    using validate_dpop_ok validate_dpop_complete by blast
  then show ?thesis by (simp add: check_proof_input_ok)
qed

lemma same_proof_binding:
  assumes "validate_dpop_proof E url r1 = Ok b1" "validate_dpop_proof E url r2 = Ok b2"
    and "req_proof r2 = req_proof r1" "req_leeway r2 = req_leeway r1"
  shows "b2 = b1"
proof -
  note s1 = validate_dpop_ok(2) [OF assms(1), unfolded proof_satisfies_def]
    and s2 = validate_dpop_ok(2) [OF assms(2), unfolded proof_satisfies_def assms(3,4)]
  from s1 s2 have "db_jkt b2 = db_jkt b1" "db_jti b2 = db_jti b1" "db_iat b2 = db_iat b1"
    by (auto simp: header_carries_def)
  moreover from s1 have "db_replay_expires_at b1 = saturating_add (db_iat b1) (max (req_leeway r1) 0)" by blast
  moreover from s2 have "db_replay_expires_at b2 = saturating_add (db_iat b2) (max (req_leeway r1) 0)" by blast
  ultimately show ?thesis by simp
qed

lemma proof_before_record_expiry:
  assumes "validate_dpop_proof E url r = Ok b" "req_now r \<le> i64_max"
  shows "req_now r \<le> db_replay_expires_at b"
proof -
  note s = validate_dpop_ok(2) [OF assms(1), unfolded proof_satisfies_def]
  from s have "db_replay_expires_at b = saturating_add (db_iat b) (max (req_leeway r) 0)"
    "\<bar>req_now r - db_iat b\<bar> \<le> max (req_leeway r) 0" by blast+
  then show ?thesis using saturating_add_mono [OF _ assms(2), of "db_iat b" "max (req_leeway r) 0"] by simp
qed

lemma record_expiry_in_i64:
  assumes "validate_dpop_proof E url r = Ok b"
  shows "in_i64 (db_replay_expires_at b)"
proof -
  from validate_dpop_ok(2) [OF assms(1), unfolded proof_satisfies_def]
  have "db_replay_expires_at b = saturating_add (db_iat b) (max (req_leeway r) 0)" by blast
  then show ?thesis by (simp add: saturating_add_def i64_bounds)
qed

lemma record_expiry:
  "validate_dpop_proof E url r = Ok b \<Longrightarrow> db_replay_expires_at b = saturating_add (db_iat b) (max (req_leeway r) 0)"
  using validate_dpop_ok(2) unfolding proof_satisfies_def by blast

text \<open>A proof is still accepted at the second its record expires.\<close>

lemma proof_valid_at_expiry:
  assumes "validate_dpop_proof E url r = Ok b" "0 \<le> req_leeway r" "in_i64 (db_iat b + req_leeway r)"
  shows "validate_dpop_proof E url (r\<lparr>req_now := db_replay_expires_at b\<rparr>) = Ok b"
proof (rule validate_dpop_complete)
  note s = validate_dpop_ok [OF assms(1)]
  from s(1) show "check_proof_input (r\<lparr>req_now := db_replay_expires_at b\<rparr>) = Ok ()" by (simp add: check_proof_input_ok)
  have "db_replay_expires_at b = db_iat b + req_leeway r"
    using record_expiry [OF assms(1)] assms(2,3) by (simp add: saturating_add_def i64_bounds)
  with s(2) assms(2) show "proof_satisfies E url (r\<lparr>req_now := db_replay_expires_at b\<rparr>) b"
    unfolding proof_satisfies_def by (simp, blast)
qed

text \<open>
  The replay record of a proof outlives the proof. If the same proof is accepted in two
  requests under the same leeway, both yield the same key and \<open>jti\<close>, and the later clock reading
  does not exceed the expiry the first acceptance recorded.
\<close>

theorem dpop_record_covers_window:
  assumes "validate_dpop_proof E url r1 = Ok b1" "validate_dpop_proof E url r2 = Ok b2"
    and "req_proof r2 = req_proof r1" "req_leeway r2 = req_leeway r1" "req_now r2 \<le> i64_max"
  shows "db_jkt b2 = db_jkt b1 \<and> db_jti b2 = db_jti b1 \<and> db_replay_expires_at b2 = db_replay_expires_at b1 \<and>
         req_now r2 \<le> db_replay_expires_at b1"
  using same_proof_binding [OF assms(1-4)] proof_before_record_expiry [OF assms(2,5)] by simp

text \<open>
  C28: target matching cannot confuse two targets. For URLs of the shape that \<open>Url::parse\<close> yields,
  the canonical \<open>htu\<close> values agree exactly when scheme and host agree up to ASCII case, the
  effective ports agree, and the paths are equal; query and fragment do not matter.
\<close>

theorem canonical_htu_iff:
  assumes "url a = Some p" "url b = Some q" "url_shape p h" "url_shape q k"
  shows "canonical_htu url a = canonical_htu url b \<longleftrightarrow>
     to_ascii_lowercase (url_scheme p) = to_ascii_lowercase (url_scheme q) \<and>
     to_ascii_lowercase h = to_ascii_lowercase k \<and>
     effective_port p = effective_port q \<and> url_path p = url_path q"
proof -
  let ?s = "\<lambda>u. to_ascii_lowercase (url_scheme u)"
  let ?n = "\<lambda>u x. netloc (to_ascii_lowercase x) (effective_port u)"
  obtain t u where path: "url_path p = CHR ''/'' # t" "url_path q = CHR ''/'' # u"
    using assms(3,4) by (auto simp: url_shape_def)
  have sch: "CHR '':'' \<notin> set (?s p)" "CHR '':'' \<notin> set (?s q)"
    using assms(3,4) by (simp_all add: url_shape_def lower_punct_mem)
  have net: "CHR ''/'' \<notin> set (?n p h)" "CHR ''/'' \<notin> set (?n q k)"
    using assms(3,4) display_nat_no_punct(2)
    by (auto simp: netloc_def url_shape_def lower_punct_mem split: option.splits)
  have ok: "host_ok (to_ascii_lowercase h)" "host_ok (to_ascii_lowercase k)"
    using assms(3,4) by (auto simp: host_ok_def url_shape_def lower_punct_mem lower_last_bracket)
  have can: "canonical_htu url a = Some (?s p @ CHR '':'' # ''//'' @ ?n p h @ CHR ''/'' # t)"
    "canonical_htu url b = Some (?s q @ CHR '':'' # ''//'' @ ?n q k @ CHR ''/'' # u)"
    using assms path by (simp_all add: canonical_htu_alt url_shape_def)
  show ?thesis
  proof
    assume "canonical_htu url a = canonical_htu url b"
    with can have "?s p @ CHR '':'' # ''//'' @ ?n p h @ CHR ''/'' # t = ?s q @ CHR '':'' # ''//'' @ ?n q k @ CHR ''/'' # u" by simp
    from split_first [OF sch this] have "?s p = ?s q" "?n p h @ CHR ''/'' # t = ?n q k @ CHR ''/'' # u" by simp_all
    moreover from split_first [OF net this(2)] have "?n p h = ?n q k" "t = u" by simp_all
    ultimately show "?s p = ?s q \<and> to_ascii_lowercase h = to_ascii_lowercase k \<and>
        effective_port p = effective_port q \<and> url_path p = url_path q"
      using netloc_inj [OF _ ok] path by auto
  qed (use can path in simp)
qed

end
