(* ===== verification/Claims_Json.thy ===== *)
theory Claims_Json
  imports Jose_Json Sts_Verify Sts_Dpop
begin

text \<open>
  The derived readers and writers of the claims that travel in tokens: \<open>ActClaim\<close> and \<open>MintedClaims\<close> of \<open>sts-core\<close>,
  \<open>SubjectTokenClaims\<close>, \<open>AssertionClaims\<close> and \<open>DiscoveryDocument\<close> of \<open>sts-verify\<close>, and the DPoP claims of \<open>sts-dpop\<close>.
\<close>

section \<open>Delegation and confirmation\<close>

definition ActClaim_fields :: fields where
  "ActClaim_fields = [(''sub'', Required), (''iss'', Optional), (''act'', Optional)]"

function act_claim_from_json :: "json \<Rightarrow> ActClaim option" where
  "act_claim_from_json v =
     (case struct_slots ActClaim_fields v of
        None \<Rightarrow> None
      | Some s \<Rightarrow>
          do {
            sub \<leftarrow> field as_str s ''sub'';
            iss \<leftarrow> option_field as_str s ''iss'';
            act \<leftarrow> (case s ''act'' of
                      None \<Rightarrow> Some None
                    | Some w \<Rightarrow> if w = JNull then Some None else map_option Some (act_claim_from_json w));
            Some (ActClaim sub iss act)
          })"
  by pat_completeness auto

termination by (relation "measure size") (auto intro: struct_slots_smaller)

declare act_claim_from_json.simps [simp del]

primrec act_claim_to_json :: "ActClaim \<Rightarrow> json" where
  "act_claim_to_json (ActClaim sub iss act) =
     JObject ([(''sub'', JString sub)] @ skip_none ''iss'' JString iss @
       (case map_option act_claim_to_json act of None \<Rightarrow> [] | Some w \<Rightarrow> [(''act'', w)]))"

definition ConfirmationClaim_fields :: fields where
  "ConfirmationClaim_fields = [(''jkt'', Required)]"

definition deserialize_cnf_jkt :: "json \<Rightarrow> string option option" where
  "deserialize_cnf_jkt =
     option_of (\<lambda>v. Option.bind (struct_slots ConfirmationClaim_fields v) (\<lambda>s. field as_str s ''jkt''))"

definition serialize_cnf_jkt :: "string option \<Rightarrow> json" where
  "serialize_cnf_jkt = of_option (\<lambda>jkt. JObject [(''jkt'', JString jkt)])"

section \<open>Minted claims\<close>

definition MintedClaims_fields :: fields where
  "MintedClaims_fields =
     [(''iss'', Required), (''sub'', Required), (''aud'', Required), (''scope'', Required), (''iat'', Required),
      (''exp'', Required), (''jti'', Required), (''client_id'', Required), (''act'', Optional), (''cnf'', Defaulted),
      (''auth_time'', Optional), (''acr'', Optional), (''amr'', Defaulted)]"

definition minted_claims_from_json :: "json \<Rightarrow> MintedClaims option" where
  "minted_claims_from_json v =
     do {
       s \<leftarrow> struct_slots MintedClaims_fields v;
       iss \<leftarrow> field as_str s ''iss'';
       sub \<leftarrow> field as_str s ''sub'';
       aud \<leftarrow> field as_str s ''aud'';
       scp \<leftarrow> field as_str s ''scope'';
       iat \<leftarrow> field as_i64 s ''iat'';
       expiry \<leftarrow> field as_i64 s ''exp'';
       jti \<leftarrow> field as_str s ''jti'';
       cid \<leftarrow> field as_str s ''client_id'';
       act \<leftarrow> option_field act_claim_from_json s ''act'';
       cnf \<leftarrow> default_field deserialize_cnf_jkt None s ''cnf'';
       auth_time \<leftarrow> option_field as_i64 s ''auth_time'';
       acr \<leftarrow> option_field as_str s ''acr'';
       amr \<leftarrow> default_field (as_vec as_str) [] s ''amr'';
       Some \<lparr>mc_iss = iss, mc_sub = sub, mc_aud = aud, mc_scope = scp, mc_iat = iat, mc_exp = expiry,
         mc_jti = jti, mc_client_id = cid, mc_act = act, mc_cnf_jkt = cnf, mc_auth_time = auth_time,
         mc_acr = acr, mc_amr = amr\<rparr>
     }"

definition minted_claims_to_json :: "MintedClaims \<Rightarrow> json" where
  "minted_claims_to_json c =
     JObject ([(''iss'', JString (mc_iss c)), (''sub'', JString (mc_sub c)), (''aud'', JString (mc_aud c)),
       (''scope'', JString (mc_scope c)), (''iat'', of_i64 (mc_iat c)), (''exp'', of_i64 (mc_exp c)),
       (''jti'', JString (mc_jti c)), (''client_id'', JString (mc_client_id c))] @
       skip_none ''act'' act_claim_to_json (mc_act c) @
       skip_none ''cnf'' (\<lambda>jkt. serialize_cnf_jkt (Some jkt)) (mc_cnf_jkt c) @
       skip_none ''auth_time'' of_i64 (mc_auth_time c) @ skip_none ''acr'' JString (mc_acr c) @
       skip_empty ''amr'' JString (mc_amr c))"

section \<open>Inbound claims\<close>

definition SubjectTokenClaims_fields :: fields where
  "SubjectTokenClaims_fields =
     [(''iss'', Required), (''sub'', Optional), (''aud'', Required), (''scope'', Defaulted), (''scp'', Defaulted),
      (''exp'', Required), (''nbf'', Optional), (''iat'', Optional), (''act'', Defaulted), (''may_act'', Defaulted),
      (''auth_time'', Defaulted), (''acr'', Defaulted), (''amr'', Defaulted)]"

definition subject_claims_from_json :: "json \<Rightarrow> SubjectTokenClaims option" where
  "subject_claims_from_json v =
     do {
       s \<leftarrow> struct_slots SubjectTokenClaims_fields v;
       iss \<leftarrow> field as_str s ''iss'';
       sub \<leftarrow> option_field as_str s ''sub'';
       aud \<leftarrow> field as_value s ''aud'';
       scope \<leftarrow> option_field as_str s ''scope'';
       scp \<leftarrow> option_field as_value s ''scp'';
       expiry \<leftarrow> field as_i64 s ''exp'';
       nbf \<leftarrow> option_field as_i64 s ''nbf'';
       iat \<leftarrow> option_field as_i64 s ''iat'';
       act \<leftarrow> option_field as_value s ''act'';
       may_act \<leftarrow> option_field as_value s ''may_act'';
       auth_time \<leftarrow> option_field as_i64 s ''auth_time'';
       acr \<leftarrow> option_field as_str s ''acr'';
       amr \<leftarrow> option_field (as_vec as_str) s ''amr'';
       Some \<lparr>st_iss = iss, st_sub = sub, st_aud = aud, st_scope = scope, st_scp = scp, st_exp = expiry,
         st_nbf = nbf, st_iat = iat, st_act = act, st_may_act = may_act, st_auth_time = auth_time,
         st_acr = acr, st_amr = amr\<rparr>
     }"

definition AssertionClaims_fields :: fields where
  "AssertionClaims_fields =
     [(''iss'', Required), (''sub'', Required), (''aud'', Required), (''exp'', Required), (''iat'', Optional),
      (''jti'', Optional), (''sub_tok_hash'', Defaulted)]"

definition assertion_claims_from_json :: "json \<Rightarrow> AssertionClaims option" where
  "assertion_claims_from_json v =
     do {
       s \<leftarrow> struct_slots AssertionClaims_fields v;
       iss \<leftarrow> field as_str s ''iss'';
       sub \<leftarrow> field as_str s ''sub'';
       aud \<leftarrow> field as_value s ''aud'';
       expiry \<leftarrow> field as_i64 s ''exp'';
       iat \<leftarrow> option_field as_i64 s ''iat'';
       jti \<leftarrow> option_field as_str s ''jti'';
       hash \<leftarrow> option_field as_str s ''sub_tok_hash'';
       Some \<lparr>as_iss = iss, as_sub = sub, as_aud = aud, as_exp = expiry, as_iat = iat, as_jti = jti,
         as_sub_tok_hash = hash\<rparr>
     }"

definition DiscoveryDocument_fields :: fields where
  "DiscoveryDocument_fields = [(''issuer'', Required), (''jwks_uri'', Required)]"

definition discovery_document_from_json :: "json \<Rightarrow> DiscoveryDocument option" where
  "discovery_document_from_json v =
     do {
       s \<leftarrow> struct_slots DiscoveryDocument_fields v;
       issuer \<leftarrow> field as_str s ''issuer'';
       uri \<leftarrow> field as_str s ''jwks_uri'';
       Some \<lparr>dd_issuer = issuer, dd_jwks_uri = uri\<rparr>
     }"

section \<open>DPoP claims\<close>

definition VerifiedDpopClaims_fields :: fields where
  "VerifiedDpopClaims_fields = [(''jti'', Defaulted), (''htm'', Defaulted), (''htu'', Defaulted), (''iat'', Defaulted)]"

definition dpop_claims_from_json :: "json \<Rightarrow> VerifiedDpopClaims option" where
  "dpop_claims_from_json v =
     do {
       s \<leftarrow> struct_slots VerifiedDpopClaims_fields v;
       jti \<leftarrow> option_field as_value s ''jti'';
       htm \<leftarrow> option_field as_value s ''htm'';
       htu \<leftarrow> option_field as_value s ''htu'';
       iat \<leftarrow> option_field as_value s ''iat'';
       Some \<lparr>vc_jti = jti, vc_htm = htm, vc_htu = htu, vc_iat = iat\<rparr>
     }"

definition outbound_dpop_claims_to_json :: "OutboundDpopClaims \<Rightarrow> json" where
  "outbound_dpop_claims_to_json c =
     JObject [(''jti'', JString (oc_jti c)), (''htm'', JString (oc_htm c)), (''htu'', JString (oc_htu c)),
       (''iat'', of_i64 (oc_iat c))]"

section \<open>The readers meet their contract\<close>

interpretation act_reader: struct_reader ActClaim_fields act_claim_from_json
  by unfold_locales
     (auto simp: act_claim_from_json.simps ActClaim_fields_def derived_field_defs)

interpretation minted_reader: struct_reader MintedClaims_fields minted_claims_from_json
  by unfold_locales
     (simp_all add: minted_claims_from_json_def MintedClaims_fields_def derived_field_defs)

interpretation subject_reader: struct_reader SubjectTokenClaims_fields subject_claims_from_json
  by unfold_locales
     (simp_all add: subject_claims_from_json_def SubjectTokenClaims_fields_def derived_field_defs)

interpretation assertion_reader: struct_reader AssertionClaims_fields assertion_claims_from_json
  by unfold_locales
     (simp_all add: assertion_claims_from_json_def AssertionClaims_fields_def derived_field_defs)

interpretation discovery_reader: struct_reader DiscoveryDocument_fields discovery_document_from_json
  by unfold_locales
     (simp_all add: discovery_document_from_json_def DiscoveryDocument_fields_def derived_field_defs)

interpretation dpop_reader: struct_reader VerifiedDpopClaims_fields dpop_claims_from_json
  by unfold_locales
     (simp_all add: dpop_claims_from_json_def VerifiedDpopClaims_fields_def derived_field_defs)

section \<open>Reading what was written\<close>

lemma act_claim_from_slots:
  assumes "struct_slots ActClaim_fields v = Some s" "s ''sub'' = Some (JString sub)" "s ''iss'' = map_option JString iss"
    and "case s ''act'' of None \<Rightarrow> act = None | Some w \<Rightarrow> w \<noteq> JNull \<and> (\<exists>a. act = Some a \<and> act_claim_from_json w = Some a)"
  shows "act_claim_from_json v = Some (ActClaim sub iss act)"
  using assms by (subst act_claim_from_json.simps)
    (cases iss; auto simp: derived_field_defs split: option.splits)

lemma act_roundtrip: "act_claim_from_json (act_claim_to_json a) = Some a"
proof (induction a)
  case (ActClaim sub iss act)
  let ?m = "[(''sub'', JString sub)] @ skip_none ''iss'' JString iss @
       (case map_option act_claim_to_json act of None \<Rightarrow> [] | Some w \<Rightarrow> [(''act'', w)])"
  have slots: "struct_slots ActClaim_fields (JObject ?m) = Some (map_of ?m)"
    by (rule struct_slots_distinct) (auto simp: ActClaim_fields_def split: option.splits)
  have "act_claim_to_json b \<noteq> JNull" for b by (cases b) simp
  with ActClaim have "act_claim_from_json (JObject ?m) = Some (ActClaim sub iss act)"
    by (intro act_claim_from_slots [OF slots]) (cases iss; cases act; simp)+
  then show ?case by simp
qed

definition minted_in_range :: "MintedClaims \<Rightarrow> bool" where
  "minted_in_range c \<longleftrightarrow> in_i64 (mc_iat c) \<and> in_i64 (mc_exp c) \<and> pred_option in_i64 (mc_auth_time c)"

lemma minted_members:
  obtains m where "minted_claims_to_json c = JObject m" "distinct (map fst m)"
    "map_of m ''iss'' = Some (JString (mc_iss c))" "map_of m ''sub'' = Some (JString (mc_sub c))"
    "map_of m ''aud'' = Some (JString (mc_aud c))" "map_of m ''scope'' = Some (JString (mc_scope c))"
    "map_of m ''iat'' = Some (of_i64 (mc_iat c))" "map_of m ''exp'' = Some (of_i64 (mc_exp c))"
    "map_of m ''jti'' = Some (JString (mc_jti c))" "map_of m ''client_id'' = Some (JString (mc_client_id c))"
    "map_of m ''act'' = map_option act_claim_to_json (mc_act c)"
    "map_of m ''cnf'' = map_option (\<lambda>jkt. serialize_cnf_jkt (Some jkt)) (mc_cnf_jkt c)"
    "map_of m ''auth_time'' = map_option of_i64 (mc_auth_time c)" "map_of m ''acr'' = map_option JString (mc_acr c)"
    "map_of m ''amr'' = (if mc_amr c = [] then None else Some (JArray (map JString (mc_amr c))))"
    "map_of m ''scp'' = None" "map_of m ''nbf'' = None" "map_of m ''may_act'' = None"
proof -
  define m where "m = [(''iss'', JString (mc_iss c)), (''sub'', JString (mc_sub c)), (''aud'', JString (mc_aud c)),
       (''scope'', JString (mc_scope c)), (''iat'', of_i64 (mc_iat c)), (''exp'', of_i64 (mc_exp c)),
       (''jti'', JString (mc_jti c)), (''client_id'', JString (mc_client_id c))] @
       skip_none ''act'' act_claim_to_json (mc_act c) @
       skip_none ''cnf'' (\<lambda>jkt. serialize_cnf_jkt (Some jkt)) (mc_cnf_jkt c) @
       skip_none ''auth_time'' of_i64 (mc_auth_time c) @ skip_none ''acr'' JString (mc_acr c) @
       skip_empty ''amr'' JString (mc_amr c)"
  show thesis
    by (rule that [of m]) (simp_all add: m_def minted_claims_to_json_def map_add_def split: option.splits)
qed

lemma cnf_roundtrip: "deserialize_cnf_jkt (serialize_cnf_jkt jkt) = Some jkt"
  by (cases jkt) (simp_all add: deserialize_cnf_jkt_def serialize_cnf_jkt_def of_option_def option_of_def
      struct_slots.simps ConfirmationClaim_fields_def member_ok_def members_def field_def)

lemma act_claim_to_json_not_null [simp]: "act_claim_to_json a \<noteq> JNull"
  by (cases a) simp

lemma act_option_roundtrip [simp]: "option_of act_claim_from_json (act_claim_to_json a) = Some (Some a)"
  by (simp add: option_of_def act_roundtrip)

lemma minted_roundtrip:
  assumes "minted_in_range c"
  shows "minted_claims_from_json (minted_claims_to_json c) = Some c"
proof (rule minted_members [of c], goal_cases)
  case (1 m)
  have "struct_slots MintedClaims_fields (JObject m) = Some (map_of m)"
    by (rule struct_slots_distinct) (simp_all add: MintedClaims_fields_def 1)
  moreover from assms have "in_i64 (mc_iat c)" "in_i64 (mc_exp c)"
    by (simp_all add: minted_in_range_def)
  moreover have "option_field act_claim_from_json (map_of m) ''act'' = Some (mc_act c)"
    by (rule option_field_written, rule 1) simp
  moreover have "default_field deserialize_cnf_jkt None (map_of m) ''cnf'' = Some (mc_cnf_jkt c)"
    by (rule default_field_written, rule 1) (simp add: cnf_roundtrip)
  moreover have "option_field as_i64 (map_of m) ''auth_time'' = Some (mc_auth_time c)"
    by (rule option_field_written, rule 1) (use assms in \<open>simp add: minted_in_range_def\<close>)
  moreover have "option_field as_str (map_of m) ''acr'' = Some (mc_acr c)"
    by (rule option_field_written, rule 1) simp
  moreover have "default_field (as_vec as_str) [] (map_of m) ''amr'' = Some (mc_amr c)"
    by (simp add: 1 default_field_def)
  ultimately show ?case by (simp add: 1 minted_claims_from_json_def field_simps)
qed

interpretation minted_codec: json_codec minted_claims_to_json minted_claims_from_json minted_in_range
  by unfold_locales (rule minted_roundtrip)

interpretation act_codec: json_codec act_claim_to_json act_claim_from_json "\<lambda>_. True"
  by unfold_locales (rule act_roundtrip)

end
