(* ===== verification/Dpop_Holder.thy ===== *)
theory Dpop_Holder
  imports Claims_Json
begin

text \<open>
  The holder key of \<open>sts-dpop\<close> against the proof validation of the same crate: the header, the public key and the
  claims that the client writes are those that the server looks for.
\<close>

section \<open>What the libraries promise\<close>

text \<open>Base64url decodes what it encoded, to letters, digits, hyphens and underscores.\<close>

definition b64url_char :: "char \<Rightarrow> bool" where
  "b64url_char c \<longleftrightarrow> (let v = of_char c :: nat in
     v \<in> {48..57} \<or> v \<in> {65..90} \<or> v \<in> {97..122} \<or> v = 45 \<or> v = 95)"

definition dpop_b64_law :: "dpop_ext \<Rightarrow> bool" where
  "dpop_b64_law E \<longleftrightarrow>
     (\<forall>x. dx_b64_decode E (dx_b64_encode E x) = Some x \<and> list_all b64url_char (dx_b64_encode E x) \<and> (x \<noteq> [] \<longrightarrow> dx_b64_encode E x \<noteq> []))"

text \<open>
  \<open>jsonwebtoken\<close> and \<open>p256\<close>, for a signing key and the claims to be signed. A public JWK with the coordinates of the key's
  point is an elliptic-curve key that can be used. A token encoded with the private key and a header that
  embeds this JWK has three base64url segments; the first is a JSON object with the algorithm, the JWK and the
  type; and decoding it under the JWK reads the claims from the JSON document that was signed.
\<close>

definition ec_members :: "string \<Rightarrow> string \<Rightarrow> (string \<times> json) list" where
  "ec_members x y =
     [(''alg'', JString ''ES256''), (''crv'', JString ''P-256''), (''kty'', JString ''EC''), (''x'', JString x), (''y'', JString y)]"

definition es256_law :: "dpop_ext \<Rightarrow> string \<Rightarrow> OutboundDpopClaims \<Rightarrow> bool" where
  "es256_law E sk c \<longleftrightarrow> (\<forall>x y jwk der t token. p256_x E sk = Some x \<longrightarrow> p256_y E sk = Some y \<longrightarrow>
     dx_jwk_from_value E (JObject (ec_members (dx_b64_encode E x) (dx_b64_encode E y))) = Some jwk \<longrightarrow>
     p256_to_pkcs8 E sk = Some der \<longrightarrow> dx_encode E t jwk c der = Some token \<longrightarrow>
     jwk_params jwk = ParamsEllipticCurve \<and> dx_decoding_key_ok E jwk \<and>
     (\<exists>hb pb sig. hb \<noteq> [] \<and> pb \<noteq> [] \<and> sig \<noteq> [] \<and>
        token = dx_b64_encode E hb @ ''.'' @ dx_b64_encode E pb @ ''.'' @ dx_b64_encode E sig \<and>
        dx_json_from_slice E hb = Some (JObject [(''alg'', JString ''ES256''),
          (''jwk'', JObject (ec_members (dx_b64_encode E x) (dx_b64_encode E y))), (''typ'', JString t)])) \<and>
     dx_decode E token jwk ES256 = dpop_claims_from_json (outbound_dpop_claims_to_json c))"

section \<open>Lemmas\<close>

lemma b64url_plain:
  assumes "list_all b64url_char s"
  shows "CHR ''.'' \<notin> set s" and "c \<in> set s \<Longrightarrow> \<not> ws1 c \<and> (of_char c :: nat) < 128"
proof -
  have dot: "\<not> b64url_char (CHR ''.'')" by code_simp
  then show "CHR ''.'' \<notin> set s" using assms by (auto simp: list_all_iff)
  show "\<not> ws1 c \<and> (of_char c :: nat) < 128" if "c \<in> set s"
    using assms that by (auto simp: list_all_iff b64url_char_def ws1_def Let_def)
qed

lemma compact_plain:
  assumes "list_all b64url_char h" "list_all b64url_char p" "list_all b64url_char s" "h \<noteq> []"
  shows "split_on CHR ''.'' (h @ ''.'' @ p @ ''.'' @ s) = [h, p, s]" "trim (h @ ''.'' @ p @ ''.'' @ s) \<noteq> []"
proof -
  show "split_on CHR ''.'' (h @ ''.'' @ p @ ''.'' @ s) = [h, p, s]"
    using b64url_plain(1) [OF assms(1)] b64url_plain(1) [OF assms(2)] b64url_plain(1) [OF assms(3)]
    by (simp add: split_on_append split_on_single)
  have "\<not> ws1 CHR ''.'' \<and> (of_char (CHR ''.'') :: nat) < 128" by (simp add: ws1_def)
  then have "no_ws (h @ ''.'' @ p @ ''.'' @ s)"
    using b64url_plain(2) [OF assms(1)] b64url_plain(2) [OF assms(2)] b64url_plain(2) [OF assms(3)] by (intro no_ws_ascii) auto
  then show "trim (h @ ''.'' @ p @ ''.'' @ s) \<noteq> []" using assms(4) by (simp add: trim_no_ws)
qed

text \<open>The claims of the client, read by the server.\<close>

lemma outbound_read: "dpop_claims_from_json (outbound_dpop_claims_to_json c) = Some (claims_value c)"
  by (simp add: dpop_claims_from_json_def outbound_dpop_claims_to_json_def VerifiedDpopClaims_fields_def struct_slots.simps
      member_ok_def members_def option_field_def option_of_def as_value_def of_i64_def claims_value_def)

text \<open>The header of the client passes the header checks of the server.\<close>

lemma holder_header:
  assumes "dx_jwk_from_value E (JObject (ec_members x y)) = Some jwk" "jwk_params jwk = ParamsEllipticCurve"
  shows "header_carries E [(''alg'', JString ''ES256''), (''jwk'', JObject (ec_members x y)), (''typ'', JString DPOP_TYP)]
     ''ES256'' ES256 (ec_members x y) jwk"
  using assms
  by (simp add: header_carries_def obj_get_def obj_get_str_def DPOP_SIGNING_ALGS_SUPPORTED_def algorithm_from_str_def
      PRIVATE_JWK_MEMBERS_def ensure_asymmetric_key_matches_alg_def ec_members_def)

section \<open>Property\<close>

text \<open>
  C27: a proof made by the holder key is accepted. What \<open>sign_proof\<close> makes for a method, a target and a time is
  accepted by \<open>validate_dpop_proof\<close> for that method and target while the clock is within the leeway of that time,
  whatever key was drawn, and is bound to the thumbprint of that key, with the identifier and the time that were
  signed and a record that lasts to the end of the leeway. Assumed are laws of base64url, \<open>jsonwebtoken\<close> and \<open>p256\<close>.
\<close>

theorem holder_proof_validates:
  assumes key: "from_signing_key E sk = Ok key"
    and laws: "dpop_b64_law E"
      "es256_law E sk \<lparr>oc_jti = pb_jti b, oc_htm = pb_htm b, oc_htu = pb_htu b, oc_iat = pb_iat b\<rparr>"
    and sign: "sign_proof E key b = Ok prf" "length prf \<le> 8192"
    and claims: "pb_jti b \<noteq> []" "in_i64 (pb_iat b)" "canonical_htu url (pb_htu b) \<noteq> None"
    and window: "\<bar>now - pb_iat b\<bar> \<le> leeway"
  shows "validate_dpop_proof E url
           \<lparr>req_proof = prf, req_htm = pb_htm b, req_htu = pb_htu b, req_now = now, req_leeway = leeway\<rparr> =
         Ok \<lparr>db_jkt = hk_jkt key, db_jti = pb_jti b, db_iat = pb_iat b,
             db_replay_expires_at = saturating_add (pb_iat b) leeway\<rparr>"
    (is "validate_dpop_proof E url ?r = Ok ?b")
proof (rule validate_dpop_complete)
  let ?c = "\<lparr>oc_jti = pb_jti b, oc_htm = pb_htm b, oc_htu = pb_htu b, oc_iat = pb_iat b\<rparr>"
  from key obtain px py jwk where k: "p256_x E sk = Some px" "p256_y E sk = Some py" "hk_signing_key key = sk"
    "dx_jwk_from_value E (JObject (ec_members (dx_b64_encode E px) (dx_b64_encode E py))) = Some jwk"
    "public_jwk_value key = JObject (ec_members (dx_b64_encode E px) (dx_b64_encode E py))" "hk_jkt key = dx_thumbprint E jwk"
    by (auto simp: from_signing_key_def public_jwk_value_def ec_public_jwk_value_def ec_members_def result_iff Let_def)
  from sign(1) k(3-5) obtain der where sg: "trim (pb_htm b) \<noteq> []" "trim (pb_htu b) \<noteq> []" "length (pb_jti b) \<le> 128"
    "p256_to_pkcs8 E sk = Some der" "dx_encode E DPOP_TYP jwk ?c der = Some prf"
    by (auto simp: sign_proof_def validate_jti_def MAX_DPOP_JTI_LEN_def holder_public_jwk_def result_iff Let_def split: if_splits)
  from laws(2) [unfolded es256_law_def, rule_format, OF k(1,2,4) sg(4,5)] outbound_read [of ?c] obtain hb pb sg' where
    *: "jwk_params jwk = ParamsEllipticCurve" "dx_decoding_key_ok E jwk" "hb \<noteq> []" "pb \<noteq> []" "sg' \<noteq> []"
      "prf = dx_b64_encode E hb @ ''.'' @ dx_b64_encode E pb @ ''.'' @ dx_b64_encode E sg'"
      "dx_json_from_slice E hb = Some (JObject [(''alg'', JString ''ES256''),
         (''jwk'', JObject (ec_members (dx_b64_encode E px) (dx_b64_encode E py))), (''typ'', JString DPOP_TYP)])"
      "dx_decode E prf jwk ES256 = Some (claims_value ?c)" by auto
  have b64: "list_all b64url_char (dx_b64_encode E z)" "dx_b64_decode E (dx_b64_encode E z) = Some z"
    "z \<noteq> [] \<Longrightarrow> dx_b64_encode E z \<noteq> []" for z using laws(1) by (simp_all add: dpop_b64_law_def)
  note plain = compact_plain [OF b64(1) b64(1) b64(1) b64(3) [OF *(3)], of pb sg', folded *(6)]
  from plain(2) sg sign(2) show "check_proof_input ?r = Ok ()" by (simp add: check_proof_input_ok)
  have "pb_htu b \<noteq> []" using sg(2) by auto
  moreover have "max leeway 0 = leeway" using window by linarith
  ultimately show "proof_satisfies E url ?r ?b"
    unfolding proof_satisfies_def using *(2-5,7,8) plain(1) b64 holder_header [OF k(4) *(1)] claims window k(6) sg(3)
    by - (rule exI [of _ "dx_b64_encode E hb"], rule exI [of _ "dx_b64_encode E pb"], rule exI [of _ "dx_b64_encode E sg'"],
         rule exI [of _ hb], rule exI, rule exI [of _ "''ES256''"], rule exI [of _ ES256], rule exI, rule exI [of _ jwk],
         rule exI [of _ "claims_value ?c"], rule exI [of _ "pb_htu b"], simp add: claims_value_def value_to_i64_int)
qed

end
