(* ===== verification/Demo_Dpop.thy ===== *)
theory Demo_Dpop
  imports Sts_Dpop
begin

text \<open>
  A concrete instance of the DPoP library parameters and of \<open>Url::parse\<close>, on which the hypotheses
  of the DPoP properties hold together.
\<close>

section \<open>Instance\<close>

definition demo_htu :: string where "demo_htu = ''https://sts/token''"
definition demo_htu_alias :: string where "demo_htu_alias = ''HTTPS://STS:443/token?q''"

definition demo_parsed :: ParsedUrl where
  "demo_parsed = \<lparr>url_scheme = ''https'', url_host = Some (Domain ''sts''), url_host_str = Some ''sts'', url_port = None,
     url_path = ''/token'', url_query = None, url_fragment = None\<rparr>"

definition demo_url :: url_parse where
  "demo_url v =
     (if v = demo_htu then Some demo_parsed
      else if v = demo_htu_alias then Some (demo_parsed\<lparr>url_port := Some 443, url_query := Some ''q''\<rparr>)
      else if v = ''https://idp'' \<or> v = ''https://sts'' then Some (demo_parsed\<lparr>url_path := ''/''\<rparr>)
      else None)"

definition demo_header :: "(string \<times> json) list" where
  "demo_header = [(''alg'', JString ''ES256''), (''jwk'', ec_public_jwk_value ''sk'' ''sk''), (''typ'', JString ''dpop+jwt'')]"

definition demo_outbound :: OutboundDpopClaims where
  "demo_outbound = \<lparr>oc_jti = ''j1'', oc_htm = ''POST'', oc_htu = demo_htu, oc_iat = 1000\<rparr>"

definition demo_dpop :: dpop_ext where
  "demo_dpop =
     \<lparr>dx_b64_encode = id, dx_b64_decode = Some,
      dx_json_from_slice = (\<lambda>b. if b = ''h'' then Some (JObject demo_header) else None),
      dx_to_string_pretty = (\<lambda>j. Some []),
      dx_jwk_from_value = (\<lambda>v. Some \<lparr>jwk_params = ParamsEllipticCurve, jwk_members = v\<rparr>),
      dx_thumbprint = (\<lambda>k. ''jkt''), dx_decoding_key_ok = (\<lambda>k. True),
      dx_decode = (\<lambda>prf k a. if prf = ''h.p.s'' then Some (claims_value demo_outbound) else None),
      dx_encode = (\<lambda>t k c der. Some ''h.p.s''), p256_from_bytes = Some, p256_x = Some, p256_y = Some,
      p256_to_pkcs8 = Some\<rparr>"

definition demo_holder :: DpopHolderKey where
  "demo_holder = \<lparr>hk_signing_key = ''sk'', hk_x = ''sk'', hk_y = ''sk'', hk_d = ''sk'', hk_jkt = ''jkt''\<rparr>"

definition demo_build :: DpopProofBuild where
  "demo_build = \<lparr>pb_htm = ''POST'', pb_htu = demo_htu, pb_iat = 1000, pb_jti = ''j1''\<rparr>"

definition demo_request :: "int \<Rightarrow> DpopProofRequest" where
  "demo_request now = \<lparr>req_proof = ''h.p.s'', req_htm = ''POST'', req_htu = demo_htu, req_now = now, req_leeway = 60\<rparr>"

definition demo_binding :: DpopBinding where
  "demo_binding = \<lparr>db_jkt = ''jkt'', db_jti = ''j1'', db_iat = 1000, db_replay_expires_at = 1060\<rparr>"

lemma demo_trims: "trim ''h.p.s'' = ''h.p.s''" "trim ''POST'' = ''POST''" "trim demo_htu = demo_htu" "demo_htu \<noteq> []"
  by (simp_all add: trim_no_ws demo_htu_def ws1_def ws2_def ws3_def)

lemma demo_header_carries:
  "header_carries demo_dpop demo_header ''ES256'' ES256
     [(''alg'', JString ''ES256''), (''crv'', JString ''P-256''), (''kty'', JString ''EC''), (''x'', JString ''sk''), (''y'', JString ''sk'')]
     \<lparr>jwk_params = ParamsEllipticCurve, jwk_members = ec_public_jwk_value ''sk'' ''sk''\<rparr>"
  by (simp add: header_carries_def demo_header_def obj_get_def obj_get_str_def ec_public_jwk_value_def DPOP_TYP_def
      DPOP_SIGNING_ALGS_SUPPORTED_def algorithm_from_str_def PRIVATE_JWK_MEMBERS_def demo_dpop_def
      ensure_asymmetric_key_matches_alg_def)

lemma demo_canonical: "canonical_htu demo_url demo_htu = Some ''https://sts/token''"
  unfolding canonical_htu_def demo_url_def by code_simp

lemma demo_accepts:
  assumes "\<bar>now - 1000\<bar> \<le> 60"
  shows "validate_dpop_proof demo_dpop demo_url (demo_request now) = Ok demo_binding"
proof (rule validate_dpop_complete)
  show "check_proof_input (demo_request now) = Ok ()"
    by (simp add: check_proof_input_ok demo_request_def demo_trims)
  have "split_on CHR ''.'' ''h.p.s'' = [''h'', ''p'', ''s'']" by simp
  moreover have "value_to_i64 (JNumber (PosInt 1000)) = Some 1000" by (simp add: value_to_i64_def i64_bounds)
  moreover have "saturating_add 1000 60 = 1060" by (simp add: saturating_add_def i64_bounds)
  ultimately show "proof_satisfies demo_dpop demo_url (demo_request now) demo_binding"
    unfolding proof_satisfies_def using assms demo_header_carries demo_canonical demo_trims(4)
    by - (rule exI [of _ "''h''"], rule exI [of _ "''p''"], rule exI [of _ "''s''"], rule exI [of _ "''h''"],
         rule exI [of _ demo_header], rule exI [of _ "''ES256''"], rule exI [of _ ES256], rule exI, rule exI,
         rule exI [of _ "claims_value demo_outbound"], rule exI [of _ demo_htu], rule exI [of _ "JNumber (PosInt 1000)"],
         simp add: demo_request_def demo_binding_def demo_dpop_def claims_value_def demo_outbound_def)
qed

section \<open>Witnesses of the \<open>sts-dpop\<close> properties\<close>

theorem dpop_record_covers_window_witness:
  "validate_dpop_proof demo_dpop demo_url (demo_request 950) = Ok demo_binding \<and>
   validate_dpop_proof demo_dpop demo_url (demo_request 1060) = Ok demo_binding \<and>
   req_now (demo_request 1060) \<le> db_replay_expires_at demo_binding"
proof -
  have a: "validate_dpop_proof demo_dpop demo_url (demo_request 950) = Ok demo_binding"
    "validate_dpop_proof demo_dpop demo_url (demo_request 1060) = Ok demo_binding" by (simp_all add: demo_accepts)
  have "req_proof (demo_request 1060) = req_proof (demo_request 950)" "req_leeway (demo_request 1060) = req_leeway (demo_request 950)"
    "req_now (demo_request 1060) \<le> i64_max" by (simp_all add: demo_request_def i64_bounds)
  from dpop_record_covers_window [OF a this] a show ?thesis by simp
qed

theorem canonical_htu_iff_witness:
  "canonical_htu demo_url demo_htu = canonical_htu demo_url demo_htu_alias \<and> demo_htu \<noteq> demo_htu_alias"
proof -
  let ?q = "demo_parsed\<lparr>url_port := Some 443, url_query := Some ''q''\<rparr>"
  have u: "demo_url demo_htu = Some demo_parsed" "demo_url demo_htu_alias = Some ?q" and ne: "demo_htu \<noteq> demo_htu_alias"
    by (simp_all add: demo_url_def demo_htu_def demo_htu_alias_def)
  have s: "url_shape demo_parsed ''sts''" "url_shape ?q ''sts''" by (simp_all add: url_shape_def demo_parsed_def)
  have "effective_port demo_parsed = effective_port ?q" by code_simp
  with canonical_htu_iff [OF u s] ne show ?thesis by simp
qed

end
