(* ===== verification/Demo_Holder.thy ===== *)
theory Demo_Holder
  imports Dpop_Holder Demo_Dpop
begin

text \<open>
  Libraries on which a holder key signs: hexadecimal in place of base64url, a header text that is known by heart
  for the public key of the letters \<open>sk\<close>, and decoding through the readers of the crate.
\<close>

definition hold_members :: "(string \<times> json) list" where
  "hold_members = ec_members (hex_lower ''sk'') (hex_lower ''sk'')"

definition hold_jwk :: Jwk where
  "hold_jwk = \<lparr>jwk_params = ParamsEllipticCurve, jwk_members = JObject hold_members\<rparr>"

definition hold_proof :: string where
  "hold_proof = hex_lower ''h'' @ ''.'' @ hex_lower ''p'' @ ''.'' @ hex_lower ''s''"

definition hold_ext :: dpop_ext where
  "hold_ext = demo_dpop
     \<lparr>dx_b64_encode := hex_lower, dx_b64_decode := hex_decode,
      dx_json_from_slice := (\<lambda>b. if b = ''h'' then Some (JObject [(''alg'', JString ''ES256''), (''jwk'', JObject hold_members),
        (''typ'', JString DPOP_TYP)]) else None),
      dx_encode := (\<lambda>t k c der. if t = DPOP_TYP \<and> k = hold_jwk \<and> c = demo_outbound \<and> der = ''sk'' then Some hold_proof else None),
      dx_decode := (\<lambda>prf k a. if prf = hold_proof then dpop_claims_from_json (outbound_dpop_claims_to_json demo_outbound) else None)\<rparr>"

definition hold_key :: DpopHolderKey where
  "hold_key = \<lparr>hk_signing_key = ''sk'', hk_x = hex_lower ''sk'', hk_y = hex_lower ''sk'', hk_d = hex_lower ''sk'', hk_jkt = ''jkt''\<rparr>"

lemma hold_b64: "dpop_b64_law hold_ext"
proof -
  have "list_all b64url_char ''0123456789abcdef''" by code_simp
  then have "b64url_char (hex_digit n)" if "n < 16" for n
    using that unfolding list_all_length hex_digit_def by simp
  then have "list_all b64url_char (hex_lower x)" for x
    by (induction x) (simp_all add: hex_lower_def hex_digit_bounds)
  moreover have "hex_lower x \<noteq> []" if "x \<noteq> []" for x using that hex_lower_length [of x] by auto
  ultimately show ?thesis by (simp add: dpop_b64_law_def hold_ext_def hex_decode_lower)
qed

lemma hold_law: "es256_law hold_ext ''sk'' demo_outbound"
proof -
  have "hold_proof = hex_lower ''h'' @ ''.'' @ hex_lower ''p'' @ ''.'' @ hex_lower ''s''" by (rule hold_proof_def)
  then show ?thesis unfolding es256_law_def
    by (intro allI impI conjI exI [of _ "''h''"] exI [of _ "''p''"] exI [of _ "''s''"])
       (auto simp: hold_ext_def demo_dpop_def hold_members_def hold_jwk_def split: if_splits)
qed

theorem holder_proof_validates_witness:
  "validate_dpop_proof hold_ext demo_url
     \<lparr>req_proof = hold_proof, req_htm = ''POST'', req_htu = demo_htu, req_now = 990, req_leeway = 60\<rparr> = Ok demo_binding \<and>
   sign_proof hold_ext hold_key demo_build = Ok hold_proof"
proof -
  have key: "from_signing_key hold_ext ''sk'' = Ok hold_key"
    by (simp add: from_signing_key_def hold_ext_def demo_dpop_def hold_key_def)
  have c: "\<lparr>oc_jti = pb_jti demo_build, oc_htm = pb_htm demo_build, oc_htu = pb_htu demo_build, oc_iat = pb_iat demo_build\<rparr>
      = demo_outbound" by (simp add: demo_build_def demo_outbound_def)
  have "holder_public_jwk hold_ext hold_key = Ok hold_jwk"
    by (simp add: holder_public_jwk_def public_jwk_value_def ec_public_jwk_value_def hold_key_def hold_ext_def demo_dpop_def
        hold_jwk_def hold_members_def ec_members_def)
  moreover have "p256_to_pkcs8 hold_ext (hk_signing_key hold_key) = Some ''sk''"
    "dx_encode hold_ext DPOP_TYP hold_jwk demo_outbound ''sk'' = Some hold_proof"
    by (simp_all add: hold_ext_def demo_dpop_def hold_key_def)
  moreover have "trim (pb_htm demo_build) \<noteq> []" "trim (pb_htu demo_build) \<noteq> []" "validate_jti (pb_jti demo_build) = Ok ''j1''"
    using demo_trims by (simp_all add: demo_build_def validate_jti_def MAX_DPOP_JTI_LEN_def)
  ultimately have sign: "sign_proof hold_ext hold_key demo_build = Ok hold_proof"
    by (simp add: sign_proof_def c)
  have len: "length hold_proof \<le> 8192" by (simp add: hold_proof_def hex_lower_length)
  have "saturating_add 1000 60 = 1060" by (simp add: saturating_add_def i64_bounds)
  then show ?thesis
    using holder_proof_validates [OF key hold_b64, of demo_build hold_proof demo_url 990 60] hold_law sign len demo_canonical
    unfolding c by (simp add: demo_build_def demo_binding_def hold_key_def i64_bounds)
qed

end
