(* ===== verification/Sts_Http.thy ===== *)
theory Sts_Http
  imports Sts_Config Sts_Signers Sts_Replay Sts_Dpop "HOL-Library.Word"
begin

text \<open>
  The stateless part of \<open>sts-http\<close> (\<open>crates/sts-http/src/lib.rs\<close>): OAuth-shaped errors, headers and
  forms, request validation, and the policy decisions of a token exchange (mode, target, scope,
  signing algorithm, \<open>may_act\<close> and the delegation chain). The handlers that change state are in
  \<open>Sts_Service\<close>. A header value is \<open>None\<close> when \<open>to_str\<close> fails; percent-decoding of the form body
  is a parameter of the handlers, so the parsers here take the decoded pairs.
\<close>

section \<open>Errors\<close>

record HttpError =
  he_status :: nat
  he_error :: "string option"
  he_description :: msg
  he_retry_after :: "string option"
  he_www_authenticate :: "string option"

definition oauth :: "nat \<Rightarrow> string \<Rightarrow> msg \<Rightarrow> HttpError" where
  "oauth status error description =
     \<lparr>he_status = status, he_error = Some error, he_description = description, he_retry_after = None,
      he_www_authenticate = None\<rparr>"

definition invalid_request :: "msg \<Rightarrow> HttpError" where
  "invalid_request d = oauth 400 ''invalid_request'' d"

definition invalid_client :: "msg \<Rightarrow> HttpError" where
  "invalid_client d = oauth 401 ''invalid_client'' d"

definition unsupported_authorization_client_auth :: "msg \<Rightarrow> string \<Rightarrow> HttpError" where
  "unsupported_authorization_client_auth d challenge =
     \<lparr>he_status = 401, he_error = Some ''invalid_client'', he_description = d, he_retry_after = None,
      he_www_authenticate = Some challenge\<rparr>"

definition invalid_target :: "msg \<Rightarrow> HttpError" where
  "invalid_target d = oauth 400 ''invalid_target'' d"

definition invalid_scope :: "msg \<Rightarrow> HttpError" where
  "invalid_scope d = oauth 400 ''invalid_scope'' d"

definition invalid_grant :: "msg \<Rightarrow> HttpError" where
  "invalid_grant d = oauth 400 ''invalid_grant'' d"

definition unsupported_grant_type :: "msg \<Rightarrow> HttpError" where
  "unsupported_grant_type d = oauth 400 ''unsupported_grant_type'' d"

definition invalid_dpop_proof :: "msg \<Rightarrow> HttpError" where
  "invalid_dpop_proof d = oauth 400 ''invalid_dpop_proof'' d"

definition service_unavailable :: "msg \<Rightarrow> HttpError" where
  "service_unavailable d =
     \<lparr>he_status = 503, he_error = None, he_description = d, he_retry_after = Some ''2'',
      he_www_authenticate = None\<rparr>"

definition server_error :: "msg \<Rightarrow> HttpError" where
  "server_error d = oauth 500 ''server_error'' d"

definition map_core_error :: "CoreError \<Rightarrow> HttpError" where
  "map_core_error err =
     (case core_kind err of
        CoreInvalidRequest \<Rightarrow> invalid_request (core_message err)
      | CoreInvalidClient \<Rightarrow> invalid_client (core_message err)
      | CoreInvalidTarget \<Rightarrow> invalid_target (core_message err)
      | CoreInvalidScope \<Rightarrow> invalid_scope (core_message err))"

definition map_subject_verify_error :: "VerifyError \<Rightarrow> HttpError" where
  "map_subject_verify_error err =
     (if verify_kind err \<in> {VInvalidAudience, VInvalidIssuer, VInvalidLifetime, VInvalidToken, VInvalidClaims}
      then invalid_grant (verify_message err) else invalid_request (verify_message err))"

definition map_replay_error :: "ReplayError \<Rightarrow> HttpError" where
  "map_replay_error err =
     (case replay_kind err of
        ReplayInvalidRequest \<Rightarrow> invalid_request (replay_message err)
      | ReplayDetected \<Rightarrow> invalid_request (replay_message err)
      | StoreFull \<Rightarrow> service_unavailable (replay_message err))"

definition map_client_assertion_replay_error :: "ReplayError \<Rightarrow> HttpError" where
  "map_client_assertion_replay_error err =
     (case replay_kind err of
        ReplayInvalidRequest \<Rightarrow> invalid_client (replay_message err)
      | ReplayDetected \<Rightarrow> invalid_client (lit ''client_assertion replay detected'')
      | StoreFull \<Rightarrow> service_unavailable (replay_message err))"

definition map_dpop_error :: "DpopError \<Rightarrow> HttpError" where
  "map_dpop_error err = invalid_dpop_proof (dpop_message err)"

definition map_dpop_replay_error :: "ReplayError \<Rightarrow> HttpError" where
  "map_dpop_replay_error err =
     (case replay_kind err of
        ReplayInvalidRequest \<Rightarrow> invalid_dpop_proof (lit ''DPoP proof replay detected'')
      | ReplayDetected \<Rightarrow> invalid_dpop_proof (lit ''DPoP proof replay detected'')
      | StoreFull \<Rightarrow> service_unavailable (replay_message err))"

section \<open>Headers and forms\<close>

record HeaderMap =
  hm_content_type :: "string option option"
  hm_authorization :: "string option option"
  hm_dpop :: "string option list"

definition CLIENT_ASSERTION_TYPE :: string where
  "CLIENT_ASSERTION_TYPE = ''urn:ietf:params:oauth:client-assertion-type:jwt-bearer''"

record TokenForm =
  tf_grant_type :: "string option"
  tf_subject_token :: "string option"
  tf_subject_token_type :: "string option"
  tf_actor_token :: "string option"
  tf_actor_token_type :: "string option"
  tf_empty_actor_token_supplied :: bool
  tf_audience :: "string option"
  tf_resource :: "string option"
  tf_scope :: "string option"
  tf_requested_token_type :: "string option"
  tf_client_id :: "string option"
  tf_client_assertion :: "string option"
  tf_client_assertion_type :: "string option"

definition token_form_default :: TokenForm where
  "token_form_default =
     \<lparr>tf_grant_type = None, tf_subject_token = None, tf_subject_token_type = None, tf_actor_token = None,
      tf_actor_token_type = None, tf_empty_actor_token_supplied = False, tf_audience = None,
      tf_resource = None, tf_scope = None, tf_requested_token_type = None, tf_client_id = None,
      tf_client_assertion = None, tf_client_assertion_type = None\<rparr>"

record OnlineTokenForm =
  of_token :: "string option"
  of_token_type_hint :: "string option"
  of_client_id :: "string option"
  of_client_assertion :: "string option"
  of_client_assertion_type :: "string option"

definition online_token_form_default :: OnlineTokenForm where
  "online_token_form_default =
     \<lparr>of_token = None, of_token_type_hint = None, of_client_id = None, of_client_assertion = None,
      of_client_assertion_type = None\<rparr>"

definition into_exchange_request :: "TokenForm \<Rightarrow> ExchangeRequest" where
  "into_exchange_request form =
     \<lparr>er_grant_type = unwrap_or (tf_grant_type form) '''',
      er_subject_token = unwrap_or (tf_subject_token form) '''',
      er_subject_token_type = unwrap_or (tf_subject_token_type form) '''',
      er_actor_token = tf_actor_token form, er_actor_token_type = tf_actor_token_type form,
      er_audience = tf_audience form, er_resource = tf_resource form, er_scope = tf_scope form,
      er_requested_token_type = tf_requested_token_type form, er_client_id = tf_client_id form,
      er_client_assertion = tf_client_assertion form,
      er_client_assertion_type = tf_client_assertion_type form\<rparr>"

definition token_form_keys :: "string list" where
  "token_form_keys =
     [''grant_type'', ''subject_token'', ''subject_token_type'', ''actor_token'', ''actor_token_type'', ''audience'',
      ''resource'', ''scope'', ''requested_token_type'', ''client_id'', ''client_assertion'', ''client_assertion_type'']"

definition is_recognized_token_form_key :: "string \<Rightarrow> bool" where
  "is_recognized_token_form_key key \<longleftrightarrow> key \<in> set token_form_keys"

definition is_online_token_param :: "string \<Rightarrow> bool" where
  "is_online_token_param key \<longleftrightarrow>
     key \<in> {''token'', ''token_type_hint'', ''client_id'', ''client_assertion'', ''client_assertion_type''}"

definition require_form_urlencoded :: "HeaderMap \<Rightarrow> (HttpError, unit) result" where
  "require_form_urlencoded headers =
     (let content_type = (case hm_content_type headers of Some (Some v) \<Rightarrow> v | _ \<Rightarrow> []);
          media_type = to_ascii_lowercase (trim (hd (split_on CHR '';'' content_type)))
      in if media_type \<noteq> ''application/x-www-form-urlencoded'' then
           Err (invalid_request (lit ''Content-Type must be application/x-www-form-urlencoded''))
         else Ok ())"

definition reject_authorization_header_client_auth :: "HeaderMap \<Rightarrow> (HttpError, unit) result" where
  "reject_authorization_header_client_auth headers =
     (case hm_authorization headers of
        None \<Rightarrow> Ok ()
      | Some v \<Rightarrow>
          let authorization = unwrap_or v '''';
              scheme = (case split_whitespace authorization of [] \<Rightarrow> ''Basic'' | w # _ \<Rightarrow> w);
              challenge = (if eq_ignore_ascii_case scheme ''basic'' then ''Basic'' else scheme)
          in Err (unsupported_authorization_client_auth
               (lit ''Authorization header client authentication is not supported; use private_key_jwt'') challenge))"

definition non_empty_form_value :: "string \<Rightarrow> string option" where
  "non_empty_form_value v = (if v = [] then None else Some v)"

definition assign_token_form_value :: "TokenForm \<Rightarrow> string \<Rightarrow> string \<Rightarrow> TokenForm" where
  "assign_token_form_value form key v =
     (if key = ''grant_type'' then form\<lparr>tf_grant_type := non_empty_form_value v\<rparr>
      else if key = ''subject_token'' then form\<lparr>tf_subject_token := non_empty_form_value v\<rparr>
      else if key = ''subject_token_type'' then form\<lparr>tf_subject_token_type := non_empty_form_value v\<rparr>
      else if key = ''actor_token'' then
        (if v = [] then form\<lparr>tf_empty_actor_token_supplied := True, tf_actor_token := None\<rparr>
         else form\<lparr>tf_actor_token := Some v\<rparr>)
      else if key = ''actor_token_type'' then form\<lparr>tf_actor_token_type := non_empty_form_value v\<rparr>
      else if key = ''audience'' then form\<lparr>tf_audience := non_empty_form_value v\<rparr>
      else if key = ''resource'' then form\<lparr>tf_resource := non_empty_form_value v\<rparr>
      else if key = ''scope'' then form\<lparr>tf_scope := non_empty_form_value v\<rparr>
      else if key = ''requested_token_type'' then form\<lparr>tf_requested_token_type := non_empty_form_value v\<rparr>
      else if key = ''client_id'' then form\<lparr>tf_client_id := non_empty_form_value v\<rparr>
      else if key = ''client_assertion'' then form\<lparr>tf_client_assertion := non_empty_form_value v\<rparr>
      else if key = ''client_assertion_type'' then form\<lparr>tf_client_assertion_type := non_empty_form_value v\<rparr>
      else form)"

definition assign_online_token_form_value :: "OnlineTokenForm \<Rightarrow> string \<Rightarrow> string \<Rightarrow> OnlineTokenForm" where
  "assign_online_token_form_value form key v =
     (if key = ''token'' then form\<lparr>of_token := non_empty_form_value v\<rparr>
      else if key = ''token_type_hint'' then form\<lparr>of_token_type_hint := non_empty_form_value v\<rparr>
      else if key = ''client_id'' then form\<lparr>of_client_id := non_empty_form_value v\<rparr>
      else if key = ''client_assertion'' then form\<lparr>of_client_assertion := non_empty_form_value v\<rparr>
      else if key = ''client_assertion_type'' then form\<lparr>of_client_assertion_type := non_empty_form_value v\<rparr>
      else form)"

definition duplicate_parameter :: "string \<Rightarrow> HttpError" where
  "duplicate_parameter key =
     invalid_request [Lit ''parameter '', Dbg key, Lit '' is included more than once'']"

fun token_form_loop ::
    "string set \<Rightarrow> TokenForm \<Rightarrow> (string \<times> string) list \<Rightarrow> (HttpError, TokenForm) result" where
  "token_form_loop keys form [] = Ok form"
| "token_form_loop keys form ((key, v) # pairs) =
     (if \<not> is_recognized_token_form_key key then token_form_loop keys form pairs
      else if key \<in> keys then
        (if key \<in> {''audience'', ''resource''} then
           Err (invalid_target (lit (''multiple '' @ key @ '' values are not supported; send one target'')))
         else Err (duplicate_parameter key))
      else token_form_loop (insert key keys) (assign_token_form_value form key v) pairs)"

definition parse_token_form ::
    "HeaderMap \<Rightarrow> (string \<times> string) list \<Rightarrow> (HttpError, TokenForm) result" where
  "parse_token_form headers pairs =
     and_then (require_form_urlencoded headers) (\<lambda>_.
     and_then (reject_authorization_header_client_auth headers) (\<lambda>_.
     token_form_loop {} token_form_default pairs))"

fun online_form_loop ::
    "string set \<Rightarrow> OnlineTokenForm \<Rightarrow> (string \<times> string) list \<Rightarrow> (HttpError, OnlineTokenForm) result" where
  "online_form_loop keys form [] = Ok form"
| "online_form_loop keys form ((key, v) # pairs) =
     (if is_online_token_param key \<and> key \<in> keys then Err (duplicate_parameter key)
      else online_form_loop (if is_online_token_param key then insert key keys else keys)
             (assign_online_token_form_value form key v) pairs)"

definition parse_online_token_form ::
    "HeaderMap \<Rightarrow> (string \<times> string) list \<Rightarrow> (HttpError, OnlineTokenForm) result" where
  "parse_online_token_form headers pairs =
     and_then (require_form_urlencoded headers) (\<lambda>_.
     and_then (reject_authorization_header_client_auth headers) (\<lambda>_.
     online_form_loop {} online_token_form_default pairs))"

definition required_online_token :: "OnlineTokenForm \<Rightarrow> nat \<Rightarrow> (HttpError, string) result" where
  "required_online_token form max_len =
     (case of_token form of
        None \<Rightarrow> Err (invalid_request (lit ''token is required''))
      | Some token \<Rightarrow>
          if trim token = [] then Err (invalid_request (lit ''token is required''))
          else if max_len < length token then Err (invalid_request (lit ''token too large''))
          else Ok token)"

section \<open>Request validation\<close>

definition is_supported_input_token_type :: "string \<Rightarrow> bool" where
  "is_supported_input_token_type v \<longleftrightarrow> v = ACCESS_TOKEN_TYPE \<or> v = JWT_TOKEN_TYPE"

definition is_supported_requested_token_type :: "string \<Rightarrow> bool" where
  "is_supported_requested_token_type v \<longleftrightarrow> v = ACCESS_TOKEN_TYPE"

fun check_field_sizes :: "nat \<Rightarrow> (string \<times> string option) list \<Rightarrow> (HttpError, unit) result" where
  "check_field_sizes max_len [] = Ok ()"
| "check_field_sizes max_len ((field, v) # rest) =
     (if (case v of None \<Rightarrow> False | Some s \<Rightarrow> max_len < length s) then
        Err (invalid_request (lit (field @ '' too large'')))
      else check_field_sizes max_len rest)"

definition validate_request_params :: "ExchangeRequest \<Rightarrow> nat \<Rightarrow> (HttpError, unit) result" where
  "validate_request_params request max_len =
     (if er_grant_type request = [] then Err (invalid_request (lit ''grant_type is required''))
      else if er_grant_type request \<noteq> TOKEN_EXCHANGE_GRANT_TYPE then
        Err (unsupported_grant_type (lit (''grant_type must be '' @ TOKEN_EXCHANGE_GRANT_TYPE)))
      else if er_subject_token request = [] \<or> er_subject_token_type request = [] then
        Err (invalid_request (lit ''subject_token and subject_token_type are required''))
      else if max_len < length (er_subject_token request) then
        Err (invalid_request (lit ''subject_token too large''))
      else
        and_then (case er_actor_token request of
            None \<Rightarrow> Ok ()
          | Some actor_token \<Rightarrow>
              if actor_token = [] then Err (invalid_request (lit ''actor_token must be a non-empty string''))
              else if max_len < length actor_token then Err (invalid_request (lit ''actor_token too large''))
              else if unwrap_or (er_actor_token_type request) '''' = [] then
                Err (invalid_request (lit ''actor_token_type required when actor_token is present''))
              else Ok ()) (\<lambda>_.
        if er_actor_token_type request \<noteq> None \<and> er_actor_token request = None then
          Err (invalid_request (lit ''actor_token_type present without actor_token''))
        else if \<not> is_supported_input_token_type (er_subject_token_type request) then
          Err (invalid_request (lit (''unsupported subject_token_type '' @ er_subject_token_type request)))
        else if (case er_actor_token_type request of None \<Rightarrow> False
                 | Some actor_type \<Rightarrow> \<not> is_supported_input_token_type actor_type) then
          Err (invalid_request (lit (''unsupported actor_token_type '' @ unwrap_or (er_actor_token_type request) '''')))
        else if (case er_requested_token_type request of None \<Rightarrow> False
                 | Some requested_type \<Rightarrow> \<not> is_supported_requested_token_type requested_type) then
          Err (invalid_request (lit (''unsupported requested_token_type '' @
                 unwrap_or (er_requested_token_type request) '''')))
        else check_field_sizes max_len
               [(''scope'', er_scope request), (''audience'', er_audience request),
                (''resource'', er_resource request), (''client_assertion'', er_client_assertion request)]))"

definition validate_client_assertion_type :: "ExchangeRequest \<Rightarrow> (HttpError, unit) result" where
  "validate_client_assertion_type request =
     (if er_client_assertion_type request \<noteq> Some CLIENT_ASSERTION_TYPE then
        Err (invalid_client (lit (''client_assertion_type must be '' @ CLIENT_ASSERTION_TYPE)))
      else Ok ())"

fun check_present_fields :: "(string \<times> string option) list \<Rightarrow> (HttpError, unit) result" where
  "check_present_fields [] = Ok ()"
| "check_present_fields ((field, v) # rest) =
     (if (case v of None \<Rightarrow> False | Some s \<Rightarrow> trim s = []) then
        Err (invalid_client (lit (field @ '' present but empty'')))
      else check_present_fields rest)"

definition client_assertion_jti :: "AssertionClaims \<Rightarrow> (HttpError, string) result" where
  "client_assertion_jti claims =
     ok_or (non_empty (map_option trim (as_jti claims)))
       (invalid_client (lit ''client_assertion jti must be a non-empty string''))"

section \<open>Exchange policy\<close>

datatype EffectiveExchangeMode = EffDelegation | EffImpersonation

definition effective_exchange_mode ::
    "RuntimeConfig \<Rightarrow> ExchangeRequest \<Rightarrow> bool \<Rightarrow> EffectiveExchangeMode" where
  "effective_exchange_mode config request empty_actor_token_supplied =
     (case token_exchange_mode config of
        Delegation \<Rightarrow> EffDelegation
      | Impersonation \<Rightarrow> EffImpersonation
      | Both \<Rightarrow> if er_actor_token request \<noteq> None \<or> empty_actor_token_supplied then EffDelegation
               else EffImpersonation)"

definition validate_actor_identity :: "RuntimeConfig \<Rightarrow> AssertionClaims \<Rightarrow> (HttpError, unit) result" where
  "validate_actor_identity config actor_claims =
     (if as_sub actor_claims \<notin> actor_ids config then
        Err (invalid_client [Lit ''actor identity '', Dbg (as_sub actor_claims), Lit '' not permitted''])
      else if as_iss actor_claims \<noteq> as_sub actor_claims then
        Err (invalid_client (lit ''actor_token iss and sub must match''))
      else Ok ())"

definition gate_may_act :: "SubjectTokenClaims \<Rightarrow> AssertionClaims \<Rightarrow> (HttpError, unit) result" where
  "gate_may_act subject_claims actor_claims =
     (case st_may_act subject_claims of
        None \<Rightarrow> Ok ()
      | Some v \<Rightarrow>
          (case as_object v of
             None \<Rightarrow> Err (invalid_request (lit ''may_act must be a JSON object''))
           | Some may_act \<Rightarrow>
               if may_act = [] then
                 Err (invalid_request (lit ''may_act present but empty: no actor authorized''))
               else if obj_get_str may_act ''sub'' \<noteq> Some (as_sub actor_claims) then
                 Err (invalid_request (lit ''may_act does not authorize this actor''))
               else if (case obj_get may_act ''iss'' of None \<Rightarrow> False
                        | Some want_iss \<Rightarrow> as_str want_iss \<noteq> Some (as_iss actor_claims)) then
                 Err (invalid_request (lit ''may_act issuer does not match this actor''))
               else Ok ()))"

definition resolve_target_for_request ::
    "ExchangeRequest \<Rightarrow> RuntimeConfig \<Rightarrow> (HttpError, string) result" where
  "resolve_target_for_request request config =
     (if er_audience request = Some '''' then Err (invalid_request (lit ''audience must not be empty''))
      else if er_resource request = Some '''' then Err (invalid_target (lit ''resource must not be empty''))
      else
        and_then (map_err map_core_error (resolve_target (er_audience request) (er_resource request))) (\<lambda>target.
        if target_policy_get (target_policy config) target = None then
          Err (invalid_target [Lit ''unknown/forbidden target '', Dbg target])
        else Ok target))"

record SigningDecision =
  sd_alg :: string
  sd_pqc_fallback :: bool
  sd_pqc_fallback_reason :: "string option"

definition signing_decision_for_target ::
    "RuntimeConfig \<Rightarrow> JoseSigner \<Rightarrow> string \<Rightarrow> (HttpError, SigningDecision) result" where
  "signing_decision_for_target config signer target =
     and_then (ok_or (target_policy_get (target_policy config) target)
         (invalid_target [Lit ''unknown/forbidden target '', Dbg target])) (\<lambda>policy.
     let alg = signer_alg signer;
         alg_is_pqc = is_pqc_jws_alg alg
     in if accepted_token_signing_algs policy \<noteq> {} \<and> alg \<notin> accepted_token_signing_algs policy then
          Err (invalid_target (lit ''target does not accept the configured token signing algorithm''))
        else if pqc_required policy \<and> \<not> alg_is_pqc then
          Err (invalid_target (lit ''target requires PQC token signing but the runtime signer is non-PQC''))
        else if pqc_preferred config \<and> alg_is_pqc \<and> alg \<notin> set (pqc_preferred_algs config) then
          Err (invalid_target (lit ''configured PQC token signing algorithm is not allowed by STS_PQC_PREFERRED_ALGS''))
        else if pqc_preferred config \<and> \<not> alg_is_pqc then
          (if \<not> allow_non_pqc config then
             Err (invalid_target (lit ''PQC token signing is preferred and non-PQC fallback is disabled''))
           else Ok \<lparr>sd_alg = alg, sd_pqc_fallback = True, sd_pqc_fallback_reason = Some ''pqc_signer_not_selected''\<rparr>)
        else Ok \<lparr>sd_alg = alg, sd_pqc_fallback = False, sd_pqc_fallback_reason = None\<rparr>)"

text \<open>\<open>join_scopes\<close> of this crate takes a \<open>BTreeSet\<close>: the scopes in byte order.\<close>

definition join_scope_set :: "string set \<Rightarrow> string" where
  "join_scope_set scopes = join_with '' '' (sorted_list_of_set scopes)"

definition subject_scope_string :: "SubjectTokenClaims \<Rightarrow> (HttpError, string option) result" where
  "subject_scope_string claims =
     (let scopes = (case st_scope claims of None \<Rightarrow> {} | Some s \<Rightarrow> set (split_whitespace s)) in
      and_then (case st_scp claims of
          None \<Rightarrow> Ok scopes
        | Some JNull \<Rightarrow> Ok scopes
        | Some (JString s) \<Rightarrow> Ok (scopes \<union> set (split_whitespace s))
        | Some (JArray vs) \<Rightarrow>
            map_ok (\<lambda>sets. scopes \<union> \<Union> (set sets)) (collect_results (\<lambda>v.
              map_ok (\<lambda>s. set (split_whitespace s))
                (ok_or (as_str v) (invalid_request (lit ''malformed scope claim'')))) vs)
        | Some _ \<Rightarrow> Err (invalid_request (lit ''malformed scope claim''))) (\<lambda>scopes.
      Ok (if scopes = {} then None else Some (join_scope_set scopes))))"

definition resolve_scope_for_request ::
    "ExchangeRequest \<Rightarrow> RuntimeConfig \<Rightarrow> SubjectTokenClaims \<Rightarrow> string \<Rightarrow> (HttpError, string) result" where
  "resolve_scope_for_request request config subject_claims target =
     and_then (ok_or (target_policy_get (target_policy config) target)
         (invalid_target [Lit ''unknown/forbidden target '', Dbg target])) (\<lambda>policy.
     let allowed = join_scope_set (allowed_scopes policy);
         default_scope = join_scope_set (default_scopes policy);
         requested_scope = or_else (non_empty (map_option trim (er_scope request)))
           (if default_scope = [] then None else Some default_scope)
     in and_then (subject_scope_string subject_claims) (\<lambda>subject_scope.
        map_err map_core_error
          (downscope requested_scope allowed subject_scope (subject_scope_bound_required config))))"

function act_claim_from_value_at_depth :: "json \<Rightarrow> nat \<Rightarrow> (HttpError, ActClaim) result" where
  "act_claim_from_value_at_depth v depth =
     (if 10 < depth then Err (invalid_request (lit ''act delegation chain too deep''))
      else case as_object v of
        None \<Rightarrow> Err (invalid_request (lit ''malformed prior act claim''))
      | Some obj \<Rightarrow>
          and_then (ok_or (non_empty (obj_get_str obj ''sub''))
              (invalid_request (lit ''malformed prior act claim''))) (\<lambda>sub.
          let iss = obj_get_str obj ''iss'' in
          and_then (case obj_get obj ''act'' of
              None \<Rightarrow> Ok None
            | Some nested \<Rightarrow> map_ok Some (act_claim_from_value_at_depth nested (depth + 1))) (\<lambda>act.
          Ok (ActClaim sub iss act))))"
  by pat_completeness auto
termination by (relation "measure (\<lambda>(v, depth). 11 - depth)") auto

declare act_claim_from_value_at_depth.simps [simp del]

definition act_claim_from_value :: "json \<Rightarrow> (HttpError, ActClaim) result" where
  "act_claim_from_value v = act_claim_from_value_at_depth v 1"

section \<open>Endpoints\<close>

definition endpoint :: "RuntimeConfig \<Rightarrow> string \<Rightarrow> string" where
  "endpoint config name = trim_end_matches CHR ''/'' (our_issuer config) @ name"

definition token_endpoint :: "RuntimeConfig \<Rightarrow> string" where
  "token_endpoint config = endpoint config ''/token''"

definition jwks_uri :: "RuntimeConfig \<Rightarrow> string" where
  "jwks_uri config = endpoint config ''/jwks''"

definition introspection_endpoint :: "RuntimeConfig \<Rightarrow> string" where
  "introspection_endpoint config = endpoint config ''/introspect''"

definition revocation_endpoint :: "RuntimeConfig \<Rightarrow> string" where
  "revocation_endpoint config = endpoint config ''/revoke''"

definition key_binding_registry :: "RuntimeConfig \<Rightarrow> string set" where
  "key_binding_registry config = actor_ids config \<union> client_ids config"

definition token_type_for_sender :: "DpopBinding option \<Rightarrow> string" where
  "token_type_for_sender binding = (if binding \<noteq> None then ''DPoP'' else ''Bearer'')"

section \<open>Lemmas\<close>

lemma resolve_target_for_request_ok:
  "resolve_target_for_request request config = Ok t \<Longrightarrow>
     resolve_target (er_audience request) (er_resource request) = Ok t \<and>
     (\<exists>p. target_policy_get (target_policy config) t = Some p)"
  by (auto simp: resolve_target_for_request_def result_iff split: if_splits)

lemma resolve_scope_ok:
  assumes "resolve_scope_for_request request config claims target = Ok s"
  obtains policy where "target_policy_get (target_policy config) target = Some policy"
    "scope_set s \<subseteq> scope_set (join_scope_set (allowed_scopes policy))" "scope_set s \<noteq> {}"
proof -
  from assms obtain policy r sub where p: "target_policy_get (target_policy config) target = Some policy"
    and d: "downscope r (join_scope_set (allowed_scopes policy)) sub (subject_scope_bound_required config) = Ok s"
    by (auto simp: resolve_scope_for_request_def result_iff Let_def)
  from downscope_scope_set [OF d] have "scope_set s \<subseteq> scope_set (join_scope_set (allowed_scopes policy))"
    by (auto simp: granted_scopes_def Let_def split: option.splits if_splits)
  moreover from d have "scope_set s \<noteq> {}" using downscope_scope_set [OF d] by (simp add: downscope_ok_iff)
  ultimately show thesis using that p by blast
qed

lemma scope_set_join_tokens:
  assumes "finite A" "\<And>w. w \<in> A \<Longrightarrow> is_token w"
  shows "scope_set (join_scope_set A) = A"
proof -
  have "split_whitespace (join_with '' '' (sorted_list_of_set A)) = sorted_list_of_set A"
    using assms by (intro split_join_tokens) simp
  with assms(1) show ?thesis by (simp add: scope_set_def join_scope_set_def)
qed

lemma signing_decision_ok:
  "signing_decision_for_target config signer target = Ok d \<Longrightarrow>
     \<exists>policy. target_policy_get (target_policy config) target = Some policy \<and> sd_alg d = signer_alg signer \<and>
       (accepted_token_signing_algs policy = {} \<or> sd_alg d \<in> accepted_token_signing_algs policy) \<and>
       (pqc_required policy \<longrightarrow> is_pqc_jws_alg (sd_alg d)) \<and>
       (sd_pqc_fallback d \<longleftrightarrow> pqc_preferred config \<and> \<not> is_pqc_jws_alg (sd_alg d)) \<and>
       (sd_pqc_fallback d \<longrightarrow> allow_non_pqc config) \<and>
       (pqc_preferred config \<longrightarrow> sd_pqc_fallback d \<or> sd_alg d \<in> set (pqc_preferred_algs config))"
  by (auto simp: signing_decision_for_target_def result_iff Let_def split: if_splits)

lemma gate_may_act_ok:
  "gate_may_act subject actor = Ok u \<Longrightarrow>
     (case st_may_act subject of None \<Rightarrow> True
      | Some v \<Rightarrow> \<exists>m. v = JObject m \<and> obj_get m ''sub'' = Some (JString (as_sub actor)) \<and>
          (case obj_get m ''iss'' of None \<Rightarrow> True | Some i \<Rightarrow> i = JString (as_iss actor)))"
  by (auto simp: gate_may_act_def split: option.splits if_splits)

section \<open>The delegation chain\<close>

fun act_depth :: "ActClaim \<Rightarrow> nat" where
  "act_depth (ActClaim sub iss act) = Suc (case act of None \<Rightarrow> 0 | Some a \<Rightarrow> act_depth a)"

fun act_subs :: "ActClaim \<Rightarrow> string list" where
  "act_subs (ActClaim sub iss act) = sub # (case act of None \<Rightarrow> [] | Some a \<Rightarrow> act_subs a)"

text \<open>What \<open>serde\<close> writes for an \<open>ActClaim\<close>, members in key order.\<close>

fun act_to_json :: "ActClaim \<Rightarrow> json" where
  "act_to_json (ActClaim sub iss act) =
     JObject ((case act of None \<Rightarrow> [] | Some a \<Rightarrow> [(''act'', act_to_json a)]) @
       (case iss of None \<Rightarrow> [] | Some i \<Rightarrow> [(''iss'', JString i)]) @ [(''sub'', JString sub)])"

lemma act_chain_ok:
  assumes "act_claim_from_value_at_depth v d = Ok a"
  shows "d + act_depth a \<le> 11 \<and> [] \<notin> set (act_subs a)"
  using assms
proof (induction v d arbitrary: a rule: act_claim_from_value_at_depth.induct)
  case (1 v d)
  from 1(2) obtain obj sub where o: "\<not> 10 < d" "as_object v = Some obj" "non_empty (obj_get_str obj ''sub'') = Some sub"
    by (subst (asm) act_claim_from_value_at_depth.simps) (auto simp: result_iff split: if_splits option.splits)
  from 1(2) o have a: "and_then (case obj_get obj ''act'' of None \<Rightarrow> Ok None
        | Some nested \<Rightarrow> map_ok Some (act_claim_from_value_at_depth nested (d + 1))) (\<lambda>act.
        Ok (ActClaim sub (obj_get_str obj ''iss'') act)) = Ok a"
    by (subst (asm) act_claim_from_value_at_depth.simps) (simp add: Let_def)
  show ?case
  proof (cases "obj_get obj ''act''")
    case None
    with a o show ?thesis by auto
  next
    case (Some nested)
    with a obtain b where b: "act_claim_from_value_at_depth nested (d + 1) = Ok b"
      "a = ActClaim sub (obj_get_str obj ''iss'') (Some b)" by (auto simp: result_iff)
    from 1(1) [OF o(1,2) refl Some b(1)] have "d + 1 + act_depth b \<le> 11 \<and> [] \<notin> set (act_subs b)" .
    with b(2) o(3) show ?thesis by auto
  qed
qed

lemma act_to_json_members:
  "act_to_json (ActClaim sub iss act) = JObject m \<Longrightarrow>
     obj_get_str m ''sub'' = Some sub \<and> obj_get_str m ''iss'' = iss \<and> obj_get m ''act'' = map_option act_to_json act"
  by (auto simp: obj_get_def obj_get_str_def split: option.splits)

lemma act_roundtrip_at:
  "[] \<notin> set (act_subs a) \<Longrightarrow> d + act_depth a \<le> 11 \<Longrightarrow> act_claim_from_value_at_depth (act_to_json a) d = Ok a"
proof (induction a arbitrary: d)
  case (ActClaim sub iss act)
  obtain m where m: "act_to_json (ActClaim sub iss act) = JObject m" by simp
  note mem = act_to_json_members [OF m]
  from ActClaim.prems have d: "\<not> 10 < d" and sub: "sub \<noteq> []" by auto
  have nested: "(case obj_get m ''act'' of None \<Rightarrow> Ok None
      | Some nested \<Rightarrow> map_ok Some (act_claim_from_value_at_depth nested (d + 1))) = Ok act"
  proof (cases act)
    case (Some b)
    have "act_claim_from_value_at_depth (act_to_json b) (d + 1) = Ok b"
      by (rule ActClaim.IH [of b]) (use Some ActClaim.prems in auto)
    with Some mem show ?thesis by simp
  qed (use mem in simp)
  have "non_empty (obj_get_str m ''sub'') = Some sub" using mem sub by simp
  then show ?case unfolding m
    by (subst act_claim_from_value_at_depth.simps)
       (simp add: d mem [THEN conjunct2, THEN conjunct1] nested ok_or_def del: non_empty_Some)
qed

section \<open>Forms\<close>

lemma token_form_loop_ok:
  "(\<exists>form'. token_form_loop keys form pairs = Ok form') \<longleftrightarrow>
     distinct (filter is_recognized_token_form_key (map fst pairs)) \<and>
     keys \<inter> set (filter is_recognized_token_form_key (map fst pairs)) = {}"
  by (induction keys form pairs rule: token_form_loop.induct) auto

lemma assign_other:
  "k \<noteq> ''subject_token'' \<Longrightarrow> tf_subject_token (assign_token_form_value form k v) = tf_subject_token form"
  "k \<noteq> ''actor_token'' \<Longrightarrow> tf_actor_token (assign_token_form_value form k v) = tf_actor_token form"
  "k \<noteq> ''audience'' \<Longrightarrow> tf_audience (assign_token_form_value form k v) = tf_audience form"
  "k \<noteq> ''client_assertion'' \<Longrightarrow> tf_client_assertion (assign_token_form_value form k v) = tf_client_assertion form"
  by (simp_all add: assign_token_form_value_def)

lemma assign_same:
  "tf_subject_token (assign_token_form_value form ''subject_token'' v) = non_empty_form_value v"
  "tf_actor_token (assign_token_form_value form ''actor_token'' v) = non_empty_form_value v"
  "tf_audience (assign_token_form_value form ''audience'' v) = non_empty_form_value v"
  "tf_client_assertion (assign_token_form_value form ''client_assertion'' v) = non_empty_form_value v"
  by (simp_all add: assign_token_form_value_def non_empty_form_value_def)

lemma token_form_loop_field:
  assumes get: "\<And>form v. get (assign_token_form_value form k v) = non_empty_form_value v"
    and other: "\<And>form k' v. k' \<noteq> k \<Longrightarrow> get (assign_token_form_value form k' v) = get form"
    and k: "is_recognized_token_form_key k"
  shows "token_form_loop keys form pairs = Ok form' \<Longrightarrow>
    get form' = (case map_of pairs k of None \<Rightarrow> get form | Some v \<Rightarrow> non_empty_form_value v)"
proof (induction keys form pairs arbitrary: form' rule: token_form_loop.induct)
  case (2 keys form key v pairs)
  show ?case
  proof (cases "is_recognized_token_form_key key")
    case False
    with 2 k show ?thesis by auto
  next
    case True
    with 2(3) have notin: "key \<notin> keys" and
      rec: "token_form_loop (insert key keys) (assign_token_form_value form key v) pairs = Ok form'"
      by (auto split: if_splits)
    have nd: "key \<notin> set (map fst (filter (\<lambda>p. is_recognized_token_form_key (fst p)) pairs))"
      using token_form_loop_ok [of "insert key keys" "assign_token_form_value form key v" pairs] rec True
      by (auto simp: filter_map o_def)
    have "map_of pairs key = None"
      using nd True by (auto simp: map_of_eq_None_iff)
    with 2(2) [OF _ notin rec] True have "k = key \<Longrightarrow> get form' = get (assign_token_form_value form k v)"
      "k \<noteq> key \<Longrightarrow> get form' = (case map_of pairs k of None \<Rightarrow> get form | Some v \<Rightarrow> non_empty_form_value v)"
      by (auto simp: other split: option.splits)
    then show ?thesis using get [of form v] by (cases "k = key") simp_all
  qed
qed simp

section \<open>Properties\<close>

text \<open>
  The form parser accepts a body exactly when no recognised parameter is repeated, and then
  each field is the parameter's value, absent when it is missing or empty. Unrecognised parameters
  have no influence, repeated or not.
\<close>

theorem token_form_exact:
  "case token_form_loop {} token_form_default pairs of
     Inl _ \<Rightarrow> \<not> distinct (filter is_recognized_token_form_key (map fst pairs))
   | Inr form \<Rightarrow> distinct (filter is_recognized_token_form_key (map fst pairs)) \<and>
       tf_subject_token form = Option.bind (map_of pairs ''subject_token'') non_empty_form_value \<and>
       tf_actor_token form = Option.bind (map_of pairs ''actor_token'') non_empty_form_value \<and>
       tf_audience form = Option.bind (map_of pairs ''audience'') non_empty_form_value \<and>
       tf_client_assertion form = Option.bind (map_of pairs ''client_assertion'') non_empty_form_value"
proof (cases "token_form_loop {} token_form_default pairs")
  case (Inl e)
  with token_form_loop_ok [of "{}" token_form_default pairs] show ?thesis by auto
next
  case (Inr form)
  have rec: "is_recognized_token_form_key ''subject_token''" "is_recognized_token_form_key ''actor_token''"
    "is_recognized_token_form_key ''audience''" "is_recognized_token_form_key ''client_assertion''"
    by (simp_all add: is_recognized_token_form_key_def token_form_keys_def)
  note field = token_form_loop_field [OF _ _ _ Inr]
  have "tf_subject_token form = Option.bind (map_of pairs ''subject_token'') non_empty_form_value"
    using field [where get = tf_subject_token, OF assign_same(1) assign_other(1) rec(1)]
    by (cases "map_of pairs ''subject_token''") (simp_all add: token_form_default_def)
  moreover have "tf_actor_token form = Option.bind (map_of pairs ''actor_token'') non_empty_form_value"
    using field [where get = tf_actor_token, OF assign_same(2) assign_other(2) rec(2)]
    by (cases "map_of pairs ''actor_token''") (simp_all add: token_form_default_def)
  moreover have "tf_audience form = Option.bind (map_of pairs ''audience'') non_empty_form_value"
    using field [where get = tf_audience, OF assign_same(3) assign_other(3) rec(3)]
    by (cases "map_of pairs ''audience''") (simp_all add: token_form_default_def)
  moreover have "tf_client_assertion form = Option.bind (map_of pairs ''client_assertion'') non_empty_form_value"
    using field [where get = tf_client_assertion, OF assign_same(4) assign_other(4) rec(4)]
    by (cases "map_of pairs ''client_assertion''") (simp_all add: token_form_default_def)
  ultimately show ?thesis using Inr token_form_loop_ok [of "{}" token_form_default pairs] by simp
qed

text \<open>
  The delegation chain read from a subject token. A chain that was written as JSON is read
  back unchanged when it has at most ten actors, each with a name.
\<close>

theorem act_chain_roundtrip:
  assumes "[] \<notin> set (act_subs a)" "act_depth a \<le> 10"
  shows "act_claim_from_value (act_to_json a) = Ok a"
  unfolding act_claim_from_value_def using assms by (intro act_roundtrip_at) simp_all

theorem act_chain_roundtrip_witness:
  "act_claim_from_value (act_to_json (ActClaim ''agent'' None (Some (ActClaim ''svc'' (Some ''iss'') None)))) =
     Ok (ActClaim ''agent'' None (Some (ActClaim ''svc'' (Some ''iss'') None)))"
  by (rule act_chain_roundtrip) simp_all

text \<open>
  C34: a chain that is accepted has at most ten actors, each with a name; deeper input is refused
  before it is read further.
\<close>

theorem act_chain_bounded:
  "case act_claim_from_value v of
     Inl e \<Rightarrow> he_error e = Some ''invalid_request'' \<and> he_status e = 400
   | Inr a \<Rightarrow> act_depth a \<le> 10 \<and> [] \<notin> set (act_subs a)"
proof (cases "act_claim_from_value v")
  case (Inl e)
  have "act_claim_from_value_at_depth w d = Err e \<Longrightarrow> he_error e = Some ''invalid_request'' \<and> he_status e = 400" for w d
  proof (induction w d rule: act_claim_from_value_at_depth.induct)
    case (1 w d)
    from 1(2) show ?case
      by (subst (asm) act_claim_from_value_at_depth.simps)
         (auto simp: and_then_err ok_or_def map_ok_def invalid_request_def oauth_def Let_def
           split: if_splits option.splits sum.splits dest: 1(1))
  qed
  with Inl show ?thesis by (simp add: act_claim_from_value_def)
next
  case (Inr a)
  with act_chain_ok [of v 1 a] show ?thesis by (simp add: act_claim_from_value_def)
qed

text \<open>
  The signing decision obeys the deployment's policy. The algorithm is the signer's own, the
  target accepts it, a target that requires post-quantum signing gets it, and a fallback under the
  post-quantum profile is marked and happens only with the explicit opt-in.
\<close>

theorem signing_decision_sound:
  "case signing_decision_for_target config signer target of
     Inl e \<Rightarrow> he_error e = Some ''invalid_target''
   | Inr d \<Rightarrow> \<exists>policy. target_policy_get (target_policy config) target = Some policy \<and> sd_alg d = signer_alg signer \<and>
       (if accepted_token_signing_algs policy = {} then True else sd_alg d \<in> accepted_token_signing_algs policy) \<and>
       (if pqc_required policy then is_pqc_jws_alg (sd_alg d) else True) \<and>
       sd_pqc_fallback d = (pqc_preferred config \<and> \<not> is_pqc_jws_alg (sd_alg d)) \<and>
       (if sd_pqc_fallback d then allow_non_pqc config
        else if pqc_preferred config then sd_alg d \<in> set (pqc_preferred_algs config) else True)"
proof (cases "signing_decision_for_target config signer target")
  case (Inl e)
  then show ?thesis
    by (auto simp: signing_decision_for_target_def and_then_err ok_or_def Let_def invalid_target_def oauth_def
        split: if_splits option.splits)
next
  case (Inr d)
  from signing_decision_ok [OF this] Inr show ?thesis by auto
qed

end
