(* ===== verification/Sts_Service.thy ===== *)
theory Sts_Service
  imports Sts_Http
begin

text \<open>
  The running service of \<open>sts-http\<close>: the shared state (\<open>HttpState\<close> with the replay policy, the
  revocation store and the metrics), the handlers \<open>token\<close>, \<open>introspect\<close> and \<open>revoke\<close> as functions from a
  state to a result and the next state, and the service as a transition system over requests.

  \<open>http_env\<close> collects the library parameters. Every reading of the system clock in a handler is a
  field of \<open>token_clock\<close> or \<open>online_clock\<close>, and the random token identifier is an argument.
\<close>

section \<open>State\<close>

record RevocationState =
  rev_revoked :: "(string \<times> int) list"
  rev_poisoned :: bool

record MetricsState =
  ms_minted :: "64 word"
  ms_denied :: "64 word"
  ms_denials :: "(string \<times> 64 word) list"
  ms_denials_poisoned :: bool
  ms_signing_algs :: "((string \<times> bool) \<times> 64 word) list"
  ms_signing_poisoned :: bool

record HttpState =
  hs_config :: RuntimeConfig
  hs_signer :: JoseSigner
  hs_published_jwks :: JwksDocument
  hs_subject_jwks :: JwksDocument
  hs_actor_jwks :: JwksDocument
  hs_client_jwks :: JwksDocument
  hs_replay :: ReplayPolicy
  hs_revocations :: RevocationState
  hs_metrics :: MetricsState

definition revocations_default :: RevocationState where
  "revocations_default = \<lparr>rev_revoked = [], rev_poisoned = False\<rparr>"

definition metrics_default :: MetricsState where
  "metrics_default =
     \<lparr>ms_minted = 0, ms_denied = 0, ms_denials = [], ms_denials_poisoned = False, ms_signing_algs = [],
      ms_signing_poisoned = False\<rparr>"

definition new_with_signer_arc ::
    "RuntimeConfig \<Rightarrow> JoseSigner \<Rightarrow> JwksDocument \<Rightarrow> JwksDocument \<Rightarrow> JwksDocument \<Rightarrow> JwksDocument \<Rightarrow>
     ReplayPolicy \<Rightarrow> HttpState" where
  "new_with_signer_arc config signer published subject actor client replay =
     \<lparr>hs_config = config, hs_signer = signer, hs_published_jwks = published, hs_subject_jwks = subject,
      hs_actor_jwks = actor, hs_client_jwks = client, hs_replay = replay,
      hs_revocations = revocations_default, hs_metrics = metrics_default\<rparr>"

definition new_with_published_jwks ::
    "RuntimeConfig \<Rightarrow> JoseSigner \<Rightarrow> JwksDocument \<Rightarrow> JwksDocument \<Rightarrow> JwksDocument \<Rightarrow> JwksDocument \<Rightarrow>
     ReplayPolicy \<Rightarrow> HttpState" where
  "new_with_published_jwks config signer published subject actor client replay =
     new_with_signer_arc config signer published subject actor client replay"

definition http_state_new ::
    "RuntimeConfig \<Rightarrow> JoseSigner \<Rightarrow> JwksDocument \<Rightarrow> JwksDocument \<Rightarrow> JwksDocument \<Rightarrow> ReplayPolicy \<Rightarrow> HttpState" where
  "http_state_new config signer subject actor client replay =
     new_with_published_jwks config signer (public_jwks signer) subject actor client replay"

record http_env =
  he_jose :: jose_ext
  he_url :: url_parse
  he_dpop :: dpop_ext
  he_io :: io_env
  he_subject_codec :: "SubjectTokenClaims codec"
  he_assertion_codec :: "AssertionClaims codec"
  he_minted_codec :: "MintedClaims codec"
  he_form_parse :: "string \<Rightarrow> (string \<times> string) list"

record token_clock =
  tc_client_window :: int
  tc_client_lifetime :: int
  tc_dpop :: int
  tc_subject :: int
  tc_actor_window :: int
  tc_actor_lifetime :: int
  tc_now :: int

record online_clock =
  oc_client_window :: int
  oc_client_lifetime :: int
  oc_record :: int
  oc_verify :: int
  oc_revoke :: int

text \<open>A handler's result with the next state, and running the rest after a success.\<close>

type_synonym 'a handled = "(HttpError, 'a) result \<times> HttpState"

definition st_then :: "'a handled \<Rightarrow> ('a \<Rightarrow> HttpState \<Rightarrow> 'b handled) \<Rightarrow> 'b handled" where
  "st_then r f = (case r of (Inl e, s) \<Rightarrow> (Inl e, s) | (Inr x, s) \<Rightarrow> f x s)"

section \<open>Revocations\<close>

definition sweep_revoked :: "(string \<times> int) list \<Rightarrow> int \<Rightarrow> (string \<times> int) list" where
  "sweep_revoked revoked now = filter (\<lambda>(_, expiry). now \<le> expiry) revoked"

definition revocation_key :: "jose_ext \<Rightarrow> string \<Rightarrow> string" where
  "revocation_key E token = hex_lower (sha256 E (''sts-revocation-v1'' @ [CHR 0x00] @ token))"

definition revoke_token ::
    "jose_ext \<Rightarrow> RevocationState \<Rightarrow> string \<Rightarrow> int \<Rightarrow> int \<Rightarrow> nat \<Rightarrow> (HttpError, unit) result \<times> RevocationState" where
  "revoke_token E rs token expiry now max_n =
     (if rev_poisoned rs then
        (Err (service_unavailable (lit ''revocation store unavailable, retry shortly'')), rs)
      else
        let revoked = sweep_revoked (rev_revoked rs) now;
            key = revocation_key E token
        in if map_of revoked key = None \<and> max_n \<le> length revoked then
             (Err (service_unavailable (lit ''revocation store full, retry shortly'')), rs\<lparr>rev_revoked := revoked\<rparr>)
           else (Ok (), rs\<lparr>rev_revoked := AList.update key expiry revoked\<rparr>))"

definition is_revoked_or_unavailable ::
    "jose_ext \<Rightarrow> RevocationState \<Rightarrow> string \<Rightarrow> int \<Rightarrow> bool \<times> RevocationState" where
  "is_revoked_or_unavailable E rs token now =
     (if rev_poisoned rs then (True, rs)
      else
        let revoked = sweep_revoked (rev_revoked rs) now in
        (map_of revoked (revocation_key E token) \<noteq> None, rs\<lparr>rev_revoked := revoked\<rparr>))"

section \<open>Metrics\<close>

text \<open>\<open>*map.entry(key).or_insert(0) += 1\<close> on 64-bit counters.\<close>

definition bump :: "'k \<Rightarrow> ('k \<times> 64 word) list \<Rightarrow> ('k \<times> 64 word) list" where
  "bump key m = AList.update key (unwrap_or (map_of m key) 0 + 1) m"

definition record_exchange :: "MetricsState \<Rightarrow> (HttpError, 'a) result \<Rightarrow> MetricsState" where
  "record_exchange ms result =
     (case result of
        Inr _ \<Rightarrow> ms\<lparr>ms_minted := ms_minted ms + 1\<rparr>
      | Inl err \<Rightarrow>
          let ms = ms\<lparr>ms_denied := ms_denied ms + 1\<rparr> in
          (case he_error err of
             Some error \<Rightarrow> if ms_denials_poisoned ms then ms else ms\<lparr>ms_denials := bump error (ms_denials ms)\<rparr>
           | None \<Rightarrow> ms))"

definition record_signing :: "MetricsState \<Rightarrow> SigningDecision \<Rightarrow> MetricsState" where
  "record_signing ms decision =
     (if ms_signing_poisoned ms then ms
      else ms\<lparr>ms_signing_algs := bump (sd_alg decision, sd_pqc_fallback decision) (ms_signing_algs ms)\<rparr>)"

section \<open>Assertions at the endpoints\<close>

definition assertion_options ::
    "RuntimeConfig \<Rightarrow> string list \<Rightarrow> string option \<Rightarrow> bool \<Rightarrow> AssertionVerificationOptions" where
  "assertion_options config audiences binding_token bind =
     \<lparr>opt_expected_issuer = our_issuer config, opt_expected_audiences = audiences,
      opt_clock_skew_leeway = clock_skew_leeway config, opt_max_ttl = assertion_max_ttl config,
      opt_binding_subject_token = binding_token, opt_require_subject_binding = bind,
      opt_key_binding_registry = Some (key_binding_registry config)\<rparr>"

definition verify_assertion_at ::
    "http_env \<Rightarrow> RuntimeConfig \<Rightarrow> JwksDocument \<Rightarrow> int \<Rightarrow> int \<Rightarrow> string \<Rightarrow> AssertionVerificationOptions \<Rightarrow>
     (HttpError, AssertionClaims) result" where
  "verify_assertion_at env config jwks now1 now2 token options =
     map_err (\<lambda>err. invalid_client (verify_message err))
       (verify_assertion_with_allowed_algs (he_jose env) (he_url env) (he_assertion_codec env) now1 now2 token jwks
          (inbound_assertion_algs config) options)"

definition verify_actor_token ::
    "http_env \<Rightarrow> token_clock \<Rightarrow> HttpState \<Rightarrow> string \<Rightarrow> string \<Rightarrow> (HttpError, AssertionClaims) result" where
  "verify_actor_token env clk st actor_token subject_token =
     verify_assertion_at env (hs_config st) (hs_actor_jwks st) (tc_actor_window clk) (tc_actor_lifetime clk) actor_token
       (assertion_options (hs_config st) [our_issuer (hs_config st), token_endpoint (hs_config st)]
          (Some subject_token) (require_subject_binding (hs_config st)))"

text \<open>
  The part of client authentication that the token endpoint and the online endpoints share: both
  functions repeat it in the source.
\<close>

definition check_client_assertion ::
    "http_env \<Rightarrow> HttpState \<Rightarrow> int \<Rightarrow> int \<Rightarrow> ExchangeRequest \<Rightarrow> string \<Rightarrow> (HttpError, AssertionClaims) result" where
  "check_client_assertion env st now1 now2 request own_endpoint =
     and_then (check_present_fields
         [(''client_assertion'', er_client_assertion request),
          (''client_assertion_type'', er_client_assertion_type request), (''client_id'', er_client_id request)]) (\<lambda>_.
     and_then (validate_client_assertion_type request) (\<lambda>_.
     and_then (ok_or (er_client_assertion request) (invalid_client (lit ''client_assertion required''))) (\<lambda>assertion.
     and_then (verify_assertion_at env (hs_config st) (hs_client_jwks st) now1 now2 assertion
         (assertion_options (hs_config st) [our_issuer (hs_config st), own_endpoint] None False)) (\<lambda>claims.
     if as_sub claims \<notin> client_ids (hs_config st) then
       Err (invalid_client [Lit ''client '', Dbg (as_sub claims), Lit '' not permitted''])
     else if (case er_client_id request of None \<Rightarrow> False | Some client_id \<Rightarrow> client_id \<noteq> as_sub claims) then
       Err (invalid_client (lit ''client_id does not match the authenticated client_assertion''))
     else and_then (client_assertion_jti claims) (\<lambda>_. Ok claims)))))"

definition has_client_auth :: "ExchangeRequest \<Rightarrow> bool" where
  "has_client_auth request \<longleftrightarrow> er_client_assertion request \<noteq> None \<or>
     er_client_assertion_type request \<noteq> None \<or> er_client_id request \<noteq> None"

definition authenticate_client_if_present ::
    "http_env \<Rightarrow> token_clock \<Rightarrow> HttpState \<Rightarrow> ExchangeRequest \<Rightarrow> EffectiveExchangeMode \<Rightarrow>
     (HttpError, AssertionClaims option) result" where
  "authenticate_client_if_present env clk st request mode =
     (if mode = EffImpersonation \<and> er_actor_token request \<noteq> None then
        Err (invalid_client (lit ''impersonation requires client_assertion, not actor_token''))
      else if mode = EffImpersonation \<and> \<not> has_client_auth request then
        Err (invalid_client (lit ''impersonation requires client_assertion''))
      else if client_auth_policy (hs_config st) = PrivateKeyJwtRequired \<and> \<not> has_client_auth request then
        Err (invalid_client (lit ''client_assertion required by CLIENT_AUTH_POLICY''))
      else if \<not> has_client_auth request then Ok None
      else
        and_then (check_client_assertion env st (tc_client_window clk) (tc_client_lifetime clk) request
            (token_endpoint (hs_config st))) (\<lambda>claims.
        if mode = EffDelegation \<and> er_actor_token request = None then
          Err (invalid_request (lit ''actor_token required for delegation''))
        else Ok (Some claims)))"

definition exchange_request_default :: ExchangeRequest where
  "exchange_request_default =
     \<lparr>er_grant_type = [], er_subject_token = [], er_subject_token_type = [], er_actor_token = None,
      er_actor_token_type = None, er_audience = None, er_resource = None, er_scope = None,
      er_requested_token_type = None, er_client_id = None, er_client_assertion = None,
      er_client_assertion_type = None\<rparr>"

definition authenticate_online_client ::
    "http_env \<Rightarrow> online_clock \<Rightarrow> HttpState \<Rightarrow> OnlineTokenForm \<Rightarrow> string \<Rightarrow> (HttpError, AssertionClaims) result" where
  "authenticate_online_client env clk st form own_endpoint =
     (let request = exchange_request_default
            \<lparr>er_client_id := of_client_id form, er_client_assertion := of_client_assertion form,
             er_client_assertion_type := of_client_assertion_type form\<rparr>
      in if \<not> has_client_auth request then Err (invalid_client (lit ''client_assertion required''))
         else check_client_assertion env st (oc_client_window clk) (oc_client_lifetime clk) request own_endpoint)"

section \<open>Replay recording\<close>

definition check_and_record ::
    "http_env \<Rightarrow> HttpState \<Rightarrow> string \<Rightarrow> int \<Rightarrow> int \<Rightarrow> (ReplayError \<Rightarrow> HttpError) \<Rightarrow> unit handled" where
  "check_and_record env st key expiry now on_error =
     (case policy_check_and_record (sha256 (he_jose env)) (he_io env) (hs_replay st) key expiry now of
        (r, p) \<Rightarrow> (map_err on_error r, st\<lparr>hs_replay := p\<rparr>))"

definition actor_replay_key :: "AssertionClaims \<Rightarrow> string \<Rightarrow> string" where
  "actor_replay_key claims jti = ''act:'' @ as_sub claims @ '':'' @ jti"

definition client_replay_key :: "AssertionClaims \<Rightarrow> string \<Rightarrow> string" where
  "client_replay_key claims jti = ''ca:'' @ as_sub claims @ '':'' @ jti"

definition record_client_assertion_replay :: "http_env \<Rightarrow> HttpState \<Rightarrow> AssertionClaims \<Rightarrow> int \<Rightarrow> unit handled" where
  "record_client_assertion_replay env st claims now =
     (case client_assertion_jti claims of
        Inl e \<Rightarrow> (Inl e, st)
      | Inr jti \<Rightarrow> check_and_record env st (client_replay_key claims jti) (as_exp claims) now
                   map_client_assertion_replay_error)"

definition record_dpop_replay :: "http_env \<Rightarrow> HttpState \<Rightarrow> DpopBinding \<Rightarrow> int \<Rightarrow> unit handled" where
  "record_dpop_replay env st binding now =
     check_and_record env st (dpop_replay_key (sha256 (he_jose env)) (db_jkt binding) (db_jti binding))
       (db_replay_expires_at binding) now map_dpop_replay_error"

definition validate_dpop_header ::
    "http_env \<Rightarrow> HeaderMap \<Rightarrow> HttpState \<Rightarrow> int \<Rightarrow> (HttpError, DpopBinding option) result" where
  "validate_dpop_header env headers st now =
     (case hm_dpop headers of
        [] \<Rightarrow> Ok None
      | [p] \<Rightarrow>
          and_then (ok_or p (invalid_dpop_proof (lit ''DPoP proof missing or not a string''))) (\<lambda>prf.
          map_err map_dpop_error (map_ok Some (validate_dpop_proof (he_dpop env) (he_url env)
            \<lparr>req_proof = prf, req_htm = ''POST'', req_htu = token_endpoint (hs_config st), req_now = now,
             req_leeway = clock_skew_leeway (hs_config st)\<rparr>)))
      | _ \<Rightarrow> Err (invalid_dpop_proof (lit ''multiple DPoP header fields are not allowed'')))"

section \<open>The token endpoint\<close>

record VerifiedExchange =
  ve_subject_claims :: SubjectTokenClaims
  ve_subject_sub :: string
  ve_target :: string
  ve_scope :: string
  ve_client_claims :: "AssertionClaims option"
  ve_dpop_binding :: "DpopBinding option"

record TokenResponse =
  tr_access_token :: string
  tr_issued_token_type :: string
  tr_token_type :: string
  tr_expires_in :: int
  tr_scope :: string
  tr_signing_alg_selected :: string
  tr_pqc_fallback :: bool
  tr_pqc_fallback_reason :: "string option"

text \<open>
  The tail both exchange functions have: the payload with the subject's authentication context,
  the signature, the metric and the response.
\<close>

definition exchange_payload ::
    "HttpState \<Rightarrow> VerifiedExchange \<Rightarrow> AssertionClaims \<Rightarrow> ActClaim option \<Rightarrow> string \<Rightarrow> int \<Rightarrow> int \<Rightarrow> MintedClaims" where
  "exchange_payload st exchange caller act jti now expiry =
     (build_scoped_payload (our_issuer (hs_config st)) (ve_subject_sub exchange) (ve_target exchange)
        (ve_scope exchange) now expiry jti (as_sub caller) act (map_option db_jkt (ve_dpop_binding exchange)))
     \<lparr>mc_auth_time := st_auth_time (ve_subject_claims exchange),
      mc_acr := st_acr (ve_subject_claims exchange),
      mc_amr := unwrap_or (st_amr (ve_subject_claims exchange)) []\<rparr>"

definition token_expiry :: "HttpState \<Rightarrow> VerifiedExchange \<Rightarrow> AssertionClaims \<Rightarrow> int \<Rightarrow> int" where
  "token_expiry st exchange caller now =
     min (i64_add now (scoped_token_ttl (hs_config st)))
       (min (st_exp (ve_subject_claims exchange)) (as_exp caller))"

definition mint_response ::
    "http_env \<Rightarrow> HttpState \<Rightarrow> VerifiedExchange \<Rightarrow> SigningDecision \<Rightarrow> MintedClaims \<Rightarrow> int \<Rightarrow> int \<Rightarrow> TokenResponse handled" where
  "mint_response env st exchange decision payload now expiry =
     (case sign_claims (he_jose env) (he_minted_codec env) (hs_signer st) payload of
        Inl _ \<Rightarrow> (Err (server_error (lit ''internal error'')), st)
      | Inr access_token \<Rightarrow>
          (Ok \<lparr>tr_access_token = access_token, tr_issued_token_type = ACCESS_TOKEN_TYPE,
              tr_token_type = token_type_for_sender (ve_dpop_binding exchange),
              tr_expires_in = max (i64_sub expiry now) 0, tr_scope = ve_scope exchange,
              tr_signing_alg_selected = sd_alg decision, tr_pqc_fallback = sd_pqc_fallback decision,
              tr_pqc_fallback_reason = sd_pqc_fallback_reason decision\<rparr>,
           st\<lparr>hs_metrics := record_signing (hs_metrics st) decision\<rparr>))"

definition record_optional ::
    "('b \<Rightarrow> HttpState \<Rightarrow> unit handled) \<Rightarrow> 'b option \<Rightarrow> HttpState \<Rightarrow> unit handled" where
  "record_optional record_it v st = (case v of None \<Rightarrow> (Ok (), st) | Some x \<Rightarrow> record_it x st)"

text \<open>What \<open>exchange_delegation\<close> checks before it records anything.\<close>

definition delegation_checks ::
    "http_env \<Rightarrow> token_clock \<Rightarrow> HttpState \<Rightarrow> ExchangeRequest \<Rightarrow> VerifiedExchange \<Rightarrow>
     (HttpError, AssertionClaims \<times> SigningDecision \<times> ActClaim \<times> string) result" where
  "delegation_checks env clk st request exchange =
     and_then (ok_or (er_actor_token request)
         (if ve_client_claims exchange \<noteq> None then invalid_request (lit ''actor_token required for delegation'')
          else invalid_client (lit ''no client authentication: send a client_assertion or an actor_token''))) (\<lambda>actor_token.
     and_then (verify_actor_token env clk st actor_token (er_subject_token request)) (\<lambda>actor_claims.
     and_then (validate_actor_identity (hs_config st) actor_claims) (\<lambda>_.
     and_then (gate_may_act (ve_subject_claims exchange) actor_claims) (\<lambda>_.
     and_then (signing_decision_for_target (hs_config st) (hs_signer st) (ve_target exchange)) (\<lambda>decision.
     and_then (map_transpose act_claim_from_value (st_act (ve_subject_claims exchange))) (\<lambda>prior_act.
     let act = build_act (as_sub actor_claims) prior_act in
     and_then (ok_or (case as_jti actor_claims of None \<Rightarrow> None
           | Some j \<Rightarrow> if trim j = [] then None else Some j)
         (invalid_client (lit ''actor_token jti must be a non-empty string''))) (\<lambda>actor_jti.
     Ok (actor_claims, decision, act, actor_jti))))))))"

definition exchange_delegation ::
    "http_env \<Rightarrow> token_clock \<Rightarrow> string \<Rightarrow> HttpState \<Rightarrow> ExchangeRequest \<Rightarrow> VerifiedExchange \<Rightarrow> TokenResponse handled" where
  "exchange_delegation env clk jti st request exchange =
     (case delegation_checks env clk st request exchange of
        Inl e \<Rightarrow> (Inl e, st)
      | Inr (actor_claims, decision, act, actor_jti) \<Rightarrow>
          let now = tc_now clk in
          st_then (check_and_record env st (actor_replay_key actor_claims actor_jti) (as_exp actor_claims) now
              map_replay_error) (\<lambda>_ st.
          st_then (record_optional (\<lambda>c st. record_client_assertion_replay env st c now) (ve_client_claims exchange) st) (\<lambda>_ st.
          st_then (record_optional (\<lambda>b st. record_dpop_replay env st b now) (ve_dpop_binding exchange) st) (\<lambda>_ st.
          let expiry = token_expiry st exchange actor_claims now in
          mint_response env st exchange decision
            (exchange_payload st exchange actor_claims (Some act) jti now expiry) now expiry))))"

definition impersonation_checks ::
    "HttpState \<Rightarrow> ExchangeRequest \<Rightarrow> VerifiedExchange \<Rightarrow> (HttpError, AssertionClaims \<times> SigningDecision) result" where
  "impersonation_checks st request exchange =
     (if er_actor_token request \<noteq> None then
        Err (invalid_client (lit ''impersonation requires client_assertion, not actor_token''))
      else
        and_then (ok_or (ve_client_claims exchange)
            (invalid_client (lit ''impersonation requires client_assertion''))) (\<lambda>client_claims.
        and_then (ok_or (map_of (impersonation_policy (hs_config st)) (as_sub client_claims))
            (invalid_request [Lit ''impersonation not authorized for client '', Dbg (as_sub client_claims)])) (\<lambda>policy_entry.
        if \<not> selector_allows (imp_targets policy_entry) (ve_target exchange) then
          Err (invalid_target [Lit ''impersonation to '', Dbg (ve_target exchange),
                 Lit '' not authorized for client '', Dbg (as_sub client_claims)])
        else if \<not> selector_allows (imp_subjects policy_entry) (ve_subject_sub exchange) then
          Err (invalid_request [Lit ''impersonation of subject '', Dbg (ve_subject_sub exchange),
                 Lit '' not authorized for client '', Dbg (as_sub client_claims)])
        else
          and_then (signing_decision_for_target (hs_config st) (hs_signer st) (ve_target exchange)) (\<lambda>decision.
          Ok (client_claims, decision)))))"

definition exchange_impersonation ::
    "http_env \<Rightarrow> token_clock \<Rightarrow> string \<Rightarrow> HttpState \<Rightarrow> ExchangeRequest \<Rightarrow> VerifiedExchange \<Rightarrow> TokenResponse handled" where
  "exchange_impersonation env clk jti st request exchange =
     (case impersonation_checks st request exchange of
        Inl e \<Rightarrow> (Inl e, st)
      | Inr (client_claims, decision) \<Rightarrow>
          let now = tc_now clk in
          st_then (record_client_assertion_replay env st client_claims now) (\<lambda>_ st.
          st_then (record_optional (\<lambda>b st. record_dpop_replay env st b now) (ve_dpop_binding exchange) st) (\<lambda>_ st.
          let expiry = token_expiry st exchange client_claims now in
          mint_response env st exchange decision
            (exchange_payload st exchange client_claims None jti now expiry) now expiry)))"

text \<open>The stateless part of \<open>token_inner\<close>.\<close>

definition token_checks ::
    "http_env \<Rightarrow> token_clock \<Rightarrow> HttpState \<Rightarrow> HeaderMap \<Rightarrow> string \<Rightarrow>
     (HttpError, EffectiveExchangeMode \<times> ExchangeRequest \<times> VerifiedExchange) result" where
  "token_checks env clk st headers body =
     and_then (parse_token_form headers (he_form_parse env body)) (\<lambda>form.
     let request = into_exchange_request form in
     and_then (validate_request_params request (max_token_len (hs_config st))) (\<lambda>_.
     let mode = effective_exchange_mode (hs_config st) request (tf_empty_actor_token_supplied form) in
     and_then (authenticate_client_if_present env clk st request mode) (\<lambda>client_claims.
     and_then (validate_dpop_header env headers st (tc_dpop clk)) (\<lambda>dpop_binding.
     and_then (map_err map_subject_verify_error
         (verify_subject_token (he_jose env) (he_url env) (he_subject_codec env) (tc_subject clk)
            (er_subject_token request) (hs_subject_jwks st) (idp_issuer (hs_config st))
            (sorted_list_of_set (expected_subject_aud (hs_config st))) (clock_skew_leeway (hs_config st)))) (\<lambda>subject_claims.
     and_then (resolve_target_for_request request (hs_config st)) (\<lambda>target.
     and_then (resolve_scope_for_request request (hs_config st) subject_claims target) (\<lambda>scp.
     and_then (ok_or (case st_sub subject_claims of None \<Rightarrow> None
           | Some s \<Rightarrow> if trim s = [] then None else Some s)
         (invalid_grant (lit ''subject token missing sub''))) (\<lambda>subject_sub.
     Ok (mode, request, \<lparr>ve_subject_claims = subject_claims, ve_subject_sub = subject_sub, ve_target = target,
          ve_scope = scp, ve_client_claims = client_claims, ve_dpop_binding = dpop_binding\<rparr>)))))))))"

definition token_inner ::
    "http_env \<Rightarrow> token_clock \<Rightarrow> string \<Rightarrow> HeaderMap \<Rightarrow> string \<Rightarrow> HttpState \<Rightarrow> TokenResponse handled" where
  "token_inner env clk jti headers body st =
     (case token_checks env clk st headers body of
        Inl e \<Rightarrow> (Inl e, st)
      | Inr (EffDelegation, request, exchange) \<Rightarrow> exchange_delegation env clk jti st request exchange
      | Inr (EffImpersonation, request, exchange) \<Rightarrow> exchange_impersonation env clk jti st request exchange)"

definition token ::
    "http_env \<Rightarrow> token_clock \<Rightarrow> string \<Rightarrow> HeaderMap \<Rightarrow> string \<Rightarrow> HttpState \<Rightarrow> TokenResponse handled" where
  "token env clk jti headers body st =
     (case token_inner env clk jti headers body st of
        (r, st') \<Rightarrow> (r, st'\<lparr>hs_metrics := record_exchange (hs_metrics st') r\<rparr>))"

section \<open>Introspection and revocation\<close>

definition json_of_int :: "int \<Rightarrow> json" where
  "json_of_int i = JNumber (if 0 \<le> i then PosInt (nat i) else NegInt i)"

definition verified_sts_access_token ::
    "http_env \<Rightarrow> HttpState \<Rightarrow> string \<Rightarrow> int \<Rightarrow> bool \<Rightarrow> MintedClaims option \<times> HttpState" where
  "verified_sts_access_token env st tok now check_revocation =
     (case verify_claims_against_jwks_with_header (he_jose env) (he_minted_codec env) tok (hs_published_jwks st) of
        Inl _ \<Rightarrow> (None, st)
      | Inr verified \<Rightarrow>
          let claims = vj_claims verified in
          if vj_typ verified \<noteq> Some ''at+jwt'' then (None, st)
          else if mc_iss claims \<noteq> our_issuer (hs_config st) then (None, st)
          else if map_of (target_policy (hs_config st)) (mc_aud claims) = None then (None, st)
          else if trim (mc_sub claims) = [] \<or> trim (mc_client_id claims) = [] \<or> trim (mc_scope claims) = [] then (None, st)
          else if mc_exp claims \<le> now \<or> i64_add now (clock_skew_leeway (hs_config st)) < mc_iat claims then (None, st)
          else if check_revocation then
            (case is_revoked_or_unavailable (he_jose env) (hs_revocations st) tok now of
               (revoked, rs) \<Rightarrow> (if revoked then None else Some claims, st\<lparr>hs_revocations := rs\<rparr>))
          else (Some claims, st))"

definition introspection_response_for_token ::
    "http_env \<Rightarrow> HttpState \<Rightarrow> string \<Rightarrow> int \<Rightarrow> json \<times> HttpState" where
  "introspection_response_for_token env st tok now =
     (case verified_sts_access_token env st tok now True of
        (None, st) \<Rightarrow> (JObject [(''active'', JBool False)], st)
      | (Some claims, st) \<Rightarrow>
          (JObject ((case mc_act claims of None \<Rightarrow> [] | Some a \<Rightarrow> [(''act'', act_to_json a)]) @
             [(''active'', JBool True), (''aud'', JString (mc_aud claims)), (''client_id'', JString (mc_client_id claims))] @
             (case mc_cnf_jkt claims of None \<Rightarrow> [] | Some jkt \<Rightarrow> [(''cnf'', JObject [(''jkt'', JString jkt)])]) @
             [(''exp'', json_of_int (mc_exp claims)), (''iat'', json_of_int (mc_iat claims)), (''iss'', JString (mc_iss claims)),
              (''scope'', JString (mc_scope claims)), (''sub'', JString (mc_sub claims))]), st))"

definition introspect ::
    "http_env \<Rightarrow> online_clock \<Rightarrow> HeaderMap \<Rightarrow> string \<Rightarrow> HttpState \<Rightarrow> json handled" where
  "introspect env clk headers body st =
     (case and_then (parse_online_token_form headers (he_form_parse env body)) (\<lambda>form.
             and_then (required_online_token form (max_token_len (hs_config st))) (\<lambda>tok.
             and_then (authenticate_online_client env clk st form (introspection_endpoint (hs_config st))) (\<lambda>claims.
             Ok (tok, claims)))) of
        Inl e \<Rightarrow> (Inl e, st)
      | Inr (tok, claims) \<Rightarrow>
          st_then (record_client_assertion_replay env st claims (oc_record clk)) (\<lambda>_ st.
          (case introspection_response_for_token env st tok (oc_verify clk) of (response, st) \<Rightarrow> (Ok response, st))))"

definition revoke ::
    "http_env \<Rightarrow> online_clock \<Rightarrow> HeaderMap \<Rightarrow> string \<Rightarrow> HttpState \<Rightarrow> unit handled" where
  "revoke env clk headers body st =
     (case and_then (parse_online_token_form headers (he_form_parse env body)) (\<lambda>form.
             and_then (required_online_token form (max_token_len (hs_config st))) (\<lambda>tok.
             and_then (authenticate_online_client env clk st form (revocation_endpoint (hs_config st))) (\<lambda>claims.
             Ok (tok, claims)))) of
        Inl e \<Rightarrow> (Inl e, st)
      | Inr (tok, claims) \<Rightarrow>
          st_then (record_client_assertion_replay env st claims (oc_record clk)) (\<lambda>_ st.
          (case verified_sts_access_token env st tok (oc_verify clk) False of
             (None, st) \<Rightarrow> (Ok (), st)
           | (Some token_claims, st) \<Rightarrow>
               (case revoke_token (he_jose env) (hs_revocations st) tok (mc_exp token_claims) (oc_revoke clk)
                       (max_seen_jti (hs_config st)) of
                  (r, rs) \<Rightarrow> (r, st\<lparr>hs_revocations := rs\<rparr>)))))"

section \<open>The service as a transition system\<close>

datatype http_request =
    TokenRequest token_clock string HeaderMap string
  | IntrospectRequest online_clock HeaderMap string
  | RevokeRequest online_clock HeaderMap string

datatype http_response =
    TokenReply "(HttpError, TokenResponse) result"
  | IntrospectReply "(HttpError, json) result"
  | RevokeReply "(HttpError, unit) result"

fun serve :: "http_env \<Rightarrow> HttpState \<Rightarrow> http_request \<Rightarrow> http_response \<times> HttpState" where
  "serve env st (TokenRequest clk jti headers body) =
     (case token env clk jti headers body st of (r, st') \<Rightarrow> (TokenReply r, st'))"
| "serve env st (IntrospectRequest clk headers body) =
     (case introspect env clk headers body st of (r, st') \<Rightarrow> (IntrospectReply r, st'))"
| "serve env st (RevokeRequest clk headers body) =
     (case revoke env clk headers body st of (r, st') \<Rightarrow> (RevokeReply r, st'))"

primrec serve_all :: "http_env \<Rightarrow> HttpState \<Rightarrow> http_request list \<Rightarrow> http_response list \<times> HttpState" where
  "serve_all env st [] = ([], st)"
| "serve_all env st (q # qs) =
     (case serve env st q of (a, st1) \<Rightarrow> (case serve_all env st1 qs of (as, st2) \<Rightarrow> (a # as, st2)))"

inductive service_step :: "http_env \<Rightarrow> HttpState \<Rightarrow> http_request \<Rightarrow> http_response \<Rightarrow> HttpState \<Rightarrow> bool"
  for env where
  serve_request: "serve env st q = (a, st') \<Longrightarrow> service_step env st q a st'"

inductive reachable :: "http_env \<Rightarrow> HttpState \<Rightarrow> HttpState \<Rightarrow> bool" for env st0 where
  start: "reachable env st0 st0"
| step: "reachable env st0 st \<Longrightarrow> service_step env st q a st' \<Longrightarrow> reachable env st0 st'"

inductive_cases service_stepE: "service_step env st q a st'"

section \<open>What a handler does to the state\<close>

lemma st_then_simps [simp]:
  "st_then (Inl e, s) f = (Inl e, s)"
  "st_then (Inr x, s) f = f x s"
  by (simp_all add: st_then_def)

lemma st_then_ok: "st_then r f = (Inr y, s') \<longleftrightarrow> (\<exists>x s. r = (Inr x, s) \<and> f x s = (Inr y, s'))"
  by (cases r; cases "fst r") auto

abbreviation replay_car where
  "replay_car env \<equiv> policy_check_and_record (sha256 (he_jose env)) (he_io env)"

text \<open>The fields no handler changes.\<close>

definition static :: "HttpState \<Rightarrow>
    RuntimeConfig \<times> JoseSigner \<times> JwksDocument \<times> JwksDocument \<times> JwksDocument \<times> JwksDocument" where
  "static st = (hs_config st, hs_signer st, hs_published_jwks st, hs_subject_jwks st, hs_actor_jwks st,
     hs_client_jwks st)"

lemma static_eqD:
  assumes "static a = static b"
  shows "hs_config a = hs_config b" "hs_signer a = hs_signer b" "hs_published_jwks a = hs_published_jwks b"
    "hs_subject_jwks a = hs_subject_jwks b" "hs_actor_jwks a = hs_actor_jwks b" "hs_client_jwks a = hs_client_jwks b"
  using assms by (simp_all add: static_def)

text \<open>
  One state comes from another by calls of the replay policy at clock \<open>t\<close>, with the revocations and
  the static fields as they were; metrics may differ.
\<close>

definition replay_evolves :: "http_env \<Rightarrow> int \<Rightarrow> HttpState \<Rightarrow> HttpState \<Rightarrow> bool" where
  "replay_evolves env t st st' \<longleftrightarrow> static st' = static st \<and> hs_revocations st' = hs_revocations st \<and>
     (\<exists>cs. list_all (\<lambda>c. snd (snd c) = t) cs \<and> hs_replay st' = store_run (replay_car env) (hs_replay st) cs)"

lemma evolves_refl: "replay_evolves env t st st"
  unfolding replay_evolves_def by (auto intro: exI [of _ "[]"])

lemma store_run_append: "store_run car s (cs @ ds) = store_run car (store_run car s cs) ds"
  by (induction cs arbitrary: s) simp_all

lemma evolves_trans:
  assumes "replay_evolves env t a b" "replay_evolves env t b c"
  shows "replay_evolves env t a c"
proof -
  from assms obtain cs ds where
    "list_all (\<lambda>c. snd (snd c) = t) cs" "hs_replay b = store_run (replay_car env) (hs_replay a) cs"
    "list_all (\<lambda>c. snd (snd c) = t) ds" "hs_replay c = store_run (replay_car env) (hs_replay b) ds"
    unfolding replay_evolves_def by blast
  then have "\<exists>es. list_all (\<lambda>c. snd (snd c) = t) es \<and> hs_replay c = store_run (replay_car env) (hs_replay a) es"
    by (intro exI [of _ "cs @ ds"]) (simp add: store_run_append)
  with assms show ?thesis by (simp add: replay_evolves_def)
qed

lemma evolves_metrics: "replay_evolves env t st (st'\<lparr>hs_metrics := m\<rparr>) \<longleftrightarrow> replay_evolves env t st st'"
  by (simp add: replay_evolves_def static_def)

lemma evolves_check_and_record: "replay_evolves env t st (snd (check_and_record env st key expiry t f))"
proof -
  have "\<exists>cs. list_all (\<lambda>c. snd (snd c) = t) cs \<and>
      snd (replay_car env (hs_replay st) key expiry t) = store_run (replay_car env) (hs_replay st) cs"
    by (intro exI [of _ "[(key, expiry, t)]"]) simp
  then show ?thesis
    by (simp add: replay_evolves_def check_and_record_def static_def split: prod.splits) (metis snd_conv)
qed

lemma evolves_st_then:
  assumes "replay_evolves env t st (snd r)" "\<And>x s. r = (Inr x, s) \<Longrightarrow> replay_evolves env t s (snd (f x s))"
  shows "replay_evolves env t st (snd (st_then r f))"
proof (cases r)
  case (Pair v s)
  show ?thesis
  proof (cases v)
    case (Inr x)
    with Pair assms evolves_trans show ?thesis by fastforce
  qed (use Pair assms in simp)
qed

lemma evolves_record_client: "replay_evolves env t st (snd (record_client_assertion_replay env st c t))"
  by (simp add: record_client_assertion_replay_def evolves_refl evolves_check_and_record split: sum.splits)

lemma evolves_record_dpop: "replay_evolves env t st (snd (record_dpop_replay env st b t))"
  by (simp add: record_dpop_replay_def evolves_check_and_record)

lemma evolves_record_optional:
  "(\<And>x s. replay_evolves env t s (snd (f x s))) \<Longrightarrow> replay_evolves env t st (snd (record_optional f v st))"
  by (simp add: record_optional_def evolves_refl split: option.splits)

lemma evolves_mint: "replay_evolves env t st (snd (mint_response env st exchange decision payload now expiry))"
  by (simp add: mint_response_def evolves_refl evolves_metrics split: sum.splits)

lemmas evolves_intros = evolves_refl evolves_st_then evolves_check_and_record evolves_record_client
  evolves_record_dpop evolves_record_optional evolves_mint

lemma evolves_delegation: "replay_evolves env (tc_now clk) st (snd (exchange_delegation env clk jti st request exchange))"
  unfolding exchange_delegation_def Let_def by (auto split: sum.splits prod.splits intro!: evolves_intros)

lemma evolves_impersonation:
  "replay_evolves env (tc_now clk) st (snd (exchange_impersonation env clk jti st request exchange))"
  unfolding exchange_impersonation_def Let_def by (auto split: sum.splits prod.splits intro!: evolves_intros)

lemma evolves_token: "replay_evolves env (tc_now clk) st (snd (token env clk jti headers body st))"
proof -
  have "replay_evolves env (tc_now clk) st (snd (token_inner env clk jti headers body st))"
    by (auto simp: token_inner_def evolves_refl evolves_delegation evolves_impersonation
        split: sum.splits prod.splits EffectiveExchangeMode.splits)
  then show ?thesis
    by (cases "token_inner env clk jti headers body st") (simp add: token_def evolves_metrics)
qed

text \<open>The clock at which a request records, and the token an online request is about.\<close>

fun record_clock :: "http_request \<Rightarrow> int" where
  "record_clock (TokenRequest clk jti h b) = tc_now clk"
| "record_clock (IntrospectRequest clk h b) = oc_record clk"
| "record_clock (RevokeRequest clk h b) = oc_record clk"

definition form_online_token :: "http_env \<Rightarrow> HeaderMap \<Rightarrow> string \<Rightarrow> string option" where
  "form_online_token env headers body =
     (case parse_online_token_form headers (he_form_parse env body) of Inl _ \<Rightarrow> None | Inr form \<Rightarrow> of_token form)"

text \<open>The checks of \<open>verified_sts_access_token\<close> that do not look at the revocations.\<close>

definition sts_token_claims :: "http_env \<Rightarrow> HttpState \<Rightarrow> string \<Rightarrow> int \<Rightarrow> MintedClaims option" where
  "sts_token_claims env st tok now =
     (case verify_claims_against_jwks_with_header (he_jose env) (he_minted_codec env) tok (hs_published_jwks st) of
        Inl _ \<Rightarrow> None
      | Inr v \<Rightarrow> if vj_typ v = Some ''at+jwt'' \<and> mc_iss (vj_claims v) = our_issuer (hs_config st) \<and>
            map_of (target_policy (hs_config st)) (mc_aud (vj_claims v)) \<noteq> None \<and>
            trim (mc_sub (vj_claims v)) \<noteq> [] \<and> trim (mc_client_id (vj_claims v)) \<noteq> [] \<and>
            trim (mc_scope (vj_claims v)) \<noteq> [] \<and> now < mc_exp (vj_claims v) \<and>
            mc_iat (vj_claims v) \<le> i64_add now (clock_skew_leeway (hs_config st))
          then Some (vj_claims v) else None)"

lemma verified_alt:
  "verified_sts_access_token env st tok now chk =
     (case sts_token_claims env st tok now of
        None \<Rightarrow> (None, st)
      | Some c \<Rightarrow>
          if chk then (if fst (is_revoked_or_unavailable (he_jose env) (hs_revocations st) tok now) then None else Some c,
                       st\<lparr>hs_revocations := snd (is_revoked_or_unavailable (he_jose env) (hs_revocations st) tok now)\<rparr>)
          else (Some c, st))"
proof (cases "verify_claims_against_jwks_with_header (he_jose env) (he_minted_codec env) tok (hs_published_jwks st)")
  case (Inr v)
  show ?thesis
    by (cases "is_revoked_or_unavailable (he_jose env) (hs_revocations st) tok now")
       (simp add: verified_sts_access_token_def sts_token_claims_def Inr Let_def not_less not_le)
qed (simp add: verified_sts_access_token_def sts_token_claims_def)

lemma verified_state:
  "snd (verified_sts_access_token env st tok now False) = st"
  "\<exists>rs. snd (verified_sts_access_token env st tok now True) = st\<lparr>hs_revocations := rs\<rparr> \<and>
     (rs = hs_revocations st \<or> rs = snd (is_revoked_or_unavailable (he_jose env) (hs_revocations st) tok now))"
proof -
  show "snd (verified_sts_access_token env st tok now False) = st"
    by (simp add: verified_alt split: option.splits)
  have "st = st\<lparr>hs_revocations := hs_revocations st\<rparr>" by simp
  then show "\<exists>rs. snd (verified_sts_access_token env st tok now True) = st\<lparr>hs_revocations := rs\<rparr> \<and>
     (rs = hs_revocations st \<or> rs = snd (is_revoked_or_unavailable (he_jose env) (hs_revocations st) tok now))"
    by (cases "sts_token_claims env st tok now") (auto simp: verified_alt intro: exI [of _ "hs_revocations st"])
qed

lemma introspect_state:
  "\<exists>mid rs tok. replay_evolves env (oc_record clk) st mid \<and>
     snd (introspect env clk headers body st) = mid\<lparr>hs_revocations := rs\<rparr> \<and>
     (rs = hs_revocations mid \<or> rs = snd (is_revoked_or_unavailable (he_jose env) (hs_revocations mid) tok (oc_verify clk)))"
proof (cases "and_then (parse_online_token_form headers (he_form_parse env body)) (\<lambda>form.
    and_then (required_online_token form (max_token_len (hs_config st))) (\<lambda>tok.
    and_then (authenticate_online_client env clk st form (introspection_endpoint (hs_config st))) (\<lambda>claims.
    Ok (tok, claims))))")
  case (Inl e)
  then show ?thesis by (auto simp: introspect_def intro!: exI [of _ st] evolves_refl exI [of _ "hs_revocations st"])
next
  case (Inr p)
  obtain tok claims where p: "p = (tok, claims)" by (cases p)
  obtain r mid where mid: "record_client_assertion_replay env st claims (oc_record clk) = (r, mid)"
    by (cases "record_client_assertion_replay env st claims (oc_record clk)")
  have ev: "replay_evolves env (oc_record clk) st mid" using evolves_record_client [of env "oc_record clk" st claims] mid by simp
  obtain rs where rs: "snd (verified_sts_access_token env mid tok (oc_verify clk) True) = mid\<lparr>hs_revocations := rs\<rparr>"
    "rs = hs_revocations mid \<or> rs = snd (is_revoked_or_unavailable (he_jose env) (hs_revocations mid) tok (oc_verify clk))"
    using verified_state(2) by blast
  show ?thesis
  proof (cases r)
    case (Inl e)
    with Inr p mid ev show ?thesis unfolding introspect_def
      by (auto intro!: exI [of _ mid] exI [of _ "hs_revocations mid"])
  next
    case (Inr u)
    have "snd (introspection_response_for_token env mid tok (oc_verify clk)) = mid\<lparr>hs_revocations := rs\<rparr>"
      using rs(1) by (auto simp: introspection_response_for_token_def split: prod.splits option.splits)
    with Inr \<open>_ = Inr p\<close> p mid ev rs(2) show ?thesis unfolding introspect_def
      by (auto split: prod.splits intro!: exI [of _ mid] exI [of _ rs] exI [of _ tok])
  qed
qed

end
