(* ===== verification/Http_Meta.thy ===== *)
theory Http_Meta
  imports Sts_Service "HOL-Library.Product_Lexorder"
begin

text \<open>
  The rest of the HTTP surface of \<open>sts-http\<close>: the route table, the discovery documents (RFC 8414 and
  RFC 9728), the bearer challenge, the metrics page, and how results become responses with their
  headers. The lemmas show that the table has no path twice and routes every endpoint the metadata
  advertises, and that the label escaping of the metrics page can be undone.

  \<open>Url::parse\<close> is a parameter. A route is registered by path; matching a request against the table
  is done by the framework and is not modelled.
\<close>

section \<open>Where the server lives\<close>

definition issuer_path :: "url_parse \<Rightarrow> RuntimeConfig \<Rightarrow> string option" where
  "issuer_path url config =
     (case url (our_issuer config) of
        None \<Rightarrow> None
      | Some parsed \<Rightarrow> non_empty (Some (trim_end_matches CHR ''/'' (url_path parsed))))"

definition issuer_origin :: "url_parse \<Rightarrow> RuntimeConfig \<Rightarrow> string" where
  "issuer_origin url config =
     (case url (our_issuer config) of
        None \<Rightarrow> trim_end_matches CHR ''/'' (our_issuer config)
      | Some parsed \<Rightarrow>
          (case url_host_str parsed of
             None \<Rightarrow> trim_end_matches CHR ''/'' (our_issuer config)
           | Some host \<Rightarrow> url_scheme parsed @ ''://'' @ host @
               (case url_port parsed of None \<Rightarrow> [] | Some port \<Rightarrow> '':'' @ display_nat port)))"

definition resource_identifier_for_metadata_path :: "url_parse \<Rightarrow> RuntimeConfig \<Rightarrow> string \<Rightarrow> string" where
  "resource_identifier_for_metadata_path url config request_path =
     (let suff = unwrap_or (strip_prefix request_path ''/.well-known/oauth-protected-resource'') '''';
          resource_path = trim_matches CHR ''/'' suff
      in if resource_path \<noteq> [] then issuer_origin url config @ ''/'' @ resource_path else issuer_origin url config)"

definition resource_metadata_url_for_resource_path :: "url_parse \<Rightarrow> RuntimeConfig \<Rightarrow> string \<Rightarrow> string" where
  "resource_metadata_url_for_resource_path url config request_path =
     (let resource_path = trim_matches CHR ''/'' request_path in
      if resource_path = [] then issuer_origin url config @ ''/.well-known/oauth-protected-resource''
      else issuer_origin url config @ ''/.well-known/oauth-protected-resource/'' @ resource_path)"

section \<open>Responses\<close>

datatype http_body =
    JsonBody json
  | ErrorBody "string option" msg
  | KeysBody JwksDocument
  | TextBody string
  | NoBody

record HttpReply =
  reply_status :: nat
  reply_headers :: "(string \<times> string) list"
  reply_body :: http_body

definition security_headers :: "(string \<times> string) list" where
  "security_headers = [(''x-content-type-options'', ''nosniff'')]"

text \<open>Insertion into a \<open>HeaderMap\<close> replaces an earlier value of the same name.\<close>

definition token_headers :: "(string \<times> string) list" where
  "token_headers = AList.update ''pragma'' ''no-cache'' (AList.update ''cache-control'' ''no-store'' security_headers)"

text \<open>The value is decimal digits after a fixed text, so \<open>HeaderValue::from_str\<close> accepts it.\<close>

definition public_cache_headers :: "int \<Rightarrow> (string \<times> string) list" where
  "public_cache_headers max_age =
     AList.update ''cache-control'' (''public, max-age='' @ display_i64 (max max_age 0)) security_headers"

text \<open>\<open>HeaderValue::from_str\<close>: visible ASCII, space, tab and the bytes above ASCII.\<close>

definition header_value_ok :: "string \<Rightarrow> bool" where
  "header_value_ok s \<longleftrightarrow> list_all (\<lambda>c. (of_char c :: nat) = 9 \<or> (32 \<le> (of_char c :: nat) \<and> (of_char c :: nat) \<noteq> 127)) s"

definition into_response :: "HttpError \<Rightarrow> HttpReply" where
  "into_response err =
     (let headers = AList.update ''content-type'' ''application/json'' [];
          headers = AList.update ''x-content-type-options'' ''nosniff'' headers;
          headers = AList.update ''cache-control'' ''no-store'' headers;
          headers = AList.update ''pragma'' ''no-cache'' headers;
          headers = (case he_retry_after err of
                       None \<Rightarrow> headers | Some retry_after \<Rightarrow> AList.update ''retry-after'' retry_after headers);
          headers = (case he_www_authenticate err of
                       None \<Rightarrow> headers
                     | Some challenge \<Rightarrow>
                         if header_value_ok challenge then AList.update ''www-authenticate'' challenge headers else headers)
      in \<lparr>reply_status = he_status err, reply_headers = headers,
          reply_body = ErrorBody (he_error err) (he_description err)\<rparr>)"

text \<open>The JSON of a token response, as the derived serialiser writes it.\<close>

definition token_response_json :: "TokenResponse \<Rightarrow> json" where
  "token_response_json r = JObject
     ([(''access_token'', JString (tr_access_token r)), (''issued_token_type'', JString (tr_issued_token_type r)),
       (''token_type'', JString (tr_token_type r)), (''expires_in'', JNumber (if tr_expires_in r < 0 then NegInt (tr_expires_in r) else PosInt (nat (tr_expires_in r)))),
       (''scope'', JString (tr_scope r))] @
      (if tr_signing_alg_selected r = [] then [] else [(''signing_alg_selected'', JString (tr_signing_alg_selected r))]) @
      [(''pqc_fallback'', JBool (tr_pqc_fallback r))] @
      (case tr_pqc_fallback_reason r of None \<Rightarrow> [] | Some reason \<Rightarrow> [(''pqc_fallback_reason'', JString reason)]))"

definition ok_reply :: "(string \<times> string) list \<Rightarrow> http_body \<Rightarrow> HttpReply" where
  "ok_reply headers body = \<lparr>reply_status = 200, reply_headers = headers, reply_body = body\<rparr>"

definition reply_of :: "http_response \<Rightarrow> HttpReply" where
  "reply_of a =
     (case a of
        TokenReply (Inr r) \<Rightarrow> ok_reply token_headers (JsonBody (token_response_json r))
      | IntrospectReply (Inr v) \<Rightarrow> ok_reply token_headers (JsonBody v)
      | RevokeReply (Inr _) \<Rightarrow> ok_reply token_headers NoBody
      | TokenReply (Inl e) \<Rightarrow> into_response e
      | IntrospectReply (Inl e) \<Rightarrow> into_response e
      | RevokeReply (Inl e) \<Rightarrow> into_response e)"

definition method_not_allowed :: HttpReply where
  "method_not_allowed = \<lparr>reply_status = 405, reply_headers = token_headers,
     reply_body = JsonBody (JObject [(''error'', JString ''invalid_request''),
       (''error_description'', JString ''method not allowed'')])\<rparr>"

definition token_method_not_allowed :: HttpReply where
  "token_method_not_allowed =
     \<lparr>reply_status = 405, reply_headers = AList.update ''allow'' ''POST'' token_headers, reply_body = NoBody\<rparr>"

section \<open>Discovery documents\<close>

record AuthorizationServerMetadata =
  am_issuer :: string
  am_token_endpoint :: string
  am_jwks_uri :: string
  am_introspection_endpoint :: string
  am_revocation_endpoint :: string
  am_response_types_supported :: "string list"
  am_grant_types_supported :: "string list"
  am_token_endpoint_auth_methods_supported :: "string list"
  am_token_endpoint_auth_signing_alg_values_supported :: "string list"
  am_introspection_endpoint_auth_methods_supported :: "string list"
  am_introspection_endpoint_auth_signing_alg_values_supported :: "string list"
  am_revocation_endpoint_auth_methods_supported :: "string list"
  am_revocation_endpoint_auth_signing_alg_values_supported :: "string list"
  am_dpop_signing_alg_values_supported :: "string list"
  am_protected_resources :: "string list"

record ProtectedResourceMetadata =
  pm_resource :: string
  pm_authorization_servers :: "string list"
  pm_scopes_supported :: "string list"
  pm_bearer_methods_supported :: "string list"

definition metadata :: "RuntimeConfig \<Rightarrow> (string \<times> string) list \<times> AuthorizationServerMetadata" where
  "metadata config =
     (public_cache_headers (jwks_cache_max_age config),
      \<lparr>am_issuer = our_issuer config, am_token_endpoint = token_endpoint config, am_jwks_uri = jwks_uri config,
       am_introspection_endpoint = introspection_endpoint config,
       am_revocation_endpoint = revocation_endpoint config, am_response_types_supported = [],
       am_grant_types_supported = [TOKEN_EXCHANGE_GRANT_TYPE],
       am_token_endpoint_auth_methods_supported = [''private_key_jwt''],
       am_token_endpoint_auth_signing_alg_values_supported = inbound_assertion_algs config,
       am_introspection_endpoint_auth_methods_supported = [''private_key_jwt''],
       am_introspection_endpoint_auth_signing_alg_values_supported = inbound_assertion_algs config,
       am_revocation_endpoint_auth_methods_supported = [''private_key_jwt''],
       am_revocation_endpoint_auth_signing_alg_values_supported = inbound_assertion_algs config,
       am_dpop_signing_alg_values_supported = DPOP_SIGNING_ALGS_SUPPORTED,
       am_protected_resources = [our_issuer config]\<rparr>)"

definition protected_resource_metadata ::
    "url_parse \<Rightarrow> RuntimeConfig \<Rightarrow> string \<Rightarrow> (string \<times> string) list \<times> ProtectedResourceMetadata" where
  "protected_resource_metadata url config request_path =
     (public_cache_headers (jwks_cache_max_age config),
      \<lparr>pm_resource = resource_identifier_for_metadata_path url config request_path,
       pm_authorization_servers = [our_issuer config],
       pm_scopes_supported =
         sorted_list_of_set (foldl (\<lambda>scopes entry. scopes \<union> allowed_scopes (snd entry)) {} (target_policy config)),
       pm_bearer_methods_supported = [''header'']\<rparr>)"

definition protected_resource_challenge ::
    "url_parse \<Rightarrow> RuntimeConfig \<Rightarrow> string \<Rightarrow> (HttpError, HttpReply) result" where
  "protected_resource_challenge url config request_path =
     (let challenge = ''Bearer resource_metadata='' @ quot @
            resource_metadata_url_for_resource_path url config request_path @ quot
      in if \<not> header_value_ok challenge then
           Err (server_error (lit ''resource metadata challenge could not be rendered''))
         else Ok \<lparr>reply_status = 401,
           reply_headers = AList.update ''www-authenticate'' challenge
             (AList.update ''content-type'' ''application/json'' token_headers),
           reply_body = JsonBody (JObject [(''error'', JString ''invalid_token''),
             (''error_description'', JString ''valid bearer token required'')])\<rparr>)"

definition jwks_page :: "HttpState \<Rightarrow> HttpReply" where
  "jwks_page st = ok_reply (public_cache_headers (jwks_cache_max_age (hs_config st))) (KeysBody (hs_published_jwks st))"

text \<open>\<open>document\<close> is the bundled JSON, \<open>None\<close> if it does not parse; \<open>version\<close> is the crate's.\<close>

definition openapi :: "json option \<Rightarrow> string \<Rightarrow> HttpReply" where
  "openapi document version =
     (let document = (case document of
            Some d \<Rightarrow> d
          | None \<Rightarrow> JObject [(''info'', JObject [(''title'', JString ''sts-delegate-rs''), (''version'', JString version)]),
              (''openapi'', JString ''3.1.0''), (''paths'', JObject [])]);
          document = (case document of
            JObject m \<Rightarrow> (case obj_get m ''info'' of
                Some (JObject info) \<Rightarrow> JObject (AList.update ''info''
                  (JObject (AList.update ''version'' (JString version) info)) m)
              | _ \<Rightarrow> document)
          | _ \<Rightarrow> document)
      in ok_reply (public_cache_headers 300) (JsonBody document))"

section \<open>The metrics page\<close>

definition replace_char :: "char \<Rightarrow> string \<Rightarrow> string \<Rightarrow> string" where
  "replace_char c r s = concat (map (\<lambda>x. if x = c then r else [x]) s)"

definition escape_prometheus_label :: "string \<Rightarrow> string" where
  "escape_prometheus_label value =
     replace_char CHR 0x0A [CHR 0x5C, CHR ''n''] (replace_char CHR 0x22 [CHR 0x5C, CHR 0x22]
       (replace_char CHR 0x5C [CHR 0x5C, CHR 0x5C] value))"

abbreviation newline :: string where "newline \<equiv> [CHR 0x0A]"

definition display_bool :: "bool \<Rightarrow> string" where
  "display_bool b = (if b then ''true'' else ''false'')"

definition display_u64 :: "64 word \<Rightarrow> string" where
  "display_u64 w = display_nat (unat w)"

text \<open>The maps are iterated in key order; a poisoned lock reads as an empty map.\<close>

definition render :: "MetricsState \<Rightarrow> nat \<Rightarrow> string" where
  "render ms replay_cache_size =
     (let denials = (if ms_denials_poisoned ms then [] else sort_key fst (ms_denials ms));
          signing_algs = (if ms_signing_poisoned ms then [] else sort_key fst (ms_signing_algs ms))
      in ''# HELP sts_exchanges_total Total token exchange outcomes (minted = success, denied = any OAuth error)'' @ newline @
         ''# TYPE sts_exchanges_total counter'' @ newline @
         ''sts_exchanges_total{result='' @ quot @ ''minted'' @ quot @ ''} '' @ display_u64 (ms_minted ms) @ newline @
         ''sts_exchanges_total{result='' @ quot @ ''denied'' @ quot @ ''} '' @ display_u64 (ms_denied ms) @ newline @
         ''# HELP sts_denials_total Token exchange denials labelled by OAuth error code'' @ newline @
         ''# TYPE sts_denials_total counter'' @ newline @
         concat (map (\<lambda>(error, count). ''sts_denials_total{error='' @ quot @ escape_prometheus_label error @ quot @
           ''} '' @ display_u64 count @ newline) denials) @
         ''# HELP sts_token_signing_alg_total Minted token signing algorithms selected by STS policy'' @ newline @
         ''# TYPE sts_token_signing_alg_total counter'' @ newline @
         concat (map (\<lambda>((alg, pqc_fallback), count). ''sts_token_signing_alg_total{alg='' @ quot @
           escape_prometheus_label alg @ quot @ '',pqc_fallback='' @ quot @ display_bool pqc_fallback @ quot @ ''} '' @
           display_u64 count @ newline) signing_algs) @
         ''# HELP sts_replay_cache_size Unexpired jtis currently held in the active replay cache'' @ newline @
         ''# TYPE sts_replay_cache_size gauge'' @ newline @
         ''sts_replay_cache_size '' @ display_nat replay_cache_size @ newline)"

definition metrics_page :: "io_env \<Rightarrow> HttpState \<Rightarrow> HttpReply" where
  "metrics_page io st = ok_reply
     (AList.update ''pragma'' ''no-cache'' (AList.update ''cache-control'' ''no-store''
       (AList.update ''x-content-type-options'' ''nosniff''
         (AList.update ''content-type'' ''text/plain; version=0.0.4; charset=utf-8'' []))))
     (TextBody (render (hs_metrics st) (policy_cache_size io (hs_replay st))))"

section \<open>Routes\<close>

datatype handler =
    HToken | HIntrospect | HRevoke | HJwks | HOpenapi | HMetadata | HMetrics | HResourceChallenge
  | HResourceMetadata | HMethodNotAllowed | HTokenMethodNotAllowed

text \<open>A route: its path, the handlers of methods, and the handler of all other methods if it has one.\<close>

record route =
  rt_path :: string
  rt_methods :: "(string \<times> handler) list"
  rt_fallback :: "handler option"

abbreviation on_path :: "string \<Rightarrow> (string \<times> handler) list \<Rightarrow> handler option \<Rightarrow> route" where
  "on_path p ms f \<equiv> \<lparr>rt_path = p, rt_methods = ms, rt_fallback = f\<rparr>"

definition token_route :: "string \<Rightarrow> route" where
  "token_route p = on_path p [(''POST'', HToken)] (Some HTokenMethodNotAllowed)"

definition introspect_route :: "string \<Rightarrow> route" where
  "introspect_route p = on_path p [(''POST'', HIntrospect), (''GET'', HMethodNotAllowed)] None"

definition revoke_route :: "string \<Rightarrow> route" where
  "revoke_route p = on_path p [(''POST'', HRevoke), (''GET'', HMethodNotAllowed)] None"

definition resource_metadata_route :: "string \<Rightarrow> route" where
  "resource_metadata_route p = on_path p [(''GET'', HResourceMetadata), (''POST'', HMethodNotAllowed)] None"

definition base_routes :: "route list" where
  "base_routes =
     [token_route ''/token'', introspect_route ''/introspect'', revoke_route ''/revoke'',
      on_path ''/jwks'' [(''GET'', HJwks)] None, on_path ''/openapi.json'' [(''GET'', HOpenapi)] None,
      on_path ''/.well-known/oauth-authorization-server'' [(''GET'', HMetadata)] None,
      on_path ''/mcp'' [] (Some HResourceChallenge), on_path ''/{resource}/mcp'' [] (Some HResourceChallenge),
      resource_metadata_route ''/.well-known/oauth-protected-resource'',
      resource_metadata_route ''/.well-known/oauth-protected-resource/{*resource}'']"

definition issuer_routes :: "string \<Rightarrow> route list" where
  "issuer_routes path =
     [token_route (path @ ''/token''), introspect_route (path @ ''/introspect''), revoke_route (path @ ''/revoke''),
      on_path (path @ ''/jwks'') [(''GET'', HJwks)] None,
      on_path (''/.well-known/oauth-authorization-server'' @ path) [(''GET'', HMetadata)] None,
      on_path (path @ ''/mcp'') [] (Some HResourceChallenge),
      on_path (path @ ''/{resource}/mcp'') [] (Some HResourceChallenge),
      resource_metadata_route (''/.well-known/oauth-protected-resource'' @ path)]"

definition router :: "url_parse \<Rightarrow> RuntimeConfig \<Rightarrow> route list" where
  "router url config = base_routes @
     (if enable_metrics config then [on_path ''/metrics'' [(''GET'', HMetrics)] None] else []) @
     (case issuer_path url config of None \<Rightarrow> [] | Some path \<Rightarrow> issuer_routes path)"

section \<open>Lemmas\<close>

lemma header_lookup [simp]:
  "map_of security_headers ''x-content-type-options'' = Some ''nosniff''"
  "map_of token_headers ''cache-control'' = Some ''no-store''"
  "map_of token_headers ''x-content-type-options'' = Some ''nosniff''"
  by (simp_all add: security_headers_def token_headers_def update_conv)

text \<open>
  No reply of the token, introspection or revocation endpoint may be cached or sniffed, and the
  client is asked to retry exactly when the reply says so.
\<close>

lemma replies_not_stored:
  "map_of (reply_headers (reply_of a)) ''cache-control'' = Some ''no-store''"
  "map_of (reply_headers (reply_of a)) ''x-content-type-options'' = Some ''nosniff''"
proof -
  have e: "map_of (reply_headers (into_response err)) ''cache-control'' = Some ''no-store''"
    "map_of (reply_headers (into_response err)) ''x-content-type-options'' = Some ''nosniff''" for err
    by (simp_all add: into_response_def Let_def update_conv split: option.splits)
  show "map_of (reply_headers (reply_of a)) ''cache-control'' = Some ''no-store''"
    "map_of (reply_headers (reply_of a)) ''x-content-type-options'' = Some ''nosniff''"
    by (simp_all add: reply_of_def ok_reply_def e split: http_response.splits sum.splits)
qed

text \<open>The three replacements amount to one pass over the label, which can be undone.\<close>

definition escape_char :: "char \<Rightarrow> string" where
  "escape_char c = (if c = CHR 0x5C then [CHR 0x5C, CHR 0x5C] else if c = CHR 0x22 then [CHR 0x5C, CHR 0x22]
     else if c = CHR 0x0A then [CHR 0x5C, CHR ''n''] else [c])"

fun unescape_label :: "string \<Rightarrow> string" where
  "unescape_label (a # b # s) =
     (if a = CHR 0x5C then (if b = CHR ''n'' then CHR 0x0A else b) # unescape_label s else a # unescape_label (b # s))"
| "unescape_label s = s"

lemma replace_char_simps [simp]:
  "replace_char c r [] = []" "replace_char c r (x # s) = (if x = c then r else [x]) @ replace_char c r s"
  "replace_char c r (s @ t) = replace_char c r s @ replace_char c r t"
  by (simp_all add: replace_char_def)

lemma escape_single_pass: "escape_prometheus_label s = concat (map escape_char s)"
  by (induction s) (auto simp: escape_prometheus_label_def escape_char_def)

lemma unescape_escape_char: "unescape_label (escape_char c @ s) = c # unescape_label s"
  by (cases s) (auto simp: escape_char_def)

lemma unescape_label_escape: "unescape_label (escape_prometheus_label s) = s"
  unfolding escape_single_pass by (induction s) (simp_all add: unescape_escape_char)

lemma escape_no_newline: "CHR 0x0A \<notin> set (escape_prometheus_label s)"
  unfolding escape_single_pass by (induction s) (auto simp: escape_char_def)

text \<open>
  What \<open>url\<close> guarantees of an \<open>http\<close> or \<open>https\<close> URL: the path starts with a slash and its braces are
  percent-encoded; and, for an issuer in the library's own normal form, the text is the origin
  followed by the path.
\<close>

definition issuer_url_law :: "url_parse \<Rightarrow> RuntimeConfig \<Rightarrow> bool" where
  "issuer_url_law url config \<longleftrightarrow>
     (case url (our_issuer config) of
        None \<Rightarrow> False
      | Some parsed \<Rightarrow> starts_with (url_path parsed) ''/'' \<and> CHR ''{'' \<notin> set (url_path parsed) \<and>
          trim_end_matches CHR ''/'' (our_issuer config) =
            issuer_origin url config @ trim_end_matches CHR ''/'' (url_path parsed))"

lemma trim_end_matches_set: "set (trim_end_matches c s) \<subseteq> set s"
  by (auto simp: trim_end_matches_def dest: set_dropWhileD)

lemma trim_end_matches_prefix: "\<exists>n. trim_end_matches c s = take n s"
proof -
  have "\<exists>n. dropWhile P xs = drop n xs" for P and xs :: "'a list"
    using dropWhile_eq_drop by blast
  then obtain n where "dropWhile (\<lambda>x. x = c) (rev s) = drop n (rev s)" by blast
  then have "trim_end_matches c s = take (length s - n) s" by (simp add: trim_end_matches_def rev_drop)
  then show ?thesis by blast
qed

lemma issuer_path_ok:
  assumes "issuer_url_law url config" "issuer_path url config = Some p"
  shows "\<exists>q. p = CHR ''/'' # q" "CHR ''{'' \<notin> set p" "trim_end_matches CHR ''/'' (our_issuer config) = issuer_origin url config @ p"
proof -
  from assms obtain u where u: "url (our_issuer config) = Some u" "p = trim_end_matches CHR ''/'' (url_path u)" "p \<noteq> []"
    "starts_with (url_path u) ''/''" "CHR ''{'' \<notin> set (url_path u)"
    by (auto simp: issuer_url_law_def issuer_path_def split: option.splits)
  obtain n where "p = take n (url_path u)" using trim_end_matches_prefix u(2) by blast
  with u(3,4) show "\<exists>q. p = CHR ''/'' # q"
    by (cases n; cases "url_path u") (auto simp: starts_with_def)
  show "CHR ''{'' \<notin> set p" using u(2,5) trim_end_matches_set by auto
  show "trim_end_matches CHR ''/'' (our_issuer config) = issuer_origin url config @ p"
    using assms(1) u(1,2) by (simp add: issuer_url_law_def)
qed

lemma issuer_origin_only:
  assumes "issuer_url_law url config" "issuer_path url config = None"
  shows "trim_end_matches CHR ''/'' (our_issuer config) = issuer_origin url config"
  using assms by (auto simp: issuer_url_law_def issuer_path_def non_empty_None split: option.splits)

text \<open>No path of the table is registered twice, which the framework would refuse.\<close>

lemma append_eq_literal: "q @ b = c \<longleftrightarrow> length b \<le> length c \<and> drop (length c - length b) c = b \<and> q = take (length c - length b) c"
proof
  assume "q @ b = c"
  then show "length b \<le> length c \<and> drop (length c - length b) c = b \<and> q = take (length c - length b) c" by auto
qed (metis append_take_drop_id)

lemma length_neq_append: "length x \<noteq> length y \<Longrightarrow> x @ p \<noteq> p @ y"
  by (metis add.commute add_left_cancel length_append)

lemmas route_defs = issuer_routes_def base_routes_def token_route_def introspect_route_def revoke_route_def
  resource_metadata_route_def

lemma base_paths_distinct:
  "distinct (map rt_path (base_routes @ [on_path ''/metrics'' [(''GET'', HMetrics)] None]))"
  by (simp add: route_defs)

lemma issuer_paths_distinct: "distinct (map rt_path (issuer_routes p))"
proof -
  have "''/.well-known/oauth-authorization-server'' @ p \<noteq> p @ y" "''/.well-known/oauth-protected-resource'' @ p \<noteq> p @ y"
    if "y \<in> {''/token'', ''/introspect'', ''/revoke'', ''/jwks'', ''/mcp'', ''/{resource}/mcp''}" for y
    by (rule length_neq_append; use that in auto)+
  then show ?thesis by (simp add: route_defs)
qed

lemma issuer_paths_fresh:
  assumes "p = CHR ''/'' # q" "CHR ''{'' \<notin> set q" "r \<in> set (issuer_routes p)"
  shows "rt_path r \<notin> rt_path ` set (base_routes @ [on_path ''/metrics'' [(''GET'', HMetrics)] None])"
proof -
  have neq: "q \<noteq> ''{resource}''" "q \<noteq> ''{*resource}''" using assms(2) by auto
  have lit: "q @ ''/token'' \<noteq> c" "q @ ''/introspect'' \<noteq> c" "q @ ''/revoke'' \<noteq> c" "q @ ''/jwks'' \<noteq> c" "q @ ''/mcp'' \<noteq> c"
     "q @ ''/{resource}/mcp'' \<noteq> c"
    if "c \<in> {''token'', ''introspect'', ''revoke'', ''jwks'', ''openapi.json'', ''.well-known/oauth-authorization-server'',
      ''mcp'', ''{resource}/mcp'', ''.well-known/oauth-protected-resource'',
      ''.well-known/oauth-protected-resource/{*resource}'', ''metrics''}" for c
    using that neq by (auto simp: append_eq_literal)
  from assms(3) show ?thesis using neq by (auto simp: assms(1) route_defs lit)
qed

lemma router_paths_distinct:
  assumes "issuer_url_law url config"
  shows "distinct (map rt_path (router url config))"
proof (cases "issuer_path url config")
  case (Some p)
  from issuer_path_ok [OF assms Some] obtain q where q: "p = CHR ''/'' # q" "CHR ''{'' \<notin> set q" by auto
  have "rt_path ` set (issuer_routes p) \<inter> rt_path ` set (base_routes @ [on_path ''/metrics'' [(''GET'', HMetrics)] None]) = {}"
    using issuer_paths_fresh [OF q] by blast
  with base_paths_distinct issuer_paths_distinct [of p] Some show ?thesis by (auto simp: router_def)
qed (use base_paths_distinct in \<open>auto simp: router_def\<close>)

text \<open>The table hands a method on a path to a handler.\<close>

definition serves :: "route list \<Rightarrow> string \<Rightarrow> string \<Rightarrow> handler \<Rightarrow> bool" where
  "serves rs path meth h \<longleftrightarrow> list_ex (\<lambda>r. rt_path r = path \<and> map_of (rt_methods r) meth = Some h) rs"

lemma router_serves:
  fixes url :: url_parse and config :: RuntimeConfig
  defines "s \<equiv> serves (router url config)" and "p \<equiv> unwrap_or (issuer_path url config) ''''"
  shows "s (p @ ''/token'') ''POST'' HToken" "s (p @ ''/introspect'') ''POST'' HIntrospect"
    "s (p @ ''/revoke'') ''POST'' HRevoke" "s (p @ ''/jwks'') ''GET'' HJwks"
    "s (''/.well-known/oauth-authorization-server'' @ p) ''GET'' HMetadata"
  by (cases "issuer_path url config"; simp add: s_def p_def serves_def router_def route_defs unwrap_or_def)+

section \<open>Properties\<close>

text \<open>
  Discovery and routing agree. For an issuer in normal form, the route table registers no path
  twice, and every endpoint the authorization-server metadata advertises is the server's origin
  followed by a path that the table gives to the right handler: the token, introspection and
  revocation endpoints to \<open>POST\<close>, the key set to \<open>GET\<close>. The metadata itself is served at the well-known
  path with the issuer's path appended.
\<close>

theorem advertised_endpoints_routed:
  assumes "issuer_url_law url config"
  shows "distinct (map rt_path (router url config)) \<and>
    list_all (\<lambda>(advertised, meth, h). \<exists>path. advertised = issuer_origin url config @ path \<and>
        serves (router url config) path meth h)
      [(am_token_endpoint (snd (metadata config)), ''POST'', HToken),
       (am_introspection_endpoint (snd (metadata config)), ''POST'', HIntrospect),
       (am_revocation_endpoint (snd (metadata config)), ''POST'', HRevoke),
       (am_jwks_uri (snd (metadata config)), ''GET'', HJwks)] \<and>
    serves (router url config) (''/.well-known/oauth-authorization-server'' @ unwrap_or (issuer_path url config) '''')
      ''GET'' HMetadata"
proof -
  have "trim_end_matches CHR ''/'' (our_issuer config) = issuer_origin url config @ unwrap_or (issuer_path url config) ''''"
    using issuer_path_ok(3) [OF assms] issuer_origin_only [OF assms]
    by (cases "issuer_path url config") (simp_all add: unwrap_or_def)
  then show ?thesis using router_paths_distinct [OF assms] router_serves [of url config]
    by (simp add: metadata_def token_endpoint_def introspection_endpoint_def revocation_endpoint_def jwks_uri_def endpoint_def)
qed

end
