(* ===== verification/Service_Frame.thy ===== *)
theory Service_Frame
  imports Sts_Service
begin

text \<open>
  What one request changes. Every handler leaves the configuration, the signer and the key sets
  alone; it changes the replay policy only through \<open>check_and_record\<close> at its own clock, the
  revocation store only through \<open>revoke_token\<close> and \<open>is_revoked_or_unavailable\<close>, and the metrics only
  through \<open>record_exchange\<close> and \<open>record_signing\<close>. The lemmas lift these facts from a request to any
  sequence of requests.
\<close>

section \<open>Revocations\<close>

text \<open>
  At most one call of the revocation store at clock \<open>t\<close>, with capacity \<open>n\<close>; \<open>may_revoke\<close> says which
  token may be recorded with which expiry.
\<close>

definition revocations_evolve ::
    "jose_ext \<Rightarrow> nat \<Rightarrow> int \<Rightarrow> (string \<Rightarrow> int \<Rightarrow> bool) \<Rightarrow> RevocationState \<Rightarrow> RevocationState \<Rightarrow> bool" where
  "revocations_evolve E n t may_revoke rs rs' \<longleftrightarrow> rs' = rs \<or>
     (\<exists>tok. rs' = snd (is_revoked_or_unavailable E rs tok t)) \<or>
     (\<exists>tok x. may_revoke tok x \<and> rs' = snd (revoke_token E rs tok x t n))"

definition revocations_wf :: "nat \<Rightarrow> RevocationState \<Rightarrow> bool" where
  "revocations_wf n rs \<longleftrightarrow> distinct (map fst (rev_revoked rs)) \<and> length (rev_revoked rs) \<le> n"

lemma sweep_revoked_wf:
  "distinct (map fst m) \<Longrightarrow> distinct (map fst (sweep_revoked m now))" "length (sweep_revoked m now) \<le> length m"
  by (simp_all add: sweep_revoked_def distinct_map_filter)

lemma length_update_le: "length (AList.update k v m) \<le> (if map_of m k = None then Suc (length m) else length m)"
  by (induction m) auto

lemma revocations_evolve_wf:
  assumes "revocations_evolve E n t may_revoke rs rs'" "revocations_wf n rs"
  shows "revocations_wf n rs'"
proof -
  have wf: "distinct (map fst (sweep_revoked (rev_revoked rs) t))" "length (sweep_revoked (rev_revoked rs) t) \<le> n"
    using assms(2) sweep_revoked_wf(2) [of "rev_revoked rs" t]
    by (auto simp: revocations_wf_def sweep_revoked_wf(1) intro: order_trans)
  have "revocations_wf n (snd (revoke_token E rs tok x t n))" for tok x
    using wf assms(2) length_update_le [of "revocation_key E tok" x "sweep_revoked (rev_revoked rs) t"]
    by (auto simp: revoke_token_def revocations_wf_def Let_def distinct_update not_le split: if_splits)
  moreover have "revocations_wf n (snd (is_revoked_or_unavailable E rs tok t))" for tok
    using wf assms(2) by (simp add: is_revoked_or_unavailable_def revocations_wf_def Let_def)
  ultimately show ?thesis using assms unfolding revocations_evolve_def by blast
qed

section \<open>One request\<close>

fun online_token :: "http_env \<Rightarrow> http_request \<Rightarrow> string option" where
  "online_token env (TokenRequest clk jti h b) = None"
| "online_token env (IntrospectRequest clk h b) = form_online_token env h b"
| "online_token env (RevokeRequest clk h b) = form_online_token env h b"

text \<open>A revocation request records the token it carries with that token's own expiry.\<close>

definition request_revokes :: "http_env \<Rightarrow> HttpState \<Rightarrow> http_request \<Rightarrow> string \<Rightarrow> int \<Rightarrow> bool" where
  "request_revokes env st q tok x \<longleftrightarrow> online_token env q = Some tok \<and>
     (\<exists>now c. sts_token_claims env st tok now = Some c \<and> x = mc_exp c)"

lemma sts_token_claims_static:
  assumes "static st' = static st"
  shows "sts_token_claims env st' tok now = sts_token_claims env st tok now"
  unfolding sts_token_claims_def static_eqD [OF assms] ..

fun sweep_clock :: "http_request \<Rightarrow> int option" where
  "sweep_clock (TokenRequest clk jti h b) = None"
| "sweep_clock (IntrospectRequest clk h b) = Some (oc_verify clk)"
| "sweep_clock (RevokeRequest clk h b) = Some (oc_revoke clk)"

text \<open>The authenticated part that both online endpoints start with.\<close>

definition online_prologue ::
    "http_env \<Rightarrow> online_clock \<Rightarrow> HeaderMap \<Rightarrow> string \<Rightarrow> HttpState \<Rightarrow> string \<Rightarrow>
     (HttpError, string \<times> AssertionClaims) result" where
  "online_prologue env clk headers body st own_endpoint =
     and_then (parse_online_token_form headers (he_form_parse env body)) (\<lambda>form.
     and_then (required_online_token form (max_token_len (hs_config st))) (\<lambda>tok.
     and_then (authenticate_online_client env clk st form own_endpoint) (\<lambda>claims.
     Ok (tok, claims))))"

lemma introspect_alt:
  "introspect env clk headers body st =
     (case online_prologue env clk headers body st (introspection_endpoint (hs_config st)) of
        Inl e \<Rightarrow> (Inl e, st)
      | Inr (tok, claims) \<Rightarrow>
          st_then (record_client_assertion_replay env st claims (oc_record clk)) (\<lambda>_ st.
          (case introspection_response_for_token env st tok (oc_verify clk) of (response, st) \<Rightarrow> (Ok response, st))))"
  by (simp add: introspect_def online_prologue_def)

lemma revoke_alt:
  "revoke env clk headers body st =
     (case online_prologue env clk headers body st (revocation_endpoint (hs_config st)) of
        Inl e \<Rightarrow> (Inl e, st)
      | Inr (tok, claims) \<Rightarrow>
          st_then (record_client_assertion_replay env st claims (oc_record clk)) (\<lambda>_ st.
          (case sts_token_claims env st tok (oc_verify clk) of
             None \<Rightarrow> (Ok (), st)
           | Some token_claims \<Rightarrow>
               (case revoke_token (he_jose env) (hs_revocations st) tok (mc_exp token_claims) (oc_revoke clk)
                       (max_seen_jti (hs_config st)) of
                  (r, rs) \<Rightarrow> (r, st\<lparr>hs_revocations := rs\<rparr>)))))"
proof -
  have "(case verified_sts_access_token env s tok t False of (None, s) \<Rightarrow> f s | (Some c, s) \<Rightarrow> g c s) =
      (case sts_token_claims env s tok t of None \<Rightarrow> f s | Some c \<Rightarrow> g c s)" for s tok t and f :: "HttpState \<Rightarrow> unit handled" and g
    by (simp add: verified_alt split: option.splits)
  then show ?thesis unfolding revoke_def online_prologue_def by (simp cong: sum.case_cong)
qed

lemma required_online_token_ok: "required_online_token form n = Inr tok \<Longrightarrow> of_token form = Some tok"
  by (auto simp: required_online_token_def split: option.splits if_splits)

lemma revoke_state:
  "\<exists>mid rs. replay_evolves env (oc_record clk) st mid \<and> snd (revoke env clk headers body st) = mid\<lparr>hs_revocations := rs\<rparr> \<and>
     revocations_evolve (he_jose env) (max_seen_jti (hs_config st)) (oc_revoke clk)
       (request_revokes env st (RevokeRequest clk headers body)) (hs_revocations mid) rs"
proof (cases "online_prologue env clk headers body st (revocation_endpoint (hs_config st))")
  case (Inl e)
  then show ?thesis
    by (auto simp: revoke_alt revocations_evolve_def
        intro!: exI [of _ st] evolves_refl exI [of _ "hs_revocations st"])
next
  case (Inr p)
  obtain tok claims where p: "p = (tok, claims)" by (cases p)
  obtain r mid where mid: "record_client_assertion_replay env st claims (oc_record clk) = (r, mid)"
    by (cases "record_client_assertion_replay env st claims (oc_record clk)")
  have ev: "replay_evolves env (oc_record clk) st mid"
    using evolves_record_client [of env "oc_record clk" st claims] mid by simp
  then have cfg: "hs_config mid = hs_config st" by (simp add: replay_evolves_def static_def)
  have same: "mid = mid\<lparr>hs_revocations := hs_revocations mid\<rparr>" by simp
  show ?thesis
  proof (cases "\<exists>u c. r = Inr u \<and> sts_token_claims env mid tok (oc_verify clk) = Some c")
    case True
    then obtain c where c: "r = Inr ()" "sts_token_claims env mid tok (oc_verify clk) = Some c" by auto
    let ?rs = "snd (revoke_token (he_jose env) (hs_revocations mid) tok (mc_exp c) (oc_revoke clk) (max_seen_jti (hs_config st)))"
    have "snd (revoke env clk headers body st) = mid\<lparr>hs_revocations := ?rs\<rparr>"
      by (simp add: revoke_alt Inr p mid c cfg split: prod.splits)
    moreover have "sts_token_claims env st tok (oc_verify clk) = Some c"
      using c(2) ev sts_token_claims_static [of mid st env tok "oc_verify clk"] by (simp add: replay_evolves_def)
    then have "request_revokes env st (RevokeRequest clk headers body) tok (mc_exp c)"
      using Inr p by (auto simp: request_revokes_def form_online_token_def online_prologue_def and_then_ok
          dest!: required_online_token_ok)
    ultimately show ?thesis using ev unfolding revocations_evolve_def by blast
  next
    case False
    then have "snd (revoke env clk headers body st) = mid"
      by (cases r; cases "sts_token_claims env mid tok (oc_verify clk)") (simp_all add: revoke_alt Inr p mid)
    then show ?thesis using ev same unfolding revocations_evolve_def by metis
  qed
qed

lemma serve_state:
  assumes "serve env st q = (a, st')"
  obtains mid where "replay_evolves env (record_clock q) st mid" "static st' = static st" "hs_replay st' = hs_replay mid"
    "case sweep_clock q of None \<Rightarrow> hs_revocations st' = hs_revocations st
     | Some t \<Rightarrow> revocations_evolve (he_jose env) (max_seen_jti (hs_config st)) t (request_revokes env st q)
         (hs_revocations st) (hs_revocations st')"
proof (cases q)
  case (TokenRequest clk jti h b)
  with assms have "st' = snd (token env clk jti h b st)" by (auto split: prod.splits)
  with evolves_token [of env clk st jti h b] TokenRequest that [of st'] show ?thesis
    by (simp add: replay_evolves_def)
next
  case (IntrospectRequest clk h b)
  with assms have s: "st' = snd (introspect env clk h b st)" by (auto split: prod.splits)
  obtain mid rs tok where "replay_evolves env (oc_record clk) st mid" "st' = mid\<lparr>hs_revocations := rs\<rparr>"
    "rs = hs_revocations mid \<or> rs = snd (is_revoked_or_unavailable (he_jose env) (hs_revocations mid) tok (oc_verify clk))"
    using introspect_state [of env clk st h b] s by blast
  with IntrospectRequest that [of mid] show ?thesis
    by (auto simp: replay_evolves_def static_def revocations_evolve_def)
next
  case (RevokeRequest clk h b)
  with assms have s: "st' = snd (revoke env clk h b st)" by (auto split: prod.splits)
  obtain mid rs where "replay_evolves env (oc_record clk) st mid" "st' = mid\<lparr>hs_revocations := rs\<rparr>"
    "revocations_evolve (he_jose env) (max_seen_jti (hs_config st)) (oc_revoke clk) (request_revokes env st q)
       (hs_revocations mid) rs"
    using revoke_state [of env clk st h b] s RevokeRequest by blast
  with RevokeRequest that [of mid] show ?thesis
    by (auto simp: replay_evolves_def static_def)
qed

lemma serve_static: "static (snd (serve env st q)) = static st"
  by (cases "serve env st q") (auto elim: serve_state)

lemma serve_all_Cons:
  "snd (serve_all env st (q # qs)) = snd (serve_all env (snd (serve env st q)) qs)"
  "fst (serve_all env st (q # qs)) = fst (serve env st q) # fst (serve_all env (snd (serve env st q)) qs)"
  by (simp_all split: prod.splits)

lemma serve_all_static: "static (snd (serve_all env st qs)) = static st"
  by (induction qs arbitrary: st) (simp_all add: serve_all_Cons serve_static del: serve_all.simps(2))

section \<open>The service invariant\<close>

definition service_wf :: "HttpState \<Rightarrow> bool" where
  "service_wf st \<longleftrightarrow> policy_invar (hs_replay st) \<and> revocations_wf (max_seen_jti (hs_config st)) (hs_revocations st)"

lemma serve_wf:
  assumes "serve env st q = (a, st')" "service_wf st"
  shows "service_wf st'"
proof -
  obtain mid where m: "replay_evolves env (record_clock q) st mid" "static st' = static st" "hs_replay st' = hs_replay mid"
    "case sweep_clock q of None \<Rightarrow> hs_revocations st' = hs_revocations st
     | Some t \<Rightarrow> revocations_evolve (he_jose env) (max_seen_jti (hs_config st)) t (request_revokes env st q)
         (hs_revocations st) (hs_revocations st')"
    by (rule serve_state [OF assms(1)])
  have "policy_invar (hs_replay st')"
    using m(1,3) assms(2) policy.run_invar by (auto simp: replay_evolves_def service_wf_def)
  moreover have "revocations_wf (max_seen_jti (hs_config st')) (hs_revocations st')"
    using m(2,4) assms(2) revocations_evolve_wf
    by (auto simp: service_wf_def static_def split: option.splits)
  ultimately show ?thesis by (simp add: service_wf_def)
qed

lemma serve_all_wf:
  "service_wf st \<Longrightarrow> service_wf (snd (serve_all env st qs))"
proof (induction qs arbitrary: st)
  case (Cons q qs)
  obtain a st1 where s: "serve env st q = (a, st1)" by fastforce
  from serve_wf [OF s Cons.prems] Cons.IH [of st1] s show ?case by (auto split: prod.splits)
qed simp

lemma service_wf_built: "policy_invar p \<Longrightarrow> service_wf (new_with_signer_arc config signer published subject actor client p)"
  by (simp add: service_wf_def new_with_signer_arc_def revocations_default_def revocations_wf_def)

lemma service_wf_new: "policy_invar p \<Longrightarrow> service_wf (http_state_new config signer subject actor client p)"
  by (simp add: http_state_new_def new_with_published_jwks_def service_wf_built)

lemma reachable_serve_all: "reachable env st0 st \<longleftrightarrow> (\<exists>qs. st = snd (serve_all env st0 qs))"
proof
  have app: "snd (serve_all env st (qs @ [q])) = snd (serve env (snd (serve_all env st qs)) q)" for st qs q
    by (induction qs arbitrary: st) (auto split: prod.splits, metis snd_conv)
  show "reachable env st0 st \<Longrightarrow> \<exists>qs. st = snd (serve_all env st0 qs)"
  proof (induction rule: reachable.induct)
    case start
    show ?case by (rule exI [of _ "[]"]) simp
  next
    case (step st q a st')
    then obtain qs where "st = snd (serve_all env st0 qs)" "st' = snd (serve env st q)"
      by (auto elim: service_stepE)
    then show ?case by (intro exI [of _ "qs @ [q]"]) (simp add: app)
  qed
  assume "\<exists>qs. st = snd (serve_all env st0 qs)"
  then obtain qs where qs: "st = snd (serve_all env st0 qs)" ..
  have "reachable env st0 (snd (serve_all env st0 qs))"
  proof (induction qs rule: rev_induct)
    case (snoc q qs)
    show ?case unfolding app
      by (rule reachable.step [OF snoc serve_request [of env _ q "fst (serve env (snd (serve_all env st0 qs)) q)"]]) simp
  qed (simp add: reachable.start)
  with qs show "reachable env st0 st" by simp
qed

section \<open>Live replay records\<close>

text \<open>The key is recorded with that expiry; it stays so while no call's clock passes the expiry.\<close>

definition live :: "http_env \<Rightarrow> HttpState \<Rightarrow> string \<Rightarrow> int \<Rightarrow> bool" where
  "live env st k x \<longleftrightarrow> policy_invar (hs_replay st) \<and> policy_recorded (sha256 (he_jose env)) (hs_replay st) k = Some x"

lemma live_evolves: "live env st k x \<Longrightarrow> replay_evolves env t st st' \<Longrightarrow> t \<le> x \<Longrightarrow> live env st' k x"
  unfolding live_def replay_evolves_def
  by (auto simp: policy.run_invar list_all_iff intro!: policy.run_keeps_live)

lemma invar_evolves: "policy_invar (hs_replay st) \<Longrightarrow> replay_evolves env t st st' \<Longrightarrow> policy_invar (hs_replay st')"
  unfolding replay_evolves_def by (auto simp: policy.run_invar)

lemma live_serve:
  assumes "live env st k x" "record_clock q \<le> x"
  shows "live env (snd (serve env st q)) k x"
proof -
  obtain a st' where s: "serve env st q = (a, st')" by fastforce
  obtain mid where m: "replay_evolves env (record_clock q) st mid" "hs_replay st' = hs_replay mid"
    using s by (elim serve_state)
  from live_evolves [OF assms(1) m(1) assms(2)] m(2) s show ?thesis by (simp add: live_def)
qed

lemma live_serve_all:
  "live env st k x \<Longrightarrow> list_all (\<lambda>q. record_clock q \<le> x) qs \<Longrightarrow> live env (snd (serve_all env st qs)) k x"
proof (induction qs arbitrary: st)
  case (Cons q qs)
  obtain a st1 where s: "serve env st q = (a, st1)" by fastforce
  with live_serve [of env st k x q] Cons have "live env st1 k x" by simp
  with Cons.IH [of st1] Cons.prems s show ?case by (auto split: prod.splits)
qed simp

lemma check_and_record_live:
  assumes "policy_invar (hs_replay st)" "in_i64 x" "check_and_record env st k x t f = (Inr u, st')"
  shows "live env st' k x"
proof -
  from assms(3) have "fst (replay_car env (hs_replay st) k x t) = Ok ()"
    "hs_replay st' = snd (replay_car env (hs_replay st) k x t)"
    by (auto simp: check_and_record_def map_err_def split: prod.splits sum.splits)
  with policy.records [OF assms(1,2)] policy.invar_car [OF assms(1)] show ?thesis by (simp add: live_def)
qed

lemma check_and_record_refuses:
  assumes "live env st k x" "t \<le> x"
  shows "check_and_record env st k x' t f \<noteq> (Inr u, st')"
proof -
  have "fst (replay_car env (hs_replay st) k x' t) \<noteq> Ok ()"
    using assms policy.refuses_live unfolding live_def by blast
  then show ?thesis by (auto simp: check_and_record_def map_err_def split: prod.splits sum.splits)
qed

end
