(* ===== verification/Service_Safety.thy ===== *)
theory Service_Safety
  imports Service_Frame
begin

text \<open>
  What a successful request has checked and recorded: the credentials that a token request accepted
  are in the replay policy afterwards, and a recorded credential is refused.
\<close>

section \<open>Accepted replay keys\<close>

text \<open>Between the two states, at clock \<open>t\<close>, the replay policy accepted the key.\<close>

definition accepted :: "http_env \<Rightarrow> int \<Rightarrow> HttpState \<Rightarrow> HttpState \<Rightarrow> string \<Rightarrow> int \<Rightarrow> bool" where
  "accepted env t st st' k x \<longleftrightarrow> (\<exists>s1 s2 f. replay_evolves env t st s1 \<and>
     check_and_record env s1 k x t f = (Inr (), s2) \<and> replay_evolves env t s2 st')"

lemma accepted_live:
  assumes "policy_invar (hs_replay st)" "in_i64 x" "accepted env t st st' k x" "t \<le> x"
  shows "live env st' k x"
proof -
  from assms(3) obtain s1 s2 f where s: "replay_evolves env t st s1" "check_and_record env s1 k x t f = (Inr (), s2)"
    "replay_evolves env t s2 st'" unfolding accepted_def by blast
  have "live env s2 k x" by (rule check_and_record_live [OF invar_evolves [OF assms(1) s(1)] assms(2) s(2)])
  then show ?thesis using s(3) assms(4) by (rule live_evolves)
qed

lemma live_not_accepted: "live env st k x \<Longrightarrow> t \<le> x \<Longrightarrow> \<not> accepted env t st st' k x'"
  unfolding accepted_def using live_evolves check_and_record_refuses by blast

text \<open>An accepted key is not accepted again before its expiry.\<close>

lemma key_single_use:
  assumes "policy_invar (hs_replay st)" "in_i64 x" "accepted env t st st1 k x" "t \<le> x"
    and "list_all (\<lambda>q. record_clock q \<le> x) qs" "t2 \<le> x"
  shows "\<not> accepted env t2 (snd (serve_all env st1 qs)) st3 k x'"
  using accepted_live [OF assms(1-4)] live_serve_all [OF _ assms(5)] live_not_accepted [OF _ assms(6)] by blast

lemma accepted_here: "check_and_record env st k x t f = (Inr (), st') \<Longrightarrow> accepted env t st st' k x"
  unfolding accepted_def using evolves_refl by blast

lemma accepted_earlier: "accepted env t st s k x \<Longrightarrow> replay_evolves env t s st' \<Longrightarrow> accepted env t st st' k x"
  unfolding accepted_def using evolves_trans by blast

lemma accepted_later: "replay_evolves env t st s \<Longrightarrow> accepted env t s st' k x \<Longrightarrow> accepted env t st st' k x"
  unfolding accepted_def using evolves_trans by blast

section \<open>What a successful exchange did\<close>

lemma client_jti_ok:
  "client_assertion_jti c = Inr j \<longleftrightarrow> (\<exists>r. as_jti c = Some r \<and> j = trim r \<and> j \<noteq> [])"
  by (auto simp: client_assertion_jti_def result_iff)

lemma record_client_accepted:
  assumes "record_client_assertion_replay env st c t = (Inr u, st')"
  obtains j where "client_assertion_jti c = Inr j" "accepted env t st st' (client_replay_key c j) (as_exp c)"
  using assms accepted_here by (auto simp: record_client_assertion_replay_def split: sum.splits)

lemma record_dpop_accepted:
  "record_dpop_replay env st d t = (Inr u, st') \<Longrightarrow>
     accepted env t st st' (dpop_replay_key (sha256 (he_jose env)) (db_jkt d) (db_jti d)) (db_replay_expires_at d)"
  using accepted_here by (simp add: record_dpop_replay_def)

definition client_recorded :: "http_env \<Rightarrow> int \<Rightarrow> HttpState \<Rightarrow> HttpState \<Rightarrow> AssertionClaims \<Rightarrow> bool" where
  "client_recorded env t st st' c \<longleftrightarrow>
     (\<exists>j. client_assertion_jti c = Inr j \<and> accepted env t st st' (client_replay_key c j) (as_exp c))"

definition dpop_recorded :: "http_env \<Rightarrow> int \<Rightarrow> HttpState \<Rightarrow> HttpState \<Rightarrow> DpopBinding \<Rightarrow> bool" where
  "dpop_recorded env t st st' d \<longleftrightarrow>
     accepted env t st st' (dpop_replay_key (sha256 (he_jose env)) (db_jkt d) (db_jti d)) (db_replay_expires_at d)"

lemma record_optional_ok:
  "record_optional f v st = (Inr u, st') \<longleftrightarrow> (case v of None \<Rightarrow> u = () \<and> st' = st | Some x \<Rightarrow> f x st = (Inr u, st'))"
  by (auto simp: record_optional_def split: option.splits)

lemma evolves_results:
  "check_and_record env st k x t f = (r, st') \<Longrightarrow> replay_evolves env t st st'"
  "record_client_assertion_replay env st c t = (r, st') \<Longrightarrow> replay_evolves env t st st'"
  "record_optional (\<lambda>c st. record_client_assertion_replay env st c t) cv st = (r, st') \<Longrightarrow> replay_evolves env t st st'"
  "record_optional (\<lambda>b st. record_dpop_replay env st b t) dv st = (r, st') \<Longrightarrow> replay_evolves env t st st'"
  "mint_response env st exchange decision payload now expiry = (m, st') \<Longrightarrow> replay_evolves env t st st'"
proof -
  show "check_and_record env st k x t f = (r, st') \<Longrightarrow> replay_evolves env t st st'"
    using evolves_check_and_record [of env t st k x f] by simp
  show "record_client_assertion_replay env st c t = (r, st') \<Longrightarrow> replay_evolves env t st st'"
    using evolves_record_client [of env t st c] by simp
  show "record_optional (\<lambda>c st. record_client_assertion_replay env st c t) cv st = (r, st') \<Longrightarrow> replay_evolves env t st st'"
    using evolves_record_optional [of env t "\<lambda>c st. record_client_assertion_replay env st c t" st cv, OF evolves_record_client] by simp
  show "record_optional (\<lambda>b st. record_dpop_replay env st b t) dv st = (r, st') \<Longrightarrow> replay_evolves env t st st'"
    using evolves_record_optional [of env t "\<lambda>b st. record_dpop_replay env st b t" st dv, OF evolves_record_dpop] by simp
  show "mint_response env st exchange decision payload now expiry = (m, st') \<Longrightarrow> replay_evolves env t st st'"
    using evolves_mint [of env t st exchange decision payload now expiry] by simp
qed

lemma delegation_recorded:
  assumes "exchange_delegation env clk jti st request exchange = (Inr resp, st')"
  obtains ac decision act aj s where
    "delegation_checks env clk st request exchange = Inr (ac, decision, act, aj)"
    "accepted env (tc_now clk) st st' (actor_replay_key ac aj) (as_exp ac)"
    "case ve_client_claims exchange of None \<Rightarrow> True | Some c \<Rightarrow> client_recorded env (tc_now clk) st st' c"
    "case ve_dpop_binding exchange of None \<Rightarrow> True | Some d \<Rightarrow> dpop_recorded env (tc_now clk) st st' d"
    "static s = static st"
    "mint_response env s exchange decision
       (exchange_payload s exchange ac (Some act) jti (tc_now clk) (token_expiry s exchange ac (tc_now clk)))
       (tc_now clk) (token_expiry s exchange ac (tc_now clk)) = (Inr resp, st')"
proof -
  let ?now = "tc_now clk"
  from assms obtain ac decision act aj s1 s2 s3 where
    checks: "delegation_checks env clk st request exchange = Inr (ac, decision, act, aj)" and
    1: "check_and_record env st (actor_replay_key ac aj) (as_exp ac) ?now map_replay_error = (Inr (), s1)" and
    2: "record_optional (\<lambda>c st. record_client_assertion_replay env st c ?now) (ve_client_claims exchange) s1 = (Inr (), s2)" and
    3: "record_optional (\<lambda>b st. record_dpop_replay env st b ?now) (ve_dpop_binding exchange) s2 = (Inr (), s3)" and
    4: "mint_response env s3 exchange decision
       (exchange_payload s3 exchange ac (Some act) jti ?now (token_expiry s3 exchange ac ?now))
       ?now (token_expiry s3 exchange ac ?now) = (Inr resp, st')"
    by (auto simp: exchange_delegation_def st_then_ok Let_def split: sum.splits prod.splits)
  note e1 = evolves_results(1) [OF 1] and e2 = evolves_results(3) [OF 2] and e3 = evolves_results(4) [OF 3]
    and e4 = evolves_results(5) [OF 4, of ?now]
  note e24 = evolves_trans [OF e2 evolves_trans [OF e3 e4]] and e34 = evolves_trans [OF e3 e4]
  note e12 = evolves_trans [OF e1 e2] and e13 = evolves_trans [OF e1 evolves_trans [OF e2 e3]]
  show thesis
  proof (rule that [OF checks])
    show "accepted env ?now st st' (actor_replay_key ac aj) (as_exp ac)"
      using accepted_earlier [OF accepted_here [OF 1] e24] .
    show "case ve_client_claims exchange of None \<Rightarrow> True | Some c \<Rightarrow> client_recorded env ?now st st' c"
      using 2 e1 e34 accepted_earlier accepted_later
      by (auto simp: record_optional_ok client_recorded_def elim!: record_client_accepted split: option.splits)
    show "case ve_dpop_binding exchange of None \<Rightarrow> True | Some d \<Rightarrow> dpop_recorded env ?now st st' d"
      using 3 e12 e4 accepted_earlier accepted_later
      by (auto simp: record_optional_ok dpop_recorded_def dest!: record_dpop_accepted split: option.splits)
    show "static s3 = static st" using e13 by (simp add: replay_evolves_def)
  qed (rule 4)
qed

lemma impersonation_recorded:
  assumes "exchange_impersonation env clk jti st request exchange = (Inr resp, st')"
  obtains c decision s where
    "impersonation_checks st request exchange = Inr (c, decision)"
    "client_recorded env (tc_now clk) st st' c"
    "case ve_dpop_binding exchange of None \<Rightarrow> True | Some d \<Rightarrow> dpop_recorded env (tc_now clk) st st' d"
    "static s = static st"
    "mint_response env s exchange decision
       (exchange_payload s exchange c None jti (tc_now clk) (token_expiry s exchange c (tc_now clk)))
       (tc_now clk) (token_expiry s exchange c (tc_now clk)) = (Inr resp, st')"
proof -
  let ?now = "tc_now clk"
  from assms obtain c decision s1 s2 where
    checks: "impersonation_checks st request exchange = Inr (c, decision)" and
    1: "record_client_assertion_replay env st c ?now = (Inr (), s1)" and
    2: "record_optional (\<lambda>b st. record_dpop_replay env st b ?now) (ve_dpop_binding exchange) s1 = (Inr (), s2)" and
    3: "mint_response env s2 exchange decision
       (exchange_payload s2 exchange c None jti ?now (token_expiry s2 exchange c ?now))
       ?now (token_expiry s2 exchange c ?now) = (Inr resp, st')"
    by (auto simp: exchange_impersonation_def st_then_ok Let_def split: sum.splits prod.splits)
  note e1 = evolves_results(2) [OF 1] and e2 = evolves_results(4) [OF 2] and e3 = evolves_results(5) [OF 3, of ?now]
  note e23 = evolves_trans [OF e2 e3] and e12 = evolves_trans [OF e1 e2]
  show thesis
  proof (rule that [OF checks])
    show "client_recorded env ?now st st' c"
      using 1 e23 accepted_earlier by (auto simp: client_recorded_def elim!: record_client_accepted)
    show "case ve_dpop_binding exchange of None \<Rightarrow> True | Some d \<Rightarrow> dpop_recorded env ?now st st' d"
      using 2 e1 e3 accepted_earlier accepted_later
      by (auto simp: record_optional_ok dpop_recorded_def dest!: record_dpop_accepted split: option.splits)
    show "static s2 = static st" using e12 by (simp add: replay_evolves_def)
  qed (rule 3)
qed

section \<open>What a successful exchange checked\<close>

text \<open>The claims of an inbound assertion whose signature verifies under the key set.\<close>

definition inbound_claims :: "http_env \<Rightarrow> HttpState \<Rightarrow> JwksDocument \<Rightarrow> string \<Rightarrow> AssertionClaims option" where
  "inbound_claims env st jwks tok =
     (case verify_claims_against_jwks_with_allowed_algs (he_jose env) (he_assertion_codec env) tok jwks
             (inbound_assertion_algs (hs_config st)) of
        Inl _ \<Rightarrow> None | Inr v \<Rightarrow> Some (vj_claims v))"

lemma verify_assertion_claims:
  assumes "verify_assertion_at env (hs_config st) jwks now1 now2 tok options = Inr c"
  shows "inbound_claims env st jwks tok = Some c" "as_iss c = as_sub c"
    "validate_time_window now1 (as_exp c) None (opt_clock_skew_leeway options) = Inr ()"
  using assms
  by (auto simp: verify_assertion_at_def verify_assertion_with_allowed_algs_def Let_def inbound_claims_def
      verify_assertion_with_allowed_alg_refs_def result_iff split: if_splits)

lemma inbound_claims_static: "static st' = static st \<Longrightarrow> inbound_claims env st' jwks tok = inbound_claims env st jwks tok"
  by (simp add: inbound_claims_def static_def)

lemma token_checks_ok:
  assumes "token_checks env clk st headers body = Inr (mode, request, exchange)"
  obtains form where "parse_token_form headers (he_form_parse env body) = Inr form"
    "request = into_exchange_request form"
    "mode = effective_exchange_mode (hs_config st) request (tf_empty_actor_token_supplied form)"
    "authenticate_client_if_present env clk st request mode = Inr (ve_client_claims exchange)"
    "validate_dpop_header env headers st (tc_dpop clk) = Inr (ve_dpop_binding exchange)"
    "verify_subject_token (he_jose env) (he_url env) (he_subject_codec env) (tc_subject clk)
       (er_subject_token request) (hs_subject_jwks st) (idp_issuer (hs_config st))
       (sorted_list_of_set (expected_subject_aud (hs_config st))) (clock_skew_leeway (hs_config st)) =
       Inr (ve_subject_claims exchange)"
    "resolve_target_for_request request (hs_config st) = Inr (ve_target exchange)"
    "resolve_scope_for_request request (hs_config st) (ve_subject_claims exchange) (ve_target exchange) =
       Inr (ve_scope exchange)"
    "st_sub (ve_subject_claims exchange) = Some (ve_subject_sub exchange)" "trim (ve_subject_sub exchange) \<noteq> []"
  using assms by (auto simp: token_checks_def result_iff Let_def split: option.splits if_splits)

lemma check_client_ok:
  assumes "check_client_assertion env st now1 now2 request own_endpoint = Inr c"
  obtains a where "er_client_assertion request = Some a"
    "verify_assertion_at env (hs_config st) (hs_client_jwks st) now1 now2 a
       (assertion_options (hs_config st) [our_issuer (hs_config st), own_endpoint] None False) = Inr c"
    "as_sub c \<in> client_ids (hs_config st)"
  using assms by (auto simp: check_client_assertion_def result_iff split: if_splits)

lemma authenticate_ok:
  assumes "authenticate_client_if_present env clk st request mode = Inr v"
  shows "case v of None \<Rightarrow> \<not> has_client_auth request \<and> mode = EffDelegation
    | Some c \<Rightarrow> check_client_assertion env st (tc_client_window clk) (tc_client_lifetime clk) request
        (token_endpoint (hs_config st)) = Inr c"
  using assms
  by (cases mode) (auto simp: authenticate_client_if_present_def result_iff split: if_splits)

lemma delegation_checks_ok:
  assumes "delegation_checks env clk st request exchange = Inr (ac, decision, act, aj)"
  obtains tok prior where "er_actor_token request = Some tok"
    "verify_actor_token env clk st tok (er_subject_token request) = Inr ac"
    "as_sub ac \<in> actor_ids (hs_config st)" "gate_may_act (ve_subject_claims exchange) ac = Inr ()"
    "signing_decision_for_target (hs_config st) (hs_signer st) (ve_target exchange) = Inr decision"
    "map_transpose act_claim_from_value (st_act (ve_subject_claims exchange)) = Inr prior"
    "act = build_act (as_sub ac) prior" "as_jti ac = Some aj" "trim aj \<noteq> []"
  using assms
  by (auto simp: delegation_checks_def validate_actor_identity_def and_then_ok ok_or_ok Let_def
      split: option.splits if_splits)

lemma impersonation_checks_ok:
  assumes "impersonation_checks st request exchange = Inr (c, decision)"
  obtains entry where "ve_client_claims exchange = Some c" "er_actor_token request = None"
    "map_of (impersonation_policy (hs_config st)) (as_sub c) = Some entry"
    "selector_allows (imp_targets entry) (ve_target exchange)"
    "selector_allows (imp_subjects entry) (ve_subject_sub exchange)"
    "signing_decision_for_target (hs_config st) (hs_signer st) (ve_target exchange) = Inr decision"
  using assms by (auto simp: impersonation_checks_def and_then_ok ok_or_ok split: if_splits)

text \<open>The two ways a token request succeeds.\<close>

lemma token_ok:
  assumes "token env clk jti headers body st = (Inr resp, st')"
  obtains (delegation) request exchange s where "token_checks env clk st headers body = Inr (EffDelegation, request, exchange)"
      "exchange_delegation env clk jti st request exchange = (Inr resp, s)"
      "st' = s\<lparr>hs_metrics := record_exchange (hs_metrics s) (Inr resp)\<rparr>"
  | (impersonation) request exchange s where "token_checks env clk st headers body = Inr (EffImpersonation, request, exchange)"
      "exchange_impersonation env clk jti st request exchange = (Inr resp, s)"
      "st' = s\<lparr>hs_metrics := record_exchange (hs_metrics s) (Inr resp)\<rparr>"
proof -
  from assms obtain s where s: "token_inner env clk jti headers body st = (Inr resp, s)"
    "st' = s\<lparr>hs_metrics := record_exchange (hs_metrics s) (Inr resp)\<rparr>"
    by (auto simp: token_def split: prod.splits)
  from s(1) that s(2) show thesis
    by (auto simp: token_inner_def split: sum.splits prod.splits EffectiveExchangeMode.splits)
qed

lemma accepted_metrics: "accepted env t st (s\<lparr>hs_metrics := m\<rparr>) k x \<longleftrightarrow> accepted env t st s k x"
  by (simp add: accepted_def evolves_metrics)

lemma recorded_metrics [simp]:
  "client_recorded env t st (s\<lparr>hs_metrics := m\<rparr>) c \<longleftrightarrow> client_recorded env t st s c"
  "dpop_recorded env t st (s\<lparr>hs_metrics := m\<rparr>) d \<longleftrightarrow> dpop_recorded env t st s d"
  by (simp_all add: client_recorded_def dpop_recorded_def accepted_metrics)

text \<open>The checks read the fixed part of the state only.\<close>

lemma checks_static:
  assumes "static st' = static st"
  shows "token_checks env clk st' headers body = token_checks env clk st headers body"
    "delegation_checks env clk st' request exchange = delegation_checks env clk st request exchange"
    "impersonation_checks st' request exchange = impersonation_checks st request exchange"
  unfolding token_checks_def authenticate_client_if_present_def check_client_assertion_def validate_dpop_header_def
    delegation_checks_def verify_actor_token_def impersonation_checks_def static_eqD [OF assms] by (rule refl)+

end
