(* ===== verification/Service_Replay.thy ===== *)
theory Service_Replay
  imports Service_Safety
begin

text \<open>
  Single use of credentials across requests, from the contract of the replay store: an actor
  token, a client assertion or a DPoP proof that a request used successfully is refused by every
  later request, at any endpoint, until its record expires. The last two properties show what happens
  in the interval between a token's expiry and the end of the clock-skew leeway, and at the end of
  a DPoP proof's window.
\<close>

section \<open>Credentials a request presents\<close>

definition form_actor_token :: "http_env \<Rightarrow> HeaderMap \<Rightarrow> string \<Rightarrow> string option" where
  "form_actor_token env headers body =
     (case parse_token_form headers (he_form_parse env body) of Inl _ \<Rightarrow> None | Inr form \<Rightarrow> tf_actor_token form)"

fun presented_client_assertion :: "http_env \<Rightarrow> http_request \<Rightarrow> string option" where
  "presented_client_assertion env (TokenRequest clk jti headers body) =
     (case parse_token_form headers (he_form_parse env body) of Inl _ \<Rightarrow> None | Inr form \<Rightarrow> tf_client_assertion form)"
| "presented_client_assertion env (IntrospectRequest clk headers body) =
     (case parse_online_token_form headers (he_form_parse env body) of Inl _ \<Rightarrow> None | Inr form \<Rightarrow> of_client_assertion form)"
| "presented_client_assertion env (RevokeRequest clk headers body) =
     (case parse_online_token_form headers (he_form_parse env body) of Inl _ \<Rightarrow> None | Inr form \<Rightarrow> of_client_assertion form)"

fun reply_ok :: "http_response \<Rightarrow> bool" where
  "reply_ok (TokenReply r) \<longleftrightarrow> is_ok r"
| "reply_ok (IntrospectReply r) \<longleftrightarrow> is_ok r"
| "reply_ok (RevokeReply r) \<longleftrightarrow> is_ok r"

lemma into_exchange_request_simps [simp]:
  "er_actor_token (into_exchange_request form) = tf_actor_token form"
  "er_client_assertion (into_exchange_request form) = tf_client_assertion form"
  by (simp_all add: into_exchange_request_def)

lemma actor_accepted:
  assumes "token env clk jti headers body st = (Inr resp, st')" "form_actor_token env headers body = Some tok"
    "inbound_claims env st (hs_actor_jwks st) tok = Some c"
  shows "\<exists>aj. as_jti c = Some aj \<and> accepted env (tc_now clk) st st' (actor_replay_key c aj) (as_exp c)"
  using assms(1)
proof (cases rule: token_ok)
  case (delegation request exchange s)
  obtain ac decision act aj s' where d: "delegation_checks env clk st request exchange = Inr (ac, decision, act, aj)"
    "accepted env (tc_now clk) st s (actor_replay_key ac aj) (as_exp ac)"
    by (rule delegation_recorded [OF delegation(2)])
  from delegation(1) obtain form where f: "parse_token_form headers (he_form_parse env body) = Inr form"
    "request = into_exchange_request form" by (elim token_checks_ok)
  from d(1) obtain t where t: "er_actor_token request = Some t" "as_jti ac = Some aj"
    "verify_actor_token env clk st t (er_subject_token request) = Inr ac" by (elim delegation_checks_ok)
  from t(3) have "inbound_claims env st (hs_actor_jwks st) t = Some ac"
    unfolding verify_actor_token_def by (rule verify_assertion_claims)
  with t(1) f assms(2,3) have "ac = c" by (simp add: form_actor_token_def)
  with d(2) t(2) delegation(3) show ?thesis by (simp add: accepted_metrics)
next
  case (impersonation request exchange s)
  obtain cc decision where i: "impersonation_checks st request exchange = Inr (cc, decision)"
    by (rule impersonation_recorded [OF impersonation(2)])
  from impersonation(1) obtain form where "parse_token_form headers (he_form_parse env body) = Inr form"
    "request = into_exchange_request form" by (elim token_checks_ok)
  with i assms(2) show ?thesis by (auto simp: form_actor_token_def elim!: impersonation_checks_ok)
qed

text \<open>The client claims of a request, and what a success at each endpoint recorded for them.\<close>

lemma check_client_claims:
  assumes "check_client_assertion env st now1 now2 request own_endpoint = Inr c'" "er_client_assertion request = Some tok"
    "inbound_claims env st (hs_client_jwks st) tok = Some c"
  shows "c' = c"
  using assms verify_assertion_claims(1) by (fastforce elim!: check_client_ok)

lemma client_accepted_token:
  assumes "token env clk jti headers body st = (Inr resp, st')"
    "presented_client_assertion env (TokenRequest clk jti headers body) = Some tok"
    "inbound_claims env st (hs_client_jwks st) tok = Some c"
  shows "client_recorded env (tc_now clk) st st' c"
proof -
  have auth: "ve_client_claims exchange = Some c"
    if "token_checks env clk st headers body = Inr (mode, request, exchange)" for mode request exchange
  proof -
    from that obtain form where f: "parse_token_form headers (he_form_parse env body) = Inr form"
      "request = into_exchange_request form"
      "authenticate_client_if_present env clk st request mode = Inr (ve_client_claims exchange)" by (elim token_checks_ok)
    with assms(2) have a: "er_client_assertion request = Some tok" by simp
    then have "has_client_auth request" by (simp add: has_client_auth_def)
    with authenticate_ok [OF f(3)] check_client_claims [OF _ a assms(3)] show ?thesis
      by (auto split: option.splits)
  qed
  from assms(1) show ?thesis
  proof (cases rule: token_ok)
    case (delegation request exchange s)
    then show ?thesis using auth [OF delegation(1)] by (auto elim!: delegation_recorded)
  next
    case (impersonation request exchange s)
    then show ?thesis using auth [OF impersonation(1)]
      by (auto elim!: impersonation_recorded impersonation_checks_ok)
  qed
qed

lemma client_accepted_online:
  assumes "online_prologue env clk headers body st own_endpoint = Inr (tok', cc)"
    "parse_online_token_form headers (he_form_parse env body) = Inr form" "of_client_assertion form = Some tok"
    "inbound_claims env st (hs_client_jwks st) tok = Some c"
    "record_client_assertion_replay env st cc t = (Inr u, mid)"
  shows "client_recorded env t st mid c"
proof -
  from assms(1,2) have "authenticate_online_client env clk st form own_endpoint = Inr cc"
    by (auto simp: online_prologue_def and_then_ok)
  then have "cc = c"
    using assms(3,4) by (auto simp: authenticate_online_client_def Let_def exchange_request_default_def split: if_splits
        dest!: check_client_claims)
  with assms(5) show ?thesis by (auto simp: client_recorded_def elim!: record_client_accepted)
qed

lemma introspect_ok:
  assumes "introspect env clk headers body st = (Inr r, st')"
  obtains tok cc mid where "online_prologue env clk headers body st (introspection_endpoint (hs_config st)) = Inr (tok, cc)"
    "record_client_assertion_replay env st cc (oc_record clk) = (Inr (), mid)"
    "introspection_response_for_token env mid tok (oc_verify clk) = (r, st')"
proof -
  from assms obtain tok cc where p: "online_prologue env clk headers body st (introspection_endpoint (hs_config st)) = Inr (tok, cc)"
    by (cases "online_prologue env clk headers body st (introspection_endpoint (hs_config st))") (auto simp: introspect_alt)
  from assms obtain mid where m: "record_client_assertion_replay env st cc (oc_record clk) = (Inr (), mid)"
    "(case introspection_response_for_token env mid tok (oc_verify clk) of (response, s) \<Rightarrow> (Ok response, s)) =
       ((Inr r, st') :: json handled)"
    by (auto simp: introspect_alt p st_then_ok)
  from m(2) have "introspection_response_for_token env mid tok (oc_verify clk) = (r, st')" by (simp split: prod.splits)
  with p m(1) that show thesis by blast
qed

lemma introspection_replay:
  "introspection_response_for_token env st tok now = (r, st') \<Longrightarrow> hs_replay st' = hs_replay st"
  using verified_state(2) [of env st tok now]
  by (auto simp: introspection_response_for_token_def split: prod.splits option.splits)

lemma revoke_ok:
  assumes "revoke env clk headers body st = (Inr r, st')"
  obtains tok cc mid where "online_prologue env clk headers body st (revocation_endpoint (hs_config st)) = Inr (tok, cc)"
    "record_client_assertion_replay env st cc (oc_record clk) = (Inr (), mid)" "hs_replay st' = hs_replay mid"
    "case sts_token_claims env mid tok (oc_verify clk) of
       None \<Rightarrow> st' = mid
     | Some c \<Rightarrow> \<exists>rs. revoke_token (he_jose env) (hs_revocations mid) tok (mc_exp c) (oc_revoke clk)
                   (max_seen_jti (hs_config mid)) = (Inr (), rs) \<and> st' = mid\<lparr>hs_revocations := rs\<rparr>"
proof -
  from assms obtain tok cc where p: "online_prologue env clk headers body st (revocation_endpoint (hs_config st)) = Inr (tok, cc)"
    by (cases "online_prologue env clk headers body st (revocation_endpoint (hs_config st))") (auto simp: revoke_alt)
  from assms obtain mid where m: "record_client_assertion_replay env st cc (oc_record clk) = (Inr (), mid)"
    "(case sts_token_claims env mid tok (oc_verify clk) of None \<Rightarrow> (Ok (), mid)
      | Some c \<Rightarrow> (case revoke_token (he_jose env) (hs_revocations mid) tok (mc_exp c) (oc_revoke clk)
            (max_seen_jti (hs_config mid)) of (r, rs) \<Rightarrow> (r, mid\<lparr>hs_revocations := rs\<rparr>))) = (Inr r, st')"
    by (auto simp: revoke_alt p st_then_ok)
  show thesis
    by (rule that [OF p m(1)]) (use m(2) in \<open>auto split: option.splits prod.splits\<close>)
qed

lemma client_accepted:
  assumes "serve env st q = (a, st')" "reply_ok a" "presented_client_assertion env q = Some tok"
    "inbound_claims env st (hs_client_jwks st) tok = Some c"
  shows "\<exists>mid. hs_replay st' = hs_replay mid \<and> client_recorded env (record_clock q) st mid c"
proof (cases q)
  case (TokenRequest clk jti h b)
  with assms(1,2) obtain resp where "token env clk jti h b st = (Inr resp, st')"
    by (auto simp: is_ok_def split: prod.splits sum.splits)
  from client_accepted_token [OF this] TokenRequest assms(3,4) show ?thesis by auto
next
  case (IntrospectRequest clk h b)
  with assms(1,2) obtain r where "introspect env clk h b st = (Inr r, st')"
    by (auto simp: is_ok_def split: prod.splits sum.splits)
  then show ?thesis
    using IntrospectRequest assms(3,4) introspection_replay client_accepted_online
    by (auto elim!: introspect_ok split: sum.splits)
next
  case (RevokeRequest clk h b)
  with assms(1,2) obtain r where "revoke env clk h b st = (Inr r, st')"
    by (auto simp: is_ok_def split: prod.splits sum.splits)
  then show ?thesis
    using RevokeRequest assms(3,4) client_accepted_online
    by (auto elim!: revoke_ok split: sum.splits)
qed

lemma live_replay_cong: "hs_replay st' = hs_replay st \<Longrightarrow> live env st' k x \<longleftrightarrow> live env st k x"
  by (simp add: live_def)

section \<open>Properties\<close>

text \<open>
  C7: an actor token is used once. After a token request that presented it succeeded, every
  later token request that presents it fails, whatever requests come between, as long as no clock
  reading is past the token's expiry. It holds for both replay stores and with failing file
  operations.
\<close>

theorem actor_token_single_use:
  assumes "policy_invar (hs_replay st)"
    and "serve env st (TokenRequest clk jti headers body) = (TokenReply (Ok resp), st1)"
    and "form_actor_token env headers body = Some tok" "inbound_claims env st (hs_actor_jwks st) tok = Some c"
    and "in_i64 (as_exp c)" "tc_now clk \<le> as_exp c" "list_all (\<lambda>q. record_clock q \<le> as_exp c) qs"
    and "tc_now clk2 \<le> as_exp c" "form_actor_token env headers2 body2 = Some tok"
  shows "\<exists>e st3. serve env (snd (serve_all env st1 qs)) (TokenRequest clk2 jti2 headers2 body2) = (TokenReply (Err e), st3)"
proof -
  let ?st2 = "snd (serve_all env st1 qs)"
  from assms(2) have ok: "token env clk jti headers body st = (Inr resp, st1)" by (auto split: prod.splits)
  have "static st1 = static st" using evolves_token [of env clk st jti headers body] ok by (simp add: replay_evolves_def)
  then have "static ?st2 = static st" using serve_all_static by metis
  then have c2: "inbound_claims env ?st2 (hs_actor_jwks ?st2) tok = Some c"
    using assms(4) inbound_claims_static by (metis static_eqD(5))
  from actor_accepted [OF ok assms(3,4)] obtain aj where a: "as_jti c = Some aj"
    "accepted env (tc_now clk) st st1 (actor_replay_key c aj) (as_exp c)" by blast
  have no: "\<not> accepted env (tc_now clk2) ?st2 st3 (actor_replay_key c aj) (as_exp c)" for st3
    by (rule key_single_use [OF assms(1,5) a(2) assms(6-8)])
  obtain r st3 where r: "token env clk2 jti2 headers2 body2 ?st2 = (r, st3)" by fastforce
  have "\<not> is_ok r" using actor_accepted [OF _ assms(9) c2, of clk2 jti2] r no a(1) by (auto simp: is_ok_def split: sum.splits)
  with r show ?thesis by (auto simp: is_ok_def split: sum.splits)
qed

text \<open>
  C9: a client assertion is used once, across the three endpoints: after any request that
  presented it succeeded, every later request that presents it, at the same or another endpoint,
  fails while no clock reading is past its expiry.
\<close>

theorem client_assertion_single_use:
  assumes "policy_invar (hs_replay st)" "serve env st q = (a, st1)" "reply_ok a"
    and "presented_client_assertion env q = Some tok" "inbound_claims env st (hs_client_jwks st) tok = Some c"
    and "in_i64 (as_exp c)" "record_clock q \<le> as_exp c" "list_all (\<lambda>q. record_clock q \<le> as_exp c) qs"
    and "record_clock q2 \<le> as_exp c" "presented_client_assertion env q2 = Some tok"
  shows "\<not> reply_ok (fst (serve env (snd (serve_all env st1 qs)) q2))"
proof
  let ?st2 = "snd (serve_all env st1 qs)"
  assume ok2: "reply_ok (fst (serve env ?st2 q2))"
  have "static ?st2 = static st" using serve_all_static [of env st "q # qs"] assms(2) by (auto split: prod.splits)
  then have c2: "inbound_claims env ?st2 (hs_client_jwks ?st2) tok = Some c"
    using assms(5) inbound_claims_static by (metis static_eqD(6))
  from client_accepted [OF assms(2-5)] obtain mid j where m: "hs_replay st1 = hs_replay mid" "client_assertion_jti c = Inr j"
    "accepted env (record_clock q) st mid (client_replay_key c j) (as_exp c)" unfolding client_recorded_def by blast
  have "live env ?st2 (client_replay_key c j) (as_exp c)"
    using live_serve_all [OF _ assms(8)] accepted_live [OF assms(1,6) m(3) assms(7)] live_replay_cong [OF m(1)] by blast
  moreover from client_accepted [OF _ ok2 assms(10) c2, of "snd (serve env ?st2 q2)"] m(2) obtain mid2 where
    "accepted env (record_clock q2) ?st2 mid2 (client_replay_key c j) (as_exp c)" unfolding client_recorded_def by auto
  ultimately show False using live_not_accepted [OF _ assms(9)] by blast
qed

lemma dpop_accepted:
  assumes "token env clk jti headers body st = (Inr resp, st')" "hm_dpop headers = [Some prf]"
  obtains d where "validate_dpop_proof (he_dpop env) (he_url env)
      \<lparr>req_proof = prf, req_htm = ''POST'', req_htu = token_endpoint (hs_config st), req_now = tc_dpop clk,
       req_leeway = clock_skew_leeway (hs_config st)\<rparr> = Inr d" "dpop_recorded env (tc_now clk) st st' d"
proof -
  have v: "\<exists>d. ve_dpop_binding exchange = Some d \<and> validate_dpop_proof (he_dpop env) (he_url env)
      \<lparr>req_proof = prf, req_htm = ''POST'', req_htu = token_endpoint (hs_config st), req_now = tc_dpop clk,
       req_leeway = clock_skew_leeway (hs_config st)\<rparr> = Inr d"
    if "token_checks env clk st headers body = Inr (mode, request, exchange)" for mode request exchange
  proof -
    from that have "validate_dpop_header env headers st (tc_dpop clk) = Inr (ve_dpop_binding exchange)"
      by (elim token_checks_ok)
    then show ?thesis using assms(2) by (auto simp: validate_dpop_header_def result_iff)
  qed
  from assms(1) show thesis
  proof (cases rule: token_ok)
    case (delegation request exchange s)
    then show ?thesis using v [OF delegation(1)] that by (auto elim!: delegation_recorded)
  next
    case (impersonation request exchange s)
    then show ?thesis using v [OF impersonation(1)] that by (auto elim!: impersonation_recorded)
  qed
qed

abbreviation dpop_at :: "http_env \<Rightarrow> HttpState \<Rightarrow> string \<Rightarrow> int \<Rightarrow> (DpopError, DpopBinding) result" where
  "dpop_at env st prf t \<equiv> validate_dpop_proof (he_dpop env) (he_url env)
     \<lparr>req_proof = prf, req_htm = ''POST'', req_htu = token_endpoint (hs_config st), req_now = t,
      req_leeway = clock_skew_leeway (hs_config st)\<rparr>"

text \<open>
  C8: a DPoP proof is used once, without any bound on the time between the two requests. When a
  token request with a proof succeeded, a later one with the same proof fails, whatever requests
  come between: the record covers the whole interval in which the proof is acceptable. There is
  one exception, and it is the only one: the later request validates the proof with one clock
  reading and records it with another, and the record's expiry, \<open>iat\<close> plus the leeway, lies between
  the two. Clock readings of the requests before are not past the later request's second reading.
\<close>

theorem dpop_proof_single_use:
  assumes "policy_invar (hs_replay st)"
    and "serve env st (TokenRequest clk jti headers body) = (TokenReply (Ok resp), st1)"
    and "hm_dpop headers = [Some prf]" "hm_dpop headers2 = [Some prf]"
    and "tc_now clk \<le> tc_now clk2" "list_all (\<lambda>q. record_clock q \<le> tc_now clk2) qs" "tc_dpop clk2 \<le> i64_max"
  shows "(\<exists>e st3. serve env (snd (serve_all env st1 qs)) (TokenRequest clk2 jti2 headers2 body2) = (TokenReply (Err e), st3)) \<or>
     (\<exists>d. dpop_at env st prf (tc_dpop clk2) = Ok d \<and>
        db_replay_expires_at d = saturating_add (db_iat d) (max (clock_skew_leeway (hs_config st)) 0) \<and>
        tc_dpop clk2 \<le> db_replay_expires_at d \<and> db_replay_expires_at d < tc_now clk2)"
proof (rule ccontr)
  let ?st2 = "snd (serve_all env st1 qs)"
  assume n: "\<not> ?thesis"
  from assms(2) have ok: "token env clk jti headers body st = (Inr resp, st1)" by (auto split: prod.splits)
  have "static st1 = static st" using evolves_token [of env clk st jti headers body] ok by (simp add: replay_evolves_def)
  then have cfg: "hs_config ?st2 = hs_config st" using serve_all_static static_eqD(1) by metis
  obtain r st3 where r: "token env clk2 jti2 headers2 body2 ?st2 = (r, st3)" by fastforce
  with n obtain resp2 where "r = Inr resp2" by (cases r) auto
  with r obtain d2 where d2: "dpop_at env st prf (tc_dpop clk2) = Inr d2" "dpop_recorded env (tc_now clk2) ?st2 st3 d2"
    using dpop_accepted [OF _ assms(4)] cfg by metis
  obtain d where d: "dpop_at env st prf (tc_dpop clk) = Inr d" "dpop_recorded env (tc_now clk) st st1 d"
    using dpop_accepted [OF ok assms(3)] .
  have same: "d2 = d" using same_proof_binding [OF d(1) d2(1)] by simp
  have "tc_dpop clk2 \<le> db_replay_expires_at d" "db_replay_expires_at d = saturating_add (db_iat d) (max (clock_skew_leeway (hs_config st)) 0)"
    using proof_before_record_expiry [OF d2(1)] record_expiry [OF d(1)] assms(7) same by simp_all
  with n d2(1) same have le: "tc_now clk2 \<le> db_replay_expires_at d" by force
  then have "list_all (\<lambda>q. record_clock q \<le> db_replay_expires_at d) qs" "tc_now clk \<le> db_replay_expires_at d"
    using assms(5,6) by (auto simp: list_all_iff)
  with key_single_use [OF assms(1) record_expiry_in_i64 [OF d(1)] d(2) [unfolded dpop_recorded_def]] le d2(2) same
  show False by (simp add: dpop_recorded_def)
qed

section \<open>The leeway window\<close>

lemma file_first:
  assumes "file_new True [] max_n every = Ok s" "2 \<le> max_n" "3 \<le> every" "trim k \<noteq> []"
  shows "file_check_and_record sha io_healthy s k x t =
     (Ok (), s\<lparr>dir := [(replay_filename sha k, RegFile (display_i64 x @ [CHR 0x0A]))], file_calls := 1\<rparr>)"
proof -
  from assms(1) have s: "s = \<lparr>dir = [], file_max_seen = max_n, file_sweep_every = max every 1, file_calls = 0, file_calls_poisoned = False\<rparr>"
    by (simp add: file_new_def)
  show ?thesis using assms(2-4)
    by (simp add: file_check_and_record_def s maybe_sweep_def Let_def sweep_when_full_def active_entry_count_def claim_file_def
        io_healthy_def read_exp_def create_and_write_def)
qed

lemma file_expired_again:
  assumes "file_new True [] max_n every = Ok s" "2 \<le> max_n" "3 \<le> every" "trim k \<noteq> []" "in_i64 x" "x < t"
  shows "fst (file_check_and_record sha io_healthy
     (s\<lparr>dir := [(replay_filename sha k, RegFile (display_i64 x @ [CHR 0x0A]))], file_calls := 1\<rparr>) k y t) = Ok ()"
proof -
  from assms(1) have s: "s = \<lparr>dir = [], file_max_seen = max_n, file_sweep_every = max every 1, file_calls = 0, file_calls_poisoned = False\<rparr>"
    by (simp add: file_new_def)
  let ?n = "replay_filename sha k" and ?d = "[(replay_filename sha k, RegFile (display_i64 x @ [CHR 0x0A]))]"
  have e: "read_exp io_healthy ?d ?n = Some x"
    using assms(5) by (simp add: read_exp_def io_healthy_def trim_newline display_i64_no_ws parse_i64_display)
  have c: "active_entry_count io_healthy ?d = Ok 1" by (simp add: active_entry_count_def io_healthy_def is_file_def)
  have "fst (claim_file io_healthy ?d ?n y t) = Ok ()"
    unfolding claim_file_def e using assms(6)
    by (simp add: remove_replay_file_def io_healthy_def create_and_write_def AList.delete_eq)
  then show ?thesis using assms(2-4)
    by (simp add: file_check_and_record_def s maybe_sweep_def Let_def sweep_when_full_def c case_prod_unfold)
qed

lemma file_twice:
  assumes "file_new True [] max_n every = Ok s" "2 \<le> max_n" "3 \<le> every" "trim k \<noteq> []" "in_i64 x" "x < t2"
  shows "\<exists>p1 p2. policy_check_and_record sha io_healthy (FileStore s) k x t1 = (Ok (), p1) \<and>
     policy_check_and_record sha io_healthy p1 k x t2 = (Ok (), p2)"
  using file_expired_again [OF assms, of sha x] file_first [OF assms(1-4), of sha x t1] by (auto split: prod.splits)

text \<open>
  C35: a gap in replay protection. Assertions are accepted until their expiry plus the clock-skew
  leeway, but their replay record is only kept until the expiry. In that interval the file-backed
  store accepts the same key again: it removes the expired record and creates a new one.
\<close>

theorem leeway_window_replay:
  assumes "file_new True [] max_n every = Ok s" "2 \<le> max_n" "3 \<le> every" "trim k \<noteq> []" "in_i64 x"
    and "x < t2" "t2 \<le> x + leeway" "x + leeway \<le> i64_max" "0 \<le> leeway"
  shows "validate_time_window t2 x None leeway = Ok () \<and>
     (\<exists>p1 p2. policy_check_and_record sha io_healthy (FileStore s) k x t1 = (Ok (), p1) \<and>
        policy_check_and_record sha io_healthy p1 k x t2 = (Ok (), p2))"
proof
  have "i64_add x leeway = x + leeway" using assms(5,8,9) by (intro i64_add_exact) (auto simp: i64_bounds)
  then show "validate_time_window t2 x None leeway = Ok ()" using assms(7) by (simp add: time_window_ok)
  show "\<exists>p1 p2. policy_check_and_record sha io_healthy (FileStore s) k x t1 = (Ok (), p1) \<and>
        policy_check_and_record sha io_healthy p1 k x t2 = (Ok (), p2)"
    by (rule file_twice [OF assms(1-6)])
qed

theorem leeway_window_replay_witness:
  "\<exists>s. file_new True [] 1024 256 = Ok s \<and> validate_time_window 1240 1200 None 60 = Ok () \<and>
     (\<exists>p1 p2. policy_check_and_record id io_healthy (FileStore s) ''act:agent:aj'' 1200 1100 = (Ok (), p1) \<and>
        policy_check_and_record id io_healthy p1 ''act:agent:aj'' 1200 1240 = (Ok (), p2))"
proof -
  obtain s where s: "file_new True [] 1024 256 = Ok s" by (simp add: file_new_def)
  have "trim ''act:agent:aj'' \<noteq> []" by (simp add: trim_empty_iff trim_start_id ws1_def ws2_def ws3_def)
  with leeway_window_replay [OF s, of "''act:agent:aj''" 1200 1240 60 id 1100] s show ?thesis by (auto simp: i64_bounds)
qed

text \<open>
  C36: the exception of the single use of DPoP proofs is real. A request validates a proof with one
  clock reading and records it with a later one. A proof that was accepted and recorded is still
  acceptable in the last second of its window, which is the expiry of its record; when the second
  reading is past that expiry, the file-backed store removes the record and takes the same proof
  a second time.
\<close>

theorem dpop_clock_gap_replay:
  assumes "validate_dpop_header env headers st now = Ok (Some d)"
    and "hs_replay st = FileStore s" "file_new True [] max_n every = Ok s" "2 \<le> max_n" "3 \<le> every" "he_io env = io_healthy"
    and "0 \<le> clock_skew_leeway (hs_config st)" "in_i64 (db_iat d + clock_skew_leeway (hs_config st))"
    and "db_replay_expires_at d < t2"
  shows "\<exists>st1 st2. record_dpop_replay env st d t1 = (Ok (), st1) \<and>
     validate_dpop_header env headers st1 (db_replay_expires_at d) = Ok (Some d) \<and>
     record_dpop_replay env st1 d t2 = (Ok (), st2)"
proof -
  let ?k = "dpop_replay_key (sha256 (he_jose env)) (db_jkt d) (db_jti d)"
  from assms(1) obtain p where hd: "hm_dpop headers = [Some p]" "dpop_at env st p now = Ok d"
    by (auto simp: validate_dpop_header_def result_iff split: list.splits option.splits)
  have "trim ?k \<noteq> []" by (simp add: dpop_replay_key_def trim_empty_iff trim_start_id ws1_def ws2_def ws3_def)
  with file_twice [OF assms(3-5) _ record_expiry_in_i64 [OF hd(2)] assms(9), of ?k "sha256 (he_jose env)" t1]
  obtain p1 p2 where rc: "policy_check_and_record (sha256 (he_jose env)) io_healthy (FileStore s) ?k (db_replay_expires_at d) t1 = (Ok (), p1)"
    "policy_check_and_record (sha256 (he_jose env)) io_healthy p1 ?k (db_replay_expires_at d) t2 = (Ok (), p2)" by metis
  have "validate_dpop_header env headers (st\<lparr>hs_replay := p1\<rparr>) (db_replay_expires_at d) = Ok (Some d)"
    using proof_valid_at_expiry [OF hd(2)] hd(1) assms(7,8) by (simp add: validate_dpop_header_def)
  with rc show ?thesis by (auto simp: record_dpop_replay_def check_and_record_def assms(2,6))
qed

end
