(* ===== verification/Service_Tokens.thy ===== *)
theory Service_Tokens
  imports Service_Replay
begin

text \<open>
  The token's life at this server: what a minted token grants and whom it names, that the server
  recognises it while it is valid, and that revocation is permanent.
\<close>

section \<open>Minting\<close>

lemma mint_response_ok:
  assumes "mint_response env st exchange decision payload now expiry = (Inr resp, st')"
  shows "sign_claims (he_jose env) (he_minted_codec env) (hs_signer st) payload = Ok (tr_access_token resp)"
    "tr_scope resp = ve_scope exchange" "tr_expires_in resp = max (i64_sub expiry now) 0"
    "tr_signing_alg_selected resp = sd_alg decision" "tr_pqc_fallback resp = sd_pqc_fallback decision"
    "st' = st\<lparr>hs_metrics := record_signing (hs_metrics st) decision\<rparr>"
  using assms by (auto simp: mint_response_def split: sum.splits)

lemma exchange_payload_simps [simp]:
  "mc_iss (exchange_payload st exchange caller act jti now expiry) = our_issuer (hs_config st)"
  "mc_sub (exchange_payload st exchange caller act jti now expiry) = ve_subject_sub exchange"
  "mc_aud (exchange_payload st exchange caller act jti now expiry) = ve_target exchange"
  "mc_scope (exchange_payload st exchange caller act jti now expiry) = ve_scope exchange"
  "mc_iat (exchange_payload st exchange caller act jti now expiry) = now"
  "mc_exp (exchange_payload st exchange caller act jti now expiry) = expiry"
  "mc_jti (exchange_payload st exchange caller act jti now expiry) = jti"
  "mc_client_id (exchange_payload st exchange caller act jti now expiry) = as_sub caller"
  "mc_act (exchange_payload st exchange caller act jti now expiry) = act"
  "mc_cnf_jkt (exchange_payload st exchange caller act jti now expiry) = map_option db_jkt (ve_dpop_binding exchange)"
  by (simp_all add: exchange_payload_def build_scoped_payload_def)

lemma static_payload:
  assumes "static s = static st"
  shows "exchange_payload s exchange caller act jti now expiry = exchange_payload st exchange caller act jti now expiry"
    "token_expiry s exchange caller now = token_expiry st exchange caller now"
  using static_eqD [OF assms] by (simp_all add: exchange_payload_def token_expiry_def)

lemma token_expiry_le:
  "token_expiry st exchange caller now \<le> i64_add now (scoped_token_ttl (hs_config st))"
  "token_expiry st exchange caller now \<le> st_exp (ve_subject_claims exchange)"
  "token_expiry st exchange caller now \<le> as_exp caller"
  by (simp_all add: token_expiry_def)

text \<open>The identity behind the request: an actor's token with the delegation chain, or a client.\<close>

definition delegated_by ::
    "http_env \<Rightarrow> token_clock \<Rightarrow> HttpState \<Rightarrow> TokenForm \<Rightarrow> SubjectTokenClaims \<Rightarrow> AssertionClaims \<Rightarrow> ActClaim \<Rightarrow> bool" where
  "delegated_by env clk st form subject caller act \<longleftrightarrow>
     (\<exists>tok prior. tf_actor_token form = Some tok \<and>
        verify_actor_token env clk st tok (unwrap_or (tf_subject_token form) '''') = Ok caller \<and>
        as_sub caller \<in> actor_ids (hs_config st) \<and> gate_may_act subject caller = Ok () \<and>
        map_transpose act_claim_from_value (st_act subject) = Ok prior \<and> act = ActClaim (as_sub caller) None prior)"

definition impersonated_by ::
    "http_env \<Rightarrow> token_clock \<Rightarrow> HttpState \<Rightarrow> TokenForm \<Rightarrow> AssertionClaims \<Rightarrow> string \<Rightarrow> string \<Rightarrow> bool" where
  "impersonated_by env clk st form caller target sub \<longleftrightarrow>
     (\<exists>tok entry. tf_client_assertion form = Some tok \<and> tf_actor_token form = None \<and>
        inbound_claims env st (hs_client_jwks st) tok = Some caller \<and> as_sub caller \<in> client_ids (hs_config st) \<and>
        map_of (impersonation_policy (hs_config st)) (as_sub caller) = Some entry \<and>
        selector_allows (imp_targets entry) target \<and> selector_allows (imp_subjects entry) sub)"

text \<open>A mint after the recordings signs the payload of the state the request came to.\<close>

lemma mint_signed:
  assumes "mint_response env s exchange decision
      (exchange_payload s exchange caller act jti now (token_expiry s exchange caller now)) now (token_expiry s exchange caller now) = (Inr resp, s')"
    and "static s = static st"
  shows "sign_claims (he_jose env) (he_minted_codec env) (hs_signer st)
      (exchange_payload st exchange caller act jti now (token_expiry st exchange caller now)) = Ok (tr_access_token resp)"
    and "tr_scope resp = ve_scope exchange" and "static s' = static st"
proof -
  note m = mint_response_ok [OF assms(1), unfolded static_payload [OF assms(2)] static_eqD(2) [OF assms(2)]]
  show "sign_claims (he_jose env) (he_minted_codec env) (hs_signer st)
      (exchange_payload st exchange caller act jti now (token_expiry st exchange caller now)) = Ok (tr_access_token resp)"
    "tr_scope resp = ve_scope exchange" using m(1,2) by simp_all
  show "static s' = static st" using m(6) assms(2) by (simp add: static_def)
qed

lemma delegation_delegated:
  assumes "delegation_checks env clk st (into_exchange_request form) exchange = Inr (caller, decision, act, aj)"
  shows "delegated_by env clk st form (ve_subject_claims exchange) caller act" "as_sub caller \<in> actor_ids (hs_config st)"
  using assms
  by (auto elim!: delegation_checks_ok simp: delegated_by_def into_exchange_request_def build_act_def)

lemma impersonation_impersonated:
  assumes "impersonation_checks st (into_exchange_request form) exchange = Inr (caller, decision)"
    and "authenticate_client_if_present env clk st (into_exchange_request form) mode = Inr (ve_client_claims exchange)"
  shows "impersonated_by env clk st form caller (ve_target exchange) (ve_subject_sub exchange)" "as_sub caller \<in> client_ids (hs_config st)"
proof -
  from assms(1) obtain entry where k: "ve_client_claims exchange = Some caller" "er_actor_token (into_exchange_request form) = None"
    "map_of (impersonation_policy (hs_config st)) (as_sub caller) = Some entry"
    "selector_allows (imp_targets entry) (ve_target exchange)"
    "selector_allows (imp_subjects entry) (ve_subject_sub exchange)" by (elim impersonation_checks_ok)
  from authenticate_ok [OF assms(2)] k(1) obtain tok where a: "er_client_assertion (into_exchange_request form) = Some tok"
    "inbound_claims env st (hs_client_jwks st) tok = Some caller" "as_sub caller \<in> client_ids (hs_config st)"
    using verify_assertion_claims(1) by (auto elim!: check_client_ok)
  with k show "impersonated_by env clk st form caller (ve_target exchange) (ve_subject_sub exchange)"
    by (auto simp: impersonated_by_def)
  show "as_sub caller \<in> client_ids (hs_config st)" by (rule a(3))
qed

lemma minted:
  assumes "token env clk jti headers body st = (Inr resp, st')"
  obtains form request exchange caller act where
    "parse_token_form headers (he_form_parse env body) = Inr form" "request = into_exchange_request form"
    "verify_subject_token (he_jose env) (he_url env) (he_subject_codec env) (tc_subject clk)
       (er_subject_token request) (hs_subject_jwks st) (idp_issuer (hs_config st))
       (sorted_list_of_set (expected_subject_aud (hs_config st))) (clock_skew_leeway (hs_config st)) =
       Inr (ve_subject_claims exchange)"
    "resolve_target_for_request request (hs_config st) = Inr (ve_target exchange)"
    "resolve_scope_for_request request (hs_config st) (ve_subject_claims exchange) (ve_target exchange) =
       Inr (ve_scope exchange)"
    "st_sub (ve_subject_claims exchange) = Some (ve_subject_sub exchange)" "trim (ve_subject_sub exchange) \<noteq> []"
    "validate_dpop_header env headers st (tc_dpop clk) = Inr (ve_dpop_binding exchange)"
    "sign_claims (he_jose env) (he_minted_codec env) (hs_signer st)
       (exchange_payload st exchange caller act jti (tc_now clk) (token_expiry st exchange caller (tc_now clk))) =
       Ok (tr_access_token resp)"
    "tr_scope resp = ve_scope exchange"
    "case act of None \<Rightarrow> impersonated_by env clk st form caller (ve_target exchange) (ve_subject_sub exchange)
     | Some a \<Rightarrow> delegated_by env clk st form (ve_subject_claims exchange) caller a"
    "static st' = static st" "as_sub caller \<in> key_binding_registry (hs_config st)"
  using assms
proof (cases rule: token_ok)
  case (delegation request exchange s)
  then obtain ac decision act aj s2 where d: "delegation_checks env clk st request exchange = Inr (ac, decision, act, aj)"
    "static s2 = static st"
    "mint_response env s2 exchange decision
       (exchange_payload s2 exchange ac (Some act) jti (tc_now clk) (token_expiry s2 exchange ac (tc_now clk)))
       (tc_now clk) (token_expiry s2 exchange ac (tc_now clk)) = (Inr resp, s)"
    by (elim delegation_recorded)
  note m = mint_signed [OF d(3,2)]
  from delegation(1) show thesis
  proof (rule token_checks_ok, goal_cases)
    case (1 form)
    from 1 m delegation(3) delegation_delegated [OF d(1) [unfolded 1(2)]] show ?case
      by (intro that [of form request exchange ac "Some act"]) (simp_all add: key_binding_registry_def static_def)
  qed
next
  case (impersonation request exchange s)
  then obtain c decision s2 where d: "impersonation_checks st request exchange = Inr (c, decision)"
    "static s2 = static st"
    "mint_response env s2 exchange decision
       (exchange_payload s2 exchange c None jti (tc_now clk) (token_expiry s2 exchange c (tc_now clk)))
       (tc_now clk) (token_expiry s2 exchange c (tc_now clk)) = (Inr resp, s)"
    by (elim impersonation_recorded)
  note m = mint_signed [OF d(3,2)]
  from impersonation(1) show thesis
  proof (rule token_checks_ok, goal_cases)
    case (1 form)
    from 1 m impersonation(3) impersonation_impersonated [OF d(1) [unfolded 1(2)] 1(4) [unfolded 1(2)]] show ?case
      by (intro that [of form request exchange c None]) (simp_all add: key_binding_registry_def static_def)
  qed
qed

section \<open>Properties of minted tokens\<close>

text \<open>
  C1: a token is minted only for a verified subject and an authorised caller, and grants no more
  than the policy. Whatever the request and the state, a successful exchange signed a payload
  whose subject is the one of a subject token that the identity provider signed and that is
  addressed to this server; whose audience is a configured target and whose scopes that target
  allows; which names the caller as client; and which ends no later than the subject token, the
  caller's assertion and the configured lifetime. With an \<open>act\<close> claim the caller is a configured
  actor whose token verified and whom \<open>may_act\<close>, when present, names, and the chain of the subject
  token is kept below it; without one the caller is a client with an impersonation entry that
  allows the target and the subject.
\<close>

theorem minted_token_sound:
  "case token env clk jti headers body st of
     (Inl _, _) \<Rightarrow> True
   | (Inr resp, _) \<Rightarrow> \<exists>payload form subject caller policy.
       sign_claims (he_jose env) (he_minted_codec env) (hs_signer st) payload = Ok (tr_access_token resp) \<and>
       parse_token_form headers (he_form_parse env body) = Ok form \<and>
       verify_subject_token (he_jose env) (he_url env) (he_subject_codec env) (tc_subject clk)
         (unwrap_or (tf_subject_token form) '''') (hs_subject_jwks st) (idp_issuer (hs_config st))
         (sorted_list_of_set (expected_subject_aud (hs_config st))) (clock_skew_leeway (hs_config st)) = Ok subject \<and>
       st_sub subject = Some (mc_sub payload) \<and> mc_iss payload = our_issuer (hs_config st) \<and>
       target_policy_get (target_policy (hs_config st)) (mc_aud payload) = Some policy \<and>
       scope_set (mc_scope payload) \<noteq> {} \<and>
       scope_set (mc_scope payload) \<subseteq> scope_set (join_scope_set (allowed_scopes policy)) \<and>
       tr_scope resp = mc_scope payload \<and> mc_client_id payload = as_sub caller \<and>
       mc_iat payload = tc_now clk \<and> mc_exp payload \<le> st_exp subject \<and> mc_exp payload \<le> as_exp caller \<and>
       mc_exp payload \<le> i64_add (tc_now clk) (scoped_token_ttl (hs_config st)) \<and>
       (case mc_act payload of
          None \<Rightarrow> impersonated_by env clk st form caller (mc_aud payload) (mc_sub payload)
        | Some act \<Rightarrow> delegated_by env clk st form subject caller act)"
proof (cases "token env clk jti headers body st")
  case (Pair r st')
  show ?thesis
  proof (cases r)
    case (Inr resp)
    with Pair have "token env clk jti headers body st = (Inr resp, st')" by simp
    then show ?thesis
    proof (rule minted, goal_cases)
      case (1 form request exchange caller act)
      obtain policy where p: "target_policy_get (target_policy (hs_config st)) (ve_target exchange) = Some policy"
        "scope_set (ve_scope exchange) \<subseteq> scope_set (join_scope_set (allowed_scopes policy))"
        "scope_set (ve_scope exchange) \<noteq> {}" by (rule resolve_scope_ok [OF 1(5)])
      let ?p = "exchange_payload st exchange caller act jti (tc_now clk) (token_expiry st exchange caller (tc_now clk))"
      have sub: "er_subject_token request = unwrap_or (tf_subject_token form) ''''"
        using 1(2) by (simp add: into_exchange_request_def)
      show ?case using Pair Inr 1 p sub
        by - (simp only: prod.case sum.case, rule exI [of _ ?p], rule exI [of _ form],
             rule exI [of _ "ve_subject_claims exchange"], rule exI [of _ caller], rule exI [of _ policy],
             simp add: token_expiry_le split: option.splits)
    qed
  qed (simp add: Pair)
qed

section \<open>A minted token is recognised\<close>

text \<open>
  C11: the server recognises what it mints. When the signer publishes its own key and the libraries
  keep their laws on the signed claims, the token of a successful exchange is accepted by the online endpoints with
  exactly the claims that were signed, from the moment of issue until its expiry and not after.
\<close>

theorem minted_token_recognised:
  assumes "token env clk jti headers body st = (Ok resp, st')"
    and "publishes (hs_published_jwks st) (hs_signer st)" "signer_consistent (he_jose env) (hs_signer st)"
    and "\<forall>c. sign_claims (he_jose env) (he_minted_codec env) (hs_signer st) c = Ok (tr_access_token resp) \<longrightarrow>
           libs_sound (he_jose env) (he_minted_codec env) (hs_signer st) c"
    and "\<forall>i \<in> key_binding_registry (hs_config st). trim i \<noteq> []"
    and "0 \<le> tc_now clk" "tc_now clk \<le> now" "0 \<le> clock_skew_leeway (hs_config st)"
    and "now + clock_skew_leeway (hs_config st) \<le> i64_max"
  shows "\<exists>payload. sign_claims (he_jose env) (he_minted_codec env) (hs_signer st) payload = Ok (tr_access_token resp) \<and>
     mc_iat payload = tc_now clk \<and> mc_jti payload = jti \<and>
     verified_sts_access_token env st' (tr_access_token resp) now False =
       (if now < mc_exp payload then Some payload else None, st')"
  using assms(1)
proof (rule minted, goal_cases)
  case (1 form request exchange caller act)
  let ?p = "exchange_payload st exchange caller act jti (tc_now clk) (token_expiry st exchange caller (tc_now clk))"
  note eq = static_eqD [OF 1(12)]
  obtain policy where p: "target_policy_get (target_policy (hs_config st)) (ve_target exchange) = Some policy"
    "scope_set (ve_scope exchange) \<noteq> {}" by (rule resolve_scope_ok [OF 1(5)])
  from published_set_accepts [OF assms(2,3) _ 1(9)] assms(4) 1(9) eq obtain v where
    v: "verify_claims_against_jwks_with_header (he_jose env) (he_minted_codec env) (tr_access_token resp)
       (hs_published_jwks st) = Ok v" "vj_claims v = ?p" "vj_typ v = Some ''at+jwt''" by metis
  have blank: "trim (ve_scope exchange) \<noteq> []" "trim (as_sub caller) \<noteq> []"
    using p(2) assms(5) 1(13) by (auto simp: scope_set_def split_whitespace_empty_iff)
  have "i64_add now (clock_skew_leeway (hs_config st)) = now + clock_skew_leeway (hs_config st)"
    using assms(6-9) by (intro i64_add_exact) (auto simp: i64_bounds)
  then have "sts_token_claims env st' (tr_access_token resp) now = (if now < mc_exp ?p then Some ?p else None)"
    using p(1) blank 1(7) assms(7,8) by (simp add: sts_token_claims_def v eq target_policy_get_def)
  then show ?case using 1(9) by (intro exI [of _ ?p]) (simp add: verified_alt)
qed

section \<open>Revocation\<close>

lemma revoke_token_records:
  "revoke_token E rs tok x t n = (Inr (), rs') \<Longrightarrow> map_of (rev_revoked rs') (revocation_key E tok) = Some x"
  by (auto simp: revoke_token_def Let_def update_conv split: if_splits)

lemma map_of_sweep_revoked:
  "distinct (map fst m) \<Longrightarrow> map_of m k = Some x \<Longrightarrow> t \<le> x \<Longrightarrow> map_of (sweep_revoked m t) k = Some x"
  by (rule map_of_is_SomeI) (rule sweep_revoked_wf(1), assumption, auto simp: sweep_revoked_def dest: map_of_SomeD)

lemma revocation_kept:
  assumes "revocations_evolve E n t may_revoke rs rs'" "map_of (rev_revoked rs) k = Some x" "distinct (map fst (rev_revoked rs))"
    and "t \<le> x" "\<And>tok y. may_revoke tok y \<Longrightarrow> revocation_key E tok = k \<Longrightarrow> y = x"
  shows "map_of (rev_revoked rs') k = Some x"
proof -
  note sw = map_of_sweep_revoked [OF assms(3,2,4)]
  have "map_of (rev_revoked (snd (is_revoked_or_unavailable E rs tok t))) k = Some x" for tok
    using sw assms(2) by (simp add: is_revoked_or_unavailable_def Let_def)
  moreover have "map_of (rev_revoked (snd (revoke_token E rs tok y t n))) k = Some x" if "may_revoke tok y" for tok y
    using sw assms(2) assms(5) [OF that] by (auto simp: revoke_token_def Let_def update_conv)
  ultimately show ?thesis using assms(1,2) unfolding revocations_evolve_def by blast
qed

lemma sts_token_claims_exp:
  "sts_token_claims env st tok t1 = Some c1 \<Longrightarrow> sts_token_claims env st tok t2 = Some c2 \<Longrightarrow> c2 = c1"
  by (auto simp: sts_token_claims_def split: sum.splits if_splits)

text \<open>No other request presents a token with the same revocation key.\<close>

definition no_collision :: "http_env \<Rightarrow> string \<Rightarrow> http_request \<Rightarrow> bool" where
  "no_collision env tok q \<longleftrightarrow> (case online_token env q of None \<Rightarrow> True
     | Some tok' \<Rightarrow> if revocation_key (he_jose env) tok' = revocation_key (he_jose env) tok then tok' = tok else True)"

lemma revocation_kept_serve:
  assumes "serve env st q = (a, st')" "service_wf st" "map_of (rev_revoked (hs_revocations st)) (revocation_key (he_jose env) tok) = Some (mc_exp c)"
    and "sts_token_claims env st tok t0 = Some c" "no_collision env tok q"
    and "case sweep_clock q of None \<Rightarrow> True | Some t \<Rightarrow> t \<le> mc_exp c"
  shows "map_of (rev_revoked (hs_revocations st')) (revocation_key (he_jose env) tok) = Some (mc_exp c)"
proof -
  have d: "distinct (map fst (rev_revoked (hs_revocations st)))" using assms(2) by (simp add: service_wf_def revocations_wf_def)
  have same: "y = mc_exp c" if "request_revokes env st q tok' y" "revocation_key (he_jose env) tok' = revocation_key (he_jose env) tok"
    for tok' y
    using that assms(5) sts_token_claims_exp [OF assms(4)] by (auto simp: request_revokes_def no_collision_def)
  obtain mid where "case sweep_clock q of None \<Rightarrow> hs_revocations st' = hs_revocations st
     | Some t \<Rightarrow> revocations_evolve (he_jose env) (max_seen_jti (hs_config st)) t (request_revokes env st q)
         (hs_revocations st) (hs_revocations st')" by (rule serve_state [OF assms(1)])
  then show ?thesis using assms(3,6) revocation_kept [OF _ assms(3) d _ same] by (auto split: option.splits)
qed

lemma revocation_kept_all:
  "service_wf st \<Longrightarrow> map_of (rev_revoked (hs_revocations st)) (revocation_key (he_jose env) tok) = Some (mc_exp c) \<Longrightarrow>
   sts_token_claims env st tok t0 = Some c \<Longrightarrow> list_all (no_collision env tok) qs \<Longrightarrow>
   list_all (\<lambda>q. case sweep_clock q of None \<Rightarrow> True | Some t \<Rightarrow> t \<le> mc_exp c) qs \<Longrightarrow>
   map_of (rev_revoked (hs_revocations (snd (serve_all env st qs)))) (revocation_key (he_jose env) tok) = Some (mc_exp c)"
proof (induction qs arbitrary: st)
  case (Cons q qs)
  obtain a st1 where s: "serve env st q = (a, st1)" by fastforce
  have "map_of (rev_revoked (hs_revocations st1)) (revocation_key (he_jose env) tok) = Some (mc_exp c)"
    using revocation_kept_serve [OF s] Cons.prems by simp
  moreover have "sts_token_claims env st1 tok t0 = Some c"
    using sts_token_claims_static [of st1 st env tok t0] serve_static [of env st q] s Cons.prems(3) by simp
  ultimately show ?case using Cons serve_wf [OF s] s by (simp add: serve_all_Cons del: serve_all.simps(2))
qed simp

lemma prologue_token:
  "online_prologue env clk headers body st own_endpoint = Inr (tok, cc) \<Longrightarrow> form_online_token env headers body = Some tok"
  by (auto simp: online_prologue_def and_then_ok form_online_token_def dest!: required_online_token_ok)

lemma revoke_recorded:
  assumes "revoke env clk headers body st = (Inr (), st1)"
    and "form_online_token env headers body = Some tok" "sts_token_claims env st tok (oc_verify clk) = Some c"
  shows "map_of (rev_revoked (hs_revocations st1)) (revocation_key (he_jose env) tok) = Some (mc_exp c)"
  using assms(1)
proof (rule revoke_ok, goal_cases)
  case (1 tok' cc mid)
  have "tok' = tok" using prologue_token [OF 1(1)] assms(2) by simp
  moreover have "sts_token_claims env mid tok (oc_verify clk) = Some c"
    using assms(3) sts_token_claims_static evolves_results(2) [OF 1(2)] by (metis replay_evolves_def)
  ultimately show ?case using 1(4) by (auto dest!: revoke_token_records)
qed

text \<open>A token that is live by its claims is not verified while its revocation is recorded.\<close>

lemma revoked_unverified:
  assumes "t < mc_exp c \<Longrightarrow> map_of (rev_revoked (hs_revocations st)) (revocation_key (he_jose env) tok) = Some (mc_exp c)"
    and "sts_token_claims env st tok t0 = Some c" "distinct (map fst (rev_revoked (hs_revocations st)))"
  shows "fst (verified_sts_access_token env st tok t True) = None"
proof (cases "sts_token_claims env st tok t")
  case (Some c2)
  then have live: "t < mc_exp c" using sts_token_claims_exp [OF assms(2)]
    by (auto simp: sts_token_claims_def split: sum.splits if_splits)
  then have "map_of (sweep_revoked (rev_revoked (hs_revocations st)) t) (revocation_key (he_jose env) tok) = Some (mc_exp c)"
    using assms(1,3) by (intro map_of_sweep_revoked) simp_all
  then show ?thesis by (simp add: verified_alt Some is_revoked_or_unavailable_def Let_def)
qed (simp add: verified_alt)

text \<open>
  C4: revocation is permanent. Once a revocation request for a live token of this server was
  answered with success, introspection never reports that token as active again, whatever requests
  come between, as long as the clock does not run backwards and no other presented token has the
  same SHA-256 revocation key.
\<close>

theorem revocation_permanent:
  assumes "service_wf st" "serve env st (RevokeRequest clk headers body) = (RevokeReply (Ok ()), st1)"
    and "form_online_token env headers body = Some tok" "sts_token_claims env st tok (oc_verify clk) = Some c"
    and "list_all (no_collision env tok) qs"
    and "list_all (\<lambda>q. case sweep_clock q of None \<Rightarrow> True | Some t \<Rightarrow> t \<le> oc_verify clk2) qs"
    and "form_online_token env headers2 body2 = Some tok"
  shows "case fst (introspect env clk2 headers2 body2 (snd (serve_all env st1 qs))) of
     Inl _ \<Rightarrow> True | Inr response \<Rightarrow> response = JObject [(''active'', JBool False)]"
proof -
  let ?st2 = "snd (serve_all env st1 qs)"
  have ok: "revoke env clk headers body st = (Inr (), st1)" using assms(2) by (auto split: prod.splits)
  have static: "static st1 = static st" using serve_static [of env st "RevokeRequest clk headers body"] assms(2) by simp
  note rec = revoke_recorded [OF ok assms(3,4)]
  have c1: "sts_token_claims env st1 tok (oc_verify clk) = Some c" using assms(4) sts_token_claims_static [OF static] by simp
  have wf: "service_wf st1" "service_wf ?st2" using serve_wf [OF assms(2,1)] serve_all_wf by blast+
  show ?thesis
  proof (cases "fst (introspect env clk2 headers2 body2 ?st2)")
    case (Inr response)
    then obtain st3 where "introspect env clk2 headers2 body2 ?st2 = (Inr response, st3)" by (metis prod.collapse)
    then show ?thesis
    proof (rule introspect_ok, goal_cases)
      case (1 tok' cc mid)
      have tok: "tok' = tok" using prologue_token [OF 1(1)] assms(7) by simp
      have ev: "static mid = static ?st2" "hs_revocations mid = hs_revocations ?st2"
        using evolves_results(2) [OF 1(2)] by (simp_all add: replay_evolves_def)
      have "map_of (rev_revoked (hs_revocations mid)) (revocation_key (he_jose env) tok) = Some (mc_exp c)"
        if "oc_verify clk2 < mc_exp c"
      proof -
        have "list_all (\<lambda>q. case sweep_clock q of None \<Rightarrow> True | Some t \<Rightarrow> t \<le> mc_exp c) qs"
          using assms(6) that by (fastforce simp: list_all_iff split: option.splits)
        from revocation_kept_all [OF wf(1) rec c1 assms(5) this] ev(2) show ?thesis by simp
      qed
      moreover have "sts_token_claims env mid tok (oc_verify clk) = Some c"
        using c1 sts_token_claims_static ev(1) serve_all_static by metis
      moreover have "distinct (map fst (rev_revoked (hs_revocations mid)))"
        using wf(2) ev(2) by (simp add: service_wf_def revocations_wf_def)
      ultimately have "fst (verified_sts_access_token env mid tok (oc_verify clk2) True) = None"
        by (rule revoked_unverified)
      with 1(3) tok Inr show ?case by (auto simp: introspection_response_for_token_def split: prod.splits option.splits)
    qed
  qed simp
qed

end
