(* ===== verification/Service_Metrics.thy ===== *)
theory Service_Metrics
  imports Service_Tokens
begin

text \<open>
  What the counters of \<open>MetricsState\<close> count, and the invariant of the running service.
\<close>

section \<open>Metrics of one request\<close>

definition signing_count :: "MetricsState \<Rightarrow> string \<times> bool \<Rightarrow> 64 word" where
  "signing_count ms key = unwrap_or (map_of (ms_signing_algs ms) key) 0"

definition denial_count :: "MetricsState \<Rightarrow> string \<Rightarrow> 64 word" where
  "denial_count ms code = unwrap_or (map_of (ms_denials ms) code) 0"

text \<open>The metrics before \<open>record_exchange\<close>: a minted token was counted under its algorithm.\<close>

definition after_signing :: "MetricsState \<Rightarrow> (HttpError, TokenResponse) result \<Rightarrow> MetricsState" where
  "after_signing ms r =
     (case r of
        Inl _ \<Rightarrow> ms
      | Inr resp \<Rightarrow> if ms_signing_poisoned ms then ms
          else ms\<lparr>ms_signing_algs := bump (tr_signing_alg_selected resp, tr_pqc_fallback resp) (ms_signing_algs ms)\<rparr>)"

lemma mint_metrics:
  "hs_metrics (snd (mint_response env st exchange decision payload now expiry)) =
     after_signing (hs_metrics st) (fst (mint_response env st exchange decision payload now expiry))"
  by (simp add: mint_response_def after_signing_def record_signing_def split: sum.splits)

lemma st_then_metrics:
  assumes "hs_metrics (snd r) = hs_metrics st"
    and "\<And>x s. r = (Inr x, s) \<Longrightarrow> hs_metrics (snd (f x s)) = after_signing (hs_metrics s) (fst (f x s))"
  shows "hs_metrics (snd (st_then r f)) = after_signing (hs_metrics st) (fst (st_then r f))"
proof (cases r)
  case (Pair v s)
  show ?thesis
  proof (cases v)
    case (Inl e)
    with Pair assms(1) show ?thesis by (simp add: after_signing_def)
  next
    case (Inr x)
    with Pair assms show ?thesis by simp
  qed
qed

lemma check_and_record_metrics: "hs_metrics (snd (check_and_record env st k x t f)) = hs_metrics st"
  by (simp add: check_and_record_def split: prod.splits)

lemma record_client_metrics: "hs_metrics (snd (record_client_assertion_replay env st c t)) = hs_metrics st"
  by (simp add: record_client_assertion_replay_def check_and_record_metrics split: sum.splits)

lemma record_dpop_metrics: "hs_metrics (snd (record_dpop_replay env st d t)) = hs_metrics st"
  by (simp add: record_dpop_replay_def check_and_record_metrics)

lemma record_optional_metrics:
  "(\<And>x s. hs_metrics (snd (f x s)) = hs_metrics s) \<Longrightarrow> hs_metrics (snd (record_optional f v st)) = hs_metrics st"
  by (simp add: record_optional_def split: option.splits)

lemmas recorded_keep_metrics = check_and_record_metrics record_client_metrics record_dpop_metrics record_optional_metrics

lemma delegation_metrics:
  "hs_metrics (snd (exchange_delegation env clk jti st request exchange)) =
     after_signing (hs_metrics st) (fst (exchange_delegation env clk jti st request exchange))"
proof (cases "delegation_checks env clk st request exchange")
  case (Inl e)
  then show ?thesis by (simp add: exchange_delegation_def after_signing_def)
next
  case (Inr p)
  then show ?thesis
    by (cases p) (auto simp: exchange_delegation_def Let_def mint_metrics recorded_keep_metrics intro!: st_then_metrics)
qed

lemma impersonation_metrics:
  "hs_metrics (snd (exchange_impersonation env clk jti st request exchange)) =
     after_signing (hs_metrics st) (fst (exchange_impersonation env clk jti st request exchange))"
proof (cases "impersonation_checks st request exchange")
  case (Inl e)
  then show ?thesis by (simp add: exchange_impersonation_def after_signing_def)
next
  case (Inr p)
  then show ?thesis
    by (cases p) (auto simp: exchange_impersonation_def Let_def mint_metrics recorded_keep_metrics intro!: st_then_metrics)
qed

lemma token_metrics:
  "hs_metrics (snd (token env clk jti headers body st)) =
     record_exchange (after_signing (hs_metrics st) (fst (token env clk jti headers body st)))
       (fst (token env clk jti headers body st))"
proof -
  have "hs_metrics (snd (token_inner env clk jti headers body st)) =
      after_signing (hs_metrics st) (fst (token_inner env clk jti headers body st))"
    by (auto simp: token_inner_def after_signing_def delegation_metrics [unfolded after_signing_def]
        impersonation_metrics [unfolded after_signing_def] split: sum.split prod.split EffectiveExchangeMode.split)
  then show ?thesis by (cases "token_inner env clk jti headers body st") (simp add: token_def)
qed

lemma introspect_metrics: "hs_metrics (snd (introspect env clk headers body st)) = hs_metrics st"
proof (cases "online_prologue env clk headers body st (introspection_endpoint (hs_config st))")
  case (Inr p)
  obtain tok c where p: "p = (tok, c)" by (cases p)
  obtain r mid where m: "record_client_assertion_replay env st c (oc_record clk) = (r, mid)" by fastforce
  have "hs_metrics mid = hs_metrics st" using record_client_metrics [of env st c "oc_record clk"] m by simp
  moreover have "hs_metrics (snd (introspection_response_for_token env mid tok (oc_verify clk))) = hs_metrics mid"
    using verified_state(2) [of env mid tok "oc_verify clk"]
    by (auto simp: introspection_response_for_token_def split: prod.splits option.splits)
  ultimately show ?thesis by (cases r) (auto simp: introspect_alt Inr p m split: prod.splits)
qed (simp add: introspect_alt)

lemma revoke_metrics: "hs_metrics (snd (revoke env clk headers body st)) = hs_metrics st"
proof (cases "online_prologue env clk headers body st (revocation_endpoint (hs_config st))")
  case (Inr p)
  obtain tok c where p: "p = (tok, c)" by (cases p)
  obtain r mid where m: "record_client_assertion_replay env st c (oc_record clk) = (r, mid)" by fastforce
  have "hs_metrics mid = hs_metrics st" using record_client_metrics [of env st c "oc_record clk"] m by simp
  then show ?thesis by (cases r) (auto simp: revoke_alt Inr p m split: prod.splits option.splits)
qed (simp add: revoke_alt)

lemma serve_metrics:
  "hs_metrics (snd (serve env st q)) =
     (case fst (serve env st q) of
        TokenReply r \<Rightarrow> record_exchange (after_signing (hs_metrics st) r) r
      | _ \<Rightarrow> hs_metrics st)"
proof (cases q)
  case (TokenRequest clk jti h b)
  then show ?thesis using token_metrics [of env clk jti h b st]
    by (cases "token env clk jti h b st") simp
next
  case (IntrospectRequest clk h b)
  then show ?thesis using introspect_metrics [of env clk h b st]
    by (cases "introspect env clk h b st") simp
next
  case (RevokeRequest clk h b)
  then show ?thesis using revoke_metrics [of env clk h b st]
    by (cases "revoke env clk h b st") simp
qed

section \<open>Counting replies\<close>

fun reply_minted :: "http_response \<Rightarrow> bool" where
  "reply_minted (TokenReply (Inr _)) \<longleftrightarrow> True"
| "reply_minted _ \<longleftrightarrow> False"

fun reply_denied :: "http_response \<Rightarrow> bool" where
  "reply_denied (TokenReply (Inl _)) \<longleftrightarrow> True"
| "reply_denied _ \<longleftrightarrow> False"

fun reply_denied_as :: "string \<Rightarrow> http_response \<Rightarrow> bool" where
  "reply_denied_as code (TokenReply (Inl e)) \<longleftrightarrow> he_error e = Some code"
| "reply_denied_as code _ \<longleftrightarrow> False"

fun reply_signed_as :: "string \<times> bool \<Rightarrow> http_response \<Rightarrow> bool" where
  "reply_signed_as key (TokenReply (Inr resp)) \<longleftrightarrow> (tr_signing_alg_selected resp, tr_pqc_fallback resp) = key"
| "reply_signed_as key _ \<longleftrightarrow> False"

abbreviation count_replies :: "(http_response \<Rightarrow> bool) \<Rightarrow> http_response list \<Rightarrow> 64 word" where
  "count_replies P as \<equiv> of_nat (length (filter P as))"

lemma bump_count: "unwrap_or (map_of (bump k m) k') 0 = unwrap_or (map_of m k') 0 + (if k' = k then 1 else 0)"
  by (simp add: bump_def update_conv unwrap_or_def)

lemma serve_counts:
  fixes env :: http_env and st :: HttpState and q :: http_request
  assumes "\<not> ms_denials_poisoned (hs_metrics st)" "\<not> ms_signing_poisoned (hs_metrics st)"
  defines "a \<equiv> fst (serve env st q)" and "m \<equiv> hs_metrics (snd (serve env st q))"
  shows "ms_minted m = ms_minted (hs_metrics st) + (if reply_minted a then 1 else 0)"
    "ms_denied m = ms_denied (hs_metrics st) + (if reply_denied a then 1 else 0)"
    "denial_count m code = denial_count (hs_metrics st) code + (if reply_denied_as code a then 1 else 0)"
    "signing_count m key = signing_count (hs_metrics st) key + (if reply_signed_as key a then 1 else 0)"
    "\<not> ms_denials_poisoned m" "\<not> ms_signing_poisoned m"
proof -
  have m: "m = (case a of TokenReply r \<Rightarrow> record_exchange (after_signing (hs_metrics st) r) r | _ \<Rightarrow> hs_metrics st)"
    unfolding a_def m_def by (rule serve_metrics)
  consider resp where "a = TokenReply (Inr resp)" | e where "a = TokenReply (Inl e)" "he_error e = None"
    | e c where "a = TokenReply (Inl e)" "he_error e = Some c" | r where "a = IntrospectReply r" | r where "a = RevokeReply r"
  proof (cases a)
    case (TokenReply r)
    show ?thesis
    proof (cases r)
      case (Inl e)
      with TokenReply that(2,3) show ?thesis by (cases "he_error e") auto
    qed (use TokenReply that(1) in auto)
  qed (use that(4,5) in auto)
  note counts = this and defs = m record_exchange_def after_signing_def denial_count_def signing_count_def bump_count Let_def assms(1,2)
  from counts show "ms_minted m = ms_minted (hs_metrics st) + (if reply_minted a then 1 else 0)"
    by cases (simp_all add: defs)
  from counts show "ms_denied m = ms_denied (hs_metrics st) + (if reply_denied a then 1 else 0)"
    by cases (simp_all add: defs)
  from counts show "denial_count m code = denial_count (hs_metrics st) code + (if reply_denied_as code a then 1 else 0)"
    by cases (auto simp: defs)
  from counts show "signing_count m key = signing_count (hs_metrics st) key + (if reply_signed_as key a then 1 else 0)"
    by cases (auto simp: defs)
  from counts show "\<not> ms_denials_poisoned m" by cases (simp_all add: defs)
  from counts show "\<not> ms_signing_poisoned m" by cases (simp_all add: defs)
qed

section \<open>Properties\<close>

text \<open>
  The metrics count the replies. With unpoisoned locks, after any sequence of requests the
  counters of minted and denied exchanges, the counter of each OAuth error code and the counter of
  each signing algorithm (with its fallback flag) have grown by exactly the number of token replies
  of that kind, modulo the width of the counter; introspection and revocation requests count
  nothing.
\<close>

theorem metrics_count_replies:
  assumes "\<not> ms_denials_poisoned (hs_metrics st)" "\<not> ms_signing_poisoned (hs_metrics st)"
    and "serve_all env st qs = (as, st')"
  shows "ms_minted (hs_metrics st') = ms_minted (hs_metrics st) + count_replies reply_minted as \<and>
     ms_denied (hs_metrics st') = ms_denied (hs_metrics st) + count_replies reply_denied as \<and>
     denial_count (hs_metrics st') code = denial_count (hs_metrics st) code + count_replies (reply_denied_as code) as \<and>
     signing_count (hs_metrics st') key = signing_count (hs_metrics st) key + count_replies (reply_signed_as key) as"
  using assms
proof (induction qs arbitrary: st as)
  case (Cons q qs)
  obtain a st1 where s: "serve env st q = (a, st1)" by fastforce
  obtain bs where b: "serve_all env st1 qs = (bs, st')" "as = a # bs"
    using Cons.prems(3) s by (auto split: prod.splits)
  note c = serve_counts [OF Cons.prems(1,2), of env q, unfolded s fst_conv snd_conv]
  from Cons.IH [OF c(5,6) b(1)] show ?case by (simp add: b(2) c(1-4) add_ac)
qed simp

text \<open>
  C10: the invariant of the service. From a fresh state over either replay store, every state that
  any requests reach has a replay store in order (distinct keys, within its capacity), a revocation
  list without duplicate keys and within \<open>max_seen_jti\<close>, and the configuration, signer and key sets
  it started with.
\<close>

theorem service_invariant:
  assumes "reachable env (new_with_signer_arc config signer published subject actor client p) st" "policy_invar p"
  shows "policy_invar (hs_replay st) \<and> distinct (map fst (rev_revoked (hs_revocations st))) \<and>
     length (rev_revoked (hs_revocations st)) \<le> max_seen_jti config \<and> hs_config st = config \<and> hs_signer st = signer \<and>
     hs_published_jwks st = published \<and> hs_subject_jwks st = subject \<and> hs_actor_jwks st = actor \<and>
     hs_client_jwks st = client"
proof -
  let ?st0 = "new_with_signer_arc config signer published subject actor client p"
  obtain qs where st: "st = snd (serve_all env ?st0 qs)" using assms(1) reachable_serve_all by blast
  have "service_wf st" unfolding st by (intro serve_all_wf service_wf_built assms(2))
  moreover have "static st = static ?st0" unfolding st by (rule serve_all_static)
  ultimately show ?thesis
    by (simp add: service_wf_def revocations_wf_def static_def new_with_signer_arc_def)
qed

end
