(* ===== verification/Service_Liveness.thy ===== *)
theory Service_Liveness
  imports Service_Safety
begin

text \<open>
  A valid request is answered. When the checks of a token request pass, its credentials are fresh, the
  in-memory replay store has room and the signer signs, the exchange succeeds. The replay keys of one
  request never collide with each other: their prefixes differ.
\<close>

section \<open>Room in the replay store\<close>

text \<open>The locks are healthy and \<open>n\<close> more keys fit once the expired ones are gone.\<close>

definition has_room :: "InMemoryReplayStore \<Rightarrow> int \<Rightarrow> nat \<Rightarrow> bool" where
  "has_room m now n \<longleftrightarrow> \<not> seen_poisoned m \<and> \<not> calls_poisoned m \<and>
     length (sweep_expired (seen m) now) + n \<le> max_seen m"

lemma update_absent: "map_of m k = None \<Longrightarrow> AList.update k v m = m @ [(k, v)]"
  by (induction m) (auto split: if_splits)

lemma sweep_purged: "sweep_expired (purged m now) now = sweep_expired (seen m) now"
  by (simp add: purged_def Let_def sweep_expired_def case_prod_unfold)

lemma mem_accepts:
  assumes "has_room m now (Suc n)" "trim k \<noteq> []" "map_of (seen m) k = None"
  shows "\<exists>m'. mem_check_and_record m k x now = (Ok (), m') \<and> has_room m' now n \<and>
    (\<forall>k'. k' \<noteq> k \<longrightarrow> map_of (seen m) k' = None \<longrightarrow> map_of (seen m') k' = None)"
proof -
  have h: "\<not> seen_poisoned m" "\<not> calls_poisoned m" "length (sweep_expired (seen m) now) + Suc n \<le> max_seen m"
    using assms(1) by (simp_all add: has_room_def)
  then have room: "\<not> max_seen m \<le> length (purged m now)" using purged_full [of m now] by simp
  let ?m = "m\<lparr>calls_since_sweep := (if sweep_every m \<le> calls_since_sweep m + 1 then 0 else calls_since_sweep m + 1),
      seen := purged m now @ [(k, x)]\<rparr>"
  have "mem_check_and_record m k x now = (Ok (), ?m)"
    using assms(2,3) h(1,2) room by (simp add: mem_car_alt Let_def update_absent purged_fresh)
  moreover have "has_room ?m now n"
    using h sweep_purged [of m now] by (simp add: has_room_def sweep_expired_def)
  moreover have "map_of (seen ?m) k' = None" if "k' \<noteq> k" "map_of (seen m) k' = None" for k'
    using that purged_fresh [OF that(2), of now] by (simp add: map_add_def)
  ultimately show ?thesis by blast
qed

text \<open>The same for the policy object inside the service, with the rest of the state unchanged.\<close>

definition ready :: "HttpState \<Rightarrow> int \<Rightarrow> nat \<Rightarrow> string set \<Rightarrow> bool" where
  "ready st now n ks \<longleftrightarrow> (\<exists>m. hs_replay st = MemoryStore m \<and> has_room m now n \<and> (\<forall>k \<in> ks. map_of (seen m) k = None))"

lemma record_ready:
  assumes "ready st now (Suc n) ks" "k \<in> ks" "trim k \<noteq> []"
  shows "\<exists>st'. check_and_record env st k x now f = (Ok (), st') \<and> static st' = static st \<and> ready st' now n (ks - {k})"
proof -
  obtain m where m: "hs_replay st = MemoryStore m" "has_room m now (Suc n)" "\<forall>k \<in> ks. map_of (seen m) k = None"
    using assms(1) by (auto simp: ready_def)
  obtain m' where m': "mem_check_and_record m k x now = (Ok (), m')" "has_room m' now n"
    "\<forall>k'. k' \<noteq> k \<longrightarrow> map_of (seen m) k' = None \<longrightarrow> map_of (seen m') k' = None"
    using mem_accepts [OF m(2) assms(3)] m(3) assms(2) by blast
  have "check_and_record env st k x now f = (Ok (), st\<lparr>hs_replay := MemoryStore m'\<rparr>)"
    by (simp add: check_and_record_def m(1) m'(1))
  moreover have "ready (st\<lparr>hs_replay := MemoryStore m'\<rparr>) now n (ks - {k})" using m(3) m'(2,3) by (auto simp: ready_def)
  ultimately show ?thesis by (auto simp: static_def)
qed

lemma ready_mono: "ready st now n ks \<Longrightarrow> n' \<le> n \<Longrightarrow> ks' \<subseteq> ks \<Longrightarrow> ready st now n' ks'"
  by (auto simp: ready_def has_room_def subset_iff)

section \<open>The keys of one request\<close>

definition client_keys :: "AssertionClaims \<Rightarrow> string set" where
  "client_keys c = {client_replay_key c j | j. client_assertion_jti c = Inr j}"

definition dpop_keys :: "http_env \<Rightarrow> DpopBinding \<Rightarrow> string set" where
  "dpop_keys env d = {dpop_replay_key (sha256 (he_jose env)) (db_jkt d) (db_jti d)}"

definition optional_keys :: "('a \<Rightarrow> string set) \<Rightarrow> 'a option \<Rightarrow> string set" where
  "optional_keys f v = (case v of None \<Rightarrow> {} | Some x \<Rightarrow> f x)"

lemma key_not_blank:
  "trim (actor_replay_key c j) \<noteq> []" "trim (client_replay_key c j) \<noteq> []" "trim (dpop_replay_key sha jkt j) \<noteq> []"
  by (simp_all add: actor_replay_key_def client_replay_key_def dpop_replay_key_def trim_empty_iff trim_start_id
      ws1_def ws2_def ws3_def)

lemma keys_differ:
  "actor_replay_key a j \<noteq> client_replay_key c j'" "actor_replay_key a j \<noteq> dpop_replay_key sha jkt j'"
  "client_replay_key c j \<noteq> dpop_replay_key sha jkt j'"
  by (simp_all add: actor_replay_key_def client_replay_key_def dpop_replay_key_def)

lemma client_ready:
  assumes "ready st now (Suc n) ks" "client_assertion_jti c = Inr j" "client_keys c \<subseteq> ks"
  shows "\<exists>st'. record_client_assertion_replay env st c now = (Ok (), st') \<and> static st' = static st \<and>
    ready st' now n (ks - client_keys c)"
proof -
  have k: "client_keys c = {client_replay_key c j}" using assms(2) by (auto simp: client_keys_def)
  from record_ready [OF assms(1), of "client_replay_key c j" env "as_exp c" map_client_assertion_replay_error] assms(2,3) k
  show ?thesis by (simp add: key_not_blank record_client_assertion_replay_def)
qed

lemma dpop_ready:
  assumes "ready st now (Suc n) ks" "dpop_keys env d \<subseteq> ks"
  shows "\<exists>st'. record_dpop_replay env st d now = (Ok (), st') \<and> static st' = static st \<and> ready st' now n (ks - dpop_keys env d)"
  using record_ready [OF assms(1), of _ env "db_replay_expires_at d" map_dpop_replay_error] assms(2)
  by (simp add: dpop_keys_def record_dpop_replay_def key_not_blank)

lemma optional_client_ready:
  assumes "ready st now (Suc n) ks" "optional_keys client_keys v \<subseteq> ks" "\<And>c. v = Some c \<Longrightarrow> \<exists>j. client_assertion_jti c = Inr j"
  shows "\<exists>st'. record_optional (\<lambda>c st. record_client_assertion_replay env st c now) v st = (Ok (), st') \<and>
    static st' = static st \<and> ready st' now n (ks - optional_keys client_keys v)"
proof (cases v)
  case None
  then show ?thesis using ready_mono [OF assms(1), of n ks] by (simp add: record_optional_def optional_keys_def)
next
  case (Some c)
  then obtain j where "client_assertion_jti c = Inr j" using assms(3) by blast
  from client_ready [OF assms(1) this] assms(2) Some show ?thesis by (simp add: record_optional_def optional_keys_def)
qed

lemma optional_dpop_ready:
  assumes "ready st now (Suc n) ks" "optional_keys (dpop_keys env) v \<subseteq> ks"
  shows "\<exists>st'. record_optional (\<lambda>b st. record_dpop_replay env st b now) v st = (Ok (), st') \<and>
    static st' = static st \<and> ready st' now n (ks - optional_keys (dpop_keys env) v)"
proof (cases v)
  case None
  then show ?thesis using ready_mono [OF assms(1), of n ks] by (simp add: record_optional_def optional_keys_def)
next
  case (Some d)
  from dpop_ready [OF assms(1), of env d] assms(2) Some show ?thesis by (simp add: record_optional_def optional_keys_def)
qed

lemma optional_keys_apart: "optional_keys client_keys v \<inter> optional_keys (dpop_keys env) w = {}"
  "actor_replay_key c j \<notin> optional_keys client_keys v" "actor_replay_key c j \<notin> optional_keys (dpop_keys env) w"
  by (auto simp: optional_keys_def client_keys_def dpop_keys_def keys_differ keys_differ [symmetric] split: option.splits)

section \<open>The exchanges\<close>

lemma check_client_jti: "check_client_assertion env st now1 now2 request own_endpoint = Inr c \<Longrightarrow> \<exists>j. client_assertion_jti c = Inr j"
  by (auto simp: check_client_assertion_def result_iff split: if_splits)

lemma checked_client_jti:
  assumes "token_checks env clk st headers body = Inr (mode, request, exchange)" "ve_client_claims exchange = Some c"
  shows "\<exists>j. client_assertion_jti c = Inr j"
proof -
  from assms(1) have "authenticate_client_if_present env clk st request mode = Inr (ve_client_claims exchange)"
    by (elim token_checks_ok)
  with assms(2) authenticate_ok check_client_jti show ?thesis by fastforce
qed

text \<open>Once the credentials are recorded, a signature is an answer.\<close>

lemma mint_succeeds:
  assumes "static s = static st" "sign_claims (he_jose env) (he_minted_codec env) (hs_signer st)
      (exchange_payload st exchange caller act jti now (token_expiry st exchange caller now)) = Inr tok"
  shows "\<exists>resp st'. mint_response env s exchange decision
      (exchange_payload s exchange caller act jti now (token_expiry s exchange caller now)) now
      (token_expiry s exchange caller now) = (Ok resp, st') \<and> tr_access_token resp = tok \<and> tr_scope resp = ve_scope exchange"
proof -
  have e: "token_expiry s exchange caller now = token_expiry st exchange caller now"
    "exchange_payload s exchange caller act jti now x = exchange_payload st exchange caller act jti now x" for x
    unfolding token_expiry_def exchange_payload_def static_eqD [OF assms(1)] by (rule refl)+
  show ?thesis unfolding e mint_response_def static_eqD [OF assms(1)] assms(2) by simp
qed

lemma delegation_succeeds:
  assumes "delegation_checks env clk st request exchange = Inr (ac, decision, act, aj)"
    and "ready st (tc_now clk) 3 (insert (actor_replay_key ac aj)
      (optional_keys client_keys (ve_client_claims exchange) \<union> optional_keys (dpop_keys env) (ve_dpop_binding exchange)))"
    and "\<And>c. ve_client_claims exchange = Some c \<Longrightarrow> \<exists>j. client_assertion_jti c = Inr j"
    and "sign_claims (he_jose env) (he_minted_codec env) (hs_signer st) (exchange_payload st exchange ac (Some act) jti
      (tc_now clk) (token_expiry st exchange ac (tc_now clk))) = Inr tok"
  shows "\<exists>resp st'. exchange_delegation env clk jti st request exchange = (Ok resp, st') \<and> tr_access_token resp = tok \<and>
    tr_scope resp = ve_scope exchange"
proof -
  let ?now = "tc_now clk" and ?c = "optional_keys client_keys (ve_client_claims exchange)"
    and ?d = "optional_keys (dpop_keys env) (ve_dpop_binding exchange)"
  have "ready st ?now (Suc (Suc (Suc 0))) (insert (actor_replay_key ac aj) (?c \<union> ?d))"
    using assms(2) by (simp add: numeral_3_eq_3)
  from record_ready [OF this insertI1 key_not_blank(1), of env "as_exp ac" map_replay_error] obtain s1 where
    s1: "check_and_record env st (actor_replay_key ac aj) (as_exp ac) ?now map_replay_error = (Ok (), s1)"
    "static s1 = static st" "ready s1 ?now (Suc (Suc 0)) (?c \<union> ?d)" by (auto simp: optional_keys_apart)
  from optional_client_ready [OF s1(3) Un_upper1 assms(3), of env] obtain s2 where
    s2: "record_optional (\<lambda>c st. record_client_assertion_replay env st c ?now) (ve_client_claims exchange) s1 = (Ok (), s2)"
    "static s2 = static s1" "ready s2 ?now (Suc 0) (?c \<union> ?d - ?c)" by blast
  have "?d \<subseteq> ?c \<union> ?d - ?c" using optional_keys_apart(1) by blast
  from optional_dpop_ready [OF s2(3) this] obtain s3 where
    s3: "record_optional (\<lambda>b st. record_dpop_replay env st b ?now) (ve_dpop_binding exchange) s2 = (Ok (), s3)"
    "static s3 = static s2" by blast
  have "static s3 = static st" using s1(2) s2(2) s3(2) by simp
  from mint_succeeds [OF this assms(4)] show ?thesis
    by (simp add: exchange_delegation_def assms(1) Let_def s1(1) s2(1) s3(1))
qed

lemma impersonation_succeeds:
  assumes "impersonation_checks st request exchange = Inr (c, decision)"
    and "ready st (tc_now clk) 2
      (optional_keys client_keys (ve_client_claims exchange) \<union> optional_keys (dpop_keys env) (ve_dpop_binding exchange))"
    and "client_assertion_jti c = Inr j"
    and "sign_claims (he_jose env) (he_minted_codec env) (hs_signer st) (exchange_payload st exchange c None jti
      (tc_now clk) (token_expiry st exchange c (tc_now clk))) = Inr tok"
  shows "\<exists>resp st'. exchange_impersonation env clk jti st request exchange = (Ok resp, st') \<and> tr_access_token resp = tok \<and>
    tr_scope resp = ve_scope exchange"
proof -
  let ?now = "tc_now clk" and ?k = "optional_keys client_keys (ve_client_claims exchange)"
    and ?d = "optional_keys (dpop_keys env) (ve_dpop_binding exchange)"
  from assms(1) have c: "ve_client_claims exchange = Some c" by (elim impersonation_checks_ok)
  have k: "?k = client_keys c" using c by (simp add: optional_keys_def)
  have "ready st ?now (Suc (Suc 0)) (?k \<union> ?d)" using assms(2) by (simp add: numeral_2_eq_2)
  from client_ready [OF this assms(3), of env] obtain s1 where
    s1: "record_client_assertion_replay env st c ?now = (Ok (), s1)" "static s1 = static st" "ready s1 ?now (Suc 0) (?k \<union> ?d - ?k)"
    unfolding k by blast
  have "?d \<subseteq> ?k \<union> ?d - ?k" using optional_keys_apart(1) by blast
  from optional_dpop_ready [OF s1(3) this] obtain s2 where
    s2: "record_optional (\<lambda>b st. record_dpop_replay env st b ?now) (ve_dpop_binding exchange) s1 = (Ok (), s2)"
    "static s2 = static s1" by blast
  have "static s2 = static st" using s1(2) s2(2) by simp
  from mint_succeeds [OF this assms(4)] show ?thesis
    by (simp add: exchange_impersonation_def assms(1) Let_def s1(1) s2(1))
qed

section \<open>Properties\<close>

text \<open>
  Whom a request acts for when the checks of its mode pass: the caller, the actor claim of the new token and
  the replay keys that only this mode records.
\<close>

definition exchange_grant ::
    "http_env \<Rightarrow> token_clock \<Rightarrow> HttpState \<Rightarrow> EffectiveExchangeMode \<Rightarrow> ExchangeRequest \<Rightarrow> VerifiedExchange \<Rightarrow>
     (AssertionClaims \<times> ActClaim option \<times> string set) option" where
  "exchange_grant env clk st mode request exchange =
     (case mode of
        EffDelegation \<Rightarrow> (case delegation_checks env clk st request exchange of
            Inl _ \<Rightarrow> None
          | Inr (ac, decision, act, aj) \<Rightarrow> Some (ac, Some act, {actor_replay_key ac aj}))
      | EffImpersonation \<Rightarrow> (case impersonation_checks st request exchange of
            Inl _ \<Rightarrow> None
          | Inr (c, decision) \<Rightarrow> Some (c, None, {})))"

text \<open>
  C12: a valid token request succeeds. When the checks of the request pass, the in-memory replay store is healthy,
  has room for the three credentials a request can carry and holds none of them, and the signer
  signs the payload, the token endpoint answers with the signed token and the scope of the exchange.
\<close>

theorem valid_exchange_succeeds:
  assumes "token_checks env clk st headers body = Ok (mode, request, exchange)"
    and "exchange_grant env clk st mode request exchange = Some (caller, act, keys)"
    and "hs_replay st = MemoryStore m" "has_room m (tc_now clk) 3"
    and "\<forall>k \<in> keys \<union> optional_keys client_keys (ve_client_claims exchange) \<union>
        optional_keys (dpop_keys env) (ve_dpop_binding exchange). map_of (seen m) k = None"
    and "sign_claims (he_jose env) (he_minted_codec env) (hs_signer st)
        (exchange_payload st exchange caller act jti (tc_now clk) (token_expiry st exchange caller (tc_now clk))) = Ok tok"
  shows "\<exists>resp st'. token env clk jti headers body st = (Ok resp, st') \<and> tr_access_token resp = tok \<and>
    tr_scope resp = ve_scope exchange"
proof -
  let ?ks = "keys \<union> optional_keys client_keys (ve_client_claims exchange) \<union> optional_keys (dpop_keys env) (ve_dpop_binding exchange)"
  have ready: "ready st (tc_now clk) 3 ?ks" using assms(3-5) by (auto simp: ready_def)
  note jti = checked_client_jti [OF assms(1)]
  have "\<exists>resp st'. token_inner env clk jti headers body st = (Ok resp, st') \<and> tr_access_token resp = tok \<and>
    tr_scope resp = ve_scope exchange"
  proof (cases mode)
    case EffDelegation
    then obtain decision a aj where d: "delegation_checks env clk st request exchange = Inr (caller, decision, a, aj)"
      "act = Some a" "keys = {actor_replay_key caller aj}"
      using assms(2) by (auto simp: exchange_grant_def split: sum.splits)
    from delegation_succeeds [OF d(1) _ jti] ready assms(6) d(2,3) assms(1) EffDelegation show ?thesis
      by (simp add: token_inner_def Un_assoc)
  next
    case EffImpersonation
    then obtain decision where i: "impersonation_checks st request exchange = Inr (caller, decision)" "act = None" "keys = {}"
      using assms(2) by (auto simp: exchange_grant_def split: sum.splits)
    then obtain j where "client_assertion_jti caller = Inr j" using jti by (auto elim!: impersonation_checks_ok)
    from impersonation_succeeds [OF i(1) _ this] ready_mono [OF ready, of 2 ?ks] assms(6) i(2,3) assms(1) EffImpersonation
    show ?thesis by (simp add: token_inner_def)
  qed
  then show ?thesis by (auto simp: token_def)
qed

end
