(* ===== verification/Demo_Service.thy ===== *)
theory Demo_Service
  imports Http_Meta Service_Metrics Service_Liveness Demo_Libs Demo_Dpop
begin

text \<open>
  A small deployment on which the hypotheses of the service properties hold together: one identity
  provider, one actor, one client and one target, with tokens that are three letters apart. The
  exchange at time 1000, the revocation and the introspection are computed from the model.
\<close>

section \<open>Libraries\<close>

definition svc_header :: "string \<Rightarrow> string option \<Rightarrow> CompactJwsHeader" where
  "svc_header kid t = \<lparr>hdr_alg = ''RS256'', hdr_kid = Some kid, hdr_typ = t\<rparr>"

definition svc_header_from_slice :: "string \<Rightarrow> CompactJwsHeader option" where
  "svc_header_from_slice b =
     (if b = ''s'' then Some (svc_header ''idp'' None)
      else if b = ''a'' \<or> b = ''b'' then Some (svc_header ''agent'' None)
      else if b = ''c'' \<or> b = ''d'' then Some (svc_header ''app'' None)
      else if b = ''m'' then Some (svc_header ''k1'' (Some ''at+jwt''))
      else None)"

definition svc_jose :: jose_ext where
  "svc_jose = demo_ext\<lparr>b64_encode := id, b64_decode := Some, header_from_slice := svc_header_from_slice\<rparr>"

definition svc_subject :: SubjectTokenClaims where
  "svc_subject = \<lparr>st_iss = ''https://idp'', st_sub = Some ''alice'', st_aud = JString ''sts'', st_scope = None, st_scp = None,
     st_exp = 2000, st_nbf = None, st_iat = None, st_act = None, st_may_act = None, st_auth_time = None, st_acr = None,
     st_amr = None\<rparr>"

definition svc_assertion :: "string \<Rightarrow> string \<Rightarrow> AssertionClaims" where
  "svc_assertion who j = \<lparr>as_iss = who, as_sub = who, as_aud = JString ''https://sts'', as_exp = 1200, as_iat = Some 990,
     as_jti = Some j, as_sub_tok_hash = None\<rparr>"

definition svc_payload :: MintedClaims where
  "svc_payload = \<lparr>mc_iss = ''https://sts'', mc_sub = ''alice'', mc_aud = ''api'', mc_scope = ''read'', mc_iat = 1000, mc_exp = 1200,
     mc_jti = ''j'', mc_client_id = ''agent'', mc_act = Some (ActClaim ''agent'' None None), mc_cnf_jkt = Some ''jkt'',
     mc_auth_time = None, mc_acr = None, mc_amr = []\<rparr>"

definition svc_codec :: "(string \<Rightarrow> 'a option) \<Rightarrow> ('a \<Rightarrow> string option) \<Rightarrow> 'a codec" where
  "svc_codec dec enc =
     \<lparr>rs256_decode = (\<lambda>tok n e v. case dec tok of None \<Rightarrow> Err JwtInvalidSignature | Some c \<Rightarrow> Ok c),
      rs256_encode = (\<lambda>h c key. case enc c of None \<Rightarrow> Err JwtJson | Some t \<Rightarrow> Ok t),
      claims_from_slice = (\<lambda>b. None), claims_to_vec = (\<lambda>c. None)\<rparr>"

definition svc_assertion_of :: "string \<Rightarrow> AssertionClaims option" where
  "svc_assertion_of tok =
     (if tok = ''a.p.s'' then Some (svc_assertion ''agent'' ''aj'')
      else if tok = ''b.p.s'' then Some (svc_assertion ''agent'' ''bj'')
      else if tok = ''c.p.s'' then Some (svc_assertion ''app'' ''cj'')
      else if tok = ''d.p.s'' then Some (svc_assertion ''app'' ''dj'')
      else None)"

definition svc_token_form :: "string \<Rightarrow> (string \<times> string) list" where
  "svc_token_form actor =
     [(''grant_type'', TOKEN_EXCHANGE_GRANT_TYPE), (''subject_token'', ''s.p.s''), (''subject_token_type'', ACCESS_TOKEN_TYPE),
      (''actor_token'', actor), (''actor_token_type'', ACCESS_TOKEN_TYPE), (''audience'', ''api'')]"

definition svc_online_form :: "string \<Rightarrow> (string \<times> string) list" where
  "svc_online_form assertion =
     [(''token'', ''m.p.s''), (''client_assertion'', assertion), (''client_assertion_type'', CLIENT_ASSERTION_TYPE)]"

definition svc_form_parse :: "string \<Rightarrow> (string \<times> string) list" where
  "svc_form_parse body =
     (if body = ''t'' then svc_token_form ''a.p.s'' else if body = ''u'' then svc_token_form ''b.p.s''
      else if body = ''c'' then svc_online_form ''c.p.s'' else svc_online_form ''d.p.s'')"

definition svc_env :: http_env where
  "svc_env =
     \<lparr>he_jose = svc_jose, he_url = demo_url, he_dpop = demo_dpop, he_io = io_healthy,
      he_subject_codec = svc_codec (\<lambda>t. if t = ''s.p.s'' then Some svc_subject else None) (\<lambda>c. None),
      he_assertion_codec = svc_codec svc_assertion_of (\<lambda>c. None),
      he_minted_codec = svc_codec (\<lambda>t. if t = ''m.p.s'' then Some svc_payload else None)
        (\<lambda>c. if c = svc_payload then Some ''m.p.s'' else None),
      he_form_parse = svc_form_parse\<rparr>"

section \<open>Deployment\<close>

definition svc_config :: RuntimeConfig where
  "svc_config =
     \<lparr>idp_issuer = ''https://idp'', expected_subject_aud = {''sts''}, our_issuer = ''https://sts'', our_kid = ''k1'',
      sts_secrets_dir = '''', obo_sts_key_file = '''', idp_jwks_file = None, idp_jwks_uri = None, actor_jwks_file = '''',
      client_jwks_file = '''', obo_sts_extra_jwks_file = None, actor_ids = {''agent''}, actor_id = ''agent'',
      client_ids = {''app''}, token_exchange_mode = Delegation, client_auth_policy = Auto, impersonation_policy = [],
      target_policy = [(''api'', \<lparr>allowed_scopes = {''read''}, default_scopes = {''read''}, accepted_token_signing_algs = {},
        pqc_required = False\<rparr>)],
      sts_signing_alg = ''RS256'', pqc_preferred = False, allow_non_pqc = False, pqc_preferred_algs = [],
      inbound_pqc_preferred = False, allow_non_pqc_inbound = True, inbound_assertion_algs = [''RS256''],
      sts_signing_provider = ''local'', sts_signing_public_jwks_file = None, mock_external_signer_key_file = None,
      clock_skew_leeway = 60, scoped_token_ttl = 300, jwks_cache_max_age = 300, assertion_max_ttl = 300,
      max_seen_jti = 1024, replay_backend = MemoryBackend, max_token_len = 16384, require_subject_binding = False,
      subject_scope_bound_required = False, allow_insecure_jwks = False, allow_insecure_actor_jwks = False,
      allow_insecure_client_jwks = False, allow_insecure_key_file = False, allow_insecure_http_bind = False,
      actor_jwks_sha256 = None, client_jwks_sha256 = None, http_addr = ''127.0.0.1:8888'',
      enable_metrics = True, log_format_json = False, log_level = ''info'', audit_hash_chain = False\<rparr>"

definition svc_jwk :: "string \<Rightarrow> PublicJwk" where
  "svc_jwk kid = \<lparr>jwk_kty = ''RSA'', jwk_kid = kid, jwk_use = ''sig'', jwk_alg = ''RS256'', jwk_n = Some ''n'', jwk_e = Some ''e'',
     jwk_pub = None\<rparr>"

definition svc_signer :: JoseSigner where
  "svc_signer = RsaSigner \<lparr>rs_kid = ''k1'', rs_encoding_key = ''der'', rs_public_jwk = svc_jwk ''k1''\<rparr>"

definition svc_state :: HttpState where
  "svc_state = http_state_new svc_config svc_signer \<lparr>jwks_keys = [svc_jwk ''idp'']\<rparr> \<lparr>jwks_keys = [svc_jwk ''agent'']\<rparr>
     \<lparr>jwks_keys = [svc_jwk ''app'']\<rparr> policy_in_memory"

definition svc_headers :: HeaderMap where
  "svc_headers = \<lparr>hm_content_type = Some (Some ''application/x-www-form-urlencoded''), hm_authorization = None,
     hm_dpop = [Some ''h.p.s'']\<rparr>"

definition svc_clock :: "int \<Rightarrow> token_clock" where
  "svc_clock t = \<lparr>tc_client_window = t, tc_client_lifetime = t, tc_dpop = t, tc_subject = t, tc_actor_window = t,
     tc_actor_lifetime = t, tc_now = t\<rparr>"

definition svc_online_clock :: "int \<Rightarrow> online_clock" where
  "svc_online_clock t = \<lparr>oc_client_window = t, oc_client_lifetime = t, oc_record = t, oc_verify = t, oc_revoke = t\<rparr>"

section \<open>Evaluation\<close>

lemma svc_env_simps [simp]:
  "he_jose svc_env = svc_jose" "he_url svc_env = demo_url" "he_dpop svc_env = demo_dpop" "he_io svc_env = io_healthy"
  "he_form_parse svc_env = svc_form_parse"
  by (simp_all add: svc_env_def)

lemma svc_state_simps [simp]:
  "hs_config svc_state = svc_config" "hs_signer svc_state = svc_signer" "hs_published_jwks svc_state = \<lparr>jwks_keys = [svc_jwk ''k1'']\<rparr>"
  "hs_subject_jwks svc_state = \<lparr>jwks_keys = [svc_jwk ''idp'']\<rparr>" "hs_actor_jwks svc_state = \<lparr>jwks_keys = [svc_jwk ''agent'']\<rparr>"
  "hs_client_jwks svc_state = \<lparr>jwks_keys = [svc_jwk ''app'']\<rparr>" "hs_replay svc_state = policy_in_memory"
  "hs_revocations svc_state = revocations_default" "hs_metrics svc_state = metrics_default"
  by (simp_all add: svc_state_def http_state_new_def new_with_published_jwks_def new_with_signer_arc_def svc_signer_def public_jwks_def)

lemma svc_split: "split_on CHR ''.'' [c, CHR ''.'', CHR ''p'', CHR ''.'', CHR ''s''] = [[c], ''p'', ''s'']" if "c \<noteq> CHR ''.''"
  using that by simp

lemma svc_decode_header:
  assumes "svc_header_from_slice [c] = Some h" "c \<noteq> CHR ''.''"
  shows "decode_compact_jws_header svc_jose [c, CHR ''.'', CHR ''p'', CHR ''.'', CHR ''s''] = Ok h"
  using assms
  by (simp add: decode_compact_jws_header_def parse_compact_jws_def decode_compact_segment_def svc_jose_def)

lemma svc_jwk_key: "rsa_public_key_from_jwk svc_jose (svc_jwk kid) = Ok \<lparr>rsa_n = ''n'', rsa_e = ''e''\<rparr>"
  by (simp add: rsa_public_key_from_jwk_def svc_jwk_def decode_jwk_component_def decode_jwk_octets_def
      validate_public_components_def svc_jose_def)

lemma svc_verify:
  assumes "decode_compact_jws_header svc_jose tok = Ok (svc_header kid t)" "dec tok = Some c"
    "case algs of None \<Rightarrow> True | Some l \<Rightarrow> ''RS256'' \<in> set l"
  shows "verify_claims_against_jwks_inner svc_jose (svc_codec dec enc) tok \<lparr>jwks_keys = [svc_jwk kid]\<rparr> algs =
     Ok \<lparr>vj_claims = c, vj_alg = ''RS256'', vj_kid = kid, vj_typ = t\<rparr>"
proof -
  have "rsa_components_ok svc_jose n e" "jwk_n (svc_jwk kid) = Some ''n''" "jwk_e (svc_jwk kid) = Some ''e''"
    "jwk_kid (svc_jwk kid) = kid" for n e
    by (simp_all add: svc_jose_def demo_ext_def svc_jwk_def)
  with assms show ?thesis
    by (auto simp: verify_claims_against_jwks_inner_def verify_rs256_claims_against_jwk_def svc_header_def svc_jwk_key
        svc_codec_def list_ex_iff split: option.splits)
qed

lemma svc_headers_ok:
  "decode_compact_jws_header svc_jose ''s.p.s'' = Ok (svc_header ''idp'' None)"
  "decode_compact_jws_header svc_jose ''a.p.s'' = Ok (svc_header ''agent'' None)"
  "decode_compact_jws_header svc_jose ''c.p.s'' = Ok (svc_header ''app'' None)"
  "decode_compact_jws_header svc_jose ''d.p.s'' = Ok (svc_header ''app'' None)"
  "decode_compact_jws_header svc_jose ''m.p.s'' = Ok (svc_header ''k1'' (Some ''at+jwt''))"
  "decode_compact_jws_header svc_jose ''b.p.s'' = Ok (svc_header ''agent'' None)"
  by (intro svc_decode_header; simp add: svc_header_from_slice_def)+

lemma svc_issuers:
  "validate_issuer demo_url ''https://idp'' = Ok ''https://idp''" "validate_issuer demo_url ''https://sts'' = Ok ''https://sts''"
proof -
  have "no_ws ''https://idp''" "no_ws ''https://sts''" by (simp_all add: ws1_def ws2_def ws3_def)
  moreover from this have "trim ''https://idp'' = ''https://idp''" "trim ''https://sts'' = ''https://sts''" by (simp_all only: trim_no_ws)
  moreover have "trim_end_matches CHR ''/'' ''https://idp'' = ''https://idp''" "trim_end_matches CHR ''/'' ''https://sts'' = ''https://sts''"
    by (simp_all add: trim_end_matches_def)
  ultimately show "validate_issuer demo_url ''https://idp'' = Ok ''https://idp''" "validate_issuer demo_url ''https://sts'' = Ok ''https://sts''"
    by (simp_all add: validate_issuer_ok demo_url_def demo_htu_def demo_htu_alias_def demo_parsed_def)
qed

lemma svc_endpoints:
  "token_endpoint svc_config = demo_htu" "introspection_endpoint svc_config = ''https://sts/introspect''"
  "revocation_endpoint svc_config = ''https://sts/revoke''"
  by (simp_all add: token_endpoint_def introspection_endpoint_def revocation_endpoint_def endpoint_def svc_config_def
      trim_end_matches_def demo_htu_def)

lemma svc_verify_subject:
  assumes "t \<le> 2000"
  shows "verify_subject_token svc_jose demo_url (he_subject_codec svc_env) t ''s.p.s'' \<lparr>jwks_keys = [svc_jwk ''idp'']\<rparr> ''https://idp''
     [''sts''] 60 = Ok svc_subject"
proof -
  have "verify_claims_against_jwks_with_allowed_algs svc_jose (he_subject_codec svc_env) ''s.p.s''
      \<lparr>jwks_keys = [svc_jwk ''idp'']\<rparr> SUBJECT_TOKEN_SIGNING_ALGS =
      Ok \<lparr>vj_claims = svc_subject, vj_alg = ''RS256'', vj_kid = ''idp'', vj_typ = None\<rparr>"
    unfolding verify_claims_against_jwks_with_allowed_algs_def svc_env_def
    by (simp add: svc_verify [OF svc_headers_ok(1)] SUBJECT_TOKEN_SIGNING_ALGS_def)
  moreover have "validate_time_window t 2000 None 60 = Ok ()" using assms by (simp add: time_window_ok i64_add_exact i64_bounds)
  ultimately show ?thesis
    by (simp add: verify_subject_token_def svc_issuers svc_subject_def ensure_audience_matches_def map_verify_error_def)
qed

lemma svc_inbound:
  "verify_claims_against_jwks_with_allowed_algs svc_jose (he_assertion_codec svc_env) ''a.p.s'' \<lparr>jwks_keys = [svc_jwk ''agent'']\<rparr> [''RS256''] =
     Ok \<lparr>vj_claims = svc_assertion ''agent'' ''aj'', vj_alg = ''RS256'', vj_kid = ''agent'', vj_typ = None\<rparr>"
  "verify_claims_against_jwks_with_allowed_algs svc_jose (he_assertion_codec svc_env) ''c.p.s'' \<lparr>jwks_keys = [svc_jwk ''app'']\<rparr> [''RS256''] =
     Ok \<lparr>vj_claims = svc_assertion ''app'' ''cj'', vj_alg = ''RS256'', vj_kid = ''app'', vj_typ = None\<rparr>"
  "verify_claims_against_jwks_with_allowed_algs svc_jose (he_assertion_codec svc_env) ''d.p.s'' \<lparr>jwks_keys = [svc_jwk ''app'']\<rparr> [''RS256''] =
     Ok \<lparr>vj_claims = svc_assertion ''app'' ''dj'', vj_alg = ''RS256'', vj_kid = ''app'', vj_typ = None\<rparr>"
  "verify_claims_against_jwks_with_allowed_algs svc_jose (he_assertion_codec svc_env) ''b.p.s'' \<lparr>jwks_keys = [svc_jwk ''agent'']\<rparr> [''RS256''] =
     Ok \<lparr>vj_claims = svc_assertion ''agent'' ''bj'', vj_alg = ''RS256'', vj_kid = ''agent'', vj_typ = None\<rparr>"
  unfolding verify_claims_against_jwks_with_allowed_algs_def svc_env_def
  by (simp_all add: svc_verify [OF svc_headers_ok(2)] svc_verify [OF svc_headers_ok(3)] svc_verify [OF svc_headers_ok(4)]
      svc_verify [OF svc_headers_ok(6)] svc_assertion_of_def)

lemma svc_assertion_valid:
  assumes "verify_claims_against_jwks_with_allowed_algs svc_jose (he_assertion_codec svc_env) tok jwks [''RS256''] =
      Ok \<lparr>vj_claims = svc_assertion who j, vj_alg = ''RS256'', vj_kid = who, vj_typ = None\<rparr>"
    and "990 \<le> t" "t \<le> 1200" "who \<in> {''agent'', ''app''}" "aud = ''https://sts'' # auds"
  shows "verify_assertion_at svc_env svc_config jwks t t tok (assertion_options svc_config aud bt False) = Ok (svc_assertion who j)"
proof -
  have k: "kid_belongs_to_claimed_identity who who (key_binding_registry svc_config)"
    using assms(4) by (auto simp: kid_belongs_to_claimed_identity_def prefix_match_def key_binding_registry_def svc_config_def
        strip_prefix_def starts_with_def)
  have "validate_time_window t 1200 None 60 = Ok ()" using assms(3) by (simp add: time_window_ok i64_add_exact i64_bounds)
  moreover have "validate_assertion_lifetime t (svc_assertion who j) 300 60 = Ok ()"
    by (simp add: lifetime_ok svc_assertion_def i64_sub_exact i64_add_exact i64_bounds)
  moreover have c: "our_issuer svc_config = ''https://sts''" "clock_skew_leeway svc_config = 60" "assertion_max_ttl svc_config = 300"
    "inbound_assertion_algs svc_config = [''RS256'']"
    by (simp_all add: svc_config_def)
  moreover have "as_iss (svc_assertion who j) = who" "as_sub (svc_assertion who j) = who" "as_exp (svc_assertion who j) = 1200"
    "as_aud (svc_assertion who j) = JString ''https://sts''" by (simp_all add: svc_assertion_def)
  ultimately show ?thesis
    using k by (simp add: verify_assertion_at_def verify_assertion_with_allowed_algs_def Let_def assms(1,5) svc_issuers
        verify_assertion_with_allowed_alg_refs_def assertion_options_def map_verify_error_def)
qed

section \<open>The exchange\<close>

definition svc_form :: "string \<Rightarrow> TokenForm" where
  "svc_form actor = token_form_default\<lparr>tf_grant_type := Some TOKEN_EXCHANGE_GRANT_TYPE, tf_subject_token := Some ''s.p.s'',
     tf_subject_token_type := Some ACCESS_TOKEN_TYPE, tf_actor_token := Some actor, tf_actor_token_type := Some ACCESS_TOKEN_TYPE,
     tf_audience := Some ''api''\<rparr>"

definition svc_exchange :: VerifiedExchange where
  "svc_exchange = \<lparr>ve_subject_claims = svc_subject, ve_subject_sub = ''alice'', ve_target = ''api'', ve_scope = ''read'',
     ve_client_claims = None, ve_dpop_binding = Some demo_binding\<rparr>"

lemma svc_prologue: "require_form_urlencoded svc_headers = Ok ()" "reject_authorization_header_client_auth svc_headers = Ok ()"
proof -
  have t: "trim ''application/x-www-form-urlencoded'' = ''application/x-www-form-urlencoded''"
    by (simp add: trim_no_ws ws1_def ws2_def ws3_def)
  have l: "to_ascii_lowercase ''application/x-www-form-urlencoded'' = ''application/x-www-form-urlencoded''" by code_simp
  have "split_on CHR '';'' ''application/x-www-form-urlencoded'' = [''application/x-www-form-urlencoded'']"
    by (rule split_on_single) simp
  then have "hd (split_on CHR '';'' ''application/x-www-form-urlencoded'') = ''application/x-www-form-urlencoded''"
    by (simp only: list.sel)
  with t l show "require_form_urlencoded svc_headers = Ok ()"
    by (simp only: require_form_urlencoded_def svc_headers_def HeaderMap.simps option.case Let_def if_False simp_thms)
  show "reject_authorization_header_client_auth svc_headers = Ok ()"
    by (simp add: reject_authorization_header_client_auth_def svc_headers_def)
qed

lemma svc_parse_form:
  "parse_token_form svc_headers (svc_form_parse ''t'') = Ok (svc_form ''a.p.s'')"
  "parse_token_form svc_headers (svc_form_parse ''u'') = Ok (svc_form ''b.p.s'')"
proof -
  have "TOKEN_EXCHANGE_GRANT_TYPE \<noteq> []" "ACCESS_TOKEN_TYPE \<noteq> []"
    by (simp_all add: TOKEN_EXCHANGE_GRANT_TYPE_def ACCESS_TOKEN_TYPE_def)
  then have "parse_token_form svc_headers (svc_token_form (x # xs)) = Ok (svc_form (x # xs))" for x xs
    by (simp add: parse_token_form_def svc_prologue svc_token_form_def is_recognized_token_form_key_def
        token_form_keys_def assign_token_form_value_def non_empty_form_value_def svc_form_def)
  then show "parse_token_form svc_headers (svc_form_parse ''t'') = Ok (svc_form ''a.p.s'')"
    "parse_token_form svc_headers (svc_form_parse ''u'') = Ok (svc_form ''b.p.s'')"
    by (simp_all add: svc_form_parse_def)
qed

lemma svc_request_valid:
  assumes "a \<noteq> []" "length a \<le> 16384"
  shows "validate_request_params (into_exchange_request (svc_form a)) 16384 = Ok ()"
  using assms by (simp add: validate_request_params_def into_exchange_request_def svc_form_def token_form_default_def
      TOKEN_EXCHANGE_GRANT_TYPE_def ACCESS_TOKEN_TYPE_def is_supported_input_token_type_def unwrap_or_def)

lemma svc_target: "resolve_target_for_request (into_exchange_request (svc_form a)) svc_config = Ok ''api''"
  by (simp add: resolve_target_for_request_def into_exchange_request_def svc_form_def token_form_default_def
      validate_target_value_def svc_config_def target_policy_get_def trim_no_ws ws1_def ws2_def ws3_def)

lemma svc_scope: "resolve_scope_for_request (into_exchange_request (svc_form a)) svc_config svc_subject ''api'' = Ok ''read''"
proof -
  have j: "join_scope_set {''read''} = ''read''" by (simp add: join_scope_set_def)
  have t: "is_token ''read''" "trim ''read'' = ''read''" by (simp_all add: is_token_def trim_no_ws ws1_def ws2_def ws3_def)
  show ?thesis
    by (simp add: resolve_scope_for_request_def into_exchange_request_def svc_form_def token_form_default_def Let_def
        svc_config_def target_policy_get_def j subject_scope_string_def svc_subject_def downscope_def split_scopes_def
        split_whitespace_token [OF t(1)] t(2) intersect_scopes_def join_scopes_def or_else_def non_empty_def)
qed

lemma svc_exchange_checks:
  assumes "parse_token_form svc_headers (svc_form_parse body) = Ok (svc_form a)" "a \<noteq> []" "length a \<le> 16384" "\<bar>t - 1000\<bar> \<le> 60"
  shows "token_checks svc_env (svc_clock t) svc_state svc_headers body =
     Ok (EffDelegation, into_exchange_request (svc_form a), svc_exchange)"
proof -
  let ?r = "into_exchange_request (svc_form a)"
  have au: "authenticate_client_if_present svc_env (svc_clock t) svc_state ?r EffDelegation = Ok None"
    by (simp add: authenticate_client_if_present_def has_client_auth_def into_exchange_request_def svc_form_def
        token_form_default_def svc_config_def)
  have m: "effective_exchange_mode svc_config ?r e = EffDelegation" for e
    by (simp add: effective_exchange_mode_def svc_config_def)
  have d: "validate_dpop_header svc_env svc_headers svc_state t = Ok (Some demo_binding)"
    using demo_accepts [of t] assms(4)
    by (simp add: validate_dpop_header_def svc_headers_def svc_endpoints demo_request_def) (simp add: svc_config_def)
  have c: "tc_dpop (svc_clock t) = t" "tc_subject (svc_clock t) = t" "t \<le> 2000" using assms(4) by (simp_all add: svc_clock_def)
  have k: "max_token_len svc_config = 16384" "idp_issuer svc_config = ''https://idp''" "clock_skew_leeway svc_config = 60"
    "sorted_list_of_set (expected_subject_aud svc_config) = [''sts'']" by (simp_all add: svc_config_def)
  have s: "er_subject_token ?r = ''s.p.s''" by (simp add: into_exchange_request_def svc_form_def unwrap_or_def)
  have "st_sub svc_subject = Some ''alice''" "trim ''alice'' = ''alice''"
    by (simp_all add: svc_subject_def trim_no_ws ws1_def ws2_def ws3_def)
  then show ?thesis
    by (simp add: token_checks_def assms(1) k svc_request_valid [OF assms(2,3)] m au c d s svc_verify_subject svc_target svc_scope
        Let_def svc_exchange_def)
qed

lemma svc_token_checks:
  "token_checks svc_env (svc_clock 1000) svc_state svc_headers ''t'' =
     Ok (EffDelegation, into_exchange_request (svc_form ''a.p.s''), svc_exchange)"
  by (simp add: svc_exchange_checks [OF svc_parse_form(1)])

lemma svc_actor_checks:
  assumes "verify_claims_against_jwks_with_allowed_algs svc_jose (he_assertion_codec svc_env) a \<lparr>jwks_keys = [svc_jwk ''agent'']\<rparr> [''RS256''] =
      Ok \<lparr>vj_claims = svc_assertion ''agent'' j, vj_alg = ''RS256'', vj_kid = ''agent'', vj_typ = None\<rparr>"
    and "990 \<le> t" "t \<le> 1200" "no_ws j" "j \<noteq> []"
  shows "delegation_checks svc_env (svc_clock t) svc_state (into_exchange_request (svc_form a)) svc_exchange =
     Ok (svc_assertion ''agent'' j, \<lparr>sd_alg = ''RS256'', sd_pqc_fallback = False, sd_pqc_fallback_reason = None\<rparr>,
       ActClaim ''agent'' None None, j)"
proof -
  have c: "require_subject_binding svc_config = False" "our_issuer svc_config = ''https://sts''" "actor_ids svc_config = {''agent''}"
    by (simp_all add: svc_config_def)
  have v: "verify_actor_token svc_env (svc_clock t) svc_state a x = Ok (svc_assertion ''agent'' j)" for x
    unfolding verify_actor_token_def
    using assms(2,3) by (simp add: svc_clock_def c svc_assertion_valid [OF assms(1)])
  have d: "signing_decision_for_target svc_config svc_signer ''api'' =
      Ok \<lparr>sd_alg = ''RS256'', sd_pqc_fallback = False, sd_pqc_fallback_reason = None\<rparr>"
    by (simp add: signing_decision_for_target_def svc_config_def target_policy_get_def svc_signer_def Let_def)
  have f: "as_sub (svc_assertion ''agent'' j) = ''agent''" "as_iss (svc_assertion ''agent'' j) = ''agent''"
    "as_jti (svc_assertion ''agent'' j) = Some j" "st_act svc_subject = None" "st_may_act svc_subject = None"
    by (simp_all add: svc_assertion_def svc_subject_def)
  have e: "tf_actor_token (svc_form a) = Some a" by (simp add: svc_form_def)
  show ?thesis
    using trim_no_ws [OF assms(4)] assms(5)
    by (simp add: delegation_checks_def e v validate_actor_identity_def f c gate_may_act_def svc_exchange_def d Let_def build_act_def)
qed

lemma svc_delegation_checks:
  "delegation_checks svc_env (svc_clock 1000) svc_state (into_exchange_request (svc_form ''a.p.s'')) svc_exchange =
     Ok (svc_assertion ''agent'' ''aj'', \<lparr>sd_alg = ''RS256'', sd_pqc_fallback = False, sd_pqc_fallback_reason = None\<rparr>,
       ActClaim ''agent'' None None, ''aj'')"
  by (rule svc_actor_checks [OF svc_inbound(1)]; simp add: ws1_def ws2_def ws3_def)

text \<open>The store accepts a fresh key while it is nearly empty.\<close>

lemma mem_fresh:
  assumes "length m < 100" "n < 100" "map_of m k = None" "trim k \<noteq> []"
  shows "mem_check_and_record (in_memory_default\<lparr>seen := m, calls_since_sweep := n\<rparr>) k x t =
     (Ok (), in_memory_default\<lparr>seen := AList.update k x m, calls_since_sweep := Suc n\<rparr>)"
  using assms by (simp add: mem_check_and_record_def in_memory_default_def in_memory_new_def Let_def)

definition svc_after :: "(string \<times> int) list \<Rightarrow> nat \<Rightarrow> HttpState" where
  "svc_after m n = svc_state\<lparr>hs_replay := MemoryStore (in_memory_default\<lparr>seen := m, calls_since_sweep := n\<rparr>)\<rparr>"

lemma svc_record:
  assumes "length m < 100" "n < 100" "map_of m k = None" "trim k \<noteq> []"
  shows "check_and_record svc_env (svc_after m n) k x t f = (Ok (), svc_after (AList.update k x m) (Suc n))"
  using mem_fresh [OF assms] by (simp add: check_and_record_def svc_after_def)

lemma svc_start: "svc_state = svc_after [] 0"
  by (simp add: svc_after_def svc_state_def http_state_new_def new_with_published_jwks_def new_with_signer_arc_def policy_in_memory_def
      in_memory_default_def in_memory_new_def)

lemma svc_sign: "sign_claims svc_jose (he_minted_codec svc_env) svc_signer svc_payload = Ok ''m.p.s''"
  by (simp add: svc_signer_def rsa_sign_json_claims_with_typ_def svc_env_def svc_codec_def)

lemma svc_exchange_ok:
  "\<exists>resp st1. exchange_delegation svc_env (svc_clock 1000) ''j'' svc_state (into_exchange_request (svc_form ''a.p.s'')) svc_exchange = (Ok resp, st1) \<and>
     tr_access_token resp = ''m.p.s''"
proof -
  let ?ac = "svc_assertion ''agent'' ''aj''" and ?dk = "dpop_replay_key (sha256 svc_jose) ''jkt'' ''j1''"
  let ?st = "svc_after [(''act:agent:aj'', 1200), (?dk, 1060)] (Suc (Suc 0))"
  have key: "actor_replay_key ?ac ''aj'' = ''act:agent:aj''" by (simp add: actor_replay_key_def svc_assertion_def)
  have dk: "?dk \<noteq> ''act:agent:aj''" "trim ?dk \<noteq> []" "trim ''act:agent:aj'' \<noteq> []"
    by (simp_all add: dpop_replay_key_def trim_empty_iff trim_start_id ws1_def ws2_def ws3_def)
  have 1: "check_and_record svc_env svc_state ''act:agent:aj'' 1200 1000 f = (Ok (), svc_after [(''act:agent:aj'', 1200)] (Suc 0))" for f
    unfolding svc_start using svc_record [of "[]" 0 "''act:agent:aj''"] dk by simp
  have 2: "record_dpop_replay svc_env (svc_after [(''act:agent:aj'', 1200)] (Suc 0)) demo_binding 1000 = (Ok (), ?st)"
    using svc_record [of "[(''act:agent:aj'', 1200)]" "Suc 0" ?dk] dk by (simp add: record_dpop_replay_def demo_binding_def)
  have conf: "hs_config ?st = svc_config" "hs_signer ?st = svc_signer" by (simp_all add: svc_after_def)
  have ex: "token_expiry ?st svc_exchange ?ac 1000 = 1200"
    by (simp add: token_expiry_def conf svc_exchange_def svc_subject_def svc_assertion_def)
       (simp add: svc_config_def i64_add_exact i64_bounds)
  have pl: "exchange_payload ?st svc_exchange ?ac (Some (ActClaim ''agent'' None None)) ''j'' 1000 1200 = svc_payload"
    by (simp add: exchange_payload_def build_scoped_payload_def conf svc_exchange_def svc_subject_def svc_assertion_def
        svc_payload_def demo_binding_def unwrap_or_def) (simp add: svc_config_def)
  have x: "as_exp ?ac = 1200" by (simp add: svc_assertion_def)
  have o: "ve_client_claims svc_exchange = None" "ve_dpop_binding svc_exchange = Some demo_binding"
    by (simp_all add: svc_exchange_def)
  have tc: "tc_now (svc_clock 1000) = 1000" by (simp add: svc_clock_def)
  show ?thesis
    by (simp add: exchange_delegation_def svc_delegation_checks key x tc 1 o record_optional_def 2 Let_def
        ex pl mint_response_def conf svc_sign)
qed

lemma svc_token_ok:
  obtains resp st1 where "token svc_env (svc_clock 1000) ''j'' svc_headers ''t'' svc_state = (Ok resp, st1)"
    "tr_access_token resp = ''m.p.s''"
  using svc_exchange_ok that by (auto simp: token_def token_inner_def svc_token_checks)

lemma svc_invar: "policy_invar policy_in_memory"
  by (simp add: policy_in_memory_def in_memory_default_def mem_invar_new)

lemma svc_actor_token: "form_actor_token svc_env svc_headers ''t'' = Some ''a.p.s''"
  by (simp add: form_actor_token_def svc_parse_form) (simp add: svc_form_def)

lemma svc_inbound_claims:
  "inbound_claims svc_env svc_state \<lparr>jwks_keys = [svc_jwk ''agent'']\<rparr> ''a.p.s'' = Some (svc_assertion ''agent'' ''aj'')"
  "inbound_claims svc_env svc_state \<lparr>jwks_keys = [svc_jwk ''app'']\<rparr> ''c.p.s'' = Some (svc_assertion ''app'' ''cj'')"
proof -
  have "inbound_assertion_algs svc_config = [''RS256'']" by (simp add: svc_config_def)
  then show
    "inbound_claims svc_env svc_state \<lparr>jwks_keys = [svc_jwk ''agent'']\<rparr> ''a.p.s'' = Some (svc_assertion ''agent'' ''aj'')"
    "inbound_claims svc_env svc_state \<lparr>jwks_keys = [svc_jwk ''app'']\<rparr> ''c.p.s'' = Some (svc_assertion ''app'' ''cj'')"
    by (simp_all add: inbound_claims_def svc_inbound)
qed

section \<open>The online endpoints\<close>

definition svc_online :: "string \<Rightarrow> OnlineTokenForm" where
  "svc_online assertion = online_token_form_default\<lparr>of_token := Some ''m.p.s'', of_client_assertion := Some assertion,
     of_client_assertion_type := Some CLIENT_ASSERTION_TYPE\<rparr>"

lemma svc_parse_online:
  "parse_online_token_form svc_headers (svc_form_parse ''c'') = Ok (svc_online ''c.p.s'')"
  "parse_online_token_form svc_headers (svc_form_parse ''d'') = Ok (svc_online ''d.p.s'')"
proof -
  have "CLIENT_ASSERTION_TYPE \<noteq> []" by (simp add: CLIENT_ASSERTION_TYPE_def)
  then show "parse_online_token_form svc_headers (svc_form_parse ''c'') = Ok (svc_online ''c.p.s'')"
    "parse_online_token_form svc_headers (svc_form_parse ''d'') = Ok (svc_online ''d.p.s'')"
    by (simp_all add: parse_online_token_form_def svc_prologue svc_form_parse_def svc_online_form_def is_online_token_param_def
        assign_online_token_form_value_def non_empty_form_value_def svc_online_def)
qed

lemma svc_online_token:
  "form_online_token svc_env svc_headers ''c'' = Some ''m.p.s''" "form_online_token svc_env svc_headers ''d'' = Some ''m.p.s''"
  by (simp_all add: form_online_token_def svc_parse_online) (simp_all add: svc_online_def)

lemma svc_jti:
  "client_assertion_jti (svc_assertion ''app'' ''cj'') = Ok ''cj''" "client_assertion_jti (svc_assertion ''app'' ''dj'') = Ok ''dj''"
proof -
  have "no_ws ''cj''" "no_ws ''dj''" by (simp_all add: ws1_def ws2_def ws3_def)
  then have "trim ''cj'' = ''cj''" "trim ''dj'' = ''dj''" by (simp_all only: trim_no_ws)
  then show "client_assertion_jti (svc_assertion ''app'' ''cj'') = Ok ''cj''" "client_assertion_jti (svc_assertion ''app'' ''dj'') = Ok ''dj''"
    by (simp_all add: client_jti_ok svc_assertion_def)
qed

lemma svc_online_client:
  assumes "verify_claims_against_jwks_with_allowed_algs svc_jose (he_assertion_codec svc_env) a \<lparr>jwks_keys = [svc_jwk ''app'']\<rparr> [''RS256''] =
      Ok \<lparr>vj_claims = svc_assertion ''app'' j, vj_alg = ''RS256'', vj_kid = ''app'', vj_typ = None\<rparr>"
    and "parse_online_token_form svc_headers (svc_form_parse body) = Ok (svc_online a)" "no_ws a" "a \<noteq> []"
    and "client_assertion_jti (svc_assertion ''app'' j) = Ok j" "990 \<le> t" "t \<le> 1200"
  shows "online_prologue svc_env (svc_online_clock t) svc_headers body svc_state own_endpoint = Ok (''m.p.s'', svc_assertion ''app'' j)"
proof -
  have ns: "no_ws ''m.p.s''" "no_ws CLIENT_ASSERTION_TYPE" by (simp_all add: ws1_def ws2_def ws3_def CLIENT_ASSERTION_TYPE_def)
  have tr: "trim ''m.p.s'' = ''m.p.s''" "trim a = a" "trim CLIENT_ASSERTION_TYPE \<noteq> []"
    using ns assms(3) by (simp_all only: trim_no_ws) (simp add: CLIENT_ASSERTION_TYPE_def)
  have tok: "required_online_token (svc_online a) (max_token_len svc_config) = Ok ''m.p.s''"
    using tr by (simp add: required_online_token_def svc_online_def svc_config_def)
  have iss: "our_issuer svc_config = ''https://sts''" "client_ids svc_config = {''app''}" by (simp_all add: svc_config_def)
  have v: "verify_assertion_at svc_env svc_config \<lparr>jwks_keys = [svc_jwk ''app'']\<rparr> t t a
      (assertion_options svc_config [our_issuer svc_config, own_endpoint] None False) = Ok (svc_assertion ''app'' j)"
    by (rule svc_assertion_valid [OF assms(1)]) (use assms iss in simp_all)
  have f: "of_client_assertion (svc_online a) = Some a" "of_client_assertion_type (svc_online a) = Some CLIENT_ASSERTION_TYPE"
    "of_client_id (svc_online a) = None" by (simp_all add: svc_online_def online_token_form_default_def)
  have s: "as_sub (svc_assertion ''app'' j) = ''app''" by (simp add: svc_assertion_def)
  have "authenticate_online_client svc_env (svc_online_clock t) svc_state (svc_online a) own_endpoint = Ok (svc_assertion ''app'' j)"
    using tr v assms(4,5) by (simp add: authenticate_online_client_def exchange_request_default_def f has_client_auth_def check_client_assertion_def
        validate_client_assertion_type_def s iss svc_online_clock_def Let_def)
  then show ?thesis by (simp add: online_prologue_def assms(2) tok)
qed

lemma svc_online_prologue:
  assumes "990 \<le> t" "t \<le> 1200"
  shows "online_prologue svc_env (svc_online_clock t) svc_headers ''c'' svc_state own_endpoint = Ok (''m.p.s'', svc_assertion ''app'' ''cj'')"
    "online_prologue svc_env (svc_online_clock t) svc_headers ''d'' svc_state own_endpoint = Ok (''m.p.s'', svc_assertion ''app'' ''dj'')"
  by (rule svc_online_client [OF svc_inbound(2) svc_parse_online(1) _ _ svc_jti(1) assms] svc_online_client [OF svc_inbound(3) svc_parse_online(2) _ _ svc_jti(2) assms];
      simp add: ws1_def ws2_def ws3_def)+

lemma svc_record_client:
  "record_client_assertion_replay svc_env svc_state (svc_assertion ''app'' ''cj'') t = (Ok (), svc_after [(''ca:app:cj'', 1200)] (Suc 0))"
  "record_client_assertion_replay svc_env (svc_after [(''ca:app:cj'', 1200)] (Suc 0)) (svc_assertion ''app'' ''dj'') t =
     (Ok (), svc_after [(''ca:app:cj'', 1200), (''ca:app:dj'', 1200)] (Suc (Suc 0)))"
proof -
  have x: "as_exp (svc_assertion w j) = 1200" for w j by (simp add: svc_assertion_def)
  have k: "client_replay_key (svc_assertion ''app'' ''cj'') ''cj'' = ''ca:app:cj''" "client_replay_key (svc_assertion ''app'' ''dj'') ''dj'' = ''ca:app:dj''"
    by (simp_all add: client_replay_key_def svc_assertion_def)
  have tr: "trim ''ca:app:cj'' \<noteq> []" "trim ''ca:app:dj'' \<noteq> []" by (simp_all add: trim_empty_iff trim_start_id ws1_def ws2_def ws3_def)
  have "check_and_record svc_env svc_state ''ca:app:cj'' 1200 t f = (Ok (), svc_after [(''ca:app:cj'', 1200)] (Suc 0))" for f
    unfolding svc_start using svc_record [of "[]" 0 "''ca:app:cj''"] tr by simp
  then show "record_client_assertion_replay svc_env svc_state (svc_assertion ''app'' ''cj'') t = (Ok (), svc_after [(''ca:app:cj'', 1200)] (Suc 0))"
    by (simp add: record_client_assertion_replay_def svc_jti k x)
  show "record_client_assertion_replay svc_env (svc_after [(''ca:app:cj'', 1200)] (Suc 0)) (svc_assertion ''app'' ''dj'') t =
     (Ok (), svc_after [(''ca:app:cj'', 1200), (''ca:app:dj'', 1200)] (Suc (Suc 0)))"
    using svc_record [of "[(''ca:app:cj'', 1200)]" "Suc 0" "''ca:app:dj''"] tr by (simp add: record_client_assertion_replay_def svc_jti k x)
qed

lemma svc_token_claims: "sts_token_claims svc_env svc_state ''m.p.s'' 1010 = Some svc_payload"
proof -
  have "verify_claims_against_jwks_with_header svc_jose (he_minted_codec svc_env) ''m.p.s'' \<lparr>jwks_keys = [svc_jwk ''k1'']\<rparr> =
      Ok \<lparr>vj_claims = svc_payload, vj_alg = ''RS256'', vj_kid = ''k1'', vj_typ = Some ''at+jwt''\<rparr>"
    unfolding verify_claims_against_jwks_with_header_def svc_env_def by (simp add: svc_verify [OF svc_headers_ok(5)])
  moreover have "trim ''alice'' \<noteq> []" "trim ''agent'' \<noteq> []" "trim ''read'' \<noteq> []"
    by (simp_all add: trim_empty_iff trim_start_id ws1_def ws2_def ws3_def)
  moreover have "our_issuer svc_config = ''https://sts''" "map_of (target_policy svc_config) ''api'' \<noteq> None"
    "i64_add 1010 (clock_skew_leeway svc_config) = 1070" by (simp_all add: svc_config_def i64_add_exact i64_bounds)
  ultimately show ?thesis by (simp add: sts_token_claims_def svc_payload_def)
qed

lemma svc_revoke_state:
  "\<exists>rs. revoke svc_env (svc_online_clock 1010) svc_headers ''c'' svc_state =
     (Ok (), (svc_after [(''ca:app:cj'', 1200)] (Suc 0))\<lparr>hs_revocations := rs\<rparr>)"
proof -
  let ?mid = "svc_after [(''ca:app:cj'', 1200)] (Suc 0)"
  have "sts_token_claims svc_env ?mid ''m.p.s'' 1010 = Some svc_payload"
    using svc_token_claims sts_token_claims_static [of ?mid svc_state] by (simp add: svc_after_def static_def)
  moreover have "fst (revoke_token E revocations_default tok x t (max_seen_jti svc_config)) = Ok ()" for E tok x t
    by (simp add: revoke_token_def revocations_default_def sweep_revoked_def svc_config_def)
  moreover have "hs_revocations ?mid = revocations_default" "hs_config ?mid = svc_config" by (simp_all add: svc_after_def)
  moreover have "oc_verify (svc_online_clock 1010) = 1010" "oc_record (svc_online_clock 1010) = 1010" by (simp_all add: svc_online_clock_def)
  ultimately show ?thesis
    by (simp add: revoke_alt svc_online_prologue svc_record_client split: prod.splits) (metis fst_conv)
qed

lemma record_client_revocations:
  "record_client_assertion_replay env (st\<lparr>hs_revocations := rs\<rparr>) c t =
     (case record_client_assertion_replay env st c t of (r, s) \<Rightarrow> (r, s\<lparr>hs_revocations := rs\<rparr>))"
  by (simp add: record_client_assertion_replay_def check_and_record_def split: sum.split prod.split)

section \<open>Witnesses of the service properties\<close>

theorem actor_token_single_use_witness:
  "\<exists>resp st1 e st3.
     serve svc_env svc_state (TokenRequest (svc_clock 1000) ''j'' svc_headers ''t'') = (TokenReply (Ok resp), st1) \<and>
     serve svc_env (snd (serve_all svc_env st1 [IntrospectRequest (svc_online_clock 1005) svc_headers ''c'']))
       (TokenRequest (svc_clock 1100) ''j2'' svc_headers ''t'') = (TokenReply (Err e), st3)"
proof -
  obtain resp st1 where t: "token svc_env (svc_clock 1000) ''j'' svc_headers ''t'' svc_state = (Ok resp, st1)" by (rule svc_token_ok)
  then have s: "serve svc_env svc_state (TokenRequest (svc_clock 1000) ''j'' svc_headers ''t'') = (TokenReply (Ok resp), st1)" by simp
  have i: "policy_invar (hs_replay svc_state)" "inbound_claims svc_env svc_state (hs_actor_jwks svc_state) ''a.p.s'' =
      Some (svc_assertion ''agent'' ''aj'')" by (simp_all add: svc_invar svc_inbound_claims)
  have x: "as_exp (svc_assertion ''agent'' ''aj'') = 1200" "in_i64 1200" by (simp_all add: svc_assertion_def i64_bounds)
  have c: "tc_now (svc_clock t) = t" "oc_record (svc_online_clock t) = t" for t by (simp_all add: svc_clock_def svc_online_clock_def)
  from actor_token_single_use [OF i(1) s svc_actor_token i(2), of "[IntrospectRequest (svc_online_clock 1005) svc_headers ''c'']"
      "svc_clock 1100" svc_headers "''t''" "''j2''"] s show ?thesis
    by (simp add: x c svc_actor_token del: serve.simps)
qed

theorem dpop_proof_single_use_witness:
  "\<exists>resp st1 e st3.
     serve svc_env svc_state (TokenRequest (svc_clock 1000) ''j'' svc_headers ''t'') = (TokenReply (Ok resp), st1) \<and>
     token_checks svc_env (svc_clock 1010) st1 svc_headers ''u'' = Ok (EffDelegation, into_exchange_request (svc_form ''b.p.s''), svc_exchange) \<and>
     is_ok (delegation_checks svc_env (svc_clock 1010) st1 (into_exchange_request (svc_form ''b.p.s'')) svc_exchange) \<and>
     serve svc_env (snd (serve_all svc_env st1 [])) (TokenRequest (svc_clock 1010) ''j2'' svc_headers ''u'') = (TokenReply (Err e), st3)"
proof -
  obtain resp st1 where t: "token svc_env (svc_clock 1000) ''j'' svc_headers ''t'' svc_state = (Ok resp, st1)" by (rule svc_token_ok)
  then have s: "serve svc_env svc_state (TokenRequest (svc_clock 1000) ''j'' svc_headers ''t'') = (TokenReply (Ok resp), st1)" by simp
  then have st: "static st1 = static svc_state"
    using serve_static [of svc_env svc_state "TokenRequest (svc_clock 1000) ''j'' svc_headers ''t''"] by simp
  have i: "policy_invar (hs_replay svc_state)" "hm_dpop svc_headers = [Some ''h.p.s'']"
    by (simp_all add: svc_invar svc_headers_def)
  have c: "tc_now (svc_clock t) = t" "tc_dpop (svc_clock t) = t" for t by (simp_all add: svc_clock_def)
  have k: "token_checks svc_env (svc_clock 1010) st1 svc_headers ''u'' = Ok (EffDelegation, into_exchange_request (svc_form ''b.p.s''), svc_exchange)"
    "is_ok (delegation_checks svc_env (svc_clock 1010) st1 (into_exchange_request (svc_form ''b.p.s'')) svc_exchange)"
    unfolding checks_static [OF st]
    by (simp_all add: svc_exchange_checks [OF svc_parse_form(2)] svc_actor_checks [OF svc_inbound(4)] is_ok_def ws1_def ws2_def ws3_def)
  have l: "clock_skew_leeway svc_config = 60" by (simp add: svc_config_def)
  have "\<nexists>d. dpop_at svc_env svc_state ''h.p.s'' 1010 = Ok d \<and> db_replay_expires_at d < 1010"
    using demo_accepts [of 1010] l by (auto simp: svc_endpoints demo_request_def demo_binding_def)
  with dpop_proof_single_use [OF i(1) s i(2) i(2), of "svc_clock 1010" "[]" "''j2''" "''u''"] s k show ?thesis
    by (simp add: c i64_bounds del: serve.simps) blast
qed

theorem dpop_clock_gap_replay_witness:
  "\<exists>s st1 st2. file_new True [] 1024 256 = Ok s \<and>
     record_dpop_replay svc_env (svc_state\<lparr>hs_replay := FileStore s\<rparr>) demo_binding 1000 = (Ok (), st1) \<and>
     validate_dpop_header svc_env svc_headers st1 1060 = Ok (Some demo_binding) \<and>
     record_dpop_replay svc_env st1 demo_binding 1061 = (Ok (), st2)"
proof -
  obtain s where s: "file_new True [] 1024 256 = Ok s" by (simp add: file_new_def)
  let ?st = "svc_state\<lparr>hs_replay := FileStore s\<rparr>"
  have d: "validate_dpop_header svc_env svc_headers ?st 1000 = Ok (Some demo_binding)"
    using demo_accepts [of 1000] by (simp add: validate_dpop_header_def svc_headers_def svc_endpoints demo_request_def) (simp add: svc_config_def)
  have c: "clock_skew_leeway svc_config = 60" "db_replay_expires_at demo_binding = 1060" "db_iat demo_binding = 1000"
    by (simp_all add: svc_config_def demo_binding_def)
  from dpop_clock_gap_replay [OF d _ s, of 1061 1000] s show ?thesis by (auto simp: c i64_bounds)
qed

theorem client_assertion_single_use_witness:
  "\<exists>a st1. serve svc_env svc_state (IntrospectRequest (svc_online_clock 1010) svc_headers ''c'') = (a, st1) \<and> reply_ok a \<and>
     \<not> reply_ok (fst (serve svc_env (snd (serve_all svc_env st1 [])) (RevokeRequest (svc_online_clock 1020) svc_headers ''c'')))"
proof -
  let ?q = "IntrospectRequest (svc_online_clock 1010) svc_headers ''c''" and ?q2 = "RevokeRequest (svc_online_clock 1020) svc_headers ''c''"
  have "is_ok (fst (introspect svc_env (svc_online_clock 1010) svc_headers ''c'' svc_state))"
    by (simp add: introspect_alt svc_online_prologue svc_record_client is_ok_def split: prod.splits)
  then obtain a st1 where a: "serve svc_env svc_state ?q = (a, st1)" "reply_ok a"
    by (cases "introspect svc_env (svc_online_clock 1010) svc_headers ''c'' svc_state") simp
  have p: "presented_client_assertion svc_env ?q = Some ''c.p.s''" "presented_client_assertion svc_env ?q2 = Some ''c.p.s''"
    by (simp_all add: svc_parse_online) (simp_all add: svc_online_def)
  have i: "policy_invar (hs_replay svc_state)" "inbound_claims svc_env svc_state (hs_client_jwks svc_state) ''c.p.s'' =
      Some (svc_assertion ''app'' ''cj'')" by (simp_all add: svc_invar svc_inbound_claims)
  have x: "as_exp (svc_assertion ''app'' ''cj'') = 1200" "in_i64 1200" by (simp_all add: svc_assertion_def i64_bounds)
  have c: "oc_record (svc_online_clock t) = t" for t by (simp add: svc_online_clock_def)
  from client_assertion_single_use [OF i(1) a p(1) i(2), of "[]" ?q2] p(2) a show ?thesis
    by (simp add: x c del: serve.simps presented_client_assertion.simps)
qed

theorem valid_exchange_succeeds_witness:
  "\<exists>resp st'. token svc_env (svc_clock 1000) ''j'' svc_headers ''t'' svc_state = (Ok resp, st') \<and>
     tr_access_token resp = ''m.p.s'' \<and> tr_scope resp = ''read''"
proof -
  let ?ac = "svc_assertion ''agent'' ''aj''" and ?act = "Some (ActClaim ''agent'' None None)"
  have tc: "tc_now (svc_clock 1000) = 1000" by (simp add: svc_clock_def)
  have g: "exchange_grant svc_env (svc_clock 1000) svc_state EffDelegation (into_exchange_request (svc_form ''a.p.s'')) svc_exchange =
      Some (?ac, ?act, {actor_replay_key ?ac ''aj''})" by (simp add: exchange_grant_def svc_delegation_checks)
  have m: "hs_replay svc_state = MemoryStore in_memory_default" by (simp add: policy_in_memory_def)
  have r: "has_room in_memory_default (tc_now (svc_clock 1000)) 3" "seen in_memory_default = []"
    by (simp_all add: has_room_def in_memory_default_def in_memory_new_def sweep_expired_def)
  have ex: "token_expiry svc_state svc_exchange ?ac 1000 = 1200"
    by (simp add: token_expiry_def svc_exchange_def svc_subject_def svc_assertion_def) (simp add: svc_config_def i64_add_exact i64_bounds)
  have pl: "exchange_payload svc_state svc_exchange ?ac ?act ''j'' 1000 1200 = svc_payload"
    by (simp add: exchange_payload_def build_scoped_payload_def svc_exchange_def svc_subject_def svc_assertion_def
        svc_payload_def demo_binding_def unwrap_or_def) (simp add: svc_config_def)
  have "ve_scope svc_exchange = ''read''" by (simp add: svc_exchange_def)
  with valid_exchange_succeeds [OF svc_token_checks g m r(1), of "''j''" "''m.p.s''"] r(2) svc_sign show ?thesis
    by (simp add: tc ex pl)
qed

theorem minted_token_recognised_witness:
  "\<exists>resp st1 payload. token svc_env (svc_clock 1000) ''j'' svc_headers ''t'' svc_state = (Ok resp, st1) \<and>
     verified_sts_access_token svc_env st1 (tr_access_token resp) 1100 False =
       (if 1100 < mc_exp payload then Some payload else None, st1)"
proof -
  obtain resp st1 where t: "token svc_env (svc_clock 1000) ''j'' svc_headers ''t'' svc_state = (Ok resp, st1)" by (rule svc_token_ok)
  have pub: "publishes (hs_published_jwks svc_state) (hs_signer svc_state)"
    by (simp add: publishes_def public_jwks_def svc_signer_def svc_jwk_def)
  have con: "signer_consistent svc_jose svc_signer" by (simp add: svc_signer_def svc_jwk_key is_ok_def) (simp add: svc_jwk_def)
  have lib: "libs_sound svc_jose (he_minted_codec svc_env) svc_signer c" for c
  proof -
    have "signer_header svc_signer = svc_header ''k1'' (Some ''at+jwt'')"
      by (simp add: signer_header_def svc_signer_def svc_header_def)
    moreover have "rsa_components_ok svc_jose n e" "b64_decode svc_jose x = Some x" "header_from_slice svc_jose = svc_header_from_slice" for n e x
      by (simp_all add: svc_jose_def demo_ext_def)
    moreover have "\<exists>hs ps ss. ''m.p.s'' = hs @ ''.'' @ ps @ ''.'' @ ss \<and> CHR ''.'' \<notin> set hs \<and> CHR ''.'' \<notin> set ps \<and> CHR ''.'' \<notin> set ss \<and>
        svc_header_from_slice hs = Some (svc_header ''k1'' (Some ''at+jwt''))"
      by (rule exI [of _ "''m''"], rule exI [of _ "''p''"], rule exI [of _ "''s''"]) (simp add: svc_header_from_slice_def)
    ultimately show ?thesis
      by (auto simp: svc_signer_def rs256_law_def svc_env_def svc_codec_def svc_jwk_def split: if_splits option.splits)
  qed
  have reg: "\<forall>i \<in> key_binding_registry svc_config. trim i \<noteq> []"
    by (simp add: key_binding_registry_def svc_config_def trim_empty_iff trim_start_id ws1_def ws2_def ws3_def)
  have c: "tc_now (svc_clock 1000) = 1000" "clock_skew_leeway svc_config = 60" by (simp_all add: svc_clock_def svc_config_def)
  from minted_token_recognised [OF t pub, of 1100] con lib reg t c show ?thesis by (auto simp: i64_bounds)
qed

theorem revocation_permanent_witness:
  "\<exists>st1. serve svc_env svc_state (RevokeRequest (svc_online_clock 1010) svc_headers ''c'') = (RevokeReply (Ok ()), st1) \<and>
     (case fst (introspect svc_env (svc_online_clock 1020) svc_headers ''c'' (snd (serve_all svc_env st1 []))) of
        Inl _ \<Rightarrow> True | Inr response \<Rightarrow> response = JObject [(''active'', JBool False)])"
proof -
  have wf: "service_wf svc_state" unfolding svc_state_def by (rule service_wf_new [OF svc_invar])
  obtain st1 where "revoke svc_env (svc_online_clock 1010) svc_headers ''c'' svc_state = (Ok (), st1)" using svc_revoke_state by blast
  then have s: "serve svc_env svc_state (RevokeRequest (svc_online_clock 1010) svc_headers ''c'') = (RevokeReply (Ok ()), st1)" by simp
  have c: "sts_token_claims svc_env svc_state ''m.p.s'' (oc_verify (svc_online_clock 1010)) = Some svc_payload"
    using svc_token_claims by (simp add: svc_online_clock_def)
  from revocation_permanent [OF wf s svc_online_token(1) c, of "[]" "svc_online_clock 1020" svc_headers "''c''"] s svc_online_token
  show ?thesis by simp
qed

theorem metrics_count_replies_witness:
  "ms_minted (hs_metrics (snd (serve_all svc_env svc_state [TokenRequest (svc_clock 1000) ''j'' svc_headers ''t'']))) = 1"
proof -
  obtain resp st1 where t: "token svc_env (svc_clock 1000) ''j'' svc_headers ''t'' svc_state = (Ok resp, st1)" by (rule svc_token_ok)
  let ?qs = "[TokenRequest (svc_clock 1000) ''j'' svc_headers ''t'']"
  have s: "serve_all svc_env svc_state ?qs = ([TokenReply (Ok resp)], st1)" using t by simp
  have m: "\<not> ms_denials_poisoned (hs_metrics svc_state)" "\<not> ms_signing_poisoned (hs_metrics svc_state)" "ms_minted (hs_metrics svc_state) = 0"
    by (simp_all add: metrics_default_def)
  from metrics_count_replies [OF m(1,2) s] m(3) s show ?thesis by simp
qed

theorem service_invariant_witness:
  "\<exists>st1. reachable svc_env svc_state st1 \<and> st1 \<noteq> svc_state \<and> policy_invar (hs_replay st1) \<and> hs_config st1 = svc_config"
proof -
  obtain resp st1 where t: "token svc_env (svc_clock 1000) ''j'' svc_headers ''t'' svc_state = (Ok resp, st1)" by (rule svc_token_ok)
  have "service_step svc_env svc_state (TokenRequest (svc_clock 1000) ''j'' svc_headers ''t'') (TokenReply (Ok resp)) st1"
    by (rule serve_request) (simp add: t)
  then have r: "reachable svc_env svc_state st1" by (rule reachable.step [OF reachable.start])
  have "ms_minted (hs_metrics st1) = ms_minted (hs_metrics svc_state) + 1"
    using serve_counts(1) [of svc_state svc_env "TokenRequest (svc_clock 1000) ''j'' svc_headers ''t''"] t
    by (simp add: metrics_default_def)
  then have ne: "st1 \<noteq> svc_state" by auto
  from service_invariant [OF r [unfolded svc_state_def http_state_new_def new_with_published_jwks_def] svc_invar] r ne show ?thesis by (auto simp: svc_state_def)
qed

text \<open>A deployment whose issuer has a path.\<close>

definition svc_tenant_config :: RuntimeConfig where
  "svc_tenant_config = svc_config\<lparr>our_issuer := ''https://sts/t''\<rparr>"

definition svc_tenant_url :: url_parse where
  "svc_tenant_url s = Some \<lparr>url_scheme = ''https'', url_host = Some (Domain ''sts''), url_host_str = Some ''sts'',
     url_port = None, url_path = ''/t'', url_query = None, url_fragment = None\<rparr>"

theorem advertised_endpoints_routed_witness:
  "distinct (map rt_path (router svc_tenant_url svc_tenant_config)) \<and>
   (\<exists>path. am_token_endpoint (snd (metadata svc_tenant_config)) = issuer_origin svc_tenant_url svc_tenant_config @ path \<and>
      serves (router svc_tenant_url svc_tenant_config) path ''POST'' HToken)"
proof -
  have "issuer_url_law svc_tenant_url svc_tenant_config"
    by (simp add: issuer_url_law_def svc_tenant_url_def svc_tenant_config_def issuer_origin_def starts_with_def
        trim_end_matches_def)
  from advertised_endpoints_routed [OF this] show ?thesis by auto
qed

end
