(* ===== verification/Service_Concurrent.thy ===== *)
theory Service_Concurrent
  imports Service_Replay Interleaving
begin

text \<open>
  Requests of \<open>sts-http\<close> that run at the same time. A handler reads its configuration and keys from the
  shared \<open>HttpState\<close> and calls the replay policy, the revocation store and the counters, each behind
  its own lock. \<open>request_program\<close> is a handler as a program over these calls; alone it does what \<open>serve\<close>
  does, and of several requests at most one uses a credential.

  The calls are atomic in the code when the replay policy holds the in-memory store, which keeps its
  map locked from the lookup to the insertion. The file store is atomic per system call only; its
  interleavings are those of \<open>File_Race\<close> and, with the handlers, of \<open>Replica_Race\<close>.
\<close>

section \<open>Calls on the shared state\<close>

datatype service_call =
    Record string int int
  | IsRevoked string int
  | Revoke string int int nat
  | CountSigning SigningDecision
  | CountMinted
  | CountDenied
  | CountCode string

datatype service_reply =
    Recorded "(ReplayError, unit) result" | RevokedFlag bool | RevokeDone "(HttpError, unit) result" | Counted

fun exec_op :: "http_env \<Rightarrow> service_call \<Rightarrow> HttpState \<Rightarrow> service_reply \<times> HttpState" where
  "exec_op env (Record key expiry now) st =
     (case policy_check_and_record (sha256 (he_jose env)) (he_io env) (hs_replay st) key expiry now of
        (r, p) \<Rightarrow> (Recorded r, st\<lparr>hs_replay := p\<rparr>))"
| "exec_op env (IsRevoked tok now) st =
     (case is_revoked_or_unavailable (he_jose env) (hs_revocations st) tok now of
        (b, rs) \<Rightarrow> (RevokedFlag b, st\<lparr>hs_revocations := rs\<rparr>))"
| "exec_op env (Revoke tok expiry now max_n) st =
     (case revoke_token (he_jose env) (hs_revocations st) tok expiry now max_n of
        (r, rs) \<Rightarrow> (RevokeDone r, st\<lparr>hs_revocations := rs\<rparr>))"
| "exec_op env (CountSigning decision) st = (Counted, st\<lparr>hs_metrics := record_signing (hs_metrics st) decision\<rparr>)"
| "exec_op env CountMinted st =
     (Counted, st\<lparr>hs_metrics := (hs_metrics st)\<lparr>ms_minted := ms_minted (hs_metrics st) + 1\<rparr>\<rparr>)"
| "exec_op env CountDenied st =
     (Counted, st\<lparr>hs_metrics := (hs_metrics st)\<lparr>ms_denied := ms_denied (hs_metrics st) + 1\<rparr>\<rparr>)"
| "exec_op env (CountCode code) st =
     (Counted, if ms_denials_poisoned (hs_metrics st) then st
        else st\<lparr>hs_metrics := (hs_metrics st)\<lparr>ms_denials := bump code (ms_denials (hs_metrics st))\<rparr>\<rparr>)"

fun recorded_of :: "service_reply \<Rightarrow> (ReplayError, unit) result" where
  "recorded_of (Recorded r) = r" | "recorded_of _ = Err replay_store_unavailable"

fun revoked_of :: "service_reply \<Rightarrow> bool" where
  "revoked_of (RevokedFlag b) = b" | "revoked_of _ = True"

fun revoke_result :: "service_reply \<Rightarrow> (HttpError, unit) result" where
  "revoke_result (RevokeDone r) = r" | "revoke_result _ = Err (server_error (lit ''internal error''))"

section \<open>Handlers as programs\<close>

type_synonym 'a handler = "(service_call, service_reply, (HttpError, 'a) result) program"

definition record_program :: "string \<Rightarrow> int \<Rightarrow> int \<Rightarrow> (ReplayError \<Rightarrow> HttpError) \<Rightarrow> unit handler" where
  "record_program key expiry now on_error =
     Call (Record key expiry now) (\<lambda>r. Done (map_err on_error (recorded_of r)))"

definition record_client_program :: "AssertionClaims \<Rightarrow> int \<Rightarrow> unit handler" where
  "record_client_program claims now =
     (case client_assertion_jti claims of
        Inl e \<Rightarrow> Done (Inl e)
      | Inr jti \<Rightarrow> record_program (client_replay_key claims jti) (as_exp claims) now map_client_assertion_replay_error)"

definition record_dpop_program :: "http_env \<Rightarrow> DpopBinding \<Rightarrow> int \<Rightarrow> unit handler" where
  "record_dpop_program env binding now =
     record_program (dpop_replay_key (sha256 (he_jose env)) (db_jkt binding) (db_jti binding))
       (db_replay_expires_at binding) now map_dpop_replay_error"

definition optional_program :: "('b \<Rightarrow> unit handler) \<Rightarrow> 'b option \<Rightarrow> unit handler" where
  "optional_program record_it v = (case v of None \<Rightarrow> Done (Ok ()) | Some x \<Rightarrow> record_it x)"

definition mint_program ::
    "http_env \<Rightarrow> HttpState \<Rightarrow> VerifiedExchange \<Rightarrow> SigningDecision \<Rightarrow> MintedClaims \<Rightarrow> int \<Rightarrow> int \<Rightarrow> TokenResponse handler" where
  "mint_program env st exchange decision payload now expiry =
     (case sign_claims (he_jose env) (he_minted_codec env) (hs_signer st) payload of
        Inl _ \<Rightarrow> Done (Err (server_error (lit ''internal error'')))
      | Inr access_token \<Rightarrow>
          Call (CountSigning decision) (\<lambda>_.
          Done (Ok \<lparr>tr_access_token = access_token, tr_issued_token_type = ACCESS_TOKEN_TYPE,
              tr_token_type = token_type_for_sender (ve_dpop_binding exchange),
              tr_expires_in = max (i64_sub expiry now) 0, tr_scope = ve_scope exchange,
              tr_signing_alg_selected = sd_alg decision, tr_pqc_fallback = sd_pqc_fallback decision,
              tr_pqc_fallback_reason = sd_pqc_fallback_reason decision\<rparr>)))"

definition delegation_program ::
    "http_env \<Rightarrow> token_clock \<Rightarrow> string \<Rightarrow> HttpState \<Rightarrow> ExchangeRequest \<Rightarrow> VerifiedExchange \<Rightarrow> TokenResponse handler" where
  "delegation_program env clk jti st request exchange =
     (case delegation_checks env clk st request exchange of
        Inl e \<Rightarrow> Done (Inl e)
      | Inr (actor_claims, decision, act, actor_jti) \<Rightarrow>
          let now = tc_now clk in
          ok_then (record_program (actor_replay_key actor_claims actor_jti) (as_exp actor_claims) now map_replay_error) (\<lambda>_.
          ok_then (optional_program (\<lambda>c. record_client_program c now) (ve_client_claims exchange)) (\<lambda>_.
          ok_then (optional_program (\<lambda>b. record_dpop_program env b now) (ve_dpop_binding exchange)) (\<lambda>_.
          let expiry = token_expiry st exchange actor_claims now in
          mint_program env st exchange decision
            (exchange_payload st exchange actor_claims (Some act) jti now expiry) now expiry))))"

definition impersonation_program ::
    "http_env \<Rightarrow> token_clock \<Rightarrow> string \<Rightarrow> HttpState \<Rightarrow> ExchangeRequest \<Rightarrow> VerifiedExchange \<Rightarrow> TokenResponse handler" where
  "impersonation_program env clk jti st request exchange =
     (case impersonation_checks st request exchange of
        Inl e \<Rightarrow> Done (Inl e)
      | Inr (client_claims, decision) \<Rightarrow>
          let now = tc_now clk in
          ok_then (record_client_program client_claims now) (\<lambda>_.
          ok_then (optional_program (\<lambda>b. record_dpop_program env b now) (ve_dpop_binding exchange)) (\<lambda>_.
          let expiry = token_expiry st exchange client_claims now in
          mint_program env st exchange decision
            (exchange_payload st exchange client_claims None jti now expiry) now expiry)))"

definition token_inner_program ::
    "http_env \<Rightarrow> token_clock \<Rightarrow> string \<Rightarrow> HeaderMap \<Rightarrow> string \<Rightarrow> HttpState \<Rightarrow> TokenResponse handler" where
  "token_inner_program env clk jti headers body st =
     (case token_checks env clk st headers body of
        Inl e \<Rightarrow> Done (Inl e)
      | Inr (EffDelegation, request, exchange) \<Rightarrow> delegation_program env clk jti st request exchange
      | Inr (EffImpersonation, request, exchange) \<Rightarrow> impersonation_program env clk jti st request exchange)"

definition record_exchange_program :: "(HttpError, 'a) result \<Rightarrow> 'a handler" where
  "record_exchange_program r =
     (case r of
        Inr _ \<Rightarrow> Call CountMinted (\<lambda>_. Done r)
      | Inl err \<Rightarrow> Call CountDenied (\<lambda>_.
          case he_error err of None \<Rightarrow> Done r | Some code \<Rightarrow> Call (CountCode code) (\<lambda>_. Done r)))"

definition token_program ::
    "http_env \<Rightarrow> token_clock \<Rightarrow> string \<Rightarrow> HeaderMap \<Rightarrow> string \<Rightarrow> HttpState \<Rightarrow> TokenResponse handler" where
  "token_program env clk jti headers body st =
     bind_program (token_inner_program env clk jti headers body st) record_exchange_program"

definition introspection_json :: "MintedClaims \<Rightarrow> json" where
  "introspection_json claims =
     JObject ((case mc_act claims of None \<Rightarrow> [] | Some a \<Rightarrow> [(''act'', act_to_json a)]) @
       [(''active'', JBool True), (''aud'', JString (mc_aud claims)), (''client_id'', JString (mc_client_id claims))] @
       (case mc_cnf_jkt claims of None \<Rightarrow> [] | Some jkt \<Rightarrow> [(''cnf'', JObject [(''jkt'', JString jkt)])]) @
       [(''exp'', json_of_int (mc_exp claims)), (''iat'', json_of_int (mc_iat claims)), (''iss'', JString (mc_iss claims)),
        (''scope'', JString (mc_scope claims)), (''sub'', JString (mc_sub claims))])"

definition introspect_program ::
    "http_env \<Rightarrow> online_clock \<Rightarrow> HeaderMap \<Rightarrow> string \<Rightarrow> HttpState \<Rightarrow> json handler" where
  "introspect_program env clk headers body st =
     (case online_prologue env clk headers body st (introspection_endpoint (hs_config st)) of
        Inl e \<Rightarrow> Done (Inl e)
      | Inr (tok, claims) \<Rightarrow>
          ok_then (record_client_program claims (oc_record clk)) (\<lambda>_.
          case sts_token_claims env st tok (oc_verify clk) of
            None \<Rightarrow> Done (Ok (JObject [(''active'', JBool False)]))
          | Some token_claims \<Rightarrow> Call (IsRevoked tok (oc_verify clk)) (\<lambda>r.
              Done (Ok (if revoked_of r then JObject [(''active'', JBool False)] else introspection_json token_claims)))))"

definition revoke_program ::
    "http_env \<Rightarrow> online_clock \<Rightarrow> HeaderMap \<Rightarrow> string \<Rightarrow> HttpState \<Rightarrow> unit handler" where
  "revoke_program env clk headers body st =
     (case online_prologue env clk headers body st (revocation_endpoint (hs_config st)) of
        Inl e \<Rightarrow> Done (Inl e)
      | Inr (tok, claims) \<Rightarrow>
          ok_then (record_client_program claims (oc_record clk)) (\<lambda>_.
          case sts_token_claims env st tok (oc_verify clk) of
            None \<Rightarrow> Done (Ok ())
          | Some token_claims \<Rightarrow>
              Call (Revoke tok (mc_exp token_claims) (oc_revoke clk) (max_seen_jti (hs_config st)))
                (\<lambda>r. Done (revoke_result r))))"

fun request_program :: "http_env \<Rightarrow> HttpState \<Rightarrow> http_request \<Rightarrow> (service_call, service_reply, http_response) program" where
  "request_program env st (TokenRequest clk jti headers body) =
     bind_program (token_program env clk jti headers body st) (\<lambda>r. Done (TokenReply r))"
| "request_program env st (IntrospectRequest clk headers body) =
     bind_program (introspect_program env clk headers body st) (\<lambda>r. Done (IntrospectReply r))"
| "request_program env st (RevokeRequest clk headers body) =
     bind_program (revoke_program env clk headers body st) (\<lambda>r. Done (RevokeReply r))"

section \<open>A request alone\<close>

lemma run_then: "run_program ex (ok_then p f) st = st_then (run_program ex p st) (\<lambda>x. run_program ex (f x))"
  by (simp add: run_ok_then st_then_def)

lemma st_then_cong:
  "r = r' \<Longrightarrow> (\<And>x s. r' = (Inr x, s) \<Longrightarrow> f x s = g x s) \<Longrightarrow> st_then r f = st_then r' g"
  by (auto simp: st_then_def split: prod.split sum.split)

lemma run_record: "run_program (exec_op env) (record_program k x t f) st = check_and_record env st k x t f"
  by (simp add: record_program_def check_and_record_def split: prod.split)

lemma run_record_client:
  "run_program (exec_op env) (record_client_program c t) st = record_client_assertion_replay env st c t"
  by (simp add: record_client_program_def record_client_assertion_replay_def run_record split: sum.split)

lemma run_record_dpop: "run_program (exec_op env) (record_dpop_program env b t) st = record_dpop_replay env st b t"
  by (simp add: record_dpop_program_def record_dpop_replay_def run_record)

lemma run_optional:
  "run_program (exec_op env) (optional_program p v) st = record_optional (\<lambda>x. run_program (exec_op env) (p x)) v st"
  by (simp add: optional_program_def record_optional_def split: option.split)

lemma run_mint:
  assumes "static st' = static st"
  shows "run_program (exec_op env) (mint_program env st exchange decision payload now expiry) st' =
    mint_response env st' exchange decision payload now expiry"
  unfolding mint_program_def mint_response_def static_eqD [OF assms] by (simp split: sum.split)

lemmas run_service = run_then run_record run_record_client run_record_dpop run_optional

lemma exchange_static:
  assumes "static st' = static st"
  shows "token_expiry st' exchange caller now = token_expiry st exchange caller now"
    "exchange_payload st' exchange caller act jti now expiry = exchange_payload st exchange caller act jti now expiry"
  unfolding token_expiry_def exchange_payload_def static_eqD [OF assms] by (rule refl)+

lemma evolves_static: "replay_evolves env t st st' \<Longrightarrow> static st' = static st"
  by (simp add: replay_evolves_def)

lemmas results_static = evolves_results [THEN evolves_static]

text \<open>The end of an exchange, in a state that calls of the replay policy led to.\<close>

lemma run_tail:
  assumes "static s = static st"
  shows "run_program (exec_op env)
      (mint_program env st exchange decision
        (exchange_payload st exchange caller act jti now (token_expiry st exchange caller now)) now
        (token_expiry st exchange caller now)) s =
    mint_response env s exchange decision
      (exchange_payload s exchange caller act jti now (token_expiry s exchange caller now)) now
      (token_expiry s exchange caller now)"
  unfolding run_mint [OF assms] exchange_static [OF assms] ..

lemma run_delegation:
  "run_program (exec_op env) (delegation_program env clk jti st request exchange) st =
     exchange_delegation env clk jti st request exchange"
proof (cases "delegation_checks env clk st request exchange")
  case (Inr r)
  obtain ac decision act aj where r: "r = (ac, decision, act, aj)" by (cases r)
  show ?thesis
    unfolding delegation_program_def exchange_delegation_def Let_def Inr r sum.case prod.case run_service
    by (intro st_then_cong refl run_tail)
       (metis results_static(1) results_static(3) results_static(4))
qed (simp add: delegation_program_def exchange_delegation_def)

lemma run_impersonation:
  "run_program (exec_op env) (impersonation_program env clk jti st request exchange) st =
     exchange_impersonation env clk jti st request exchange"
proof (cases "impersonation_checks st request exchange")
  case (Inr r)
  obtain c decision where r: "r = (c, decision)" by (cases r)
  show ?thesis
    unfolding impersonation_program_def exchange_impersonation_def Let_def Inr r sum.case prod.case run_service
    by (intro st_then_cong refl run_tail) (metis results_static(2) results_static(4))
qed (simp add: impersonation_program_def exchange_impersonation_def)

lemma run_token: "run_program (exec_op env) (token_program env clk jti headers body st) st = token env clk jti headers body st"
proof -
  have inner: "run_program (exec_op env) (token_inner_program env clk jti headers body st) st =
      token_inner env clk jti headers body st"
    by (simp add: token_inner_program_def token_inner_def run_delegation run_impersonation
        split: sum.split prod.split EffectiveExchangeMode.split)
  have count: "run_program (exec_op env) (record_exchange_program r) s =
      (r, s\<lparr>hs_metrics := record_exchange (hs_metrics s) r\<rparr>)" for r :: "(HttpError, TokenResponse) result" and s
    by (simp add: record_exchange_program_def record_exchange_def Let_def split: sum.split option.split)
  show ?thesis by (simp add: token_program_def token_def inner count split: prod.split)
qed

lemma run_introspect:
  "run_program (exec_op env) (introspect_program env clk headers body st) st = introspect env clk headers body st"
proof (cases "online_prologue env clk headers body st (introspection_endpoint (hs_config st))")
  case (Inr r)
  obtain tok c where r: "r = (tok, c)" by (cases r)
  have "run_program (exec_op env)
      (case sts_token_claims env st tok (oc_verify clk) of
            None \<Rightarrow> Done (Ok (JObject [(''active'', JBool False)]))
          | Some token_claims \<Rightarrow> Call (IsRevoked tok (oc_verify clk)) (\<lambda>r.
              Done (Ok (if revoked_of r then JObject [(''active'', JBool False)] else introspection_json token_claims)))) s =
      (case introspection_response_for_token env s tok (oc_verify clk) of (response, st) \<Rightarrow> (Ok response, st))"
    if "static s = static st" for s
    unfolding introspection_response_for_token_def verified_alt sts_token_claims_static [OF that]
    by (simp add: introspection_json_def split: option.split prod.split)
  then show ?thesis
    unfolding introspect_program_def introspect_alt Inr r sum.case prod.case run_service
    by (intro st_then_cong refl) (use results_static(2) in blast)
qed (simp add: introspect_program_def introspect_alt)

lemma run_revoke: "run_program (exec_op env) (revoke_program env clk headers body st) st = revoke env clk headers body st"
proof (cases "online_prologue env clk headers body st (revocation_endpoint (hs_config st))")
  case (Inr r)
  obtain tok c where r: "r = (tok, c)" by (cases r)
  have "run_program (exec_op env)
      (case sts_token_claims env st tok (oc_verify clk) of
            None \<Rightarrow> Done (Ok ())
          | Some token_claims \<Rightarrow>
              Call (Revoke tok (mc_exp token_claims) (oc_revoke clk) (max_seen_jti (hs_config st)))
                (\<lambda>r. Done (revoke_result r))) s =
      (case sts_token_claims env s tok (oc_verify clk) of
             None \<Rightarrow> (Ok (), s)
           | Some token_claims \<Rightarrow>
               (case revoke_token (he_jose env) (hs_revocations s) tok (mc_exp token_claims) (oc_revoke clk)
                       (max_seen_jti (hs_config s)) of
                  (r, rs) \<Rightarrow> (r, s\<lparr>hs_revocations := rs\<rparr>)))"
    if "static s = static st" for s
    unfolding sts_token_claims_static [OF that] static_eqD(1) [OF that] by (simp split: option.split prod.split)
  then show ?thesis
    unfolding revoke_program_def revoke_alt Inr r sum.case prod.case run_service
    by (intro st_then_cong refl) (use results_static(2) in blast)
qed (simp add: revoke_program_def revoke_alt)

lemma run_request: "run_program (exec_op env) (request_program env st q) st = serve env st q"
  by (cases q) (simp_all add: run_token run_introspect run_revoke split: prod.split)

text \<open>A handler's program depends on the fields that no handler changes.\<close>

lemma online_prologue_static:
  assumes "static st' = static st"
  shows "online_prologue env clk headers body st' own_endpoint = online_prologue env clk headers body st own_endpoint"
  unfolding online_prologue_def authenticate_online_client_def check_client_assertion_def static_eqD [OF assms] ..

lemma request_program_static:
  assumes "static st' = static st"
  shows "request_program env st' q = request_program env st q"
proof (cases q)
  case (TokenRequest clk jti h b)
  show ?thesis unfolding TokenRequest request_program.simps token_program_def token_inner_program_def delegation_program_def
    impersonation_program_def mint_program_def checks_static [OF assms] exchange_static [OF assms] static_eqD [OF assms] ..
next
  case (IntrospectRequest clk h b)
  show ?thesis unfolding IntrospectRequest request_program.simps introspect_program_def
    online_prologue_static [OF assms] sts_token_claims_static [OF assms] static_eqD [OF assms] ..
next
  case (RevokeRequest clk h b)
  show ?thesis unfolding RevokeRequest request_program.simps revoke_program_def
    online_prologue_static [OF assms] sts_token_claims_static [OF assms] static_eqD [OF assms] ..
qed

lemma run_request_static: "static st' = static st \<Longrightarrow> run_program (exec_op env) (request_program env st q) st' = serve env st' q"
  using run_request [of env st' q] request_program_static by metis

text \<open>A request whose calls are not interrupted is a step of the sequential service.\<close>

lemma pool_serves:
  assumes "static st' = static st" "i < length ps" "ps ! i = request_program env st q"
  shows "pool_run (exec_op env) (st', ps) (snd (serve env st' q), ps[i := Done (fst (serve env st' q))])"
  using pool_run_alone [OF assms(2,3), of "exec_op env" st'] run_request_static [OF assms(1), of env q] by simp

section \<open>A replay key as a resource\<close>

text \<open>Recorded until \<open>T\<close>, a time that no clock passes.\<close>

definition key_inv :: "HttpState \<Rightarrow> bool" where
  "key_inv st \<longleftrightarrow> policy_invar (hs_replay st)"

definition key_taken :: "http_env \<Rightarrow> int \<Rightarrow> string \<Rightarrow> HttpState \<Rightarrow> bool" where
  "key_taken env T k st \<longleftrightarrow>
     (\<exists>x. policy_recorded (sha256 (he_jose env)) (hs_replay st) k = Some x \<and> T \<le> x)"

text \<open>\<open>P\<close> is asked of the key, the expiry and the clock of every record.\<close>

fun record_allowed :: "(string \<Rightarrow> int \<Rightarrow> int \<Rightarrow> bool) \<Rightarrow> service_call \<Rightarrow> bool" where
  "record_allowed P (Record k x now) \<longleftrightarrow> P k x now"
| "record_allowed P _ \<longleftrightarrow> True"

abbreviation key_allowed :: "int \<Rightarrow> service_call \<Rightarrow> bool" where
  "key_allowed T \<equiv> record_allowed (\<lambda>_ _ now. now \<le> T)"

fun key_claims :: "int \<Rightarrow> string \<Rightarrow> service_call \<Rightarrow> service_reply \<Rightarrow> bool" where
  "key_claims T k (Record k' x now) r \<longleftrightarrow> k' = k \<and> T \<le> x \<and> in_i64 x \<and> r = Recorded (Ok ())"
| "key_claims T k _ r \<longleftrightarrow> False"

lemma exec_replay:
  "hs_replay (snd (exec_op env (Record k x now) st)) = snd (replay_car env (hs_replay st) k x now)"
  "fst (exec_op env (Record k x now) st) = Recorded (fst (replay_car env (hs_replay st) k x now))"
  by (simp_all split: prod.split)

lemma exec_replay_other:
  "\<not> (\<exists>k x now. op = Record k x now) \<Longrightarrow> hs_replay (snd (exec_op env op st)) = hs_replay st"
  by (cases op) (auto split: prod.split)

interpretation replay_key: guarded_resource "exec_op env" key_inv "key_taken env T k" "key_allowed T"
    "\<lambda>_ _. True" "key_claims T k"
  for env T k
proof (unfold_locales, goal_cases)
  case (1 st op)
  then show ?case
    using policy.invar_car by (cases "\<exists>k x now. op = Record k x now") (auto simp: key_inv_def exec_replay exec_replay_other simp del: exec_op.simps)
next
  case (3 st op)
  then show ?case
    using policy.keeps_live by (cases "\<exists>k x now. op = Record k x now")
      (fastforce simp: key_inv_def key_taken_def exec_replay exec_replay_other simp del: exec_op.simps)+
next
  case (4 st op)
  then show ?case
    using policy.records by (cases op) (auto simp: key_inv_def key_taken_def exec_replay simp del: exec_op.simps)
next
  case (5 st op)
  then show ?case
    using policy.refuses_live by (cases op) (fastforce simp: key_inv_def key_taken_def exec_replay simp del: exec_op.simps)+
qed simp

subsection \<open>A success takes the keys of the credentials\<close>

abbreviation needs_key :: "int \<Rightarrow> string \<Rightarrow> 'a handler \<Rightarrow> bool" where
  "needs_key T k \<equiv> must_claim (\<lambda>_ _. True) (key_claims T k) (\<lambda>r. \<not> isl r)"

lemma needs_record:
  assumes "T \<le> x" "in_i64 x"
  shows "needs_key T k (record_program k x t f)"
proof -
  have "recorded_of r = Ok () \<Longrightarrow> r = Recorded (Ok ())" for r by (cases r) (auto simp: replay_store_unavailable_def)
  then have "isl (map_err f (recorded_of r))" if "r \<noteq> Recorded (Ok ())" for r
    using that by (cases "recorded_of r") (auto simp: map_err_def)
  then show ?thesis using assms by (auto simp: record_program_def)
qed

lemma needs_client:
  "T \<le> as_exp c \<Longrightarrow> in_i64 (as_exp c) \<Longrightarrow> client_assertion_jti c = Inr j \<Longrightarrow>
     needs_key T (client_replay_key c j) (record_client_program c t)"
  by (simp add: record_client_program_def needs_record)

lemma needs_first: "needs_key T k p \<Longrightarrow> needs_key T k (ok_then p f)"
  by (rule must_claim_ok_first) simp_all

lemma needs_rest: "(\<And>x. needs_key T k (f x)) \<Longrightarrow> needs_key T k (ok_then p f)"
  by (rule must_claim_ok_rest) simp_all

text \<open>The credentials that a request carries, with the replay key and the expiry it records for them.\<close>

inductive presents :: "http_env \<Rightarrow> HttpState \<Rightarrow> http_request \<Rightarrow> string \<Rightarrow> int \<Rightarrow> bool" for env st where
  actor: "form_actor_token env headers body = Some tok \<Longrightarrow> inbound_claims env st (hs_actor_jwks st) tok = Some c \<Longrightarrow>
    as_jti c = Some j \<Longrightarrow> presents env st (TokenRequest clk jti headers body) (actor_replay_key c j) (as_exp c)"
| client: "presented_client_assertion env q = Some tok \<Longrightarrow> inbound_claims env st (hs_client_jwks st) tok = Some c \<Longrightarrow>
    client_assertion_jti c = Inr j \<Longrightarrow> presents env st q (client_replay_key c j) (as_exp c)"
| dpop: "hm_dpop headers = [Some prf] \<Longrightarrow>
    validate_dpop_proof (he_dpop env) (he_url env)
      \<lparr>req_proof = prf, req_htm = ''POST'', req_htu = token_endpoint (hs_config st), req_now = tc_dpop clk,
       req_leeway = clock_skew_leeway (hs_config st)\<rparr> = Inr d \<Longrightarrow>
    presents env st (TokenRequest clk jti headers body)
      (dpop_replay_key (sha256 (he_jose env)) (db_jkt d) (db_jti d)) (db_replay_expires_at d)"

lemma token_needs:
  assumes "\<And>request exchange. token_checks env clk st headers body = Inr (EffDelegation, request, exchange) \<Longrightarrow>
      needs_key T k (delegation_program env clk jti st request exchange)"
    and "\<And>request exchange. token_checks env clk st headers body = Inr (EffImpersonation, request, exchange) \<Longrightarrow>
      needs_key T k (impersonation_program env clk jti st request exchange)"
  shows "must_claim (\<lambda>_ _. True) (key_claims T k) reply_ok (request_program env st (TokenRequest clk jti headers body))"
proof -
  have "needs_key T k (token_inner_program env clk jti headers body st)"
    using assms by (auto simp: token_inner_program_def split: sum.split prod.split EffectiveExchangeMode.split)
  then have "needs_key T k (token_program env clk jti headers body st)" unfolding token_program_def
    by (rule must_claim_bind) (auto simp: record_exchange_program_def isl_def split: option.split)
  then show ?thesis unfolding request_program.simps
    by (rule must_claim_bind) (auto simp: is_ok_def isl_def)
qed

lemma checks_actor:
  assumes "token_checks env clk st headers body = Inr (mode, request, exchange)" "form_actor_token env headers body = Some tok"
  shows "er_actor_token request = Some tok"
  using assms by (auto simp: form_actor_token_def elim!: token_checks_ok)

lemma checks_client:
  assumes "token_checks env clk st headers body = Inr (mode, request, exchange)"
    "presented_client_assertion env (TokenRequest clk jti headers body) = Some tok"
    "inbound_claims env st (hs_client_jwks st) tok = Some c"
  shows "ve_client_claims exchange = Some c"
proof -
  from assms(1) obtain form where f: "parse_token_form headers (he_form_parse env body) = Inr form"
    "request = into_exchange_request form"
    "authenticate_client_if_present env clk st request mode = Inr (ve_client_claims exchange)" by (elim token_checks_ok)
  with assms(2) have a: "er_client_assertion request = Some tok" by simp
  then have "has_client_auth request" by (simp add: has_client_auth_def)
  with authenticate_ok [OF f(3)] check_client_claims [OF _ a assms(3)] show ?thesis by (auto split: option.splits)
qed

lemma checks_dpop:
  assumes "token_checks env clk st headers body = Inr (mode, request, exchange)" "hm_dpop headers = [Some prf]"
    "validate_dpop_proof (he_dpop env) (he_url env)
      \<lparr>req_proof = prf, req_htm = ''POST'', req_htu = token_endpoint (hs_config st), req_now = tc_dpop clk,
       req_leeway = clock_skew_leeway (hs_config st)\<rparr> = Inr d"
  shows "ve_dpop_binding exchange = Some d"
proof -
  from assms(1) have "validate_dpop_header env headers st (tc_dpop clk) = Inr (ve_dpop_binding exchange)"
    by (elim token_checks_ok)
  then show ?thesis using assms(2,3) by (auto simp: validate_dpop_header_def result_iff)
qed

subsection \<open>A request records only what it presents\<close>

abbreviation records_only :: "(string \<Rightarrow> int \<Rightarrow> int \<Rightarrow> bool) \<Rightarrow> (service_call, service_reply, 'a) program \<Rightarrow> bool" where
  "records_only P \<equiv> obeys (record_allowed P) (\<lambda>_ _. True)"

lemma only_record: "P k x t \<Longrightarrow> records_only P (record_program k x t f)"
  by (simp add: record_program_def)

lemma only_client:
  "(\<And>j. client_assertion_jti c = Inr j \<Longrightarrow> P (client_replay_key c j) (as_exp c) t) \<Longrightarrow> records_only P (record_client_program c t)"
  by (auto simp: record_client_program_def intro: only_record split: sum.split)

lemma only_dpop:
  "P (dpop_replay_key (sha256 (he_jose env)) (db_jkt b) (db_jti b)) (db_replay_expires_at b) t \<Longrightarrow>
     records_only P (record_dpop_program env b t)"
  by (simp add: record_dpop_program_def only_record)

lemma only_optional: "(\<And>x. v = Some x \<Longrightarrow> records_only P (p x)) \<Longrightarrow> records_only P (optional_program p v)"
  by (simp add: optional_program_def split: option.split)

lemma only_mint: "records_only P (mint_program env st exchange decision payload now expiry)"
  by (simp add: mint_program_def split: sum.split)

lemmas only_intros = obeys_ok_then only_record only_client only_dpop only_optional only_mint

lemma recorded_actor_presented:
  assumes "token_checks env clk st headers body = Inr (mode, request, exchange)"
    "delegation_checks env clk st request exchange = Inr (ac, decision, act, aj)"
  shows "presents env st (TokenRequest clk jti headers body) (actor_replay_key ac aj) (as_exp ac)"
proof -
  from assms(1) obtain form where f: "parse_token_form headers (he_form_parse env body) = Inr form"
    "request = into_exchange_request form" by (elim token_checks_ok)
  from assms(2) obtain tok where v: "er_actor_token request = Some tok"
    "verify_actor_token env clk st tok (er_subject_token request) = Inr ac" "as_jti ac = Some aj" by (elim delegation_checks_ok)
  have "inbound_claims env st (hs_actor_jwks st) tok = Some ac"
    by (rule verify_assertion_claims(1) [OF v(2) [unfolded verify_actor_token_def]])
  with v f show ?thesis by (intro presents.actor) (simp_all add: form_actor_token_def)
qed

lemma recorded_client_presented:
  assumes "token_checks env clk st headers body = Inr (mode, request, exchange)"
    "ve_client_claims exchange = Some c" "client_assertion_jti c = Inr j"
  shows "presents env st (TokenRequest clk jti headers body) (client_replay_key c j) (as_exp c)"
proof -
  from assms(1) obtain form where f: "parse_token_form headers (he_form_parse env body) = Inr form"
    "request = into_exchange_request form"
    "authenticate_client_if_present env clk st request mode = Inr (ve_client_claims exchange)" by (elim token_checks_ok)
  from authenticate_ok [OF f(3)] assms(2) obtain a where "er_client_assertion request = Some a"
    "inbound_claims env st (hs_client_jwks st) a = Some c" using verify_assertion_claims(1) by (auto elim!: check_client_ok)
  with f assms(3) show ?thesis by (intro presents.client) simp_all
qed

lemma recorded_dpop_presented:
  assumes "token_checks env clk st headers body = Inr (mode, request, exchange)" "ve_dpop_binding exchange = Some d"
  shows "presents env st (TokenRequest clk jti headers body)
    (dpop_replay_key (sha256 (he_jose env)) (db_jkt d) (db_jti d)) (db_replay_expires_at d)"
proof -
  from assms(1) have "validate_dpop_header env headers st (tc_dpop clk) = Inr (ve_dpop_binding exchange)"
    by (elim token_checks_ok)
  with assms(2) show ?thesis
    by (auto simp: validate_dpop_header_def result_iff split: list.splits option.splits intro: presents.dpop)
qed

lemma recorded_online_presented:
  assumes "online_prologue env clk headers body st own_endpoint = Inr (tok, c)" "client_assertion_jti c = Inr j"
  shows "presents env st (IntrospectRequest clk headers body) (client_replay_key c j) (as_exp c)"
    "presents env st (RevokeRequest clk headers body) (client_replay_key c j) (as_exp c)"
proof -
  from assms(1) obtain form where f: "parse_online_token_form headers (he_form_parse env body) = Inr form"
    "authenticate_online_client env clk st form own_endpoint = Inr c" by (auto simp: online_prologue_def and_then_ok)
  then obtain a where "of_client_assertion form = Some a" "inbound_claims env st (hs_client_jwks st) a = Some c"
    using verify_assertion_claims(1)
    by (auto simp: authenticate_online_client_def Let_def exchange_request_default_def split: if_splits elim!: check_client_ok)
  with f assms(2) show "presents env st (IntrospectRequest clk headers body) (client_replay_key c j) (as_exp c)"
    "presents env st (RevokeRequest clk headers body) (client_replay_key c j) (as_exp c)"
    by (auto intro!: presents.client)
qed

lemma records_presented:
  assumes "\<And>k x. presents env st q k x \<Longrightarrow> P k x (record_clock q)"
  shows "records_only P (request_program env st q)"
proof (cases q)
  case (TokenRequest clk jti h b)
  with assms have p: "\<And>k x. presents env st (TokenRequest clk jti h b) k x \<Longrightarrow> P k x (tc_now clk)" by simp
  have "records_only P (delegation_program env clk jti st request exchange)"
    if "token_checks env clk st h b = Inr (mode, request, exchange)" for mode request exchange
    using p recorded_actor_presented [OF that] recorded_client_presented [OF that] recorded_dpop_presented [OF that]
    by (auto simp: delegation_program_def Let_def intro!: only_intros split: sum.split prod.split)
  moreover have "records_only P (impersonation_program env clk jti st request exchange)"
    if "token_checks env clk st h b = Inr (mode, request, exchange)" for mode request exchange
    using p recorded_client_presented [OF that] recorded_dpop_presented [OF that]
    by (auto simp: impersonation_program_def Let_def intro!: only_intros elim!: impersonation_checks_ok split: sum.split prod.split)
  ultimately show ?thesis
    by (auto simp: TokenRequest token_program_def token_inner_program_def record_exchange_program_def intro!: obeys_bind
        split: sum.split option.split EffectiveExchangeMode.split)
next
  case (IntrospectRequest clk h b)
  with assms recorded_online_presented(1) show ?thesis
    by (auto simp: introspect_program_def intro!: obeys_bind only_intros split: sum.split option.split)
next
  case (RevokeRequest clk h b)
  with assms recorded_online_presented(2) show ?thesis
    by (auto simp: revoke_program_def intro!: obeys_bind only_intros split: sum.split option.split)
qed

text \<open>Where the exchange programs take each key.\<close>

lemma delegation_needs_actor:
  assumes "er_actor_token request = Some tok" "inbound_claims env st (hs_actor_jwks st) tok = Some c" "as_jti c = Some j"
    "T \<le> as_exp c" "in_i64 (as_exp c)"
  shows "needs_key T (actor_replay_key c j) (delegation_program env clk jti st request exchange)"
proof (cases "delegation_checks env clk st request exchange")
  case (Inr r)
  obtain ac decision act aj where r: "r = (ac, decision, act, aj)" by (cases r)
  from Inr [unfolded r] assms(1) have v: "verify_actor_token env clk st tok (er_subject_token request) = Inr ac"
    "as_jti ac = Some aj" by (auto elim!: delegation_checks_ok)
  from verify_assertion_claims(1) [OF v(1) [unfolded verify_actor_token_def]] assms(2,3) v(2) have "ac = c" "aj = j" by auto
  with Inr r assms(4,5) show ?thesis by (simp add: delegation_program_def Let_def needs_first needs_record)
qed (simp add: delegation_program_def)

lemma delegation_needs_client:
  assumes "ve_client_claims exchange = Some c" "client_assertion_jti c = Inr j" "T \<le> as_exp c" "in_i64 (as_exp c)"
  shows "needs_key T (client_replay_key c j) (delegation_program env clk jti st request exchange)"
  using assms by (simp add: delegation_program_def Let_def optional_program_def needs_rest needs_first needs_client
      split: sum.split prod.split)

lemma delegation_needs_dpop:
  assumes "ve_dpop_binding exchange = Some d" "T \<le> db_replay_expires_at d" "in_i64 (db_replay_expires_at d)"
  shows "needs_key T (dpop_replay_key (sha256 (he_jose env)) (db_jkt d) (db_jti d))
     (delegation_program env clk jti st request exchange)"
  using assms by (simp add: delegation_program_def Let_def optional_program_def record_dpop_program_def
      needs_rest needs_first needs_record split: sum.split prod.split)

lemma impersonation_needs_client:
  assumes "ve_client_claims exchange = Some c" "client_assertion_jti c = Inr j" "T \<le> as_exp c" "in_i64 (as_exp c)"
  shows "needs_key T (client_replay_key c j) (impersonation_program env clk jti st request exchange)"
proof (cases "impersonation_checks st request exchange")
  case (Inr r)
  obtain cc decision where r: "r = (cc, decision)" by (cases r)
  from Inr [unfolded r] assms(1) have "cc = c" by (auto elim!: impersonation_checks_ok)
  with Inr r assms show ?thesis by (simp add: impersonation_program_def Let_def needs_first needs_client)
qed (simp add: impersonation_program_def)

lemma impersonation_needs_dpop:
  assumes "ve_dpop_binding exchange = Some d" "T \<le> db_replay_expires_at d" "in_i64 (db_replay_expires_at d)"
  shows "needs_key T (dpop_replay_key (sha256 (he_jose env)) (db_jkt d) (db_jti d))
     (impersonation_program env clk jti st request exchange)"
  using assms by (simp add: impersonation_program_def Let_def optional_program_def record_dpop_program_def
      needs_rest needs_first needs_record split: sum.split prod.split)

lemma impersonation_no_actor:
  "er_actor_token request = Some tok \<Longrightarrow> needs_key T k (impersonation_program env clk jti st request exchange)"
  by (simp add: impersonation_program_def impersonation_checks_def)

lemma online_client:
  assumes "online_prologue env clk headers body st own_endpoint = Inr (tok', cc)"
    "parse_online_token_form headers (he_form_parse env body) = Inr form" "of_client_assertion form = Some tok"
    "inbound_claims env st (hs_client_jwks st) tok = Some c"
  shows "cc = c"
proof -
  from assms(1,2) have "authenticate_online_client env clk st form own_endpoint = Inr cc"
    by (auto simp: online_prologue_def and_then_ok)
  then show ?thesis
    using assms(3,4) by (auto simp: authenticate_online_client_def Let_def exchange_request_default_def split: if_splits
        dest!: check_client_claims)
qed

lemma online_needs_client:
  assumes "parse_online_token_form headers (he_form_parse env body) = Inr form" "of_client_assertion form = Some tok"
    "inbound_claims env st (hs_client_jwks st) tok = Some c" "client_assertion_jti c = Inr j" "T \<le> as_exp c" "in_i64 (as_exp c)"
  shows "needs_key T (client_replay_key c j) (introspect_program env clk headers body st)"
    "needs_key T (client_replay_key c j) (revoke_program env clk headers body st)"
  using assms(4-6) online_client [OF _ assms(1-3)]
  by (auto simp: introspect_program_def revoke_program_def intro!: needs_first needs_client split: sum.split prod.split)

lemma presents_needs:
  assumes "presents env st q k x" "T \<le> x" "in_i64 x"
  shows "must_claim (\<lambda>_ _. True) (key_claims T k) reply_ok (request_program env st q)"
  using assms
proof (induction rule: presents.induct)
  case (actor headers body tok c j clk jti)
  then show ?case
    by (intro token_needs) (auto dest: checks_actor intro: delegation_needs_actor impersonation_no_actor)
next
  case (dpop headers pf clk d jti body)
  then show ?case
    by (intro token_needs delegation_needs_dpop impersonation_needs_dpop checks_dpop) auto
next
  case (client q tok c j)
  show ?case
  proof (cases q)
    case (TokenRequest clk jti h b)
    with client show ?thesis
      by (auto intro!: token_needs delegation_needs_client impersonation_needs_client checks_client simp del: request_program.simps)
  next
    case (IntrospectRequest clk h b)
    with client have "needs_key T (client_replay_key c j) (introspect_program env clk h b st)"
      by (auto intro!: online_needs_client split: sum.splits)
    then show ?thesis unfolding IntrospectRequest request_program.simps by (rule must_claim_bind) (auto simp: is_ok_def isl_def)
  next
    case (RevokeRequest clk h b)
    with client have "needs_key T (client_replay_key c j) (revoke_program env clk h b st)"
      by (auto intro!: online_needs_client split: sum.splits)
    then show ?thesis unfolding RevokeRequest request_program.simps by (rule must_claim_bind) (auto simp: is_ok_def isl_def)
  qed
qed

section \<open>Properties\<close>

text \<open>
  A handler, written as the sequence of its calls on the shared state, does alone what \<open>serve\<close>
  says: the same response and the same next state, for every request and every state.
\<close>

theorem request_calls_alone:
  "run_program (exec_op env) (request_program env st q) st = serve env st q"
  by (rule run_request)

text \<open>
  C3: credentials are used once under every interleaving of the requests. Any number of requests runs
  at the same time on a service with the in-memory replay store, and their calls on the shared
  state interleave in any order. Of two requests that carry credentials with the same replay key (the same
  actor token, client assertion or DPoP proof) at most one succeeds, as long as no request's clock passes
  the expiries, and none succeeds if the key is recorded at the start.
\<close>

theorem concurrent_single_use:
  assumes "hs_replay st = MemoryStore m" "mem_invar m"
    and "pool_run (exec_op env) (st, map (request_program env st) qs) (st', ps)"
    and "list_all (\<lambda>q. record_clock q \<le> T) qs"
    and "i < length qs" "l < length qs" "i \<noteq> l" "presents env st (qs ! i) k x" "presents env st (qs ! l) k y"
    and "T \<le> x" "T \<le> y" "in_i64 x" "in_i64 y" "ps ! i = Done a" "ps ! l = Done b"
  shows "\<not> (reply_ok a \<and> reply_ok b) \<and> (\<forall>z. map_of (seen m) k = Some z \<and> T \<le> z \<longrightarrow> \<not> reply_ok a)"
proof -
  have inv: "key_inv st" using assms(1,2) by (simp add: key_inv_def)
  have o: "replay_key.orderly T (st, map (request_program env st) qs)"
    using inv assms(4) by (auto simp: replay_key.orderly_def list_all_iff records_presented)
  have needs: "must_claim (\<lambda>_ _. True) (key_claims T k) reply_ok (map (request_program env st) qs ! i)"
    "must_claim (\<lambda>_ _. True) (key_claims T k) reply_ok (map (request_program env st) qs ! l)"
    using presents_needs [OF assms(8,10,12)] presents_needs [OF assms(9,11,13)] assms(5,6) by simp_all
  have "key_taken env T k st" if "map_of (seen m) k = Some z" "T \<le> z" for z
    using that assms(1) by (simp add: key_taken_def)
  then show ?thesis
    using replay_key.one_winner [OF assms(3) o _ _ assms(7) needs assms(14,15)]
      replay_key.no_winner [OF assms(3) o _ _ needs(1) assms(14)] assms(5,6) by auto
qed

end
