(* ===== verification/Concurrent_Revocation.thy ===== *)
theory Concurrent_Revocation
  imports Service_Tokens Service_Concurrent
begin

text \<open>
  Revocation and introspection that run at the same time. The record of a revoked token is a flag of
  the shared state: a revocation that was answered with success has set it, and an introspection that
  starts later must find it clear to report the token as active.
\<close>

section \<open>The record of a revoked token as a flag\<close>

text \<open>The token is recorded with its expiry \<open>x\<close>, or is expired at \<open>T\<close>, a time that no clock passes.\<close>

definition mark_inv :: "HttpState \<Rightarrow> bool" where
  "mark_inv st \<longleftrightarrow> distinct (map fst (rev_revoked (hs_revocations st)))"

definition mark_taken :: "http_env \<Rightarrow> int \<Rightarrow> int \<Rightarrow> string \<Rightarrow> HttpState \<Rightarrow> bool" where
  "mark_taken env T x tok st \<longleftrightarrow>
     (T \<le> x \<longrightarrow> map_of (rev_revoked (hs_revocations st)) (revocation_key (he_jose env) tok) = Some x)"

fun mark_allowed :: "http_env \<Rightarrow> int \<Rightarrow> int \<Rightarrow> string \<Rightarrow> service_call \<Rightarrow> bool" where
  "mark_allowed env T x tok (IsRevoked tok' now) \<longleftrightarrow> now \<le> T"
| "mark_allowed env T x tok (Revoke tok' y now n) \<longleftrightarrow>
     now \<le> T \<and> (revocation_key (he_jose env) tok' = revocation_key (he_jose env) tok \<longrightarrow> y = x)"
| "mark_allowed env T x tok _ \<longleftrightarrow> True"

fun mark_sets :: "int \<Rightarrow> string \<Rightarrow> service_call \<Rightarrow> service_reply \<Rightarrow> bool" where
  "mark_sets x tok (Revoke tok' y now n) r \<longleftrightarrow> tok' = tok \<and> y = x \<and> r = RevokeDone (Ok ())"
| "mark_sets x tok _ r \<longleftrightarrow> False"

fun mark_passes :: "int \<Rightarrow> int \<Rightarrow> string \<Rightarrow> service_call \<Rightarrow> service_reply \<Rightarrow> bool" where
  "mark_passes T x tok (IsRevoked tok' now) r \<longleftrightarrow> tok' = tok \<and> T \<le> x \<and> r = RevokedFlag False"
| "mark_passes T x tok _ r \<longleftrightarrow> False"

lemma exec_revocations:
  "hs_revocations (snd (exec_op env (IsRevoked tok now) st)) =
     snd (is_revoked_or_unavailable (he_jose env) (hs_revocations st) tok now)"
  "fst (exec_op env (IsRevoked tok now) st) =
     RevokedFlag (fst (is_revoked_or_unavailable (he_jose env) (hs_revocations st) tok now))"
  "hs_revocations (snd (exec_op env (Revoke tok x now n) st)) =
     snd (revoke_token (he_jose env) (hs_revocations st) tok x now n)"
  "fst (exec_op env (Revoke tok x now n) st) =
     RevokeDone (fst (revoke_token (he_jose env) (hs_revocations st) tok x now n))"
  "hs_revocations (snd (exec_op env (Record k x now) st)) = hs_revocations st"
  "hs_revocations (snd (exec_op env (CountSigning decision) st)) = hs_revocations st"
  "hs_revocations (snd (exec_op env CountMinted st)) = hs_revocations st"
  "hs_revocations (snd (exec_op env CountDenied st)) = hs_revocations st"
  "hs_revocations (snd (exec_op env (CountCode code) st)) = hs_revocations st"
  by (simp_all split: prod.split)

lemma revocations_distinct:
  assumes "distinct (map fst (rev_revoked rs))"
  shows "distinct (map fst (rev_revoked (snd (is_revoked_or_unavailable E rs tok now))))"
    "distinct (map fst (rev_revoked (snd (revoke_token E rs tok x now n))))"
  using assms by (simp_all add: is_revoked_or_unavailable_def revoke_token_def Let_def sweep_revoked_wf(1) distinct_update)

lemma mark_kept:
  assumes "mark_inv st" "mark_allowed env T x tok op" "mark_taken env T x tok st"
  shows "mark_taken env T x tok (snd (exec_op env op st))"
proof -
  have "map_of (sweep_revoked (rev_revoked (hs_revocations st)) now) (revocation_key (he_jose env) tok) = Some x"
    if "now \<le> T" "T \<le> x" for now
    using that assms(1,3) by (intro map_of_sweep_revoked) (simp_all add: mark_inv_def mark_taken_def)
  then show ?thesis using assms(2,3)
    by (cases op) (auto simp: mark_taken_def exec_revocations is_revoked_or_unavailable_def revoke_token_def Let_def
        update_conv simp del: exec_op.simps)
qed

interpretation revoked_mark: flag_setter "exec_op env" mark_inv "mark_taken env T x tok" "mark_allowed env T x tok"
    "\<lambda>_ _. True" "mark_sets x tok"
  for env T x tok
proof (unfold_locales, goal_cases)
  case (1 st op)
  then show ?case
    by (cases op) (simp_all add: mark_inv_def exec_revocations revocations_distinct del: exec_op.simps)
next
  case (3 st op)
  then show ?case by (rule mark_kept)
next
  case (4 st op)
  then show ?case
    by (cases op) (auto simp: mark_taken_def exec_revocations prod_eq_iff simp del: exec_op.simps
        intro!: revoke_token_records [of _ _ _ _ _ _ "snd _"])
qed simp

interpretation active_mark: flag_tester "exec_op env" mark_inv "mark_taken env T x tok" "mark_allowed env T x tok"
    "\<lambda>_ _. True" "mark_passes T x tok"
  for env T x tok
proof (unfold_locales, goal_cases)
  case (1 st op)
  then have "\<not> T \<le> x \<or> map_of (sweep_revoked (rev_revoked (hs_revocations st)) now) (revocation_key (he_jose env) tok) = Some x"
    if "now \<le> T" "mark_taken env T x tok st" for now
    using that map_of_sweep_revoked [of "rev_revoked (hs_revocations st)" "revocation_key (he_jose env) tok" x now]
    by (auto simp: mark_inv_def mark_taken_def)
  with 1 show ?case
    by (cases op) (auto simp: exec_revocations is_revoked_or_unavailable_def Let_def simp del: exec_op.simps split: if_splits)
qed

section \<open>Handlers and the flag\<close>

abbreviation marks_by :: "http_env \<Rightarrow> int \<Rightarrow> int \<Rightarrow> string \<Rightarrow> (service_call, service_reply, 'a) program \<Rightarrow> bool" where
  "marks_by env T x tok \<equiv> obeys (mark_allowed env T x tok) (\<lambda>_ _. True)"

lemma mark_record: "marks_by env T x tok (record_program k y t f)"
  by (simp add: record_program_def)

lemma mark_client: "marks_by env T x tok (record_client_program c t)"
  by (simp add: record_client_program_def mark_record split: sum.split)

lemma mark_dpop: "marks_by env T x tok (record_dpop_program env' b t)"
  by (simp add: record_dpop_program_def mark_record)

lemma mark_optional: "(\<And>y. marks_by env T x tok (p y)) \<Longrightarrow> marks_by env T x tok (optional_program p v)"
  by (simp add: optional_program_def split: option.split)

lemma mark_mint: "marks_by env T x tok (mint_program env' st exchange decision payload now expiry)"
  by (simp add: mint_program_def split: sum.split)

lemmas mark_intros = obeys_ok_then mark_record mark_client mark_dpop mark_optional mark_mint

lemma mark_token: "marks_by env T x tok (token_program env' clk jti headers body st)"
  unfolding token_program_def
  by (rule obeys_bind)
     (auto simp: token_inner_program_def delegation_program_def impersonation_program_def Let_def record_exchange_program_def
       intro!: mark_intros split: sum.split prod.split EffectiveExchangeMode.split option.split)

lemma mark_request:
  assumes "no_collision env tok q" "case sweep_clock q of None \<Rightarrow> True | Some t \<Rightarrow> t \<le> T"
    "sts_token_claims env st tok t0 = Some c"
  shows "marks_by env T (mc_exp c) tok (request_program env st q)"
proof (cases q)
  case (TokenRequest clk jti h b)
  then show ?thesis by (auto intro!: obeys_bind mark_token)
next
  case (IntrospectRequest clk h b)
  with assms(2) show ?thesis
    by (auto simp: introspect_program_def intro!: obeys_bind mark_intros split: sum.split option.split)
next
  case (RevokeRequest clk h b)
  have "mc_exp c' = mc_exp c"
    if "online_prologue env clk h b st own_endpoint = Inr (tok', cc)" "sts_token_claims env st tok' t = Some c'"
      "revocation_key (he_jose env) tok' = revocation_key (he_jose env) tok" for own_endpoint tok' cc t c'
    using that assms(1) prologue_token [OF that(1)] sts_token_claims_exp [OF assms(3)] RevokeRequest
    by (auto simp: no_collision_def)
  with RevokeRequest assms(2) show ?thesis
    by (auto simp: revoke_program_def intro!: obeys_bind mark_intros split: sum.split option.split)
qed

lemma revoke_sets:
  assumes "form_online_token env headers body = Some tok" "sts_token_claims env st tok (oc_verify clk) = Some c"
  shows "must_claim (\<lambda>_ _. True) (mark_sets (mc_exp c) tok) (\<lambda>a. a = RevokeReply (Ok ()))
    (request_program env st (RevokeRequest clk headers body))"
proof -
  have r: "revoke_result r = Ok () \<Longrightarrow> r = RevokeDone (Ok ())" for r by (cases r) auto
  have "must_claim (\<lambda>_ _. True) (mark_sets (mc_exp c) tok) (\<lambda>a. a = Ok ()) (revoke_program env clk headers body st)"
    using assms prologue_token
    by (auto simp: revoke_program_def dest: r intro!: must_claim_ok_rest split: sum.split option.split; fastforce dest: r)
  then show ?thesis unfolding request_program.simps by (rule must_claim_bind) auto
qed

lemma introspect_passes:
  assumes "form_online_token env headers body = Some tok" "sts_token_claims env st tok t0 = Some c"
  shows "must_claim (\<lambda>_ _. True) (mark_passes (oc_verify clk) (mc_exp c) tok)
    (\<lambda>a. \<exists>r. a = IntrospectReply (Ok r) \<and> r \<noteq> JObject [(''active'', JBool False)])
    (request_program env st (IntrospectRequest clk headers body))"
proof -
  have r: "\<not> revoked_of r \<Longrightarrow> r = RevokedFlag False" for r by (cases r) auto
  have live: "oc_verify clk \<le> mc_exp c" if "sts_token_claims env st tok (oc_verify clk) = Some c'" for c'
    using that sts_token_claims_exp [OF assms(2) that] by (auto simp: sts_token_claims_def split: sum.splits if_splits)
  have "must_claim (\<lambda>_ _. True) (mark_passes (oc_verify clk) (mc_exp c) tok)
    (\<lambda>a. \<exists>r. a = Inr r \<and> r \<noteq> JObject [(''active'', JBool False)]) (introspect_program env clk headers body st)"
    using assms(1) prologue_token live
    by (auto simp: introspect_program_def dest: r intro!: must_claim_ok_rest split: sum.split option.split; fastforce dest: r)
  then show ?thesis unfolding request_program.simps by (rule must_claim_bind) auto
qed

section \<open>Properties\<close>

text \<open>
  C5: revocation takes effect at once, whatever else runs. Any requests interleave; when a revocation request
  for a live token of this server has been answered with success, an introspection of that token that has
  not yet made a call on the shared state will not report it as active. The clocks of the requests must not pass the clock
  of the introspection, and no other presented token may have the same SHA-256 revocation key.
\<close>

theorem concurrent_revocation:
  assumes "service_wf st" "pool_run (exec_op env) (st, map (request_program env st) qs) (st1, ps1)"
    and "i < length qs" "qs ! i = RevokeRequest clk headers body" "ps1 ! i = Done (RevokeReply (Ok ()))"
    and "form_online_token env headers body = Some tok" "sts_token_claims env st tok (oc_verify clk) = Some c"
    and "list_all (no_collision env tok) qs"
    and "list_all (\<lambda>q. case sweep_clock q of None \<Rightarrow> True | Some t \<Rightarrow> t \<le> oc_verify clk') qs"
    and "l < length qs" "qs ! l = IntrospectRequest clk' headers' body'" "form_online_token env headers' body' = Some tok"
    and "ps1 ! l = request_program env st (qs ! l)"
    and "pool_run (exec_op env) (st1, ps1) (st2, ps2)" "ps2 ! l = Done (IntrospectReply (Ok response))"
  shows "response = JObject [(''active'', JBool False)]"
proof -
  let ?T = "oc_verify clk'" and ?ps = "map (request_program env st) qs"
  have "mark_inv st" using assms(1) by (simp add: service_wf_def revocations_wf_def mark_inv_def)
  then have o: "revoked_mark.orderly env ?T (mc_exp c) tok (st, ?ps)"
    using assms(8,9) mark_request [OF _ _ assms(7)] by (auto simp: revoked_mark.orderly_def list_all_iff)
  have "must_claim (\<lambda>_ _. True) (mark_sets (mc_exp c) tok) (\<lambda>a. a = RevokeReply (Ok ())) (?ps ! i)"
    using revoke_sets [OF assms(6,7)] assms(3,4) by simp
  with revoked_mark.winner_took [OF assms(2) o] assms(3,5) have "mark_taken env ?T (mc_exp c) tok st1" by simp
  moreover have "revoked_mark.orderly env ?T (mc_exp c) tok (st1, ps1)" "l < length ps1"
    using revoked_mark.orderly_run [OF assms(2) o] assms(10) by simp_all
  ultimately show ?thesis
    using active_mark.no_winner [OF assms(14), of ?T "mc_exp c" tok l
        "\<lambda>a. \<exists>r. a = IntrospectReply (Ok r) \<and> r \<noteq> JObject [(''active'', JBool False)]"]
      introspect_passes [OF assms(12,7), of clk'] assms(11,13,15) by auto
qed

end
