(* ===== verification/Demo_Concurrent.thy ===== *)
theory Demo_Concurrent
  imports Demo_Service Concurrent_Revocation
begin

text \<open>
  Runs of concurrent requests on the concrete service of \<open>Demo_Service\<close>.
\<close>

theorem concurrent_single_use_witness:
  "\<exists>st' a b. pool_run (exec_op svc_env)
      (svc_state, map (request_program svc_env svc_state)
         [TokenRequest (svc_clock 1000) ''j'' svc_headers ''t'', TokenRequest (svc_clock 1100) ''j2'' svc_headers ''t''])
      (st', [Done a, Done b]) \<and> reply_ok a \<and> \<not> reply_ok b"
proof -
  let ?q = "TokenRequest (svc_clock 1000) ''j'' svc_headers ''t''" and ?r = "TokenRequest (svc_clock 1100) ''j2'' svc_headers ''t''"
  let ?ps = "map (request_program svc_env svc_state) [?q, ?r]"
  obtain resp st1 where t: "token svc_env (svc_clock 1000) ''j'' svc_headers ''t'' svc_state = (Ok resp, st1)" by (rule svc_token_ok)
  then have s: "serve svc_env svc_state ?q = (TokenReply (Ok resp), st1)" by simp
  obtain b st2 where r: "serve svc_env st1 ?r = (b, st2)" by fastforce
  have "static st1 = static svc_state" using serve_static [of svc_env svc_state ?q] s by simp
  then have run2: "pool_run (exec_op svc_env) (st1, [Done (TokenReply (Ok resp)), request_program svc_env svc_state ?r])
      (st2, [Done (TokenReply (Ok resp)), Done b])"
    using pool_serves [of st1 svc_state 1 "[Done (TokenReply (Ok resp)), request_program svc_env svc_state ?r]" svc_env ?r] r
    by (simp del: serve.simps request_program.simps)
  have "pool_run (exec_op svc_env) (svc_state, ?ps) (st1, [Done (TokenReply (Ok resp)), request_program svc_env svc_state ?r])"
    using pool_serves [of svc_state svc_state 0 ?ps svc_env ?q] s by (simp del: serve.simps request_program.simps)
  note run = pool_run_trans [OF run2 this]
  have x: "as_exp (svc_assertion ''agent'' ''aj'') = 1200" "as_jti (svc_assertion ''agent'' ''aj'') = Some ''aj''" "in_i64 1200"
    by (simp_all add: svc_assertion_def i64_bounds)
  have p: "presents svc_env svc_state (TokenRequest clk j svc_headers ''t'') (actor_replay_key (svc_assertion ''agent'' ''aj'') ''aj'') 1200" for clk j
    using presents.actor [OF svc_actor_token _ x(2), of svc_state clk j] svc_inbound_claims(1) x(1) by simp
  have c: "tc_now (svc_clock t) = t" for t by (simp add: svc_clock_def)
  have m: "hs_replay svc_state = MemoryStore in_memory_default" "mem_invar in_memory_default"
    by (simp_all add: policy_in_memory_def in_memory_default_def mem_invar_new)
  from concurrent_single_use [OF m run, where T = 1200 and i = 0 and l = 1 and x = 1200 and y = 1200
      and k = "actor_replay_key (svc_assertion ''agent'' ''aj'') ''aj''"] p x(3) c have "\<not> reply_ok b"
    by (simp add: is_ok_def del: request_program.simps)
  with run show ?thesis by (intro exI [of _ st2] exI [of _ "TokenReply (Ok resp)"] exI [of _ b]) (simp add: is_ok_def)
qed

theorem concurrent_revocation_witness:
  "\<exists>st1 st2 response. pool_run (exec_op svc_env)
      (svc_state, map (request_program svc_env svc_state)
         [RevokeRequest (svc_online_clock 1010) svc_headers ''c'', IntrospectRequest (svc_online_clock 1010) svc_headers ''d''])
      (st1, [Done (RevokeReply (Ok ())), request_program svc_env svc_state (IntrospectRequest (svc_online_clock 1010) svc_headers ''d'')]) \<and>
    pool_run (exec_op svc_env)
      (st1, [Done (RevokeReply (Ok ())), request_program svc_env svc_state (IntrospectRequest (svc_online_clock 1010) svc_headers ''d'')])
      (st2, [Done (RevokeReply (Ok ())), Done (IntrospectReply (Ok response))]) \<and>
    response = JObject [(''active'', JBool False)]"
proof -
  let ?q = "RevokeRequest (svc_online_clock 1010) svc_headers ''c''" and ?r = "IntrospectRequest (svc_online_clock 1010) svc_headers ''d''"
  let ?ps = "map (request_program svc_env svc_state) [?q, ?r]" and ?ps1 = "[Done (RevokeReply (Ok ())), request_program svc_env svc_state ?r]"
  have wf: "service_wf svc_state" unfolding svc_state_def by (rule service_wf_new [OF svc_invar])
  obtain rs where rv: "revoke svc_env (svc_online_clock 1010) svc_headers ''c'' svc_state =
      (Ok (), (svc_after [(''ca:app:cj'', 1200)] (Suc 0))\<lparr>hs_revocations := rs\<rparr>)" using svc_revoke_state by blast
  let ?st1 = "(svc_after [(''ca:app:cj'', 1200)] (Suc 0))\<lparr>hs_revocations := rs\<rparr>"
  have s: "serve svc_env svc_state ?q = (RevokeReply (Ok ()), ?st1)" using rv by simp
  then have static: "static ?st1 = static svc_state" using serve_static [of svc_env svc_state ?q] by simp
  have "is_ok (fst (introspect svc_env (svc_online_clock 1010) svc_headers ''d'' ?st1))"
    unfolding introspect_alt online_prologue_static [OF static]
    by (simp add: svc_online_prologue record_client_revocations svc_record_client is_ok_def split: prod.splits)
  then obtain response st2 where r: "serve svc_env ?st1 ?r = (IntrospectReply (Ok response), st2)"
    by (cases "introspect svc_env (svc_online_clock 1010) svc_headers ''d'' ?st1") (auto simp: is_ok_def split: sum.splits)
  have run1: "pool_run (exec_op svc_env) (svc_state, ?ps) (?st1, ?ps1)"
    using pool_serves [of svc_state svc_state 0 ?ps svc_env ?q] s by (simp del: serve.simps request_program.simps)
  have run2: "pool_run (exec_op svc_env) (?st1, ?ps1) (st2, [Done (RevokeReply (Ok ())), Done (IntrospectReply (Ok response))])"
    using pool_serves [of ?st1 svc_state 1 ?ps1 svc_env ?r] static r by (simp del: serve.simps request_program.simps)
  have c: "sts_token_claims svc_env svc_state ''m.p.s'' (oc_verify (svc_online_clock 1010)) = Some svc_payload"
    using svc_token_claims by (simp add: svc_online_clock_def)
  have ok: "no_collision svc_env ''m.p.s'' ?q" "no_collision svc_env ''m.p.s'' ?r" by (simp_all add: no_collision_def svc_online_token)
  have k: "oc_revoke (svc_online_clock t) = t" "oc_verify (svc_online_clock t) = t" for t by (simp_all add: svc_online_clock_def)
  have "response = JObject [(''active'', JBool False)]"
    using concurrent_revocation [OF wf run1, where i = 0 and l = 1 and clk' = "svc_online_clock 1010" and response = response,
        OF _ _ _ svc_online_token(1) c _ _ _ _ svc_online_token(2) _ run2] ok k
    by (simp del: request_program.simps)
  with run1 run2 show ?thesis by blast
qed

end
