(* ===== verification/Replica_Race.thy ===== *)
theory Replica_Race
  imports File_Race Service_Concurrent
begin

text \<open>
  Several replicas of the service that share one replay directory, the deployment the file store is made
  for. Each replica has its own revocations, counters and store object; the directory is common, and every
  request makes its system calls on it one by one. \<open>on_replica\<close> runs a handler on a replica: a call of the replay
  policy becomes the system calls of \<open>check_and_record\<close>. Alone this is the sequential service on the directory,
  and of all requests on all replicas at most one uses a credential.
\<close>

section \<open>The replicas and their calls\<close>

text \<open>
  \<open>cl_stores\<close> are the store objects without their directory. \<open>BumpCalls\<close> counts a call and reads the object,
  \<open>ResetCalls\<close> ends a sweep that was due. The code holds the lock of the counter during such a sweep; here
  other calls of the replica may come in between, so that every run of the code is a run of the model.
\<close>

record cluster =
  cl_states :: "nat \<Rightarrow> HttpState"
  cl_stores :: "nat \<Rightarrow> FileReplayStore"
  cl_dir :: shared_dir

datatype replica_call = OnReplica nat service_call | BumpCalls nat | ResetCalls nat | OnFile file_call

datatype replica_reply = FromReplica service_reply | StoreSeen FileReplayStore | CallsReset | FromFile file_reply

fun exec_replica :: "http_env \<Rightarrow> replica_call \<Rightarrow> cluster \<Rightarrow> replica_reply \<times> cluster" where
  "exec_replica env (OnReplica r op) c =
     (case exec_op env op (cl_states c r) of (reply, st) \<Rightarrow> (FromReplica reply, c\<lparr>cl_states := (cl_states c)(r := st)\<rparr>))"
| "exec_replica env (BumpCalls r) c =
     (let store = cl_stores c r
      in (StoreSeen store,
          if file_calls_poisoned store then c
          else c\<lparr>cl_stores := (cl_stores c)(r := store\<lparr>file_calls := file_calls store + 1\<rparr>)\<rparr>))"
| "exec_replica env (ResetCalls r) c =
     (CallsReset, c\<lparr>cl_stores := (cl_stores c)(r := (cl_stores c r)\<lparr>file_calls := 0\<rparr>)\<rparr>)"
| "exec_replica env (OnFile op) c =
     (case exec_call (he_io env) op (cl_dir c) of (reply, d) \<Rightarrow> (FromFile reply, c\<lparr>cl_dir := d\<rparr>))"

fun file_of :: "replica_reply \<Rightarrow> file_reply" where
  "file_of (FromFile reply) = reply" | "file_of _ = CreateFailed"

fun service_of :: "replica_reply \<Rightarrow> service_reply" where
  "service_of (FromReplica reply) = reply" | "service_of _ = Counted"

section \<open>Handlers on a replica\<close>

primrec lift_file :: "(file_call, file_reply, 'a) program \<Rightarrow> (replica_call, replica_reply, 'a) program" where
  "lift_file (Done a) = Done a"
| "lift_file (Call op k) = Call (OnFile op) (\<lambda>reply. lift_file (k (file_of reply)))"

definition replica_check ::
    "http_env \<Rightarrow> nat \<Rightarrow> string \<Rightarrow> int \<Rightarrow> int \<Rightarrow> (replica_call, replica_reply, (ReplayError, unit) result) program" where
  "replica_check env r jti expiry now =
     (if trim jti = [] then Done (Err (replay_error ReplayInvalidRequest ''jti must not be empty''))
      else Call (BumpCalls r) (\<lambda>reply. case reply of
          StoreSeen store \<Rightarrow>
            ok_then (lift_file (maybe_sweep_program (he_io env) store now)) (\<lambda>_.
            ok_then (if file_sweep_every store \<le> file_calls store + 1 then Call (ResetCalls r) (\<lambda>_. Done (Ok ())) else Done (Ok ())) (\<lambda>_.
            lift_file (room_program (he_io env) (file_max_seen store) now
              (claim_program (replay_filename (sha256 (he_jose env)) jti) expiry now))))
        | _ \<Rightarrow> Done (Err replay_store_unavailable)))"

primrec on_replica ::
    "http_env \<Rightarrow> nat \<Rightarrow> (service_call, service_reply, 'a) program \<Rightarrow> (replica_call, replica_reply, 'a) program" where
  "on_replica env r (Done a) = Done a"
| "on_replica env r (Call op k) =
     (case op of
        Record jti expiry now \<Rightarrow> bind_program (replica_check env r jti expiry now) (\<lambda>v. on_replica env r (k (Recorded v)))
      | _ \<Rightarrow> Call (OnReplica r op) (\<lambda>reply. on_replica env r (k (service_of reply))))"

definition replica_program ::
    "http_env \<Rightarrow> cluster \<Rightarrow> nat \<times> http_request \<Rightarrow> (replica_call, replica_reply, http_response) program" where
  "replica_program env c p = (case p of (r, q) \<Rightarrow> on_replica env r (request_program env (cl_states c r) q))"

text \<open>The state a replica shows: its own part with the store on the common directory.\<close>

definition view :: "nat \<Rightarrow> cluster \<Rightarrow> HttpState" where
  "view r c = (cl_states c r)\<lparr>hs_replay := FileStore ((cl_stores c r)\<lparr>dir := dir_of (cl_dir c)\<rparr>)\<rparr>"

section \<open>A handler alone\<close>

lemma run_lift:
  "run_program (exec_replica env) (lift_file p) c =
     (fst (run_program (exec_call (he_io env)) p (cl_dir c)), c\<lparr>cl_dir := snd (run_program (exec_call (he_io env)) p (cl_dir c))\<rparr>)"
  by (induction p arbitrary: c) (simp_all add: case_prod_unfold)

lemma maybe_sweep_store:
  "maybe_sweep io s now = (v, s') \<Longrightarrow>
     s' = s\<lparr>dir := dir s', file_calls := (if file_calls_poisoned s then file_calls s
       else if file_sweep_every s \<le> file_calls s + 1 \<and> v = Ok () then 0 else file_calls s + 1)\<rparr>"
  by (auto simp: maybe_sweep_def Let_def split: if_splits prod.splits sum.splits)

lemma sweep_when_full_store: "sweep_when_full io s now = (v, s') \<Longrightarrow> s' = s\<lparr>dir := dir s'\<rparr>"
  by (auto simp: sweep_when_full_def split: if_splits prod.splits sum.splits)

text \<open>\<open>check_and_record\<close> in two parts: the sweep that may be due, and the rest.\<close>

lemma file_check_parts:
  assumes "trim jti \<noteq> []" "maybe_sweep io s now = (v, s1)"
  shows "file_check_and_record sha io s jti expiry now = (case v of
      Inl e \<Rightarrow> (Inl e, s1)
    | Inr _ \<Rightarrow> (case (case sweep_when_full io s1 now of
          (Inl e, s2) \<Rightarrow> (Inl e, dir s2)
        | (Inr _, s2) \<Rightarrow> (case active_entry_count io (dir s2) of
            Inl e \<Rightarrow> (Inl e, dir s2)
          | Inr n \<Rightarrow> if file_max_seen s1 \<le> n
              then (Err (replay_error StoreFull ''replay store full, retry shortly''), dir s2)
              else claim_file io (dir s2) (replay_filename sha jti) expiry now)) of
        (w, d) \<Rightarrow> (w, s1\<lparr>dir := d\<rparr>)))"
proof (cases v)
  case (Inr u)
  obtain w s2 where w: "sweep_when_full io s1 now = (w, s2)" by fastforce
  have u: "s1\<lparr>dir := d\<rparr> = s2\<lparr>dir := d\<rparr>" for d by (subst sweep_when_full_store [OF w]) simp
  have m: "file_max_seen s1 = file_max_seen s2" by (subst sweep_when_full_store [OF w]) simp
  show ?thesis
    using assms Inr w u m by (cases w; cases "active_entry_count io (dir s2)")
      (auto simp: file_check_and_record_def split: prod.splits)
qed (use assms in \<open>simp add: file_check_and_record_def\<close>)

lemma run_replica_parts:
  fixes env c r now
  defines "store \<equiv> cl_stores c r"
  defines "swept \<equiv> run_program (exec_call (he_io env)) (maybe_sweep_program (he_io env) store now) (cl_dir c)"
  assumes m: "maybe_sweep (he_io env) (store\<lparr>dir := d\<rparr>) now = (w, s1)" and w: "fst swept = w"
  shows "run_program (exec_replica env) (replica_check env r jti expiry now) c =
     (if trim jti = [] then (Err (replay_error ReplayInvalidRequest ''jti must not be empty''), c)
      else let c' = c\<lparr>cl_stores := (cl_stores c)(r := store\<lparr>file_calls := file_calls s1\<rparr>), cl_dir := snd swept\<rparr> in
        case w of
          Inl e \<Rightarrow> (Inl e, c')
        | Inr _ \<Rightarrow> run_program (exec_replica env) (lift_file (room_program (he_io env) (file_max_seen store) now
            (claim_program (replay_filename (sha256 (he_jose env)) jti) expiry now))) c')"
proof -
  have calls: "file_calls s1 = (if file_calls_poisoned store then file_calls store
      else if file_sweep_every store \<le> file_calls store + 1 \<and> w = Ok () then 0 else file_calls store + 1)"
    by (subst maybe_sweep_store [OF m]) simp
  show ?thesis
  proof (cases "file_calls_poisoned store")
    case True
    then show ?thesis using w calls
      by (cases w) (simp_all add: replica_check_def run_ok_then run_lift maybe_sweep_program_def Let_def swept_def store_def)
  next
    case False
    then show ?thesis using w calls
      by (cases w; cases "file_sweep_every store \<le> file_calls store + 1")
         (simp_all add: replica_check_def run_ok_then run_lift case_prod_unfold Let_def swept_def store_def)
  qed
qed

lemma run_replica_check:
  assumes "dir_wf (cl_dir c)" "run_program (exec_replica env) (replica_check env r jti expiry now) c = (v, c')"
  shows "file_check_and_record (sha256 (he_jose env)) (he_io env) ((cl_stores c r)\<lparr>dir := dir_of (cl_dir c)\<rparr>) jti expiry now =
      (v, (cl_stores c' r)\<lparr>dir := dir_of (cl_dir c')\<rparr>) \<and> dir_wf (cl_dir c') \<and> cl_states c' = cl_states c"
proof -
  let ?io = "he_io env" and ?store = "cl_stores c r" and ?name = "replay_filename (sha256 (he_jose env)) jti"
  let ?swept = "run_program (exec_call ?io) (maybe_sweep_program ?io ?store now) (cl_dir c)"
  obtain w s1 where m: "maybe_sweep ?io (?store\<lparr>dir := dir_of (cl_dir c)\<rparr>) now = (w, s1)" by fastforce
  have swept: "dir_wf (snd ?swept)" "fst ?swept = w" "dir_of (snd ?swept) = dir s1"
    using doesD [OF does_maybe_sweep assms(1), of ?io ?store now] m by simp_all
  have max: "file_max_seen s1 = file_max_seen ?store" and up: "s1\<lparr>dir := dir_of (snd ?swept)\<rparr> = s1"
    using maybe_sweep_settings [OF m] swept(3) by simp_all
  have st: "s1\<lparr>dir := d\<rparr> = ?store\<lparr>file_calls := file_calls s1, dir := d\<rparr>" for d
    by (subst (1 2) maybe_sweep_store [OF m]) simp
  note run = run_replica_parts [OF m swept(2), of jti expiry]
  note room = doesD [OF does_room [where store = s1 and now = now and name = ?name and expiry = expiry and io = ?io] swept(1),
      unfolded up max]
  show ?thesis
  proof (cases "trim jti = []")
    case True
    with run assms show ?thesis by (simp add: file_check_and_record_def)
  next
    case False
    note parts = file_check_parts [OF False m, of "sha256 (he_jose env)" expiry]
    show ?thesis
    proof (cases w)
      case (Inl e)
      with run assms(2) False swept(1) st [of "dir_of (snd ?swept)"] up parts show ?thesis by auto
    next
      case (Inr u)
      show ?thesis unfolding parts [unfolded max] Inr sum.case room(2) prod.case
        using run assms(2) False Inr room(1) by (auto simp: run_lift st)
    qed
  qed
qed

text \<open>The other calls do to the state a replica shows what they do to its own part.\<close>

lemma exec_view:
  assumes "\<not> (\<exists>jti x t. op = Record jti x t)"
  shows "exec_op env op (view r c) =
     (service_of (fst (exec_replica env (OnReplica r op) c)), view r (snd (exec_replica env (OnReplica r op) c)))"
  using assms by (cases op) (simp_all add: view_def case_prod_unfold)

lemma exec_replica_dir: "cl_dir (snd (exec_replica env (OnReplica r op) c)) = cl_dir c"
  by (simp add: case_prod_unfold)

lemma run_on_replica:
  assumes "dir_wf (cl_dir c)"
  shows "run_program (exec_op env) p (view r c) =
      (fst (run_program (exec_replica env) (on_replica env r p) c), view r (snd (run_program (exec_replica env) (on_replica env r p) c))) \<and>
    dir_wf (cl_dir (snd (run_program (exec_replica env) (on_replica env r p) c)))"
  using assms
proof (induction p arbitrary: c)
  case (Call op k)
  show ?case
  proof (cases "\<exists>jti x t. op = Record jti x t")
    case True
    then obtain jti x t where op: "op = Record jti x t" by blast
    obtain v c' where run: "run_program (exec_replica env) (replica_check env r jti x t) c = (v, c')" by fastforce
    note chk = run_replica_check [OF Call.prems run, THEN conjunct1] run_replica_check [OF Call.prems run, THEN conjunct2, THEN conjunct1]
      run_replica_check [OF Call.prems run, THEN conjunct2, THEN conjunct2]
    have "exec_op env op (view r c) = (Recorded v, view r c')" using chk by (simp add: op view_def)
    then show ?thesis using Call.IH [OF rangeI chk(2)] run by (simp add: op)
  next
    case False
    then show ?thesis
      using exec_view [OF False, of env r c] Call.IH [OF rangeI, of "snd (exec_replica env (OnReplica r op) c)"] Call.prems
        exec_replica_dir [of env r op c]
      by (cases op) (simp_all del: exec_op.simps exec_replica.simps)
  qed
qed simp

lemma replica_serves:
  assumes "dir_wf (cl_dir c)"
  shows "serve env (view r c) q = (fst (run_program (exec_replica env) (replica_program env c (r, q)) c),
      view r (snd (run_program (exec_replica env) (replica_program env c (r, q)) c))) \<and>
    dir_wf (cl_dir (snd (run_program (exec_replica env) (replica_program env c (r, q)) c)))"
proof -
  have "static (view r c) = static (cl_states c r)" by (simp add: view_def static_def)
  from run_request_static [OF this, of env q] run_on_replica [OF assms, of env "request_program env (cl_states c r) q" r]
  show ?thesis by (simp add: replica_program_def)
qed

section \<open>A file name among the replicas\<close>

text \<open>A file name of the common directory is the resource it is for the processes of \<open>File_Race\<close>.\<close>

fun dir_allowed :: "int \<Rightarrow> string \<Rightarrow> replica_call \<Rightarrow> bool" where
  "dir_allowed T n (OnFile op) \<longleftrightarrow> name_allowed T n op"
| "dir_allowed T n _ \<longleftrightarrow> True"

fun dir_feasible :: "int \<Rightarrow> string \<Rightarrow> replica_call \<Rightarrow> replica_reply \<Rightarrow> bool" where
  "dir_feasible T n (OnFile op) reply \<longleftrightarrow> (\<exists>v. reply = FromFile v \<and> name_feasible T n op v)"
| "dir_feasible T n _ reply \<longleftrightarrow> True"

fun dir_claims :: "string \<Rightarrow> replica_call \<Rightarrow> replica_reply \<Rightarrow> bool" where
  "dir_claims n (OnFile op) (FromFile v) \<longleftrightarrow> name_claims n op v"
| "dir_claims n _ _ \<longleftrightarrow> False"

interpretation replica_name: guarded_resource "exec_replica env" "\<lambda>c. name_inv T n (cl_dir c)" "\<lambda>c. name_taken n (cl_dir c)"
    "dir_allowed T n" "dir_feasible T n" "dir_claims n"
  for env T n
proof (unfold_locales, goal_cases)
  case (1 c op)
  then show ?case using replay_name.inv_ex by (cases op) (simp_all add: case_prod_unfold Let_def)
next
  case (2 c op)
  then show ?case using replay_name.feasible_ex by (cases op) (simp_all add: case_prod_unfold Let_def)
next
  case (3 c op)
  then show ?case using replay_name.taken_ex by (cases op) (simp_all add: case_prod_unfold Let_def)
next
  case (4 c op)
  then show ?case using replay_name.set_takes by (cases op) (auto simp: case_prod_unfold Let_def)
next
  case (5 c op)
  then show ?case using replay_name.pass_free by (cases op) (auto simp: case_prod_unfold Let_def)
qed

abbreviation keeps_dir :: "int \<Rightarrow> string \<Rightarrow> (replica_call, replica_reply, 'a) program \<Rightarrow> bool" where
  "keeps_dir T n \<equiv> obeys (dir_allowed T n) (dir_feasible T n)"

abbreviation needs_dir :: "int \<Rightarrow> string \<Rightarrow> ('a \<Rightarrow> bool) \<Rightarrow> (replica_call, replica_reply, 'a) program \<Rightarrow> bool" where
  "needs_dir T n \<equiv> must_claim (dir_feasible T n) (dir_claims n)"

lemma keeps_lift: "obeys (name_allowed T n) (name_feasible T n) p \<Longrightarrow> keeps_dir T n (lift_file p)"
  by (induction p) auto

lemma needs_lift: "must_claim (name_feasible T n) (name_claims n) won p \<Longrightarrow> needs_dir T n won (lift_file p)"
  by (induction p) fastforce+

lemma keeps_maybe_sweep: "now \<le> T \<Longrightarrow> keeps_to T n (maybe_sweep_program io store now)"
  by (simp add: maybe_sweep_program_def keeps_sweep)

lemma keeps_room: "now \<le> T \<Longrightarrow> keeps_to T n claim \<Longrightarrow> keeps_to T n (room_program io limit now claim)"
  by (auto simp: room_program_def intro!: obeys_ok_then keeps_count keeps_sweep)

lemma needs_room: "needs_file T n claim \<Longrightarrow> needs_file T n (room_program io limit now claim)"
  by (auto simp: room_program_def intro!: must_claim_ok_rest)

lemma keeps_replica_check:
  assumes "now \<le> T" "replay_filename (sha256 (he_jose env)) jti = n \<Longrightarrow> T \<le> x \<and> in_i64 x"
  shows "keeps_dir T n (replica_check env r jti x now)"
  using assms
  by (auto simp: replica_check_def intro!: obeys_ok_then keeps_lift keeps_maybe_sweep keeps_room keeps_claim split: replica_reply.split)

lemma needs_claim: "needs_file T n (claim_program n e now)"
  by (auto simp: claim_program_def needs_create)

lemma needs_replica_check:
  "needs_dir T (replay_filename (sha256 (he_jose env)) jti) (\<lambda>v. v = Ok ()) (replica_check env r jti x now)"
  by (auto simp: replica_check_def replay_store_unavailable_def
      intro!: must_claim_ok_rest needs_lift needs_room needs_claim split: replica_reply.split)

text \<open>What a handler records, and through which records it succeeds, become what it does to the directory.\<close>

lemma keeps_on_replica:
  assumes "records_only (\<lambda>k x t. t \<le> T \<and> (replay_filename (sha256 (he_jose env)) k = n \<longrightarrow> T \<le> x \<and> in_i64 x)) p"
  shows "keeps_dir T n (on_replica env r p)"
  using assms
proof (induction p)
  case (Call op k)
  then show ?case by (cases op) (auto intro!: obeys_bind keeps_replica_check)
qed simp

lemma needs_on_replica:
  assumes "must_claim (\<lambda>_ _. True) (key_claims T k) won p" "n = replay_filename (sha256 (he_jose env)) k"
  shows "needs_dir T n won (on_replica env r p)"
  using assms(1)
proof (induction p)
  case (Call op f)
  show ?case
  proof (cases "\<exists>x t. op = Record k x t")
    case True
    then obtain x t where op: "op = Record k x t" by blast
    with Call have "needs_dir T n won (on_replica env r (f (Recorded v)))" if "v \<noteq> Ok ()" for v using that by auto
    then show ?thesis unfolding op assms(2) on_replica.simps service_call.case
      by (intro must_claim_bind [OF needs_replica_check]) blast
  next
    case False
    with Call show ?thesis by (cases op) (auto intro!: must_claim_bind_after)
  qed
qed simp

section \<open>Properties\<close>

text \<open>
  A handler on a replica, with the system calls of the file store one by one, does alone what the
  sequential service does on the common directory: the same response, the same next state of its replica and
  the same directory, whichever system calls fail.
\<close>

theorem replica_calls_alone:
  assumes "dir_wf (cl_dir c)"
  shows "case run_program (exec_replica env) (replica_program env c (r, q)) c of
    (a, c') \<Rightarrow> serve env (view r c) q = (a, view r c') \<and> dir_wf (cl_dir c')"
  using replica_serves [OF assms] by (simp add: case_prod_unfold)

text \<open>
  C6: credentials are used once across all replicas that share a replay directory. Any number of requests runs on
  any replicas at the same time, and their calls on the replicas and their system calls on the directory interleave in any order.
  Of two requests that carry credentials with the same replay key at most one succeeds, and none if the file of the key is
  there at the start. The clocks must not pass \<open>T\<close>, the file of the key must not have expired by \<open>T\<close> at the start, and
  what the requests present under this file name expires at \<open>T\<close> or later.
\<close>

theorem replica_single_use:
  fixes env k
  defines "name \<equiv> replay_filename (sha256 (he_jose env)) k"
  assumes "dir_wf (cl_dir c)" "unexpired (dir_of (cl_dir c)) T name"
    and "pool_run (exec_replica env) (c, map (replica_program env c) rqs) (c', ps)"
    and "\<forall>(r, q) \<in> set rqs. record_clock q \<le> T \<and>
      (\<forall>k' x. presents env (cl_states c r) q k' x \<longrightarrow> replay_filename (sha256 (he_jose env)) k' = name \<longrightarrow> T \<le> x \<and> in_i64 x)"
    and "i < length rqs" "l < length rqs" "i \<noteq> l" "rqs ! i = (r, q)" "rqs ! l = (r', q')"
    and "presents env (cl_states c r) q k x" "presents env (cl_states c r') q' k y" "ps ! i = Done a" "ps ! l = Done b"
  shows "\<not> (reply_ok a \<and> reply_ok b) \<and> (map_of (links (cl_dir c)) name \<noteq> None \<longrightarrow> \<not> reply_ok a)"
proof -
  have "keeps_dir T name (replica_program env c (r, q))" if "(r, q) \<in> set rqs" for r q
    using that assms(5) by (auto simp: replica_program_def intro!: keeps_on_replica records_presented)
  then have o: "replica_name.orderly T name (c, map (replica_program env c) rqs)"
    using assms(2,3) unfolding replica_name.orderly_def by (auto simp: name_inv_def)
  have needs: "needs_dir T name reply_ok (map (replica_program env c) rqs ! j)"
    if "j < length rqs" "rqs ! j = (r, q)" "presents env (cl_states c r) q k x" for j r q x
  proof -
    have "T \<le> x \<and> in_i64 x" using that assms(5) nth_mem [OF that(1)] by (force simp: name_def)
    then have "must_claim (\<lambda>_ _. True) (key_claims T k) reply_ok (request_program env (cl_states c r) q)"
      using presents_needs [OF that(3)] by blast
    from needs_on_replica [OF this name_def [THEN meta_eq_to_obj_eq]] that show ?thesis by (simp add: replica_program_def)
  qed
  show ?thesis
    using replica_name.one_winner [OF assms(4) o _ _ assms(8) needs needs assms(13,14)]
      replica_name.no_winner [OF assms(4) o _ _ needs assms(13)] assms(6,7,9-12)
    by (auto simp: name_taken_def)
qed

end
