(* ===== verification/Demo_Replicas.thy ===== *)
theory Demo_Replicas
  imports Demo_Service Replica_Race
begin

text \<open>
  Two replicas of the service of \<open>Demo_Service\<close> on one empty replay directory. A revocation request with the same
  client assertion reaches both: the first succeeds, the second does not.
\<close>

definition rep :: cluster where
  "rep = \<lparr>cl_states = (\<lambda>_. svc_state), cl_stores = (\<lambda>_. small_store), cl_dir = fresh_dir\<rparr>"

abbreviation rep_request :: http_request where
  "rep_request \<equiv> RevokeRequest (svc_online_clock 1010) svc_headers ''c''"

lemma rep_wf: "dir_wf (cl_dir rep)"
  by (simp add: rep_def fresh_dir_wf)

theorem replica_calls_alone_witness:
  "dir_wf (cl_dir rep) \<and>
   (case run_program (exec_replica svc_env) (replica_program svc_env rep (1, rep_request)) rep of
      (a, c') \<Rightarrow> serve svc_env (view 1 rep) rep_request = (a, view 1 c') \<and> dir_wf (cl_dir c'))"
  by (intro conjI rep_wf replica_calls_alone)

lemma rep_record:
  "\<exists>store. file_check_and_record sha io_healthy (small_store\<lparr>dir := []\<rparr>) ''ca:app:cj'' x t = (Ok (), store)"
proof -
  have "trim ''ca:app:cj'' \<noteq> []" by (simp add: trim_empty_iff trim_start_id ws1_def ws2_def ws3_def)
  then show ?thesis
    by (simp add: file_check_and_record_def maybe_sweep_def sweep_when_full_def active_entry_count_def claim_file_def create_and_write_def
        read_exp_def small_store_def io_healthy_def)
qed

lemma rep_serves: "\<exists>st. serve svc_env (view 0 rep) rep_request = (RevokeReply (Ok ()), st)"
proof -
  let ?v = "svc_state\<lparr>hs_replay := FileStore (small_store\<lparr>dir := []\<rparr>)\<rparr>" and ?c = "svc_assertion ''app'' ''cj''"
  have v: "view 0 rep = ?v" by (simp add: view_def rep_def dir_of_def fresh_dir_def)
  have k: "client_replay_key ?c ''cj'' = ''ca:app:cj''" by (simp add: client_replay_key_def svc_assertion_def)
  obtain store where store: "record_client_assertion_replay svc_env ?v ?c 1010 = (Ok (), ?v\<lparr>hs_replay := FileStore store\<rparr>)"
    using rep_record [of "sha256 svc_jose" "as_exp ?c" 1010]
    by (auto simp: record_client_assertion_replay_def svc_jti k check_and_record_def)
  let ?mid = "?v\<lparr>hs_replay := FileStore store\<rparr>"
  have static: "static ?v = static svc_state" "static ?mid = static svc_state" by (simp_all add: static_def)
  have "sts_token_claims svc_env ?mid ''m.p.s'' 1010 = Some svc_payload"
    using svc_token_claims sts_token_claims_static [OF static(2)] by simp
  moreover have "fst (revoke_token E revocations_default tok x t (max_seen_jti svc_config)) = Ok ()" for E tok x t
    by (simp add: revoke_token_def revocations_default_def sweep_revoked_def svc_config_def)
  moreover have "hs_revocations svc_state = revocations_default"
    by (simp add: svc_state_def http_state_new_def new_with_published_jwks_def new_with_signer_arc_def)
  moreover have "oc_verify (svc_online_clock 1010) = 1010" "oc_record (svc_online_clock 1010) = 1010" by (simp_all add: svc_online_clock_def)
  ultimately have "\<exists>st. revoke svc_env (svc_online_clock 1010) svc_headers ''c'' ?v = (Ok (), st)"
    by (simp add: revoke_alt online_prologue_static [OF static(1)] svc_online_prologue store split: prod.splits) (metis fst_conv)
  then show ?thesis by (auto simp: v)
qed

lemma rep_presents: "presents svc_env svc_state rep_request k x \<longleftrightarrow> k = ''ca:app:cj'' \<and> x = 1200"
proof -
  let ?c = "svc_assertion ''app'' ''cj''"
  have k: "client_replay_key ?c ''cj'' = ''ca:app:cj''" "as_exp ?c = 1200" by (simp_all add: client_replay_key_def svc_assertion_def)
  have p: "presented_client_assertion svc_env rep_request = Some ''c.p.s''"
    by (simp add: svc_parse_online) (simp add: svc_online_def)
  show ?thesis
  proof
    assume "presents svc_env svc_state rep_request k x"
    then show "k = ''ca:app:cj'' \<and> x = 1200"
      using p k svc_inbound_claims(2) svc_jti(1) by (cases rule: presents.cases) auto
  next
    assume "k = ''ca:app:cj'' \<and> x = 1200"
    then show "presents svc_env svc_state rep_request k x"
      using presents.client [OF p, of svc_state ?c "''cj''"] svc_inbound_claims(2) svc_jti(1) k by simp
  qed
qed

theorem replica_single_use_witness:
  "\<exists>c' b. pool_run (exec_replica svc_env) (rep, map (replica_program svc_env rep) [(0, rep_request), (1, rep_request)])
      (c', [Done (RevokeReply (Ok ())), Done b]) \<and> \<not> reply_ok b"
proof -
  let ?p = "\<lambda>r. replica_program svc_env rep (r, rep_request)" and ?run = "run_program (exec_replica svc_env)"
  let ?c1 = "snd (?run (?p 0) rep)" and ?b = "fst (?run (?p 1) (snd (?run (?p 0) rep)))"
  have a: "fst (?run (?p 0) rep) = RevokeReply (Ok ())"
    using rep_serves replica_serves [OF rep_wf, of svc_env 0 rep_request] by auto
  have "pool_run (exec_replica svc_env) (rep, [?p 0, ?p 1]) (?c1, [Done (RevokeReply (Ok ())), ?p 1])"
    using pool_run_alone [of 0 "[?p 0, ?p 1]" "?p 0" "exec_replica svc_env" rep] a by simp
  moreover have "pool_run (exec_replica svc_env) (?c1, [Done (RevokeReply (Ok ())), ?p 1])
      (snd (?run (?p 1) ?c1), [Done (RevokeReply (Ok ())), Done ?b])"
    using pool_run_alone [of 1 "[Done (RevokeReply (Ok ())), ?p 1]" "?p 1" "exec_replica svc_env" ?c1] by simp
  ultimately have run: "pool_run (exec_replica svc_env) (rep, map (replica_program svc_env rep) [(0, rep_request), (1, rep_request)])
      (snd (?run (?p 1) ?c1), [Done (RevokeReply (Ok ())), Done ?b])" using pool_run_trans by simp
  have u: "unexpired (dir_of (cl_dir rep)) 1200 n" for n
    by (simp add: unexpired_def dir_recorded_def dir_of_def rep_def fresh_dir_def)
  have st: "cl_states rep r = svc_state" for r by (simp add: rep_def)
  have clk: "oc_record (svc_online_clock 1010) = 1010" by (simp add: svc_online_clock_def)
  have o: "\<forall>(r, q) \<in> set [(0, rep_request), (1, rep_request)]. record_clock q \<le> 1200 \<and>
      (\<forall>k' x. presents svc_env (cl_states rep r) q k' x \<longrightarrow>
        replay_filename (sha256 (he_jose svc_env)) k' = replay_filename (sha256 (he_jose svc_env)) ''ca:app:cj'' \<longrightarrow> 1200 \<le> x \<and> in_i64 x)"
    using clk by (auto simp: st rep_presents i64_bounds)
  have "\<not> (reply_ok (RevokeReply (Ok ())) \<and> reply_ok ?b)"
    using replica_single_use [OF rep_wf u run o, of 0 1 0 rep_request 1 rep_request 1200 1200 "RevokeReply (Ok ())" ?b] st rep_presents
    by simp
  then have "\<not> reply_ok ?b" by (simp add: is_ok_def)
  with run show ?thesis by blast
qed

end
