(* ===== verification/Demo_Generate.thy ===== *)
theory Demo_Generate
  imports Jose_Generate Demo_Libs
begin

text \<open>
  Libraries on which the hypotheses of the key generation property hold together: numbers are written with
  their bytes, most significant first, base64url is hexadecimal, and the DER of one key, with a modulus of 2048
  bits, and its JSON text are known by heart.
\<close>

section \<open>Numbers as bytes\<close>

fun be_bytes :: "nat \<Rightarrow> string" where
  "be_bytes n = (if n = 0 then [] else be_bytes (n div 256) @ [char_of (n mod 256)])"

declare be_bytes.simps [simp del]

lemma be_bytes_0 [simp]: "be_bytes 0 = []"
  by (subst be_bytes.simps) simp

lemma be_bytes_step: "0 < n \<Longrightarrow> be_bytes n = be_bytes (n div 256) @ [char_of (n mod 256)]"
  by (subst be_bytes.simps) simp

lemma be_value_bytes: "be_value (be_bytes n) = n"
proof (induction n rule: be_bytes.induct)
  case (1 n)
  show ?case
  proof (cases "n = 0")
    case False
    with 1 have "be_value (be_bytes (n div 256)) = n div 256" by simp
    with False show ?thesis by (simp add: be_bytes_step be_value_def)
  qed (simp add: be_value_def)
qed

lemma be_bytes_minimal: "0 < n \<Longrightarrow> be_bytes n \<noteq> [] \<and> hd (be_bytes n) \<noteq> CHR 0x00"
proof (induction n rule: be_bytes.induct)
  case (1 n)
  show ?case
  proof (cases "n div 256 = 0")
    case True
    with 1(2) have "n < 256" "be_bytes n = [char_of n]" by (simp_all add: be_bytes_step)
    moreover from this 1(2) have "(of_char (char_of n :: char) :: nat) \<noteq> of_char (CHR 0x00)" by simp
    then have "char_of n \<noteq> CHR 0x00" by metis
    ultimately show ?thesis by simp
  next
    case False
    with 1 have "be_bytes (n div 256) \<noteq> [] \<and> hd (be_bytes (n div 256)) \<noteq> CHR 0x00" by simp
    with 1(2) show ?thesis by (simp add: be_bytes_step [of n])
  qed
qed

definition bigint_be :: "int \<Rightarrow> string" where
  "bigint_be v = (if v = 0 then [CHR 0x00] else be_bytes (nat \<bar>v\<bar>))"

section \<open>One key\<close>

definition gen_n :: nat where "gen_n = 2 ^ 2047"

definition gen_vs :: "int list" where
  "gen_vs = [int gen_n, 65537, 3, 5, 7, 11, 13, 17]"

definition gen_text :: "nat \<Rightarrow> string" where
  "gen_text i = hex_lower (bigint_be (gen_vs ! i))"

definition gen_kid :: string where "gen_kid = rsa_jwk_thumbprint demo_ext (gen_text 0) (gen_text 1)"

definition gen_pkcs8 :: ASN1Block where
  "gen_pkcs8 = AsnSequence [AsnInteger 0, AsnOther ''rsaEncryption'', AsnOctetString ''der'']"

definition gen_json :: json where
  "gen_json = JObject [(''kty'', JString ''RSA''), (''kid'', JString gen_kid), (''use'', JString ''sig''), (''alg'', JString ''RS256''),
     (''n'', JString (gen_text 0)), (''e'', JString (gen_text 1)), (''d'', JString (gen_text 2)), (''p'', JString (gen_text 3)),
     (''q'', JString (gen_text 4)), (''dp'', JString (gen_text 5)), (''dq'', JString (gen_text 6)), (''qi'', JString (gen_text 7))]"

definition gen_jwk :: PrivateRsaJwk where
  "gen_jwk = \<lparr>prsa_kty = ''RSA'', prsa_kid = Some gen_kid, prsa_n = gen_text 0, prsa_e = gen_text 1, prsa_d = gen_text 2,
     prsa_p = gen_text 3, prsa_q = gen_text 4, prsa_dp = Some (gen_text 5), prsa_dq = Some (gen_text 6), prsa_qi = Some (gen_text 7)\<rparr>"

definition gen_ext :: jose_ext where
  "gen_ext = demo_ext
     \<lparr>json_to_string_pretty := (\<lambda>j. if j = gen_json then Some ''j'' else None),
      rsa_jwk_from_str := (\<lambda>t. if t = ''j'' @ [CHR 0x0A] then Some gen_jwk else None),
      rsa_key_from_der := (\<lambda>der. if der = ''der'' then Some (256, bigint_be (int gen_n), bigint_be 65537) else None),
      asn1_from_der := (\<lambda>der. if der = ''der'' then Some [pkcs1_block gen_vs] else if der = ''p8'' then Some [gen_pkcs8] else None),
      asn1_to_der := (\<lambda>b. if b = pkcs1_block gen_vs then Some ''der'' else if b = gen_pkcs8 then Some ''p8'' else None),
      bigint_to_bytes_be := bigint_be, bigint_from_bytes_be := (\<lambda>b. int (be_value b))\<rparr>"

definition gen_key :: drawn_rsa where
  "gen_key = \<lparr>dr_n = bigint_be (int gen_n), dr_e = bigint_be 65537, dr_pkcs8 = Some ''p8''\<rparr>"

lemma gen_ext_simps [simp]:
  "b64_encode gen_ext = hex_lower" "asn1_from_der gen_ext ''der'' = Some [pkcs1_block gen_vs]"
  "asn1_to_der gen_ext (pkcs1_block gen_vs) = Some ''der''" "bigint_to_bytes_be gen_ext = bigint_be"
  "rsa_jwk_thumbprint gen_ext = rsa_jwk_thumbprint demo_ext" "json_to_string_pretty gen_ext gen_json = Some ''j''"
  by (simp_all add: gen_ext_def demo_ext_def rsa_jwk_thumbprint_def fun_eq_iff)

lemma gen_minimal: "0 < v \<Longrightarrow> bigint_minimal gen_ext v"
  using be_bytes_minimal [of "nat v"] by (simp add: bigint_minimal_def bigint_be_def be_value_bytes gen_ext_def)

lemma gen_n_pos [simp]: "0 < gen_n"
  unfolding gen_n_def by (rule zero_less_power) simp

lemma gen_modulus: "2048 \<le> rsa_modulus_bits (bigint_be (int gen_n))"
proof -
  let ?b = "bigint_be (int gen_n)"
  have "be_value ?b = gen_n" using gen_n_pos by (simp add: bigint_be_def be_value_bytes del: gen_n_pos)
  then have "gen_n < 2 ^ rsa_modulus_bits ?b" using rsa_modulus_bits_exact [of ?b] gen_n_pos by (simp split: if_splits)
  then have "(2047::nat) < rsa_modulus_bits ?b" unfolding gen_n_def by (rule power_less_imp_less_exp [rotated]) simp
  then show ?thesis by simp
qed

lemma gen_laws: "b64_law gen_ext" "jwk_json_law gen_ext"
proof -
  show "b64_law gen_ext" using demo_b64_law by (simp add: b64_law_def gen_ext_def)
  show "jwk_json_law gen_ext" by (simp add: jwk_json_law_def gen_ext_def gen_json_def gen_jwk_def)
qed

lemma gen_two_prime: "two_prime_key gen_ext gen_key ''der'' gen_vs"
proof -
  have "list_all (\<lambda>v. 0 < v \<and> bigint_minimal gen_ext v) gen_vs" by (simp add: gen_vs_def gen_minimal)
  moreover have "rsa_key_from_der gen_ext ''der'' = Some (256, dr_n gen_key, dr_e gen_key)" by (simp add: gen_ext_def gen_key_def)
  moreover have "asn1_law gen_ext (pkcs1_block gen_vs)" by (simp add: asn1_law_def)
  ultimately show ?thesis
    using gen_modulus by (simp add: two_prime_key_def) (simp add: gen_key_def gen_vs_def)
qed

lemma gen_normalize: "normalize_rsa_private_key_der gen_ext ''p8'' = Ok ''der''"
  by (simp add: normalize_rsa_private_key_der_def extract_pkcs8_private_key_octets_def gen_ext_def gen_pkcs8_def)

lemma gen_generate:
  "rsa_generate_private_jwk gen_ext (Some gen_key) =
     Ok (''j'' @ [CHR 0x0A], generated_public_jwk gen_ext (gen_text 0) (gen_text 1))"
proof -
  have k: "jwk_kid (generated_public_jwk gen_ext (gen_text 0) (gen_text 1)) = gen_kid"
    by (simp add: generated_public_jwk_def gen_kid_def)
  have c: "rsa_integer_component gen_ext (AsnInteger 0 # map AsnInteger gen_vs) (i + 1) name = Ok (gen_text i)" if "i < 8" for i name
  proof -
    have "length gen_vs = 8" "0 < gen_vs ! i" using that by (auto simp: gen_vs_def less_Suc_eq numeral_eq_Suc)
    with that show ?thesis by (simp add: rsa_integer_component_def gen_text_def)
  qed
  have "length gen_vs = 8" by (simp add: gen_vs_def)
  then have "private_jwk_json_from_pkcs8_der gen_ext ''p8'' (generated_public_jwk gen_ext (gen_text 0) (gen_text 1)) =
      Ok (''j'' @ [CHR 0x0A])"
    using c [of 0] c [of 1] c [of 2] c [of 3] c [of 4] c [of 5] c [of 6] c [of 7]
    unfolding private_jwk_json_from_pkcs8_der_def gen_normalize
    by (simp add: pkcs1_block_def k gen_json_def [symmetric] del: One_nat_def)
  then show ?thesis by (simp add: rsa_generate_private_jwk_def drawn_der_def gen_key_def gen_text_def gen_vs_def Let_def)
qed

theorem generated_rsa_key_loads_witness:
  "\<exists>s. rsa_from_private_jwk gen_ext (''j'' @ [CHR 0x0A]) ''other'' = Ok s \<and>
     rs_public_jwk s = generated_public_jwk gen_ext (gen_text 0) (gen_text 1)"
proof -
  have p: "dr_pkcs8 gen_key = Some ''p8''" by (simp add: gen_key_def)
  show ?thesis using generated_rsa_key_loads [OF gen_laws gen_generate p gen_normalize gen_two_prime, of "''other''"] by blast
qed

end
