(* ===== verification/Cli_Text.thy ===== *)
theory Cli_Text
  imports Json_Value
begin

text \<open>
  What \<open>sts-cli\<close> prints (\<open>crates/sts-cli/src/main.rs\<close>): the sanitiser every printed field goes through,
  the redaction of tokens in error texts, and the rendering of JSON scalars and of the canary
  status. The lemmas bound what the sanitiser lets through and say exactly when redaction works:
  no word that reads as a compact JWT survives it, but a token that the length cut reaches does not
  read as one any more.
\<close>

section \<open>Characters\<close>

text \<open>The characters of a UTF-8 text: a byte with the continuation bytes that follow it.\<close>

definition is_continuation :: "char \<Rightarrow> bool" where
  "is_continuation c \<longleftrightarrow> 128 \<le> (of_char c :: nat) \<and> (of_char c :: nat) < 192"

function utf8_chars :: "string \<Rightarrow> string list" where
  "utf8_chars [] = []"
| "utf8_chars (b # s) = (b # takeWhile is_continuation s) # utf8_chars (dropWhile is_continuation s)"
  by pat_completeness auto
termination
  by (relation "measure length") (auto simp: less_Suc_eq_le length_dropWhile_le)

definition is_ascii_graphic :: "char \<Rightarrow> bool" where
  "is_ascii_graphic c \<longleftrightarrow> 33 \<le> (of_char c :: nat) \<and> (of_char c :: nat) \<le> 126"

definition is_ascii_alphanumeric :: "char \<Rightarrow> bool" where
  "is_ascii_alphanumeric c \<longleftrightarrow> (let v = of_char c :: nat in
     (48 \<le> v \<and> v \<le> 57) \<or> (65 \<le> v \<and> v \<le> 90) \<or> (97 \<le> v \<and> v \<le> 122))"

section \<open>Sanitising\<close>

definition MAX_FIELD_LEN :: nat where "MAX_FIELD_LEN = 120"

definition sanitize_char :: "string \<Rightarrow> char" where
  "sanitize_char ch = (case ch of [c] \<Rightarrow> if is_ascii_graphic c \<or> c = CHR '' '' then c else CHR ''?'' | _ \<Rightarrow> CHR ''?'')"

definition sanitize :: "string \<Rightarrow> string" where
  "sanitize value =
     map sanitize_char (take MAX_FIELD_LEN (utf8_chars value)) @
     (if MAX_FIELD_LEN < length (utf8_chars value) then ''...'' else [])"

definition sanitize_path :: "string \<Rightarrow> string" where
  "sanitize_path path = sanitize path"

definition trim_matches_when :: "(char \<Rightarrow> bool) \<Rightarrow> string \<Rightarrow> string" where
  "trim_matches_when P s = rev (dropWhile P (rev (dropWhile P s)))"

definition jwt_char :: "char \<Rightarrow> bool" where
  "jwt_char c \<longleftrightarrow> is_ascii_alphanumeric c \<or> c = CHR ''-'' \<or> c = CHR ''_'' \<or> c = CHR ''.''"

definition looks_like_compact_jwt :: "string \<Rightarrow> bool" where
  "looks_like_compact_jwt value \<longleftrightarrow>
     (let trimmed = trim_matches_when (\<lambda>c. \<not> jwt_char c) value in
      40 < length trimmed \<and> length (filter (\<lambda>c. c = CHR ''.'') trimmed) = 2)"

definition sanitize_oauth_text :: "string \<Rightarrow> string" where
  "sanitize_oauth_text value =
     join_with '' '' (map (\<lambda>part. if looks_like_compact_jwt part then ''[redacted]'' else part)
       (split_whitespace (sanitize value)))"

definition display_optional :: "string option \<Rightarrow> string" where
  "display_optional value = (case value of None \<Rightarrow> ''(absent)'' | Some v \<Rightarrow> sanitize v)"

section \<open>JSON scalars\<close>

text \<open>How \<open>serde_json\<close> writes values: \<open>to_string\<close>, \<open>to_string_pretty\<close>, and a double.\<close>

record json_writer =
  jw_compact :: "json \<Rightarrow> string option"
  jw_pretty :: "json \<Rightarrow> string option"
  jw_float :: "rat \<Rightarrow> string"

fun display_number :: "json_writer \<Rightarrow> json_number \<Rightarrow> string" where
  "display_number W (PosInt n) = display_nat n"
| "display_number W (NegInt i) = display_i64 i"
| "display_number W (Float q) = jw_float W q"

fun display_json_scalar :: "json_writer \<Rightarrow> json \<Rightarrow> string" where
  "display_json_scalar W (JString s) = sanitize s"
| "display_json_scalar W (JNumber n) = display_number W n"
| "display_json_scalar W (JBool b) = (if b then ''true'' else ''false'')"
| "display_json_scalar W JNull = ''(absent)''"
| "display_json_scalar W v = (case jw_compact W v of None \<Rightarrow> ''(unrenderable)'' | Some s \<Rightarrow> sanitize s)"

section \<open>Canary status\<close>

definition canary_required :: "string list" where
  "canary_required =
     [''CANARY_STS_BASE_URL'', ''CANARY_IDP_ISSUER'', ''CANARY_EXPECTED_SUBJECT_AUD'', ''CANARY_TARGET_AUDIENCE'',
      ''CANARY_TARGET_SCOPE'', ''CANARY_ACTOR_ID'']"

definition render_canary_config_status :: "(string \<Rightarrow> bool) \<Rightarrow> string" where
  "render_canary_config_status present =
     (let missing = filter (\<lambda>name. \<not> present name) canary_required @
            (if \<not> present ''CANARY_SUBJECT_TOKEN'' \<and> \<not> present ''CANARY_SUBJECT_TOKEN_FILE''
             then [''CANARY_SUBJECT_TOKEN or CANARY_SUBJECT_TOKEN_FILE''] else []) @
            (if \<not> present ''CANARY_ACTOR_PRIVATE_JWK'' \<and> \<not> present ''CANARY_ACTOR_PRIVATE_JWK_FILE''
             then [''CANARY_ACTOR_PRIVATE_JWK or CANARY_ACTOR_PRIVATE_JWK_FILE''] else [])
      in if missing = [] then ''canary_status=configured'' @ [CHR 0x0A] @ ''network=disabled'' @ [CHR 0x0A]
         else ''canary_status=not_configured'' @ [CHR 0x0A] @ ''missing='' @ join_with '','' missing @ [CHR 0x0A])"

definition render_canary_config_status_from_env :: "(string \<Rightarrow> string option) \<Rightarrow> string" where
  "render_canary_config_status_from_env var =
     render_canary_config_status (\<lambda>key. case var key of None \<Rightarrow> False | Some v \<Rightarrow> v \<noteq> [])"

section \<open>What the sanitiser lets through\<close>

abbreviation printable :: "char \<Rightarrow> bool" where
  "printable c \<equiv> is_ascii_graphic c \<or> c = CHR '' ''"

lemma printable_sanitize_char: "printable (sanitize_char ch)"
proof -
  have "printable CHR ''?''" by (simp add: is_ascii_graphic_def)
  then show ?thesis by (auto simp: sanitize_char_def split: list.splits)
qed

lemma sanitize_printable: "c \<in> set (sanitize value) \<Longrightarrow> printable c"
  using printable_sanitize_char by (auto simp: sanitize_def is_ascii_graphic_def split: if_splits)

lemma sanitize_length: "length (sanitize value) \<le> MAX_FIELD_LEN + 3"
  by (simp add: sanitize_def)

lemma printable_not_continuation: "printable c \<Longrightarrow> \<not> is_continuation c"
  by (auto simp: is_ascii_graphic_def is_continuation_def)

lemma utf8_chars_printable: "list_all printable s \<Longrightarrow> utf8_chars s = map (\<lambda>c. [c]) s"
proof (induction s)
  case (Cons c s)
  then have "takeWhile is_continuation s = []" "dropWhile is_continuation s = s"
    using printable_not_continuation by (cases s; auto)+
  with Cons show ?case by simp
qed simp

lemma sanitize_of_printable:
  assumes "list_all printable s"
  shows "sanitize s = (if MAX_FIELD_LEN < length s then take MAX_FIELD_LEN s @ ''...'' else s)"
proof -
  have "sanitize_char [c] = c" if "printable c" for c using that by (simp add: sanitize_char_def)
  with assms have "map (\<lambda>c. sanitize_char [c]) (take MAX_FIELD_LEN s) = take MAX_FIELD_LEN s"
    by (intro map_idI) (auto simp: list_all_iff dest: in_set_takeD)
  then show ?thesis using assms by (simp add: sanitize_def utf8_chars_printable take_map comp_def)
qed

lemma sanitize_idem: "sanitize (sanitize value) = sanitize value"
proof -
  have "list_all printable (sanitize value)" by (simp add: list_all_iff sanitize_printable)
  then have *: "sanitize (sanitize value) = (if MAX_FIELD_LEN < length (sanitize value)
      then take MAX_FIELD_LEN (sanitize value) @ ''...'' else sanitize value)"
    by (rule sanitize_of_printable)
  show ?thesis
  proof (cases "MAX_FIELD_LEN < length (utf8_chars value)")
    case True
    then have "take MAX_FIELD_LEN (sanitize value) @ ''...'' = sanitize value" by (simp add: sanitize_def)
    with * show ?thesis by presburger
  qed (use * in \<open>simp add: sanitize_def\<close>)
qed

section \<open>Redaction\<close>

lemma ws_len_graphic:
  assumes "is_ascii_graphic a"
  shows "ws_len (a # s) = 0"
proof -
  have "\<not> is_ascii_graphic c" if "c \<in> {CHR 0x09, CHR 0x0A, CHR 0x0B, CHR 0x0C, CHR 0x0D, CHR 0x20, CHR 0xC2, CHR 0xE1, CHR 0xE2, CHR 0xE3}" for c
    using that by (auto simp: is_ascii_graphic_def)
  with assms have "\<not> ws1 a" "\<not> ws2 a b" "\<not> ws3 a b c" for b c
    unfolding ws1_def ws2_def ws3_def by blast+
  then show ?thesis by (simp add: ws_len_Cons split: list.splits)
qed

lemma no_ws_graphic: "list_all is_ascii_graphic s \<Longrightarrow> no_ws s"
  by (induction s) (auto simp: ws_len_graphic)

lemma redacted_word: "is_token ''[redacted]''" "\<not> looks_like_compact_jwt ''[redacted]''"
proof -
  have "list_all is_ascii_graphic ''[redacted]''" by (simp add: is_ascii_graphic_def)
  from no_ws_graphic [OF this] show "is_token ''[redacted]''" unfolding is_token_def by blast
  have "length (trim_matches_when P s) \<le> length s" for P s
    unfolding trim_matches_when_def by (metis dual_order.trans length_dropWhile_le length_rev)
  from this [of "\<lambda>c. \<not> jwt_char c" "''[redacted]''"] show "\<not> looks_like_compact_jwt ''[redacted]''"
    by (simp add: looks_like_compact_jwt_def Let_def)
qed

lemma redacted_words:
  "split_whitespace (sanitize_oauth_text value) =
     map (\<lambda>part. if looks_like_compact_jwt part then ''[redacted]'' else part) (split_whitespace (sanitize value))"
  unfolding sanitize_oauth_text_def
  by (rule split_join_tokens) (use redacted_word(1) in \<open>auto dest: split_whitespace_tokens\<close>)

section \<open>Properties\<close>

text \<open>
  What an error text can show. The sanitised text has at most 123 characters, all of them
  printable ASCII, and none of its words reads as a compact JWT.
\<close>

theorem oauth_text_redacted:
  "list_all (\<lambda>w. \<not> looks_like_compact_jwt w) (split_whitespace (sanitize_oauth_text v)) \<and>
   list_all printable (sanitize v) \<and> length (sanitize v) \<le> 123 \<and> sanitize (sanitize v) = sanitize v"
  using redacted_word(2) sanitize_printable sanitize_length [of v]
  by (auto simp: redacted_words list_all_iff sanitize_idem MAX_FIELD_LEN_def)

text \<open>
  C40: redaction misses long tokens. A compact token of more than 120 graphic characters is cut to its
  first 120 characters and three dots before the words are examined, and the added dots make it fail
  the test for a JWT: the text shows the first 120 characters of the token.
\<close>

theorem long_jwt_not_redacted:
  assumes "list_all is_ascii_graphic tok" "120 < length tok"
  shows "sanitize_oauth_text tok = take 120 tok @ ''...''"
proof -
  have s: "sanitize tok = take 120 tok @ ''...''"
    using assms by (subst sanitize_of_printable) (auto simp: list_all_iff MAX_FIELD_LEN_def)
  have g: "list_all is_ascii_graphic (take 120 tok @ ''...'')"
    using assms(1) by (auto simp: list_all_iff is_ascii_graphic_def dest: in_set_takeD)
  have "\<not> looks_like_compact_jwt (take 120 tok @ ''...'')"
  proof -
    have dot: "jwt_char CHR ''.''" by (simp add: jwt_char_def)
    let ?P = "\<lambda>c. \<not> jwt_char c"
    have "\<exists>u. dropWhile ?P (w @ ''...'') = u @ ''...''" for w
      by (induction w) (auto simp: dot intro: exI [of _ "[]"] exI [of _ "_ # _"])
    then obtain u where u: "dropWhile ?P (take 120 tok @ ''...'') = u @ ''...''" by blast
    have "trim_matches_when ?P (take 120 tok @ ''...'') = u @ ''...''"
      by (simp add: trim_matches_when_def u dot)
    then show ?thesis by (simp add: looks_like_compact_jwt_def Let_def)
  qed
  moreover have "split_whitespace (take 120 tok @ ''...'') = [take 120 tok @ ''...'']"
    by (rule split_whitespace_token) (use g no_ws_graphic in \<open>simp add: is_token_def\<close>)
  ultimately show ?thesis by (simp add: sanitize_oauth_text_def s)
qed

text \<open>A token with a short header and payload, and a signature as long as an RSA one.\<close>

definition sample_jwt :: string where
  "sample_jwt = replicate 30 CHR ''h'' @ ''.'' @ replicate 60 CHR ''p'' @ ''.'' @ replicate 342 CHR ''s''"

theorem long_jwt_not_redacted_witness:
  "looks_like_compact_jwt sample_jwt \<and> sanitize_oauth_text sample_jwt = take 120 sample_jwt @ ''...''"
proof -
  have "list_all is_ascii_graphic sample_jwt" "120 < length sample_jwt"
    by (simp_all add: sample_jwt_def is_ascii_graphic_def list_all_iff)
  note cut = long_jwt_not_redacted [OF this]
  have c: "jwt_char CHR ''h''" "jwt_char CHR ''s''" by (simp_all add: jwt_char_def is_ascii_alphanumeric_def)
  have h: "dropWhile (\<lambda>c. \<not> jwt_char c) (a # t) = a # t" if "jwt_char a" for a t using that by simp
  have hd: "replicate 30 CHR ''h'' = CHR ''h'' # replicate 29 CHR ''h''" "replicate 342 CHR ''s'' = CHR ''s'' # replicate 341 CHR ''s''"
    by (simp_all add: numeral_eq_Suc)
  have "trim_matches_when (\<lambda>c. \<not> jwt_char c) sample_jwt = sample_jwt"
    unfolding trim_matches_when_def sample_jwt_def hd by (simp add: c)
  then have "looks_like_compact_jwt sample_jwt"
    by (simp add: looks_like_compact_jwt_def Let_def) (simp add: sample_jwt_def)
  with cut show ?thesis by simp
qed

end
