(* ===== verification/Jose_Mock.thy ===== *)
theory Jose_Mock
  imports Sts_Signers
begin

text \<open>
  The in-process stand-ins for external key custody of \<open>sts-jose\<close>. A provider is the signing
  function it offers; \<open>rsa_sign\<close> is \<open>RsaKeyPair::sign\<close> on a PKCS#1 key, \<open>None\<close> when it fails.
\<close>

record MockExternalRs256Provider =
  mr_key_pair :: string
  mr_signature_len :: nat

definition mock_rs256_from_private_jwk_for_backend ::
    "jose_ext \<Rightarrow> BackendSelection \<Rightarrow> string \<Rightarrow> (JoseError, MockExternalRs256Provider) result" where
  "mock_rs256_from_private_jwk_for_backend E selection private_jwk_json =
     and_then (ensure_classical_backend selection) (\<lambda>_.
     and_then (ok_or (rsa_jwk_from_str E private_jwk_json)
         (jose_error JoseInvalidKey [Lit ''invalid RSA private JWK JSON: '', Ext])) (\<lambda>jwk.
     if prsa_kty jwk \<noteq> ''RSA'' then
       Err (jose_error JoseInvalidKey (lit (''unsupported private JWK key type '' @ prsa_kty jwk)))
     else
       and_then (rsa_private_jwk_to_pkcs1_der E jwk) (\<lambda>private_der.
       (case rsa_key_from_der E private_der of
          None \<Rightarrow> Err (jose_error JoseInvalidKey [Lit ''invalid RSA private key: '', Ext])
        | Some (modulus_len, n, e) \<Rightarrow>
            if modulus_len * 8 < 2048 then
              Err (jose_error JoseInvalidKey (lit ''RSA signing key modulus must be at least 2048 bits''))
            else Ok \<lparr>mr_key_pair = private_der, mr_signature_len = modulus_len\<rparr>))))"

definition mock_sign_rs256 ::
    "(string \<Rightarrow> string \<Rightarrow> string option) \<Rightarrow> MockExternalRs256Provider \<Rightarrow> string \<Rightarrow> (JoseError, string) result" where
  "mock_sign_rs256 rsa_sign p signing_input =
     ok_or (rsa_sign (mr_key_pair p) signing_input)
       (jose_error JoseInvalidKey [Lit ''external RS256 signing failed: '', Ext])"

record MockExternalMlDsaProvider =
  mm_algorithm :: MlDsaAlgorithm
  mm_key_pair :: string

definition mock_mldsa_from_private_jwk_for_backend ::
    "jose_ext \<Rightarrow> BackendSelection \<Rightarrow> string \<Rightarrow> (JoseError, MockExternalMlDsaProvider \<times> PublicJwk) result" where
  "mock_mldsa_from_private_jwk_for_backend E selection private_jwk_json =
     and_then (resolve_backend selection) (\<lambda>_.
     and_then (selected_pqc_algorithm selection) (\<lambda>selected_algorithm.
     and_then (mldsa_from_private_jwk_for_backend E selection private_jwk_json '''') (\<lambda>signer.
     if ml_algorithm signer \<noteq> selected_algorithm then
       Err (jose_error JoseInvalidKey (lit ''mock external ML-DSA provider alg mismatch''))
     else Ok (\<lparr>mm_algorithm = ml_algorithm signer, mm_key_pair = ml_key_pair signer\<rparr>, ml_public_jwk signer))))"

definition mock_sign_mldsa ::
    "jose_ext \<Rightarrow> MockExternalMlDsaProvider \<Rightarrow> string \<Rightarrow> (JoseError, string) result" where
  "mock_sign_mldsa E p signing_input = openssl_sign_mldsa E (mm_algorithm p) (mm_key_pair p) signing_input"

text \<open>
  The check of the algorithm in \<open>mock_mldsa_from_private_jwk_for_backend\<close> never fails: the signer's
  constructor has made it already. The provider it returns signs with the key it publishes.
\<close>

lemma mock_mldsa_ok:
  "mock_mldsa_from_private_jwk_for_backend E selection json = Ok (p, jwk) \<longleftrightarrow>
     (\<exists>s. mldsa_from_private_jwk_for_backend E selection json '''' = Ok s \<and> jwk = ml_public_jwk s \<and>
        p = \<lparr>mm_algorithm = ml_algorithm s, mm_key_pair = ml_key_pair s\<rparr>)"
proof
  show "\<exists>s. mldsa_from_private_jwk_for_backend E selection json '''' = Ok s \<and> jwk = ml_public_jwk s \<and>
      p = \<lparr>mm_algorithm = ml_algorithm s, mm_key_pair = ml_key_pair s\<rparr>"
    if "mock_mldsa_from_private_jwk_for_backend E selection json = Ok (p, jwk)"
    using that by (auto simp: mock_mldsa_from_private_jwk_for_backend_def result_iff split: if_splits)
next
  assume "\<exists>s. mldsa_from_private_jwk_for_backend E selection json '''' = Ok s \<and> jwk = ml_public_jwk s \<and>
      p = \<lparr>mm_algorithm = ml_algorithm s, mm_key_pair = ml_key_pair s\<rparr>"
  then obtain s where s: "mldsa_from_private_jwk_for_backend E selection json '''' = Ok s" "jwk = ml_public_jwk s"
    "p = \<lparr>mm_algorithm = ml_algorithm s, mm_key_pair = ml_key_pair s\<rparr>" by blast
  obtain r where "selection = RequestedPqc r" "from_selector r = Some (ml_algorithm s)"
    by (rule mldsa_constructor_ok [OF s(1)])
  moreover from s(1) have "resolve_backend selection = Ok ()"
    by (auto simp: mldsa_from_private_jwk_for_backend_def result_iff)
  ultimately show "mock_mldsa_from_private_jwk_for_backend E selection json = Ok (p, jwk)"
    using s by (auto simp: mock_mldsa_from_private_jwk_for_backend_def selected_pqc_algorithm_def and_then_def)
qed

end
