(* ===== verification/Socket_Addr.thy ===== *)
theory Socket_Addr
  imports Rust_Int
begin

text \<open>
  The parser behind \<open>str::parse::<SocketAddr>\<close> (\<open>core::net::parser\<close>), which reads the bind address.
  A reader takes the rest of the text and returns its value with what is left, or \<open>None\<close>, and then
  nothing is consumed.
\<close>

datatype IpAddr = V4 "nat list" | V6 "nat list"

record SocketAddr =
  sock_ip :: IpAddr
  sock_port :: nat

type_synonym 'a reader = "string \<Rightarrow> ('a \<times> string) option"

definition to_digit :: "nat \<Rightarrow> char \<Rightarrow> nat option" where
  "to_digit radix c =
     (let v = of_char c :: nat;
          d = (if 48 \<le> v \<and> v \<le> 57 then v - 48
               else if 97 \<le> v \<and> v \<le> 122 then v - 87
               else if 65 \<le> v \<and> v \<le> 90 then v - 55 else radix)
      in if d < radix then Some d else None)"

definition digits_value :: "nat \<Rightarrow> string \<Rightarrow> nat" where
  "digits_value radix ds = foldl (\<lambda>acc c. acc * radix + (case to_digit radix c of None \<Rightarrow> 0 | Some d \<Rightarrow> d)) 0 ds"

text \<open>
  \<open>read_number\<close>: the longest run of digits, at most \<open>max_digits\<close> of them when a maximum is given, with a
  value below \<open>bound\<close>, and without a leading zero unless that is allowed.
\<close>

definition read_number :: "nat \<Rightarrow> nat option \<Rightarrow> bool \<Rightarrow> nat \<Rightarrow> nat reader" where
  "read_number radix max_digits allow_zero_prefix bound s =
     (let ds = takeWhile (\<lambda>c. to_digit radix c \<noteq> None) s in
      if ds = [] then None
      else if (case max_digits of None \<Rightarrow> False | Some m \<Rightarrow> m < length ds) then None
      else if \<not> allow_zero_prefix \<and> hd ds = CHR ''0'' \<and> 1 < length ds then None
      else if bound \<le> digits_value radix ds then None
      else Some (digits_value radix ds, drop (length ds) s))"

definition read_given_char :: "char \<Rightarrow> unit reader" where
  "read_given_char c s = (case s of [] \<Rightarrow> None | x # t \<Rightarrow> if x = c then Some ((), t) else None)"

definition reads :: "'a reader \<Rightarrow> ('a \<Rightarrow> 'b reader) \<Rightarrow> 'b reader" where
  "reads p f s = (case p s of None \<Rightarrow> None | Some (x, t) \<Rightarrow> f x t)"

definition read_separator :: "char \<Rightarrow> nat \<Rightarrow> 'a reader \<Rightarrow> 'a reader" where
  "read_separator sep index inner =
     (if 0 < index then reads (read_given_char sep) (\<lambda>_. inner) else inner)"

primrec read_v4_groups :: "nat \<Rightarrow> nat \<Rightarrow> nat list reader" where
  "read_v4_groups i 0 s = Some ([], s)"
| "read_v4_groups i (Suc left) s =
     reads (read_separator CHR ''.'' i (read_number 10 (Some 3) False 256)) (\<lambda>g.
     reads (read_v4_groups (Suc i) left) (\<lambda>gs t. Some (g # gs, t))) s"

definition read_ipv4_addr :: "nat list reader" where
  "read_ipv4_addr = read_v4_groups 0 4"

text \<open>
  \<open>read_groups\<close>: up to \<open>left\<close> groups starting with group \<open>i\<close>, with whether an embedded IPv4 address
  ended them. It cannot fail.
\<close>

fun read_groups :: "nat \<Rightarrow> nat \<Rightarrow> string \<Rightarrow> nat list \<times> bool \<times> string" where
  "read_groups i 0 s = ([], False, s)"
| "read_groups i (Suc left) s =
     (case (if 0 < left then read_separator CHR '':'' i read_ipv4_addr s else None) of
        Some (v4, t) \<Rightarrow> ([v4 ! 0 * 256 + v4 ! 1, v4 ! 2 * 256 + v4 ! 3], True, t)
      | None \<Rightarrow>
          (case read_separator CHR '':'' i (read_number 16 (Some 4) True 65536) s of
             None \<Rightarrow> ([], False, s)
           | Some (g, t) \<Rightarrow> (case read_groups (Suc i) left t of (gs, v4, u) \<Rightarrow> (g # gs, v4, u))))"

definition read_ipv6_addr :: "nat list reader" where
  "read_ipv6_addr s =
     (case read_groups 0 8 s of (head, head_ipv4, t) \<Rightarrow>
        if length head = 8 then Some (head, t)
        else if head_ipv4 then None
        else reads (read_given_char CHR '':'') (\<lambda>_. reads (read_given_char CHR '':'') (\<lambda>_ t.
          (case read_groups 0 (8 - (length head + 1)) t of (tail, _, u) \<Rightarrow>
             Some (head @ replicate (8 - length head - length tail) 0 @ tail, u)))) t)"

definition read_port :: "nat reader" where
  "read_port = reads (read_given_char CHR '':'') (\<lambda>_. read_number 10 None True 65536)"

definition read_scope_id :: "nat reader" where
  "read_scope_id = reads (read_given_char CHR ''%'') (\<lambda>_. read_number 10 None True (2 ^ 32))"

definition read_socket_addr_v4 :: "SocketAddr reader" where
  "read_socket_addr_v4 = reads read_ipv4_addr (\<lambda>ip. reads read_port (\<lambda>port t.
     Some (\<lparr>sock_ip = V4 ip, sock_port = port\<rparr>, t)))"

definition read_socket_addr_v6 :: "SocketAddr reader" where
  "read_socket_addr_v6 =
     reads (read_given_char CHR ''['') (\<lambda>_. reads read_ipv6_addr (\<lambda>ip t.
     let t = (case read_scope_id t of None \<Rightarrow> t | Some (_, u) \<Rightarrow> u) in
     reads (read_given_char CHR '']'') (\<lambda>_. reads read_port (\<lambda>port t.
     Some (\<lparr>sock_ip = V6 ip, sock_port = port\<rparr>, t))) t))"

definition read_socket_addr :: "SocketAddr reader" where
  "read_socket_addr s =
     (case read_socket_addr_v4 s of Some r \<Rightarrow> Some r | None \<Rightarrow> read_socket_addr_v6 s)"

definition parse_socket_addr :: "string \<Rightarrow> SocketAddr option" where
  "parse_socket_addr s =
     (case read_socket_addr s of Some (a, []) \<Rightarrow> Some a | _ \<Rightarrow> None)"

text \<open>\<open>is_loopback_ip\<close>: \<open>127.0.0.0/8\<close> and \<open>::1\<close>.\<close>

fun is_loopback_ip :: "IpAddr \<Rightarrow> bool" where
  "is_loopback_ip (V4 groups) \<longleftrightarrow> (case groups of [] \<Rightarrow> False | a # _ \<Rightarrow> a = 127)"
| "is_loopback_ip (V6 segments) \<longleftrightarrow> segments = [0, 0, 0, 0, 0, 0, 0, 1]"

section \<open>What the parser returns\<close>

fun ip_wf :: "IpAddr \<Rightarrow> bool" where
  "ip_wf (V4 groups) \<longleftrightarrow> length groups = 4 \<and> list_all (\<lambda>g. g < 256) groups"
| "ip_wf (V6 segments) \<longleftrightarrow> length segments = 8 \<and> list_all (\<lambda>g. g < 65536) segments"

lemma reads_Some: "reads p f s = Some r \<longleftrightarrow> (\<exists>x t. p s = Some (x, t) \<and> f x t = Some r)"
  by (auto simp: reads_def split: option.splits)

lemma read_number_bound: "read_number r m z b s = Some (n, t) \<Longrightarrow> n < b"
  by (auto simp: read_number_def Let_def split: if_splits)

lemma read_separator_Some: "read_separator sep i p s = Some r \<Longrightarrow> \<exists>t. p t = Some r"
  by (auto simp: read_separator_def reads_Some split: if_splits)

lemma read_v4_groups_wf: "read_v4_groups i n s = Some (gs, t) \<Longrightarrow> length gs = n \<and> list_all (\<lambda>g. g < 256) gs"
proof (induction n arbitrary: i s gs t)
  case (Suc n)
  then obtain g gs' u where "gs = g # gs'" "read_v4_groups (Suc i) n u = Some (gs', t)"
    "\<exists>v w. read_number 10 (Some 3) False 256 v = Some (g, w)"
    by (fastforce simp: reads_Some dest: read_separator_Some)
  with Suc.IH show ?case by (auto dest: read_number_bound)
qed simp

lemma read_ipv4_wf:
  assumes "read_ipv4_addr s = Some (gs, t)"
  shows "length gs = 4" "list_all (\<lambda>g. g < 256) gs"
  using assms by (auto simp: read_ipv4_addr_def dest: read_v4_groups_wf)

lemma read_groups_wf:
  "read_groups i n s = (gs, v4, t) \<Longrightarrow> length gs \<le> n \<and> list_all (\<lambda>g. g < 65536) gs"
proof (induction i n s arbitrary: gs v4 t rule: read_groups.induct)
  case (2 i left s)
  let ?v = "if 0 < left then read_separator CHR '':'' i read_ipv4_addr s else None"
  show ?case
  proof (cases ?v)
    case (Some p)
    obtain v u where p: "p = (v, u)" by (cases p)
    with Some have "0 < left" "\<exists>w. read_ipv4_addr w = Some (v, u)"
      by (auto split: if_splits dest: read_separator_Some)
    then have w: "length v = 4" "list_all (\<lambda>g. g < 256) v" by (auto dest: read_ipv4_wf)
    then have "v ! k < 256" if "k < 4" for k using that by (simp add: list_all_length)
    from this [of 0] this [of 1] this [of 2] this [of 3] 2(2) Some p \<open>0 < left\<close> show ?thesis by auto
  next
    case None
    show ?thesis
    proof (cases "read_separator CHR '':'' i (read_number 16 (Some 4) True 65536) s")
      case (Some p)
      obtain g u where p: "p = (g, u)" by (cases p)
      with Some have g: "g < 65536" by (auto dest!: read_separator_Some read_number_bound)
      obtain hs w x where r: "read_groups (Suc i) left u = (hs, w, x)" by (cases "read_groups (Suc i) left u")
      from 2(1) [OF None Some p [symmetric] r] 2(2) None Some p r g show ?thesis by auto
    qed (use 2(2) None in auto)
  qed
qed simp

lemma read_ipv6_wf:
  assumes "read_ipv6_addr s = Some (gs, t)"
  shows "length gs = 8" "list_all (\<lambda>g. g < 65536) gs"
proof -
  obtain front v u where h: "read_groups 0 8 s = (front, v, u)" by (cases "read_groups 0 8 s")
  have len: "length front \<le> 8" "list_all (\<lambda>g. g < 65536) front" using read_groups_wf [OF h] by auto
  have "length gs = 8 \<and> list_all (\<lambda>g. g < 65536) gs"
  proof (cases "length front = 8")
    case False
    with assms h obtain w where
      "gs = front @ replicate (8 - length front - length (fst (read_groups 0 (8 - (length front + 1)) w))) 0 @
         fst (read_groups 0 (8 - (length front + 1)) w)"
      unfolding read_ipv6_addr_def by (auto simp: reads_Some case_prod_unfold split: if_splits)
    moreover obtain tail b x where r: "read_groups 0 (8 - (length front + 1)) w = (tail, b, x)"
      using prod_cases3 by blast
    ultimately have "gs = front @ replicate (8 - length front - length tail) 0 @ tail" by simp
    with read_groups_wf [OF r] len False show ?thesis by (auto simp: list_all_iff)
  qed (use assms h len in \<open>auto simp: read_ipv6_addr_def\<close>)
  then show "length gs = 8" "list_all (\<lambda>g. g < 65536) gs" by simp_all
qed

lemma parse_socket_addr_wf:
  assumes "parse_socket_addr s = Some a"
  shows "ip_wf (sock_ip a)" "sock_port a < 65536"
proof -
  have "read_socket_addr_v4 s = Some (a, []) \<or> read_socket_addr_v6 s = Some (a, [])"
    using assms by (auto simp: parse_socket_addr_def read_socket_addr_def split: option.splits list.splits)
  then have "ip_wf (sock_ip a) \<and> sock_port a < 65536"
    by (auto simp: read_socket_addr_v4_def read_socket_addr_v6_def reads_Some read_port_def Let_def
        dest: read_ipv4_wf read_ipv6_wf read_number_bound)
  then show "ip_wf (sock_ip a)" "sock_port a < 65536" by simp_all
qed

lemma read_ipv4_addr_alt: "read_ipv4_addr = read_v4_groups 0 (Suc (Suc (Suc (Suc 0))))"
  by (simp add: read_ipv4_addr_def eval_nat_numeral)

lemmas socket_addr_eval = parse_socket_addr_def read_socket_addr_def read_socket_addr_v4_def read_ipv4_addr_alt
  read_separator_def read_given_char_def reads_def read_number_def to_digit_def digits_value_def read_port_def
  read_socket_addr_v6_def

lemma bind_addresses:
  "parse_socket_addr ''127.0.0.1:8080'' = Some \<lparr>sock_ip = V4 [127, 0, 0, 1], sock_port = 8080\<rparr>"
  "parse_socket_addr ''127.0.0.01:80'' = None" "parse_socket_addr ''localhost:80'' = None"
  "parse_socket_addr ''0.0.0.0:65536'' = None" "parse_socket_addr ''1.2.3.256:80'' = None"
  by (simp_all add: socket_addr_eval)

end
