(* ===== verification/Http_Bootstrap.thy ===== *)
theory Http_Bootstrap
  imports Service_Frame Jose_Mock Socket_Addr
begin

text \<open>
  Startup of \<open>sts-http\<close>: the bind address, the key files and the construction of the shared state from
  a configuration source. The lemmas show what holds of every state that starts: no key set read
  from a file has private members or short RSA keys, files others may write are refused unless the
  configuration says otherwise, the server publishes its own key under a \<open>kid\<close> no other published
  key has, and the state satisfies the invariant of the service.

  Discovery over HTTP, reading files and their permission bits, JSON parsing and RSA signing are
  parameters, collected in \<open>boot_env\<close>. The default features are modelled: ML-DSA is available.
\<close>

unbundle bit_operations_syntax

section \<open>Errors and parameters\<close>

datatype BootstrapError =
    BConfig ConfigError
  | BJose JoseError
  | BVerify VerifyError
  | BReplay ReplayError
  | BIo string msg
  | BInvalidJwks string msg
  | BInvalidBind msg

fun bootstrap_error_text :: "BootstrapError \<Rightarrow> msg" where
  "bootstrap_error_text (BConfig e) = Lit ''config error: '' # config_error_text e"
| "bootstrap_error_text (BJose e) = Lit ''JOSE error: '' # jose_error_text e"
| "bootstrap_error_text (BVerify e) = Lit ''verification error: '' # verify_error_text e"
| "bootstrap_error_text (BReplay e) = Lit ''replay error: '' # replay_error_text e"
| "bootstrap_error_text (BIo path m) = Lit (''IO error for '' @ path @ '': '') # m"
| "bootstrap_error_text (BInvalidJwks label m) = Lit (''invalid '' @ label @ '': '') # m"
| "bootstrap_error_text (BInvalidBind m) = Lit ''invalid bind address: '' # m"

record boot_env =
  be_config :: config_env
  be_jose :: jose_ext
  be_minted_codec :: "MintedClaims codec"
  be_http :: http_client
  be_file_mode :: "string \<Rightarrow> 32 word option"
  be_rsa_sign :: "string \<Rightarrow> string \<Rightarrow> string option"
  be_replay_dir :: "string \<Rightarrow> directory option"

text \<open>
  \<open>be_file_mode\<close> is \<open>None\<close> where \<open>fs::metadata\<close> fails; \<open>be_replay_dir\<close> is the directory after
  \<open>create_dir_all\<close>, \<open>None\<close> when that fails.
\<close>

section \<open>Files\<close>

fun display_octal :: "nat \<Rightarrow> string" where
  "display_octal n = (if n < 8 then [digit_char n] else display_octal (n div 8) @ [digit_char (n mod 8)])"

declare display_octal.simps [simp del]

definition check_file_mode :: "boot_env \<Rightarrow> string \<Rightarrow> string \<Rightarrow> bool \<Rightarrow> (BootstrapError, unit) result" where
  "check_file_mode B path label allow_insecure_writable =
     (case be_file_mode B path of
        None \<Rightarrow> Ok ()
      | Some m \<Rightarrow>
          let mode = m AND 511 in
          if mode AND 18 \<noteq> 0 \<and> \<not> allow_insecure_writable then
            Err (BIo path (lit (label @ '' is group/world-writable (mode '' @ display_octal (unat mode) @
              ''); chmod 600 or set the explicit insecure override'')))
          else Ok ())"

definition read_checked_file :: "boot_env \<Rightarrow> string \<Rightarrow> string \<Rightarrow> bool \<Rightarrow> (BootstrapError, string) result" where
  "read_checked_file B path label allow_insecure_writable =
     and_then (check_file_mode B path label allow_insecure_writable) (\<lambda>_.
     ok_or (ce_read_file (be_config B) path) (BIo path [Ext]))"

section \<open>Public key sets\<close>

definition PUBLIC_JWKS_PRIVATE_MEMBERS :: "string list" where
  "PUBLIC_JWKS_PRIVATE_MEMBERS = [''d'', ''p'', ''q'', ''dp'', ''dq'', ''qi'', ''oth'', ''k'', ''priv'']"

text \<open>
  The deserialiser that \<open>derive\<close> generates for \<open>PublicJwk\<close>: \<open>kty\<close> and \<open>kid\<close> are required strings, \<open>use\<close>
  and \<open>alg\<close> have defaults, the other members are optional strings, where \<open>null\<close> counts as absent.
\<close>

definition required_member :: "(string \<times> json) list \<Rightarrow> string \<Rightarrow> string option" where
  "required_member m k = obj_get_str m k"

definition defaulted_member :: "(string \<times> json) list \<Rightarrow> string \<Rightarrow> string \<Rightarrow> string option" where
  "defaulted_member m k d = (case obj_get m k of None \<Rightarrow> Some d | Some v \<Rightarrow> as_str v)"

definition optional_member :: "(string \<times> json) list \<Rightarrow> string \<Rightarrow> string option option" where
  "optional_member m k =
     (case obj_get m k of None \<Rightarrow> Some None | Some JNull \<Rightarrow> Some None | Some v \<Rightarrow> map_option Some (as_str v))"

definition public_jwk_from_value :: "(string \<times> json) list \<Rightarrow> PublicJwk option" where
  "public_jwk_from_value m =
     (case (required_member m ''kty'', required_member m ''kid'', defaulted_member m ''use'' default_jwk_use,
            defaulted_member m ''alg'' default_jwk_alg, optional_member m ''n'', optional_member m ''e'',
            optional_member m ''pub'') of
        (Some kty, Some kid, Some u, Some alg, Some n, Some e, Some pub) \<Rightarrow>
          Some \<lparr>jwk_kty = kty, jwk_kid = kid, jwk_use = u, jwk_alg = alg, jwk_n = n, jwk_e = e, jwk_pub = pub\<rparr>
      | _ \<Rightarrow> None)"

definition normalize_public_key :: "boot_env \<Rightarrow> string \<Rightarrow> json \<Rightarrow> (BootstrapError, PublicJwk) result" where
  "normalize_public_key B label key =
     (case as_object key of
        None \<Rightarrow> Err (BInvalidJwks label (lit ''key entries must be objects''))
      | Some object \<Rightarrow>
          let private_found = filter (contains_key object) PUBLIC_JWKS_PRIVATE_MEMBERS in
          if private_found \<noteq> [] then
            Err (BInvalidJwks label (lit (''key contains private JWK member(s) '' @ join_with '','' private_found @
              ''; public JWKS files must not contain private material'')))
          else
            and_then (ok_or (public_jwk_from_value object)
                (BInvalidJwks label [Lit ''invalid public JWK: '', Ext])) (\<lambda>jwk.
            and_then (map_err BJose (validate_public_jwk (be_jose B) jwk)) (\<lambda>_.
            if jwk_kty jwk = ''RSA'' then
              and_then (map_err BJose (rsa_public_key_bits_from_jwk (be_jose B) jwk)) (\<lambda>bits.
              if bits < 2048 then
                Err (BInvalidJwks label (lit ''RSA public keys must be at least 2048 bits''))
              else Ok jwk)
            else Ok jwk)))"

definition jwks_entries :: "string \<Rightarrow> json \<Rightarrow> (BootstrapError, json list) result" where
  "jwks_entries label value =
     (case value of
        JObject object \<Rightarrow>
          (case obj_get object ''keys'' of
             Some (JArray keys) \<Rightarrow> Ok keys
           | Some _ \<Rightarrow> Err (BInvalidJwks label (lit ''keys must be an array''))
           | None \<Rightarrow> Ok [JObject object])
      | _ \<Rightarrow> Err (BInvalidJwks label (lit ''JWKS must be an object'')))"

definition normalize_public_jwks_value ::
    "boot_env \<Rightarrow> json \<Rightarrow> string \<Rightarrow> (BootstrapError, JwksDocument) result" where
  "normalize_public_jwks_value B value label =
     and_then (jwks_entries label value) (\<lambda>keys.
     if keys = [] then Err (BInvalidJwks label (lit ''no public keys found''))
     else and_then (collect_results (normalize_public_key B label) keys) (\<lambda>public_keys.
     Ok \<lparr>jwks_keys = public_keys\<rparr>))"

definition load_public_jwks_file ::
    "boot_env \<Rightarrow> string \<Rightarrow> string \<Rightarrow> bool \<Rightarrow> (BootstrapError, JwksDocument) result" where
  "load_public_jwks_file B path label allow_insecure_writable =
     and_then (read_checked_file B path label allow_insecure_writable) (\<lambda>raw.
     and_then (ok_or (ce_json (be_config B) raw)
         (BInvalidJwks label [Lit ''file is not valid JSON: '', Ext])) (\<lambda>value.
     normalize_public_jwks_value B value label))"

definition load_subject_jwks :: "boot_env \<Rightarrow> RuntimeConfig \<Rightarrow> (BootstrapError, JwksDocument) result" where
  "load_subject_jwks B config =
     (case idp_jwks_file config of
        Some file \<Rightarrow> load_public_jwks_file B file ''IdP JWKS'' (allow_insecure_jwks config)
      | None \<Rightarrow> map_err BVerify
          (resolve_idp_jwks (ce_url (be_config B)) (be_http B) (idp_issuer config) (idp_jwks_uri config)))"

section \<open>The signer\<close>

definition load_pqc_signer ::
    "boot_env \<Rightarrow> BackendSelection \<Rightarrow> string \<Rightarrow> string \<Rightarrow> (BootstrapError, JoseSigner) result" where
  "load_pqc_signer B selection raw fallback_kid =
     (if starts_with (trim_start raw) ''-----BEGIN'' then
        Err (BJose (jose_error JoseInvalidKey
          (lit ''ML-DSA signing requires an RFC 9964 AKP private JWK seed, not PEM'')))
      else map_err BJose (map_ok MlDsaSigner
        (mldsa_from_private_jwk_for_backend (be_jose B) selection raw fallback_kid)))"

definition load_file_signer :: "boot_env \<Rightarrow> RuntimeConfig \<Rightarrow> (BootstrapError, JoseSigner) result" where
  "load_file_signer B config =
     and_then (read_checked_file B (obo_sts_key_file config) ''STS signing key'' (allow_insecure_key_file config)) (\<lambda>raw.
     let selection = backend_parse (sts_signing_alg config) in
     case selection of
       RequestedPqc _ \<Rightarrow> load_pqc_signer B selection raw (our_kid config)
     | Classical \<Rightarrow> map_err BJose (map_ok RsaSigner
         (if starts_with (trim_start raw) ''-----BEGIN'' then
            from_pkcs1_pem_for_backend (be_jose B) selection raw (our_kid config)
          else rsa_from_private_jwk_for_backend (be_jose B) selection raw (our_kid config))))"

definition verify_external_signer_at_bootstrap :: "boot_env \<Rightarrow> JoseSigner \<Rightarrow> (BootstrapError, unit) result" where
  "verify_external_signer_at_bootstrap B signer =
     (let claims = minted_claims_new ''bootstrap-self-check'' ''bootstrap-subject'' ''bootstrap-audience''
            ''bootstrap.scope'' 1 2 ''bootstrap-jti'' ''bootstrap-actor''
      in and_then (map_err BJose (sign_claims (be_jose B) (be_minted_codec B) signer claims)) (\<lambda>token.
         and_then (map_err BJose (verify_claims (be_jose B) (be_minted_codec B) signer token)) (\<lambda>_.
         Ok ())))"

definition load_mock_external_signer :: "boot_env \<Rightarrow> RuntimeConfig \<Rightarrow> (BootstrapError, JoseSigner) result" where
  "load_mock_external_signer B config =
     (let selection = backend_parse (sts_signing_alg config) in
      if selection \<noteq> Classical then
        Err (BJose (jose_error JoseUnsupportedAlgorithm
          (lit ''mock-external signing provider currently supports RS256 only'')))
      else
        and_then (ok_or (sts_signing_public_jwks_file config)
            (BConfig (config_error MissingEnv ''STS_SIGNING_PUBLIC_JWKS_FILE''
              (lit ''set STS_SIGNING_PUBLIC_JWKS_FILE when STS_SIGNING_PROVIDER=mock-external'')))) (\<lambda>public_jwks_file.
        and_then (ok_or (mock_external_signer_key_file config)
            (BConfig (config_error MissingEnv ''STS_MOCK_EXTERNAL_SIGNER_KEY_FILE''
              (lit ''set STS_MOCK_EXTERNAL_SIGNER_KEY_FILE when STS_SIGNING_PROVIDER=mock-external'')))) (\<lambda>mock_key_file.
        and_then (load_public_jwks_file B public_jwks_file ''STS signing public JWKS'' (allow_insecure_jwks config)) (\<lambda>public.
        and_then (ok_or (find (\<lambda>key. jwk_kid key = our_kid config) (jwks_keys public))
            (BInvalidJwks ''STS signing public JWKS''
              (lit (''no public key found for configured kid '' @ our_kid config)))) (\<lambda>public_jwk.
        and_then (read_checked_file B mock_key_file ''mock external signing key'' (allow_insecure_key_file config)) (\<lambda>raw.
        and_then (map_err BJose (mock_rs256_from_private_jwk_for_backend (be_jose B) selection raw)) (\<lambda>provider.
        and_then (map_err BJose (external_rs256_new (be_jose B) (our_kid config) public_jwk
            (mock_sign_rs256 (be_rsa_sign B) provider))) (\<lambda>signer.
        and_then (verify_external_signer_at_bootstrap B (ExternalRs256Signer signer)) (\<lambda>_.
        Ok (ExternalRs256Signer signer))))))))))"

definition load_signer :: "boot_env \<Rightarrow> RuntimeConfig \<Rightarrow> (BootstrapError, JoseSigner) result" where
  "load_signer B config =
     (if sts_signing_provider config = '''' \<or> sts_signing_provider config = ''file'' then load_file_signer B config
      else if sts_signing_provider config = ''mock-external'' then load_mock_external_signer B config
      else Err (BJose (jose_error JoseUnsupportedAlgorithm
        [Lit ''unsupported STS signing provider '', Dbg (sts_signing_provider config)])))"

text \<open>The extra keys, each added unless a key with its \<open>kid\<close> is published already.\<close>

definition add_published :: "PublicJwk list \<Rightarrow> PublicJwk \<Rightarrow> PublicJwk list" where
  "add_published published key =
     (if list_ex (\<lambda>existing. jwk_kid existing = jwk_kid key) published then published else published @ [key])"

definition published_jwks :: "boot_env \<Rightarrow> RuntimeConfig \<Rightarrow> JoseSigner \<Rightarrow> (BootstrapError, JwksDocument) result" where
  "published_jwks B config signer =
     (case obo_sts_extra_jwks_file config of
        None \<Rightarrow> Ok (public_jwks signer)
      | Some extra_file \<Rightarrow>
          and_then (load_public_jwks_file B extra_file ''extra STS JWKS'' (allow_insecure_jwks config)) (\<lambda>extra.
          Ok \<lparr>jwks_keys = foldl add_published (jwks_keys (public_jwks signer)) (jwks_keys extra)\<rparr>))"

section \<open>The state\<close>

definition build_replay_policy :: "boot_env \<Rightarrow> RuntimeConfig \<Rightarrow> (BootstrapError, ReplayPolicy) result" where
  "build_replay_policy B config =
     (case replay_backend config of
        MemoryBackend \<Rightarrow> Ok (MemoryStore (in_memory_new (max_seen_jti config) 256))
      | FileBackend path \<Rightarrow> map_err BReplay (map_ok FileStore
          (case be_replay_dir B path of
             None \<Rightarrow> file_new False [] (max_seen_jti config) 256
           | Some d \<Rightarrow> file_new True d (max_seen_jti config) 256)))"

definition validate_pqc_inbound_assertion_backend :: "string \<Rightarrow> (BootstrapError, unit) result" where
  "validate_pqc_inbound_assertion_backend alg = Ok ()"

primrec validate_inbound_loop :: "string list \<Rightarrow> (BootstrapError, unit) result" where
  "validate_inbound_loop [] = Ok ()"
| "validate_inbound_loop (alg # algs) =
     and_then (if is_pqc_jws_alg alg then validate_pqc_inbound_assertion_backend alg else Ok ()) (\<lambda>_.
     validate_inbound_loop algs)"

definition validate_inbound_assertion_algorithms :: "RuntimeConfig \<Rightarrow> (BootstrapError, unit) result" where
  "validate_inbound_assertion_algorithms config = validate_inbound_loop (inbound_assertion_algs config)"

definition build_state_from_config :: "boot_env \<Rightarrow> RuntimeConfig \<Rightarrow> (BootstrapError, HttpState) result" where
  "build_state_from_config B config =
     and_then (validate_inbound_assertion_algorithms config) (\<lambda>_.
     and_then (load_signer B config) (\<lambda>signer.
     and_then (published_jwks B config signer) (\<lambda>published.
     and_then (load_subject_jwks B config) (\<lambda>subject.
     and_then (load_public_jwks_file B (actor_jwks_file config) ''actor JWKS'' (allow_insecure_actor_jwks config)) (\<lambda>actor.
     and_then (load_public_jwks_file B (client_jwks_file config) ''client JWKS'' (allow_insecure_client_jwks config)) (\<lambda>client.
     and_then (build_replay_policy B config) (\<lambda>replay.
     Ok (new_with_signer_arc config signer published subject actor client replay))))))))"

definition build_state_from_source :: "boot_env \<Rightarrow> ConfigSource \<Rightarrow> (BootstrapError, HttpState) result" where
  "build_state_from_source B source =
     and_then (map_err BConfig (from_source (be_config B) source)) (build_state_from_config B)"

section \<open>The bind address\<close>

definition parse_bind_addr :: "RuntimeConfig \<Rightarrow> (BootstrapError, SocketAddr) result" where
  "parse_bind_addr config =
     and_then (ok_or (parse_socket_addr (http_addr config)) (BInvalidBind
         [Lit ''STS_HTTP_ADDR must be host:port, got '', Dbg (http_addr config), Lit '': '', Ext])) (\<lambda>addr.
     if starts_with (our_issuer config) ''http://'' \<and> \<not> is_loopback_ip (sock_ip addr) \<and> \<not> allow_insecure_http_bind config then
       Err (BInvalidBind (lit ''refusing non-loopback plaintext bind for http issuer; use https issuer or set ALLOW_INSECURE_HTTP_BIND=true''))
     else Ok addr)"

definition bootstrap_check_from_source :: "boot_env \<Rightarrow> ConfigSource \<Rightarrow> (BootstrapError, unit) result" where
  "bootstrap_check_from_source B source =
     and_then (map_err BConfig (from_source (be_config B) source)) (\<lambda>config.
     and_then (parse_bind_addr config) (\<lambda>_.
     map_ok (\<lambda>_. ()) (build_state_from_config B config)))"

text \<open>\<open>serve_from_env\<close> up to the point where the socket is bound: the address and the state it serves.\<close>

definition serve_prepare :: "boot_env \<Rightarrow> ConfigSource \<Rightarrow> (BootstrapError, SocketAddr \<times> HttpState) result" where
  "serve_prepare B source =
     and_then (map_err BConfig (from_source (be_config B) source)) (\<lambda>config.
     and_then (parse_bind_addr config) (\<lambda>addr.
     and_then (build_state_from_config B config) (\<lambda>state. Ok (addr, state))))"

section \<open>Files and key sets\<close>

text \<open>A file is protected when the group and others may not write it, or the check was switched off.\<close>

definition file_protected :: "boot_env \<Rightarrow> string \<Rightarrow> bool \<Rightarrow> bool" where
  "file_protected B path allow \<longleftrightarrow> allow \<or> (case be_file_mode B path of None \<Rightarrow> True | Some m \<Rightarrow> m AND 18 = 0)"

lemma check_file_mode_ok: "check_file_mode B path label allow = Ok () \<longleftrightarrow> file_protected B path allow"
proof -
  have "(m AND 511) AND 18 = m AND 18" for m :: "32 word" by (simp add: and.assoc)
  then show ?thesis by (auto simp: check_file_mode_def file_protected_def Let_def split: option.splits)
qed

lemma read_checked_ok:
  "read_checked_file B path label allow = Ok raw \<longleftrightarrow>
     file_protected B path allow \<and> ce_read_file (be_config B) path = Some raw"
  by (auto simp: read_checked_file_def result_iff check_file_mode_ok)

text \<open>A key that bootstrap lets through, and the JSON entry it was read from.\<close>

definition strong_public_key :: "jose_ext \<Rightarrow> PublicJwk \<Rightarrow> bool" where
  "strong_public_key E jwk \<longleftrightarrow> validate_public_jwk E jwk = Ok () \<and>
     (if jwk_kty jwk = ''RSA'' then \<exists>bits \<ge> 2048. rsa_public_key_bits_from_jwk E jwk = Ok bits else True)"

definition public_entry :: "jose_ext \<Rightarrow> json \<Rightarrow> PublicJwk \<Rightarrow> bool" where
  "public_entry E v jwk \<longleftrightarrow> (\<exists>m. v = JObject m \<and> public_jwk_from_value m = Some jwk \<and>
     list_all (\<lambda>p. \<not> contains_key m p) PUBLIC_JWKS_PRIVATE_MEMBERS \<and> strong_public_key E jwk)"

lemma normalize_public_key_ok: "normalize_public_key B label v = Ok jwk \<longleftrightarrow> public_entry (be_jose B) v jwk"
proof -
  have f: "filter (contains_key m) PUBLIC_JWKS_PRIVATE_MEMBERS = [] \<longleftrightarrow>
      list_all (\<lambda>p. \<not> contains_key m p) PUBLIC_JWKS_PRIVATE_MEMBERS" for m
    by (auto simp: list_all_iff filter_empty_conv)
  show ?thesis
  proof (cases v)
    case (JObject m)
    have "normalize_public_key B label v = Ok jwk \<longleftrightarrow>
        filter (contains_key m) PUBLIC_JWKS_PRIVATE_MEMBERS = [] \<and> public_jwk_from_value m = Some jwk \<and>
        validate_public_jwk (be_jose B) jwk = Ok () \<and>
        (if jwk_kty jwk = ''RSA'' then \<exists>bits \<ge> 2048. rsa_public_key_bits_from_jwk (be_jose B) jwk = Ok bits else True)"
      by (auto simp: JObject normalize_public_key_def Let_def result_iff split: if_splits)
    then show ?thesis by (simp add: JObject public_entry_def strong_public_key_def f conj_ac)
  qed (simp_all add: normalize_public_key_def public_entry_def)
qed

lemma collect_results_iff: "collect_results f xs = Ok ys \<longleftrightarrow> list_all2 (\<lambda>x y. f x = Ok y) xs ys"
  by (induction xs arbitrary: ys) (auto simp: result_iff list_all2_Cons1)

text \<open>The key set a file holds: one object, or the array of its member \<open>keys\<close>.\<close>

fun entries_of :: "json \<Rightarrow> json list option" where
  "entries_of (JObject m) = (case obj_get m ''keys'' of None \<Rightarrow> Some [JObject m] | Some w \<Rightarrow> as_array w)"
| "entries_of _ = None"

definition jwks_file_holds :: "boot_env \<Rightarrow> string \<Rightarrow> PublicJwk list \<Rightarrow> bool" where
  "jwks_file_holds B path ks \<longleftrightarrow> ks \<noteq> [] \<and>
     (\<exists>raw v vs. ce_read_file (be_config B) path = Some raw \<and> ce_json (be_config B) raw = Some v \<and>
        entries_of v = Some vs \<and> list_all2 (public_entry (be_jose B)) vs ks)"

lemma jwks_entries_ok: "jwks_entries label v = Ok vs \<longleftrightarrow> entries_of v = Some vs"
proof (cases v)
  case (JObject m)
  show ?thesis
  proof (cases "obj_get m ''keys''")
    case (Some w)
    then show ?thesis by (cases w) (auto simp: JObject jwks_entries_def)
  qed (auto simp: JObject jwks_entries_def)
qed (auto simp: jwks_entries_def)

lemma load_public_jwks_ok:
  "load_public_jwks_file B path label allow = Ok ks \<longleftrightarrow>
     file_protected B path allow \<and> jwks_file_holds B path (jwks_keys ks)"
proof -
  have *: "normalize_public_jwks_value B v label = Ok ks \<longleftrightarrow>
      (\<exists>vs. entries_of v = Some vs \<and> jwks_keys ks \<noteq> [] \<and> list_all2 (public_entry (be_jose B)) vs (jwks_keys ks))" for v
    by (cases ks)
      (auto simp: normalize_public_jwks_value_def result_iff collect_results_iff normalize_public_key_ok jwks_entries_ok)
  show ?thesis
    unfolding load_public_jwks_file_def jwks_file_holds_def by (auto simp: result_iff read_checked_ok *)
qed

section \<open>The published key set\<close>

lemma add_published_kids:
  "distinct (map jwk_kid ks) \<Longrightarrow> distinct (map jwk_kid (add_published ks k))"
  "set (add_published ks k) \<subseteq> insert k (set ks)" "\<exists>r. add_published ks k = ks @ r"
  by (auto simp: add_published_def list_ex_iff)

lemma fold_published:
  "distinct (map jwk_kid ks) \<Longrightarrow> distinct (map jwk_kid (foldl add_published ks extra)) \<and>
     set (foldl add_published ks extra) \<subseteq> set ks \<union> set extra \<and> (\<exists>r. foldl add_published ks extra = ks @ r)"
proof (induction extra arbitrary: ks)
  case (Cons k extra)
  have d: "distinct (map jwk_kid (add_published ks k))" by (rule add_published_kids(1) [OF Cons.prems])
  obtain r where r: "add_published ks k = ks @ r" using add_published_kids(3) by blast
  show ?case using Cons.IH [OF d] add_published_kids(2) [of ks k] by (auto simp: r)
qed simp

lemma public_entries_strong: "list_all2 (public_entry E) vs ks \<Longrightarrow> list_all (strong_public_key E) ks"
  by (induction rule: list_all2_induct) (auto simp: public_entry_def)

text \<open>
  The keys the server publishes: its own first, then strong keys of the extra file, all with
  different \<open>kid\<close>s.
\<close>

definition published_ok :: "boot_env \<Rightarrow> JoseSigner \<Rightarrow> JwksDocument \<Rightarrow> bool" where
  "published_ok B signer jwks \<longleftrightarrow> distinct (map jwk_kid (jwks_keys jwks)) \<and>
     (\<exists>extra. jwks_keys jwks = signer_public_jwk signer # extra \<and> list_all (strong_public_key (be_jose B)) extra)"

lemma published_jwks_ok:
  assumes "published_jwks B config signer = Ok jwks"
  shows "published_ok B signer jwks"
proof (cases "obo_sts_extra_jwks_file config")
  case None
  with assms show ?thesis by (auto simp: published_jwks_def published_ok_def public_jwks_def)
next
  case (Some path)
  from assms obtain extra where e: "load_public_jwks_file B path ''extra STS JWKS'' (allow_insecure_jwks config) = Ok extra"
    and j: "jwks_keys jwks = foldl add_published [signer_public_jwk signer] (jwks_keys extra)"
    by (auto simp: published_jwks_def Some result_iff public_jwks_def)
  from e have "list_all (strong_public_key (be_jose B)) (jwks_keys extra)"
    by (auto simp: load_public_jwks_ok jwks_file_holds_def dest: public_entries_strong)
  moreover have p: "distinct (map jwk_kid [signer_public_jwk signer])" by simp
  from fold_published [OF p, of "jwks_keys extra"] obtain r where
    r: "jwks_keys jwks = signer_public_jwk signer # r" "distinct (map jwk_kid (signer_public_jwk signer # r))"
    "set r \<subseteq> insert (signer_public_jwk signer) (set (jwks_keys extra))" by (auto simp: j)
  moreover have "signer_public_jwk signer \<notin> set r" using r(2) by force
  ultimately show ?thesis by (auto simp: published_ok_def list_all_iff)
qed

section \<open>The loaded signer\<close>

definition signing_key_protected :: "boot_env \<Rightarrow> RuntimeConfig \<Rightarrow> bool" where
  "signing_key_protected B config \<longleftrightarrow>
     (case (if sts_signing_provider config = ''mock-external'' then mock_external_signer_key_file config
            else Some (obo_sts_key_file config)) of
        None \<Rightarrow> False
      | Some path \<Rightarrow> file_protected B path (allow_insecure_key_file config))"

definition configured_signing_alg :: "RuntimeConfig \<Rightarrow> string option" where
  "configured_signing_alg config =
     (case backend_parse (sts_signing_alg config) of
        Classical \<Rightarrow> Some ''RS256''
      | RequestedPqc r \<Rightarrow> map_option jose_alg (from_selector r))"

lemma load_file_signer_ok:
  assumes "load_file_signer B config = Ok s"
  shows "file_protected B (obo_sts_key_file config) (allow_insecure_key_file config)"
    "configured_signing_alg config = Some (signer_alg s)"
proof -
  from assms obtain raw where r: "read_checked_file B (obo_sts_key_file config) ''STS signing key''
      (allow_insecure_key_file config) = Ok raw"
    by (auto simp: load_file_signer_def result_iff)
  then show "file_protected B (obo_sts_key_file config) (allow_insecure_key_file config)" by (simp add: read_checked_ok)
  show "configured_signing_alg config = Some (signer_alg s)"
  proof (cases "backend_parse (sts_signing_alg config)")
    case (RequestedPqc q)
    with assms r obtain m where m: "s = MlDsaSigner m"
      "mldsa_from_private_jwk_for_backend (be_jose B) (RequestedPqc q) raw (our_kid config) = Ok m"
      by (auto simp: load_file_signer_def load_pqc_signer_def result_iff split: if_splits)
    show ?thesis by (rule mldsa_constructor_ok [OF m(2)]) (simp add: configured_signing_alg_def RequestedPqc m(1))
  qed (use assms r in \<open>auto simp: load_file_signer_def result_iff configured_signing_alg_def\<close>)
qed

lemma load_mock_signer_ok:
  assumes "load_mock_external_signer B config = Ok s"
  shows "\<exists>path. mock_external_signer_key_file config = Some path \<and> file_protected B path (allow_insecure_key_file config)"
    "configured_signing_alg config = Some (signer_alg s)" "signer_kid s = our_kid config"
  using assms by (auto simp: load_mock_external_signer_def Let_def result_iff read_checked_ok configured_signing_alg_def
      external_rs256_new_def split: if_splits)

lemma load_signer_ok:
  assumes "load_signer B config = Ok s"
  shows "signing_key_protected B config" "configured_signing_alg config = Some (signer_alg s)"
  using assms
  by (auto simp: load_signer_def signing_key_protected_def dest: load_file_signer_ok load_mock_signer_ok(1,2)
      split: if_splits option.splits)

text \<open>Every constructor of a signer publishes the key under the signer's own \<open>kid\<close>.\<close>

lemma load_signer_kid:
  assumes "load_signer B config = Ok s"
  shows "jwk_kid (signer_public_jwk s) = signer_kid s"
proof -
  have rsa: "from_pkcs1_der E der kid = Ok r \<Longrightarrow> jwk_kid (rs_public_jwk r) = rs_kid r" for E der kid r
    by (auto simp: from_pkcs1_der_def split: option.splits if_splits)
  have ml: "mldsa_from_private_jwk_for_backend E sel raw kid = Ok r \<Longrightarrow> jwk_kid (ml_public_jwk r) = ml_kid r" for E sel raw kid r
    by (erule mldsa_constructor_ok) (simp add: akp_public_jwk_def)
  from assms consider "load_file_signer B config = Ok s" | "load_mock_external_signer B config = Ok s"
    by (auto simp: load_signer_def split: if_splits)
  then show ?thesis
  proof cases
    case 1
    then show ?thesis
      by (cases "backend_parse (sts_signing_alg config)")
         (auto simp: load_file_signer_def load_pqc_signer_def Let_def result_iff from_pkcs1_pem_for_backend_def from_pkcs1_pem_def
          rsa_from_private_jwk_for_backend_def rsa_from_private_jwk_def split: if_splits
          dest: rsa ml)
  next
    case 2
    then show ?thesis
      by (auto simp: load_mock_external_signer_def Let_def result_iff external_rs256_new_def split: if_splits)
  qed
qed

section \<open>Properties\<close>

text \<open>
  C18: what a server that starts has checked. When startup succeeds: the configuration is the one
  the source describes; a plaintext issuer is served on a loopback address or with the explicit
  exception; the signer uses the configured algorithm, never a fallback; the files with the signing
  key, the actor keys and the client keys were not writable by others unless the matching exception
  was set; the actor and client key sets, and the subject key set
  when it comes from a file, are non-empty and hold only validated public keys with no private
  member and no RSA key under 2048 bits; the published set starts with the signer's own key, which its
  \<open>kid\<close> finds, and repeats no \<open>kid\<close>; and the state is fresh and satisfies the invariant of the service (for the file
  store, exactly when the replay directory lists each name once).
\<close>

theorem bootstrap_sound:
  "case serve_prepare B source of
     Inl _ \<Rightarrow> True
   | Inr (addr, st) \<Rightarrow>
       from_source (be_config B) source = Ok (hs_config st) \<and>
       parse_socket_addr (http_addr (hs_config st)) = Some addr \<and>
       (if starts_with (our_issuer (hs_config st)) ''http://''
        then is_loopback_ip (sock_ip addr) \<or> allow_insecure_http_bind (hs_config st) else True) \<and>
       configured_signing_alg (hs_config st) = Some (signer_alg (hs_signer st)) \<and>
       signing_key_protected B (hs_config st) \<and>
       published_ok B (hs_signer st) (hs_published_jwks st) \<and> publishes (hs_published_jwks st) (hs_signer st) \<and>
       file_protected B (actor_jwks_file (hs_config st)) (allow_insecure_actor_jwks (hs_config st)) \<and>
       jwks_file_holds B (actor_jwks_file (hs_config st)) (jwks_keys (hs_actor_jwks st)) \<and>
       file_protected B (client_jwks_file (hs_config st)) (allow_insecure_client_jwks (hs_config st)) \<and>
       jwks_file_holds B (client_jwks_file (hs_config st)) (jwks_keys (hs_client_jwks st)) \<and>
       (case idp_jwks_file (hs_config st) of
          None \<Rightarrow> resolve_idp_jwks (ce_url (be_config B)) (be_http B) (idp_issuer (hs_config st))
            (idp_jwks_uri (hs_config st)) = Ok (hs_subject_jwks st)
        | Some path \<Rightarrow> file_protected B path (allow_insecure_jwks (hs_config st)) \<and>
            jwks_file_holds B path (jwks_keys (hs_subject_jwks st))) \<and>
       hs_revocations st = revocations_default \<and> hs_metrics st = metrics_default \<and>
       (case replay_backend (hs_config st) of
          MemoryBackend \<Rightarrow> service_wf st
        | FileBackend path \<Rightarrow> \<exists>d. be_replay_dir B path = Some d \<and> (service_wf st \<longleftrightarrow> distinct (map fst d)))"
proof (cases "serve_prepare B source")
  case (Inr r)
  obtain addr st where r: "r = (addr, st)" by (cases r)
  from Inr r obtain config where c: "from_source (be_config B) source = Ok config" "parse_bind_addr config = Ok addr"
    "build_state_from_config B config = Ok st" by (auto simp: serve_prepare_def result_iff)
  from c(3) obtain signer published subject actor client replay where b:
    "load_signer B config = Ok signer" "published_jwks B config signer = Ok published"
    "load_subject_jwks B config = Ok subject"
    "load_public_jwks_file B (actor_jwks_file config) ''actor JWKS'' (allow_insecure_actor_jwks config) = Ok actor"
    "load_public_jwks_file B (client_jwks_file config) ''client JWKS'' (allow_insecure_client_jwks config) = Ok client"
    "build_replay_policy B config = Ok replay"
    "st = new_with_signer_arc config signer published subject actor client replay"
    by (auto simp: build_state_from_config_def result_iff)
  have st: "hs_config st = config" "hs_signer st = signer" "hs_published_jwks st = published" "hs_subject_jwks st = subject"
    "hs_actor_jwks st = actor" "hs_client_jwks st = client" "hs_replay st = replay"
    "hs_revocations st = revocations_default" "hs_metrics st = metrics_default"
    by (simp_all add: b(7) new_with_signer_arc_def)
  have wf: "service_wf st \<longleftrightarrow> policy_invar replay"
    by (simp add: service_wf_def st revocations_default_def revocations_wf_def)
  have bind: "parse_socket_addr (http_addr config) = Some addr"
    "if starts_with (our_issuer config) ''http://'' then is_loopback_ip (sock_ip addr) \<or> allow_insecure_http_bind config else True"
    using c(2) by (auto simp: parse_bind_addr_def result_iff split: if_splits)
  have replay: "case replay_backend config of MemoryBackend \<Rightarrow> service_wf st
      | FileBackend path \<Rightarrow> \<exists>d. be_replay_dir B path = Some d \<and> (service_wf st \<longleftrightarrow> distinct (map fst d))"
    using b(6) by (auto simp: wf build_replay_policy_def mem_invar_new file_new_def file_invar_def result_iff
        split: ReplayBackend.splits option.splits)
  have subject: "case idp_jwks_file config of
       None \<Rightarrow> resolve_idp_jwks (ce_url (be_config B)) (be_http B) (idp_issuer config) (idp_jwks_uri config) = Ok subject
     | Some path \<Rightarrow> file_protected B path (allow_insecure_jwks config) \<and> jwks_file_holds B path (jwks_keys subject)"
    using b(3) by (auto simp: load_subject_jwks_def load_public_jwks_ok result_iff split: option.splits)
  have "publishes published signer"
    using published_jwks_ok [OF b(2)] load_signer_kid [OF b(1)] by (auto simp: published_ok_def publishes_def)
  then show ?thesis unfolding Inr r sum.case prod.case st
    using c(1) bind load_signer_ok [OF b(1)] published_jwks_ok [OF b(2)] b(4,5) subject replay by (simp add: load_public_jwks_ok)
qed simp

end
