(* ===== verification/Cli_Keys.thy ===== *)
theory Cli_Keys
  imports Cli_Text Http_Bootstrap
begin

text \<open>
  The key commands of \<open>sts-cli\<close>: inspection of public keys, the atomic replacement of files, and the
  rotation of the signing key with its lock and its overlap key set. The lemmas show that a failed
  rotation leaves the private key as it was, that a successful one stages the old public key, and
  that a server restarted on the rotated files still publishes it.

  The file system is a map from paths to files; which system calls succeed, the generated key and
  the names of the temporary files are parameters. Modes are the permission bits.
\<close>

section \<open>Errors and files\<close>

record CliError =
  cli_code :: int
  cli_message :: msg

definition usage :: "msg \<Rightarrow> CliError" where
  "usage message = \<lparr>cli_code = 2, cli_message = message\<rparr>"

definition runtime :: "msg \<Rightarrow> CliError" where
  "runtime message = \<lparr>cli_code = 1, cli_message = message\<rparr>"

definition from_bootstrap_error :: "BootstrapError \<Rightarrow> CliError" where
  "from_bootstrap_error e = runtime (bootstrap_error_text e)"

text \<open>
  A text that passes through \<open>sanitize_oauth_text\<close> on its way into an error. When a library wrote part of
  it, the result is a text of its own.
\<close>

fun literal_text :: "msg \<Rightarrow> string option" where
  "literal_text [] = Some []"
| "literal_text (Lit s # m) = map_option ((@) s) (literal_text m)"
| "literal_text (_ # m) = None"

definition sanitized_msg :: "msg \<Rightarrow> msg" where
  "sanitized_msg m = (case literal_text m of None \<Rightarrow> [Ext] | Some s \<Rightarrow> lit (sanitize_oauth_text s))"

record stored_file =
  f_content :: string
  f_mode :: nat

type_synonym file_system = "string \<Rightarrow> stored_file option"

text \<open>
  The outcome of the system calls. \<open>cs_write\<close> is \<open>None\<close> when everything was written and synced, and
  otherwise what the file holds after the failure.
\<close>

record cli_sys =
  cs_mkdir :: "string \<Rightarrow> bool"
  cs_read :: "string \<Rightarrow> bool"
  cs_open :: "string \<Rightarrow> bool"
  cs_write :: "string \<Rightarrow> string option"
  cs_chmod :: "string \<Rightarrow> bool"
  cs_rename :: "string \<Rightarrow> string \<Rightarrow> bool"
  cs_unlink :: "string \<Rightarrow> bool"

text \<open>The libraries the key commands call, with the JSON of a key set as \<open>to_vec_pretty\<close> writes it.\<close>

record cli_ext =
  cx_jose :: jose_ext
  cx_json :: "string \<Rightarrow> json option"
  cx_jwks_text :: "JwksDocument \<Rightarrow> string option"

type_synonym 'a fs_result = "(CliError, 'a) result \<times> file_system"

definition fs_then :: "'a fs_result \<Rightarrow> ('a \<Rightarrow> file_system \<Rightarrow> 'b fs_result) \<Rightarrow> 'b fs_result" where
  "fs_then r f = (case r of (Inl e, fs) \<Rightarrow> (Inl e, fs) | (Inr x, fs) \<Rightarrow> f x fs)"

section \<open>Paths\<close>

text \<open>
  \<open>Path::components\<close> of a Unix path: redundant separators and inner \<open>.\<close> components are dropped, a leading
  \<open>.\<close> stays. A path is absolute when it starts with a slash.
\<close>

definition path_components :: "string \<Rightarrow> string list" where
  "path_components p =
     (case split_on CHR ''/'' p of
        [] \<Rightarrow> []
      | c # cs \<Rightarrow> filter (\<lambda>c. c \<noteq> []) [c] @ filter (\<lambda>c. c \<noteq> [] \<and> c \<noteq> ''.'') cs)"

definition path_parent :: "string \<Rightarrow> string option" where
  "path_parent p =
     (let cs = path_components p in
      if cs = [] then None
      else Some ((if starts_with p ''/'' then ''/'' else []) @ join_with ''/'' (butlast cs)))"

definition path_file_name :: "string \<Rightarrow> string option" where
  "path_file_name p =
     (let cs = path_components p in
      if cs = [] \<or> last cs = ''..'' \<or> last cs = ''.'' then None else Some (last cs))"

definition parent_or_dot :: "string \<Rightarrow> string" where
  "parent_or_dot p = unwrap_or (path_parent p) ''.''"

definition unique_temp_path_for :: "nat \<Rightarrow> nat \<Rightarrow> string \<Rightarrow> string" where
  "unique_temp_path_for pid nanos path =
     path_join (parent_or_dot path)
       (''.'' @ unwrap_or (path_file_name path) ''sts-key'' @ ''.'' @ display_nat pid @ ''.'' @ display_nat nanos @ ''.tmp'')"

section \<open>Writing files\<close>

definition create_parent :: "cli_sys \<Rightarrow> string \<Rightarrow> (string \<Rightarrow> msg) \<Rightarrow> (CliError, unit) result" where
  "create_parent sys path failed =
     (case non_empty (path_parent path) of
        None \<Rightarrow> Ok ()
      | Some parent \<Rightarrow> if cs_mkdir sys parent then Ok () else Err (runtime (failed parent)))"

definition create_new :: "cli_sys \<Rightarrow> string \<Rightarrow> nat \<Rightarrow> file_system \<Rightarrow> file_system option" where
  "create_new sys path mode fs =
     (if fs path \<noteq> None \<or> \<not> cs_open sys path then None else Some (fs(path \<mapsto> \<lparr>f_content = [], f_mode = mode\<rparr>)))"

definition remove_file :: "cli_sys \<Rightarrow> string \<Rightarrow> file_system \<Rightarrow> file_system" where
  "remove_file sys path fs = (if cs_unlink sys path then fs(path := None) else fs)"

definition write_new_secret_text ::
    "cli_sys \<Rightarrow> string \<Rightarrow> string \<Rightarrow> nat \<Rightarrow> file_system \<Rightarrow> unit fs_result" where
  "write_new_secret_text sys path contents mode fs =
     (case create_parent sys path (\<lambda>parent. [Lit (''failed to create directory '' @ parent @ '': ''), Ext]) of
        Inl e \<Rightarrow> (Inl e, fs)
      | Inr _ \<Rightarrow>
          (case create_new sys path mode fs of
             None \<Rightarrow> (Err (runtime [Lit (''failed to create secret file '' @ sanitize_path path @ '': ''), Ext]), fs)
           | Some fs \<Rightarrow>
               (case cs_write sys path of
                  Some partial \<Rightarrow>
                    (Err (runtime [Lit (''failed to write secret file '' @ sanitize_path path @ '': ''), Ext]),
                     fs(path \<mapsto> \<lparr>f_content = partial, f_mode = mode\<rparr>))
                | None \<Rightarrow>
                    let fs = fs(path \<mapsto> \<lparr>f_content = contents, f_mode = mode\<rparr>) in
                    if cs_chmod sys path then (Ok (), fs)
                    else (Err (runtime
                      [Lit (''failed to set permissions on secret file '' @ sanitize_path path @ '': ''), Ext]), fs))))"

definition atomic_write_bytes ::
    "cli_sys \<Rightarrow> string \<Rightarrow> string \<Rightarrow> string \<Rightarrow> nat \<Rightarrow> file_system \<Rightarrow> unit fs_result" where
  "atomic_write_bytes sys tmp_path path bytes mode fs =
     (case create_parent sys path (\<lambda>parent. [Lit (''failed to create directory '' @ parent @ '': ''), Ext]) of
        Inl e \<Rightarrow> (Inl e, fs)
      | Inr _ \<Rightarrow>
          (case create_new sys tmp_path mode fs of
             None \<Rightarrow> (Err (runtime [Lit (''failed to create temp file '' @ tmp_path @ '': ''), Ext]), fs)
           | Some fs \<Rightarrow>
               (case cs_write sys tmp_path of
                  Some partial \<Rightarrow>
                    (Err (runtime [Lit (''failed to write temp file '' @ tmp_path @ '': ''), Ext]),
                     remove_file sys tmp_path (fs(tmp_path \<mapsto> \<lparr>f_content = partial, f_mode = mode\<rparr>)))
                | None \<Rightarrow>
                    let written = \<lparr>f_content = bytes, f_mode = mode\<rparr>; fs = fs(tmp_path \<mapsto> written) in
                    if \<not> cs_chmod sys tmp_path then
                      (Err (runtime [Lit (''failed to set permissions on '' @ tmp_path @ '': ''), Ext]),
                       remove_file sys tmp_path fs)
                    else if \<not> cs_rename sys tmp_path path then
                      (Err (runtime [Lit (''failed to replace '' @ path @ '' atomically: ''), Ext]),
                       remove_file sys tmp_path fs)
                    else (Ok (), (fs(tmp_path := None))(path \<mapsto> written)))))"

definition atomic_write_text where
  "atomic_write_text sys tmp_path path contents mode fs = atomic_write_bytes sys tmp_path path contents mode fs"

definition atomic_write_json ::
    "cli_ext \<Rightarrow> cli_sys \<Rightarrow> string \<Rightarrow> string \<Rightarrow> JwksDocument \<Rightarrow> nat \<Rightarrow> file_system \<Rightarrow> unit fs_result" where
  "atomic_write_json X sys tmp_path path document mode fs =
     (case cx_jwks_text X document of
        None \<Rightarrow> (Err (runtime [Lit (''failed to encode '' @ path @ '': ''), Ext]), fs)
      | Some bytes \<Rightarrow> atomic_write_bytes sys tmp_path path (bytes @ [CHR 0x0A]) mode fs)"

definition write_secret_text ::
    "cli_sys \<Rightarrow> string \<Rightarrow> string \<Rightarrow> string \<Rightarrow> nat \<Rightarrow> bool \<Rightarrow> file_system \<Rightarrow> unit fs_result" where
  "write_secret_text sys tmp_path path contents mode force fs =
     (if force then atomic_write_text sys tmp_path path contents mode fs
      else write_new_secret_text sys path contents mode fs)"

definition atomic_write_json_if_allowed ::
    "cli_ext \<Rightarrow> cli_sys \<Rightarrow> string \<Rightarrow> string \<Rightarrow> JwksDocument \<Rightarrow> nat \<Rightarrow> bool \<Rightarrow> file_system \<Rightarrow> unit fs_result" where
  "atomic_write_json_if_allowed X sys tmp_path path document mode force fs =
     (if \<not> force \<and> fs path \<noteq> None then
        (Err (runtime (lit (''refusing to replace existing file '' @ sanitize_path path @ ''; pass --force to overwrite''))), fs)
      else atomic_write_json X sys tmp_path path document mode fs)"

definition read_file :: "cli_sys \<Rightarrow> file_system \<Rightarrow> string \<Rightarrow> string option" where
  "read_file sys fs path =
     (if cs_read sys path then map_option f_content (fs path) else None)"

section \<open>Inspecting public keys\<close>

definition CLI_PRIVATE_JWK_MEMBERS :: "string list" where
  "CLI_PRIVATE_JWK_MEMBERS = [''d'', ''p'', ''q'', ''dp'', ''dq'', ''qi'', ''oth'', ''k'', ''priv'']"

text \<open>The command and the server refuse the same members.\<close>

lemma private_members_agree: "CLI_PRIVATE_JWK_MEMBERS = PUBLIC_JWKS_PRIVATE_MEMBERS"
  by (simp add: CLI_PRIVATE_JWK_MEMBERS_def PUBLIC_JWKS_PRIVATE_MEMBERS_def)

definition normalize_jwks_value :: "json \<Rightarrow> (CliError, (string \<times> json) list list) result" where
  "normalize_jwks_value v =
     and_then (ok_or (as_object v) (usage (lit ''JWK input must be a JSON object''))) (\<lambda>object.
     and_then (case obj_get object ''keys'' of
         Some (JArray keys) \<Rightarrow> Ok keys
       | Some _ \<Rightarrow> Err (usage (lit ''JWKS keys member must be an array''))
       | None \<Rightarrow> Ok [v]) (\<lambda>raw_keys.
     if raw_keys = [] then Err (usage (lit ''JWKS contains no keys''))
     else collect_results (\<lambda>key. ok_or (as_object key) (usage (lit ''JWK entries must be JSON objects''))) raw_keys))"

abbreviation key_at :: "nat \<Rightarrow> string" where
  "key_at index \<equiv> ''key['' @ display_nat index @ '']''"

definition optional_string :: "(string \<times> json) list \<Rightarrow> string \<Rightarrow> nat \<Rightarrow> (CliError, string option) result" where
  "optional_string key member index =
     map_transpose (\<lambda>v. ok_or (as_str v)
       (usage (lit (key_at index @ '' member '' @ member @ '' must be a string'')))) (obj_get key member)"

definition required_string :: "(string \<times> json) list \<Rightarrow> string \<Rightarrow> nat \<Rightarrow> (CliError, string) result" where
  "required_string key member index =
     and_then (optional_string key member index) (\<lambda>v.
     ok_or v (usage (lit (key_at index @ '' missing required member '' @ member))))"

definition decode_base64url_uint :: "jose_ext \<Rightarrow> string \<Rightarrow> string \<Rightarrow> nat \<Rightarrow> (CliError, string) result" where
  "decode_base64url_uint E member v index =
     ok_or (b64_decode E v) (usage (lit (key_at index @ '' member '' @ member @ '' is not base64url'')))"

definition rsa_modulus_bits_from_key :: "jose_ext \<Rightarrow> (string \<times> json) list \<Rightarrow> nat \<Rightarrow> (CliError, nat) result" where
  "rsa_modulus_bits_from_key E key index =
     and_then (required_string key ''n'' index) (\<lambda>n.
     and_then (required_string key ''e'' index) (\<lambda>e.
     and_then (decode_base64url_uint E ''n'' n index) (\<lambda>modulus.
     and_then (decode_base64url_uint E ''e'' e index) (\<lambda>exponent.
     if exponent = [] \<or> list_all (\<lambda>octet. octet = CHR 0x00) exponent then
       Err (usage (lit (key_at index @ '' RSA exponent is invalid'')))
     else if modulus = [] \<or> list_all (\<lambda>octet. octet = CHR 0x00) modulus then
       Err (usage (lit (key_at index @ '' RSA modulus is invalid'')))
     else Ok ((length modulus - 1) * 8 + (8 - leading_zeros_u8 (hd modulus)))))))"

definition akp_public_from_key :: "jose_ext \<Rightarrow> (string \<times> json) list \<Rightarrow> nat \<Rightarrow> (CliError, string) result" where
  "akp_public_from_key E key index =
     (if obj_get key ''n'' \<noteq> None \<or> obj_get key ''e'' \<noteq> None then
        Err (usage (lit (key_at index @ '' AKP key must not contain RSA n/e members'')))
      else
        and_then (required_string key ''alg'' index) (\<lambda>alg.
        and_then (ok_or (from_jose_alg alg) (usage (lit (key_at index @ '' unsupported AKP alg '' @ alg)))) (\<lambda>algorithm.
        and_then (required_string key ''pub'' index) (\<lambda>public.
        and_then (ok_or (b64_decode E public) (usage (lit (key_at index @ '' member pub is not base64url'')))) (\<lambda>bytes.
        if length bytes \<noteq> public_key_len algorithm then
          Err (usage (lit (key_at index @ '' AKP pub length must be '' @ display_nat (public_key_len algorithm) @
            '' bytes for '' @ jose_alg algorithm)))
        else Ok bytes)))))"

record InspectedKey =
  ik_index :: nat
  ik_kid :: "string option"
  ik_kty :: string
  ik_use :: "string option"
  ik_alg :: "string option"
  ik_rsa_modulus_bits :: "nat option"
  ik_akp_public_bytes :: "nat option"
  ik_akp_public_sha256_prefix :: "string option"

definition sha256_hex_prefix :: "jose_ext \<Rightarrow> string \<Rightarrow> string" where
  "sha256_hex_prefix E bytes = hex_lower (take 8 (sha256 E bytes))"

definition inspect_public_key :: "jose_ext \<Rightarrow> nat \<times> (string \<times> json) list \<Rightarrow> (CliError, InspectedKey) result" where
  "inspect_public_key E indexed =
     (case indexed of (index, key) \<Rightarrow>
        if list_ex (\<lambda>(member, _). member \<in> set CLI_PRIVATE_JWK_MEMBERS) key then
          Err (usage (lit (key_at index @
            '' contains non-public key material; refusing to inspect private or symmetric JWK input'')))
        else
          and_then (required_string key ''kty'' index) (\<lambda>kty.
          and_then (optional_string key ''kid'' index) (\<lambda>kid.
          and_then (optional_string key ''use'' index) (\<lambda>key_use.
          and_then (optional_string key ''alg'' index) (\<lambda>alg.
          and_then (if kty = ''RSA'' then map_ok Some (rsa_modulus_bits_from_key E key index) else Ok None) (\<lambda>bits.
          and_then (if kty = ''AKP'' then map_ok Some (akp_public_from_key E key index) else Ok None) (\<lambda>public.
          Ok \<lparr>ik_index = index, ik_kid = kid, ik_kty = kty, ik_use = key_use, ik_alg = alg, ik_rsa_modulus_bits = bits,
              ik_akp_public_bytes = map_option length public,
              ik_akp_public_sha256_prefix = map_option (sha256_hex_prefix E) public\<rparr>)))))))"

definition inspect_public_keys ::
    "jose_ext \<Rightarrow> (string \<times> json) list list \<Rightarrow> (CliError, InspectedKey list) result" where
  "inspect_public_keys E keys = collect_results (inspect_public_key E) (enumerate 0 keys)"

datatype InspectMode = JwksMode | SingleKeyMode

definition inspection_line :: "nat \<Rightarrow> string \<Rightarrow> string \<Rightarrow> string" where
  "inspection_line index name text = key_at index @ ''.'' @ name @ ''='' @ text @ [CHR 0x0A]"

definition render_key :: "InspectedKey \<Rightarrow> string" where
  "render_key k =
     inspection_line (ik_index k) ''kid'' (display_optional (ik_kid k)) @
     inspection_line (ik_index k) ''kty'' (sanitize (ik_kty k)) @
     inspection_line (ik_index k) ''use'' (display_optional (ik_use k)) @
     inspection_line (ik_index k) ''alg'' (display_optional (ik_alg k)) @
     (case ik_rsa_modulus_bits k of None \<Rightarrow> []
      | Some bits \<Rightarrow> inspection_line (ik_index k) ''rsa_modulus_bits'' (display_nat bits)) @
     (case ik_akp_public_bytes k of None \<Rightarrow> []
      | Some bytes \<Rightarrow> inspection_line (ik_index k) ''akp_public_bytes'' (display_nat bytes)) @
     (case ik_akp_public_sha256_prefix k of None \<Rightarrow> []
      | Some p \<Rightarrow> inspection_line (ik_index k) ''akp_public_sha256_prefix'' (sanitize p))"

definition render_inspection :: "InspectedKey list \<Rightarrow> InspectMode \<Rightarrow> string" where
  "render_inspection keys mode =
     (case mode of
        JwksMode \<Rightarrow> ''jwks_status=public'' @ [CHR 0x0A] @ ''key_count='' @ display_nat (length keys) @ [CHR 0x0A]
      | SingleKeyMode \<Rightarrow> ''key_status=public'' @ [CHR 0x0A]) @
     concat (map render_key keys)"

definition inspect_json :: "cli_ext \<Rightarrow> string \<Rightarrow> InspectMode \<Rightarrow> (CliError, string) result" where
  "inspect_json X raw mode =
     and_then (ok_or (cx_json X raw) (usage [Lit ''invalid JSON: '', Ext])) (\<lambda>v.
     and_then (normalize_jwks_value v) (\<lambda>keys.
     if mode = SingleKeyMode \<and> length keys \<noteq> 1 then
       Err (usage (lit ''key inspect requires exactly one public JWK''))
     else and_then (inspect_public_keys (cx_jose X) keys) (\<lambda>inspected. Ok (render_inspection inspected mode))))"

definition inspect_file :: "cli_ext \<Rightarrow> cli_sys \<Rightarrow> file_system \<Rightarrow> string \<Rightarrow> InspectMode \<Rightarrow> (CliError, string) result" where
  "inspect_file X sys fs path mode =
     and_then (ok_or (read_file sys fs path) (runtime [Lit (''failed to read '' @ path @ '': ''), Ext])) (\<lambda>raw.
     inspect_json X raw mode)"

text \<open>
  The JSON that the derived serialiser makes of a public key, with the members in key order, and
  the two helpers that inspect it.
\<close>

definition jwk_to_object :: "PublicJwk \<Rightarrow> (string \<times> json) list" where
  "jwk_to_object jwk =
     [(''alg'', JString (jwk_alg jwk))] @
     (case jwk_e jwk of None \<Rightarrow> [] | Some e \<Rightarrow> [(''e'', JString e)]) @
     [(''kid'', JString (jwk_kid jwk)), (''kty'', JString (jwk_kty jwk))] @
     (case jwk_n jwk of None \<Rightarrow> [] | Some n \<Rightarrow> [(''n'', JString n)]) @
     (case jwk_pub jwk of None \<Rightarrow> [] | Some p \<Rightarrow> [(''pub'', JString p)]) @
     [(''use'', JString (jwk_use jwk))]"

definition akp_public_bytes :: "jose_ext \<Rightarrow> PublicJwk \<Rightarrow> (CliError, nat) result" where
  "akp_public_bytes E jwk = map_ok length (akp_public_from_key E (jwk_to_object jwk) 0)"

definition akp_public_sha256_prefix :: "jose_ext \<Rightarrow> PublicJwk \<Rightarrow> (CliError, string) result" where
  "akp_public_sha256_prefix E jwk = map_ok (sha256_hex_prefix E) (akp_public_from_key E (jwk_to_object jwk) 0)"

section \<open>What inspection accepts\<close>

text \<open>The serialised key reads back.\<close>

lemma obj_get_append: "obj_get (xs @ ys) k = (case obj_get xs k of None \<Rightarrow> obj_get ys k | Some v \<Rightarrow> Some v)"
  by (simp add: obj_get_def map_add_def split: option.splits)

lemma obj_get_simps [simp]:
  "obj_get [] k = None" "obj_get ((a, v) # m) k = (if k = a then Some v else obj_get m k)"
  by (simp_all add: obj_get_def)

lemma public_jwk_roundtrip: "public_jwk_from_value (jwk_to_object jwk) = Some jwk"
  by (cases jwk)
     (auto simp: public_jwk_from_value_def jwk_to_object_def required_member_def obj_get_str_def defaulted_member_def
       optional_member_def obj_get_append split: option.splits)

lemma jwk_to_object_public: "p \<in> set CLI_PRIVATE_JWK_MEMBERS \<Longrightarrow> \<not> contains_key (jwk_to_object jwk) p"
  by (auto simp: CLI_PRIVATE_JWK_MEMBERS_def contains_key_def jwk_to_object_def obj_get_append split: option.splits)

lemma list_all2_left: "list_all2 R xs ys \<Longrightarrow> x \<in> set xs \<Longrightarrow> \<exists>y. R x y"
  by (induction rule: list_all2_induct) auto

text \<open>Inspection never accepts private or symmetric key material.\<close>

lemma inspect_refuses_private:
  assumes "inspect_public_keys E keys = Ok inspected" "key \<in> set keys" "p \<in> set CLI_PRIVATE_JWK_MEMBERS"
  shows "\<not> contains_key key p"
proof -
  from assms(2) obtain i where i: "(i, key) \<in> set (enumerate 0 keys)"
    by (auto simp: in_set_conv_nth set_zip enumerate_eq_zip)
  from assms(1) have l: "list_all2 (\<lambda>x y. inspect_public_key E x = Ok y) (enumerate 0 keys) inspected"
    by (simp add: inspect_public_keys_def collect_results_iff)
  from list_all2_left [OF l i] obtain y where "inspect_public_key E (i, key) = Ok y" by blast
  then have "\<not> list_ex (\<lambda>(member, _). member \<in> set CLI_PRIVATE_JWK_MEMBERS) key"
    by (auto simp: inspect_public_key_def split: if_splits)
  with assms(3) show ?thesis by (auto simp: contains_key_iff list_ex_iff)
qed

section \<open>What the writers do\<close>

lemma create_new_Some:
  "create_new sys path mode fs = Some fs' \<longleftrightarrow> fs path = None \<and> cs_open sys path \<and>
     fs' = fs(path \<mapsto> \<lparr>f_content = [], f_mode = mode\<rparr>)"
  by (auto simp: create_new_def)

lemma atomic_write_ok:
  assumes "atomic_write_bytes sys tmp path bytes mode fs = (Inr (), fs')"
  shows "fs' = (fs(tmp := None))(path \<mapsto> \<lparr>f_content = bytes, f_mode = mode\<rparr>)" "fs tmp = None"
  using assms
  by (auto simp: atomic_write_bytes_def create_new_Some Let_def split: sum.splits option.splits if_splits)

lemma atomic_write_error:
  assumes "atomic_write_bytes sys tmp path bytes mode fs = (Inl e, fs')" "p \<noteq> tmp"
  shows "fs' p = fs p"
  using assms
  by (auto simp: atomic_write_bytes_def create_new_Some Let_def remove_file_def split: sum.splits option.splits if_splits)

lemma atomic_write_frame:
  assumes "atomic_write_bytes sys tmp path bytes mode fs = (r, fs')" "p \<noteq> tmp" "p \<noteq> path"
  shows "fs' p = fs p"
proof (cases r)
  case (Inr u)
  with assms atomic_write_ok(1) [of sys tmp path bytes mode fs fs'] show ?thesis by simp
qed (use assms atomic_write_error in blast)

end
