(* ===== verification/Cli_Rotate.thy ===== *)
theory Cli_Rotate
  imports Cli_Keys
begin

text \<open>
  Generation and rotation of signing keys in \<open>sts-cli\<close>: RSA and ML-DSA, with the lock file, the overlap
  key set and the two atomic writes. Random key generation is an argument, the result of
  \<open>generate_private_jwk\<close>.
\<close>

section \<open>Reading the current key and the overlap\<close>

definition parse_public_jwk ::
    "cli_ext \<Rightarrow> string \<Rightarrow> nat \<times> (string \<times> json) list \<Rightarrow> (CliError, PublicJwk) result" where
  "parse_public_jwk X label indexed =
     (case indexed of (index, key) \<Rightarrow>
        and_then (ok_or (public_jwk_from_value key)
            (usage [Lit (label @ '' '' @ key_at index @ '' is not a valid public JWK: ''), Ext])) (\<lambda>jwk.
        if jwk_kty jwk = ''RSA'' then
          and_then (map_err (\<lambda>e. usage (Lit (label @ '' '' @ key_at index @ '' is not a valid RSA public JWK: '') # jose_error_text e))
              (rsa_public_key_bits_from_jwk (cx_jose X) jwk)) (\<lambda>bits.
          if bits < 2048 then
            Err (usage (lit (label @ '' '' @ key_at index @ '' RSA modulus must be at least 2048 bits'')))
          else Ok jwk)
        else if jwk_kty jwk = ''AKP'' then and_then (akp_public_bytes (cx_jose X) jwk) (\<lambda>_. Ok jwk)
        else Err (usage (lit (label @ '' '' @ key_at index @ '' unsupported JWK kty '' @ jwk_kty jwk)))))"

definition parse_public_jwks_document :: "cli_ext \<Rightarrow> string \<Rightarrow> string \<Rightarrow> (CliError, PublicJwk list) result" where
  "parse_public_jwks_document X raw label =
     and_then (ok_or (cx_json X raw) (usage [Lit (label @ '' is invalid JSON: ''), Ext])) (\<lambda>v.
     and_then (normalize_jwks_value v) (\<lambda>keys.
     and_then (inspect_public_keys (cx_jose X) keys) (\<lambda>_.
     collect_results (parse_public_jwk X label) (enumerate 0 keys))))"

definition load_existing_overlap ::
    "cli_ext \<Rightarrow> cli_sys \<Rightarrow> file_system \<Rightarrow> string \<Rightarrow> (CliError, PublicJwk list) result" where
  "load_existing_overlap X sys fs path =
     (if fs path = None then Ok []
      else and_then (ok_or (read_file sys fs path) (runtime [Lit (''failed to read overlap JWKS '' @ path @ '': ''), Ext]))
        (\<lambda>raw. parse_public_jwks_document X raw ''overlap JWKS''))"

definition load_current_signing_key ::
    "cli_ext \<Rightarrow> cli_sys \<Rightarrow> file_system \<Rightarrow> string \<Rightarrow> (CliError, PublicJwk) result" where
  "load_current_signing_key X sys fs path =
     and_then (ok_or (read_file sys fs path)
         (runtime [Lit (''failed to read current signing key '' @ path @ '': ''), Ext])) (\<lambda>raw.
     and_then (ok_or (cx_json X raw) (usage [Lit (''current signing key '' @ path @
         '' must be an RSA private JWK JSON object: ''), Ext])) (\<lambda>v.
     and_then (ok_or (as_object v) (usage (lit (''current signing key '' @ path @
         '' must be an RSA private JWK JSON object'')))) (\<lambda>object.
     if contains_key object ''k'' \<or> obj_get object ''d'' = None then
       Err (usage (lit (''current signing key '' @ path @ '' must be an RSA private JWK'')))
     else if (case obj_get_str object ''kid'' of None \<Rightarrow> True | Some kid \<Rightarrow> kid = []) then
       Err (usage (lit (''current signing key '' @ path @ '' must include a non-empty kid for overlap staging'')))
     else
       map_err (\<lambda>e. usage (Lit (''current signing key '' @ path @ '' is invalid: '') # jose_error_text e))
         (map_ok rs_public_jwk (rsa_from_private_jwk (cx_jose X) raw ''unused'')))))"

definition load_current_pqc_signing_key ::
    "cli_ext \<Rightarrow> cli_sys \<Rightarrow> file_system \<Rightarrow> string \<Rightarrow> (CliError, PublicJwk) result" where
  "load_current_pqc_signing_key X sys fs path =
     and_then (ok_or (read_file sys fs path)
         (runtime [Lit (''failed to read current PQC signing key '' @ sanitize_path path @ '': ''), Ext])) (\<lambda>raw.
     and_then (ok_or (cx_json X raw) (usage [Lit (''current PQC signing key '' @ sanitize_path path @
         '' must be an AKP private JWK JSON object: ''), Ext])) (\<lambda>v.
     and_then (ok_or (as_object v) (usage (lit (''current PQC signing key '' @ sanitize_path path @
         '' must be an AKP private JWK JSON object'')))) (\<lambda>object.
     if obj_get object ''priv'' = None \<or> obj_get_str object ''kty'' \<noteq> Some ''AKP'' then
       Err (usage (lit (''current PQC signing key '' @ sanitize_path path @ '' must be an AKP private JWK'')))
     else
       and_then (ok_or (obj_get_str object ''alg'') (usage (lit ''current PQC signing key missing alg''))) (\<lambda>alg.
       map_err (\<lambda>e. usage (Lit (''current PQC signing key '' @ sanitize_path path @ '' is invalid: '') # jose_error_text e))
         (map_ok ml_public_jwk (mldsa_from_private_jwk_for_backend (cx_jose X) (backend_parse alg) raw ''''))))))"

section \<open>The rotation lock\<close>

definition lock_path :: "string \<Rightarrow> string" where
  "lock_path key_file = key_file @ ''.rotate.lock''"

definition rotation_lock_acquire :: "cli_sys \<Rightarrow> string \<Rightarrow> file_system \<Rightarrow> unit fs_result" where
  "rotation_lock_acquire sys key_file fs =
     (case create_parent sys (lock_path key_file)
             (\<lambda>parent. [Lit (''failed to create lock directory '' @ parent @ '': ''), Ext]) of
        Inl e \<Rightarrow> (Inl e, fs)
      | Inr _ \<Rightarrow>
          (case create_new sys (lock_path key_file) 438 fs of
             None \<Rightarrow> (Err (runtime [Lit (''failed to acquire rotation lock '' @ lock_path key_file @ '': ''), Ext]), fs)
           | Some fs \<Rightarrow> (Ok (), fs)))"

text \<open>Dropping the lock removes its file; every return after \<open>acquire\<close> drops it.\<close>

definition rotation_lock_drop :: "cli_sys \<Rightarrow> string \<Rightarrow> 'a fs_result \<Rightarrow> 'a fs_result" where
  "rotation_lock_drop sys key_file r = (case r of (x, fs) \<Rightarrow> (x, remove_file sys (lock_path key_file) fs))"

section \<open>Rotation\<close>

record RotateArgs =
  ra_key_file :: "string option"
  ra_extra_jwks_file :: "string option"
  ra_dry_run :: bool

definition resolve_key_file :: "(string \<Rightarrow> string option) \<Rightarrow> RotateArgs \<Rightarrow> string" where
  "resolve_key_file var args =
     (case ra_key_file args of
        Some p \<Rightarrow> p
      | None \<Rightarrow> (case var ''OBO_STS_KEY_FILE'' of
            Some p \<Rightarrow> p
          | None \<Rightarrow> path_join (unwrap_or (var ''STS_SECRETS_DIR'') ''./secrets'') ''obo_sts_private_key.json''))"

definition resolve_extra_jwks_file :: "(string \<Rightarrow> string option) \<Rightarrow> RotateArgs \<Rightarrow> string \<Rightarrow> string" where
  "resolve_extra_jwks_file var args key_file =
     (case ra_extra_jwks_file args of
        Some p \<Rightarrow> p
      | None \<Rightarrow> (case var ''OBO_STS_EXTRA_JWKS_FILE'' of
            Some p \<Rightarrow> p
          | None \<Rightarrow> path_join (parent_or_dot key_file) ''obo_sts_retiring_jwks.json''))"

abbreviation line :: "string \<Rightarrow> string \<Rightarrow> string" where
  "line name text \<equiv> name @ ''='' @ text @ [CHR 0x0A]"

definition render_rotation_dry_run :: "PublicJwk \<Rightarrow> PublicJwk list \<Rightarrow> string \<Rightarrow> string \<Rightarrow> string" where
  "render_rotation_dry_run current overlap key_file extra_jwks_file =
     line ''rotate_status'' ''dry_run'' @ line ''current_kid'' (sanitize (jwk_kid current)) @
     line ''would_stage_kid'' (sanitize (jwk_kid current)) @
     line ''would_overlap_keys'' (display_nat (length (filter (\<lambda>key. jwk_kid key \<noteq> jwk_kid current) overlap) + 1)) @
     line ''private_key_file'' (sanitize_path key_file) @ line ''overlap_jwks_file'' (sanitize_path extra_jwks_file) @
     line ''restart_required'' ''true''"

definition render_rotation_success :: "PublicJwk \<Rightarrow> PublicJwk \<Rightarrow> nat \<Rightarrow> string \<Rightarrow> string \<Rightarrow> string" where
  "render_rotation_success old new overlap_keys key_file extra_jwks_file =
     line ''rotate_status'' ''rotated'' @ line ''old_kid'' (sanitize (jwk_kid old)) @
     line ''new_kid'' (sanitize (jwk_kid new)) @ line ''private_key_file'' (sanitize_path key_file) @
     line ''private_key_mode'' ''0600'' @ line ''overlap_jwks_file'' (sanitize_path extra_jwks_file) @
     line ''overlap_keys'' (display_nat overlap_keys) @ line ''restart_required'' ''true''"

text \<open>The keys of the overlap that stay: neither the retiring nor the new key.\<close>

definition retained_keys :: "PublicJwk \<Rightarrow> PublicJwk \<Rightarrow> PublicJwk list \<Rightarrow> PublicJwk list" where
  "retained_keys current generated overlap =
     filter (\<lambda>key. jwk_kid key \<noteq> jwk_kid current \<and> jwk_kid key \<noteq> jwk_kid generated) overlap"

text \<open>The two writes both rotations end with: the overlap first, then the private key.\<close>

definition stage_and_replace ::
    "cli_ext \<Rightarrow> cli_sys \<Rightarrow> string \<times> string \<Rightarrow> string \<Rightarrow> string \<Rightarrow> JwksDocument \<Rightarrow> string \<Rightarrow> file_system \<Rightarrow> unit fs_result" where
  "stage_and_replace X sys tmps key_file extra_jwks_file staged private_json fs =
     fs_then (atomic_write_json X sys (fst tmps) extra_jwks_file staged 420 fs) (\<lambda>_ fs.
     atomic_write_text sys (snd tmps) key_file private_json 384 fs)"

definition rotate_signing_key_locked ::
    "cli_ext \<Rightarrow> cli_sys \<Rightarrow> string \<times> string \<Rightarrow> (JoseError, string \<times> PublicJwk) result \<Rightarrow> string \<Rightarrow> string \<Rightarrow>
     file_system \<Rightarrow> string fs_result" where
  "rotate_signing_key_locked X sys tmps generated key_file extra_jwks_file fs =
     (case and_then (load_current_signing_key X sys fs key_file) (\<lambda>current.
             and_then (map_err (\<lambda>e. runtime (Lit ''failed to generate replacement key: '' # jose_error_text e)) generated) (\<lambda>new.
             and_then (load_existing_overlap X sys fs extra_jwks_file) (\<lambda>overlap. Ok (current, new, overlap)))) of
        Inl e \<Rightarrow> (Inl e, fs)
      | Inr (current, (private_json, public_jwk), overlap) \<Rightarrow>
          let staged = \<lparr>jwks_keys = retained_keys current public_jwk overlap @ [current]\<rparr> in
          fs_then (stage_and_replace X sys tmps key_file extra_jwks_file staged private_json fs) (\<lambda>_ fs.
          (Ok (render_rotation_success current public_jwk (length (jwks_keys staged)) key_file extra_jwks_file), fs)))"

definition rotate_signing_key ::
    "cli_ext \<Rightarrow> cli_sys \<Rightarrow> (string \<Rightarrow> string option) \<Rightarrow> string \<times> string \<Rightarrow>
     (JoseError, string \<times> PublicJwk) result \<Rightarrow> RotateArgs \<Rightarrow> file_system \<Rightarrow> string fs_result" where
  "rotate_signing_key X sys var tmps generated args fs =
     (let key_file = resolve_key_file var args;
          extra_jwks_file = resolve_extra_jwks_file var args key_file
      in if ra_dry_run args then
           (and_then (load_current_signing_key X sys fs key_file) (\<lambda>current.
            and_then (load_existing_overlap X sys fs extra_jwks_file) (\<lambda>overlap.
            Ok (render_rotation_dry_run current overlap key_file extra_jwks_file))), fs)
         else
           fs_then (rotation_lock_acquire sys key_file fs) (\<lambda>_ fs.
           rotation_lock_drop sys key_file
             (rotate_signing_key_locked X sys tmps generated key_file extra_jwks_file fs)))"

definition parse_mldsa_algorithm :: "string \<Rightarrow> (CliError, MlDsaAlgorithm) result" where
  "parse_mldsa_algorithm v =
     ok_or (case from_jose_alg v of Some a \<Rightarrow> Some a | None \<Rightarrow> from_selector v)
       (usage (lit ''PQC algorithm must be ML-DSA-44, ML-DSA-65, or ML-DSA-87''))"

record PqcKeyRotateArgs =
  pr_key_file :: string
  pr_extra_jwks_file :: string
  pr_kid :: "string option"
  pr_dry_run :: bool

text \<open>
  The ML-DSA rotation reads the current key and the overlap before it takes the lock. \<open>seed\<close> is what
  the random generator yields, and the file system when the lock is taken is \<open>locked_fs\<close>: another
  process may have changed it since the files were read.
\<close>

definition rotate_pqc_key_locked ::
    "cli_ext \<Rightarrow> cli_sys \<Rightarrow> string \<times> string \<Rightarrow> string option \<Rightarrow> PqcKeyRotateArgs \<Rightarrow> PublicJwk \<Rightarrow> PublicJwk list \<Rightarrow>
     file_system \<Rightarrow> string fs_result" where
  "rotate_pqc_key_locked X sys tmps seed args current overlap fs =
     (case and_then (parse_mldsa_algorithm (jwk_alg current)) (\<lambda>algorithm.
             map_err (\<lambda>e. runtime (Lit ''failed to generate replacement ML-DSA key: '' # jose_error_text e))
               (mldsa_generate_private_jwk (cx_jose X) algorithm (pr_kid args) seed)) of
        Inl e \<Rightarrow> (Inl e, fs)
      | Inr (private_json, public_jwk) \<Rightarrow>
          let staged = \<lparr>jwks_keys = current # retained_keys current public_jwk overlap\<rparr> in
          fs_then (stage_and_replace X sys tmps (pr_key_file args) (pr_extra_jwks_file args) staged private_json fs) (\<lambda>_ fs.
          (Ok (line ''pqc_rotate_status'' ''rotated'' @ line ''old_kid'' (sanitize (jwk_kid current)) @
               line ''new_kid'' (sanitize (jwk_kid public_jwk)) @ line ''alg'' (jwk_alg public_jwk) @
               line ''private_key_file'' (sanitize_path (pr_key_file args)) @ line ''private_key_mode'' ''0600'' @
               line ''overlap_jwks_file'' (sanitize_path (pr_extra_jwks_file args)) @
               line ''restart_required'' ''true''), fs)))"

definition rotate_pqc_key ::
    "cli_ext \<Rightarrow> cli_sys \<Rightarrow> string \<times> string \<Rightarrow> string option \<Rightarrow> PqcKeyRotateArgs \<Rightarrow> file_system \<Rightarrow> file_system \<Rightarrow>
     string fs_result" where
  "rotate_pqc_key X sys tmps seed args fs locked_fs =
     (case and_then (load_current_pqc_signing_key X sys fs (pr_key_file args)) (\<lambda>current.
             and_then (load_existing_overlap X sys fs (pr_extra_jwks_file args)) (\<lambda>overlap. Ok (current, overlap))) of
        Inl e \<Rightarrow> (Inl e, fs)
      | Inr (current, overlap) \<Rightarrow>
          if pr_dry_run args then
            (Ok (line ''pqc_rotate_status'' ''dry_run'' @ line ''current_kid'' (sanitize (jwk_kid current)) @
                 line ''current_alg'' (jwk_alg current) @ line ''would_stage_kid'' (sanitize (jwk_kid current)) @
                 line ''would_overlap_keys'' (display_nat (length (filter (\<lambda>key. jwk_kid key \<noteq> jwk_kid current) overlap) + 1)) @
                 line ''private_key_file'' (sanitize_path (pr_key_file args)) @
                 line ''overlap_jwks_file'' (sanitize_path (pr_extra_jwks_file args)) @
                 line ''restart_required'' ''true''), fs)
          else
            fs_then (rotation_lock_acquire sys (pr_key_file args) locked_fs) (\<lambda>_ fs.
            rotation_lock_drop sys (pr_key_file args)
              (rotate_pqc_key_locked X sys tmps seed args current overlap fs)))"

record PqcKeyGenerateArgs =
  pg_alg :: string
  pg_kid :: "string option"
  pg_out :: string
  pg_public_jwks_out :: "string option"
  pg_force :: bool

definition generate_pqc_key ::
    "cli_ext \<Rightarrow> cli_sys \<Rightarrow> string \<times> string \<Rightarrow> string option \<Rightarrow> PqcKeyGenerateArgs \<Rightarrow> file_system \<Rightarrow> string fs_result" where
  "generate_pqc_key X sys tmps seed args fs =
     (case and_then (parse_mldsa_algorithm (pg_alg args)) (\<lambda>algorithm.
             map_err (\<lambda>e. runtime (Lit ''failed to generate ML-DSA key: '' # jose_error_text e))
               (mldsa_generate_private_jwk (cx_jose X) algorithm (pg_kid args) seed)) of
        Inl e \<Rightarrow> (Inl e, fs)
      | Inr (private_json, public_jwk) \<Rightarrow>
          fs_then (write_secret_text sys (fst tmps) (pg_out args) private_json 384 (pg_force args) fs) (\<lambda>_ fs.
          fs_then (case pg_public_jwks_out args of
              None \<Rightarrow> (Ok (), fs)
            | Some path \<Rightarrow> atomic_write_json_if_allowed X sys (snd tmps) path \<lparr>jwks_keys = [public_jwk]\<rparr> 420 (pg_force args) fs) (\<lambda>_ fs.
          (and_then (akp_public_sha256_prefix (cx_jose X) public_jwk) (\<lambda>digest.
           Ok (line ''pqc_key_status'' ''generated'' @ line ''private_key_file'' (sanitize_path (pg_out args)) @
               line ''private_key_mode'' ''0600'' @ line ''alg'' (jwk_alg public_jwk) @ line ''kty'' ''AKP'' @
               line ''kid'' (sanitize (jwk_kid public_jwk)) @ line ''public_key_sha256_prefix'' digest @
               line ''public_jwks_file'' (case pg_public_jwks_out args of None \<Rightarrow> ''(not-written)'' | Some p \<Rightarrow> sanitize_path p))), fs))))"

definition inspect_pqc_private_key :: "cli_ext \<Rightarrow> string \<Rightarrow> (CliError, string) result" where
  "inspect_pqc_private_key X raw =
     and_then (ok_or (cx_json X raw) (usage [Lit ''PQC private key JSON is invalid: '', Ext])) (\<lambda>v.
     and_then (ok_or (Option.bind (as_object v) (\<lambda>m. obj_get_str m ''alg'')) (usage (lit ''PQC private key missing alg''))) (\<lambda>alg.
     and_then (map_err (\<lambda>e. usage (Lit ''PQC private key is invalid: '' # jose_error_text e))
         (mldsa_from_private_jwk_for_backend (cx_jose X) (backend_parse alg) raw '''')) (\<lambda>signer.
     let public = ml_public_jwk signer in
     and_then (akp_public_bytes (cx_jose X) public) (\<lambda>bytes.
     and_then (akp_public_sha256_prefix (cx_jose X) public) (\<lambda>digest.
     Ok (line ''pqc_key_status'' ''private-valid'' @ line ''alg'' (jwk_alg public) @ line ''kty'' ''AKP'' @
         line ''kid'' (sanitize (jwk_kid public)) @ line ''public_key_bytes'' (display_nat bytes) @
         line ''public_key_sha256_prefix'' digest @ line ''private_material'' ''redacted''))))))"

definition inspect_pqc_key :: "cli_ext \<Rightarrow> cli_sys \<Rightarrow> file_system \<Rightarrow> string \<Rightarrow> (CliError, string) result" where
  "inspect_pqc_key X sys fs path =
     and_then (ok_or (read_file sys fs path)
         (runtime [Lit (''failed to read PQC key file '' @ sanitize_path path @ '': ''), Ext])) (\<lambda>raw.
     and_then (ok_or (cx_json X raw) (usage [Lit ''PQC key file is invalid JSON: '', Ext])) (\<lambda>v.
     if (case as_object v of None \<Rightarrow> False | Some m \<Rightarrow> obj_get m ''priv'' \<noteq> None) then inspect_pqc_private_key X raw
     else
       and_then (normalize_jwks_value v) (\<lambda>keys.
       and_then (inspect_public_keys (cx_jose X) keys) (\<lambda>inspected.
       Ok (render_inspection inspected JwksMode)))))"

section \<open>What a rotation leaves behind\<close>

lemma fs_then_cases:
  "fs_then r f = (case fst r of Inl e \<Rightarrow> (Inl e, snd r) | Inr x \<Rightarrow> f x (snd r))"
  by (simp add: fs_then_def split: prod.splits sum.splits)

lemma atomic_json_ok:
  assumes "atomic_write_json X sys tmp path doc mode fs = (Inr (), fs')"
  shows "\<exists>text. cx_jwks_text X doc = Some text \<and>
     fs' = (fs(tmp := None))(path \<mapsto> \<lparr>f_content = text @ [CHR 0x0A], f_mode = mode\<rparr>)"
  using assms by (auto simp: atomic_write_json_def split: option.splits dest: atomic_write_ok(1))

lemma atomic_json_frame:
  assumes "atomic_write_json X sys tmp path doc mode fs = (r, fs')" "p \<noteq> tmp" "p \<noteq> path"
  shows "fs' p = fs p"
  using assms atomic_write_frame by (auto simp: atomic_write_json_def split: option.splits)

text \<open>
  Overlap first, key last: the key file changes only in a run that succeeds, and then the staged
  set is already in place.
\<close>

lemma stage_and_replace_outcome:
  assumes "stage_and_replace X sys (tmp1, tmp2) key extra staged json fs = (r, fs')"
    and "distinct [key, extra, tmp1, tmp2]"
  shows "case r of
     Inl _ \<Rightarrow> fs' key = fs key
   | Inr _ \<Rightarrow> fs' key = Some \<lparr>f_content = json, f_mode = 384\<rparr> \<and>
       (\<exists>text. cx_jwks_text X staged = Some text \<and> fs' extra = Some \<lparr>f_content = text @ [CHR 0x0A], f_mode = 420\<rparr>)"
proof -
  obtain r1 fs1 where w1: "atomic_write_json X sys tmp1 extra staged 420 fs = (r1, fs1)" by fastforce
  have k1: "fs1 key = fs key" using atomic_json_frame [OF w1] assms(2) by auto
  show ?thesis
  proof (cases r1)
    case (Inl e)
    with assms(1) w1 k1 show ?thesis by (auto simp: stage_and_replace_def fs_then_def)
  next
    case (Inr u)
    obtain bytes where t: "cx_jwks_text X staged = Some bytes"
      "fs1 = (fs(tmp1 := None))(extra \<mapsto> \<lparr>f_content = bytes @ [CHR 0x0A], f_mode = 420\<rparr>)"
      using atomic_json_ok [of X sys tmp1 extra staged 420 fs fs1] w1 Inr by auto
    have w2: "atomic_write_bytes sys tmp2 key json 384 fs1 = (r, fs')"
      using assms(1) w1 Inr by (simp add: stage_and_replace_def fs_then_def atomic_write_text_def)
    show ?thesis
    proof (cases r)
      case (Inl e)
      with w2 k1 assms(2) atomic_write_error show ?thesis by fastforce
    next
      case (Inr v)
      with w2 atomic_write_ok(1) [of sys tmp2 key json 384 fs1 fs']
      have "fs' = (fs1(tmp2 := None))(key \<mapsto> \<lparr>f_content = json, f_mode = 384\<rparr>)" by simp
      with Inr t assms(2) show ?thesis by auto
    qed
  qed
qed

lemma lock_frame:
  assumes "rotation_lock_acquire sys key fs = (r, fs')" "p \<noteq> lock_path key"
  shows "fs' p = fs p"
  using assms by (auto simp: rotation_lock_acquire_def create_new_Some split: sum.splits option.splits)

lemma lock_drop_frame: "p \<noteq> lock_path key \<Longrightarrow> snd (rotation_lock_drop sys key r) p = snd r p"
  "fst (rotation_lock_drop sys key r) = fst r"
  by (simp_all add: rotation_lock_drop_def remove_file_def split: prod.splits)

text \<open>What the commands read depends only on the files they name.\<close>

lemma load_current_cong:
  "fs key = fs' key \<Longrightarrow> load_current_signing_key X sys fs key = load_current_signing_key X sys fs' key"
  by (simp add: load_current_signing_key_def read_file_def)

lemma load_overlap_cong:
  "fs extra = fs' extra \<Longrightarrow> load_existing_overlap X sys fs extra = load_existing_overlap X sys fs' extra"
  by (simp add: load_existing_overlap_def read_file_def)

text \<open>The files of one rotation are pairwise different.\<close>

definition rotation_paths_ok :: "string \<Rightarrow> string \<Rightarrow> string \<times> string \<Rightarrow> bool" where
  "rotation_paths_ok key extra tmps \<longleftrightarrow> distinct [key, extra, fst tmps, snd tmps, lock_path key]"

text \<open>A rotation that succeeded: the new key, and the old one first or last in the overlap.\<close>

definition rotated ::
    "cli_ext \<Rightarrow> cli_sys \<Rightarrow> file_system \<Rightarrow> file_system \<Rightarrow> string \<Rightarrow> string \<Rightarrow> PublicJwk \<Rightarrow> PublicJwk \<Rightarrow> string \<Rightarrow> bool" where
  "rotated X sys fs fs' key extra current new json \<longleftrightarrow>
     load_current_signing_key X sys fs key = Ok current \<and>
     fs' key = Some \<lparr>f_content = json, f_mode = 384\<rparr> \<and>
     (\<exists>overlap text. load_existing_overlap X sys fs extra = Ok overlap \<and>
        cx_jwks_text X \<lparr>jwks_keys = retained_keys current new overlap @ [current]\<rparr> = Some text \<and>
        fs' extra = Some \<lparr>f_content = text @ [CHR 0x0A], f_mode = 420\<rparr>)"

lemma rotate_locked_outcome:
  assumes "rotate_signing_key_locked X sys tmps generated key extra fs = (r, fs')" and paths: "rotation_paths_ok key extra tmps"
  shows "case r of
     Inl _ \<Rightarrow> fs' key = fs key
   | Inr _ \<Rightarrow> \<exists>json new current. generated = Ok (json, new) \<and> rotated X sys fs fs' key extra current new json"
proof -
  let ?pre = "and_then (load_current_signing_key X sys fs key) (\<lambda>current.
      and_then (map_err (\<lambda>e. runtime (Lit ''failed to generate replacement key: '' # jose_error_text e)) generated) (\<lambda>new.
      and_then (load_existing_overlap X sys fs extra) (\<lambda>overlap. Ok (current, new, overlap))))"
  show ?thesis
  proof (cases ?pre)
    case (Inl e)
    with assms(1) show ?thesis by (auto simp: rotate_signing_key_locked_def)
  next
    case (Inr t)
    then obtain current json new overlap where t: "t = (current, (json, new), overlap)"
      "load_current_signing_key X sys fs key = Ok current" "generated = Ok (json, new)"
      "load_existing_overlap X sys fs extra = Ok overlap"
      by (cases t) (auto simp: result_iff)
    let ?staged = "\<lparr>jwks_keys = retained_keys current new overlap @ [current]\<rparr>"
    obtain r1 fs1 where s: "stage_and_replace X sys tmps key extra ?staged json fs = (r1, fs1)" by fastforce
    have "case r1 of Inl _ \<Rightarrow> fs1 key = fs key
      | Inr _ \<Rightarrow> fs1 key = Some \<lparr>f_content = json, f_mode = 384\<rparr> \<and>
          (\<exists>text. cx_jwks_text X ?staged = Some text \<and> fs1 extra = Some \<lparr>f_content = text @ [CHR 0x0A], f_mode = 420\<rparr>)"
      using stage_and_replace_outcome [of X sys "fst tmps" "snd tmps" key extra ?staged json fs r1 fs1] s
        paths [unfolded rotation_paths_ok_def] by simp
    moreover have "fs' = fs1" "(\<exists>e. r1 = Inl e \<and> r = Inl e) \<or> (r1 = Inr () \<and> (\<exists>out. r = Inr out))"
      using assms(1) Inr t(1) s by (cases r1; auto simp: rotate_signing_key_locked_def fs_then_def)+
    ultimately show ?thesis using t(2-4) by (auto simp: rotated_def)
  qed
qed

lemma rotate_outcome:
  fixes X sys var tmps generated args fs
  defines "key \<equiv> resolve_key_file var args" and "extra \<equiv> resolve_extra_jwks_file var args (resolve_key_file var args)"
  assumes run: "rotate_signing_key X sys var tmps generated args fs = (r, fs')"
    and paths: "rotation_paths_ok key extra tmps"
  shows "case r of
     Inl _ \<Rightarrow> fs' key = fs key
   | Inr _ \<Rightarrow> if ra_dry_run args then fs' = fs
       else \<exists>json new current. generated = Ok (json, new) \<and> rotated X sys fs fs' key extra current new json"
proof (cases "ra_dry_run args")
  case True
  with run show ?thesis by (auto simp: rotate_signing_key_def Let_def split: sum.splits)
next
  case False
  note p = paths [unfolded rotation_paths_ok_def]
  obtain r1 fs1 where l: "rotation_lock_acquire sys key fs = (r1, fs1)" by fastforce
  have f1: "fs1 key = fs key" "fs1 extra = fs extra" using lock_frame [OF l] p by auto
  show ?thesis
  proof (cases r1)
    case (Inl e)
    with run False l f1 show ?thesis by (auto simp: rotate_signing_key_def Let_def fs_then_def key_def)
  next
    case (Inr u)
    obtain r2 fs2 where k: "rotate_signing_key_locked X sys tmps generated key extra fs1 = (r2, fs2)" by fastforce
    have e: "r = r2" "fs' = remove_file sys (lock_path key) fs2"
      using run False l Inr k by (simp_all add: rotate_signing_key_def Let_def fs_then_def key_def extra_def rotation_lock_drop_def)
    have "fs' key = fs2 key" "fs' extra = fs2 extra" using e(2) p by (auto simp: remove_file_def)
    then show ?thesis
      using rotate_locked_outcome [OF k paths] e(1) f1 False load_current_cong [of fs1 key fs] load_overlap_cong [of fs1 extra fs]
      by (auto simp: rotated_def split: sum.splits)
  qed
qed

section \<open>Restart after a rotation\<close>

text \<open>The JSON value of a key set, and what the JSON writer and parser promise about it.\<close>

definition jwks_to_value :: "JwksDocument \<Rightarrow> json" where
  "jwks_to_value doc = JObject [(''keys'', JArray (map (\<lambda>k. JObject (jwk_to_object k)) (jwks_keys doc)))]"

definition jwks_text_law :: "cli_ext \<Rightarrow> boot_env \<Rightarrow> bool" where
  "jwks_text_law X B \<longleftrightarrow> (\<forall>doc bytes. cx_jwks_text X doc = Some bytes \<longrightarrow>
     ce_json (be_config B) (bytes @ [CHR 0x0A]) = Some (jwks_to_value doc))"

lemma list_all2_public_entries:
  "list_all2 (public_entry E) (map (\<lambda>k. JObject (jwk_to_object k)) ks) ls \<Longrightarrow> ls = ks"
proof (induction ks arbitrary: ls)
  case (Cons k ks)
  then show ?case by (auto simp: list_all2_Cons1 public_entry_def public_jwk_roundtrip)
qed simp

lemma extra_file_keys:
  assumes "load_public_jwks_file B path label allow = Ok ks"
    and "ce_read_file (be_config B) path = Some raw" "ce_json (be_config B) raw = Some (jwks_to_value doc)"
  shows "jwks_keys ks = jwks_keys doc"
  using assms by (auto simp: load_public_jwks_ok jwks_file_holds_def jwks_to_value_def dest: list_all2_public_entries)

lemma find_added_last:
  assumes "kid \<notin> jwk_kid ` set ks" "kid \<notin> jwk_kid ` set xs" "jwk_kid k = kid"
  shows "find (\<lambda>key. jwk_kid key = kid) (foldl add_published ks (xs @ [k])) = Some k"
proof -
  have sub: "set (foldl add_published ks xs) \<subseteq> set ks \<union> set xs"
    using add_published_kids(2) by (induction xs rule: rev_induct) fastforce+
  with assms have no: "kid \<notin> jwk_kid ` set (foldl add_published ks xs)" by blast
  then have "\<not> list_ex (\<lambda>e. jwk_kid e = jwk_kid k) (foldl add_published ks xs)"
    using assms(3) by (auto simp: list_ex_iff image_iff)
  moreover have "find (\<lambda>key. jwk_kid key = kid) (l @ [k]) = Some k" if "kid \<notin> jwk_kid ` set l" for l
    using that assms(3) by (induction l) auto
  ultimately show ?thesis using no by (simp add: add_published_def)
qed

text \<open>Verification looks at one key only, the first with the token's \<open>kid\<close>.\<close>

lemma verify_by_kid:
  assumes "verify_claims_against_jwks_with_header E C tok \<lparr>jwks_keys = [k]\<rparr> = Ok v"
    and "find (\<lambda>key. jwk_kid key = jwk_kid k) (jwks_keys jwks) = Some k"
  shows "verify_claims_against_jwks_with_header E C tok jwks = Ok v"
proof -
  from assms(1) obtain h kid where "decode_compact_jws_header E tok = Ok h" "hdr_kid h = Some kid" "jwk_kid k = kid"
    by (auto simp: verify_claims_against_jwks_with_header_def verify_claims_against_jwks_inner_def result_iff split: if_splits)
  with assms show ?thesis
    by (simp add: verify_claims_against_jwks_with_header_def verify_claims_against_jwks_inner_def)
qed

section \<open>Properties\<close>

text \<open>
  C19: a rotation happens completely or leaves the private key alone. With pairwise different files,
  whatever system calls fail: when the command fails the key file is as it was; a dry run changes
  nothing; and when it succeeds the key file holds the generated key with mode 0600 and the overlap
  file, mode 0644, holds the retiring public key after those of the former overlap that have neither
  its \<open>kid\<close> nor the new one.
\<close>

theorem rotation_all_or_nothing:
  assumes "rotate_signing_key X sys var tmps generated args fs = (r, fs')"
    and "rotation_paths_ok (resolve_key_file var args) (resolve_extra_jwks_file var args (resolve_key_file var args)) tmps"
  shows "case r of
     Inl _ \<Rightarrow> fs' (resolve_key_file var args) = fs (resolve_key_file var args)
   | Inr _ \<Rightarrow> if ra_dry_run args then fs' = fs
       else \<exists>json new current. generated = Ok (json, new) \<and>
         rotated X sys fs fs' (resolve_key_file var args) (resolve_extra_jwks_file var args (resolve_key_file var args))
           current new json"
  using rotate_outcome [OF assms] by simp

text \<open>
  C20: tokens outlive the rotation of their key. After a rotation, a server that restarts with the
  overlap file as its extra key set, and a signer with another \<open>kid\<close>, verifies every token that
  verified under the retired key, with the same claims.
\<close>

theorem rotated_key_still_verifies:
  fixes var args
  defines "key \<equiv> resolve_key_file var args" and "extra \<equiv> resolve_extra_jwks_file var args (resolve_key_file var args)"
  assumes "rotate_signing_key X sys var tmps generated args fs = (Ok out, fs')" "\<not> ra_dry_run args"
    and "rotation_paths_ok key extra tmps" "load_current_signing_key X sys fs key = Ok current"
    and "\<forall>p. ce_read_file (be_config B) p = map_option f_content (fs' p)" "jwks_text_law X B"
    and "obo_sts_extra_jwks_file config = Some extra" "published_jwks B config signer = Ok jwks"
    and "jwk_kid (signer_public_jwk signer) \<noteq> jwk_kid current"
    and "verify_claims_against_jwks_with_header E C tok \<lparr>jwks_keys = [current]\<rparr> = Ok v"
  shows "verify_claims_against_jwks_with_header E C tok jwks = Ok v"
proof -
  from rotate_outcome [OF assms(3) assms(5) [unfolded key_def extra_def]] assms(4) obtain json new current' where
    "rotated X sys fs fs' key extra current' new json" by (auto simp: key_def extra_def)
  with assms(6) obtain overlap bytes where o: "cx_jwks_text X \<lparr>jwks_keys = retained_keys current new overlap @ [current]\<rparr> = Some bytes"
    "fs' extra = Some \<lparr>f_content = bytes @ [CHR 0x0A], f_mode = 420\<rparr>"
    by (auto simp: rotated_def)
  from assms(9,10) obtain ks where ks: "load_public_jwks_file B extra ''extra STS JWKS'' (allow_insecure_jwks config) = Ok ks"
    "jwks_keys jwks = foldl add_published [signer_public_jwk signer] (jwks_keys ks)"
    by (auto simp: published_jwks_def result_iff public_jwks_def)
  have "jwks_keys ks = retained_keys current new overlap @ [current]"
    using extra_file_keys [OF ks(1), of "bytes @ [CHR 0x0A]" "\<lparr>jwks_keys = retained_keys current new overlap @ [current]\<rparr>"]
      assms(7,8) o by (simp add: jwks_text_law_def)
  moreover have "jwk_kid current \<notin> jwk_kid ` set [signer_public_jwk signer]"
    "jwk_kid current \<notin> jwk_kid ` set (retained_keys current new overlap)"
    using assms(11) by (auto simp: retained_keys_def)
  ultimately have "find (\<lambda>key. jwk_kid key = jwk_kid current) (jwks_keys jwks) = Some current"
    using ks(2) find_added_last by metis
  from verify_by_kid [OF assms(12) this] show ?thesis .
qed

end
