(* ===== verification/Demo_Cli.thy ===== *)
theory Demo_Cli
  imports Cli_Rotate Demo_Service
begin

text \<open>
  A rotation computed from the model: an RSA key \<open>old\<close> in the file \<open>key\<close> is replaced, and a server
  restarted on the result verifies a token of the old key.
\<close>

definition rot_n :: string where
  "rot_n = CHR 0xFF # replicate 255 CHR 0x01"

definition rot_e :: string where "rot_e = [CHR 0x03]"

definition rot_private :: PrivateRsaJwk where
  "rot_private = \<lparr>prsa_kty = ''RSA'', prsa_kid = Some ''old'', prsa_n = rot_n, prsa_e = rot_e, prsa_d = ''d'', prsa_p = ''p'',
     prsa_q = ''q'', prsa_dp = Some ''x'', prsa_dq = Some ''y'', prsa_qi = Some ''z''\<rparr>"

definition rot_jose :: jose_ext where
  "rot_jose = demo_ext\<lparr>b64_encode := id, b64_decode := Some,
     header_from_slice := (\<lambda>b. Some \<lparr>hdr_alg = ''RS256'', hdr_kid = Some ''old'', hdr_typ = None\<rparr>),
     rsa_jwk_from_str := (\<lambda>s. if s = ''k'' then Some rot_private else None),
     asn1_to_der := (\<lambda>b. Some ''der''), rsa_key_from_der := (\<lambda>der. Some (256, rot_n, rot_e))\<rparr>"

definition rot_key :: "string \<Rightarrow> PublicJwk" where
  "rot_key kid = \<lparr>jwk_kty = ''RSA'', jwk_kid = kid, jwk_use = ''sig'', jwk_alg = ''RS256'', jwk_n = Some rot_n,
     jwk_e = Some rot_e, jwk_pub = None\<rparr>"

definition rot_ext :: cli_ext where
  "rot_ext = \<lparr>cx_jose = rot_jose,
     cx_json = (\<lambda>s. if s = ''k'' then Some (JObject [(''d'', JString ''d''), (''kid'', JString ''old'')]) else None),
     cx_jwks_text = (\<lambda>doc. if doc = \<lparr>jwks_keys = [rot_key ''old'']\<rparr> then Some ''w'' else None)\<rparr>"

definition rot_sys :: cli_sys where
  "rot_sys = \<lparr>cs_mkdir = (\<lambda>p. True), cs_read = (\<lambda>p. True), cs_open = (\<lambda>p. True), cs_write = (\<lambda>p. None),
     cs_chmod = (\<lambda>p. True), cs_rename = (\<lambda>p q. True), cs_unlink = (\<lambda>p. True)\<rparr>"

definition rot_args :: RotateArgs where
  "rot_args = \<lparr>ra_key_file = Some ''key'', ra_extra_jwks_file = Some ''extra'', ra_dry_run = False\<rparr>"

definition rot_fs :: file_system where
  "rot_fs = [''key'' \<mapsto> \<lparr>f_content = ''k'', f_mode = 384\<rparr>]"

definition rot_fs_after :: file_system where
  "rot_fs_after = [''key'' \<mapsto> \<lparr>f_content = ''n'', f_mode = 384\<rparr>,
     ''extra'' \<mapsto> \<lparr>f_content = [CHR ''w'', CHR 0x0A], f_mode = 420\<rparr>]"

abbreviation rot_generated :: "(JoseError, string \<times> PublicJwk) result" where
  "rot_generated \<equiv> Ok (''n'', rot_key ''new'')"

lemma rot_jose_simps [simp]:
  "b64_encode rot_jose = id" "b64_decode rot_jose = Some" "rsa_components_ok rot_jose n e"
  "header_from_slice rot_jose b = Some \<lparr>hdr_alg = ''RS256'', hdr_kid = Some ''old'', hdr_typ = None\<rparr>"
  "rsa_jwk_from_str rot_jose ''k'' = Some rot_private" "asn1_to_der rot_jose x = Some ''der''"
  "rsa_key_from_der rot_jose der = Some (256, rot_n, rot_e)"
  by (simp_all add: rot_jose_def demo_ext_def)

lemma rot_sys_simps [simp]:
  "cs_mkdir rot_sys p" "cs_read rot_sys p" "cs_open rot_sys p" "cs_write rot_sys p = None" "cs_chmod rot_sys p"
  "cs_rename rot_sys p q" "cs_unlink rot_sys p"
  by (simp_all add: rot_sys_def)

lemma rot_component [simp]: "decode_jwk_component rot_jose name (c # s) = Ok (c # s)"
  by (simp add: decode_jwk_component_def decode_jwk_octets_def)

lemma rot_bits: "rsa_modulus_bits rot_n = 2048"
  by (simp add: rsa_modulus_bits_def rot_n_def leading_zeros_u8_def Let_def)

lemma rot_block [simp]: "c \<noteq> CHR 0x00 \<Longrightarrow> positive_integer_block rot_jose name (c # s) = Ok (AsnInteger (bigint_from_bytes_be rot_jose (c # s)))"
  by (simp add: positive_integer_block_def)

lemma rot_n_component [simp]:
  "decode_jwk_component rot_jose name rot_n = Ok rot_n" "decode_jwk_component rot_jose name rot_e = Ok rot_e"
  "\<exists>b. positive_integer_block rot_jose name rot_n = Ok b" "\<exists>b. positive_integer_block rot_jose name rot_e = Ok b"
  "rot_n \<noteq> []" "rot_e \<noteq> []" "hd rot_n \<noteq> CHR 0x00" "hd rot_e \<noteq> CHR 0x00"
  by (simp_all add: rot_n_def rot_e_def)

lemma rot_public [simp]: "validate_public_components rot_n rot_e = Ok ()"
  by (simp add: validate_public_components_def)

lemma rot_der: "rsa_private_jwk_to_pkcs1_der rot_jose rot_private = Ok ''der''"
proof -
  obtain b1 b2 where b: "positive_integer_block rot_jose ''n'' rot_n = Ok b1" "positive_integer_block rot_jose ''e'' rot_e = Ok b2"
    using rot_n_component(3,4) by meson
  show ?thesis
    by (simp add: rsa_private_jwk_to_pkcs1_der_def rot_private_def decode_required_private_component_def b)
qed

lemma rot_signer: "rsa_from_private_jwk rot_jose ''k'' kid = Ok \<lparr>rs_kid = ''old'', rs_encoding_key = ''der'', rs_public_jwk = rot_key ''old''\<rparr>"
proof -
  have "prsa_kty rot_private = ''RSA''" "prsa_n rot_private = rot_n" "prsa_e rot_private = rot_e" "prsa_kid rot_private = Some ''old''"
    by (simp_all add: rot_private_def)
  then show ?thesis by (simp add: rsa_from_private_jwk_def rot_bits rot_der from_pkcs1_der_def rot_key_def)
qed

lemma rot_current: "load_current_signing_key rot_ext rot_sys rot_fs ''key'' = Ok (rot_key ''old'')"
  by (simp add: load_current_signing_key_def read_file_def rot_fs_def rot_ext_def contains_key_def
      obj_get_str_def rot_signer)

lemma rot_paths: "rotation_paths_ok ''key'' ''extra'' (''t1'', ''t2'')"
  by (simp add: rotation_paths_ok_def lock_path_def)

lemma rot_resolved:
  "resolve_key_file var rot_args = ''key''" "resolve_extra_jwks_file var rot_args ''key'' = ''extra''" "\<not> ra_dry_run rot_args"
  by (simp_all add: resolve_key_file_def resolve_extra_jwks_file_def rot_args_def)

lemma rot_parents: "create_parent rot_sys p f = Ok ()"
  by (simp add: create_parent_def split: option.splits)

lemma rot_run:
  "\<exists>out. rotate_signing_key rot_ext rot_sys (\<lambda>v. None) (''t1'', ''t2'') rot_generated rot_args rot_fs = (Ok out, rot_fs_after)"
proof -
  let ?l = "''key.rotate.lock''" and ?fs1 = "rot_fs(''key.rotate.lock'' \<mapsto> \<lparr>f_content = [], f_mode = 438\<rparr>)"
  have lock: "rotation_lock_acquire rot_sys ''key'' rot_fs = (Ok (), ?fs1)"
    by (simp add: rotation_lock_acquire_def rot_parents create_new_def lock_path_def rot_fs_def)
  have cur: "load_current_signing_key rot_ext rot_sys ?fs1 ''key'' = Ok (rot_key ''old'')"
    using rot_current load_current_cong [of ?fs1 "''key''" rot_fs] by simp
  have ov: "load_existing_overlap rot_ext rot_sys ?fs1 ''extra'' = Ok []"
    by (simp add: load_existing_overlap_def rot_fs_def)
  have none: "rot_fs p = None" if "p \<noteq> ''key''" for p using that by (simp add: rot_fs_def)
  have written: "atomic_write_bytes rot_sys tmp path bytes mode fs = (Ok (), (fs(tmp := None))(path \<mapsto> \<lparr>f_content = bytes, f_mode = mode\<rparr>))"
    if "fs tmp = None" for tmp path bytes mode and fs :: file_system
    using that by (simp add: atomic_write_bytes_def rot_parents create_new_def)
  have staged: "cx_jwks_text rot_ext \<lparr>jwks_keys = [rot_key ''old'']\<rparr> = Some ''w''" by (simp add: rot_ext_def)
  have "rotate_signing_key_locked rot_ext rot_sys (''t1'', ''t2'') rot_generated ''key'' ''extra'' ?fs1 =
      (Ok (render_rotation_success (rot_key ''old'') (rot_key ''new'') 1 ''key'' ''extra''),
       rot_fs_after(''key.rotate.lock'' \<mapsto> \<lparr>f_content = [], f_mode = 438\<rparr>))"
    by (simp add: rotate_signing_key_locked_def cur ov stage_and_replace_def atomic_write_json_def retained_keys_def staged
        written none atomic_write_text_def fs_then_def)
       (auto simp: rot_fs_after_def rot_fs_def fun_eq_iff)
  then show ?thesis
    by (simp add: rotate_signing_key_def rot_resolved fs_then_def lock rotation_lock_drop_def remove_file_def lock_path_def)
       (auto simp: rot_fs_after_def fun_eq_iff)
qed

theorem rotation_all_or_nothing_witness:
  "rot_fs_after ''key'' = Some \<lparr>f_content = ''n'', f_mode = 384\<rparr> \<and>
   (\<exists>out. rotate_signing_key rot_ext rot_sys (\<lambda>v. None) (''t1'', ''t2'') rot_generated rot_args rot_fs = (Ok out, rot_fs_after)) \<and>
   (\<exists>current. rotated rot_ext rot_sys rot_fs rot_fs_after ''key'' ''extra'' current (rot_key ''new'') ''n'')"
proof -
  obtain out where run: "rotate_signing_key rot_ext rot_sys (\<lambda>v. None) (''t1'', ''t2'') rot_generated rot_args rot_fs =
      (Ok out, rot_fs_after)" using rot_run by blast
  from rotation_all_or_nothing [OF run] rot_paths rot_resolved have
    "\<exists>current. rotated rot_ext rot_sys rot_fs rot_fs_after ''key'' ''extra'' current (rot_key ''new'') ''n''" by auto
  with run show ?thesis by (simp add: rot_fs_after_def)
qed

section \<open>Restart\<close>

definition rot_boot :: boot_env where
  "rot_boot =
     \<lparr>be_config = \<lparr>ce_url = (\<lambda>s. None),
        ce_json = (\<lambda>s. if s = [CHR ''w'', CHR 0x0A] then Some (jwks_to_value \<lparr>jwks_keys = [rot_key ''old'']\<rparr>) else None),
        ce_read_file = (\<lambda>p. map_option f_content (rot_fs_after p))\<rparr>,
      be_jose = rot_jose, be_minted_codec = he_minted_codec svc_env,
      be_http = \<lparr>http_get_discovery = (\<lambda>u. None), http_get_jwks = (\<lambda>u. None)\<rparr>, be_file_mode = (\<lambda>p. Some 420),
      be_rsa_sign = (\<lambda>k m. None), be_replay_dir = (\<lambda>p. None)\<rparr>"

definition rot_config :: RuntimeConfig where
  "rot_config = svc_config\<lparr>obo_sts_extra_jwks_file := Some ''extra'', allow_insecure_jwks := False\<rparr>"

definition rot_new_signer :: JoseSigner where
  "rot_new_signer = RsaSigner \<lparr>rs_kid = ''new'', rs_encoding_key = ''der2'', rs_public_jwk = rot_key ''new''\<rparr>"

definition rot_codec :: "string codec" where
  "rot_codec = \<lparr>rs256_decode = (\<lambda>t n e v. Ok ''claims''), rs256_encode = (\<lambda>h c k. Err JwtOther),
     claims_from_slice = Some, claims_to_vec = Some\<rparr>"

lemma rot_key_decodes: "rsa_public_key_from_jwk rot_jose (rot_key kid) = Ok \<lparr>rsa_n = rot_n, rsa_e = rot_e\<rparr>"
  by (simp add: rsa_public_key_from_jwk_def rot_key_def)

lemma rot_key_strong: "strong_public_key rot_jose (rot_key kid)"
  by (simp add: strong_public_key_def validate_public_jwk_def rsa_public_key_bits_from_jwk_def rot_key_decodes rot_bits)
     (simp add: rot_key_def)

lemma rot_entry: "public_entry rot_jose (JObject (jwk_to_object (rot_key kid))) (rot_key kid)"
  by (simp add: public_entry_def public_jwk_roundtrip rot_key_strong list_all_iff private_members_agree [symmetric] jwk_to_object_public)

lemma rot_published: "published_jwks rot_boot rot_config rot_new_signer = Ok \<lparr>jwks_keys = [rot_key ''new'', rot_key ''old'']\<rparr>"
proof -
  have "file_protected rot_boot p a" for p a by (simp add: file_protected_def rot_boot_def)
  moreover have "jwks_file_holds rot_boot ''extra'' [rot_key ''old'']"
    by (simp add: jwks_file_holds_def rot_boot_def rot_fs_after_def jwks_to_value_def rot_entry)
  ultimately have "load_public_jwks_file rot_boot ''extra'' label a = Ok \<lparr>jwks_keys = [rot_key ''old'']\<rparr>" for label a
    by (simp add: load_public_jwks_ok)
  then show ?thesis
    by (simp add: published_jwks_def rot_config_def rot_new_signer_def public_jwks_def add_published_def) (simp add: rot_key_def)
qed

theorem rotated_key_still_verifies_witness:
  "verify_claims_against_jwks_with_header rot_jose rot_codec ''h.p.s'' \<lparr>jwks_keys = [rot_key ''new'', rot_key ''old'']\<rparr> =
     Ok \<lparr>vj_claims = ''claims'', vj_alg = ''RS256'', vj_kid = ''old'', vj_typ = None\<rparr>"
proof -
  obtain out where run: "rotate_signing_key rot_ext rot_sys (\<lambda>v. None) (''t1'', ''t2'') rot_generated rot_args rot_fs =
      (Ok out, rot_fs_after)" using rot_run by blast
  have law: "jwks_text_law rot_ext rot_boot"
    by (auto simp: jwks_text_law_def rot_ext_def rot_boot_def split: if_splits)
  have rd: "\<forall>p. ce_read_file (be_config rot_boot) p = map_option f_content (rot_fs_after p)" by (simp add: rot_boot_def)
  have ex: "obo_sts_extra_jwks_file rot_config = Some (resolve_extra_jwks_file (\<lambda>v. None) rot_args (resolve_key_file (\<lambda>v. None) rot_args))"
    by (simp add: rot_config_def rot_resolved)
  have kid: "jwk_kid (signer_public_jwk rot_new_signer) \<noteq> jwk_kid (rot_key ''old'')"
    by (simp add: rot_new_signer_def rot_key_def)
  have old: "verify_claims_against_jwks_with_header rot_jose rot_codec ''h.p.s'' \<lparr>jwks_keys = [rot_key ''old'']\<rparr> =
     Ok \<lparr>vj_claims = ''claims'', vj_alg = ''RS256'', vj_kid = ''old'', vj_typ = None\<rparr>"
    by (simp add: verify_claims_against_jwks_with_header_def verify_claims_against_jwks_inner_def decode_compact_jws_header_def
        parse_compact_jws_def decode_compact_segment_def verify_rs256_claims_against_jwk_def rot_key_decodes rot_codec_def)
       (simp add: rot_key_def)
  show ?thesis
    by (rule rotated_key_still_verifies [OF run rot_resolved(3) _ _ rd law ex rot_published kid old])
       (simp_all add: rot_resolved rot_paths rot_current)
qed

end
