(* ===== verification/Rotation_Race.thy ===== *)
theory Rotation_Race
  imports Cli_Rotate
begin

text \<open>
  The rotation of an ML-DSA key (\<open>rotate_pqc_key\<close> of \<open>sts-cli\<close>): what one run leaves behind, and what two runs
  that overlap lose. The command reads the current key and the overlap before it takes the lock, so a
  second run can work on what the files held before the first one.
\<close>

section \<open>One run\<close>

text \<open>\<open>read_fs\<close> is the file system when the files are read, \<open>fs\<close> when the lock is taken.\<close>

lemma pqc_rotation_outcome:
  assumes "rotate_pqc_key X sys tmps seed args read_fs fs = (Ok out, fs')" "\<not> pr_dry_run args"
    and "rotation_paths_ok (pr_key_file args) (pr_extra_jwks_file args) tmps"
    and "load_current_pqc_signing_key X sys read_fs (pr_key_file args) = Ok current"
    and "load_existing_overlap X sys read_fs (pr_extra_jwks_file args) = Ok overlap"
  obtains algorithm json new bytes where "parse_mldsa_algorithm (jwk_alg current) = Ok algorithm"
    "mldsa_generate_private_jwk (cx_jose X) algorithm (pr_kid args) seed = Ok (json, new)"
    "fs' (pr_key_file args) = Some \<lparr>f_content = json, f_mode = 384\<rparr>"
    "cx_jwks_text X \<lparr>jwks_keys = current # retained_keys current new overlap\<rparr> = Some bytes"
    "fs' (pr_extra_jwks_file args) = Some \<lparr>f_content = bytes @ [CHR 0x0A], f_mode = 420\<rparr>"
proof -
  let ?key = "pr_key_file args" and ?extra = "pr_extra_jwks_file args"
  obtain l fs1 where lock: "rotation_lock_acquire sys ?key fs = (l, fs1)" by fastforce
  obtain r fs2 where run: "rotate_pqc_key_locked X sys tmps seed args current overlap fs1 = (r, fs2)" by fastforce
  from assms(1,2) lock run have l: "l = Inr ()" and d: "rotation_lock_drop sys ?key (r, fs2) = (Ok out, fs')"
    by (cases l; simp add: rotate_pqc_key_def assms(4,5) fs_then_def)+
  have r: "r = Ok out" using lock_drop_frame(2) [of sys ?key "(r, fs2)"] d by simp
  have keep: "fs' p = fs2 p" if "p \<noteq> lock_path ?key" for p using lock_drop_frame(1) [OF that, of sys "(r, fs2)"] d by simp
  from run r obtain algorithm json new where g: "parse_mldsa_algorithm (jwk_alg current) = Ok algorithm"
    "mldsa_generate_private_jwk (cx_jose X) algorithm (pr_kid args) seed = Ok (json, new)"
    by (auto simp: rotate_pqc_key_locked_def result_iff split: sum.splits)
  obtain w fs3 where st: "stage_and_replace X sys tmps ?key ?extra \<lparr>jwks_keys = current # retained_keys current new overlap\<rparr> json fs1 = (w, fs3)"
    by fastforce
  from run r g st have w: "w = Inr ()" and fs3: "fs3 = fs2"
    by (cases w; simp add: rotate_pqc_key_locked_def fs_then_def Let_def)+
  have "distinct [?key, ?extra, fst tmps, snd tmps]" using assms(3) by (simp add: rotation_paths_ok_def)
  from stage_and_replace_outcome [of X sys "fst tmps" "snd tmps", OF _ this] st w fs3 obtain bytes where
    "fs2 ?key = Some \<lparr>f_content = json, f_mode = 384\<rparr>"
    "cx_jwks_text X \<lparr>jwks_keys = current # retained_keys current new overlap\<rparr> = Some bytes"
    "fs2 ?extra = Some \<lparr>f_content = bytes @ [CHR 0x0A], f_mode = 420\<rparr>" by fastforce
  moreover have "?key \<noteq> lock_path ?key" "?extra \<noteq> lock_path ?key" using assms(3) by (simp_all add: rotation_paths_ok_def)
  ultimately show thesis using that g keep by metis
qed

text \<open>A server that starts on the files publishes its own key and those of the overlap.\<close>

lemma published_from_overlap:
  assumes "published_jwks B config signer = Ok jwks" "obo_sts_extra_jwks_file config = Some extra"
    and "ce_read_file (be_config B) extra = Some (bytes @ [CHR 0x0A])" "cx_jwks_text X doc = Some bytes" "jwks_text_law X B"
  shows "jwk_kid ` set (jwks_keys jwks) \<subseteq> insert (jwk_kid (signer_public_jwk signer)) (jwk_kid ` set (jwks_keys doc))"
proof -
  from assms(1,2) obtain ks where ks: "load_public_jwks_file B extra ''extra STS JWKS'' (allow_insecure_jwks config) = Ok ks"
    "jwks_keys jwks = foldl add_published [signer_public_jwk signer] (jwks_keys ks)"
    by (auto simp: published_jwks_def result_iff public_jwks_def)
  have "jwks_keys ks = jwks_keys doc" using extra_file_keys [OF ks(1) assms(3)] assms(4,5) by (simp add: jwks_text_law_def)
  moreover have "set (foldl add_published l xs) \<subseteq> set l \<union> set xs" for l xs
    using add_published_kids(2) by (induction xs rule: rev_induct) fastforce+
  ultimately show ?thesis using ks(2) by fastforce
qed

lemma unknown_kid_refused:
  assumes "decode_compact_jws_header E tok = Ok h" "hdr_kid h = Some kid" "kid \<notin> jwk_kid ` set (jwks_keys jwks)"
  shows "\<not> is_ok (verify_claims_against_jwks_with_header E C tok jwks)"
proof -
  have "find (\<lambda>key. jwk_kid key = kid) (jwks_keys jwks) = None" using assms(3) by (auto simp: find_None_iff)
  then show ?thesis using assms(1,2)
    by (auto simp: is_ok_def verify_claims_against_jwks_with_header_def verify_claims_against_jwks_inner_def and_then_def split: sum.splits)
qed

section \<open>Properties\<close>

text \<open>
  C38: two ML-DSA rotations that overlap lose a key. Both read the files, then one after the other takes the lock and
  succeeds. After the first, its new key is in the key file, ready to sign. After the second, that key is in neither
  file, and a server that restarts on the files refuses every token the lost key has signed.
\<close>

theorem pqc_rotations_lose_key:
  fixes args
  defines "key \<equiv> pr_key_file args" and "extra \<equiv> pr_extra_jwks_file args"
  assumes "load_current_pqc_signing_key X sys fs key = Ok current" "load_existing_overlap X sys fs extra = Ok overlap"
    and "rotate_pqc_key X sys tmps seed args fs fs = (Ok out, fs')" "rotate_pqc_key X sys tmps' seed' args fs fs' = (Ok out', fs'')"
    and "\<not> pr_dry_run args" "rotation_paths_ok key extra tmps" "rotation_paths_ok key extra tmps'"
    and "parse_mldsa_algorithm (jwk_alg current) = Ok algorithm"
    and "mldsa_generate_private_jwk (cx_jose X) algorithm (pr_kid args) seed = Ok (json, lost)"
    and "jwk_kid lost \<notin> jwk_kid ` set (current # overlap)"
    and "ce_read_file (be_config B) extra = map_option f_content (fs'' extra)" "jwks_text_law X B"
    and "obo_sts_extra_jwks_file config = Some extra" "published_jwks B config signer = Ok jwks"
    and "jwk_kid (signer_public_jwk signer) \<noteq> jwk_kid lost"
    and "decode_compact_jws_header E tok = Ok header" "hdr_kid header = Some (jwk_kid lost)"
  shows "fs' key = Some \<lparr>f_content = json, f_mode = 384\<rparr> \<and> \<not> is_ok (verify_claims_against_jwks_with_header E C tok jwks)"
proof
  note o = assms(3,4) [unfolded key_def extra_def]
  show "fs' key = Some \<lparr>f_content = json, f_mode = 384\<rparr>"
    using assms(10,11) by (auto simp: key_def intro: pqc_rotation_outcome [OF assms(5,7) assms(8) [unfolded key_def extra_def] o])
  obtain new bytes where b: "cx_jwks_text X \<lparr>jwks_keys = current # retained_keys current new overlap\<rparr> = Some bytes"
    "fs'' extra = Some \<lparr>f_content = bytes @ [CHR 0x0A], f_mode = 420\<rparr>"
    using pqc_rotation_outcome [OF assms(6,7) assms(9) [unfolded key_def extra_def] o] by (metis extra_def)
  have "jwk_kid ` set (jwks_keys jwks) \<subseteq>
      insert (jwk_kid (signer_public_jwk signer)) (jwk_kid ` set (current # retained_keys current new overlap))"
    using published_from_overlap [OF assms(16,15) _ b(1) assms(14)] assms(13) b(2) by simp
  then have "jwk_kid lost \<notin> jwk_kid ` set (jwks_keys jwks)" using assms(12,17) by (auto simp: retained_keys_def)
  from unknown_kid_refused [OF assms(18,19) this] show "\<not> is_ok (verify_claims_against_jwks_with_header E C tok jwks)" .
qed

end
