(* ===== verification/Demo_Race.thy ===== *)
theory Demo_Race
  imports Rotation_Race Demo_Cli
begin

text \<open>
  Two ML-DSA rotations computed from the model. A seed is one letter repeated, its public key the same letter: the
  key \<open>a\<close> is replaced by \<open>b\<close> and by \<open>c\<close>, and a token of \<open>b\<close> is refused afterwards.
\<close>

definition pq_seed :: "char \<Rightarrow> string" where "pq_seed c = replicate 32 c"

definition pq_pub :: "char \<Rightarrow> string" where "pq_pub c = replicate (public_key_len MlDsa65) c"

definition pq_kid :: "char \<Rightarrow> string" where
  "pq_kid c = akp_jwk_thumbprint (demo_ext\<lparr>b64_encode := id\<rparr>) ''ML-DSA-65'' (pq_pub c)"

definition pq_key :: "char \<Rightarrow> PublicJwk" where "pq_key c = akp_public_jwk (pq_kid c) MlDsa65 (pq_pub c)"

definition pq_json :: "json \<Rightarrow> string option" where
  "pq_json j = (case j of JObject ms \<Rightarrow> (case map_of ms ''priv'' of Some (JString s) \<Rightarrow> Some s | _ \<Rightarrow> None) | _ \<Rightarrow> None)"

definition pq_jose :: jose_ext where
  "pq_jose = demo_ext\<lparr>b64_encode := id, b64_decode := Some,
     header_from_slice := (\<lambda>b. Some \<lparr>hdr_alg = ''ML-DSA-65'', hdr_kid = Some (pq_kid CHR ''b''), hdr_typ = None\<rparr>),
     ossl_raw_public := (\<lambda>a seed. Some (replicate (public_key_len a) (hd seed))), json_to_string_pretty := pq_json,
     akp_jwk_from_str := (\<lambda>t. Some \<lparr>pakp_kty = ''AKP'', pakp_kid = None, pakp_alg = ''ML-DSA-65'', pakp_pub = pq_pub (hd t),
       pakp_priv = butlast t\<rparr>)\<rparr>"

definition pq_ext :: cli_ext where
  "pq_ext = \<lparr>cx_jose = pq_jose,
     cx_json = (\<lambda>t. Some (JObject [(''priv'', JString ''''), (''kty'', JString ''AKP''), (''alg'', JString ''ML-DSA-65'')])),
     cx_jwks_text = (\<lambda>doc. if doc = \<lparr>jwks_keys = [pq_key CHR ''a'']\<rparr> then Some ''w'' else None)\<rparr>"

definition pq_args :: PqcKeyRotateArgs where
  "pq_args = \<lparr>pr_key_file = ''key'', pr_extra_jwks_file = ''extra'', pr_kid = None, pr_dry_run = False\<rparr>"

definition pq_file :: "char \<Rightarrow> stored_file" where
  "pq_file c = \<lparr>f_content = pq_seed c @ [CHR 0x0A], f_mode = 384\<rparr>"

definition pq_fs :: file_system where "pq_fs = [''key'' \<mapsto> pq_file CHR ''a'']"

definition pq_after :: "char \<Rightarrow> file_system" where
  "pq_after c = [''key'' \<mapsto> pq_file c, ''extra'' \<mapsto> \<lparr>f_content = [CHR ''w'', CHR 0x0A], f_mode = 420\<rparr>]"

lemma pq_kid_inj: "pq_kid c = pq_kid d \<longleftrightarrow> c = d"
  by (auto simp: pq_kid_def akp_jwk_thumbprint_def demo_ext_def pq_pub_def replicate_eq_replicate)

lemma pq_seed_facts: "length (pq_seed c) = 32" "hd (pq_seed c @ s) = c" "hd (pq_seed c) = c"
  by (simp_all add: pq_seed_def hd_append hd_replicate)

lemma pq_backend: "backend_parse ''ML-DSA-65'' = RequestedPqc ''ML-DSA-65''" "from_selector ''ML-DSA-65'' = Some MlDsa65"
  "from_jose_alg ''ML-DSA-65'' = Some MlDsa65"
  by code_simp+

lemma pq_jose_simps [simp]:
  "b64_encode pq_jose = id" "b64_decode pq_jose = Some" "ossl_key_from_seed pq_jose a s"
  "ossl_raw_public pq_jose a s = Some (replicate (public_key_len a) (hd s))" "json_to_string_pretty pq_jose = pq_json"
  "akp_jwk_from_str pq_jose t = Some \<lparr>pakp_kty = ''AKP'', pakp_kid = None, pakp_alg = ''ML-DSA-65'', pakp_pub = pq_pub (hd t),
     pakp_priv = butlast t\<rparr>"
  "akp_jwk_thumbprint pq_jose ''ML-DSA-65'' (pq_pub c) = pq_kid c"
  by (simp_all add: pq_jose_def demo_ext_def akp_jwk_thumbprint_def pq_kid_def)

lemma pq_load:
  "mldsa_from_private_jwk_for_backend pq_jose (backend_parse ''ML-DSA-65'') (pq_seed c @ [CHR 0x0A]) '''' =
     Ok \<lparr>ml_kid = pq_kid c, ml_algorithm = MlDsa65, ml_key_pair = pq_seed c, ml_public_jwk = pq_key c\<rparr>"
proof -
  have pub: "replicate (public_key_len MlDsa65) c = pq_pub c" "length (pq_pub c) = public_key_len MlDsa65"
    by (simp_all add: pq_pub_def)
  show ?thesis
    by (simp add: mldsa_from_private_jwk_for_backend_def pq_backend resolve_backend_def selected_pqc_algorithm_def
        decode_jwk_octets_def pq_seed_facts openssl_private_key_from_seed_def openssl_raw_public_key_def pub Let_def pq_key_def
        del: public_key_len.simps)
qed

lemma pq_generate: "mldsa_generate_private_jwk pq_jose MlDsa65 None (Some (pq_seed c)) = Ok (pq_seed c @ [CHR 0x0A], pq_key c)"
proof -
  have pub: "replicate (public_key_len MlDsa65) c = pq_pub c" by (simp add: pq_pub_def)
  show ?thesis using pq_load [of c]
    by (simp add: mldsa_generate_private_jwk_def openssl_private_key_from_seed_def openssl_raw_public_key_def pq_seed_facts pub Let_def
        pq_json_def del: public_key_len.simps)
qed

lemma pq_current: "load_current_pqc_signing_key pq_ext rot_sys pq_fs ''key'' = Ok (pq_key CHR ''a'')"
  using pq_load [of "CHR ''a''"]
  by (simp add: load_current_pqc_signing_key_def read_file_def pq_fs_def pq_file_def pq_ext_def obj_get_str_def)

lemma pq_overlap: "load_existing_overlap pq_ext rot_sys pq_fs ''extra'' = Ok []"
  by (simp add: load_existing_overlap_def pq_fs_def)

lemma pq_written:
  "fs tmp = None \<Longrightarrow> atomic_write_bytes rot_sys tmp path bytes mode fs =
     (Ok (), (fs(tmp := None))(path \<mapsto> \<lparr>f_content = bytes, f_mode = mode\<rparr>))"
  by (simp add: atomic_write_bytes_def rot_parents create_new_def)

lemma pq_rotate:
  assumes "fs ''t1'' = None" "fs ''t2'' = None" "fs ''key.rotate.lock'' = None"
  shows "\<exists>out. rotate_pqc_key pq_ext rot_sys (''t1'', ''t2'') (Some (pq_seed c)) pq_args pq_fs fs =
    (Ok out, fs(''extra'' \<mapsto> \<lparr>f_content = [CHR ''w'', CHR 0x0A], f_mode = 420\<rparr>, ''key'' \<mapsto> pq_file c))"
proof -
  let ?fs1 = "fs(''key.rotate.lock'' \<mapsto> \<lparr>f_content = [], f_mode = 438\<rparr>)"
  have lock: "rotation_lock_acquire rot_sys ''key'' fs = (Ok (), ?fs1)"
    using assms(3) by (simp add: rotation_lock_acquire_def rot_parents create_new_def lock_path_def)
  have alg: "parse_mldsa_algorithm (jwk_alg (pq_key CHR ''a'')) = Ok MlDsa65"
    by (simp add: parse_mldsa_algorithm_def pq_key_def akp_public_jwk_def pq_backend)
  have x: "cx_jose pq_ext = pq_jose" "cx_jwks_text pq_ext \<lparr>jwks_keys = [pq_key CHR ''a'']\<rparr> = Some ''w''" by (simp_all add: pq_ext_def)
  have a: "pr_key_file pq_args = ''key''" "pr_extra_jwks_file pq_args = ''extra''" "pr_kid pq_args = None" "\<not> pr_dry_run pq_args"
    by (simp_all add: pq_args_def)
  have "\<exists>out. rotate_pqc_key_locked pq_ext rot_sys (''t1'', ''t2'') (Some (pq_seed c)) pq_args (pq_key CHR ''a'') [] ?fs1 =
      (Ok out, ?fs1(''extra'' \<mapsto> \<lparr>f_content = [CHR ''w'', CHR 0x0A], f_mode = 420\<rparr>, ''key'' \<mapsto> pq_file c))"
    using assms
    by (simp add: rotate_pqc_key_locked_def alg x a pq_generate stage_and_replace_def atomic_write_json_def retained_keys_def
        pq_written atomic_write_text_def fs_then_def)
       (auto simp: pq_file_def fun_eq_iff)
  then obtain out where "rotate_pqc_key_locked pq_ext rot_sys (''t1'', ''t2'') (Some (pq_seed c)) pq_args (pq_key CHR ''a'') [] ?fs1 =
      (Ok out, ?fs1(''extra'' \<mapsto> \<lparr>f_content = [CHR ''w'', CHR 0x0A], f_mode = 420\<rparr>, ''key'' \<mapsto> pq_file c))" by blast
  then show ?thesis using assms(3)
    by (simp add: rotate_pqc_key_def a pq_current pq_overlap fs_then_def lock rotation_lock_drop_def remove_file_def lock_path_def)
       (auto simp: fun_eq_iff)
qed

definition pq_boot :: boot_env where
  "pq_boot = rot_boot\<lparr>be_config :=
     \<lparr>ce_url = (\<lambda>s. None),
      ce_json = (\<lambda>s. if s = [CHR ''w'', CHR 0x0A] then Some (jwks_to_value \<lparr>jwks_keys = [pq_key CHR ''a'']\<rparr>) else None),
      ce_read_file = (\<lambda>p. map_option f_content (pq_after CHR ''c'' p))\<rparr>, be_jose := pq_jose\<rparr>"

definition pq_signer :: JoseSigner where
  "pq_signer = MlDsaSigner \<lparr>ml_kid = pq_kid CHR ''c'', ml_algorithm = MlDsa65, ml_key_pair = pq_seed CHR ''c'', ml_public_jwk = pq_key CHR ''c''\<rparr>"

lemma pq_entry: "public_entry pq_jose (JObject (jwk_to_object (pq_key c))) (pq_key c)"
proof -
  have "strong_public_key pq_jose (pq_key c)"
    by (simp add: strong_public_key_def validate_public_jwk_def akp_public_key_from_jwk_def decode_jwk_octets_def pq_key_def
        akp_public_jwk_def pq_backend pq_pub_def)
  then show ?thesis
    by (simp add: public_entry_def public_jwk_roundtrip list_all_iff private_members_agree [symmetric] jwk_to_object_public)
qed

lemma pq_published: "published_jwks pq_boot rot_config pq_signer = Ok \<lparr>jwks_keys = [pq_key CHR ''c'', pq_key CHR ''a'']\<rparr>"
proof -
  have "file_protected pq_boot p a" for p a by (simp add: file_protected_def pq_boot_def rot_boot_def)
  moreover have "jwks_file_holds pq_boot ''extra'' [pq_key CHR ''a'']"
    by (simp add: jwks_file_holds_def pq_boot_def pq_after_def jwks_to_value_def pq_entry)
  ultimately have "load_public_jwks_file pq_boot ''extra'' label a = Ok \<lparr>jwks_keys = [pq_key CHR ''a'']\<rparr>" for label a
    by (simp add: load_public_jwks_ok)
  then show ?thesis
    by (simp add: published_jwks_def rot_config_def pq_signer_def public_jwks_def add_published_def)
       (simp add: pq_key_def akp_public_jwk_def pq_kid_inj)
qed

theorem pqc_rotations_lose_key_witness:
  "pq_after CHR ''b'' ''key'' = Some (pq_file CHR ''b'') \<and>
   (\<exists>out. rotate_pqc_key pq_ext rot_sys (''t1'', ''t2'') (Some (pq_seed CHR ''b'')) pq_args pq_fs pq_fs = (Ok out, pq_after CHR ''b'')) \<and>
   (\<exists>out. rotate_pqc_key pq_ext rot_sys (''t1'', ''t2'') (Some (pq_seed CHR ''c'')) pq_args pq_fs (pq_after CHR ''b'') = (Ok out, pq_after CHR ''c'')) \<and>
   \<not> is_ok (verify_claims_against_jwks_with_header pq_jose rot_codec ''h.p.s'' \<lparr>jwks_keys = [pq_key CHR ''c'', pq_key CHR ''a'']\<rparr>)"
proof -
  have e: "pq_fs(''extra'' \<mapsto> \<lparr>f_content = [CHR ''w'', CHR 0x0A], f_mode = 420\<rparr>, ''key'' \<mapsto> pq_file CHR ''b'') = pq_after CHR ''b''"
    "(pq_after CHR ''b'')(''extra'' \<mapsto> \<lparr>f_content = [CHR ''w'', CHR 0x0A], f_mode = 420\<rparr>, ''key'' \<mapsto> pq_file CHR ''c'') = pq_after CHR ''c''"
    by (simp_all add: pq_fs_def pq_after_def fun_eq_iff)
  obtain out where 1: "rotate_pqc_key pq_ext rot_sys (''t1'', ''t2'') (Some (pq_seed CHR ''b'')) pq_args pq_fs pq_fs = (Ok out, pq_after CHR ''b'')"
    using pq_rotate [of pq_fs "CHR ''b''"] e(1) by (auto simp: pq_fs_def)
  obtain out' where 2: "rotate_pqc_key pq_ext rot_sys (''t1'', ''t2'') (Some (pq_seed CHR ''c'')) pq_args pq_fs (pq_after CHR ''b'') = (Ok out', pq_after CHR ''c'')"
    using pq_rotate [of "pq_after CHR ''b''" "CHR ''c''"] e(2) by (auto simp: pq_after_def)
  have a: "pr_key_file pq_args = ''key''" "pr_extra_jwks_file pq_args = ''extra''" "pr_kid pq_args = None" "\<not> pr_dry_run pq_args"
    by (simp_all add: pq_args_def)
  have alg: "parse_mldsa_algorithm (jwk_alg (pq_key CHR ''a'')) = Ok MlDsa65"
    by (simp add: parse_mldsa_algorithm_def pq_key_def akp_public_jwk_def pq_backend)
  have g: "mldsa_generate_private_jwk (cx_jose pq_ext) MlDsa65 (pr_kid pq_args) (Some (pq_seed CHR ''b'')) =
      Ok (pq_seed CHR ''b'' @ [CHR 0x0A], pq_key CHR ''b'')" using pq_generate by (simp add: pq_ext_def a)
  have kid: "jwk_kid (pq_key c) = pq_kid c" for c by (simp add: pq_key_def akp_public_jwk_def)
  have law: "jwks_text_law pq_ext pq_boot" by (auto simp: jwks_text_law_def pq_ext_def pq_boot_def split: if_splits)
  have rd: "ce_read_file (be_config pq_boot) ''extra'' = map_option f_content (pq_after CHR ''c'' ''extra'')" by (simp add: pq_boot_def)
  have h: "decode_compact_jws_header pq_jose ''h.p.s'' = Ok \<lparr>hdr_alg = ''ML-DSA-65'', hdr_kid = Some (pq_kid CHR ''b''), hdr_typ = None\<rparr>"
    by (simp add: decode_compact_jws_header_def parse_compact_jws_def decode_compact_segment_def) (simp add: pq_jose_def)
  have "pq_after CHR ''b'' (pr_key_file pq_args) = Some \<lparr>f_content = pq_seed CHR ''b'' @ [CHR 0x0A], f_mode = 384\<rparr> \<and>
      \<not> is_ok (verify_claims_against_jwks_with_header pq_jose rot_codec ''h.p.s'' \<lparr>jwks_keys = [pq_key CHR ''c'', pq_key CHR ''a'']\<rparr>)"
    by (rule pqc_rotations_lose_key [OF _ _ 1 2 a(4) _ _ alg g _ _ law _ pq_published _ h, where overlap = "[]"])
       (simp_all add: a pq_current pq_overlap rot_paths kid pq_kid_inj rd rot_config_def pq_signer_def)
  with 1 2 show ?thesis by (simp add: a pq_file_def)
qed

end
