(* ===== verification/Cli_Exchange.thy ===== *)
theory Cli_Exchange
  imports Cli_Keys
begin

text \<open>
  The client side of a token exchange in \<open>sts-cli\<close>: the form it sends, the check of the minted token
  and what it prints, with the offline token verification, the smoke check and the generation of
  holder keys. The lemmas show that the server's parser reads back what the client put in the form,
  and that the printed result does not depend on the token itself unless the user asks for it.

  The HTTP client, the clock, the token codec and the JSON writer are parameters (\<open>exchange_ext\<close>).
\<close>

section \<open>Arguments and libraries\<close>

datatype ExchangeOutputFormat = Redacted | Claims | JsonOutput

record ExchangeArgs =
  ea_sts_url :: "string option"
  ea_token_endpoint :: "string option"
  ea_subject_token_file :: string
  ea_subject_token_type :: string
  ea_actor_token_file :: "string option"
  ea_actor_token_type :: string
  ea_client_assertion_file :: "string option"
  ea_client_assertion_type :: string
  ea_client_id :: "string option"
  ea_audience :: "string list"
  ea_resource :: "string list"
  ea_scope :: "string option"
  ea_requested_token_type :: "string option"
  ea_dpop_proof_file :: "string option"
  ea_dpop_key_file :: "string option"
  ea_jwks_file :: "string option"
  ea_jwks_url :: "string option"
  ea_output :: ExchangeOutputFormat
  ea_print_token :: bool

text \<open>
  \<open>ex_get\<close> and \<open>ex_post\<close> return the status and the body, \<open>None\<close> when the request or reading the body
  fails; \<open>ex_clock\<close> is the number of seconds since the epoch, \<open>None\<close> before it.
\<close>

record exchange_ext =
  ex_cli :: cli_ext
  ex_dpop :: dpop_ext
  ex_url :: url_parse
  ex_url_text :: "ParsedUrl \<Rightarrow> string"
  ex_writer :: json_writer
  ex_codec :: "json codec"
  ex_form_encode :: "(string \<times> string) list \<Rightarrow> string option"
  ex_get :: "string \<Rightarrow> (nat \<times> string option) option"
  ex_post :: "string \<Rightarrow> string \<Rightarrow> string option \<Rightarrow> (nat \<times> string option) option"
  ex_clock :: "nat option"
  ex_jti :: string

section \<open>The request\<close>

definition is_http_url :: "string \<Rightarrow> bool" where
  "is_http_url u \<longleftrightarrow> starts_with u ''https://'' \<or> starts_with u ''http://''"

definition resolve_token_endpoint :: "ExchangeArgs \<Rightarrow> (CliError, string) result" where
  "resolve_token_endpoint args =
     and_then (case ea_token_endpoint args of
         Some ep \<Rightarrow> Ok (trim ep)
       | None \<Rightarrow> (case ea_sts_url args of
             Some sts_url \<Rightarrow> Ok (trim_end_matches CHR ''/'' (trim sts_url) @ ''/token'')
           | None \<Rightarrow> Err (usage (lit ''exchange requires --sts-url or --token-endpoint'')))) (\<lambda>endpoint.
     if endpoint = [] then Err (usage (lit ''exchange token endpoint must not be empty''))
     else if \<not> is_http_url endpoint then
       Err (usage (lit ''exchange token endpoint must be an http or https URL''))
     else Ok endpoint)"

definition read_secret_file :: "cli_sys \<Rightarrow> file_system \<Rightarrow> string \<Rightarrow> string \<Rightarrow> (CliError, string) result" where
  "read_secret_file sys fs label path =
     and_then (ok_or (read_file sys fs path)
         (runtime [Lit (''failed to read '' @ label @ '' file '' @ sanitize_path path @ '': ''), Ext])) (\<lambda>raw.
     if trim raw = [] then Err (usage (lit (label @ '' file '' @ sanitize_path path @ '' is empty'')))
     else Ok (trim raw))"

definition push_form_param ::
    "(string \<times> string) list \<Rightarrow> string \<Rightarrow> string \<Rightarrow> (CliError, (string \<times> string) list) result" where
  "push_form_param form name v =
     (if trim v = [] then Err (usage (lit (''exchange parameter '' @ name @ '' must not be empty'')))
      else Ok (form @ [(name, v)]))"

primrec push_form_params ::
    "(string \<times> string) list \<Rightarrow> (string \<times> string) list \<Rightarrow> (CliError, (string \<times> string) list) result" where
  "push_form_params form [] = Ok form"
| "push_form_params form (p # ps) =
     and_then (push_form_param form (fst p) (snd p)) (\<lambda>form. push_form_params form ps)"

definition opt_param :: "string \<Rightarrow> string option \<Rightarrow> (string \<times> string) list" where
  "opt_param name v = (case v of None \<Rightarrow> [] | Some x \<Rightarrow> [(name, x)])"

text \<open>The parameters in the order they are pushed.\<close>

definition exchange_params ::
    "ExchangeArgs \<Rightarrow> string \<Rightarrow> string option \<Rightarrow> string option \<Rightarrow> (string \<times> string) list" where
  "exchange_params args subject_token actor_token client_assertion =
     [(''grant_type'', TOKEN_EXCHANGE_GRANT_TYPE), (''subject_token'', subject_token),
      (''subject_token_type'', ea_subject_token_type args)] @
     opt_param ''actor_token'' actor_token @
     opt_param ''actor_token_type'' (map_option (\<lambda>_. ea_actor_token_type args) actor_token) @
     opt_param ''client_assertion'' client_assertion @
     opt_param ''client_assertion_type'' (map_option (\<lambda>_. ea_client_assertion_type args) client_assertion) @
     opt_param ''client_id'' (ea_client_id args) @
     map (\<lambda>a. (''audience'', a)) (ea_audience args) @ map (\<lambda>r. (''resource'', r)) (ea_resource args) @
     opt_param ''scope'' (ea_scope args) @ opt_param ''requested_token_type'' (ea_requested_token_type args)"

definition unix_timestamp_now :: "nat option \<Rightarrow> (CliError, int) result" where
  "unix_timestamp_now clock =
     and_then (ok_or clock (runtime [Lit ''system clock is before Unix epoch: '', Ext])) (\<lambda>seconds.
     if int seconds \<le> i64_max then Ok (int seconds)
     else Err (runtime (lit ''system time exceeds supported JWT timestamp range'')))"

record ExchangeHttpRequest =
  xr_token_endpoint :: string
  xr_body :: string
  xr_dpop_proof :: "string option"
  xr_dpop_jkt :: "string option"

definition generated_dpop_proof ::
    "exchange_ext \<Rightarrow> string \<Rightarrow> string \<Rightarrow> (CliError, string \<times> string) result" where
  "generated_dpop_proof X raw uri =
     and_then (map_err (\<lambda>e. usage (Lit ''invalid DPoP holder key: '' # dpop_error_text e)) (dpop_from_private_jwk (ex_dpop X) raw)) (\<lambda>key.
     and_then (map_err (\<lambda>e. usage (Lit ''invalid DPoP token endpoint: '' # dpop_error_text e))
         (dpop_htu_for_request_uri (ex_url X) (ex_url_text X) uri)) (\<lambda>htu.
     and_then (unix_timestamp_now (ex_clock X)) (\<lambda>iat.
     and_then (map_err (\<lambda>e. runtime (Lit ''failed to sign DPoP proof: '' # dpop_error_text e))
         (sign_proof (ex_dpop X) key \<lparr>pb_htm = ''POST'', pb_htu = htu, pb_iat = iat, pb_jti = ex_jti X\<rparr>)) (\<lambda>dpop_proof.
     Ok (dpop_proof, hk_jkt key)))))"

definition build_exchange_http_request ::
    "exchange_ext \<Rightarrow> cli_sys \<Rightarrow> file_system \<Rightarrow> ExchangeArgs \<Rightarrow> (CliError, ExchangeHttpRequest) result" where
  "build_exchange_http_request X sys fs args =
     and_then (resolve_token_endpoint args) (\<lambda>endpoint.
     and_then (read_secret_file sys fs ''subject token'' (ea_subject_token_file args)) (\<lambda>subject_token.
     and_then (map_transpose (read_secret_file sys fs ''actor token'') (ea_actor_token_file args)) (\<lambda>actor_token.
     and_then (map_transpose (read_secret_file sys fs ''client assertion'') (ea_client_assertion_file args)) (\<lambda>client_assertion.
     and_then (map_transpose (read_secret_file sys fs ''DPoP proof'') (ea_dpop_proof_file args)) (\<lambda>dpop_proof.
     and_then (case ea_dpop_key_file args of
         None \<Rightarrow> Ok (dpop_proof, None)
       | Some path \<Rightarrow>
           and_then (read_secret_file sys fs ''DPoP holder key'' path) (\<lambda>raw.
           and_then (generated_dpop_proof X raw endpoint) (\<lambda>(prf, jkt). Ok (Some prf, Some jkt)))) (\<lambda>(prf, jkt).
     and_then (push_form_params [] (exchange_params args subject_token actor_token client_assertion)) (\<lambda>form.
     and_then (ok_or (ex_form_encode X form) (runtime [Lit ''failed to encode exchange form: '', Ext])) (\<lambda>body.
     Ok \<lparr>xr_token_endpoint = endpoint, xr_body = body, xr_dpop_proof = prf, xr_dpop_jkt = jkt\<rparr>))))))))"

section \<open>Reading the response\<close>

definition value_get :: "json \<Rightarrow> string \<Rightarrow> json option" where
  "value_get v k = Option.bind (as_object v) (\<lambda>m. obj_get m k)"

definition value_get_str :: "json \<Rightarrow> string \<Rightarrow> string option" where
  "value_get_str v k = Option.bind (value_get v k) as_str"

text \<open>\<open>serde_json::Map::insert\<close>, with the members in key order.\<close>

definition obj_insert :: "string \<Rightarrow> json \<Rightarrow> (string \<times> json) list \<Rightarrow> (string \<times> json) list" where
  "obj_insert k v m = sort_key fst (AList.update k v m)"

definition insert_some :: "string \<Rightarrow> json option \<Rightarrow> (string \<times> json) list \<Rightarrow> (string \<times> json) list" where
  "insert_some k v m = (case v of None \<Rightarrow> m | Some x \<Rightarrow> obj_insert k x m)"

definition json_i64 :: "int \<Rightarrow> json" where
  "json_i64 i = JNumber (if i < 0 then NegInt i else PosInt (nat i))"

definition decode_compact_jwt_json_part :: "exchange_ext \<Rightarrow> string \<Rightarrow> string \<Rightarrow> (CliError, json) result" where
  "decode_compact_jwt_json_part X part label =
     and_then (ok_or (b64_decode (cx_jose (ex_cli X)) part)
         (runtime (lit (''minted '' @ label @ '' is not valid base64url'')))) (\<lambda>bytes.
     ok_or (cx_json (ex_cli X) bytes) (runtime [Lit (''minted '' @ label @ '' is not JSON: ''), Ext]))"

definition decode_compact_jwt :: "exchange_ext \<Rightarrow> string \<Rightarrow> (CliError, (json \<times> json) option) result" where
  "decode_compact_jwt X tok =
     (case split_on CHR ''.'' tok of
        [header, payload, signature] \<Rightarrow>
          and_then (decode_compact_jwt_json_part X header ''JWT header'') (\<lambda>h.
          and_then (decode_compact_jwt_json_part X payload ''JWT payload'') (\<lambda>p.
          Ok (Some (h, p))))
      | _ \<Rightarrow> Ok None)"

definition parse_exchange_jwk ::
    "string \<Rightarrow> nat \<times> (string \<times> json) list \<Rightarrow> (CliError, PublicJwk) result" where
  "parse_exchange_jwk label indexed =
     (case indexed of (index, key) \<Rightarrow>
        and_then (ok_or (public_jwk_from_value key)
            (usage [Lit (label @ '' '' @ key_at index @ '' is not a public JWK: ''), Ext])) (\<lambda>jwk.
        if jwk_kid jwk = [] then Err (usage (lit (label @ '' '' @ key_at index @ '' missing required member kid'')))
        else Ok jwk))"

definition parse_exchange_jwks_document :: "cli_ext \<Rightarrow> string \<Rightarrow> string \<Rightarrow> (CliError, JwksDocument) result" where
  "parse_exchange_jwks_document X raw label =
     and_then (ok_or (cx_json X raw) (usage [Lit (label @ '' is invalid JSON: ''), Ext])) (\<lambda>v.
     and_then (normalize_jwks_value v) (\<lambda>keys.
     and_then (inspect_public_keys (cx_jose X) keys) (\<lambda>_.
     and_then (collect_results (parse_exchange_jwk label) (enumerate 0 keys)) (\<lambda>public_keys.
     Ok \<lparr>jwks_keys = public_keys\<rparr>))))"

definition fetch_jwks_url :: "exchange_ext \<Rightarrow> string \<Rightarrow> (CliError, JwksDocument) result" where
  "fetch_jwks_url X u =
     (if \<not> is_http_url u then Err (usage (lit ''JWKS URL must be an http or https URL''))
      else
        and_then (ok_or (ex_get X u) (runtime [Lit ''failed to fetch JWKS URL: '', Ext])) (\<lambda>(status, body).
        and_then (ok_or body (runtime [Lit ''failed to read JWKS response body: '', Ext])) (\<lambda>raw.
        if \<not> is_success_status status then
          Err (runtime (lit (''JWKS URL fetch failed'' @ [CHR 0x0A] @ ''http_status='' @ display_nat status)))
        else parse_exchange_jwks_document (ex_cli X) raw ''JWKS URL'')))"

definition load_jwks ::
    "exchange_ext \<Rightarrow> cli_sys \<Rightarrow> file_system \<Rightarrow> string option \<Rightarrow> string option \<Rightarrow>
     (CliError, (JwksDocument \<times> string) option) result" where
  "load_jwks X sys fs jwks_file jwks_url =
     (case jwks_file of
        Some path \<Rightarrow>
          and_then (ok_or (read_file sys fs path)
              (runtime [Lit (''failed to read JWKS file '' @ sanitize_path path @ '': ''), Ext])) (\<lambda>raw.
          map_ok (\<lambda>ks. Some (ks, ''file'')) (parse_exchange_jwks_document (ex_cli X) raw ''JWKS file''))
      | None \<Rightarrow>
          (case jwks_url of
             Some u \<Rightarrow> map_ok (\<lambda>ks. Some (ks, ''url'')) (fetch_jwks_url X u)
           | None \<Rightarrow> Ok None))"

definition load_exchange_jwks ::
    "exchange_ext \<Rightarrow> cli_sys \<Rightarrow> file_system \<Rightarrow> ExchangeArgs \<Rightarrow> (CliError, (JwksDocument \<times> string) option) result" where
  "load_exchange_jwks X sys fs args = load_jwks X sys fs (ea_jwks_file args) (ea_jwks_url args)"

definition load_jwks_for_verification ::
    "exchange_ext \<Rightarrow> cli_sys \<Rightarrow> file_system \<Rightarrow> string option \<Rightarrow> string option \<Rightarrow> (CliError, JwksDocument \<times> string) result" where
  "load_jwks_for_verification X sys fs jwks_file jwks_url =
     and_then (load_jwks X sys fs jwks_file jwks_url) (\<lambda>found.
     ok_or found (usage (lit ''token verify requires --jwks-file or --jwks-url'')))"

section \<open>What is printed\<close>

definition insert_safe_string_claim :: "json \<Rightarrow> string \<Rightarrow> (string \<times> json) list \<Rightarrow> (string \<times> json) list" where
  "insert_safe_string_claim claims name safe =
     insert_some name (map_option (\<lambda>v. JString (sanitize v)) (value_get_str claims name)) safe"

definition insert_safe_audience_claim :: "json \<Rightarrow> (string \<times> json) list \<Rightarrow> (string \<times> json) list" where
  "insert_safe_audience_claim claims safe =
     (case value_get claims ''aud'' of
        Some (JString v) \<Rightarrow> obj_insert ''aud'' (JString (sanitize v)) safe
      | Some (JArray vs) \<Rightarrow> obj_insert ''aud'' (JArray (map (\<lambda>s. JString (sanitize s)) (List.map_filter as_str vs))) safe
      | _ \<Rightarrow> safe)"

abbreviation digest_of :: "jose_ext \<Rightarrow> string \<Rightarrow> json" where
  "digest_of E v \<equiv> JString (sha256_hex_prefix E v)"

definition safe_claims_summary :: "jose_ext \<Rightarrow> json \<Rightarrow> json" where
  "safe_claims_summary E claims =
     (let safe = insert_safe_string_claim claims ''iss'' [];
          safe = insert_safe_audience_claim claims safe;
          safe = insert_safe_string_claim claims ''scope'' safe;
          safe = insert_safe_string_claim claims ''client_id'' safe;
          safe = insert_some ''sub_sha256_prefix'' (map_option (digest_of E) (value_get_str claims ''sub'')) safe;
          safe = insert_some ''jti_sha256_prefix'' (map_option (digest_of E) (value_get_str claims ''jti'')) safe;
          safe = insert_some ''act_sub'' (map_option (\<lambda>s. JString (sanitize s))
            (Option.bind (value_get claims ''act'') (\<lambda>act. value_get_str act ''sub''))) safe;
          safe = insert_some ''cnf_jkt_sha256_prefix'' (map_option (digest_of E)
            (Option.bind (value_get claims ''cnf'') (\<lambda>cnf. value_get_str cnf ''jkt''))) safe;
          safe = insert_some ''iat'' (map_option json_i64 (Option.bind (value_get claims ''iat'') as_i64)) safe;
          safe = insert_some ''exp'' (map_option json_i64 (Option.bind (value_get claims ''exp'') as_i64)) safe
      in JObject safe)"

definition map_lines :: "json_writer \<Rightarrow> string \<Rightarrow> string list \<Rightarrow> (string \<times> json) list \<Rightarrow> string" where
  "map_lines W pre names m =
     concat (map (\<lambda>name. case obj_get m name of
         None \<Rightarrow> [] | Some v \<Rightarrow> pre @ name @ ''='' @ display_json_scalar W v @ [CHR 0x0A]) names)"

definition claim_lines :: "json_writer \<Rightarrow> (string \<times> json) list \<Rightarrow> string" where
  "claim_lines W safe =
     (case obj_get safe ''claims'' of
        Some (JObject claims) \<Rightarrow> map_lines W ''claims.''
          [''iss'', ''aud'', ''scope'', ''client_id'', ''sub_sha256_prefix'', ''jti_sha256_prefix'', ''act_sub'',
           ''cnf_jkt_sha256_prefix'', ''iat'', ''exp''] claims
      | _ \<Rightarrow> [])"

definition render_exchange_map_lines :: "json_writer \<Rightarrow> (string \<times> json) list \<Rightarrow> string option \<Rightarrow> string" where
  "render_exchange_map_lines W safe raw_access_token =
     map_lines W ''''
       [''exchange_status'', ''http_status'', ''error'', ''error_description'', ''token_type'', ''issued_token_type'',
        ''scope'', ''expires_in'', ''access_token_sha256_prefix'', ''jwt_signature_verified'', ''jwt_verification_source'',
        ''jwt_header_alg'', ''jwt_header_kid'', ''jwt_header_typ'', ''dpop_cnf_jkt_matches_holder'',
        ''dpop_holder_jkt_sha256_prefix''] safe @
     claim_lines W safe @
     (case raw_access_token of None \<Rightarrow> [] | Some tok \<Rightarrow> ''access_token='' @ tok @ [CHR 0x0A])"

definition render_token_verify_map_lines :: "json_writer \<Rightarrow> (string \<times> json) list \<Rightarrow> string" where
  "render_token_verify_map_lines W safe =
     map_lines W '''' [''token_verify_status'', ''access_token_sha256_prefix'', ''jwt_signature_verified'',
       ''jwt_verification_source'', ''jwt_header_alg'', ''jwt_header_kid''] safe @
     claim_lines W safe"

definition pretty_or :: "json_writer \<Rightarrow> string \<Rightarrow> json \<Rightarrow> string" where
  "pretty_or W fallback v = unwrap_or (jw_pretty W v) fallback @ [CHR 0x0A]"

definition render_exchange_error :: "json_writer \<Rightarrow> ExchangeArgs \<Rightarrow> nat \<Rightarrow> json \<Rightarrow> string" where
  "render_exchange_error W args http_status body =
     (let safe = obj_insert ''exchange_status'' (JString ''error'') [];
          safe = obj_insert ''http_status'' (JNumber (PosInt http_status)) safe;
          safe = obj_insert ''error'' (JString (case value_get_str body ''error'' of
              None \<Rightarrow> ''oauth_error'' | Some e \<Rightarrow> sanitize_oauth_text e)) safe;
          safe = insert_some ''error_description''
            (map_option (\<lambda>d. JString (sanitize_oauth_text d)) (value_get_str body ''error_description'')) safe
      in if ea_output args = Redacted then render_exchange_map_lines W safe None
         else pretty_or W (''{'' @ quot @ ''exchange_status'' @ quot @ '':'' @ quot @ ''error'' @ quot @ ''}'') (JObject safe))"

text \<open>
  \<open>render_exchange_success\<close>: what is checked about the minted token, then what is printed. \<open>decoded\<close> is the
  token read as a compact JWT, and the verified header wins over the decoded one.
\<close>

record token_facts =
  fk_decoded :: "(json \<times> json) option"
  fk_verified :: "json VerifiedJws option"
  fk_source :: string

definition examine_token ::
    "exchange_ext \<Rightarrow> cli_sys \<Rightarrow> file_system \<Rightarrow> ExchangeArgs \<Rightarrow> string \<Rightarrow> (CliError, token_facts) result" where
  "examine_token X sys fs args access_token =
     and_then (decode_compact_jwt X access_token) (\<lambda>decoded.
     and_then (load_exchange_jwks X sys fs args) (\<lambda>found.
     (case found of
        None \<Rightarrow> Ok \<lparr>fk_decoded = decoded, fk_verified = None, fk_source = ''none''\<rparr>
      | Some (keys, source) \<Rightarrow>
          and_then (map_err (\<lambda>e. runtime (Lit ''minted token verification failed: '' # sanitized_msg (jose_error_text e)))
              (verify_claims_against_jwks_with_header (cx_jose (ex_cli X)) (ex_codec X) access_token keys)) (\<lambda>v.
          Ok \<lparr>fk_decoded = decoded, fk_verified = Some v, fk_source = source\<rparr>))))"

definition token_claims :: "token_facts \<Rightarrow> json option" where
  "token_claims facts =
     (case fk_verified facts of Some v \<Rightarrow> Some (vj_claims v) | None \<Rightarrow> map_option snd (fk_decoded facts))"

definition header_members :: "token_facts \<Rightarrow> (string \<times> json) list \<Rightarrow> (string \<times> json) list" where
  "header_members facts safe =
     (let from_header = (\<lambda>name. Option.bind (fk_decoded facts) (\<lambda>(header, _). value_get_str header name));
          shown = map_option (\<lambda>s. JString (sanitize s));
          safe = (if fk_verified facts = None then insert_some ''jwt_header_alg'' (shown (from_header ''alg'')) safe else safe);
          safe = (if fk_verified facts = None then insert_some ''jwt_header_kid'' (shown (from_header ''kid'')) safe else safe);
          safe = insert_some ''jwt_header_typ'' (shown (from_header ''typ'')) safe;
          safe = insert_some ''jwt_header_alg'' (shown (map_option vj_alg (fk_verified facts))) safe
      in insert_some ''jwt_header_kid'' (shown (map_option vj_kid (fk_verified facts))) safe)"

definition check_holder ::
    "jose_ext \<Rightarrow> token_facts \<Rightarrow> string option \<Rightarrow> (string \<times> json) list \<Rightarrow> (CliError, (string \<times> json) list) result" where
  "check_holder E facts expected_dpop_jkt safe =
     (case expected_dpop_jkt of
        None \<Rightarrow> Ok safe
      | Some expected_jkt \<Rightarrow>
          and_then (ok_or (token_claims facts)
              (runtime (lit ''DPoP exchange response access_token is not a compact JWT''))) (\<lambda>claims.
          and_then (ok_or (Option.bind (value_get claims ''cnf'') (\<lambda>cnf. value_get_str cnf ''jkt''))
              (runtime (lit ''DPoP exchange response missing access_token cnf.jkt''))) (\<lambda>actual_jkt.
          if actual_jkt \<noteq> expected_jkt then
            Err (runtime (lit ''DPoP exchange response cnf.jkt does not match holder key''))
          else Ok (obj_insert ''dpop_holder_jkt_sha256_prefix'' (digest_of E expected_jkt)
            (obj_insert ''dpop_cnf_jkt_matches_holder'' (JBool True) safe)))))"

definition sanitized_or_absent :: "json \<Rightarrow> string \<Rightarrow> json" where
  "sanitized_or_absent body name =
     JString (case value_get_str body name of None \<Rightarrow> ''(absent)'' | Some v \<Rightarrow> sanitize v)"

definition response_summary :: "jose_ext \<Rightarrow> nat \<Rightarrow> json \<Rightarrow> string \<Rightarrow> token_facts \<Rightarrow> (string \<times> json) list" where
  "response_summary E http_status body access_token facts =
     (let safe = obj_insert ''exchange_status'' (JString ''ok'') [];
          safe = obj_insert ''http_status'' (JNumber (PosInt http_status)) safe;
          safe = obj_insert ''token_type'' (sanitized_or_absent body ''token_type'') safe;
          safe = obj_insert ''issued_token_type'' (sanitized_or_absent body ''issued_token_type'') safe;
          safe = obj_insert ''access_token_sha256_prefix'' (digest_of E access_token) safe;
          safe = insert_some ''scope'' (map_option (\<lambda>s. JString (sanitize s)) (value_get_str body ''scope'')) safe;
          safe = insert_some ''expires_in'' (map_option json_i64 (Option.bind (value_get body ''expires_in'') as_i64)) safe;
          safe = obj_insert ''jwt_signature_verified'' (JBool (fk_source facts \<noteq> ''none'')) safe;
          safe = obj_insert ''jwt_verification_source'' (JString (fk_source facts)) safe
      in header_members facts safe)"

definition render_safe :: "json_writer \<Rightarrow> ExchangeArgs \<Rightarrow> string \<Rightarrow> (string \<times> json) list \<Rightarrow> string" where
  "render_safe W args access_token safe =
     (case ea_output args of
        Redacted \<Rightarrow> render_exchange_map_lines W safe (if ea_print_token args then Some access_token else None)
      | Claims \<Rightarrow>
          let safe = (if ea_print_token args then obj_insert ''access_token'' (JString access_token) safe else safe)
          in pretty_or W ''{}'' (unwrap_or (obj_get safe ''claims'') (JObject safe))
      | JsonOutput \<Rightarrow>
          let safe = (if ea_print_token args then obj_insert ''access_token'' (JString access_token) safe else safe)
          in pretty_or W ''{}'' (JObject safe))"

definition render_exchange_success ::
    "exchange_ext \<Rightarrow> cli_sys \<Rightarrow> file_system \<Rightarrow> ExchangeArgs \<Rightarrow> nat \<Rightarrow> json \<Rightarrow> string option \<Rightarrow> (CliError, string) result" where
  "render_exchange_success X sys fs args http_status body expected_dpop_jkt =
     (let E = cx_jose (ex_cli X) in
      and_then (ok_or (value_get_str body ''access_token'')
          (runtime (lit ''exchange response missing access_token; refusing to print raw body''))) (\<lambda>access_token.
      and_then (examine_token X sys fs args access_token) (\<lambda>facts.
      and_then (check_holder E facts expected_dpop_jkt (response_summary E http_status body access_token facts)) (\<lambda>safe.
      Ok (render_safe (ex_writer X) args access_token
        (insert_some ''claims'' (map_option (safe_claims_summary E) (token_claims facts)) safe))))))"

definition run_exchange ::
    "exchange_ext \<Rightarrow> cli_sys \<Rightarrow> file_system \<Rightarrow> ExchangeArgs \<Rightarrow> (CliError, string) result" where
  "run_exchange X sys fs args =
     and_then (build_exchange_http_request X sys fs args) (\<lambda>request.
     and_then (ok_or (ex_post X (xr_token_endpoint request) (xr_body request) (xr_dpop_proof request))
         (runtime [Lit ''exchange request failed: '', Ext])) (\<lambda>(status, response).
     and_then (ok_or response (runtime [Lit ''failed to read exchange response body: '', Ext])) (\<lambda>response_text.
     and_then (ok_or (cx_json (ex_cli X) response_text)
         (runtime [Lit (''exchange response was not JSON'' @ [CHR 0x0A] @ ''http_status='' @ display_nat status @ [CHR 0x0A] @
            ''parse_error=''), Ext])) (\<lambda>body.
     if \<not> is_success_status status then
       Err (runtime (lit (render_exchange_error (ex_writer X) args status body)))
     else render_exchange_success X sys fs args status body (xr_dpop_jkt request)))))"

section \<open>The other commands\<close>

record TokenVerifyArgs =
  va_token_file :: string
  va_jwks_file :: "string option"
  va_jwks_url :: "string option"
  va_output :: ExchangeOutputFormat

definition verify_token ::
    "exchange_ext \<Rightarrow> cli_sys \<Rightarrow> file_system \<Rightarrow> TokenVerifyArgs \<Rightarrow> (CliError, string) result" where
  "verify_token X sys fs args =
     (let E = cx_jose (ex_cli X) in
      and_then (read_secret_file sys fs ''token'' (va_token_file args)) (\<lambda>tok.
      and_then (load_jwks_for_verification X sys fs (va_jwks_file args) (va_jwks_url args)) (\<lambda>(keys, source).
      and_then (map_err (\<lambda>e. runtime (Lit ''token verification failed: '' # sanitized_msg (jose_error_text e)))
          (verify_claims_against_jwks_with_header E (ex_codec X) tok keys)) (\<lambda>v.
      let safe = obj_insert ''token_verify_status'' (JString ''ok'') [];
          safe = obj_insert ''access_token_sha256_prefix'' (digest_of E tok) safe;
          safe = obj_insert ''jwt_signature_verified'' (JBool True) safe;
          safe = obj_insert ''jwt_verification_source'' (JString source) safe;
          safe = obj_insert ''jwt_header_alg'' (JString (sanitize (vj_alg v))) safe;
          safe = obj_insert ''jwt_header_kid'' (JString (sanitize (vj_kid v))) safe;
          safe = obj_insert ''claims'' (safe_claims_summary E (vj_claims v)) safe
      in Ok (case va_output args of
           Redacted \<Rightarrow> render_token_verify_map_lines (ex_writer X) safe
         | Claims \<Rightarrow> pretty_or (ex_writer X) ''{}'' (unwrap_or (obj_get safe ''claims'') (JObject safe))
         | JsonOutput \<Rightarrow> pretty_or (ex_writer X) ''{}'' (JObject safe))))))"

text \<open>\<open>bootstrap\<close> is the result of \<open>bootstrap_check_from_env\<close>.\<close>

definition run_smoke ::
    "(string \<Rightarrow> string option) \<Rightarrow> (BootstrapError, unit) result \<Rightarrow> bool \<Rightarrow> (CliError, string) result" where
  "run_smoke var bootstrap allow_network =
     (if \<not> allow_network \<and> var ''IDP_JWKS_FILE'' = None then
        Err (usage (lit ''offline smoke requires IDP_JWKS_FILE; pass --allow-network to allow live IdP JWKS retrieval''))
      else
        and_then (map_err from_bootstrap_error bootstrap) (\<lambda>_.
        Ok (''smoke_status=ok'' @ [CHR 0x0A] @ ''network='' @ (if allow_network then ''allowed'' else ''disabled'') @ [CHR 0x0A])))"

text \<open>\<open>generated\<close> is the result of \<open>generate_private_jwk\<close> with the drawn key: the JSON and the thumbprint.\<close>

definition generate_dpop_key ::
    "jose_ext \<Rightarrow> cli_sys \<Rightarrow> (DpopError, string \<times> string) result \<Rightarrow> string \<Rightarrow> file_system \<Rightarrow> string fs_result" where
  "generate_dpop_key E sys generated out fs =
     (case generated of
        Inl e \<Rightarrow> (Err (runtime (Lit ''failed to generate DPoP holder key: '' # dpop_error_text e)), fs)
      | Inr (private_jwk_json, public_jkt) \<Rightarrow>
          fs_then (write_new_secret_text sys out private_jwk_json 384 fs) (\<lambda>_ fs.
          (Ok (''dpop_key_status=generated'' @ [CHR 0x0A] @ ''private_key_file='' @ sanitize_path out @ [CHR 0x0A] @
               ''private_key_mode=0600'' @ [CHR 0x0A] @ ''alg=ES256'' @ [CHR 0x0A] @ ''crv=P-256'' @ [CHR 0x0A] @
               ''jkt_sha256_prefix='' @ sha256_hex_prefix E public_jkt @ [CHR 0x0A]), fs)))"

section \<open>The form at the server\<close>

lemma push_form_params_ok:
  "push_form_params form ps = Ok form' \<longleftrightarrow> form' = form @ ps \<and> list_all (\<lambda>p. trim (snd p) \<noteq> []) ps"
  by (induction ps arbitrary: form) (auto simp: push_form_param_def result_iff)

lemma trim_nonempty: "trim v \<noteq> [] \<Longrightarrow> v \<noteq> []"
  by (auto simp: trim_empty_iff)

lemma opt_param_keys [simp]:
  "map fst (opt_param k v) = (if v = None then [] else [k])" "map_of (opt_param k v) k' = (if k' = k then v else None)"
  by (auto simp: opt_param_def split: option.splits if_splits)

lemma map_of_const [simp]:
  "map_of (map (\<lambda>a. (k, a)) vs) k' = (if k' = k then (case vs of [] \<Rightarrow> None | v # _ \<Rightarrow> Some v) else None)"
  by (induction vs) auto

definition first_param :: "string list \<Rightarrow> string option" where
  "first_param vs = (case vs of [] \<Rightarrow> None | v # _ \<Rightarrow> Some v)"

lemma exchange_params_lookup:
  fixes args :: ExchangeArgs and s :: string and a c :: "string option"
  defines "ps \<equiv> exchange_params args s a c"
  shows "map_of ps ''grant_type'' = Some TOKEN_EXCHANGE_GRANT_TYPE" "map_of ps ''subject_token'' = Some s"
    "map_of ps ''subject_token_type'' = Some (ea_subject_token_type args)" "map_of ps ''actor_token'' = a"
    "map_of ps ''actor_token_type'' = map_option (\<lambda>_. ea_actor_token_type args) a" "map_of ps ''client_assertion'' = c"
    "map_of ps ''client_assertion_type'' = map_option (\<lambda>_. ea_client_assertion_type args) c"
    "map_of ps ''client_id'' = ea_client_id args" "map_of ps ''audience'' = first_param (ea_audience args)"
    "map_of ps ''resource'' = first_param (ea_resource args)" "map_of ps ''scope'' = ea_scope args"
    "map_of ps ''requested_token_type'' = ea_requested_token_type args"
  by (simp_all add: ps_def exchange_params_def map_add_def first_param_def split: option.splits list.splits)

lemma exchange_params_distinct:
  "distinct (map fst (exchange_params args s a c)) \<longleftrightarrow> length (ea_audience args) \<le> 1 \<and> length (ea_resource args) \<le> 1"
proof -
  have d: "distinct (map (\<lambda>x. k) vs) \<longleftrightarrow> length vs \<le> 1" for k :: string and vs :: "string list"
    by (cases vs; cases "tl vs") auto
  show ?thesis unfolding exchange_params_def
    by (simp add: d comp_def del: set_map) (auto simp: image_iff)
qed

lemma exchange_params_recognised: "filter is_recognized_token_form_key (map fst (exchange_params args s a c)) = map fst (exchange_params args s a c)"
proof -
  have "is_recognized_token_form_key k" if "k \<in> set (map fst (exchange_params args s a c))" for k
    using that unfolding exchange_params_def is_recognized_token_form_key_def token_form_keys_def
    by (auto split: if_splits)
  then show ?thesis by (simp add: filter_id_conv)
qed

text \<open>Each field of the parsed form is the parameter of its name.\<close>

lemma form_fields:
  assumes "token_form_loop {} token_form_default ps = Ok form" "list_all (\<lambda>p. trim (snd p) \<noteq> []) ps"
  shows "tf_grant_type form = map_of ps ''grant_type''" "tf_subject_token form = map_of ps ''subject_token''"
    "tf_subject_token_type form = map_of ps ''subject_token_type''" "tf_actor_token form = map_of ps ''actor_token''"
    "tf_actor_token_type form = map_of ps ''actor_token_type''" "tf_audience form = map_of ps ''audience''"
    "tf_resource form = map_of ps ''resource''" "tf_scope form = map_of ps ''scope''"
    "tf_requested_token_type form = map_of ps ''requested_token_type''" "tf_client_id form = map_of ps ''client_id''"
    "tf_client_assertion form = map_of ps ''client_assertion''"
    "tf_client_assertion_type form = map_of ps ''client_assertion_type''"
proof -
  have ne: "(case map_of ps k of None \<Rightarrow> None | Some v \<Rightarrow> non_empty_form_value v) = map_of ps k" for k
    using assms(2) trim_nonempty
    by (fastforce simp: list_all_iff non_empty_form_value_def split: option.splits dest: map_of_SomeD)
  have "get form = map_of ps k"
    if "\<And>form v. get (assign_token_form_value form k v) = non_empty_form_value v"
      "\<And>form k' v. k' \<noteq> k \<Longrightarrow> get (assign_token_form_value form k' v) = get form"
      "is_recognized_token_form_key k" "get token_form_default = None" for get :: "TokenForm \<Rightarrow> string option" and k
    using token_form_loop_field [of get k, OF that(1,2,3) assms(1)] that(4) ne [of k]
    by (cases "map_of ps k") simp_all
  note field = this
  note defs = assign_token_form_value_def non_empty_form_value_def is_recognized_token_form_key_def token_form_keys_def
    token_form_default_def
  show "tf_grant_type form = map_of ps ''grant_type''" by (rule field) (simp_all add: defs)
  show "tf_subject_token form = map_of ps ''subject_token''" by (rule field) (simp_all add: defs)
  show "tf_subject_token_type form = map_of ps ''subject_token_type''" by (rule field) (simp_all add: defs)
  show "tf_actor_token form = map_of ps ''actor_token''" by (rule field) (simp_all add: defs)
  show "tf_actor_token_type form = map_of ps ''actor_token_type''" by (rule field) (simp_all add: defs)
  show "tf_audience form = map_of ps ''audience''" by (rule field) (simp_all add: defs)
  show "tf_resource form = map_of ps ''resource''" by (rule field) (simp_all add: defs)
  show "tf_scope form = map_of ps ''scope''" by (rule field) (simp_all add: defs)
  show "tf_requested_token_type form = map_of ps ''requested_token_type''" by (rule field) (simp_all add: defs)
  show "tf_client_id form = map_of ps ''client_id''" by (rule field) (simp_all add: defs)
  show "tf_client_assertion form = map_of ps ''client_assertion''" by (rule field) (simp_all add: defs)
  show "tf_client_assertion_type form = map_of ps ''client_assertion_type''" by (rule field) (simp_all add: defs)
qed

text \<open>The headers the client sends, as the server sees them.\<close>

definition cli_headers :: "string option \<Rightarrow> HeaderMap" where
  "cli_headers dpop = \<lparr>hm_content_type = Some (Some ''application/x-www-form-urlencoded; charset=utf-8''),
     hm_authorization = None, hm_dpop = (case dpop of None \<Rightarrow> [] | Some prf \<Rightarrow> [Some prf])\<rparr>"

lemma cli_headers_accepted: "parse_token_form (cli_headers d) ps = token_form_loop {} token_form_default ps"
proof -
  have t: "trim ''application/x-www-form-urlencoded'' = ''application/x-www-form-urlencoded''"
    by (rule trim_no_ws, rule no_ws_graphic) (simp add: is_ascii_graphic_def)
  have l: "to_ascii_lowercase ''application/x-www-form-urlencoded'' = ''application/x-www-form-urlencoded''" by code_simp
  have "split_on CHR '';'' (''application/x-www-form-urlencoded'' @ CHR '';'' # '' charset=utf-8'') =
      ''application/x-www-form-urlencoded'' # split_on CHR '';'' '' charset=utf-8''"
    by (rule split_on_append) simp
  then have "hd (split_on CHR '';'' ''application/x-www-form-urlencoded; charset=utf-8'') = ''application/x-www-form-urlencoded''"
    by (simp only: list.sel append.simps)
  with t l have "require_form_urlencoded (cli_headers d) = Ok ()"
    by (simp only: require_form_urlencoded_def cli_headers_def HeaderMap.simps option.case Let_def if_False simp_thms)
  then show ?thesis
    by (simp add: parse_token_form_def reject_authorization_header_client_auth_def) (simp add: cli_headers_def)
qed

section \<open>Properties\<close>

text \<open>
  C32: client and server agree on the form. The parameters the command collects, sent with its
  headers, are parsed by the token endpoint into exactly the request the arguments describe, when at
  most one audience and one resource are given; with more of either, which the command accepts, the
  endpoint refuses the form.
\<close>

theorem exchange_form_accepted:
  assumes "push_form_params [] (exchange_params args s a c) = Ok pairs"
  shows "if length (ea_audience args) \<le> 1 \<and> length (ea_resource args) \<le> 1
    then \<exists>form. parse_token_form (cli_headers d) pairs = Ok form \<and> into_exchange_request form =
      \<lparr>er_grant_type = TOKEN_EXCHANGE_GRANT_TYPE, er_subject_token = s, er_subject_token_type = ea_subject_token_type args,
       er_actor_token = a, er_actor_token_type = map_option (\<lambda>_. ea_actor_token_type args) a,
       er_audience = first_param (ea_audience args), er_resource = first_param (ea_resource args), er_scope = ea_scope args,
       er_requested_token_type = ea_requested_token_type args, er_client_id = ea_client_id args, er_client_assertion = c,
       er_client_assertion_type = map_option (\<lambda>_. ea_client_assertion_type args) c\<rparr>
    else \<exists>e. parse_token_form (cli_headers d) pairs = Err e"
proof -
  let ?ps = "exchange_params args s a c"
  have p: "pairs = ?ps" "list_all (\<lambda>p. trim (snd p) \<noteq> []) ?ps" using assms by (simp_all add: push_form_params_ok)
  have ok: "(\<exists>form. token_form_loop {} token_form_default ?ps = Ok form) \<longleftrightarrow>
      length (ea_audience args) \<le> 1 \<and> length (ea_resource args) \<le> 1"
    by (simp add: token_form_loop_ok exchange_params_recognised exchange_params_distinct)
  show ?thesis
  proof (cases "token_form_loop {} token_form_default ?ps")
    case (Inl e)
    with ok show ?thesis by (auto simp: p(1) cli_headers_accepted)
  next
    case (Inr form)
    note f = form_fields [OF Inr p(2)]
    from ok Inr show ?thesis
      by (auto simp: p(1) cli_headers_accepted into_exchange_request_def f exchange_params_lookup unwrap_or_def)
  qed
qed

text \<open>
  The printed result does not reveal the token. Unless the user asks for the token, the output
  of a successful exchange is the same for any two tokens with the same digest prefix on which
  decoding and verification yield the same facts.
\<close>

theorem exchange_output_redacted:
  assumes "\<not> ea_print_token args" "value_get_str body1 ''access_token'' = Some t1" "value_get_str body2 ''access_token'' = Some t2"
    and "\<forall>name. name \<noteq> ''access_token'' \<longrightarrow> value_get body1 name = value_get body2 name"
    and "sha256_hex_prefix (cx_jose (ex_cli X)) t1 = sha256_hex_prefix (cx_jose (ex_cli X)) t2"
    and "examine_token X sys fs args t1 = examine_token X sys fs args t2"
  shows "render_exchange_success X sys fs args status body1 jkt = render_exchange_success X sys fs args status body2 jkt"
proof -
  have v: "value_get_str body1 n = value_get_str body2 n" "value_get body1 n = value_get body2 n" if "n \<noteq> ''access_token''" for n
    using assms(4) that by (simp_all add: value_get_str_def)
  have "response_summary E status body1 t1 facts = response_summary E status body2 t2 facts"
    if "E = cx_jose (ex_cli X)" for E facts
    using that assms(5) by (simp add: response_summary_def sanitized_or_absent_def v)
  moreover have "render_safe W args t1 safe = render_safe W args t2 safe" for W safe
    using assms(1) by (simp add: render_safe_def)
  ultimately show ?thesis using assms(2,3,6) by (simp add: render_exchange_success_def Let_def)
qed

end
