(* ===== verification/Demo_Exchange.thy ===== *)
theory Demo_Exchange
  imports Cli_Exchange Demo_Cli
begin

text \<open>
  Witnesses of the client properties: a request with one target, and two responses that differ only in
  the token.
\<close>

definition xc_args :: ExchangeArgs where
  "xc_args = \<lparr>ea_sts_url = Some ''https://sts'', ea_token_endpoint = None, ea_subject_token_file = ''subject'',
     ea_subject_token_type = ACCESS_TOKEN_TYPE, ea_actor_token_file = None, ea_actor_token_type = ACCESS_TOKEN_TYPE,
     ea_client_assertion_file = None, ea_client_assertion_type = CLIENT_ASSERTION_TYPE, ea_client_id = None,
     ea_audience = [''api''], ea_resource = [], ea_scope = Some ''read'', ea_requested_token_type = None,
     ea_dpop_proof_file = None, ea_dpop_key_file = None, ea_jwks_file = None, ea_jwks_url = None,
     ea_output = Redacted, ea_print_token = False\<rparr>"

definition xc_ext :: exchange_ext where
  "xc_ext = \<lparr>ex_cli = rot_ext, ex_dpop = demo_dpop, ex_url = demo_url, ex_url_text = (\<lambda>u. ''https://sts/token''),
     ex_writer = \<lparr>jw_compact = (\<lambda>v. None), jw_pretty = (\<lambda>v. None), jw_float = (\<lambda>r. ''0.5'')\<rparr>,
     ex_codec = \<lparr>rs256_decode = (\<lambda>t n e v. Err JwtOther), rs256_encode = (\<lambda>h c k. Err JwtOther),
       claims_from_slice = (\<lambda>s. None), claims_to_vec = (\<lambda>c. None)\<rparr>,
     ex_form_encode = (\<lambda>form. Some ''t''), ex_get = (\<lambda>u. None), ex_post = (\<lambda>u b p. None), ex_clock = Some 1000, ex_jti = ''j''\<rparr>"

definition xc_body :: "string \<Rightarrow> json" where
  "xc_body tok = JObject [(''access_token'', JString tok), (''token_type'', JString ''Bearer'')]"

lemma xc_pairs:
  "push_form_params [] (exchange_params xc_args ''s.p.s'' None None) = Ok (exchange_params xc_args ''s.p.s'' None None)"
proof -
  have "trim TOKEN_EXCHANGE_GRANT_TYPE \<noteq> []" "trim ACCESS_TOKEN_TYPE \<noteq> []"
    by (simp_all add: TOKEN_EXCHANGE_GRANT_TYPE_def ACCESS_TOKEN_TYPE_def trim_empty_iff trim_start_id ws1_def ws2_def ws3_def)
  then show ?thesis
    by (simp add: push_form_param_def exchange_params_def xc_args_def opt_param_def trim_no_ws ws1_def ws2_def ws3_def)
qed

theorem exchange_form_accepted_witness:
  "\<exists>form. parse_token_form (cli_headers None) (exchange_params xc_args ''s.p.s'' None None) = Ok form \<and>
     er_audience (into_exchange_request form) = Some ''api'' \<and> er_subject_token (into_exchange_request form) = ''s.p.s''"
proof -
  have "length (ea_audience xc_args) \<le> 1 \<and> length (ea_resource xc_args) \<le> 1" by (simp add: xc_args_def)
  with exchange_form_accepted [OF xc_pairs, of None] obtain form where
    "parse_token_form (cli_headers None) (exchange_params xc_args ''s.p.s'' None None) = Ok form"
    "er_audience (into_exchange_request form) = first_param (ea_audience xc_args)"
    "er_subject_token (into_exchange_request form) = ''s.p.s''"
    by auto
  then show ?thesis by (auto simp: first_param_def xc_args_def)
qed

lemma xc_examined: "examine_token xc_ext rot_sys rot_fs xc_args (''tok-0000'' @ [CHR ''-'', c]) =
    Ok \<lparr>fk_decoded = None, fk_verified = None, fk_source = ''none''\<rparr>" if "c \<noteq> CHR ''.''"
  using that by (simp add: examine_token_def decode_compact_jwt_def load_exchange_jwks_def load_jwks_def xc_args_def)

theorem exchange_output_redacted_witness:
  "render_exchange_success xc_ext rot_sys rot_fs xc_args 200 (xc_body ''tok-0000-1'') None =
   render_exchange_success xc_ext rot_sys rot_fs xc_args 200 (xc_body ''tok-0000-2'') None"
proof (rule exchange_output_redacted)
  show "examine_token xc_ext rot_sys rot_fs xc_args ''tok-0000-1'' = examine_token xc_ext rot_sys rot_fs xc_args ''tok-0000-2''"
    using xc_examined [of "CHR ''1''"] xc_examined [of "CHR ''2''"] by simp
  show "sha256_hex_prefix (cx_jose (ex_cli xc_ext)) ''tok-0000-1'' = sha256_hex_prefix (cx_jose (ex_cli xc_ext)) ''tok-0000-2''"
    by (simp add: sha256_hex_prefix_def xc_ext_def rot_ext_def rot_jose_def demo_ext_def)
qed (simp_all add: xc_args_def xc_body_def value_get_def value_get_str_def obj_get_def)

end
