(* ===== verification/Key_Lifecycle.thy ===== *)
theory Key_Lifecycle
  imports Claims_Json
begin

text \<open>
  One ML-DSA key from its generation to the verification of a token: \<open>MlDsaJoseSigner::generate_private_jwk\<close>
  prints a private JWK, \<open>from_private_jwk_for_backend\<close> loads the file, the signer writes a token and publishes
  a key set, and whoever reads the published text verifies the token. JSON is only assumed to read back
  the texts that it wrote.
\<close>

definition generated_kid :: "jose_ext \<Rightarrow> MlDsaAlgorithm \<Rightarrow> string option \<Rightarrow> string \<Rightarrow> string" where
  "generated_kid E a kid raw =
     (case kid of
        Some v \<Rightarrow> if trim v \<noteq> [] then v else akp_jwk_thumbprint E (jose_alg a) (b64_encode E raw)
      | None \<Rightarrow> akp_jwk_thumbprint E (jose_alg a) (b64_encode E raw))"

definition generated_akp_doc :: "jose_ext \<Rightarrow> MlDsaAlgorithm \<Rightarrow> string \<Rightarrow> string \<Rightarrow> string \<Rightarrow> json" where
  "generated_akp_doc E a kid raw seed =
     JObject [(''kty'', JString ''AKP''), (''kid'', JString kid), (''use'', JString ''sig''), (''alg'', JString (jose_alg a)),
       (''pub'', JString (b64_encode E raw)), (''priv'', JString (b64_encode E seed))]"

lemma backend_of_alg [simp]:
  "resolve_backend (backend_parse (jose_alg a)) = Ok ()" "selected_pqc_algorithm (backend_parse (jose_alg a)) = Ok a"
proof -
  have "backend_parse ''ML-DSA-44'' = RequestedPqc ''ML-DSA-44''" "from_selector ''ML-DSA-44'' = Some MlDsa44"
    "backend_parse ''ML-DSA-65'' = RequestedPqc ''ML-DSA-65''" "from_selector ''ML-DSA-65'' = Some MlDsa65"
    "backend_parse ''ML-DSA-87'' = RequestedPqc ''ML-DSA-87''" "from_selector ''ML-DSA-87'' = Some MlDsa87"
    by code_simp+
  then show "resolve_backend (backend_parse (jose_alg a)) = Ok ()" "selected_pqc_algorithm (backend_parse (jose_alg a)) = Ok a"
    by (cases a; simp add: resolve_backend_def selected_pqc_algorithm_def)+
qed

text \<open>What OpenSSL promises for one seed: it makes a key whose public part has the length of the algorithm.\<close>

definition seed_law :: "jose_ext \<Rightarrow> MlDsaAlgorithm \<Rightarrow> string \<Rightarrow> string \<Rightarrow> bool" where
  "seed_law E a seed pk \<longleftrightarrow> length seed = 32 \<and> ossl_key_from_seed E a seed \<and> ossl_raw_public E a seed = Some pk \<and>
     length pk = public_key_len a \<and> mldsa_law E a pk (openssl_sign_mldsa E a seed)"

lemma loads_akp:
  assumes "b64_law E" "seed_law E a seed pk"
    and "akp_jwk_from_str E text = Some \<lparr>pakp_kty = ''AKP'', pakp_kid = Some kid, pakp_alg = jose_alg a,
      pakp_pub = b64_encode E pk, pakp_priv = b64_encode E seed\<rparr>"
  shows "mldsa_from_private_jwk_for_backend E (backend_parse (jose_alg a)) text fallback =
     Ok \<lparr>ml_kid = kid, ml_algorithm = a, ml_key_pair = seed, ml_public_jwk = akp_public_jwk kid a (b64_encode E pk)\<rparr>"
proof -
  from assms show ?thesis
    by (simp add: mldsa_from_private_jwk_for_backend_def decode_jwk_octets_def b64_law_def seed_law_def
        openssl_private_key_from_seed_def openssl_raw_public_key_def Let_def)
qed

lemma derived_seed_law [simp]: "seed_law (derived_jose J E) a seed pk = seed_law E a seed pk"
  by (simp add: seed_law_def)

lemma generates_akp:
  assumes "b64_law E" "seed_law E a seed pk" "kid' = generated_kid E a kid pk"
    and "json_pretty_law J (generated_akp_doc E a kid' pk seed)" "jt_pretty J (generated_akp_doc E a kid' pk seed) = Some text"
  shows "akp_jwk_from_str (derived_jose J E) (text @ [CHR 0x0A]) = Some \<lparr>pakp_kty = ''AKP'', pakp_kid = Some kid',
      pakp_alg = jose_alg a, pakp_pub = b64_encode E pk, pakp_priv = b64_encode E seed\<rparr>"
    "mldsa_generate_private_jwk (derived_jose J E) a kid (Some seed) = Ok (text @ [CHR 0x0A], akp_public_jwk kid' a (b64_encode E pk))"
proof -
  show read: "akp_jwk_from_str (derived_jose J E) (text @ [CHR 0x0A]) = Some \<lparr>pakp_kty = ''AKP'', pakp_kid = Some kid',
      pakp_alg = jose_alg a, pakp_pub = b64_encode E pk, pakp_priv = b64_encode E seed\<rparr>"
    using printed_akp_jwk [OF assms(4,5) generated_akp_doc_def] by simp
  have "mldsa_from_private_jwk_for_backend (derived_jose J E) (backend_parse (jose_alg a)) (text @ [CHR 0x0A]) '''' =
      Ok \<lparr>ml_kid = kid', ml_algorithm = a, ml_key_pair = seed, ml_public_jwk = akp_public_jwk kid' a (b64_encode E pk)\<rparr>"
    using loads_akp [of "derived_jose J E" a seed pk "text @ [CHR 0x0A]" kid' "''''"] assms(1,2) read by simp
  then show "mldsa_generate_private_jwk (derived_jose J E) a kid (Some seed) =
      Ok (text @ [CHR 0x0A], akp_public_jwk kid' a (b64_encode E pk))"
    using assms(2,5) unfolding mldsa_generate_private_jwk_def generated_akp_doc_def seed_law_def
    by (cases kid) (simp_all add: openssl_private_key_from_seed_def openssl_raw_public_key_def Let_def assms(3)
        generated_kid_def split: if_splits)
qed

text \<open>The key set that a verifier reads is the one the signer published, and it accepts the signer's tokens.\<close>

lemma mldsa_libs_sound:
  assumes "b64_law E" "seed_law E (ml_algorithm s) (ml_key_pair s) pk" "minted_in_range c"
    and "json_text_law J (protected_header_to_json (signer_header (MlDsaSigner s)))" "json_text_law J (minted_claims_to_json c)"
  shows "libs_sound (derived_jose J E) (derived_codec J minted_claims_from_json minted_claims_to_json C) (MlDsaSigner s) c"
  using assms(1,2) derived_header_law [OF assms(4)] minted_codec.derived_claims_law [OF assms(3,5)]
  by (simp add: seed_law_def)

lemma published_verifies:
  assumes "b64_law E" "mldsa_from_private_jwk_for_backend (derived_jose J E) selection text fallback = Ok s"
    and "seed_law E (ml_algorithm s) (ml_key_pair s) pk" "minted_in_range c"
    and "json_text_law J (protected_header_to_json (signer_header (MlDsaSigner s)))" "json_text_law J (minted_claims_to_json c)"
    and "sign_claims (derived_jose J E) (derived_codec J minted_claims_from_json minted_claims_to_json C) (MlDsaSigner s) c = Ok tok"
  shows "verify_claims_against_jwks (derived_jose J E) (derived_codec J minted_claims_from_json minted_claims_to_json C)
    tok (public_jwks (MlDsaSigner s)) = Ok c"
proof -
  let ?E = "derived_jose J E" and ?C = "derived_codec J minted_claims_from_json minted_claims_to_json C"
  have "signer_consistent ?E (MlDsaSigner s)" by (rule mldsa_constructor_consistent [OF _ assms(2)]) (simp add: assms(1))
  then have "verify_claims ?E ?C (MlDsaSigner s) tok = Ok c"
    using mldsa_libs_sound [OF assms(1,3-6)] assms(7) by (rule sign_verify)
  then show ?thesis by (auto simp: verify_claims_def result_iff split: if_splits)
qed

section \<open>Properties\<close>

text \<open>
  C14: the life of a post-quantum signing key. Generating a key prints a private JWK file and returns the public
  JWK; a server that loads the file, with whatever fallback identifier, publishes exactly that public JWK, under
  the identifier the operator chose or the thumbprint; and every token it signs for claims with times in range
  is verified, with exactly these claims, by whoever reads the published key set text. This holds for all three
  parameter sets, from the laws of base64url and OpenSSL and from JSON reading back the four texts written here.
\<close>

theorem mldsa_key_lifecycle:
  fixes X :: jose_ext
  assumes "b64_law X" "seed_law X a seed pk"
    and "new_kid = generated_kid X a kid pk" "jwk = akp_public_jwk new_kid a (b64_encode X pk)"
    and "json_pretty_law J (generated_akp_doc X a new_kid pk seed)"
    and "jt_pretty J (generated_akp_doc X a new_kid pk seed) = Some key_file"
    and "json_text_law J (protected_header_to_json \<lparr>hdr_alg = jose_alg a, hdr_kid = Some new_kid, hdr_typ = Some ''at+jwt''\<rparr>)"
    and "json_text_law J (jwks_document_to_json \<lparr>jwks_keys = [jwk]\<rparr>)"
    and "json_text_law J (minted_claims_to_json c)" "minted_in_range c"
    and "E = derived_jose J X" "C = derived_codec J minted_claims_from_json minted_claims_to_json C'"
  shows "mldsa_generate_private_jwk E a kid (Some seed) = Ok (key_file @ [CHR 0x0A], jwk) \<and>
    (\<exists>s. mldsa_from_private_jwk_for_backend E (backend_parse (jose_alg a)) (key_file @ [CHR 0x0A]) fallback = Ok s \<and>
      public_jwks (MlDsaSigner s) = \<lparr>jwks_keys = [jwk]\<rparr> \<and>
      (\<forall>tok published. sign_claims E C (MlDsaSigner s) c = Ok tok \<and>
         jt_write J (jwks_document_to_json (public_jwks (MlDsaSigner s))) = Some published \<longrightarrow>
         (\<exists>keys. read_as J jwks_document_from_json published = Some keys \<and>
            verify_claims_against_jwks E C tok keys = Ok c)))"
proof -
  note gen = generates_akp [OF assms(1-3,5,6)]
  let ?s = "\<lparr>ml_kid = new_kid, ml_algorithm = a, ml_key_pair = seed, ml_public_jwk = jwk\<rparr>"
  have load: "mldsa_from_private_jwk_for_backend E (backend_parse (jose_alg a)) (key_file @ [CHR 0x0A]) fallback = Ok ?s"
    using loads_akp [of E a seed pk "key_file @ [CHR 0x0A]" new_kid fallback] gen(1) assms(1,2,4,11) by simp
  have pub: "public_jwks (MlDsaSigner ?s) = \<lparr>jwks_keys = [jwk]\<rparr>" by (simp add: public_jwks_def)
  have "read_as J jwks_document_from_json published = Some (public_jwks (MlDsaSigner ?s)) \<and>
      verify_claims_against_jwks E C tok (public_jwks (MlDsaSigner ?s)) = Ok c"
    if "sign_claims E C (MlDsaSigner ?s) c = Ok tok" "jt_write J (jwks_document_to_json (public_jwks (MlDsaSigner ?s))) = Some published"
    for tok published
    using jwks_codec.text_read_written [OF TrueI, of J "public_jwks (MlDsaSigner ?s)" published] that assms(2,7,8,11,12)
      published_verifies [OF assms(1) load [unfolded assms(11)] _ assms(10) _ assms(9), where C = C' and tok = tok]
    unfolding pub by (simp add: signer_header_def)
  with load gen(2) pub assms(4,11) show ?thesis by blast
qed

end
