(* ===== verification/Token_Chain.thy ===== *)
theory Token_Chain
  imports Claims_Json Sts_Service
begin

text \<open>
  A minted token as the subject token of the next exchange: the payload that one server writes
  (\<open>MintedClaims\<close> of \<open>sts-core\<close>) is what another reads (\<open>SubjectTokenClaims\<close> of \<open>sts-verify\<close>), and the chain of actors is
  carried over (\<open>act_claim_from_value\<close> of \<open>sts-http\<close>).
\<close>

section \<open>The chain of actors\<close>

lemma names_ordered: "''act'' < ''iss''" "''act'' < ''sub''" "''iss'' < (''sub'' :: string)"
  by code_simp+

lemma to_value_act: "to_value (act_claim_to_json a) = act_to_json a"
proof (induction a)
  case (ActClaim sub iss act)
  then show ?case using names_ordered
    by (cases iss; cases act) (simp_all add: order.strict_implies_not_eq order.asym)
qed

lemma minted_as_subject:
  assumes "minted_in_range c"
  shows "subject_claims_from_json (minted_claims_to_json c) = Some
    \<lparr>st_iss = mc_iss c, st_sub = Some (mc_sub c), st_aud = JString (mc_aud c), st_scope = Some (mc_scope c), st_scp = None,
     st_exp = mc_exp c, st_nbf = None, st_iat = Some (mc_iat c), st_act = map_option act_to_json (mc_act c),
     st_may_act = None, st_auth_time = mc_auth_time c, st_acr = mc_acr c,
     st_amr = (if mc_amr c = [] then None else Some (mc_amr c))\<rparr>"
proof (rule minted_members [of c], goal_cases)
  case (1 m)
  have slots: "struct_slots SubjectTokenClaims_fields (JObject m) = Some (map_of m)"
    by (rule struct_slots_distinct) (simp_all add: SubjectTokenClaims_fields_def 1)
  from assms have range: "in_i64 (mc_iat c)" "in_i64 (mc_exp c)" "pred_option in_i64 (mc_auth_time c)"
    by (simp_all add: minted_in_range_def)
  have act: "option_field as_value (map_of m) ''act'' = Some (map_option act_to_json (mc_act c))"
    by (cases "mc_act c") (simp_all add: option_field_def 1 option_of_def as_value_def to_value_act)
  have auth_time: "option_field as_i64 (map_of m) ''auth_time'' = Some (mc_auth_time c)"
    by (rule option_field_written, rule 1) (use range in simp)
  have acr: "option_field as_str (map_of m) ''acr'' = Some (mc_acr c)"
    by (rule option_field_written, rule 1) simp
  have amr: "option_field (as_vec as_str) (map_of m) ''amr'' = Some (if mc_amr c = [] then None else Some (mc_amr c))"
    by (simp add: option_field_def 1 option_of_def)
  show ?case
    by (simp add: 1(1) subject_claims_from_json_def slots act auth_time acr amr field_simps 1 range as_value_def)
qed

lemma chain_read_bound:
  "is_ok (act_claim_from_value_at_depth (act_to_json a) d) \<Longrightarrow> d + act_depth a \<le> 11 \<and> [] \<notin> set (act_subs a)"
proof (induction a arbitrary: d)
  case (ActClaim sub iss act)
  obtain m where m: "act_to_json (ActClaim sub iss act) = JObject m" by simp
  note mem = act_to_json_members [OF m]
  from ActClaim.prems m mem have read: "\<not> 10 < d" "sub \<noteq> []"
    "is_ok (case map_option act_to_json act of None \<Rightarrow> Ok None
       | Some nested \<Rightarrow> map_ok Some (act_claim_from_value_at_depth nested (d + 1)))"
    by (auto simp: is_ok_iff act_claim_from_value_at_depth.simps [of "JObject m"] result_iff split: if_splits)
  show ?case
  proof (cases act)
    case (Some b)
    with read(3) have "is_ok (act_claim_from_value_at_depth (act_to_json b) (d + 1))" by (auto simp: is_ok_iff result_iff)
    from ActClaim.IH [OF _ this] Some read show ?thesis by simp
  qed (use read in simp)
qed

lemma chain_read_iff:
  "act_claim_from_value (act_to_json a) = Ok b \<longleftrightarrow> b = a \<and> act_depth a \<le> 10 \<and> [] \<notin> set (act_subs a)"
  unfolding act_claim_from_value_def using chain_read_bound [of a 1] act_roundtrip_at [of a 1]
  by (auto simp: is_ok_iff)

section \<open>Properties\<close>

text \<open>
  C15: a minted token is a subject token for the next hop. Another server that reads the payload of a minted
  token finds the same issuer, subject, audience, scope, times and authentication context, no \<open>may_act\<close> and no
  \<open>nbf\<close>; and it accepts the chain of actors exactly when it has at most ten actors, each with a name, and then
  reads the same chain, which its own token will carry below the new actor.
\<close>

theorem minted_token_chains:
  assumes "minted_in_range c"
  shows "\<exists>s. subject_claims_from_json (minted_claims_to_json c) = Some s \<and>
     st_iss s = mc_iss c \<and> st_sub s = Some (mc_sub c) \<and> st_aud s = JString (mc_aud c) \<and> st_scope s = Some (mc_scope c) \<and>
     st_scp s = None \<and> st_exp s = mc_exp c \<and> st_nbf s = None \<and> st_iat s = Some (mc_iat c) \<and> st_may_act s = None \<and>
     st_auth_time s = mc_auth_time c \<and> st_acr s = mc_acr c \<and> unwrap_or (st_amr s) [] = mc_amr c \<and>
     (is_ok (map_transpose act_claim_from_value (st_act s)) \<longleftrightarrow>
        pred_option (\<lambda>a. act_depth a \<le> 10 \<and> [] \<notin> set (act_subs a)) (mc_act c)) \<and>
     (\<forall>chain. map_transpose act_claim_from_value (st_act s) = Ok chain \<longrightarrow> chain = mc_act c)"
proof (intro exI conjI)
  show "subject_claims_from_json (minted_claims_to_json c) = Some
    \<lparr>st_iss = mc_iss c, st_sub = Some (mc_sub c), st_aud = JString (mc_aud c), st_scope = Some (mc_scope c), st_scp = None,
     st_exp = mc_exp c, st_nbf = None, st_iat = Some (mc_iat c), st_act = map_option act_to_json (mc_act c),
     st_may_act = None, st_auth_time = mc_auth_time c, st_acr = mc_acr c,
     st_amr = (if mc_amr c = [] then None else Some (mc_amr c))\<rparr>" by (rule minted_as_subject [OF assms])
qed (auto simp: unwrap_or_def map_transpose_def is_ok_iff result_iff chain_read_iff split: option.splits)

end
