(* ===== verification/Client_Server.thy ===== *)
theory Client_Server
  imports Key_Lifecycle Token_Chain Http_Meta Cli_Exchange
begin

text \<open>
  The operator's exchange command against a server that signs with ML-DSA, over the texts that travel
  between them: the token response, the protected header and the payload. The client decodes the token,
  verifies it against the published keys, checks the binding to its DPoP key, and prints a summary; the
  lemmas follow the documents from the server's serialiser to the client's reader.
\<close>

section \<open>Looking into documents\<close>

lemma map_of_same_members: "mset m = mset (m' :: (string \<times> json) list) \<Longrightarrow> distinct (map fst m') \<Longrightarrow> map_of m = map_of m'"
proof
  fix k assume eq: "mset m = mset m'" and d: "distinct (map fst m')"
  from members_distinct [OF d, of k] have "length (members k m') \<le> 1" by (simp split: option.splits)
  with mset_short [of "members k m'" "members k m"] members_perm [OF eq, of k] have "members k m = members k m'" by simp
  then show "map_of m k = map_of m' k" by (simp add: map_of_members)
qed

lemma value_get_to_value:
  assumes "distinct (map fst m)"
  shows "value_get (to_value (JObject m)) k = map_option to_value (map_of m k)"
proof -
  obtain m' where m': "to_value (JObject m) = JObject m'" "mset m' = mset (map (\<lambda>(k, v). (k, to_value v)) m)"
    by (rule to_value_object [OF assms])
  have "distinct (map fst (map (\<lambda>(k, v). (k, to_value v)) m))" using assms by (simp add: case_prod_beta comp_def)
  with map_of_same_members [OF m'(2)] m'(1) show ?thesis
    by (simp add: value_get_def obj_get_def map_of_map del: to_value.simps)
qed

lemma to_value_leaf [simp]: "to_value (of_i64 i) = of_i64 i" "json_i64 i = of_i64 i"
  by (simp_all add: of_i64_def json_i64_def)

lemma obj_get_insert [simp]: "obj_get (obj_insert k v m) k' = (if k' = k then Some v else obj_get m k')"
proof -
  have "members k' = (\<lambda>m. map snd (filter (\<lambda>y. fst y = k') m))"
    by (auto simp: members_def fun_eq_iff intro!: arg_cong [where f = "map snd"] filter_cong)
  then have "members k' (sort_key fst (AList.update k v m)) = members k' (AList.update k v m)"
    using sort_key_stable [of fst k' "AList.update k v m"] by simp
  then have "map_of (sort_key fst (AList.update k v m)) k' = map_of (AList.update k v m) k'"
    by (simp add: map_of_members)
  then show ?thesis by (simp add: obj_insert_def obj_get_def update_conv')
qed

lemma obj_get_insert_some [simp]:
  "obj_get (insert_some k v m) k' = (if k' = k \<and> v \<noteq> None then v else obj_get m k')"
  by (auto simp: insert_some_def split: option.splits)

section \<open>The token response\<close>

lemma token_response_members:
  assumes "v = to_value (token_response_json r)"
  shows "value_get_str v ''access_token'' = Some (tr_access_token r)" "value_get_str v ''scope'' = Some (tr_scope r)"
    "value_get_str v ''token_type'' = Some (tr_token_type r)" "value_get v ''expires_in'' = Some (of_i64 (tr_expires_in r))"
    "value_get_str v ''issued_token_type'' = Some (tr_issued_token_type r)"
proof -
  obtain m where m: "token_response_json r = JObject m" by (simp add: token_response_json_def)
  then have "distinct (map fst m)" by (auto simp: token_response_json_def split: option.splits if_splits)
  note get = value_get_to_value [OF this]
  show "value_get_str v ''access_token'' = Some (tr_access_token r)" "value_get_str v ''scope'' = Some (tr_scope r)"
    "value_get_str v ''token_type'' = Some (tr_token_type r)" "value_get v ''expires_in'' = Some (of_i64 (tr_expires_in r))"
    "value_get_str v ''issued_token_type'' = Some (tr_issued_token_type r)"
    unfolding assms m value_get_str_def get using m by (auto simp: token_response_json_def of_i64_def)
qed

section \<open>The payload and the header\<close>

lemma minted_value_members:
  assumes "v = to_value (minted_claims_to_json c)"
  shows "value_get_str v ''iss'' = Some (mc_iss c)" "value_get_str v ''sub'' = Some (mc_sub c)"
    "value_get v ''aud'' = Some (JString (mc_aud c))" "value_get_str v ''scope'' = Some (mc_scope c)"
    "value_get v ''iat'' = Some (of_i64 (mc_iat c))" "value_get v ''exp'' = Some (of_i64 (mc_exp c))"
    "value_get_str v ''jti'' = Some (mc_jti c)" "value_get_str v ''client_id'' = Some (mc_client_id c)"
    "Option.bind (value_get v ''act'') (\<lambda>a. value_get_str a ''sub'') = map_option act_sub (mc_act c)"
    "Option.bind (value_get v ''cnf'') (\<lambda>a. value_get_str a ''jkt'') = mc_cnf_jkt c"
proof (atomize (full), rule minted_members [of c], goal_cases)
  case (1 m)
  note get = value_get_to_value [OF 1(2)]
  have act: "value_get_str (act_to_json a) ''sub'' = Some (act_sub a)" for a
    by (cases a) (auto simp: value_get_str_def value_get_def obj_get_def split: option.splits)
  have cnf: "value_get_str (to_value (serialize_cnf_jkt (Some j))) ''jkt'' = Some j" for j
    by (simp add: value_get_str_def value_get_def obj_get_def serialize_cnf_jkt_def of_option_def)
  show ?case unfolding assms 1(1) value_get_str_def get
    by (cases "mc_act c"; cases "mc_cnf_jkt c")
       (simp_all add: 1 to_value_act act [unfolded value_get_str_def] cnf [unfolded value_get_str_def])
qed

lemma parse_compact_split: "parse_compact_jws t = Ok (a, b, c) \<Longrightarrow> split_on CHR ''.'' t = [a, b, c]"
  by (auto simp: parse_compact_jws_def split: list.splits)

section \<open>The token at the client\<close>

text \<open>
  What the server and the client share: one signer, one JSON library, and claims in the documents of the
  derived writers; the client reads any document as a value.
\<close>

definition shared_token ::
    "json_text \<Rightarrow> jose_ext \<Rightarrow> MlDsaJoseSigner \<Rightarrow> MintedClaims \<Rightarrow> string \<Rightarrow> bool" where
  "shared_token J E s c tok \<longleftrightarrow> (\<exists>E' C pk. E = derived_jose J E' \<and> b64_law E \<and> signer_consistent E (MlDsaSigner s) \<and>
     seed_law E (ml_algorithm s) (ml_key_pair s) pk \<and>
     json_text_law J (protected_header_to_json (signer_header (MlDsaSigner s))) \<and> json_text_law J (minted_claims_to_json c) \<and>
     sign_claims E (derived_codec J minted_claims_from_json minted_claims_to_json C) (MlDsaSigner s) c = Ok tok)"

lemma verify_any_writer:
  "verify_claims_against_jwks_with_header E (D\<lparr>claims_to_vec := w\<rparr>) t keys = verify_claims_against_jwks_with_header E D t keys"
proof -
  have r: "rs256_decode (D\<lparr>claims_to_vec := w\<rparr>) = rs256_decode D"
    "decode_payload_claims E (D\<lparr>claims_to_vec := w\<rparr>) = decode_payload_claims E D"
    by (simp_all add: fun_eq_iff decode_payload_claims_def)
  have "verify_rs256_claims_against_jwk E (D\<lparr>claims_to_vec := w\<rparr>) = verify_rs256_claims_against_jwk E D"
    "verify_mldsa_claims_against_jwk E (D\<lparr>claims_to_vec := w\<rparr>) = verify_mldsa_claims_against_jwk E D"
    unfolding fun_eq_iff verify_rs256_claims_against_jwk_def verify_mldsa_claims_against_jwk_def r by simp_all
  then show ?thesis
    unfolding verify_claims_against_jwks_with_header_def verify_claims_against_jwks_inner_def by (simp only:)
qed

lemma token_as_value:
  assumes "shared_token J E s c tok" "publishes keys (MlDsaSigner s)" "claims_from_slice D = read_as J as_value"
  shows "\<exists>v. verify_claims_against_jwks_with_header E D tok keys = Ok v \<and> vj_claims v = to_value (minted_claims_to_json c)"
proof -
  let ?doc = "minted_claims_to_json c"
  from assms(1) obtain E' C pk where t: "E = derived_jose J E'" "b64_law E" "signer_consistent E (MlDsaSigner s)"
    "seed_law E (ml_algorithm s) (ml_key_pair s) pk" "json_text_law J (protected_header_to_json (signer_header (MlDsaSigner s)))"
    "json_text_law J ?doc" "sign_claims E (derived_codec J minted_claims_from_json minted_claims_to_json C) (MlDsaSigner s) c = Ok tok"
    by (auto simp: shared_token_def)
  define D' where "D' = D\<lparr>claims_to_vec := \<lambda>_. jt_write J ?doc\<rparr>"
  have "sign_claims E D' (MlDsaSigner s) (to_value ?doc) = Ok tok"
    using t(7) by (simp add: mldsa_sign_json_claims_with_typ_def sign_compact_def derived_codec_def D'_def)
  moreover have "claims_law D' (to_value ?doc)"
    using t(6) assms(3) by (simp add: claims_law_def D'_def json_text_law_def read_as_def as_value_def)
  then have "libs_sound E D' (MlDsaSigner s) (to_value ?doc)"
    using t(2,4) derived_header_law [OF t(5), of E'] t(1) by (simp add: seed_law_def)
  ultimately show ?thesis
    using published_set_accepts [OF assms(2) t(3)] verify_any_writer [where D = D] unfolding D'_def by metis
qed

lemma token_decodes:
  assumes "shared_token J (cx_jose (ex_cli X)) s c tok" "cx_json (ex_cli X) = read_as J as_value"
  shows "decode_compact_jwt X tok = Ok (Some (to_value (protected_header_to_json (signer_header (MlDsaSigner s))),
     to_value (minted_claims_to_json c)))"
proof -
  let ?E = "cx_jose (ex_cli X)" and ?h = "signer_header (MlDsaSigner s)" and ?doc = "minted_claims_to_json c"
  from assms(1) obtain E' C where t: "?E = derived_jose J E'" "b64_law ?E"
    "json_text_law J (protected_header_to_json ?h)" "json_text_law J ?doc"
    "sign_claims ?E (derived_codec J minted_claims_from_json minted_claims_to_json C) (MlDsaSigner s) c = Ok tok"
    by (auto simp: shared_token_def)
  from t(5) have "sign_compact ?E (derived_codec J minted_claims_from_json minted_claims_to_json C)
      (openssl_sign_mldsa ?E (ml_algorithm s) (ml_key_pair s)) ?h c = Ok tok"
    by (simp add: mldsa_sign_json_claims_with_typ_def signer_header_def)
  then obtain p payload sig where "header_to_vec ?E ?h = Some p"
    "claims_to_vec (derived_codec J minted_claims_from_json minted_claims_to_json C) c = Some payload"
    "parse_compact_jws tok = Ok (b64_encode ?E p, b64_encode ?E payload, b64_encode ?E sig)"
    by (rule decode_own_header [OF t(2) derived_header_law [OF t(3), of E', folded t(1)]])
  with t(1-4) assms(2) show ?thesis
    by (simp add: decode_compact_jwt_def parse_compact_split decode_compact_jwt_json_part_def b64_law_def derived_codec_def
        json_text_law_def read_as_def as_value_def)
qed

section \<open>What the client prints\<close>

lemma load_source: "load_exchange_jwks X sys fs args = Ok (Some (keys, source)) \<Longrightarrow> source \<noteq> ''none''"
  by (auto simp: load_exchange_jwks_def load_jwks_def result_iff split: option.splits)

lemma check_holder_minted:
  assumes "token_claims facts = Some (to_value (minted_claims_to_json c))"
  shows "is_ok (check_holder E facts jkt safe) \<longleftrightarrow> jkt = None \<or> jkt = mc_cnf_jkt c"
    "check_holder E facts jkt safe = Ok safe' \<Longrightarrow> k \<noteq> ''dpop_holder_jkt_sha256_prefix'' \<Longrightarrow> k \<noteq> ''dpop_cnf_jkt_matches_holder'' \<Longrightarrow>
       obj_get safe' k = obj_get safe k"
  using assms
  by (cases jkt; cases "mc_cnf_jkt c"; auto simp: check_holder_def is_ok_iff minted_value_members(10) split: if_splits)+

definition claims_shown :: "jose_ext \<Rightarrow> MintedClaims \<Rightarrow> (string \<times> json) list \<Rightarrow> bool" where
  "claims_shown E c m \<longleftrightarrow>
     obj_get m ''iss'' = Some (JString (sanitize (mc_iss c))) \<and> obj_get m ''aud'' = Some (JString (sanitize (mc_aud c))) \<and>
     obj_get m ''scope'' = Some (JString (sanitize (mc_scope c))) \<and>
     obj_get m ''client_id'' = Some (JString (sanitize (mc_client_id c))) \<and>
     obj_get m ''sub_sha256_prefix'' = Some (digest_of E (mc_sub c)) \<and> obj_get m ''jti_sha256_prefix'' = Some (digest_of E (mc_jti c)) \<and>
     obj_get m ''act_sub'' = map_option (\<lambda>a. JString (sanitize (act_sub a))) (mc_act c) \<and>
     obj_get m ''cnf_jkt_sha256_prefix'' = map_option (digest_of E) (mc_cnf_jkt c) \<and>
     obj_get m ''iat'' = Some (of_i64 (mc_iat c)) \<and> obj_get m ''exp'' = Some (of_i64 (mc_exp c))"

lemma summary_of_minted:
  assumes "minted_in_range c"
  shows "\<exists>m. safe_claims_summary E (to_value (minted_claims_to_json c)) = JObject m \<and> claims_shown E c m"
proof -
  have "in_i64 (mc_iat c)" "in_i64 (mc_exp c)" using assms by (simp_all add: minted_in_range_def)
  then show ?thesis
    by (cases "mc_act c"; cases "mc_cnf_jkt c")
       (simp_all add: safe_claims_summary_def insert_safe_string_claim_def insert_safe_audience_claim_def claims_shown_def
         minted_value_members [OF refl] Let_def obj_get_def [of "[]"])
qed

lemma summary_members:
  assumes "v = to_value (token_response_json resp)" "in_i64 (tr_expires_in resp)" "fk_source facts \<noteq> ''none''"
    and "safe = response_summary E 200 v tok facts"
  shows "obj_get safe ''exchange_status'' = Some (JString ''ok'')" "obj_get safe ''jwt_signature_verified'' = Some (JBool True)"
    "obj_get safe ''scope'' = Some (JString (sanitize (tr_scope resp)))"
    "obj_get safe ''expires_in'' = Some (of_i64 (tr_expires_in resp))"
  using assms(2,3)
  by (simp_all add: assms(4) response_summary_def header_members_def Let_def token_response_members [OF assms(1)])

text \<open>A run whose request was answered with a token that the client could read.\<close>

lemma answered_run:
  assumes "cx_json (ex_cli X) = read_as J as_value" "build_exchange_http_request X sys fs args = Ok request"
    and "ex_post X (xr_token_endpoint request) (xr_body request) (xr_dpop_proof request) = Some (200, Some answer)"
    and "jt_write J (token_response_json resp) = Some answer" "json_text_law J (token_response_json resp)"
    and "examine_token X sys fs args (tr_access_token resp) = Ok facts" "token_claims facts = Some v"
    and "safe_claims_summary (cx_jose (ex_cli X)) v = JObject m"
  shows "run_exchange X sys fs args =
    and_then (check_holder (cx_jose (ex_cli X)) facts (xr_dpop_jkt request)
      (response_summary (cx_jose (ex_cli X)) 200 (to_value (token_response_json resp)) (tr_access_token resp) facts))
      (\<lambda>safe. Ok (render_safe (ex_writer X) args (tr_access_token resp) (insert_some ''claims'' (Some (JObject m)) safe)))"
  using assms(4,5)
  by (simp add: run_exchange_def assms(1-3,6-8) read_as_def as_value_def json_text_law_def is_success_status_def
      render_exchange_success_def token_response_members [OF refl] Let_def)

section \<open>Properties\<close>

text \<open>
  C13: the client understands the server. When a server that signs with ML-DSA answers the exchange command
  with a token, and the client is given its published keys, the command succeeds exactly when the client
  did not use a DPoP key or the token is bound to the key it used; what it prints is then
  rendered from a result that holds, marked as verified, the scope and the lifetime of the response and a summary of
  exactly the claims that were signed (the output format \<open>claims\<close> shows that summary only).
\<close>

theorem client_reads_minted_token:
  assumes "shared_token J (cx_jose (ex_cli X)) s payload (tr_access_token resp)" "publishes keys (MlDsaSigner s)"
    and "cx_json (ex_cli X) = read_as J as_value" "claims_from_slice (ex_codec X) = read_as J as_value"
    and "build_exchange_http_request X sys fs args = Ok request"
    and "ex_post X (xr_token_endpoint request) (xr_body request) (xr_dpop_proof request) = Some (200, Some answer)"
    and "jt_write J (token_response_json resp) = Some answer" "json_text_law J (token_response_json resp)"
    and "load_exchange_jwks X sys fs args = Ok (Some (keys, source))"
    and "minted_in_range payload" "in_i64 (tr_expires_in resp)"
  shows "(is_ok (run_exchange X sys fs args) \<longleftrightarrow> xr_dpop_jkt request = None \<or> xr_dpop_jkt request = mc_cnf_jkt payload) \<and>
    (\<forall>out. run_exchange X sys fs args = Ok out \<longrightarrow> (\<exists>safe claims.
       out = render_safe (ex_writer X) args (tr_access_token resp) safe \<and>
       obj_get safe ''exchange_status'' = Some (JString ''ok'') \<and> obj_get safe ''jwt_signature_verified'' = Some (JBool True) \<and>
       obj_get safe ''scope'' = Some (JString (sanitize (tr_scope resp))) \<and>
       obj_get safe ''expires_in'' = Some (of_i64 (tr_expires_in resp)) \<and>
       obj_get safe ''claims'' = Some (JObject claims) \<and> claims_shown (cx_jose (ex_cli X)) payload claims))"
proof -
  let ?E = "cx_jose (ex_cli X)" and ?tok = "tr_access_token resp" and ?body = "to_value (token_response_json resp)"
    and ?v = "to_value (minted_claims_to_json payload)"
  from token_as_value [OF assms(1,2,4)] obtain v where
    v: "verify_claims_against_jwks_with_header ?E (ex_codec X) ?tok keys = Ok v" "vj_claims v = ?v" by blast
  define facts where "facts = \<lparr>fk_decoded = Some (to_value (protected_header_to_json (signer_header (MlDsaSigner s))), ?v),
    fk_verified = Some v, fk_source = source\<rparr>"
  have examined: "examine_token X sys fs args ?tok = Ok facts"
    by (simp add: examine_token_def token_decodes [OF assms(1,3)] assms(9) v facts_def)
  have claims: "token_claims facts = Some ?v" by (simp add: token_claims_def facts_def v)
  have source: "fk_source facts \<noteq> ''none''" using load_source [OF assms(9)] by (simp add: facts_def)
  note shown = summary_members [OF refl assms(11) source refl, of ?E ?tok]
  obtain m where m: "safe_claims_summary ?E ?v = JObject m" "claims_shown ?E payload m"
    using summary_of_minted [OF assms(10)] by blast
  note run = answered_run [OF assms(3,5-8) examined claims m(1)]
  show ?thesis
  proof (intro conjI allI impI)
    show "is_ok (run_exchange X sys fs args) \<longleftrightarrow> xr_dpop_jkt request = None \<or> xr_dpop_jkt request = mc_cnf_jkt payload"
      using check_holder_minted(1) [OF claims, of ?E "xr_dpop_jkt request" "response_summary ?E 200 ?body ?tok facts"]
      unfolding run is_ok_iff and_then_ok by simp
  next
    fix out assume "run_exchange X sys fs args = Ok out"
    then obtain safe where safe: "check_holder ?E facts (xr_dpop_jkt request) (response_summary ?E 200 ?body ?tok facts) = Ok safe"
      "out = render_safe (ex_writer X) args ?tok (insert_some ''claims'' (Some (JObject m)) safe)"
      by (auto simp: run and_then_ok)
    show "\<exists>safe claims. out = render_safe (ex_writer X) args ?tok safe \<and> obj_get safe ''exchange_status'' = Some (JString ''ok'') \<and>
       obj_get safe ''jwt_signature_verified'' = Some (JBool True) \<and>
       obj_get safe ''scope'' = Some (JString (sanitize (tr_scope resp))) \<and>
       obj_get safe ''expires_in'' = Some (of_i64 (tr_expires_in resp)) \<and>
       obj_get safe ''claims'' = Some (JObject claims) \<and> claims_shown ?E payload claims"
      by (intro exI [of _ "insert_some ''claims'' (Some (JObject m)) safe"] exI [of _ m])
         (simp add: safe(2) m(2) check_holder_minted(2) [OF claims safe(1)] shown)
  qed
qed

end
