(* ===== verification/Published_Keys.thy ===== *)
theory Published_Keys
  imports Key_Lifecycle Cli_Rotate Cli_Exchange
begin

text \<open>
  The published key set as a text. The server and the operator's tools read keys in two ways: into a
  \<open>serde_json::Value\<close> whose objects are then inspected (\<open>normalize_public_jwks\<close>, \<open>parse_exchange_jwks_document\<close>), or straight into
  \<open>JwksDocument\<close> (the trust-anchor client). Both give the keys that were published.
\<close>

lemma key_names_ordered [simp]:
  "(''alg'' :: string) < ''e''" "(''alg'' :: string) < ''kid''" "(''alg'' :: string) < ''kty''" "(''alg'' :: string) < ''n''"
  "(''alg'' :: string) < ''pub''" "(''alg'' :: string) < ''use''" "(''e'' :: string) < ''kid''" "(''e'' :: string) < ''kty''"
  "(''e'' :: string) < ''n''" "(''e'' :: string) < ''pub''" "(''e'' :: string) < ''use''" "(''kid'' :: string) < ''kty''"
  "(''kid'' :: string) < ''n''" "(''kid'' :: string) < ''pub''" "(''kid'' :: string) < ''use''" "(''kty'' :: string) < ''n''"
  "(''kty'' :: string) < ''pub''" "(''kty'' :: string) < ''use''" "(''n'' :: string) < ''pub''" "(''n'' :: string) < ''use''"
  "(''pub'' :: string) < ''use''"
  by code_simp+

lemma to_value_public_jwk: "to_value (public_jwk_to_json k) = JObject (jwk_to_object k)"
  by (cases "jwk_n k"; cases "jwk_e k"; cases "jwk_pub k")
     (simp_all add: public_jwk_to_json_def jwk_to_object_def order.asym)

lemma to_value_jwks: "to_value (jwks_document_to_json d) = jwks_to_value d"
  by (simp add: jwks_document_to_json_def jwks_to_value_def to_value_public_jwk comp_def)

text \<open>Reading a key from an object without repetitions is the same either way.\<close>

lemma field_readers_agree:
  "field as_str (map_of m) k = required_member m k" "default_field as_str d (map_of m) k = defaulted_member m k d"
  "option_field as_str (map_of m) k = optional_member m k"
  by (auto simp: derived_field_defs required_member_def obj_get_str_def defaulted_member_def optional_member_def obj_get_def
      option_of_def split: option.splits json.splits)

lemma public_jwk_readers_agree:
  assumes "distinct (map fst m)"
  shows "public_jwk_from_json (JObject m) = public_jwk_from_value m"
proof (cases "required_member m ''kty'' = None \<or> required_member m ''kid'' = None")
  case False
  then have "struct_slots PublicJwk_fields (JObject m) = Some (map_of m)"
    by (intro struct_slots_distinct assms)
       (auto simp: PublicJwk_fields_def Option.is_none_def required_member_def obj_get_str_def obj_get_def bind_eq_Some_conv)
  then show ?thesis
    unfolding public_jwk_from_json_def public_jwk_from_value_def
    by (cases "required_member m ''kty''"; cases "required_member m ''kid''"; cases "defaulted_member m ''use'' default_jwk_use";
        cases "defaulted_member m ''alg'' default_jwk_alg"; cases "optional_member m ''n''"; cases "optional_member m ''e''";
        cases "optional_member m ''pub''"; simp add: field_readers_agree)
next
  case True
  then have "public_jwk_from_value m = None" by (auto simp: public_jwk_from_value_def split: option.splits)
  moreover have "public_jwk_from_json (JObject m) = None"
  proof (rule ccontr)
    assume "public_jwk_from_json (JObject m) \<noteq> None"
    with True show False
      by (auto simp: public_jwk_from_json_def struct_slots.simps field_readers_agree bind_eq_Some_conv split: if_splits)
  qed
  ultimately show ?thesis by simp
qed

text \<open>The server's key set text, fetched by the client, is the key set.\<close>

lemma published_akp_loads:
  assumes "b64_law (cx_jose X)" "length pk = public_key_len a" "kid \<noteq> []"
    and "jwk = akp_public_jwk kid a (b64_encode (cx_jose X) pk)" "cx_json X = read_as J as_value"
    and "json_text_law J (jwks_document_to_json \<lparr>jwks_keys = [jwk]\<rparr>)" "jt_write J (jwks_document_to_json \<lparr>jwks_keys = [jwk]\<rparr>) = Some text"
  shows "parse_exchange_jwks_document X text label = Ok \<lparr>jwks_keys = [jwk]\<rparr>"
proof -
  have v: "cx_json X text = Some (jwks_to_value \<lparr>jwks_keys = [jwk]\<rparr>)"
    using assms(5-7) by (simp add: read_as_def as_value_def json_text_law_def to_value_jwks)
  have "inspect_public_keys (cx_jose X) [jwk_to_object jwk] \<noteq> Inl e" for e
    using assms(1,2) by (simp add: inspect_public_keys_def inspect_public_key_def assms(4) akp_public_jwk_def jwk_to_object_def
        CLI_PRIVATE_JWK_MEMBERS_def required_string_def optional_string_def akp_public_from_key_def b64_law_def enumerate_eq_zip)
  then obtain i where i: "inspect_public_keys (cx_jose X) [jwk_to_object jwk] = Ok i"
    by (cases "inspect_public_keys (cx_jose X) [jwk_to_object jwk]") auto
  have "jwk_kid jwk \<noteq> []" using assms(3,4) by (simp add: akp_public_jwk_def)
  with i show ?thesis
    by (simp add: parse_exchange_jwks_document_def v normalize_jwks_value_def jwks_to_value_def
        parse_exchange_jwk_def public_jwk_roundtrip enumerate_eq_zip)
qed

lemma published_url_loads:
  assumes "ea_jwks_file args = None" "ea_jwks_url args = Some u" "is_http_url u" "ex_get X u = Some (200, Some text)"
    and "parse_exchange_jwks_document (ex_cli X) text ''JWKS URL'' = Ok keys"
  shows "load_exchange_jwks X sys fs args = Ok (Some (keys, ''url''))"
  using assms by (simp add: load_exchange_jwks_def load_jwks_def fetch_jwks_url_def is_success_status_def)

end
