(* ===== verification/Demo_Json.thy ===== *)
theory Demo_Json
  imports Client_Server Published_Keys Demo_Exchange
begin

text \<open>
  A JSON library that knows the texts of one deployment by heart, and on it an ML-DSA key, a token with a chain of
  one actor, and an exchange command whose request is answered: the hypotheses of the properties about texts
  hold together.
\<close>

section \<open>Texts by table\<close>

definition table_text :: "(json \<times> string) list \<Rightarrow> (json \<times> string) list \<Rightarrow> json_text" where
  "table_text docs printed =
     \<lparr>jt_read = map_of (map (\<lambda>(v, t). (t, v)) docs @ map (\<lambda>(v, t). (t @ [CHR 0x0A], to_value v)) printed),
      jt_write = map_of docs, jt_pretty = map_of printed\<rparr>"

lemma table_text_law:
  assumes "distinct (map snd docs)"
  shows "json_text_law (table_text docs printed) v"
  unfolding json_text_law_def
proof (intro allI impI)
  fix b assume "jt_write (table_text docs printed) v = Some b"
  then have "(b, v) \<in> set (map (\<lambda>(v, t). (t, v)) docs)" by (force simp: table_text_def dest: map_of_SomeD)
  moreover have "distinct (map fst (map (\<lambda>(v, t). (t, v)) docs))" using assms by (simp add: case_prod_beta comp_def)
  ultimately show "jt_read (table_text docs printed) b = Some v"
    by (simp add: table_text_def map_add_Some_iff map_of_is_SomeI del: map_map)
qed

lemma table_pretty_law:
  assumes "b @ [CHR 0x0A] \<notin> snd ` set docs"
  shows "json_pretty_law (table_text docs [(v, b)]) v"
proof -
  have "map_of (map (\<lambda>(v, t). (t, v)) docs) (b @ [CHR 0x0A]) = None"
    using assms by (force simp: map_of_eq_None_iff)
  then show ?thesis by (simp add: json_pretty_law_def table_text_def map_add_def)
qed

section \<open>A key, a token and a response\<close>

definition dj_seed :: string where "dj_seed = replicate 32 CHR ''s''"

definition dj_jwk :: PublicJwk where
  "dj_jwk = akp_public_jwk ''k1'' MlDsa65 (hex_lower (demo_pub MlDsa65))"

definition dj_signer :: MlDsaJoseSigner where
  "dj_signer = \<lparr>ml_kid = ''k1'', ml_algorithm = MlDsa65, ml_key_pair = dj_seed, ml_public_jwk = dj_jwk\<rparr>"

definition dj_claims :: MintedClaims where
  "dj_claims = (minted_claims_new ''https://sts'' ''alice'' ''api'' ''read'' 1000 1300 ''j1'' ''agent'')
     \<lparr>mc_act := Some (ActClaim ''agent'' None None)\<rparr>"

definition dj_token :: string where
  "dj_token = (hex_lower ''h'' @ ''.'' @ hex_lower ''c'') @ ''.'' @ hex_lower (demo_sig MlDsa65)"

definition dj_response :: TokenResponse where
  "dj_response = \<lparr>tr_access_token = dj_token, tr_issued_token_type = ACCESS_TOKEN_TYPE, tr_token_type = ''Bearer'',
     tr_expires_in = 300, tr_scope = ''read'', tr_signing_alg_selected = ''ML-DSA-65'', tr_pqc_fallback = False,
     tr_pqc_fallback_reason = None\<rparr>"

definition dj_docs :: "(json \<times> string) list" where
  "dj_docs =
     [(protected_header_to_json (signer_header (MlDsaSigner dj_signer)), ''h''), (minted_claims_to_json dj_claims, ''c''),
      (jwks_document_to_json \<lparr>jwks_keys = [dj_jwk]\<rparr>, ''k''), (token_response_json dj_response, ''r'')]"

definition dj_key_doc :: json where
  "dj_key_doc = generated_akp_doc demo_ext MlDsa65 ''k1'' (demo_pub MlDsa65) dj_seed"

definition dj_text :: json_text where
  "dj_text = table_text dj_docs [(dj_key_doc, ''p'')]"

definition dj_jose :: jose_ext where "dj_jose = derived_jose dj_text demo_ext"

definition dj_minted_codec :: "MintedClaims codec" where
  "dj_minted_codec = derived_codec dj_text minted_claims_from_json minted_claims_to_json
     \<lparr>rs256_decode = (\<lambda>t n e v. Err JwtOther), rs256_encode = (\<lambda>h c k. Err JwtOther), claims_from_slice = (\<lambda>b. None),
      claims_to_vec = (\<lambda>c. None)\<rparr>"

lemma dj_laws: "json_text_law dj_text v" "json_pretty_law dj_text dj_key_doc"
  by (auto simp: dj_text_def dj_docs_def intro!: table_text_law table_pretty_law)

lemma dj_texts:
  "jt_write dj_text (protected_header_to_json (signer_header (MlDsaSigner dj_signer))) = Some ''h''"
  "jt_write dj_text (minted_claims_to_json dj_claims) = Some ''c''"
  "jt_write dj_text (jwks_document_to_json \<lparr>jwks_keys = [dj_jwk]\<rparr>) = Some ''k''"
  "jt_write dj_text (token_response_json dj_response) = Some ''r''" "jt_pretty dj_text dj_key_doc = Some ''p''"
  by (simp_all add: dj_text_def table_text_def dj_docs_def protected_header_to_json_def signer_header_def minted_claims_to_json_def
      jwks_document_to_json_def token_response_json_def)

lemma dj_seed_law: "seed_law demo_ext MlDsa65 dj_seed (demo_pub MlDsa65)"
  using demo_mldsa_law [of MlDsa65] by (simp add: seed_law_def dj_seed_def demo_pub_def demo_ext_def)

lemma dj_in_range: "minted_in_range dj_claims" "in_i64 (tr_expires_in dj_response)"
  by (simp_all add: minted_in_range_def dj_claims_def minted_claims_new_def dj_response_def i64_bounds)

lemma dj_signs: "sign_claims dj_jose dj_minted_codec (MlDsaSigner dj_signer) dj_claims = Ok dj_token"
  using dj_texts(1,2)
  by (simp add: mldsa_sign_json_claims_with_typ_def sign_compact_def dj_jose_def dj_minted_codec_def derived_codec_def
      signer_header_def dj_signer_def openssl_sign_mldsa_def demo_ext_def demo_sig_def dj_token_def Let_def)

section \<open>Witnesses\<close>

lemma dj_kid: "''k1'' = generated_kid demo_ext MlDsa65 (Some ''k1'') (demo_pub MlDsa65)"
  by (simp add: generated_kid_def trim_no_ws ws1_def ws2_def ws3_def)

lemma dj_jwk_eq: "dj_jwk = akp_public_jwk ''k1'' MlDsa65 (b64_encode demo_ext (demo_pub MlDsa65))"
  by (simp add: dj_jwk_def demo_ext_def)

lemma dj_loads:
  "mldsa_from_private_jwk_for_backend dj_jose (backend_parse (jose_alg MlDsa65)) (''p'' @ [CHR 0x0A]) ''other'' = Ok dj_signer"
proof -
  have "akp_jwk_from_str dj_jose (''p'' @ [CHR 0x0A]) = Some \<lparr>pakp_kty = ''AKP'', pakp_kid = Some ''k1'', pakp_alg = jose_alg MlDsa65,
      pakp_pub = b64_encode dj_jose (demo_pub MlDsa65), pakp_priv = b64_encode dj_jose dj_seed\<rparr>"
    using generates_akp(1) [OF demo_b64_law dj_seed_law dj_kid dj_laws(2) [unfolded dj_key_doc_def] dj_texts(5) [unfolded dj_key_doc_def]]
    by (simp add: dj_jose_def)
  from loads_akp [OF _ _ this] show ?thesis
    using demo_b64_law dj_seed_law by (simp add: dj_jose_def dj_signer_def dj_jwk_eq)
qed

theorem mldsa_key_lifecycle_witness:
  "mldsa_generate_private_jwk dj_jose MlDsa65 (Some ''k1'') (Some dj_seed) = Ok (''p'' @ [CHR 0x0A], dj_jwk) \<and>
   (\<exists>keys. read_as dj_text jwks_document_from_json ''k'' = Some keys \<and>
      verify_claims_against_jwks dj_jose dj_minted_codec dj_token keys = Ok dj_claims)"
proof -
  note life = mldsa_key_lifecycle [OF demo_b64_law dj_seed_law dj_kid dj_jwk_eq dj_laws(2) [unfolded dj_key_doc_def]
    dj_texts(5) [unfolded dj_key_doc_def] dj_laws(1) dj_laws(1) dj_laws(1) dj_in_range(1) dj_jose_def dj_minted_codec_def,
    of "''other''"]
  have "public_jwks (MlDsaSigner dj_signer) = \<lparr>jwks_keys = [dj_jwk]\<rparr>" by (simp add: public_jwks_def dj_signer_def)
  with life dj_loads dj_signs dj_texts(3) show ?thesis by auto
qed

theorem minted_token_chains_witness:
  "\<exists>s. subject_claims_from_json (minted_claims_to_json dj_claims) = Some s \<and> st_sub s = Some ''alice'' \<and>
     map_transpose act_claim_from_value (st_act s) = Ok (Some (ActClaim ''agent'' None None))"
proof -
  from minted_token_chains [OF dj_in_range(1)] obtain s where
    s: "subject_claims_from_json (minted_claims_to_json dj_claims) = Some s" "st_sub s = Some (mc_sub dj_claims)"
      "is_ok (map_transpose act_claim_from_value (st_act s)) \<longleftrightarrow>
        pred_option (\<lambda>a. act_depth a \<le> 10 \<and> [] \<notin> set (act_subs a)) (mc_act dj_claims)"
      "\<forall>chain. map_transpose act_claim_from_value (st_act s) = Ok chain \<longrightarrow> chain = mc_act dj_claims" by blast
  have "mc_act dj_claims = Some (ActClaim ''agent'' None None)" "mc_sub dj_claims = ''alice''"
    by (simp_all add: dj_claims_def minted_claims_new_def)
  with s show ?thesis by (auto simp: is_ok_iff)
qed

section \<open>An exchange\<close>

definition dj_exchange :: exchange_ext where
  "dj_exchange = xc_ext
     \<lparr>ex_cli := \<lparr>cx_jose = dj_jose, cx_json = read_as dj_text as_value, cx_jwks_text = (\<lambda>d. None)\<rparr>,
      ex_codec := ex_codec xc_ext\<lparr>claims_from_slice := read_as dj_text as_value\<rparr>,
      ex_get := (\<lambda>u. Some (200, Some ''k'')), ex_post := (\<lambda>u b p. Some (200, Some ''r''))\<rparr>"

definition dj_args :: ExchangeArgs where
  "dj_args = xc_args\<lparr>ea_jwks_url := Some ''https://sts/jwks''\<rparr>"

definition dj_files :: file_system where
  "dj_files = [''subject'' \<mapsto> \<lparr>f_content = ''s.p.s'', f_mode = 384\<rparr>]"

definition dj_request :: ExchangeHttpRequest where
  "dj_request = \<lparr>xr_token_endpoint = ''https://sts/token'', xr_body = ''t'', xr_dpop_proof = None, xr_dpop_jkt = None\<rparr>"

lemma dj_request_built: "build_exchange_http_request dj_exchange rot_sys dj_files dj_args = Ok dj_request"
proof -
  have ep: "resolve_token_endpoint dj_args = Ok ''https://sts/token''"
    by (simp add: resolve_token_endpoint_def dj_args_def xc_args_def trim_no_ws ws1_def ws2_def ws3_def trim_end_matches_def
        is_http_url_def starts_with_def)
  have args: "ea_subject_token_file dj_args = ''subject''" "ea_actor_token_file dj_args = None" "ea_client_assertion_file dj_args = None"
    "ea_dpop_proof_file dj_args = None" "ea_dpop_key_file dj_args = None" "exchange_params dj_args = exchange_params xc_args"
    by (simp_all add: fun_eq_iff exchange_params_def dj_args_def xc_args_def)
  have "read_secret_file rot_sys dj_files label ''subject'' = Ok ''s.p.s''" for label
    by (simp add: read_secret_file_def read_file_def dj_files_def trim_no_ws ws1_def ws2_def ws3_def)
  then show ?thesis
    by (simp add: build_exchange_http_request_def ep args xc_pairs dj_request_def dj_exchange_def xc_ext_def)
qed

lemma dj_client: "cx_jose (ex_cli dj_exchange) = dj_jose" "cx_json (ex_cli dj_exchange) = read_as dj_text as_value"
  "claims_from_slice (ex_codec dj_exchange) = read_as dj_text as_value"
  "ex_post dj_exchange u b q = Some (200, Some ''r'')" "ex_get dj_exchange u = Some (200, Some ''k'')"
  by (simp_all add: dj_exchange_def xc_ext_def)

lemma dj_keys: "load_exchange_jwks dj_exchange rot_sys dj_files dj_args = Ok (Some (\<lparr>jwks_keys = [dj_jwk]\<rparr>, ''url''))"
proof (rule published_url_loads [where u = "''https://sts/jwks''"])
  show "is_http_url ''https://sts/jwks''" by code_simp
  show "parse_exchange_jwks_document (ex_cli dj_exchange) ''k'' ''JWKS URL'' = Ok \<lparr>jwks_keys = [dj_jwk]\<rparr>"
  proof (rule published_akp_loads [OF _ _ _ _ dj_client(2) dj_laws(1) dj_texts(3), where pk = "demo_pub MlDsa65" and kid = "''k1''"])
    show "b64_law (cx_jose (ex_cli dj_exchange))" using demo_b64_law by (simp add: dj_client dj_jose_def)
    show "dj_jwk = akp_public_jwk ''k1'' MlDsa65 (b64_encode (cx_jose (ex_cli dj_exchange)) (demo_pub MlDsa65))"
      by (simp add: dj_client dj_jose_def dj_jwk_eq)
  qed (simp_all add: demo_pub_def)
qed (simp_all add: dj_args_def xc_args_def dj_client)

lemma dj_shared: "shared_token dj_text dj_jose dj_signer dj_claims dj_token"
proof -
  have "b64_law dj_jose" using demo_b64_law by (simp add: dj_jose_def)
  moreover from this have "signer_consistent dj_jose (MlDsaSigner dj_signer)"
    using dj_loads by (rule mldsa_constructor_consistent)
  moreover have "seed_law dj_jose (ml_algorithm dj_signer) (ml_key_pair dj_signer) (demo_pub MlDsa65)"
    using dj_seed_law by (simp add: dj_jose_def dj_signer_def)
  ultimately show ?thesis
    unfolding shared_token_def using dj_laws(1) dj_signs [unfolded dj_minted_codec_def] dj_jose_def by blast
qed

theorem client_reads_minted_token_witness:
  "\<exists>safe claims. run_exchange dj_exchange rot_sys dj_files dj_args = Ok (render_safe (ex_writer dj_exchange) dj_args dj_token safe) \<and>
     obj_get safe ''claims'' = Some (JObject claims) \<and> claims_shown dj_jose dj_claims claims"
proof -
  have "publishes \<lparr>jwks_keys = [dj_jwk]\<rparr> (MlDsaSigner dj_signer)"
    by (simp add: publishes_def dj_signer_def dj_jwk_def akp_public_jwk_def)
  moreover have tok: "tr_access_token dj_response = dj_token" by (simp add: dj_response_def)
  ultimately have "(is_ok (run_exchange dj_exchange rot_sys dj_files dj_args) \<longleftrightarrow>
      xr_dpop_jkt dj_request = None \<or> xr_dpop_jkt dj_request = mc_cnf_jkt dj_claims) \<and>
    (\<forall>out. run_exchange dj_exchange rot_sys dj_files dj_args = Ok out \<longrightarrow> (\<exists>safe claims.
       out = render_safe (ex_writer dj_exchange) dj_args dj_token safe \<and>
       obj_get safe ''claims'' = Some (JObject claims) \<and> claims_shown dj_jose dj_claims claims))"
    using client_reads_minted_token [of dj_text dj_exchange dj_signer dj_claims dj_response, OF _ _ dj_client(2,3) dj_request_built
      dj_client(4) dj_texts(4) dj_laws(1) dj_keys dj_in_range] dj_shared unfolding tok dj_client(1) by blast
  moreover have "xr_dpop_jkt dj_request = None" by (simp add: dj_request_def)
  ultimately show ?thesis by (auto simp: is_ok_iff)
qed

end
