(* ===== verification/Service_Ledger.thy ===== *)
theory Service_Ledger
  imports Service_Tokens
begin

text \<open>
  The service as a specification, and the refinement. The specification is a ledger that never forgets: which
  credentials were spent until when, and which tokens were withdrawn until when. A request that is answered with
  success spends its credentials, none of which may have an unlapsed entry; a token is confirmed only without an
  unlapsed withdrawal. A record lapses when some clock reading has passed its expiry. The replay stores with their
  sweeps, bounds and failures and the bounded revocation table of \<open>sts-http\<close> implement the ledger: every sequence
  of requests is a run of it.
\<close>

section \<open>The ledger\<close>

record ledger =
  lg_clock :: int
  lg_spent :: "string \<rightharpoonup> int"
  lg_withdrawn :: "string \<rightharpoonup> int"

datatype effect = NoEffect | Confirms string | Withdraws string int

datatype deed = Deed (deed_record: int) (deed_credentials: "(string \<times> int) list") (deed_sweep: "int option") (deed_effect: effect)

definition lapsed :: "int \<Rightarrow> int option \<Rightarrow> bool" where
  "lapsed w v \<longleftrightarrow> (case v of None \<Rightarrow> True | Some x \<Rightarrow> x < w)"

definition later :: "int \<Rightarrow> int option \<Rightarrow> int" where
  "later w t = (case t of None \<Rightarrow> w | Some t \<Rightarrow> max w t)"

fun effect_allowed :: "effect \<Rightarrow> int \<Rightarrow> (string \<rightharpoonup> int) \<Rightarrow> bool" where
  "effect_allowed (Confirms k) w W \<longleftrightarrow> lapsed w (W k)"
| "effect_allowed _ w W \<longleftrightarrow> True"

fun withdrawn_after :: "effect \<Rightarrow> (string \<rightharpoonup> int) \<Rightarrow> (string \<rightharpoonup> int)" where
  "withdrawn_after (Withdraws k x) W = W(k \<mapsto> x)"
| "withdrawn_after _ W = W"

inductive ledger_step :: "ledger \<Rightarrow> deed \<Rightarrow> ledger \<Rightarrow> bool" where
  act: "t1 = max w t \<Longrightarrow> t2 = later t1 sw \<Longrightarrow> \<forall>(k, x) \<in> set cs. lapsed t1 (S k) \<Longrightarrow> effect_allowed e t2 W \<Longrightarrow>
    ledger_step \<lparr>lg_clock = w, lg_spent = S, lg_withdrawn = W\<rparr> (Deed t cs sw e)
      \<lparr>lg_clock = t2, lg_spent = S ++ map_of cs, lg_withdrawn = withdrawn_after e W\<rparr>"

inductive_cases ledger_stepE: "ledger_step L (Deed t cs sw e) L'"

inductive ledger_run :: "ledger \<Rightarrow> deed list \<Rightarrow> ledger \<Rightarrow> bool" where
  no_deeds: "ledger_run L [] L"
| deeds: "ledger_step L d L' \<Longrightarrow> ledger_run L' ds L'' \<Longrightarrow> ledger_run L (d # ds) L''"

inductive_cases ledger_run_ConsE: "ledger_run L (d # ds) L''"

section \<open>What the ledger guarantees\<close>

definition deed_until :: "int \<Rightarrow> deed \<Rightarrow> bool" where
  "deed_until x d \<longleftrightarrow> deed_record d \<le> x \<and> later (deed_record d) (deed_sweep d) \<le> x"

lemma ledger_step_clock: "ledger_step L d L' \<Longrightarrow> lg_clock L \<le> x \<Longrightarrow> deed_until x d \<Longrightarrow> lg_clock L' \<le> x"
  by (erule ledger_step.cases) (auto simp: deed_until_def later_def split: option.splits)

lemma ledger_step_keeps_spent:
  "ledger_step L d L' \<Longrightarrow> lg_spent L k = Some x \<Longrightarrow> lg_clock L \<le> x \<Longrightarrow> deed_until x d \<Longrightarrow>
     lg_spent L' k = Some x \<and> k \<notin> fst ` set (deed_credentials d)"
proof (erule ledger_step.cases, goal_cases)
  case (1 t1 w t t2 sw cs S e W)
  then have "t1 \<le> x" "S k = Some x" by (auto simp: deed_until_def)
  with 1(9) have "k \<notin> fst ` set cs" by (fastforce simp: lapsed_def)
  with 1 show ?case by (auto simp: map_add_dom_app_simps dom_map_of_conv_image_fst)
qed

text \<open>A credential that was spent is not spent again before its record lapses.\<close>

lemma ledger_single_use:
  assumes "ledger_run L ds L'" "lg_spent L k = Some x" "lg_clock L \<le> x" "list_all (deed_until x) ds"
  shows "\<forall>d \<in> set ds. k \<notin> fst ` set (deed_credentials d)"
  using assms
proof (induction rule: ledger_run.induct)
  case (deeds L d L' ds L'')
  from deeds.prems have "deed_until x d" "list_all (deed_until x) ds" by simp_all
  with deeds ledger_step_keeps_spent [OF deeds.hyps(1) deeds.prems(1,2)] ledger_step_clock [OF deeds.hyps(1) deeds.prems(2)]
  show ?case by simp
qed simp

text \<open>A token that was withdrawn is not confirmed before its withdrawal lapses.\<close>

lemma ledger_step_withdrawn:
  assumes "ledger_step L d L'" "lg_withdrawn L k = Some x" "lg_clock L \<le> x" "deed_until x d"
  shows "deed_effect d \<noteq> Confirms k" "\<forall>y. deed_effect d = Withdraws k y \<longrightarrow> y = x \<Longrightarrow> lg_withdrawn L' k = Some x"
proof -
  show "deed_effect d \<noteq> Confirms k"
    using assms by (cases rule: ledger_step.cases) (auto simp: deed_until_def later_def lapsed_def split: option.splits)
  show "lg_withdrawn L' k = Some x" if "\<forall>y. deed_effect d = Withdraws k y \<longrightarrow> y = x"
    using assms(1,2) that by (cases rule: ledger_step.cases) (cases "deed_effect d"; auto)
qed

lemma ledger_withdrawn:
  assumes "ledger_run L ds L'" "lg_withdrawn L k = Some x" "lg_clock L \<le> x" "list_all (deed_until x) ds"
    and "\<forall>d \<in> set ds. \<forall>y. deed_effect d = Withdraws k y \<longrightarrow> y = x"
  shows "\<forall>d \<in> set ds. deed_effect d \<noteq> Confirms k"
  using assms
proof (induction rule: ledger_run.induct)
  case (deeds L d L' ds L'')
  from deeds.prems have until: "deed_until x d" "list_all (deed_until x) ds" by simp_all
  have "lg_withdrawn L' k = Some x"
    using ledger_step_withdrawn(2) [OF deeds.hyps(1) deeds.prems(1,2) until(1)] deeds.prems(4) by simp
  with deeds ledger_step_withdrawn(1) [OF deeds.hyps(1) deeds.prems(1,2) until(1)] ledger_step_clock [OF deeds.hyps(1) deeds.prems(2) until(1)]
  show ?case using until by simp
qed simp

section \<open>What a request does in terms of the ledger\<close>

definition assertion_credential :: "http_env \<Rightarrow> HttpState \<Rightarrow> JwksDocument \<Rightarrow> (AssertionClaims \<Rightarrow> string option) \<Rightarrow> string option \<Rightarrow> (string \<times> int) list" where
  "assertion_credential env st jwks key tok =
     (case Option.bind tok (inbound_claims env st jwks) of
        None \<Rightarrow> []
      | Some c \<Rightarrow> (case key c of None \<Rightarrow> [] | Some k \<Rightarrow> [(k, as_exp c)]))"

definition actor_key :: "AssertionClaims \<Rightarrow> string option" where
  "actor_key c = map_option (actor_replay_key c) (as_jti c)"

definition client_key :: "AssertionClaims \<Rightarrow> string option" where
  "client_key c = (case client_assertion_jti c of Inl _ \<Rightarrow> None | Inr j \<Rightarrow> Some (client_replay_key c j))"

definition dpop_credential :: "http_env \<Rightarrow> HttpState \<Rightarrow> token_clock \<Rightarrow> HeaderMap \<Rightarrow> (string \<times> int) list" where
  "dpop_credential env st clk headers =
     (case hm_dpop headers of
        [Some prf] \<Rightarrow>
          (case validate_dpop_proof (he_dpop env) (he_url env)
              \<lparr>req_proof = prf, req_htm = ''POST'', req_htu = token_endpoint (hs_config st), req_now = tc_dpop clk,
               req_leeway = clock_skew_leeway (hs_config st)\<rparr> of
             Inl _ \<Rightarrow> []
           | Inr d \<Rightarrow> [(dpop_replay_key (sha256 (he_jose env)) (db_jkt d) (db_jti d), db_replay_expires_at d)])
      | _ \<Rightarrow> [])"

text \<open>The credentials that a request presents, each under its replay key with its expiry.\<close>

fun credentials :: "http_env \<Rightarrow> HttpState \<Rightarrow> http_request \<Rightarrow> (string \<times> int) list" where
  "credentials env st (TokenRequest clk jti headers body) =
     assertion_credential env st (hs_actor_jwks st) actor_key (form_actor_token env headers body) @
     assertion_credential env st (hs_client_jwks st) client_key (presented_client_assertion env (TokenRequest clk jti headers body)) @
     dpop_credential env st clk headers"
| "credentials env st q = assertion_credential env st (hs_client_jwks st) client_key (presented_client_assertion env q)"

fun reply_effect :: "http_env \<Rightarrow> HttpState \<Rightarrow> http_request \<Rightarrow> http_response \<Rightarrow> effect" where
  "reply_effect env st (IntrospectRequest clk h b) (IntrospectReply (Inr v)) =
     (case form_online_token env h b of
        None \<Rightarrow> NoEffect
      | Some tok \<Rightarrow> if v = JObject [(''active'', JBool False)] then NoEffect else Confirms (revocation_key (he_jose env) tok))"
| "reply_effect env st (RevokeRequest clk h b) (RevokeReply (Inr _)) =
     (case form_online_token env h b of
        None \<Rightarrow> NoEffect
      | Some tok \<Rightarrow>
          (case sts_token_claims env st tok (oc_verify clk) of
             None \<Rightarrow> NoEffect | Some c \<Rightarrow> Withdraws (revocation_key (he_jose env) tok) (mc_exp c)))"
| "reply_effect env st q a = NoEffect"

definition deed_of :: "http_env \<Rightarrow> HttpState \<Rightarrow> http_request \<Rightarrow> http_response \<Rightarrow> deed" where
  "deed_of env st q a =
     Deed (record_clock q) (if reply_ok a then credentials env st q else []) (sweep_clock q) (reply_effect env st q a)"

text \<open>
  The state holds every unlapsed entry of the ledger. The claims of presented assertions have their
  expiry in an \<open>i64\<close>, as the type of the field says.
\<close>

definition ledger_sim :: "http_env \<Rightarrow> ledger \<Rightarrow> HttpState \<Rightarrow> bool" where
  "ledger_sim env L st \<longleftrightarrow>
     (\<forall>k x. lg_spent L k = Some x \<longrightarrow> lg_clock L \<le> x \<longrightarrow> live env st k x) \<and>
     (\<forall>k x. lg_withdrawn L k = Some x \<longrightarrow> lg_clock L \<le> x \<longrightarrow> map_of (rev_revoked (hs_revocations st)) k = Some x)"

definition codec_reads :: "('a \<Rightarrow> bool) \<Rightarrow> 'a codec \<Rightarrow> bool" where
  "codec_reads P C \<longleftrightarrow> (\<forall>tok n e v c. rs256_decode C tok n e v = Ok c \<longrightarrow> P c) \<and> (\<forall>b c. claims_from_slice C b = Some c \<longrightarrow> P c)"

definition typed_claims :: "http_env \<Rightarrow> bool" where
  "typed_claims env \<longleftrightarrow> codec_reads (\<lambda>c. in_i64 (as_exp c)) (he_assertion_codec env)"

lemma verified_claims_read:
  assumes "codec_reads P C" "verify_claims_against_jwks_inner E C tok jwks algs = Ok v"
  shows "P (vj_claims v)"
proof (rule verify_inner_ok [OF assms(2)], goal_cases)
  case (1 header jwk)
  then show ?case using assms(1) unfolding codec_reads_def
    by (auto dest!: verify_rs256_ok elim!: verify_mldsa_ok simp: decode_payload_claims_def result_iff split: option.splits)
qed

lemma typed_inbound: "typed_claims env \<Longrightarrow> inbound_claims env st jwks tok = Some c \<Longrightarrow> in_i64 (as_exp c)"
  by (auto simp: typed_claims_def inbound_claims_def verify_claims_against_jwks_with_allowed_algs_def
      dest: verified_claims_read split: sum.splits)

section \<open>Credentials\<close>

lemma assertion_credential_in:
  "(k, x) \<in> set (assertion_credential env st jwks key tok) \<Longrightarrow>
     \<exists>t c. tok = Some t \<and> inbound_claims env st jwks t = Some c \<and> key c = Some k \<and> x = as_exp c"
  by (cases tok; cases "inbound_claims env st jwks (the tok)") (auto simp: assertion_credential_def split: option.splits)

lemma client_credential_accepted:
  assumes "serve env st q = (a, st')" "reply_ok a"
    and "(k, x) \<in> set (assertion_credential env st (hs_client_jwks st) client_key (presented_client_assertion env q))"
  shows "\<exists>mid. hs_replay st' = hs_replay mid \<and> accepted env (record_clock q) st mid k x"
proof -
  from assertion_credential_in [OF assms(3)] obtain tok c where c: "presented_client_assertion env q = Some tok"
    "inbound_claims env st (hs_client_jwks st) tok = Some c" "client_key c = Some k" "x = as_exp c" by blast
  from client_accepted [OF assms(1,2) c(1,2)] c(3,4) show ?thesis
    by (auto simp: client_key_def client_recorded_def split: sum.splits)
qed

lemma credentials_accepted:
  assumes "serve env st q = (a, st')" "reply_ok a" "(k, x) \<in> set (credentials env st q)"
  shows "\<exists>mid. hs_replay st' = hs_replay mid \<and> accepted env (record_clock q) st mid k x"
proof (cases q)
  case (TokenRequest clk jti headers body)
  with assms(1,2) obtain resp where ok: "token env clk jti headers body st = (Inr resp, st')"
    by (auto simp: is_ok_def split: prod.splits sum.splits)
  consider "(k, x) \<in> set (assertion_credential env st (hs_actor_jwks st) actor_key (form_actor_token env headers body))"
    | "(k, x) \<in> set (assertion_credential env st (hs_client_jwks st) client_key (presented_client_assertion env q))"
    | "(k, x) \<in> set (dpop_credential env st clk headers)"
    using assms(3) TokenRequest by auto
  then show ?thesis
  proof cases
    case 1
    from assertion_credential_in [OF 1] obtain tok c where c: "form_actor_token env headers body = Some tok"
      "inbound_claims env st (hs_actor_jwks st) tok = Some c" "actor_key c = Some k" "x = as_exp c" by blast
    from actor_accepted [OF ok c(1,2)] c(3,4) TokenRequest show ?thesis by (auto simp: actor_key_def)
  next
    case 2
    show ?thesis by (rule client_credential_accepted [OF assms(1,2) 2])
  next
    case 3
    then obtain pr where pr: "hm_dpop headers = [Some pr]" by (auto simp: dpop_credential_def split: list.splits option.splits dest: sym)
    from ok pr show ?thesis
      by (rule dpop_accepted) (use 3 TokenRequest pr in \<open>auto simp: dpop_credential_def dpop_recorded_def\<close>)
  qed
qed (use client_credential_accepted [OF assms(1,2)] assms(3) in auto)

lemma credentials_typed: "typed_claims env \<Longrightarrow> (k, x) \<in> set (credentials env st q) \<Longrightarrow> in_i64 x"
  by (cases q) (auto simp: dpop_credential_def record_expiry_in_i64 dest!: assertion_credential_in dest: typed_inbound
      split: list.splits option.splits sum.splits)

section \<open>Revocations\<close>

lemma checked_revocations:
  "rev_revoked (snd (is_revoked_or_unavailable E rs tok t)) \<in> {rev_revoked rs, sweep_revoked (rev_revoked rs) t}"
  by (simp add: is_revoked_or_unavailable_def Let_def)

lemma refused_revocations:
  "revoke_token E rs tok x t n = (Inl e, rs') \<Longrightarrow> rev_revoked rs' \<in> {rev_revoked rs, sweep_revoked (rev_revoked rs) t}"
  by (auto simp: revoke_token_def Let_def split: if_splits)

lemma revoke_refused:
  assumes "revoke env clk h b st = (Inl e, st')"
  shows "rev_revoked (hs_revocations st') \<in> {rev_revoked (hs_revocations st), sweep_revoked (rev_revoked (hs_revocations st)) (oc_revoke clk)}"
proof (cases "online_prologue env clk h b st (revocation_endpoint (hs_config st))")
  case (Inl e)
  with assms show ?thesis by (auto simp: revoke_alt)
next
  case (Inr p)
  obtain tok cc where p: "p = (tok, cc)" by (cases p)
  obtain r mid where mid: "record_client_assertion_replay env st cc (oc_record clk) = (r, mid)" by fastforce
  have same: "hs_revocations mid = hs_revocations st"
    using evolves_results(2) [OF mid] by (simp add: replay_evolves_def)
  show ?thesis
  proof (cases r)
    case (Inl e)
    with assms Inr p mid same show ?thesis by (auto simp: revoke_alt)
  next
    case (Inr u)
    with assms \<open>online_prologue env clk h b st (revocation_endpoint (hs_config st)) = Inr p\<close> p mid same show ?thesis
      by (auto simp: revoke_alt split: option.splits prod.splits dest!: refused_revocations)
  qed
qed

lemma revoke_answered:
  assumes "revoke env clk h b st = (Inr u, st')" "m = rev_revoked (hs_revocations st)"
  shows "rev_revoked (hs_revocations st') = (case reply_effect env st (RevokeRequest clk h b) (RevokeReply (Inr u)) of
     Withdraws k x \<Rightarrow> AList.update k x (sweep_revoked m (oc_revoke clk)) | _ \<Rightarrow> m)"
  using assms(1)
proof (rule revoke_ok, goal_cases)
  case (1 tok cc mid)
  have ev: "static mid = static st" "hs_revocations mid = hs_revocations st"
    using evolves_results(2) [OF 1(2)] by (simp_all add: replay_evolves_def)
  have tok: "form_online_token env h b = Some tok" by (rule prologue_token [OF 1(1)])
  show ?case
    using 1(4) ev tok assms(2) sts_token_claims_static [OF ev(1), of env tok "oc_verify clk"]
    by (auto simp: revoke_token_def Let_def split: option.splits if_splits)
qed

lemma revocations_after:
  assumes "serve env st q = (a, st')"
  obtains m where "m = rev_revoked (hs_revocations st) \<or> (\<exists>t. sweep_clock q = Some t \<and> m = sweep_revoked (rev_revoked (hs_revocations st)) t)"
    "rev_revoked (hs_revocations st') = (case reply_effect env st q a of Withdraws k x \<Rightarrow> AList.update k x m | _ \<Rightarrow> m)"
proof (cases q)
  case (TokenRequest clk jti h b)
  with assms evolves_token [of env clk st jti h b] have "hs_revocations st' = hs_revocations st"
    by (auto simp: replay_evolves_def split: prod.splits)
  with TokenRequest that [of "rev_revoked (hs_revocations st)"] show ?thesis by simp
next
  case (IntrospectRequest clk h b)
  with assms obtain r where a: "a = IntrospectReply r" "st' = snd (introspect env clk h b st)" by (auto split: prod.splits)
  obtain mid rs tok where ev: "replay_evolves env (oc_record clk) st mid" and rs: "st' = mid\<lparr>hs_revocations := rs\<rparr>"
    "rs = hs_revocations mid \<or> rs = snd (is_revoked_or_unavailable (he_jose env) (hs_revocations mid) tok (oc_verify clk))"
    using introspect_state [of env clk st h b] a(2) by metis
  from ev have "hs_revocations mid = hs_revocations st" by (simp add: replay_evolves_def)
  with rs checked_revocations [of "he_jose env" "hs_revocations st" tok "oc_verify clk"]
  have "rev_revoked (hs_revocations st') \<in> {rev_revoked (hs_revocations st), sweep_revoked (rev_revoked (hs_revocations st)) (oc_verify clk)}"
    by auto
  moreover have "reply_effect env st q a \<noteq> Withdraws k x" for k x
    using a IntrospectRequest by (cases r) (auto split: option.splits)
  ultimately show ?thesis using that [of "rev_revoked (hs_revocations st')"] IntrospectRequest by (auto split: effect.splits)
next
  case (RevokeRequest clk h b)
  with assms obtain r where a: "a = RevokeReply r" "revoke env clk h b st = (r, st')" by (auto split: prod.splits)
  show ?thesis
  proof (cases r)
    case (Inl e)
    with revoke_refused [of env clk h b st e st'] a RevokeRequest that [of "rev_revoked (hs_revocations st')"] show ?thesis by auto
  next
    case (Inr u)
    from revoke_answered [OF a(2) [unfolded Inr] refl] RevokeRequest Inr a show ?thesis
      by (cases "reply_effect env st q a")
         (auto intro: that [of "rev_revoked (hs_revocations st)"] that [of "sweep_revoked (rev_revoked (hs_revocations st)) (oc_revoke clk)"])
  qed
qed

lemma confirmed_not_withdrawn:
  assumes "serve env st q = (a, st')" "reply_effect env st q a = Confirms k" "distinct (map fst (rev_revoked (hs_revocations st)))"
    and "map_of (rev_revoked (hs_revocations st)) k = Some x"
  shows "\<exists>t. sweep_clock q = Some t \<and> x < t"
proof (cases q)
  case (IntrospectRequest clk h b)
  with assms(1,2) obtain v tok where v: "introspect env clk h b st = (Inr v, st')" "v \<noteq> JObject [(''active'', JBool False)]"
    "form_online_token env h b = Some tok" "k = revocation_key (he_jose env) tok"
    by (auto split: prod.splits sum.splits option.splits if_splits elim!: reply_effect.elims)
  from v(1) show ?thesis
  proof (rule introspect_ok, goal_cases)
    case (1 tok' cc mid)
    have same: "hs_revocations mid = hs_revocations st" using evolves_results(2) [OF 1(2)] by (simp add: replay_evolves_def)
    have "tok' = tok" using prologue_token [OF 1(1)] v(3) by simp
    with 1(3) v(2) have "\<not> fst (is_revoked_or_unavailable (he_jose env) (hs_revocations mid) tok (oc_verify clk))"
      by (auto simp: introspection_response_for_token_def verified_alt split: prod.splits option.splits if_splits)
    then have "map_of (sweep_revoked (rev_revoked (hs_revocations st)) (oc_verify clk)) k = None"
      using v(4) same by (simp add: is_revoked_or_unavailable_def Let_def split: if_splits)
    with map_of_sweep_revoked [OF assms(3,4), of "oc_verify clk"] IntrospectRequest show ?case by fastforce
  qed
qed (use assms(2) in \<open>auto elim!: reply_effect.elims split: option.splits\<close>)

section \<open>Refinement\<close>

text \<open>Each clause of the step, and each half of the simulation after it.\<close>

lemma ledger_fresh:
  assumes "serve env st q = (a, st')" "reply_ok a" "(k, x) \<in> set (credentials env st q)" "ledger_sim env L st"
  shows "lapsed (max (lg_clock L) (record_clock q)) (lg_spent L k)"
proof (cases "lg_spent L k")
  case (Some y)
  from credentials_accepted [OF assms(1-3)] obtain mid where acc: "accepted env (record_clock q) st mid k x" by blast
  show ?thesis
  proof (cases "lg_clock L \<le> y \<and> record_clock q \<le> y")
    case True
    with assms(4) Some have "live env st k y" by (simp add: ledger_sim_def)
    with live_not_accepted [of env st k y "record_clock q" mid x] True acc show ?thesis by simp
  qed (use Some in \<open>auto simp: lapsed_def\<close>)
qed (simp add: lapsed_def)

lemma ledger_allowed:
  assumes "serve env st q = (a, st')" "service_wf st" "ledger_sim env L st" "lg_clock L \<le> t1"
  shows "effect_allowed (reply_effect env st q a) (later t1 (sweep_clock q)) (lg_withdrawn L)"
proof (cases "reply_effect env st q a")
  case (Confirms k)
  have dist: "distinct (map fst (rev_revoked (hs_revocations st)))" using assms(2) by (simp add: service_wf_def revocations_wf_def)
  have t: "t1 \<le> later t1 (sweep_clock q)" by (simp add: later_def split: option.splits)
  have "x < later t1 (sweep_clock q)" if x: "lg_withdrawn L k = Some x" for x
  proof (cases "lg_clock L \<le> x")
    case True
    with assms(3) x have "map_of (rev_revoked (hs_revocations st)) k = Some x" by (simp add: ledger_sim_def)
    with confirmed_not_withdrawn [OF assms(1) Confirms dist] show ?thesis by (auto simp: later_def)
  qed (use t assms(4) in simp)
  then show ?thesis by (simp add: Confirms lapsed_def split: option.splits)
qed simp_all

lemma ledger_spent_after:
  assumes "serve env st q = (a, st')" "service_wf st" "typed_claims env" "ledger_sim env L st"
    and "cs = (if reply_ok a then credentials env st q else [])"
    and "(lg_spent L ++ map_of cs) k = Some x" "lg_clock L \<le> x" "record_clock q \<le> x"
  shows "live env st' k x"
proof (cases "map_of cs k")
  case None
  with assms(6) have "lg_spent L k = Some x" by (simp add: map_add_def)
  with assms(4,7) have "live env st k x" by (simp add: ledger_sim_def)
  with live_serve [of env st k x q] assms(1,8) show ?thesis by simp
next
  case (Some y)
  with assms(6) have in_cs: "(k, x) \<in> set cs" by (simp add: map_add_def map_of_SomeD)
  with assms(5) have c: "reply_ok a" "(k, x) \<in> set (credentials env st q)" by (auto split: if_splits)
  from credentials_accepted [OF assms(1) c] obtain mid where m: "hs_replay st' = hs_replay mid"
    "accepted env (record_clock q) st mid k x" by blast
  have "live env mid k x"
    using accepted_live [OF _ credentials_typed [OF assms(3) c(2)] m(2)] assms(2,8) by (simp add: service_wf_def)
  with m(1) show ?thesis using live_replay_cong by metis
qed

lemma ledger_withdrawn_after:
  assumes "serve env st q = (a, st')" "service_wf st" "ledger_sim env L st" "lg_clock L \<le> x"
    and "case sweep_clock q of None \<Rightarrow> True | Some t \<Rightarrow> t \<le> x"
    and "withdrawn_after (reply_effect env st q a) (lg_withdrawn L) k = Some x"
  shows "map_of (rev_revoked (hs_revocations st')) k = Some x"
proof (rule revocations_after [OF assms(1)], goal_cases)
  case (1 m)
  have dist: "distinct (map fst (rev_revoked (hs_revocations st)))" using assms(2) by (simp add: service_wf_def revocations_wf_def)
  have kept: "map_of m k = Some x" if "lg_withdrawn L k = Some x"
  proof -
    from that assms(3,4) have old: "map_of (rev_revoked (hs_revocations st)) k = Some x" by (simp add: ledger_sim_def)
    show ?thesis using 1(1) old map_of_sweep_revoked [OF dist old] assms(5) by auto
  qed
  show ?case
    using kept assms(6) 1(2) by (cases "reply_effect env st q a") (simp_all add: update_conv' split: if_splits)
qed

text \<open>One request is one step of the ledger.\<close>

lemma serve_refines:
  assumes "serve env st q = (a, st')" "service_wf st" "typed_claims env" "ledger_sim env L st"
  shows "\<exists>L'. ledger_step L (deed_of env st q a) L' \<and> ledger_sim env L' st'"
proof -
  define cs where "cs = (if reply_ok a then credentials env st q else [])"
  define t1 where "t1 = max (lg_clock L) (record_clock q)"
  define L' where "L' = \<lparr>lg_clock = later t1 (sweep_clock q), lg_spent = lg_spent L ++ map_of cs,
    lg_withdrawn = withdrawn_after (reply_effect env st q a) (lg_withdrawn L)\<rparr>"
  have fresh: "\<forall>(k, x) \<in> set cs. lapsed t1 (lg_spent L k)"
    using ledger_fresh [OF assms(1) _ _ assms(4)] by (auto simp: cs_def t1_def)
  have allowed: "effect_allowed (reply_effect env st q a) (later t1 (sweep_clock q)) (lg_withdrawn L)"
    by (rule ledger_allowed [OF assms(1,2,4)]) (simp add: t1_def)
  have "ledger_step \<lparr>lg_clock = lg_clock L, lg_spent = lg_spent L, lg_withdrawn = lg_withdrawn L\<rparr> (deed_of env st q a) L'"
    unfolding L'_def deed_of_def cs_def [symmetric] by (rule act [OF t1_def refl fresh allowed])
  then have "ledger_step L (deed_of env st q a) L'" by (cases L) simp
  moreover have "ledger_sim env L' st'"
    using ledger_spent_after [OF assms cs_def] ledger_withdrawn_after [OF assms(1,2,4)]
    by (auto simp: ledger_sim_def L'_def t1_def later_def split: option.splits)
  ultimately show ?thesis by blast
qed

text \<open>The credentials and the effect depend only on the part of the state that no request changes.\<close>

lemma deed_of_static:
  assumes "static st = static st0"
  shows "deed_of env st q a = deed_of env st0 q a"
proof -
  note eq = static_eqD [OF assms]
  have ic: "inbound_claims env st = inbound_claims env st0" using inbound_claims_static [OF assms] by (intro ext)
  have dc: "dpop_credential env st clk h = dpop_credential env st0 clk h" for clk h unfolding dpop_credential_def eq ..
  have "credentials env st q = credentials env st0 q"
    by (cases q) (simp_all add: assertion_credential_def dc ic eq)
  moreover have "reply_effect env st q a = reply_effect env st0 q a"
    using sts_token_claims_static [OF assms]
    by (cases "(env, st, q, a)" rule: reply_effect.cases) (simp_all split: option.splits)
  ultimately show ?thesis by (simp add: deed_of_def)
qed

lemma serve_all_refines:
  assumes "service_wf st" "typed_claims env" "static st = static st0" "ledger_sim env L st"
  shows "\<exists>L'. ledger_run L (map2 (deed_of env st0) qs (fst (serve_all env st qs))) L' \<and> ledger_sim env L' (snd (serve_all env st qs))"
  using assms
proof (induction qs arbitrary: st L)
  case (Cons q qs)
  obtain a st1 where s: "serve env st q = (a, st1)" by fastforce
  have static: "static st1 = static st0" using serve_static [of env st q] s Cons.prems(3) by simp
  obtain L1 where L1: "ledger_step L (deed_of env st0 q a) L1" "ledger_sim env L1 st1"
    using serve_refines [OF s Cons.prems(1,2,4)] deed_of_static [OF Cons.prems(3)] by auto
  from Cons.IH [OF serve_wf [OF s Cons.prems(1)] Cons.prems(2) static L1(2)] L1(1) s show ?case
    by (auto simp: serve_all_Cons simp del: serve_all.simps(2) intro: deeds)
qed (auto intro: no_deeds)

text \<open>
  C2: the service refines the ledger. Started on any replay policy that is in order, whatever requests come
  in whatever order and with whatever clock readings, what the service answers is a run of a ledger that never
  forgets: every success spends the actor token, client assertion and DPoP proof that came with it, none of
  which has an unlapsed record; every revocation that is answered with success for a token of this server
  withdraws it; and no token is confirmed as active while a withdrawal of it is unlapsed. The stores,
  which sweep, are bounded, may fail and record before the later checks, keep every unlapsed entry of that ledger.
\<close>

theorem service_refines_ledger:
  assumes "policy_invar p" "st0 = new_with_signer_arc config signer published subject actor client p" "typed_claims env"
  shows "\<exists>L. ledger_run \<lparr>lg_clock = w, lg_spent = Map.empty, lg_withdrawn = Map.empty\<rparr>
      (map2 (deed_of env st0) qs (fst (serve_all env st0 qs))) L \<and> ledger_sim env L (snd (serve_all env st0 qs))"
  using assms service_wf_built [OF assms(1)] by (intro serve_all_refines) (simp_all add: ledger_sim_def)

end
