(* ===== verification/Demo_Ledger.thy ===== *)
theory Demo_Ledger
  imports Service_Ledger Demo_Service
begin

text \<open>The exchange of the concrete deployment in the ledger: it spends the actor token and the DPoP proof.\<close>

lemma svc_typed: "typed_claims svc_env"
proof -
  have "in_i64 (as_exp c)" if "svc_assertion_of tok = Some c" for tok c
    using that by (auto simp: svc_assertion_of_def svc_assertion_def i64_bounds split: if_splits)
  then show ?thesis by (auto simp: typed_claims_def codec_reads_def svc_env_def svc_codec_def split: option.splits)
qed

definition svc_request :: http_request where
  "svc_request = TokenRequest (svc_clock 1000) ''j'' svc_headers ''t''"

definition svc_deed :: deed where
  "svc_deed = Deed 1000 [(''act:agent:aj'', 1200), (dpop_replay_key (sha256 svc_jose) ''jkt'' ''j1'', 1060)] None NoEffect"

lemma svc_deed_of:
  assumes "reply_ok (TokenReply r)"
  shows "deed_of svc_env svc_state svc_request (TokenReply r) = svc_deed"
proof -
  have "validate_dpop_proof demo_dpop demo_url \<lparr>req_proof = ''h.p.s'', req_htm = ''POST'', req_htu = demo_htu, req_now = 1000,
      req_leeway = 60\<rparr> = Ok demo_binding" using demo_accepts [of 1000] by (simp add: demo_request_def)
  moreover have "hm_dpop svc_headers = [Some ''h.p.s'']" "clock_skew_leeway svc_config = 60" "tc_dpop (svc_clock 1000) = 1000"
    by (simp_all add: svc_headers_def svc_config_def svc_clock_def)
  ultimately have d: "dpop_credential svc_env svc_state (svc_clock 1000) svc_headers =
      [(dpop_replay_key (sha256 svc_jose) ''jkt'' ''j1'', 1060)]"
    by (simp add: dpop_credential_def svc_endpoints demo_binding_def)
  have a: "assertion_credential svc_env svc_state \<lparr>jwks_keys = [svc_jwk ''agent'']\<rparr> actor_key (Some ''a.p.s'') = [(''act:agent:aj'', 1200)]"
    by (simp add: assertion_credential_def svc_inbound_claims actor_key_def actor_replay_key_def svc_assertion_def)
  have c: "presented_client_assertion svc_env svc_request = None"
    by (simp add: svc_request_def svc_parse_form) (simp add: svc_form_def token_form_default_def)
  have "credentials svc_env svc_state svc_request = deed_credentials svc_deed"
    using a c d by (simp add: svc_request_def svc_actor_token assertion_credential_def svc_deed_def)
  with assms show ?thesis by (simp add: deed_of_def svc_deed_def svc_request_def svc_clock_def)
qed

text \<open>The witness of the refinement.\<close>

lemma service_refines_ledger_witness:
  "\<exists>L. ledger_run \<lparr>lg_clock = 0, lg_spent = Map.empty, lg_withdrawn = Map.empty\<rparr> [svc_deed] L \<and>
     ledger_sim svc_env L (snd (serve_all svc_env svc_state [svc_request]))"
proof -
  obtain resp st1 where ok: "token svc_env (svc_clock 1000) ''j'' svc_headers ''t'' svc_state = (Ok resp, st1)" by (rule svc_token_ok)
  then have r: "fst (serve_all svc_env svc_state [svc_request]) = [TokenReply (Ok resp)]" by (simp add: svc_request_def)
  have "reply_ok (TokenReply (Ok resp))" by (simp add: is_ok_def)
  note deed = svc_deed_of [OF this]
  have st: "svc_state = new_with_signer_arc svc_config svc_signer (hs_published_jwks svc_state) (hs_subject_jwks svc_state)
      (hs_actor_jwks svc_state) (hs_client_jwks svc_state) policy_in_memory"
    by (simp add: svc_state_def http_state_new_def new_with_published_jwks_def new_with_signer_arc_def)
  from service_refines_ledger [OF svc_invar st svc_typed, of 0 "[svc_request]"] show ?thesis
    unfolding r by (simp add: deed)
qed

end
