(* ===== verification/Cli_Run.thy ===== *)
theory Cli_Run
  imports Cli_Rotate Cli_Exchange Jose_Generate
begin

text \<open>
  The dispatch of \<open>sts-cli\<close> and its post-quantum preflight. \<open>run\<close> takes a parsed command to the text it
  prints or an error, and the file system it leaves. The lemmas show which commands only read, and that
  the preflight reports success exactly when each parameter set signs and verifies.
\<close>

section \<open>Preflight\<close>

definition mldsa_from_seed_for_tests ::
    "jose_ext \<Rightarrow> MlDsaAlgorithm \<Rightarrow> string \<Rightarrow> string \<Rightarrow> (JoseError, MlDsaJoseSigner) result" where
  "mldsa_from_seed_for_tests E algorithm seed kid =
     and_then (openssl_private_key_from_seed E algorithm seed) (\<lambda>key_pair.
     and_then (openssl_raw_public_key E algorithm key_pair) (\<lambda>raw.
     Ok \<lparr>ml_kid = kid, ml_algorithm = algorithm, ml_key_pair = key_pair,
         ml_public_jwk = akp_public_jwk kid algorithm (b64_encode E raw)\<rparr>))"

definition mldsa_sign_json_claims :: "jose_ext \<Rightarrow> 'a codec \<Rightarrow> MlDsaJoseSigner \<Rightarrow> 'a \<Rightarrow> (JoseError, string) result" where
  "mldsa_sign_json_claims E C s claims = mldsa_sign_json_claims_with_typ E C s claims ''JWT''"

definition preflight_claims :: json where
  "preflight_claims = JObject
     [(''aud'', JString ''urn:sts-delegate-rs:pqc-preflight''), (''exp'', JNumber (PosInt 2)), (''iat'', JNumber (PosInt 1)),
      (''iss'', JString ''urn:sts-delegate-rs:pqc-preflight''), (''sub'', JString ''preflight'')]"

definition preflight_check :: "jose_ext \<Rightarrow> json codec \<Rightarrow> MlDsaAlgorithm \<Rightarrow> string \<Rightarrow> (JoseError, unit) result" where
  "preflight_check E C algorithm seed =
     and_then (mldsa_from_seed_for_tests E algorithm seed ''pqc-preflight'') (\<lambda>signer.
     and_then (mldsa_sign_json_claims E C signer preflight_claims) (\<lambda>tok.
     and_then (verify_claims_against_jwks_with_header E C tok (public_jwks (MlDsaSigner signer))) (\<lambda>_.
     Ok ())))"

primrec preflight_loop ::
    "jose_ext \<Rightarrow> json codec \<Rightarrow> (MlDsaAlgorithm \<times> string) list \<Rightarrow> (CliError, string list) result" where
  "preflight_loop E C [] = Ok []"
| "preflight_loop E C (p # ps) =
     and_then (map_err (\<lambda>e. runtime (Lit (''PQC preflight failed for '' @ jose_alg (fst p) @ '': '') # sanitized_msg (jose_error_text e)))
         (preflight_check E C (fst p) (snd p))) (\<lambda>_.
     map_ok (\<lambda>rest. (jose_alg (fst p) @ ''_sign_verify=ok'') # rest) (preflight_loop E C ps))"

definition preflight_seeds :: "(MlDsaAlgorithm \<times> string) list" where
  "preflight_seeds = [(MlDsa44, replicate 32 CHR 0x2C), (MlDsa65, replicate 32 CHR 0x41), (MlDsa87, replicate 32 CHR 0x57)]"

text \<open>\<open>version\<close> is the result of \<open>openssl_version_text\<close>.\<close>

definition run_pqc_preflight ::
    "jose_ext \<Rightarrow> json codec \<Rightarrow> string option \<Rightarrow> (string \<Rightarrow> string option) \<Rightarrow> (CliError, string) result" where
  "run_pqc_preflight E C version var =
     (let selected_alg = (case map_option (\<lambda>v. sanitize (trim v)) (var ''STS_SIGNING_ALG'') of
              Some (c # v) \<Rightarrow> c # v
            | _ \<Rightarrow> DEFAULT_STS_SIGNING_ALG @ ''(default)'');
          lines = [''pqc_preflight_status=ok'', ''selected_sts_signing_alg='' @ selected_alg];
          text_of = join_with [CHR 0x0A]
      in case version of
           None \<Rightarrow> Ok (text_of (lines @
             [''pqc_openssl_feature_enabled=false'', ''openssl_version=not_compiled'', ''mldsa_sign_verify=not_compiled'', '''']))
         | Some v \<Rightarrow>
             map_ok (\<lambda>checked. text_of (lines @
                 [''pqc_openssl_feature_enabled=true'', ''openssl_version='' @ sanitize v] @ checked @ ['''']))
               (preflight_loop E C preflight_seeds))"

section \<open>Dispatch\<close>

text \<open>The subcommands, with the nesting of the command line flattened; \<open>Smoke\<close> carries \<open>allow_network\<close>.\<close>

datatype Command =
    Serve | BootstrapCheck | Smoke bool | CanaryCheckConfig
  | JwksInspect string | KeyInspect string | KeyRotate RotateArgs
  | DpopKeyGenerate string
  | PqcPreflight | PqcKeyGenerate PqcKeyGenerateArgs | PqcKeyInspect string | PqcKeyRotate PqcKeyRotateArgs
  | TokenVerify TokenVerifyArgs | Exchange ExchangeArgs

text \<open>
  What a run meets: the environment, the libraries, the file system calls, the temporary names, and
  what the random generators drew. \<open>ru_serve\<close> is how serving on an address ends.
\<close>

record run_env =
  ru_boot :: boot_env
  ru_var :: ConfigSource
  ru_serve :: "SocketAddr \<Rightarrow> HttpState \<Rightarrow> (BootstrapError, unit) result"
  ru_exchange :: exchange_ext
  ru_sys :: cli_sys
  ru_tmps :: "string \<times> string"
  ru_seed :: "string option"
  ru_rsa_drawn :: "drawn_rsa option"
  ru_dpop_drawn :: string
  ru_version :: "string option"

abbreviation boot_error :: "(BootstrapError, 'a) result \<Rightarrow> (CliError, 'a) result" where
  "boot_error \<equiv> map_err from_bootstrap_error"

fun run :: "run_env \<Rightarrow> Command \<Rightarrow> file_system \<Rightarrow> string fs_result" where
  "run R Serve fs =
     (and_then (boot_error (serve_prepare (ru_boot R) (ru_var R))) (\<lambda>(addr, state).
      map_ok (\<lambda>_. []) (boot_error (ru_serve R addr state))), fs)"
| "run R BootstrapCheck fs =
     (map_ok (\<lambda>_. ''bootstrap_status=ok'' @ [CHR 0x0A]) (boot_error (bootstrap_check_from_source (ru_boot R) (ru_var R))), fs)"
| "run R (Smoke allow_network) fs =
     (run_smoke (ru_var R) (bootstrap_check_from_source (ru_boot R) (ru_var R)) allow_network, fs)"
| "run R CanaryCheckConfig fs = (Ok (render_canary_config_status_from_env (ru_var R)), fs)"
| "run R (JwksInspect path) fs = (inspect_file (ex_cli (ru_exchange R)) (ru_sys R) fs path JwksMode, fs)"
| "run R (KeyInspect path) fs = (inspect_file (ex_cli (ru_exchange R)) (ru_sys R) fs path SingleKeyMode, fs)"
| "run R (KeyRotate args) fs =
     rotate_signing_key (ex_cli (ru_exchange R)) (ru_sys R) (ru_var R) (ru_tmps R)
       (rsa_generate_private_jwk (cx_jose (ex_cli (ru_exchange R))) (ru_rsa_drawn R)) args fs"
| "run R (DpopKeyGenerate out) fs =
     generate_dpop_key (cx_jose (ex_cli (ru_exchange R))) (ru_sys R)
       (dpop_generate_private_jwk (ex_dpop (ru_exchange R)) (ru_dpop_drawn R)) out fs"
| "run R PqcPreflight fs =
     (run_pqc_preflight (cx_jose (ex_cli (ru_exchange R))) (ex_codec (ru_exchange R)) (ru_version R) (ru_var R), fs)"
| "run R (PqcKeyGenerate args) fs =
     generate_pqc_key (ex_cli (ru_exchange R)) (ru_sys R) (ru_tmps R) (ru_seed R) args fs"
| "run R (PqcKeyInspect path) fs = (inspect_pqc_key (ex_cli (ru_exchange R)) (ru_sys R) fs path, fs)"
| "run R (PqcKeyRotate args) fs =
     rotate_pqc_key (ex_cli (ru_exchange R)) (ru_sys R) (ru_tmps R) (ru_seed R) args fs fs"
| "run R (TokenVerify args) fs = (verify_token (ru_exchange R) (ru_sys R) fs args, fs)"
| "run R (Exchange args) fs = (run_exchange (ru_exchange R) (ru_sys R) fs args, fs)"

text \<open>The end of the process: what it wrote to its two streams, and its exit code.\<close>

record process_end =
  pe_stdout :: string
  pe_stderr :: msg
  pe_code :: int

definition main_end :: "run_env \<Rightarrow> Command \<Rightarrow> file_system \<Rightarrow> process_end \<times> file_system" where
  "main_end R command fs =
     (case run R command fs of
        (Inr output, fs) \<Rightarrow> (\<lparr>pe_stdout = output, pe_stderr = [], pe_code = 0\<rparr>, fs)
      | (Inl e, fs) \<Rightarrow> (\<lparr>pe_stdout = [], pe_stderr = cli_message e @ [Lit [CHR 0x0A]], pe_code = cli_code e\<rparr>, fs))"

section \<open>Which commands write\<close>

fun writes_files :: "Command \<Rightarrow> bool" where
  "writes_files (KeyRotate args) \<longleftrightarrow> \<not> ra_dry_run args"
| "writes_files (DpopKeyGenerate _) \<longleftrightarrow> True"
| "writes_files (PqcKeyGenerate _) \<longleftrightarrow> True"
| "writes_files (PqcKeyRotate args) \<longleftrightarrow> \<not> pr_dry_run args"
| "writes_files _ \<longleftrightarrow> False"

lemma run_read_only: "\<not> writes_files c \<Longrightarrow> snd (run R c fs) = fs"
  by (cases c) (auto simp: rotate_signing_key_def rotate_pqc_key_def Let_def split: sum.splits)

text \<open>The process leaves the files alone, and a failure prints nothing on the standard output.\<close>

lemma main_read_only: "\<not> writes_files c \<Longrightarrow> snd (main_end R c fs) = fs"
  using run_read_only [of c R fs] by (auto simp: main_end_def split: prod.splits sum.splits)

lemma main_output: "pe_stdout (fst (main_end R c fs)) \<noteq> [] \<Longrightarrow> pe_code (fst (main_end R c fs)) = 0 \<and> is_ok (fst (run R c fs))"
  by (auto simp: main_end_def is_ok_def split: prod.splits sum.splits)

lemma preflight_loop_ok:
  "is_ok (preflight_loop E C ps) \<longleftrightarrow> list_all (\<lambda>p. is_ok (preflight_check E C (fst p) (snd p))) ps"
proof (induction ps)
  case (Cons p ps)
  then show ?case
    by (cases "preflight_check E C (fst p) (snd p)"; cases "preflight_loop E C ps") (auto simp: is_ok_def)
qed (simp add: is_ok_def)

lemma preflight_reports:
  "is_ok (run_pqc_preflight E C (Some v) var) \<longleftrightarrow> list_all (\<lambda>p. is_ok (preflight_check E C (fst p) (snd p))) preflight_seeds"
  unfolding preflight_loop_ok [symmetric]
  by (cases "preflight_loop E C preflight_seeds") (simp_all add: run_pqc_preflight_def Let_def is_ok_def)

end
