(* ===== verification/Spec2Isabelle.thy ===== *)
theory Spec2Isabelle
  imports Sts_Config Replay_Spec File_Race Demo_Libs Demo_Holder Demo_Service Demo_Concurrent Demo_Replicas Demo_Generate
    Demo_Cli Demo_Race Demo_Exchange Demo_Json Demo_Ledger Cli_Run
begin

text \<open>
  A verification development for \<open>sts-delegate-rs\<close>, an OAuth 2.0 security token service (RFC 8693
  token exchange) written in Rust, with its operator command.

  \<^bold>\<open>The program.\<close> A caller posts a form with the subject's token to the token endpoint. The server
  verifies the subject token against the keys of the identity provider, verifies the actor's token
  (delegation) or the client's assertion (impersonation) against its registered keys, checks the
  policy for target and scope, records the single-use identifiers in a replay store, and signs a
  token that is no wider and lives no longer than what was presented. Introspection and revocation
  are online endpoints for the tokens so minted. Eight crates under \<open>crates/\<close> share the work:
  \<open>sts-core\<close> (claims, targets, scopes), \<open>sts-replay\<close> (single-use stores), \<open>sts-jose\<close> (signatures and
  keys), \<open>sts-verify\<close> (tokens and assertions), \<open>sts-dpop\<close> (proofs of possession), \<open>sts-config\<close> (the
  configuration), \<open>sts-http\<close> (startup, endpoints, metadata) and \<open>sts-cli\<close> (key management and an
  exchange client). \<open>sts-http\<close> calls all the libraries; \<open>sts-cli\<close> calls \<open>sts-http\<close> to start a server and
  the libraries for keys and tokens.

  \<^bold>\<open>Which theory models what.\<close> Each is named after its crate, and definitions keep the names of the
  source; a constructor or record field carries a short prefix.

  \<^item> \<open>Prelude\<close>, \<open>Rust_Int\<close>, \<open>Json_Value\<close>, \<open>Url_Value\<close>, \<open>Socket_Addr\<close>: what the crates use of Rust and its
    standard library. \<open>Result\<close> is a sum with \<open>and_then\<close> for the question mark; an error message is a list of
    literal pieces and of texts that come from a library (\<open>Ext\<close>); strings are byte lists (UTF-8) with
    Unicode white space for \<open>trim\<close>; an \<open>i64\<close> is an integer in range whose sums wrap; counters are 64-bit
    words; \<open>SocketAddr\<close> is parsed as the standard library parses it.
  \<^item> \<open>Sts_Core\<close>: requests, claims, \<open>resolve_target\<close>, \<open>downscope\<close>, \<open>build_act\<close>, \<open>build_scoped_payload\<close>.
  \<^item> \<open>Sts_Replay\<close>: the in-memory store and the file store. The directory is an association list and
    \<open>io_env\<close> says which calls of the operating system fail. The locale \<open>replay_store\<close> is the contract of the
    trait \<open>ReplayStore\<close>, interpreted for both stores and for the policy object. \<open>Replay_Spec\<close> has the abstract
    store as a step relation, and the locale \<open>replay_refinement\<close> with its interpretation.
  \<^item> \<open>Sts_Jose\<close>, \<open>Sts_Signers\<close>, \<open>Jose_Mock\<close>: public keys, compact signatures, verification against a key
    set, backend selection, the four signers and the mock custody providers. The locale \<open>jose_signer\<close> is
    the trait \<open>JoseSigner\<close>. \<open>Jose_Generate\<close> is the generation of RSA keys from the pair the library draws.
  \<^item> \<open>Sts_Verify\<close>, \<open>Sts_Dpop\<close>, \<open>Sts_Config\<close>: all of these crates; \<open>Dpop_Holder\<close> joins the two sides of \<open>sts-dpop\<close>.
  \<^item> \<open>Serde_Derive\<close>, \<open>Jose_Json\<close>, \<open>Claims_Json\<close>: what the structs of the crates are in JSON. \<open>Serde_Derive\<close> has the documented rules
    of \<open>#[derive(Serialize, Deserialize)]\<close> (required, optional and default fields, renamed and skipped ones, repeated and unknown members,
    structs from arrays) on JSON documents, which keep the order of the members and repetitions; the other two apply them to
    headers, JWKs and key sets (\<open>sts-jose\<close>), to claims (\<open>sts-core\<close>, \<open>sts-verify\<close>, \<open>sts-dpop\<close>) and to the discovery document. The locales are
    \<open>struct_reader\<close> (a reader looks at its own members only) and \<open>json_codec\<close> (reading inverts writing), interpreted for
    the structs that are read and for those that are read back. \<open>derived_jose\<close> and \<open>derived_codec\<close> put these readers and writers in place of the JSON arguments of the
    other theories, so that only the step between bytes and documents is left to the library.
  \<^item> \<open>Sts_Http\<close>, \<open>Sts_Service\<close>: form parsing, request checks and the handlers \<open>token\<close>, \<open>introspect\<close>, \<open>revoke\<close>
    as functions from the state, the clock readings and the request to the reply and the next state;
    \<open>serve_all\<close> runs a sequence of requests and \<open>reachable\<close> is the inductive closure. \<open>Http_Bootstrap\<close> is the
    way from the environment to the first state, \<open>Http_Meta\<close> the metadata documents, the response
    headers, the metrics page and the route table.
  \<^item> \<open>Interleaving\<close>, \<open>File_Race\<close>, \<open>Service_Concurrent\<close>, \<open>Concurrent_Revocation\<close>, \<open>Replica_Race\<close>: what runs at the same
    time. A program is a sequence of atomic calls on a shared state, and \<open>pool_run\<close> lets the calls of a pool of programs
    interleave in any order. The locales \<open>flag_setter\<close> and \<open>flag_tester\<close> extend \<open>shared_flag\<close>, and \<open>guarded_resource\<close> joins
    them; their interpretations are \<open>replay_name\<close> (files of the replay directory), \<open>replay_key\<close> (credentials of the
    service), \<open>replica_name\<close> (the same files among replicas), \<open>revoked_mark\<close> and \<open>active_mark\<close> (revocations).
    \<open>check_program\<close> is the file store call by call for processes that share a directory, \<open>request_program\<close> a handler of \<open>sts-http\<close> over the calls it makes on the replay store,
    the revocations and the counters, each behind its lock. \<open>replica_program\<close> joins the two: requests on
    several servers with one replay directory.
  \<^item> \<open>Cli_Text\<close>, \<open>Cli_Keys\<close>, \<open>Cli_Rotate\<close>, \<open>Cli_Exchange\<close>, \<open>Cli_Run\<close>: the operator command, up to its output, its error
    text and its exit code. Files are a map from paths to contents and permissions, \<open>cli_sys\<close> says which system
    calls fail and how much of a write arrives. \<open>Rotation_Race\<close> has two rotations that overlap.
  \<^item> \<open>Demo_Libs\<close>, \<open>Demo_Dpop\<close>, \<open>Demo_Holder\<close>, \<open>Demo_Service\<close>, \<open>Demo_Concurrent\<close>, \<open>Demo_Replicas\<close>, \<open>Demo_Generate\<close>, \<open>Demo_Cli\<close>,
    \<open>Demo_Race\<close>, \<open>Demo_Exchange\<close>, \<open>Demo_Json\<close>, \<open>Demo_Ledger\<close>: concrete libraries, a deployment, interleaved requests, a generated key, rotations and a client call, on which
    the hypotheses of the properties are shown to hold together.

  \<^bold>\<open>What is proved.\<close>

  \<^item> Over all sequences of requests (\<open>Service_Frame\<close>, \<open>Service_Safety\<close>, \<open>Service_Replay\<close>, \<open>Service_Tokens\<close>,
    \<open>Service_Metrics\<close>): what a minted token grants and what was verified before it was signed; actor
    tokens, client assertions and DPoP proofs are used once (with the one exception for proofs that the theorem
    names); revocation is permanent; the server
    recognises its own tokens; the invariant of the state; what the counters count. A request whose
    checks pass is answered with a token when the replay store has room (\<open>Service_Liveness\<close>). \<open>Service_Ledger\<close> has the
    specification of the whole service, a ledger of spent credentials and withdrawn tokens that never forgets, as a step
    relation, and the simulation: what the server answers is a run of the ledger.
  \<^item> Over all interleavings of requests: the handlers as programs agree with the sequential ones, of two
    requests with one credential at most one succeeds, in one server with the in-memory store and among
    servers that share a directory, and an answered revocation is seen by every later introspection.
  \<^item> For the replay store: single use under any failure of the file system, refinement of the abstract
    store, bounds on its size, and recovery once its records have expired. Processes that share a
    directory have one winner per key, unless the key has an expired record.
  \<^item> For the libraries: exactly when signatures, subject tokens, assertions and DPoP proofs are accepted, in terms of
    the key that the header names, the claims and the clock; that signers and verifiers fit, for tokens and for
    DPoP proofs; that key identifiers name one identity; that DPoP targets are not confused; the time windows on machine integers, that a generated key loads
    again, the well-formedness and the defaults of every configuration that loads, downscoping
    against its set specification.
  \<^item> Across components, down to the texts they exchange: a generated ML-DSA key file loads and its tokens
    verify under the published key set (\<open>Key_Lifecycle\<close>); both ways of reading a published key set agree
    (\<open>Published_Keys\<close>); a minted token is a subject token for the next server, with the same chain of actors
    (\<open>Token_Chain\<close>); the exchange command verifies
    and shows exactly the claims that the server signed (\<open>Client_Server\<close>).
  \<^item> For startup and the operator: what a server that starts has checked; the advertised endpoints are
    the routed ones; a rotation is complete or leaves the key, and the old key still verifies after a
    restart; client and server agree on the form; the printed result hides the token.
  \<^item> Six properties show behaviour that the surrounding code does not intend: an assertion can be
    replayed between its expiry and the end of the leeway, a DPoP proof when its record expires between two clock readings, two processes can both win a key with an
    expired record, two overlapping ML-DSA rotations lose a key, the lifetime cap trusts \<open>iat\<close>, and a long
    token in an error text is printed in part.

  \<^bold>\<open>Parameters and hypotheses.\<close> Base64url, JSON text, SHA-256, \<open>jsonwebtoken\<close>, OpenSSL, aws-lc, \<open>p256\<close>, \<open>Url::parse\<close>,
  the form decoder, HTTP clients, clocks and random values are arguments (records \<open>jose_ext\<close>, \<open>codec\<close>,
  \<open>dpop_ext\<close>, \<open>config_env\<close>, \<open>boot_env\<close>, \<open>http_env\<close>, \<open>cli_ext\<close>, \<open>exchange_ext\<close>). What a property needs of them is a named
  predicate: \<open>libs_sound\<close> and \<open>b64_law\<close> (decoding inverts encoding, a signature verifies under its key),
  \<open>seed_law\<close> (OpenSSL derives a key pair from a seed),
  \<open>json_text_law\<close> and \<open>json_pretty_law\<close> (a written document is read back), \<open>typed_claims\<close> (an \<open>i64\<close> field is in range),
  \<open>rs256_law\<close> and \<open>rs256_custody_law\<close> (\<open>jsonwebtoken\<close> and a custody provider), \<open>asn1_law\<close> (\<open>simple_asn1\<close> reads the one block it wrote),
  \<open>dpop_b64_law\<close> and \<open>es256_law\<close> (base64url, \<open>jsonwebtoken\<close> and \<open>p256\<close> for a drawn holder key), \<open>url_shape\<close>, \<open>issuer_url_law\<close>, \<open>jwks_text_law\<close>, \<open>no_collision\<close> (distinct revocation keys for the tokens
  at hand). Verification against hostile input needs none of them.

  \<^bold>\<open>Termination and bounds.\<close> All functions are total. The only recursion that the source bounds by a
  counter is the reading of delegation chains, ten levels deep, and the model keeps that bound; the
  other loops run over finite lists. No fuel is used. Release builds wrap on overflow, and the model
  wraps where the code adds. The crate \<open>sts-jose\<close> is modelled with its default feature
  \<open>pqc-openssl-unstable\<close>.

  \<^bold>\<open>Granularity.\<close> A call of the in-memory replay store, of the revocations or of a counter is one step, as
  its lock or its atomic instruction makes it. The file store steps per system call: a directory
  listing is a snapshot and the line of a record is written at once; a sweep that is due does not
  keep other calls of its server waiting, which the lock of the code does. Which calls fail is fixed for a
  sequential run, so that a call that fails now and succeeds later is not represented there. A failed write
  leaves an empty record, where \<open>writeln!\<close> may leave a part of the line. A rotation may fail at every call, and a
  crash of the process between its two writes is not represented. A handler reads the
  configuration and the keys of the state it was started with, which no handler changes.

  \<^bold>\<open>Not modelled.\<close> The contents of random draws, the OpenSSL version text and the bundled OpenAPI
  document are arguments; path matching by axum and argument parsing by clap are library behaviour. Debug output and test modules are left out, and so are the branches
  that are compiled only without the default feature. A text whose ignored members hold a number
  out of range is no document here, while the library passes over such a member; the text is a
  parameter, so no property depends on it.
\<close>

end
